(* ===== verification/Prelude.thy ===== *)
theory Prelude
  imports Main "HOL-Library.Char_ord" "HOL-Library.List_Lexorder" "HOL-Library.Multiset"
begin

text \<open>
  The vocabulary every theory of the development shares.

  A Go function that returns \<open>(T, error)\<close> is a function into \<open>'e + 'a\<close>, with \<open>Inl\<close> for a
  non-nil error; a Go function that returns only \<open>error\<close> is a function into \<open>'e option\<close>, with
  \<open>None\<close> for nil.  \<open>first_err\<close> is the chain \<open>if err := ...; err != nil { return err }\<close>,
  \<open>fail_if\<close> one guard of it, and \<open>for_each\<close> the loop \<open>for _, x := range xs\<close> whose body may
  return early.  Go strings are byte sequences, so they are Isabelle's \<open>string\<close> (a list of
  \<open>char\<close>), ordered bytewise as Go's \<open><\<close> orders them.
\<close>

section \<open>Named collections\<close>

named_theorems valid_simps \<open>unfold validation guards\<close>
named_theorems loop_simps \<open>facts on loops with an early return\<close>
named_theorems sort_facts \<open>facts on sorting by a key\<close>

section \<open>Errors as values\<close>

definition fail_if :: "bool \<Rightarrow> 'e \<Rightarrow> 'e option" where
  "fail_if b e = (if b then Some e else None)"

fun first_err :: "'e option list \<Rightarrow> 'e option" where
  "first_err [] = None"
| "first_err (None # xs) = first_err xs"
| "first_err (Some e # xs) = Some e"

lemma fail_if_None [simp]: "fail_if b e = None \<longleftrightarrow> \<not> b"
  by (simp add: fail_if_def)

lemma fail_if_Some [simp]: "fail_if b e = Some e' \<longleftrightarrow> b \<and> e' = e"
  by (auto simp: fail_if_def)

lemma fail_if_simps [simp]: "fail_if True e = Some e" "fail_if False e = None"
  by (simp_all add: fail_if_def)

lemma first_err_None_iff [simp]: "first_err xs = None \<longleftrightarrow> (\<forall>x \<in> set xs. x = None)"
  by (induction xs rule: first_err.induct) auto

lemma first_err_Some: "first_err xs = Some e \<Longrightarrow> Some e \<in> set xs"
  by (induction xs rule: first_err.induct) auto

lemma first_err_fail_if [simp]:
  "first_err (fail_if b e # xs) = (if b then Some e else first_err xs)"
  by (simp add: fail_if_def)

definition from_err :: "('e \<Rightarrow> 'f) \<Rightarrow> 'e option \<Rightarrow> 'f option" where
  "from_err f r = map_option f r"

lemma from_err_None [simp]: "from_err f r = None \<longleftrightarrow> r = None"
  by (simp add: from_err_def)

fun is_ok :: "'e + 'a \<Rightarrow> bool" where
  "is_ok (Inl _) = False"
| "is_ok (Inr _) = True"

lemma is_ok_iff: "is_ok r \<longleftrightarrow> (\<exists>x. r = Inr x)"
  by (cases r) auto

section \<open>Loops with an early return\<close>

fun for_each :: "('a \<Rightarrow> 's \<Rightarrow> 'e + 's) \<Rightarrow> 'a list \<Rightarrow> 's \<Rightarrow> 'e + 's" where
  "for_each body [] s = Inr s"
| "for_each body (x # xs) s =
     (case body x s of Inl e \<Rightarrow> Inl e | Inr s' \<Rightarrow> for_each body xs s')"

lemma for_each_append [loop_simps]:
  "for_each body (xs @ ys) s =
     (case for_each body xs s of Inl e \<Rightarrow> Inl e | Inr s' \<Rightarrow> for_each body ys s')"
  by (induction xs arbitrary: s) (auto split: sum.splits)

text \<open>The loop rule: an invariant of the body over the elements still to come.\<close>

lemma for_each_invariant:
  assumes "for_each body xs s = Inr t"
    and "I [] s"
    and "\<And>before x s s'. I before s \<Longrightarrow> body x s = Inr s' \<Longrightarrow> x \<in> set xs \<Longrightarrow> I (before @ [x]) s'"
  shows "I xs t"
proof -
  have "for_each body ys s = Inr t \<Longrightarrow> I before s \<Longrightarrow> set ys \<subseteq> set xs \<Longrightarrow> I (before @ ys) t" for ys before s
  proof (induction ys arbitrary: before s)
    case Nil
    then show ?case by simp
  next
    case (Cons y ys)
    from Cons.prems(1) obtain s' where s': "body y s = Inr s'" "for_each body ys s' = Inr t"
      by (auto split: sum.splits)
    from Cons.prems(2,3) s'(1) have "I (before @ [y]) s'" by (auto intro: assms(3))
    with Cons.IH s'(2) Cons.prems(3) show ?case by fastforce
  qed
  from this [of xs s "[]"] assms(1,2) show ?thesis by simp
qed

section \<open>Duplicates by a key\<close>

text \<open>
  Every validation loop of the program keeps sets of the keys seen so far and fails on a
  key that comes back, so on success the keys are distinct.
\<close>

lemma distinct_map_insert:
  "distinct (map f (x # xs)) \<longleftrightarrow> f x \<notin> f ` set xs \<and> distinct (map f xs)"
  by simp

lemma map_filter_distinct: "distinct (map f xs) \<Longrightarrow> distinct (map f (filter P xs))"
  by (induction xs) auto

lemma distinct_map_eq:
  "distinct (map f xs) \<Longrightarrow> x \<in> set xs \<Longrightarrow> y \<in> set xs \<Longrightarrow> f x = f y \<Longrightarrow> x = y"
  by (auto simp: distinct_map dest: inj_onD)

section \<open>Sorting by a key\<close>

text \<open>
  Go's \<open>sort.Slice\<close> is not stable, so its result is fixed only where no two elements compare
  equal.  It is modelled by the stable \<open>sort_key\<close>; the next lemma shows that on distinct keys
  the result depends on the elements alone, so there every correct sort agrees with it.
\<close>

lemma distinct_set_singleton:
  assumes "set l = {k}" and "distinct l"
  shows "l = [k]"
proof (cases l)
  case Nil
  with assms(1) show ?thesis by simp
next
  case (Cons a as)
  with assms have a: "a = k" and "set as \<subseteq> {k}" and "k \<notin> set as" by auto
  then have "as = []" by (cases as) auto
  with Cons a show ?thesis by simp
qed

lemma sort_key_perm_eq [sort_facts]:
  assumes "mset xs = mset ys" and "distinct (map f xs)"
  shows "sort_key f xs = sort_key f ys"
proof (rule properties_for_sort_key [symmetric])
  show "mset (sort_key f xs) = mset ys" using assms(1) by simp
next
  show "sorted (map f (sort_key f xs))" by simp
next
  fix k assume k: "k \<in> set (sort_key f xs)"
  have inj: "inj_on f (set xs)" and dx: "distinct xs" using assms(2) by (simp_all add: distinct_map)
  have sxy: "set xs = set ys" using assms(1) by (rule mset_eq_setD)
  have dy: "distinct ys" using assms(1) dx by (metis mset_eq_imp_distinct_iff)
  have one: "filter (\<lambda>x. f k = f x) zs = [k]" if "distinct zs" "set zs = set xs" for zs
  proof -
    have "set (filter (\<lambda>x. f k = f x) zs) = {k}"
      using that(2) k inj by (auto dest: inj_onD)
    moreover have "distinct (filter (\<lambda>x. f k = f x) zs)" using that(1) by simp
    ultimately show ?thesis
      by (rule distinct_set_singleton)
  qed
  from one [of "sort_key f xs"] one [of ys] dx dy sxy
  show "filter (\<lambda>x. f k = f x) (sort_key f xs) = filter (\<lambda>x. f k = f x) ys"
    by simp
qed

lemma sort_key_idem [sort_facts]: "sort_key f (sort_key f xs) = sort_key f xs"
  by (simp add: sort_key_id_if_sorted)

end
