(* ===== verification/Go_Strings.thy ===== *)
theory Go_Strings
  imports Prelude
begin

text \<open>
  The parts of Go's \<^verbatim>\<open>strings\<close>, \<^verbatim>\<open>unicode\<close>, \<^verbatim>\<open>unicode/utf8\<close> and \<^verbatim>\<open>path\<close>
  packages the program calls.  A Go string is a byte sequence, so it is a \<open>string\<close> here and
  \<open>length\<close> is Go's \<open>len\<close>; the functions that work on code points decode UTF-8 first, the way
  Go does, with an invalid byte read as U+FFFD of width one.
\<close>

section \<open>Bytes and code points\<close>

type_synonym rune = nat

definition byte_of :: "char \<Rightarrow> nat" where
  "byte_of c = of_char c"

definition rune_error :: rune where
  "rune_error = 65533"

text \<open>Whether the bytes after a lead byte are the continuation bytes it asks for, the first of
  them within \<open>lo..hi\<close> (the narrower range UTF-8 asks of some lead bytes).\<close>

fun continues :: "nat \<Rightarrow> nat \<Rightarrow> nat \<Rightarrow> string \<Rightarrow> bool" where
  "continues 0 lo hi cs = True"
| "continues (Suc n) lo hi [] = False"
| "continues (Suc n) lo hi (c # cs) =
     (lo \<le> byte_of c \<and> byte_of c \<le> hi \<and> continues n 128 191 cs)"

fun cont_bits :: "nat \<Rightarrow> nat \<Rightarrow> string \<Rightarrow> nat" where
  "cont_bits 0 acc cs = acc"
| "cont_bits (Suc n) acc [] = acc"
| "cont_bits (Suc n) acc (c # cs) = cont_bits n (acc * 64 + byte_of c mod 64) cs"

text \<open>Number of continuation bytes and the range of the first, by lead byte; \<open>None\<close> for a byte
  that starts no code point.\<close>

definition lead_info :: "nat \<Rightarrow> (nat \<times> nat \<times> nat) option" where
  "lead_info b =
     (if b < 128 then Some (0, 0, 0)
      else if b < 194 then None
      else if b < 224 then Some (1, 128, 191)
      else if b = 224 then Some (2, 160, 191)
      else if b = 237 then Some (2, 128, 159)
      else if b < 240 then Some (2, 128, 191)
      else if b = 240 then Some (3, 144, 191)
      else if b < 244 then Some (3, 128, 191)
      else if b = 244 then Some (3, 128, 143)
      else None)"

definition lead_bits :: "nat \<Rightarrow> nat \<Rightarrow> nat" where
  "lead_bits n b = (if n = 0 then b else if n = 1 then b - 192 else if n = 2 then b - 224 else b - 240)"

text \<open>\<open>utf8.DecodeRune\<close>: the code point at the head of a non-empty string and the number of
  bytes after the first it takes.\<close>

definition decode_rune :: "char \<Rightarrow> string \<Rightarrow> rune \<times> nat" where
  "decode_rune c cs =
     (case lead_info (byte_of c) of
        None \<Rightarrow> (rune_error, 0)
      | Some (n, lo, hi) \<Rightarrow>
          if continues n lo hi cs then (cont_bits n (lead_bits n (byte_of c)) cs, n)
          else (rune_error, 0))"

text \<open>A string as its code points, each with the bytes it was read from.\<close>

fun chunks :: "string \<Rightarrow> (rune \<times> string) list" where
  "chunks [] = []"
| "chunks (c # cs) =
     (let n = snd (decode_rune c cs) in
      (fst (decode_rune c cs), c # take n cs) # chunks (drop n cs))"

definition runes :: "string \<Rightarrow> rune list" where
  "runes s = map fst (chunks s)"

text \<open>\<open>utf8.AppendRune\<close>: surrogates and values past U+10FFFF are written as U+FFFD.\<close>

definition encode_rune :: "rune \<Rightarrow> string" where
  "encode_rune r =
     (let r = (if (55296 \<le> r \<and> r \<le> 57343) \<or> 1114111 < r then rune_error else r) in
      map char_of
        (if r < 128 then [r]
         else if r < 2048 then [192 + r div 64, 128 + r mod 64]
         else if r < 65536 then [224 + r div 4096, 128 + r div 64 mod 64, 128 + r mod 64]
         else [240 + r div 262144, 128 + r div 4096 mod 64, 128 + r div 64 mod 64, 128 + r mod 64]))"

section \<open>Character classes\<close>

text \<open>\<open>unicode.IsControl\<close> is category Cc, \<open>unicode.IsSpace\<close> the White_Space property.\<close>

definition is_control :: "rune \<Rightarrow> bool" where
  "is_control r \<longleftrightarrow> r < 32 \<or> (127 \<le> r \<and> r < 160)"

definition is_space :: "rune \<Rightarrow> bool" where
  "is_space r \<longleftrightarrow>
     (9 \<le> r \<and> r \<le> 13) \<or> r = 32 \<or> r = 133 \<or> r = 160 \<or> r = 5760 \<or> (8192 \<le> r \<and> r \<le> 8202) \<or>
     r = 8232 \<or> r = 8233 \<or> r = 8239 \<or> r = 8287 \<or> r = 12288"

text \<open>
  \<open>unicode.ToLower\<close> beyond ASCII: Unicode's simple lower-case mapping as ranges
  \<open>(lo, hi, stride, delta)\<close>, the form of Go's own \<open>unicode.CaseRanges\<close>.
\<close>

definition lower_ranges :: "(nat \<times> nat \<times> nat \<times> int) list" where
  "lower_ranges =
   [
   (192, 214, 1, 32), (216, 222, 1, 32), (256, 302, 2, 1), (304, 304, 1, - 199),
    (306, 310, 2, 1), (313, 327, 2, 1), (330, 374, 2, 1), (376, 376, 1, - 121), (377, 381, 2, 1),
    (385, 385, 1, 210), (386, 388, 2, 1), (390, 390, 1, 206), (391, 391, 1, 1),
    (393, 394, 1, 205), (395, 395, 1, 1), (398, 398, 1, 79), (399, 399, 1, 202),
    (400, 400, 1, 203), (401, 401, 1, 1), (403, 403, 1, 205), (404, 404, 1, 207),
    (406, 406, 1, 211), (407, 407, 1, 209), (408, 408, 1, 1), (412, 412, 1, 211),
    (413, 413, 1, 213), (415, 415, 1, 214), (416, 420, 2, 1), (422, 422, 1, 218),
    (423, 423, 1, 1), (425, 425, 1, 218), (428, 428, 1, 1), (430, 430, 1, 218), (431, 431, 1, 1),
    (433, 434, 1, 217), (435, 437, 2, 1), (439, 439, 1, 219), (440, 440, 1, 1), (444, 444, 1, 1),
    (452, 452, 1, 2), (453, 453, 1, 1), (455, 455, 1, 2), (456, 456, 1, 1), (458, 458, 1, 2),
    (459, 475, 2, 1), (478, 494, 2, 1), (497, 497, 1, 2), (498, 500, 2, 1), (502, 502, 1, - 97),
    (503, 503, 1, - 56), (504, 542, 2, 1), (544, 544, 1, - 130), (546, 562, 2, 1),
    (570, 570, 1, 10795), (571, 571, 1, 1), (573, 573, 1, - 163), (574, 574, 1, 10792),
    (577, 577, 1, 1), (579, 579, 1, - 195), (580, 580, 1, 69), (581, 581, 1, 71),
    (582, 590, 2, 1), (880, 882, 2, 1), (886, 886, 1, 1), (895, 895, 1, 116), (902, 902, 1, 38),
    (904, 906, 1, 37), (908, 908, 1, 64), (910, 911, 1, 63), (913, 929, 1, 32),
    (931, 939, 1, 32), (975, 975, 1, 8), (984, 1006, 2, 1), (1012, 1012, 1, - 60),
    (1015, 1015, 1, 1), (1017, 1017, 1, - 7), (1018, 1018, 1, 1), (1021, 1023, 1, - 130),
    (1024, 1039, 1, 80), (1040, 1071, 1, 32), (1120, 1152, 2, 1), (1162, 1214, 2, 1),
    (1216, 1216, 1, 15), (1217, 1229, 2, 1), (1232, 1326, 2, 1), (1329, 1366, 1, 48),
    (4256, 4293, 1, 7264), (4295, 4295, 1, 7264), (4301, 4301, 1, 7264), (5024, 5103, 1, 38864),
    (5104, 5109, 1, 8), (7312, 7354, 1, - 3008), (7357, 7359, 1, - 3008), (7680, 7828, 2, 1),
    (7838, 7838, 1, - 7615), (7840, 7934, 2, 1), (7944, 7951, 1, - 8), (7960, 7965, 1, - 8),
    (7976, 7983, 1, - 8), (7992, 7999, 1, - 8), (8008, 8013, 1, - 8), (8025, 8031, 2, - 8),
    (8040, 8047, 1, - 8), (8072, 8079, 1, - 8), (8088, 8095, 1, - 8), (8104, 8111, 1, - 8),
    (8120, 8121, 1, - 8), (8122, 8123, 1, - 74), (8124, 8124, 1, - 9), (8136, 8139, 1, - 86),
    (8140, 8140, 1, - 9), (8152, 8153, 1, - 8), (8154, 8155, 1, - 100), (8168, 8169, 1, - 8),
    (8170, 8171, 1, - 112), (8172, 8172, 1, - 7), (8184, 8185, 1, - 128), (8186, 8187, 1, - 126),
    (8188, 8188, 1, - 9), (8486, 8486, 1, - 7517), (8490, 8490, 1, - 8383),
    (8491, 8491, 1, - 8262), (8498, 8498, 1, 28), (8544, 8559, 1, 16), (8579, 8579, 1, 1),
    (9398, 9423, 1, 26), (11264, 11311, 1, 48), (11360, 11360, 1, 1), (11362, 11362, 1, - 10743),
    (11363, 11363, 1, - 3814), (11364, 11364, 1, - 10727), (11367, 11371, 2, 1),
    (11373, 11373, 1, - 10780), (11374, 11374, 1, - 10749), (11375, 11375, 1, - 10783),
    (11376, 11376, 1, - 10782), (11378, 11378, 1, 1), (11381, 11381, 1, 1),
    (11390, 11391, 1, - 10815), (11392, 11490, 2, 1), (11499, 11501, 2, 1), (11506, 11506, 1, 1),
    (42560, 42604, 2, 1), (42624, 42650, 2, 1), (42786, 42798, 2, 1), (42802, 42862, 2, 1),
    (42873, 42875, 2, 1), (42877, 42877, 1, - 35332), (42878, 42886, 2, 1), (42891, 42891, 1, 1),
    (42893, 42893, 1, - 42280), (42896, 42898, 2, 1), (42902, 42920, 2, 1),
    (42922, 42922, 1, - 42308), (42923, 42923, 1, - 42319), (42924, 42924, 1, - 42315),
    (42925, 42925, 1, - 42305), (42926, 42926, 1, - 42308), (42928, 42928, 1, - 42258),
    (42929, 42929, 1, - 42282), (42930, 42930, 1, - 42261), (42931, 42931, 1, 928),
    (42932, 42946, 2, 1), (42948, 42948, 1, - 48), (42949, 42949, 1, - 42307),
    (42950, 42950, 1, - 35384), (42951, 42953, 2, 1), (42960, 42960, 1, 1), (42966, 42968, 2, 1),
    (42997, 42997, 1, 1), (65313, 65338, 1, 32), (66560, 66599, 1, 40), (66736, 66771, 1, 40),
    (66928, 66938, 1, 39), (66940, 66954, 1, 39), (66956, 66962, 1, 39), (66964, 66965, 1, 39),
    (68736, 68786, 1, 64), (71840, 71871, 1, 32), (93760, 93791, 1, 32), (125184, 125217, 1, 34)]"

definition lower_rune :: "rune \<Rightarrow> rune" where
  "lower_rune r =
     (if r < 128 then (if 65 \<le> r \<and> r \<le> 90 then r + 32 else r)
      else case find (\<lambda>(lo, hi, st, d). lo \<le> r \<and> r \<le> hi \<and> (r - lo) mod st = 0) lower_ranges of
             None \<Rightarrow> r
           | Some (lo, hi, st, d) \<Rightarrow> nat (int r + d))"

section \<open>The strings package\<close>

text \<open>\<open>strings.ToLower\<close> is \<open>strings.Map(unicode.ToLower, s)\<close>: every code point is mapped and
  written back, an invalid byte as U+FFFD.\<close>

definition to_lower :: "string \<Rightarrow> string" where
  "to_lower s = concat (map (\<lambda>r. encode_rune (lower_rune r)) (runes s))"

definition trim_space :: "string \<Rightarrow> string" where
  "trim_space s =
     concat (map snd
       (rev (dropWhile (is_space \<circ> fst) (rev (dropWhile (is_space \<circ> fst) (chunks s))))))"

definition contains_control :: "string \<Rightarrow> bool" where
  "contains_control s \<longleftrightarrow> list_ex is_control (runes s)"

definition has_prefix :: "string \<Rightarrow> string \<Rightarrow> bool" where
  "has_prefix s p \<longleftrightarrow> take (length p) s = p"

definition has_suffix :: "string \<Rightarrow> string \<Rightarrow> bool" where
  "has_suffix s p \<longleftrightarrow> length p \<le> length s \<and> drop (length s - length p) s = p"

definition trim_prefix :: "string \<Rightarrow> string \<Rightarrow> string" where
  "trim_prefix s p = (if has_prefix s p then drop (length p) s else s)"

definition trim_suffix :: "string \<Rightarrow> string \<Rightarrow> string" where
  "trim_suffix s p = (if has_suffix s p then take (length s - length p) s else s)"

text \<open>\<open>strings.ContainsAny\<close> for a set of ASCII characters.\<close>

definition contains_any :: "string \<Rightarrow> string \<Rightarrow> bool" where
  "contains_any s chars \<longleftrightarrow> list_ex (\<lambda>c. c \<in> set chars) s"

text \<open>\<open>strings.Split\<close> with a one-byte separator: always at least one field.\<close>

fun split_on :: "char \<Rightarrow> string \<Rightarrow> string list" where
  "split_on sep [] = [[]]"
| "split_on sep (c # cs) =
     (if c = sep then [] # split_on sep cs
      else case split_on sep cs of [] \<Rightarrow> [[c]] | f # fs \<Rightarrow> (c # f) # fs)"

fun join_with :: "string \<Rightarrow> string list \<Rightarrow> string" where
  "join_with sep [] = []"
| "join_with sep [x] = x"
| "join_with sep (x # y # ys) = x @ sep @ join_with sep (y # ys)"

section \<open>path.Clean\<close>

text \<open>
  The lexical canonical form of a slash-separated path: empty and \<open>.\<close> components vanish,
  \<open>..\<close> removes the component before it, and \<open>..\<close> at the root vanishes too.  The components
  read so far are kept in reverse.
\<close>

definition clean_step :: "bool \<Rightarrow> string \<Rightarrow> string list \<Rightarrow> string list" where
  "clean_step rooted c st =
     (if c = [] \<or> c = ''.'' then st
      else if c = ''..'' then
        (if st \<noteq> [] \<and> hd st \<noteq> ''..'' then tl st else if rooted then st else c # st)
      else c # st)"

definition clean_components :: "bool \<Rightarrow> string list \<Rightarrow> string list" where
  "clean_components rooted cs = rev (fold (clean_step rooted) cs [])"

definition path_clean :: "string \<Rightarrow> string" where
  "path_clean p =
     (let rooted = has_prefix p ''/'';
          body = join_with ''/'' (clean_components rooted (split_on (CHR ''/'') p))
      in if rooted then ''/'' @ body else if body = [] then ''.'' else body)"

section \<open>ASCII strings\<close>

text \<open>On ASCII a code point is a byte, so the functions above work byte by byte.\<close>

definition ascii :: "string \<Rightarrow> bool" where
  "ascii s \<longleftrightarrow> list_all (\<lambda>c. byte_of c < 128) s"

definition ascii_lower :: "char \<Rightarrow> char" where
  "ascii_lower c = (if CHR ''A'' \<le> c \<and> c \<le> CHR ''Z'' then char_of (byte_of c + 32) else c)"

lemma byte_of_le: "c \<le> d \<longleftrightarrow> byte_of c \<le> byte_of d"
  by (simp add: byte_of_def less_eq_char_def)

lemma char_of_byte_of [simp]: "char_of (byte_of c) = c"
  by (simp add: byte_of_def)

lemma chunks_ascii: "ascii s \<Longrightarrow> chunks s = map (\<lambda>c. (byte_of c, [c])) s"
  by (induction s) (simp_all add: ascii_def decode_rune_def lead_info_def lead_bits_def)

lemma runes_ascii: "ascii s \<Longrightarrow> runes s = map byte_of s"
  by (simp add: runes_def chunks_ascii comp_def)

lemma lower_rune_ascii:
  "byte_of c < 128 \<Longrightarrow> encode_rune (lower_rune (byte_of c)) = [ascii_lower c]"
  by (auto simp: lower_rune_def encode_rune_def ascii_lower_def byte_of_le Let_def)
     (simp_all add: byte_of_def)

lemma to_lower_ascii: "ascii s \<Longrightarrow> to_lower s = map ascii_lower s"
proof -
  assume a: "ascii s"
  have "concat (map (\<lambda>c. encode_rune (lower_rune (byte_of c))) s) = map ascii_lower s"
    using a by (induction s) (simp_all add: ascii_def lower_rune_ascii)
  with a show ?thesis by (simp add: to_lower_def runes_ascii comp_def)
qed

lemma concat_map_singleton: "concat (map (snd \<circ> (\<lambda>c. (f c, [c]))) s) = s"
  by (induction s) simp_all

lemma trim_space_ascii:
  assumes "ascii s"
  shows "trim_space s =
    rev (dropWhile (is_space \<circ> byte_of) (rev (dropWhile (is_space \<circ> byte_of) s)))"
proof -
  have dw: "dropWhile (is_space \<circ> fst) (map (\<lambda>c. (byte_of c, [c])) xs)
      = map (\<lambda>c. (byte_of c, [c])) (dropWhile (is_space \<circ> byte_of) xs)" for xs
    by (induction xs) simp_all
  show ?thesis
    by (simp add: trim_space_def chunks_ascii [OF assms] dw rev_map concat_map_singleton)
qed

lemma contains_control_ascii:
  "ascii s \<Longrightarrow> contains_control s \<longleftrightarrow> list_ex (is_control \<circ> byte_of) s"
  by (simp add: contains_control_def runes_ascii list_ex_iff)

text \<open>The simplification rules that evaluate the string functions on an ASCII literal.\<close>

named_theorems str_eval \<open>evaluate string functions on ASCII literals\<close>

lemma byte_of_Char [str_eval]:
  "byte_of (Char b0 b1 b2 b3 b4 b5 b6 b7) =
     of_bool b0 + 2 * (of_bool b1 + 2 * (of_bool b2 + 2 * (of_bool b3 +
       2 * (of_bool b4 + 2 * (of_bool b5 + 2 * (of_bool b6 + 2 * of_bool b7))))))"
  by (simp add: byte_of_def of_char_def)

lemma char_of_eq_byte [str_eval]:
  "char_of (n :: nat) = c \<longleftrightarrow> n mod 256 = byte_of c" "c = char_of (n :: nat) \<longleftrightarrow> n mod 256 = byte_of c"
  by (simp_all add: byte_of_def char_of_eq_iff take_bit_eq_mod eq_commute [of c])

lemmas [str_eval] =
  to_lower_ascii trim_space_ascii contains_control_ascii ascii_def ascii_lower_def byte_of_le
  is_space_def is_control_def has_prefix_def has_suffix_def contains_any_def

end
