(* ===== verification/Domain.thy ===== *)
theory Domain
  imports Go_Strings
begin

text \<open>
  The entities and validation rules of \<^verbatim>\<open>core/internal/domain\<close>: identifiers, timestamps,
  users, shares, permissions, server settings, TLS profiles and DNS provider credentials.
  String-backed enumerations stay strings, as in the source, so an unknown value is a value
  \<open>Valid\<close> rejects.  A \<open>ValidationError\<close> keeps its code and field; the human-readable
  message, which no code inspects, is left out.
\<close>

section \<open>Validation errors\<close>

datatype verror_code =
  CodeInvalidID | CodeInvalidTimestamp | CodeInvalidUsername | CodeInvalidPasswordHash
| CodeInvalidShareName | CodeInvalidShareSlug | CodeInvalidSharePath | CodeInvalidPermission
| CodeInvalidTLSMode | CodeInvalidHostname | CodeInvalidCertificate | CodeInvalidPrivateKey
| CodeInvalidRuntimeMode | CodeInvalidBasePath | CodeInvalidPort | CodeInvalidRevision
| CodeInvalidConfig | CodeInvalidConfigHash | CodeInvalidRevisionStatus
| CodeInvalidTLSChallenge | CodeInvalidDNSProvider | CodeInvalidDNSZone
| CodeInvalidDNSProviderCredential

datatype verror = ValidationError (verr_code: verror_code) (verr_field: string)

section \<open>Identifiers\<close>

type_synonym ident = string

definition is_lower_hex :: "char \<Rightarrow> bool" where
  "is_lower_hex c \<longleftrightarrow>
     (CHR ''0'' \<le> c \<and> c \<le> CHR ''9'') \<or> (CHR ''a'' \<le> c \<and> c \<le> CHR ''f'')"

definition dash_positions :: "nat list" where
  "dash_positions = [8, 13, 18, 23]"

definition validateID :: "string \<Rightarrow> ident \<Rightarrow> verror option" where
  "validateID field text = first_err
     [fail_if (length text \<noteq> 36 \<or> list_ex (\<lambda>i. text ! i \<noteq> CHR ''-'') dash_positions
               \<or> text \<noteq> to_lower text)
        (ValidationError CodeInvalidID field),
      fail_if (list_ex (\<lambda>(i, c). i \<notin> set dash_positions \<and> \<not> is_lower_hex c)
                (enumerate 0 text))
        (ValidationError CodeInvalidID field)]"

definition ParseID :: "string \<Rightarrow> verror + ident" where
  "ParseID value = (case validateID ''id'' value of Some e \<Rightarrow> Inl e | None \<Rightarrow> Inr value)"

section \<open>Timestamps\<close>

text \<open>A \<open>time.Time\<close> is an instant, in nanoseconds since Go's zero time (1 January of year 1,
  UTC), and whether its location is UTC.\<close>

datatype timestamp = Time (instant: int) (in_utc: bool)

definition IsZero :: "timestamp \<Rightarrow> bool" where
  "IsZero t \<longleftrightarrow> instant t = 0"

definition NewTimestamp :: "timestamp \<Rightarrow> verror + timestamp" where
  "NewTimestamp value =
     (if IsZero value then Inl (ValidationError CodeInvalidTimestamp ''timestamp'')
      else Inr (Time (instant value) True))"

definition validateTimestamp :: "string \<Rightarrow> timestamp \<Rightarrow> verror option" where
  "validateTimestamp field value =
     fail_if (IsZero value \<or> \<not> in_utc value) (ValidationError CodeInvalidTimestamp field)"

definition validateTimeRange :: "string \<Rightarrow> timestamp \<Rightarrow> string \<Rightarrow> timestamp \<Rightarrow> verror option" where
  "validateTimeRange createdField created updatedField updated = first_err
     [validateTimestamp createdField created,
      validateTimestamp updatedField updated,
      fail_if (instant updated < instant created)
        (ValidationError CodeInvalidTimestamp updatedField)]"

section \<open>Users\<close>

record user =
  user_ID :: ident
  Username :: string
  UsernameNormalized :: string
  PasswordHash :: string
  user_Enabled :: bool
  user_CreatedAt :: timestamp
  user_UpdatedAt :: timestamp

definition NormalizeUsername :: "string \<Rightarrow> string" where
  "NormalizeUsername value = to_lower (trim_space value)"

definition User_Validate :: "user \<Rightarrow> verror option" where
  "User_Validate u = first_err
     [validateID ''id'' (user_ID u),
      fail_if (Username u = [] \<or> Username u \<noteq> trim_space (Username u)
               \<or> contains_control (Username u))
        (ValidationError CodeInvalidUsername ''username''),
      fail_if (UsernameNormalized u \<noteq> NormalizeUsername (Username u))
        (ValidationError CodeInvalidUsername ''username_normalized''),
      fail_if (trim_space (PasswordHash u) = [] \<or> contains_control (PasswordHash u))
        (ValidationError CodeInvalidPasswordHash ''password_hash''),
      validateTimeRange ''created_at'' (user_CreatedAt u) ''updated_at'' (user_UpdatedAt u)]"

section \<open>Shares\<close>

text \<open>The regular expression \<open>^[a-z0-9]+(?:-[a-z0-9]+)*$\<close>: one or more fields between single
  hyphens, none of them empty.\<close>

definition slug_char :: "char \<Rightarrow> bool" where
  "slug_char c \<longleftrightarrow> (CHR ''a'' \<le> c \<and> c \<le> CHR ''z'') \<or> (CHR ''0'' \<le> c \<and> c \<le> CHR ''9'')"

definition shareSlugPattern :: "string \<Rightarrow> bool" where
  "shareSlugPattern s \<longleftrightarrow>
     list_all (\<lambda>f. f \<noteq> [] \<and> list_all slug_char f) (split_on (CHR ''-'') s)"

record share =
  share_ID :: ident
  share_Name :: string
  Slug :: string
  Path :: string
  share_Enabled :: bool
  share_CreatedAt :: timestamp
  share_UpdatedAt :: timestamp

definition isASCIILetter :: "char \<Rightarrow> bool" where
  "isASCIILetter c \<longleftrightarrow>
     (CHR ''A'' \<le> c \<and> c \<le> CHR ''Z'') \<or> (CHR ''a'' \<le> c \<and> c \<le> CHR ''z'')"

definition backslash :: char where
  "backslash = CHR 0x5C"

definition IsAbsolutePath :: "string \<Rightarrow> bool" where
  "IsAbsolutePath value =
     (if value = [] \<or> contains_control value then False
      else if has_prefix value ''/'' then path_clean value = value
      else if length value < 3 \<or> \<not> isASCIILetter (value ! 0) \<or> value ! 1 \<noteq> CHR '':''
              \<or> (value ! 2 \<noteq> backslash \<and> value ! 2 \<noteq> CHR ''/'') then False
      else if backslash \<in> set (drop 2 value) \<and> CHR ''/'' \<in> set (drop 2 value) then False
      else let normalized = map (\<lambda>c. if c = backslash then CHR ''/'' else c) value
           in if length normalized = 3 then True else path_clean normalized = normalized)"

definition Share_Validate :: "share \<Rightarrow> verror option" where
  "Share_Validate s = first_err
     [validateID ''id'' (share_ID s),
      fail_if (share_Name s = [] \<or> share_Name s \<noteq> trim_space (share_Name s)
               \<or> contains_control (share_Name s))
        (ValidationError CodeInvalidShareName ''name''),
      fail_if (\<not> shareSlugPattern (Slug s) \<or> Slug s = ''.'' \<or> Slug s = ''..'')
        (ValidationError CodeInvalidShareSlug ''slug''),
      fail_if (\<not> IsAbsolutePath (Path s)) (ValidationError CodeInvalidSharePath ''path''),
      validateTimeRange ''created_at'' (share_CreatedAt s) ''updated_at'' (share_UpdatedAt s)]"

section \<open>Permissions\<close>

type_synonym permission = string

definition PermissionNone :: permission where "PermissionNone = ''NONE''"
definition PermissionRead :: permission where "PermissionRead = ''READ''"
definition PermissionReadWrite :: permission where "PermissionReadWrite = ''READ_WRITE''"

lemmas permission_defs = PermissionNone_def PermissionRead_def PermissionReadWrite_def

definition Permission_Valid :: "permission \<Rightarrow> bool" where
  "Permission_Valid p \<longleftrightarrow> p = PermissionNone \<or> p = PermissionRead \<or> p = PermissionReadWrite"

record share_permission =
  perm_ShareID :: ident
  perm_UserID :: ident
  Permission :: permission
  perm_CreatedAt :: timestamp
  perm_UpdatedAt :: timestamp

definition SharePermission_Validate :: "share_permission \<Rightarrow> verror option" where
  "SharePermission_Validate p = first_err
     [validateID ''share_id'' (perm_ShareID p),
      validateID ''user_id'' (perm_UserID p),
      fail_if (\<not> Permission_Valid (Permission p))
        (ValidationError CodeInvalidPermission ''permission''),
      validateTimeRange ''created_at'' (perm_CreatedAt p) ''updated_at'' (perm_UpdatedAt p)]"

end
