(* ===== verification/Domain_Config.thy ===== *)
theory Domain_Config
  imports Domain
begin

text \<open>
  Server settings (\<^verbatim>\<open>domain/settings.go\<close>), TLS profiles (\<^verbatim>\<open>domain/tls.go\<close>) and DNS
  provider credentials (\<^verbatim>\<open>domain/dns_provider.go\<close>).  Go's \<open>int\<close> ports are \<open>int\<close>: they are
  only compared and printed.  A pointer field is an \<open>option\<close>.
\<close>

section \<open>Server settings\<close>

type_synonym runtime_mode = string

definition RuntimeModePortable :: runtime_mode where "RuntimeModePortable = ''portable''"
definition RuntimeModeService :: runtime_mode where "RuntimeModeService = ''service''"

definition RuntimeMode_Valid :: "runtime_mode \<Rightarrow> bool" where
  "RuntimeMode_Valid m \<longleftrightarrow> m = RuntimeModePortable \<or> m = RuntimeModeService"

record server_settings =
  settings_ID :: ident
  PublicBasePath :: string
  HTTPPort :: int
  HTTPSPort :: int
  RuntimeMode :: runtime_mode
  settings_CreatedAt :: timestamp
  settings_UpdatedAt :: timestamp

definition validPublicBasePath :: "string \<Rightarrow> bool" where
  "validPublicBasePath value \<longleftrightarrow>
     value \<noteq> [] \<and> has_prefix value ''/'' \<and> \<not> contains_any value [CHR ''?'', CHR ''#'', backslash]
     \<and> \<not> contains_control value \<and> path_clean value = value"

definition validPort :: "int \<Rightarrow> bool" where
  "validPort value \<longleftrightarrow> value \<ge> 1 \<and> value \<le> 65535"

definition ServerSettings_Validate :: "server_settings \<Rightarrow> verror option" where
  "ServerSettings_Validate s = first_err
     [validateID ''id'' (settings_ID s),
      fail_if (\<not> validPublicBasePath (PublicBasePath s))
        (ValidationError CodeInvalidBasePath ''public_base_path''),
      fail_if (\<not> validPort (HTTPPort s)) (ValidationError CodeInvalidPort ''http_port''),
      fail_if (\<not> validPort (HTTPSPort s)) (ValidationError CodeInvalidPort ''https_port''),
      fail_if (HTTPPort s = HTTPSPort s) (ValidationError CodeInvalidPort ''https_port''),
      fail_if (\<not> RuntimeMode_Valid (RuntimeMode s))
        (ValidationError CodeInvalidRuntimeMode ''runtime_mode''),
      validateTimeRange ''created_at'' (settings_CreatedAt s)
        ''updated_at'' (settings_UpdatedAt s)]"

section \<open>TLS profiles\<close>

type_synonym tls_mode = string
type_synonym tls_challenge = string

definition TLSModeAutomatic :: tls_mode where "TLSModeAutomatic = ''automatic''"
definition TLSModeInternal :: tls_mode where "TLSModeInternal = ''internal''"
definition TLSModeCustom :: tls_mode where "TLSModeCustom = ''custom''"
definition TLSChallengeAuto :: tls_challenge where "TLSChallengeAuto = ''auto''"
definition TLSChallengeDNS :: tls_challenge where "TLSChallengeDNS = ''dns''"

lemmas tls_const_defs =
  TLSModeAutomatic_def TLSModeInternal_def TLSModeCustom_def TLSChallengeAuto_def TLSChallengeDNS_def

definition TLSChallenge_Valid :: "tls_challenge \<Rightarrow> bool" where
  "TLSChallenge_Valid c \<longleftrightarrow> c = TLSChallengeAuto \<or> c = TLSChallengeDNS"

definition TLSMode_Valid :: "tls_mode \<Rightarrow> bool" where
  "TLSMode_Valid m \<longleftrightarrow> m = TLSModeAutomatic \<or> m = TLSModeInternal \<or> m = TLSModeCustom"

record tls_profile =
  tls_ID :: ident
  Mode :: tls_mode
  Hostname :: string
  Challenge :: tls_challenge
  DNSProviderID :: "ident option"
  CertificatePath :: string
  PrivateKeyPath :: string
  tls_CreatedAt :: timestamp
  tls_UpdatedAt :: timestamp

text \<open>The challenge with the empty string read as \<open>auto\<close>, as every reader of the field does.\<close>

definition effective_challenge :: "tls_challenge \<Rightarrow> tls_challenge" where
  "effective_challenge c = (if c = [] then TLSChallengeAuto else c)"

definition hostname_char :: "char \<Rightarrow> bool" where
  "hostname_char c \<longleftrightarrow>
     (CHR ''a'' \<le> c \<and> c \<le> CHR ''z'') \<or> (CHR ''A'' \<le> c \<and> c \<le> CHR ''Z'')
     \<or> (CHR ''0'' \<le> c \<and> c \<le> CHR ''9'') \<or> c = CHR ''-''"

definition valid_label :: "string \<Rightarrow> bool" where
  "valid_label label \<longleftrightarrow>
     \<not> (label = [] \<or> length label > 63 \<or> has_prefix label ''-'' \<or> has_suffix label ''-'')
     \<and> list_all hostname_char label"

definition validHostname :: "string \<Rightarrow> bool" where
  "validHostname value =
     (if value = [] \<or> value \<noteq> trim_space value \<or> contains_control value \<or> length value > 253
      then False
      else if contains_any value [CHR ''/'', backslash, CHR '':'', CHR ''@'']
              \<or> has_prefix value ''.'' \<or> has_suffix value ''.'' then False
      else let labels = split_on (CHR ''.'') value;
               labels = (if length labels > 1 \<and> hd labels = ''*'' then tl labels else labels)
           in labels \<noteq> [] \<and> list_all valid_label labels)"

definition TLSProfile_Validate :: "tls_profile \<Rightarrow> verror option" where
  "TLSProfile_Validate p =
     (let challenge = effective_challenge (Challenge p) in
      first_err
       [validateID ''id'' (tls_ID p),
        fail_if (\<not> TLSMode_Valid (Mode p)) (ValidationError CodeInvalidTLSMode ''mode''),
        fail_if (\<not> validHostname (Hostname p)) (ValidationError CodeInvalidHostname ''hostname''),
        fail_if (\<not> TLSChallenge_Valid challenge)
          (ValidationError CodeInvalidTLSChallenge ''challenge''),
        fail_if (challenge = TLSChallengeDNS \<and> Mode p \<noteq> TLSModeAutomatic)
          (ValidationError CodeInvalidTLSChallenge ''challenge''),
        (if challenge = TLSChallengeDNS then
           (case DNSProviderID p of
              None \<Rightarrow> Some (ValidationError CodeInvalidDNSProvider ''dns_provider_id'')
            | Some i \<Rightarrow> validateID ''dns_provider_id'' i)
         else fail_if (DNSProviderID p \<noteq> None)
           (ValidationError CodeInvalidTLSChallenge ''dns_provider_id'')),
        fail_if (has_prefix (Hostname p) ''*.'' \<and> challenge \<noteq> TLSChallengeDNS)
          (ValidationError CodeInvalidTLSChallenge ''challenge''),
        (if Mode p = TLSModeCustom then first_err
           [fail_if (\<not> IsAbsolutePath (CertificatePath p))
              (ValidationError CodeInvalidCertificate ''certificate_path''),
            fail_if (\<not> IsAbsolutePath (PrivateKeyPath p))
              (ValidationError CodeInvalidPrivateKey ''private_key_path'')]
         else fail_if (CertificatePath p \<noteq> [] \<or> PrivateKeyPath p \<noteq> [])
           (ValidationError CodeInvalidTLSMode ''mode'')),
        validateTimeRange ''created_at'' (tls_CreatedAt p) ''updated_at'' (tls_UpdatedAt p)])"

section \<open>DNS provider credentials\<close>

type_synonym dns_provider_type = string

definition DNSProviderCloudflare :: dns_provider_type where "DNSProviderCloudflare = ''cloudflare''"
definition DNSProviderTencentCloud :: dns_provider_type where
  "DNSProviderTencentCloud = ''tencentcloud''"
definition DNSProviderDNSPod :: dns_provider_type where "DNSProviderDNSPod = ''dnspod''"
definition DNSProviderAliDNS :: dns_provider_type where "DNSProviderAliDNS = ''alidns''"

lemmas dns_const_defs =
  DNSProviderCloudflare_def DNSProviderTencentCloud_def DNSProviderDNSPod_def DNSProviderAliDNS_def

definition DNSProviderType_Valid :: "dns_provider_type \<Rightarrow> bool" where
  "DNSProviderType_Valid p \<longleftrightarrow>
     p = DNSProviderCloudflare \<or> p = DNSProviderTencentCloud \<or> p = DNSProviderDNSPod
     \<or> p = DNSProviderAliDNS"

record dns_credential =
  dns_ID :: ident
  dns_Name :: string
  Provider :: dns_provider_type
  AllowedZones :: "string list"
  dns_CreatedAt :: timestamp
  dns_UpdatedAt :: timestamp

definition validDNSZone :: "string \<Rightarrow> bool" where
  "validDNSZone value =
     (if value = [] \<or> value \<noteq> trim_space value \<or> CHR ''*'' \<in> set value then False
      else validHostname value)"

fun validate_zones :: "string set \<Rightarrow> string list \<Rightarrow> verror option" where
  "validate_zones seen [] = None"
| "validate_zones seen (zone # zs) =
     (if \<not> validDNSZone zone then Some (ValidationError CodeInvalidDNSZone ''allowed_zones'')
      else if zone \<in> seen then Some (ValidationError CodeInvalidDNSZone ''allowed_zones'')
      else validate_zones (insert zone seen) zs)"

definition DNSProviderCredential_Validate :: "dns_credential \<Rightarrow> verror option" where
  "DNSProviderCredential_Validate c = first_err
     [validateID ''id'' (dns_ID c),
      fail_if (dns_Name c = [] \<or> dns_Name c \<noteq> trim_space (dns_Name c)
               \<or> contains_control (dns_Name c) \<or> length (dns_Name c) > 128)
        (ValidationError CodeInvalidDNSProviderCredential ''name''),
      fail_if (\<not> DNSProviderType_Valid (Provider c))
        (ValidationError CodeInvalidDNSProvider ''provider''),
      validate_zones {} (AllowedZones c),
      validateTimeRange ''created_at'' (dns_CreatedAt c) ''updated_at'' (dns_UpdatedAt c)]"

section \<open>What a valid profile and credential guarantee\<close>

lemma validate_zones_None_iff:
  "validate_zones seen zs = None \<longleftrightarrow>
     (\<forall>z \<in> set zs. validDNSZone z) \<and> distinct zs \<and> set zs \<inter> seen = {}"
  by (induction seen zs rule: validate_zones.induct) auto

lemma challenge_consts [simp]:
  "TLSChallengeAuto \<noteq> TLSChallengeDNS" "TLSChallengeDNS \<noteq> TLSChallengeAuto"
  "TLSChallengeAuto \<noteq> []" "TLSChallengeDNS \<noteq> []" "[] \<noteq> TLSChallengeDNS" "[] \<noteq> TLSChallengeAuto"
  by (simp_all add: tls_const_defs)

lemma effective_challenge_dns [simp]:
  "effective_challenge c = TLSChallengeDNS \<longleftrightarrow> c = TLSChallengeDNS"
  by (simp add: effective_challenge_def)

lemma validateTimeRange_None_iff [valid_simps]:
  "validateTimeRange cf c uf u = None \<longleftrightarrow>
     \<not> IsZero c \<and> in_utc c \<and> \<not> IsZero u \<and> in_utc u \<and> instant c \<le> instant u"
  by (auto simp: validateTimeRange_def validateTimestamp_def not_less)

lemma TLSProfile_Validate_None_iff:
  "TLSProfile_Validate p = None \<longleftrightarrow>
     validateID ''id'' (tls_ID p) = None \<and> TLSMode_Valid (Mode p) \<and> validHostname (Hostname p)
     \<and> TLSChallenge_Valid (effective_challenge (Challenge p))
     \<and> (Challenge p = TLSChallengeDNS \<longleftrightarrow> DNSProviderID p \<noteq> None)
     \<and> (\<forall>i. DNSProviderID p = Some i \<longrightarrow> validateID ''dns_provider_id'' i = None)
     \<and> (Challenge p = TLSChallengeDNS \<longrightarrow> Mode p = TLSModeAutomatic)
     \<and> (has_prefix (Hostname p) ''*.'' \<longrightarrow> Challenge p = TLSChallengeDNS)
     \<and> (if Mode p = TLSModeCustom
         then IsAbsolutePath (CertificatePath p) \<and> IsAbsolutePath (PrivateKeyPath p)
         else CertificatePath p = [] \<and> PrivateKeyPath p = [])
     \<and> validateTimeRange ''created_at'' (tls_CreatedAt p) ''updated_at'' (tls_UpdatedAt p) = None"
  unfolding TLSProfile_Validate_def Let_def
  by (cases "DNSProviderID p"; cases "Challenge p = TLSChallengeDNS") auto

end
