(* ===== verification/Runtime_Input.thy ===== *)
theory Runtime_Input
  imports Domain_Config
begin

text \<open>
  \<open>RuntimeConfigInput\<close>, the desired state the compiler consumes (\<^verbatim>\<open>domain/runtime_config.go\<close>),
  and its validation (\<^verbatim>\<open>domain/revision_snapshot.go\<close>).  The validation walks providers,
  users, shares and permissions with sets of the keys seen so far; the model keeps those sets
  and the order of the checks.  \<open>well_formed_input\<close> is the specification without loops, and
  \<open>RuntimeConfigInput_Validate_iff\<close> says the loops implement it.
\<close>

record share_with_permissions =
  Share :: share
  Permissions :: "share_permission list"

record runtime_input =
  ServerSettings :: server_settings
  TLSProfile :: "tls_profile option"
  DNSProviderCredentials :: "dns_credential list"
  Users :: "user list"
  Shares :: "share_with_permissions list"

datatype input_error =
  InvalidServerSettings verror
| InvalidTLSProfile verror
| InvalidDNSProvider ident verror
| DuplicateDNSProviderID ident
| DuplicateDNSProviderName string
| DNSProfileWithoutProvider
| UnknownDNSProvider ident
| InvalidUser ident verror
| DuplicateUserID ident
| DuplicateUsername string
| InvalidShare ident verror
| DuplicateShareID ident
| DuplicateShareSlug string
| InvalidSharePermission ident verror
| PermissionOfOtherShare
| PermissionOfUnknownUser ident
| DuplicatePermission ident
| UnsupportedSnapshotVersion int

section \<open>The loops\<close>

definition check_provider ::
  "dns_credential \<Rightarrow> ident set \<times> string set \<Rightarrow> input_error + ident set \<times> string set" where
  "check_provider p = (\<lambda>(ids, names).
     case DNSProviderCredential_Validate p of Some e \<Rightarrow> Inl (InvalidDNSProvider (dns_ID p) e)
     | None \<Rightarrow>
         if dns_ID p \<in> ids then Inl (DuplicateDNSProviderID (dns_ID p))
         else if dns_Name p \<in> names then Inl (DuplicateDNSProviderName (dns_Name p))
         else Inr (insert (dns_ID p) ids, insert (dns_Name p) names))"

definition check_user ::
  "user \<Rightarrow> ident set \<times> string set \<Rightarrow> input_error + ident set \<times> string set" where
  "check_user u = (\<lambda>(ids, names).
     case User_Validate u of Some e \<Rightarrow> Inl (InvalidUser (user_ID u) e)
     | None \<Rightarrow>
         if user_ID u \<in> ids then Inl (DuplicateUserID (user_ID u))
         else if UsernameNormalized u \<in> names then Inl (DuplicateUsername (UsernameNormalized u))
         else Inr (insert (user_ID u) ids, insert (UsernameNormalized u) names))"

definition check_permission ::
  "ident \<Rightarrow> ident set \<Rightarrow> share_permission \<Rightarrow> ident set \<Rightarrow> input_error + ident set" where
  "check_permission sid users p seen =
     (case SharePermission_Validate p of Some e \<Rightarrow> Inl (InvalidSharePermission sid e)
     | None \<Rightarrow>
         if perm_ShareID p \<noteq> sid then Inl PermissionOfOtherShare
         else if perm_UserID p \<notin> users then Inl (PermissionOfUnknownUser (perm_UserID p))
         else if perm_UserID p \<in> seen then Inl (DuplicatePermission (perm_UserID p))
         else Inr (insert (perm_UserID p) seen))"

definition check_share ::
  "ident set \<Rightarrow> share_with_permissions \<Rightarrow> ident set \<times> string set
     \<Rightarrow> input_error + ident set \<times> string set" where
  "check_share users item = (\<lambda>(ids, slugs).
     let s = Share item in
     case Share_Validate s of Some e \<Rightarrow> Inl (InvalidShare (share_ID s) e)
     | None \<Rightarrow>
         if share_ID s \<in> ids then Inl (DuplicateShareID (share_ID s))
         else if Slug s \<in> slugs then Inl (DuplicateShareSlug (Slug s))
         else case for_each (check_permission (share_ID s) users) (Permissions item) {} of
                Inl e \<Rightarrow> Inl e
              | Inr _ \<Rightarrow> Inr (insert (share_ID s) ids, insert (Slug s) slugs))"

definition check_dns_reference :: "tls_profile option \<Rightarrow> ident set \<Rightarrow> input_error option" where
  "check_dns_reference tls providers =
     (case tls of None \<Rightarrow> None
      | Some p \<Rightarrow>
          if Challenge p = TLSChallengeDNS then
            (case DNSProviderID p of None \<Rightarrow> Some DNSProfileWithoutProvider
             | Some i \<Rightarrow> fail_if (i \<notin> providers) (UnknownDNSProvider i))
          else None)"

definition RuntimeConfigInput_Validate :: "runtime_input \<Rightarrow> input_error option" where
  "RuntimeConfigInput_Validate input =
     (case ServerSettings_Validate (ServerSettings input) of
        Some e \<Rightarrow> Some (InvalidServerSettings e)
      | None \<Rightarrow>
     (case Option.bind (TLSProfile input) TLSProfile_Validate of
        Some e \<Rightarrow> Some (InvalidTLSProfile e)
      | None \<Rightarrow>
     (case for_each check_provider (DNSProviderCredentials input) ({}, {}) of
        Inl e \<Rightarrow> Some e
      | Inr (providers, _) \<Rightarrow>
     (case check_dns_reference (TLSProfile input) providers of
        Some e \<Rightarrow> Some e
      | None \<Rightarrow>
     (case for_each check_user (Users input) ({}, {}) of
        Inl e \<Rightarrow> Some e
      | Inr (users, _) \<Rightarrow>
     (case for_each (check_share users) (Shares input) ({}, {}) of
        Inl e \<Rightarrow> Some e
      | Inr _ \<Rightarrow> None))))))"

section \<open>The specification\<close>

definition well_formed_permissions :: "ident set \<Rightarrow> ident \<Rightarrow> share_permission list \<Rightarrow> bool" where
  "well_formed_permissions users sid ps \<longleftrightarrow>
     (\<forall>p \<in> set ps. SharePermission_Validate p = None \<and> perm_ShareID p = sid \<and> perm_UserID p \<in> users)
     \<and> distinct (map perm_UserID ps)"

definition well_formed_input :: "runtime_input \<Rightarrow> bool" where
  "well_formed_input input \<longleftrightarrow>
     ServerSettings_Validate (ServerSettings input) = None
     \<and> (\<forall>p. TLSProfile input = Some p \<longrightarrow> TLSProfile_Validate p = None
          \<and> (\<forall>i. DNSProviderID p = Some i \<longrightarrow> i \<in> dns_ID ` set (DNSProviderCredentials input)))
     \<and> (\<forall>p \<in> set (DNSProviderCredentials input). DNSProviderCredential_Validate p = None)
     \<and> distinct (map dns_ID (DNSProviderCredentials input))
     \<and> distinct (map dns_Name (DNSProviderCredentials input))
     \<and> (\<forall>u \<in> set (Users input). User_Validate u = None)
     \<and> distinct (map user_ID (Users input))
     \<and> distinct (map UsernameNormalized (Users input))
     \<and> (\<forall>s \<in> set (Shares input). Share_Validate (Share s) = None
          \<and> well_formed_permissions (user_ID ` set (Users input)) (share_ID (Share s)) (Permissions s))
     \<and> distinct (map (share_ID \<circ> Share) (Shares input))
     \<and> distinct (map (Slug \<circ> Share) (Shares input))"

section \<open>The loops implement the specification\<close>

lemma for_each_provider:
  "for_each check_provider ps (ids, names) = Inr r \<longleftrightarrow>
     (\<forall>p \<in> set ps. DNSProviderCredential_Validate p = None)
     \<and> distinct (map dns_ID ps) \<and> dns_ID ` set ps \<inter> ids = {}
     \<and> distinct (map dns_Name ps) \<and> dns_Name ` set ps \<inter> names = {}
     \<and> r = (ids \<union> dns_ID ` set ps, names \<union> dns_Name ` set ps)"
  by (induction ps arbitrary: ids names)
     (auto simp: check_provider_def split: option.splits if_splits)

lemma for_each_user:
  "for_each check_user us (ids, names) = Inr r \<longleftrightarrow>
     (\<forall>u \<in> set us. User_Validate u = None)
     \<and> distinct (map user_ID us) \<and> user_ID ` set us \<inter> ids = {}
     \<and> distinct (map UsernameNormalized us) \<and> UsernameNormalized ` set us \<inter> names = {}
     \<and> r = (ids \<union> user_ID ` set us, names \<union> UsernameNormalized ` set us)"
  by (induction us arbitrary: ids names)
     (auto simp: check_user_def split: option.splits if_splits)

lemma for_each_permission:
  "for_each (check_permission sid users) ps seen = Inr r \<longleftrightarrow>
     well_formed_permissions users sid ps \<and> perm_UserID ` set ps \<inter> seen = {}
     \<and> r = seen \<union> perm_UserID ` set ps"
  by (induction ps arbitrary: seen)
     (auto simp: check_permission_def well_formed_permissions_def split: option.splits if_splits)

lemma for_each_share:
  "for_each (check_share users) ss (ids, slugs) = Inr r \<longleftrightarrow>
     (\<forall>s \<in> set ss. Share_Validate (Share s) = None
          \<and> well_formed_permissions users (share_ID (Share s)) (Permissions s))
     \<and> distinct (map (share_ID \<circ> Share) ss) \<and> (share_ID \<circ> Share) ` set ss \<inter> ids = {}
     \<and> distinct (map (Slug \<circ> Share) ss) \<and> (Slug \<circ> Share) ` set ss \<inter> slugs = {}
     \<and> r = (ids \<union> (share_ID \<circ> Share) ` set ss, slugs \<union> (Slug \<circ> Share) ` set ss)"
proof (induction ss arbitrary: ids slugs)
  case Nil
  then show ?case by auto
next
  case (Cons s ss)
  have step: "check_share users s (ids, slugs) = Inr t \<longleftrightarrow>
      Share_Validate (Share s) = None
      \<and> well_formed_permissions users (share_ID (Share s)) (Permissions s)
      \<and> share_ID (Share s) \<notin> ids \<and> Slug (Share s) \<notin> slugs
      \<and> t = (insert (share_ID (Share s)) ids, insert (Slug (Share s)) slugs)" for t
    using for_each_permission [of "share_ID (Share s)" users "Permissions s" "{}"]
    by (auto simp: check_share_def Let_def split: option.splits sum.splits) blast+
  show ?case
  proof (cases "check_share users s (ids, slugs)")
    case (Inl e)
    with step show ?thesis by fastforce
  next
    case (Inr t)
    with step [of t] Cons.IH show ?thesis by auto
  qed
qed

lemma for_each_user_fst:
  "for_each check_user us ({}, {}) = Inr (users, names) \<Longrightarrow> users = user_ID ` set us"
  by (simp add: for_each_user)

lemma for_each_provider_fst:
  "for_each check_provider ps ({}, {}) = Inr (ids, names) \<Longrightarrow> ids = dns_ID ` set ps"
  by (simp add: for_each_provider)

theorem RuntimeConfigInput_Validate_iff:
  "RuntimeConfigInput_Validate input = None \<longleftrightarrow> well_formed_input input"
proof -
  let ?ps = "DNSProviderCredentials input" and ?us = "Users input" and ?ss = "Shares input"
  have P: "(\<exists>r. for_each check_provider ?ps ({}, {}) = Inr r) \<longleftrightarrow>
      (\<forall>p \<in> set ?ps. DNSProviderCredential_Validate p = None)
      \<and> distinct (map dns_ID ?ps) \<and> distinct (map dns_Name ?ps)"
    by (simp add: for_each_provider)
  have U: "(\<exists>r. for_each check_user ?us ({}, {}) = Inr r) \<longleftrightarrow>
      (\<forall>u \<in> set ?us. User_Validate u = None)
      \<and> distinct (map user_ID ?us) \<and> distinct (map UsernameNormalized ?us)"
    by (simp add: for_each_user)
  have "RuntimeConfigInput_Validate input = None \<longleftrightarrow>
     ServerSettings_Validate (ServerSettings input) = None
     \<and> Option.bind (TLSProfile input) TLSProfile_Validate = None
     \<and> (\<exists>r. for_each check_provider ?ps ({}, {}) = Inr r)
     \<and> check_dns_reference (TLSProfile input) (dns_ID ` set ?ps) = None
     \<and> (\<exists>r. for_each check_user ?us ({}, {}) = Inr r)
     \<and> (\<exists>r. for_each (check_share (user_ID ` set ?us)) ?ss ({}, {}) = Inr r)"
    unfolding RuntimeConfigInput_Validate_def
    by (cases "for_each check_provider ?ps ({}, {})"; cases "for_each check_user ?us ({}, {})";
        cases "for_each (check_share (user_ID ` set ?us)) ?ss ({}, {})")
       (auto dest!: for_each_user_fst for_each_provider_fst split: option.splits sum.splits)
  also have "\<dots> \<longleftrightarrow> well_formed_input input"
    unfolding P U well_formed_input_def
    by (cases "TLSProfile input")
       (auto simp: for_each_share check_dns_reference_def TLSProfile_Validate_None_iff
             split: option.splits)
  finally show ?thesis .
qed

end
