(* ===== verification/Dns_Registry.thy ===== *)
theory Dns_Registry
  imports Domain_Config
begin

text \<open>
  The DNS provider registry (\<^verbatim>\<open>core/internal/dnsprovider/registry.go\<close>): how a provider's secret is
  checked and how it reaches Caddy as environment variables.  A Go map is an association list
  with distinct keys; a loop over a map visits it in list order, and what is proved holds for
  every order.
\<close>

type_synonym dns_secret = "(string \<times> string) list"
type_synonym env = "(string \<times> string) list"

record adapter =
  typeName :: dns_provider_type
  required :: "string list"
  optional :: "string list"
  caddyFields :: "(string \<times> string) list"

datatype secret_error =
  UnsupportedField string | BadFieldValue string | FieldTooLong string | FieldRequired string

definition ascii_upper :: "char \<Rightarrow> char" where
  "ascii_upper c = (if CHR ''a'' \<le> c \<and> c \<le> CHR ''z'' then char_of (byte_of c - 32) else c)"

text \<open>\<open>strings.ToUpper\<close> on the ASCII names it is applied to here: identifiers and field names.\<close>

definition to_upper :: "string \<Rightarrow> string" where
  "to_upper s = map ascii_upper s"

definition EnvironmentName :: "ident \<Rightarrow> string \<Rightarrow> string" where
  "EnvironmentName i f =
     ''DAVDECK_DNS_'' @ to_upper (filter (\<lambda>c. c \<noteq> CHR ''-'') i) @ ''_''
     @ to_upper (map (\<lambda>c. if c = CHR ''-'' then CHR ''_'' else c) f)"

definition bad_secret_value :: "string \<Rightarrow> bool" where
  "bad_secret_value v \<longleftrightarrow>
     v = [] \<or> v \<noteq> trim_space v \<or> list_ex (\<lambda>r. r < 32 \<or> r = 127) (runes v)"

fun check_fields :: "string list \<Rightarrow> dns_secret \<Rightarrow> secret_error option" where
  "check_fields allowed [] = None"
| "check_fields allowed ((f, v) # rest) =
     (if f \<notin> set allowed then Some (UnsupportedField f)
      else if bad_secret_value v then Some (BadFieldValue f)
      else if length v > 4096 then Some (FieldTooLong f)
      else check_fields allowed rest)"

fun check_required :: "dns_secret \<Rightarrow> string list \<Rightarrow> secret_error option" where
  "check_required secret [] = None"
| "check_required secret (f # fs) =
     (if map_of secret f = None \<or> map_of secret f = Some [] then Some (FieldRequired f)
      else check_required secret fs)"

definition ValidateSecret :: "adapter \<Rightarrow> dns_secret \<Rightarrow> secret_error option" where
  "ValidateSecret a secret =
     first_err [check_fields (required a @ optional a) secret, check_required secret (required a)]"

definition CaddyProvider :: "adapter \<Rightarrow> ident \<Rightarrow> (string \<times> string) list" where
  "CaddyProvider a i =
     (''name'', typeName a)
       # map (\<lambda>(cf, sf). (cf, ''{env.'' @ EnvironmentName i sf @ ''}'')) (caddyFields a)"

definition Environment :: "adapter \<Rightarrow> ident \<Rightarrow> dns_secret \<Rightarrow> env" where
  "Environment a i secret = map (\<lambda>(f, v). (EnvironmentName i f, v)) secret"

definition adapters :: "(dns_provider_type \<times> adapter) list" where
  "adapters =
     [(DNSProviderCloudflare, \<lparr>typeName = DNSProviderCloudflare, required = [''api_token''],
         optional = [], caddyFields = [(''api_token'', ''api_token'')]\<rparr>),
      (DNSProviderTencentCloud, \<lparr>typeName = DNSProviderTencentCloud,
         required = [''secret_id'', ''secret_key''], optional = [],
         caddyFields = [(''secretid'', ''secret_id''), (''secretkey'', ''secret_key'')]\<rparr>),
      (DNSProviderDNSPod, \<lparr>typeName = DNSProviderDNSPod, required = [''api_token''],
         optional = [], caddyFields = [(''api_token'', ''api_token'')]\<rparr>),
      (DNSProviderAliDNS, \<lparr>typeName = DNSProviderAliDNS,
         required = [''access_key_id'', ''access_key_secret''], optional = [''security_token''],
         caddyFields = [(''access_key_id'', ''access_key_id''),
           (''access_key_secret'', ''access_key_secret''), (''security_token'', ''security_token'')]\<rparr>)]"

definition For :: "dns_provider_type \<Rightarrow> adapter option" where
  "For provider = map_of adapters provider"

section \<open>Every valid type has an adapter, and its placeholders name variables it sets\<close>

lemma For_valid: "DNSProviderType_Valid p \<longleftrightarrow> (\<exists>a. For p = Some a)"
  by (auto simp: DNSProviderType_Valid_def For_def adapters_def dns_const_defs)

lemma For_typeName: "For p = Some a \<Longrightarrow> typeName a = p"
  by (auto simp: For_def adapters_def split: if_splits)

lemma check_fields_None:
  "check_fields allowed secret = None \<longleftrightarrow>
     (\<forall>(f, v) \<in> set secret. f \<in> set allowed \<and> \<not> bad_secret_value v \<and> length v \<le> 4096)"
  by (induction allowed secret rule: check_fields.induct) auto

lemma check_required_None:
  "check_required secret fs = None \<longleftrightarrow> (\<forall>f \<in> set fs. \<exists>v. map_of secret f = Some v \<and> v \<noteq> [])"
  by (induction secret fs rule: check_required.induct) auto

lemma ValidateSecret_None_iff:
  "ValidateSecret a secret = None \<longleftrightarrow>
     (\<forall>(f, v) \<in> set secret. f \<in> set (required a @ optional a) \<and> \<not> bad_secret_value v \<and> length v \<le> 4096)
     \<and> (\<forall>f \<in> set (required a). \<exists>v. map_of secret f = Some v \<and> v \<noteq> [])"
  by (auto simp: ValidateSecret_def check_fields_None check_required_None)

section \<open>Variables of different credentials and fields never collide\<close>

lemma ascii_upper_inj_hex:
  assumes "is_lower_hex a" and "is_lower_hex b" and "ascii_upper a = ascii_upper b"
  shows "a = b"
proof -
  have "byte_of a = byte_of b"
    using assms by (auto simp: is_lower_hex_def ascii_upper_def byte_of_def less_eq_char_def
        simp del: of_char_eq_iff split: if_splits)
  then show ?thesis by (simp add: byte_of_def)
qed

definition hex_positions :: "nat list" where
  "hex_positions = filter (\<lambda>i. i \<notin> set dash_positions) [0..<36]"

lemma valid_ident:
  assumes "validateID f t = None"
  shows "length t = 36" and "i \<in> set dash_positions \<Longrightarrow> t ! i = CHR ''-''"
    and "i \<in> set hex_positions \<Longrightarrow> is_lower_hex (t ! i)"
proof -
  from assms show "length t = 36" and "i \<in> set dash_positions \<Longrightarrow> t ! i = CHR ''-''"
    by (auto simp: validateID_def list_ex_iff split: if_splits)
  from assms have "\<forall>(i, c) \<in> set (enumerate 0 t). i \<in> set dash_positions \<or> is_lower_hex c"
    by (auto simp: validateID_def list_ex_iff split: if_splits)
  then have "i < 36 \<Longrightarrow> i \<notin> set dash_positions \<Longrightarrow> is_lower_hex (t ! i)"
    using \<open>length t = 36\<close> by (force simp: in_set_enumerate_eq)
  then show "i \<in> set hex_positions \<Longrightarrow> is_lower_hex (t ! i)"
    by (simp add: hex_positions_def)
qed

lemma dash_not_hex: "\<not> is_lower_hex (CHR ''-'')"
  by (simp add: is_lower_hex_def)

lemma ident_without_dashes:
  assumes "validateID f t = None"
  shows "filter (\<lambda>c. c \<noteq> CHR ''-'') t = map ((!) t) hex_positions"
proof -
  have len: "length t = 36" using valid_ident(1) [OF assms] .
  have "filter (\<lambda>c. c \<noteq> CHR ''-'') t = map ((!) t) (filter (\<lambda>i. t ! i \<noteq> CHR ''-'') [0..<36])"
    using map_nth [of t] by (metis (no_types, lifting) filter_cong filter_map comp_apply len)
  also have "filter (\<lambda>i. t ! i \<noteq> CHR ''-'') [0..<36] = hex_positions"
    unfolding hex_positions_def
  proof (rule filter_cong [OF refl])
    fix i assume "i \<in> set [0..<36]"
    then have "i \<notin> set dash_positions \<Longrightarrow> is_lower_hex (t ! i)"
      using valid_ident(3) [OF assms, of i] by (simp add: hex_positions_def)
    then show "t ! i \<noteq> CHR ''-'' \<longleftrightarrow> i \<notin> set dash_positions"
      using valid_ident(2) [OF assms, of i] dash_not_hex by metis
  qed
  finally show ?thesis .
qed

lemma EnvironmentName_ident_inj:
  assumes "validateID fi i = None" and "validateID fj j = None"
    and "EnvironmentName i f = EnvironmentName j g"
  shows "i = j"
proof (rule nth_equalityI)
  note vi = valid_ident [OF assms(1)] and vj = valid_ident [OF assms(2)]
  show "length i = length j" using vi(1) vj(1) by simp
  from assms(3) have "map (ascii_upper \<circ> (!) i) hex_positions = map (ascii_upper \<circ> (!) j) hex_positions"
    by (simp add: EnvironmentName_def to_upper_def ident_without_dashes [OF assms(1)]
        ident_without_dashes [OF assms(2)])
  then have u: "ascii_upper (i ! k) = ascii_upper (j ! k)" if "k \<in> set hex_positions" for k
    using that by simp
  show "i ! k = j ! k" if "k < length i" for k
  proof (cases "k \<in> set dash_positions")
    case True
    with vi(2) vj(2) show ?thesis by simp
  next
    case False
    with that vi(1) have "k \<in> set hex_positions" by (simp add: hex_positions_def)
    with u vi(3) vj(3) ascii_upper_inj_hex show ?thesis by blast
  qed
qed

lemma EnvironmentName_field_inj:
  assumes "For p = Some a" and "f \<in> set (required a @ optional a)" and "g \<in> set (required a @ optional a)"
    and "EnvironmentName i f = EnvironmentName i g"
  shows "f = g"
  using assms
  by (auto simp: For_def adapters_def EnvironmentName_def to_upper_def ascii_upper_def byte_of_def less_eq_char_def
      split: if_splits)

lemma map_of_renamed:
  "(\<And>k. k \<in> fst ` set m \<Longrightarrow> e k = e x \<Longrightarrow> k = x) \<Longrightarrow>
     map_of (map (\<lambda>(k, v). (e k, v)) m) (e x) = map_of m x"
proof (induction m)
  case (Cons p m)
  from Cons.prems [of "fst p"] have "e (fst p) = e x \<Longrightarrow> fst p = x" by simp
  then have "e (fst p) = e x \<longleftrightarrow> fst p = x" by auto
  with Cons show ?case by (auto simp: case_prod_unfold)
qed simp

lemma caddy_fields_allowed:
  "For p = Some a \<Longrightarrow> (cf, sf) \<in> set (caddyFields a) \<Longrightarrow> sf \<in> set (required a @ optional a)"
  by (auto simp: For_def adapters_def split: if_splits)

text \<open>C32. A DNS secret reaches Caddy exactly through the variables its configuration names: for every
  field of the provider the configuration holds the placeholder of a variable, not the secret, and the
  environment gives that variable the secret's value for the field; the variables of two credentials never collide.\<close>

theorem dns_secret_reaches_its_provider:
  assumes "For p = Some a" and "ValidateSecret a secret = None" and "(cf, sf) \<in> set (caddyFields a)"
    and "validateID ''id'' i = None"
  shows "(cf, ''{env.'' @ EnvironmentName i sf @ ''}'') \<in> set (CaddyProvider a i)
    \<and> map_of (Environment a i secret) (EnvironmentName i sf) = map_of secret sf
    \<and> (\<forall>j b secret'. validateID ''id'' j = None \<longrightarrow> i \<noteq> j \<longrightarrow>
         fst ` set (Environment a i secret) \<inter> fst ` set (Environment b j secret') = {})"
proof (intro conjI allI impI)
  show "(cf, ''{env.'' @ EnvironmentName i sf @ ''}'') \<in> set (CaddyProvider a i)"
    using assms(3) by (auto simp: CaddyProvider_def)
  have "k = sf" if "k \<in> fst ` set secret" "EnvironmentName i k = EnvironmentName i sf" for k
  proof (rule EnvironmentName_field_inj [OF assms(1) _ _ that(2)])
    show "k \<in> set (required a @ optional a)" using that(1) assms(2) by (auto simp: ValidateSecret_None_iff)
    show "sf \<in> set (required a @ optional a)" using caddy_fields_allowed [OF assms(1,3)] .
  qed
  then show "map_of (Environment a i secret) (EnvironmentName i sf) = map_of secret sf"
    unfolding Environment_def by (rule map_of_renamed)
next
  fix j :: ident and b and secret' :: dns_secret
  assume j: "validateID ''id'' j = None" and ne: "i \<noteq> j"
  have "EnvironmentName i f \<noteq> EnvironmentName j g" for f g
    using EnvironmentName_ident_inj [OF assms(4) j] ne by blast
  then show "fst ` set (Environment a i secret) \<inter> fst ` set (Environment b j secret') = {}"
    by (auto simp: Environment_def)
qed

theorem dns_secret_reaches_its_provider_witness:
  "map_of (Environment (the (For DNSProviderCloudflare)) ''00000000-0000-4000-8000-0000000000f6''
      [(''api_token'', ''secret'')])
    (EnvironmentName ''00000000-0000-4000-8000-0000000000f6'' ''api_token'') = Some ''secret''"
proof -
  obtain a where a: "For DNSProviderCloudflare = Some a" "caddyFields a = [(''api_token'', ''api_token'')]"
    "required a = [''api_token'']" "optional a = []"
    by (simp add: For_def adapters_def)
  have s: "ValidateSecret a [(''api_token'', ''secret'')] = None"
    by (simp add: ValidateSecret_None_iff a bad_secret_value_def runes_ascii str_eval)
  have i: "validateID ''id'' ''00000000-0000-4000-8000-0000000000f6'' = None"
    by (simp add: validateID_def dash_positions_def is_lower_hex_def str_eval)
  from dns_secret_reaches_its_provider [OF a(1) s _ i, of "''api_token''" "''api_token''"] a show ?thesis by simp
qed

end
