(* ===== verification/Json.thy ===== *)
theory Json
  imports Go_Strings
begin

text \<open>
  \<open>encoding/json\<close> on the documents the program writes: a value as a tree, \<open>json.Marshal\<close> and
  \<open>json.MarshalIndent(v, "", "  ")\<close> as printers, and the grammar \<open>json.Valid\<close> accepts as a
  parser.  A number is its literal.  Struct fields keep their declaration order; a field with \<open>omitempty\<close> is left out by
  the function that builds the tree.
\<close>

datatype json =
  JNull
| JBool bool
| JNum string
| JStr string
| JArr "json list"
| JObj "(string \<times> json) list"

section \<open>Numbers\<close>

fun digits_of :: "nat \<Rightarrow> string" where
  "digits_of n = (if n < 10 then [char_of (48 + n)] else digits_of (n div 10) @ [char_of (48 + n mod 10)])"

declare digits_of.simps [simp del]

text \<open>\<open>strconv.Itoa\<close>\<close>

definition show_int :: "int \<Rightarrow> string" where
  "show_int i = (if i < 0 then CHR ''-'' # digits_of (nat (- i)) else digits_of (nat i))"

abbreviation JInt :: "int \<Rightarrow> json" where
  "JInt i \<equiv> JNum (show_int i)"

section \<open>Strings\<close>

definition quote_char :: char where "quote_char = CHR 0x22"
definition escape_char :: char where "escape_char = CHR 0x5C"

definition hex_nibble :: "nat \<Rightarrow> char" where
  "hex_nibble n = (if n < 10 then char_of (48 + n) else char_of (87 + n))"

definition u_escape :: "nat \<Rightarrow> string" where
  "u_escape n = [escape_char, CHR ''u'', hex_nibble (n div 4096 mod 16), hex_nibble (n div 256 mod 16),
     hex_nibble (n div 16 mod 16), hex_nibble (n mod 16)]"

text \<open>
  One code point of a string: quotes, backslashes and controls are escaped, and so are \<open><\<close>,
  \<open>>\<close>, \<open>&\<close> (HTML escaping is on by default), U+2028, U+2029 and the replacement character an
  invalid byte was read as; the other code points keep their bytes.
\<close>

definition escape_rune :: "rune \<times> string \<Rightarrow> string" where
  "escape_rune = (\<lambda>(r, bytes).
     if r = 34 then [escape_char, quote_char]
     else if r = 92 then [escape_char, escape_char]
     else if r = 8 then [escape_char, CHR ''b'']
     else if r = 12 then [escape_char, CHR ''f'']
     else if r = 10 then [escape_char, CHR ''n'']
     else if r = 13 then [escape_char, CHR ''r'']
     else if r = 9 then [escape_char, CHR ''t'']
     else if r < 32 \<or> r = 60 \<or> r = 62 \<or> r = 38 then u_escape r
     else if r = 8232 \<or> r = 8233 then u_escape r
     else if r = rune_error \<and> length bytes = 1 then u_escape r
     else bytes)"

definition quote_string :: "string \<Rightarrow> string" where
  "quote_string s = quote_char # concat (map escape_rune (chunks s)) @ [quote_char]"

section \<open>Printers\<close>

fun json_print :: "json \<Rightarrow> string" where
  "json_print JNull = ''null''"
| "json_print (JBool b) = (if b then ''true'' else ''false'')"
| "json_print (JNum literal) = literal"
| "json_print (JStr s) = quote_string s"
| "json_print (JArr xs) = ''['' @ join_with '','' (map json_print xs) @ '']''"
| "json_print (JObj kvs) =
     ''{'' @ join_with '','' (map (\<lambda>(k, v). quote_string k @ '':'' @ json_print v) kvs) @ ''}''"

definition newline :: char where "newline = CHR 0x0A"

definition indentation :: "nat \<Rightarrow> string" where
  "indentation n = newline # concat (replicate n ''  '')"

text \<open>The indented form: every element and field on its own line, two spaces per level, empty
  arrays and objects without a line break.\<close>

fun json_indent :: "nat \<Rightarrow> json \<Rightarrow> string" where
  "json_indent n JNull = ''null''"
| "json_indent n (JBool b) = (if b then ''true'' else ''false'')"
| "json_indent n (JNum literal) = literal"
| "json_indent n (JStr s) = quote_string s"
| "json_indent n (JArr xs) =
     (if xs = [] then ''[]''
      else ''['' @ indentation (Suc n)
        @ join_with (CHR '','' # indentation (Suc n)) (map (json_indent (Suc n)) xs)
        @ indentation n @ '']'')"
| "json_indent n (JObj kvs) =
     (if kvs = [] then ''{}''
      else ''{'' @ indentation (Suc n)
        @ join_with (CHR '','' # indentation (Suc n))
            (map (\<lambda>(k, v). quote_string k @ '': '' @ json_indent (Suc n) v) kvs)
        @ indentation n @ ''}'')"

definition json_marshal :: "json \<Rightarrow> string" where
  "json_marshal v = json_print v"

definition json_marshal_indent :: "json \<Rightarrow> string" where
  "json_marshal_indent v = json_indent 0 v"

text \<open>Fields with and without \<open>omitempty\<close>.\<close>

definition field :: "string \<Rightarrow> json \<Rightarrow> (string \<times> json) list" where
  "field k v = [(k, v)]"

definition omit_empty_str :: "string \<Rightarrow> string \<Rightarrow> (string \<times> json) list" where
  "omit_empty_str k s = (if s = [] then [] else [(k, JStr s)])"

definition omit_empty_list :: "string \<Rightarrow> json list \<Rightarrow> (string \<times> json) list" where
  "omit_empty_list k xs = (if xs = [] then [] else [(k, JArr xs)])"

definition omit_none :: "string \<Rightarrow> json option \<Rightarrow> (string \<times> json) list" where
  "omit_none k v = (case v of None \<Rightarrow> [] | Some j \<Rightarrow> [(k, j)])"

definition omit_false :: "string \<Rightarrow> bool \<Rightarrow> (string \<times> json) list" where
  "omit_false k b = (if b then [(k, JBool b)] else [])"

end
