(* ===== verification/Compiler.thy ===== *)
theory Compiler
  imports Runtime_Input Dns_Registry Json Sha256 "HOL-Library.Product_Lexorder"
begin

text \<open>
  The configuration compiler (\<^verbatim>\<open>core/internal/caddy/compiler.go\<close>): from the desired state to the
  Caddy configuration tree, its JSON text and its hash.  The tree types follow the Go structs
  (the constant parts of a handler, such as its name and the bcrypt hash, appear when it is
  rendered).  The maps \<open>discoveryAccounts\<close> and \<open>discoveryEntries\<close> are association lists
  with distinct keys.
\<close>

section \<open>The configuration tree\<close>

record account =
  acc_Username :: string
  acc_Password :: string

record discovery_entry =
  entry_Slug :: string
  entry_Name :: string

datatype handler =
  AuthenticationHandler "account list"
| WebDAVHandler string string
| DiscoveryHandler string "(string \<times> discovery_entry list) list"
| StaticResponseHandler int "(string \<times> string list) list"

record matcher_set =
  m_Path :: "string list"
  m_Method :: "string list"
  m_Host :: "string list"

record route =
  Match :: "matcher_set list"
  Handle :: "handler list"
  Terminal :: bool

record tls_connection_policy =
  policy_SNI :: "string list option"
  policy_AnyTag :: "string list"

record automatic_https =
  ah_Disabled :: bool
  ah_DisableRedirects :: bool

record http_server =
  Listen :: "string list"
  Routes :: "route list"
  TLSConnectionPolicies :: "tls_connection_policy list"
  AutomaticHTTPS :: "automatic_https option"

datatype tls_issuer =
  InternalIssuer
| AcmeDNSIssuer "(string \<times> string) list"

datatype tls_app =
  TLSAutomation "string list" tls_issuer
| TLSCertificates string string "string list"

record config =
  cfg_HTTPPort :: int
  cfg_HTTPSPort :: int
  cfg_Servers :: "(string \<times> http_server) list"
  cfg_TLS :: "tls_app option"
  cfg_PKI :: bool

datatype compile_error =
  CompileSettings verror
| CompileProvider ident verror
| CompileDuplicateProvider ident
| CompileTLSProfile verror
| CompileUser ident verror
| CompileDuplicateUserID ident
| CompileDuplicateUsername string
| CompileShare ident verror
| CompileDuplicateShareID ident
| CompileDuplicateSlug string
| CompilePermission ident verror
| CompilePermissionOfOtherShare
| CompileDuplicatePermission ident
| CompilePermissionOfUnknownUser ident
| CompileDNSWithoutProvider
| CompileUnknownDNSProvider ident
| CompileUnsupportedDNSProvider string

section \<open>Paths and routes\<close>

definition readMethods :: "string list" where
  "readMethods = [''GET'', ''HEAD'', ''OPTIONS'', ''PROPFIND'']"

definition joinPublicPath :: "string \<Rightarrow> string \<Rightarrow> string" where
  "joinPublicPath basePath child =
     (if basePath = ''/'' then ''/'' @ child else trim_suffix basePath ''/'' @ ''/'' @ child)"

definition host_matcher :: "string \<Rightarrow> string list" where
  "host_matcher hostname = (if hostname \<noteq> [] then [hostname] else [])"

definition permissionRoute ::
  "string list \<Rightarrow> string list \<Rightarrow> account list \<Rightarrow> string \<Rightarrow> string \<Rightarrow> string \<Rightarrow> route" where
  "permissionRoute paths methods accounts root prefix hostname =
     \<lparr>Match = [\<lparr>m_Path = paths, m_Method = methods, m_Host = host_matcher hostname\<rparr>],
      Handle = [AuthenticationHandler accounts, WebDAVHandler root prefix], Terminal = True\<rparr>"

definition discoveryRoute ::
  "string list \<Rightarrow> account list \<Rightarrow> (string \<times> discovery_entry list) list \<Rightarrow> string \<Rightarrow> string \<Rightarrow> route" where
  "discoveryRoute paths accounts entries basePath hostname =
     \<lparr>Match = [\<lparr>m_Path = paths, m_Method = [], m_Host = host_matcher hostname\<rparr>],
      Handle = [AuthenticationHandler accounts, DiscoveryHandler basePath entries], Terminal = True\<rparr>"

definition httpsRedirectRoute :: "string \<Rightarrow> int \<Rightarrow> route" where
  "httpsRedirectRoute hostname httpsPort =
     (let redirectHost = (if httpsPort \<noteq> 443 then hostname @ '':'' @ show_int httpsPort else hostname)
      in \<lparr>Match = [\<lparr>m_Path = [], m_Method = [], m_Host = [hostname]\<rparr>],
          Handle = [StaticResponseHandler 308
            [(''Location'', [''https://'' @ redirectHost @ ''{http.request.uri}''])]],
          Terminal = True\<rparr>)"

section \<open>Accounts of a share\<close>

text \<open>The loop of \<open>compileAccounts\<close>; its state is the users seen, the readers and the writers.\<close>

definition compile_permission ::
  "share \<Rightarrow> (ident \<times> user) list \<Rightarrow> share_permission
     \<Rightarrow> ident set \<times> account list \<times> account list
     \<Rightarrow> compile_error + ident set \<times> account list \<times> account list" where
  "compile_permission s users value = (\<lambda>(seen, read, write).
     case SharePermission_Validate value of Some e \<Rightarrow> Inl (CompilePermission (share_ID s) e)
     | None \<Rightarrow>
       if perm_ShareID value \<noteq> share_ID s then Inl CompilePermissionOfOtherShare
       else if perm_UserID value \<in> seen then Inl (CompileDuplicatePermission (perm_UserID value))
       else case map_of users (perm_UserID value) of
         None \<Rightarrow> Inl (CompilePermissionOfUnknownUser (perm_UserID value))
       | Some u \<Rightarrow>
           let seen' = insert (perm_UserID value) seen;
               entry = \<lparr>acc_Username = Username u, acc_Password = PasswordHash u\<rparr>
           in if \<not> user_Enabled u \<or> Permission value = PermissionNone then Inr (seen', read, write)
              else Inr (seen', read @ [entry],
                if Permission value = PermissionReadWrite then write @ [entry] else write))"

definition compileAccounts ::
  "share_with_permissions \<Rightarrow> (ident \<times> user) list \<Rightarrow> compile_error + account list \<times> account list" where
  "compileAccounts item users =
     (case for_each (compile_permission (Share item) users)
             (sort_key perm_UserID (Permissions item)) ({}, [], []) of
        Inl e \<Rightarrow> Inl e
      | Inr (_, read, write) \<Rightarrow> Inr (sort_key acc_Username read, sort_key acc_Username write))"

section \<open>The loops over users and shares\<close>

definition compile_provider ::
  "dns_credential \<Rightarrow> (ident \<times> dns_credential) list \<Rightarrow> compile_error + (ident \<times> dns_credential) list" where
  "compile_provider p providers =
     (case DNSProviderCredential_Validate p of Some e \<Rightarrow> Inl (CompileProvider (dns_ID p) e)
      | None \<Rightarrow>
          if map_of providers (dns_ID p) \<noteq> None then Inl (CompileDuplicateProvider (dns_ID p))
          else Inr ((dns_ID p, p) # providers))"

definition compile_user ::
  "user \<Rightarrow> (ident \<times> user) list \<times> string set \<Rightarrow> compile_error + (ident \<times> user) list \<times> string set" where
  "compile_user u = (\<lambda>(byID, names).
     case User_Validate u of Some e \<Rightarrow> Inl (CompileUser (user_ID u) e)
     | None \<Rightarrow>
         if map_of byID (user_ID u) \<noteq> None then Inl (CompileDuplicateUserID (user_ID u))
         else if UsernameNormalized u \<in> names then Inl (CompileDuplicateUsername (UsernameNormalized u))
         else Inr ((user_ID u, u) # byID, insert (UsernameNormalized u) names))"

record share_state =
  st_routes :: "route list"
  st_ids :: "ident set"
  st_slugs :: "string set"
  st_accounts :: "(string \<times> account) list"
  st_entries :: "(string \<times> discovery_entry list) list"
  st_warnings :: "string list"

definition map_put :: "'k \<Rightarrow> 'v \<Rightarrow> ('k \<times> 'v) list \<Rightarrow> ('k \<times> 'v) list" where
  "map_put k v m = (k, v) # filter (\<lambda>(k', _). k' \<noteq> k) m"

definition map_get :: "'k \<Rightarrow> ('k \<times> 'v list) list \<Rightarrow> 'v list" where
  "map_get k m = (case map_of m k of None \<Rightarrow> [] | Some v \<Rightarrow> v)"

text \<open>Recording the readers of a share for the discovery root.\<close>

fun add_discovery ::
  "discovery_entry \<Rightarrow> account list \<Rightarrow> (string \<times> account) list \<times> (string \<times> discovery_entry list) list
     \<Rightarrow> (string \<times> account) list \<times> (string \<times> discovery_entry list) list" where
  "add_discovery entry [] st = st"
| "add_discovery entry (a # as) (accounts, entries) =
     add_discovery entry as
       (map_put (acc_Username a) a accounts,
        map_put (acc_Username a) (map_get (acc_Username a) entries @ [entry]) entries)"

definition share_paths :: "string \<Rightarrow> string list" where
  "share_paths pathPrefix = [pathPrefix, pathPrefix @ ''/*'']"

definition compile_share ::
  "server_settings \<Rightarrow> string \<Rightarrow> (ident \<times> user) list \<Rightarrow> share_with_permissions \<Rightarrow> share_state
     \<Rightarrow> compile_error + share_state" where
  "compile_share settings hostname users item st =
     (let s = Share item in
      case Share_Validate s of Some e \<Rightarrow> Inl (CompileShare (share_ID s) e)
      | None \<Rightarrow>
        if share_ID s \<in> st_ids st then Inl (CompileDuplicateShareID (share_ID s))
        else if Slug s \<in> st_slugs st then Inl (CompileDuplicateSlug (Slug s))
        else let st1 = st\<lparr>st_ids := insert (share_ID s) (st_ids st),
                          st_slugs := insert (Slug s) (st_slugs st)\<rparr> in
        if \<not> share_Enabled s then Inr st1
        else case compileAccounts item users of Inl e \<Rightarrow> Inl e
        | Inr (readAccounts, writeAccounts) \<Rightarrow>
            let pathPrefix = joinPublicPath (PublicBasePath settings) (Slug s);
                paths = share_paths pathPrefix;
                readRoute = (if readAccounts \<noteq> []
                  then [permissionRoute paths readMethods readAccounts (Path s) pathPrefix hostname] else []);
                writeRoute = (if writeAccounts \<noteq> []
                  then [permissionRoute paths [] writeAccounts (Path s) pathPrefix hostname] else []);
                (accounts, entries) = add_discovery \<lparr>entry_Slug = Slug s, entry_Name = share_Name s\<rparr>
                  readAccounts (st_accounts st, st_entries st)
            in Inr (st1\<lparr>st_routes := st_routes st @ readRoute @ writeRoute,
                 st_accounts := accounts, st_entries := entries,
                 st_warnings := st_warnings st @
                   (if readAccounts = [] then [''share '' @ Slug s @ '' has no authorized users''] else [])\<rparr>))"

section \<open>The discovery root\<close>

definition entry_key :: "discovery_entry \<Rightarrow> string \<times> string" where
  "entry_key e = (entry_Slug e, entry_Name e)"

definition discovery_root :: "string \<Rightarrow> string" where
  "discovery_root basePath =
     (let r = trim_suffix basePath ''/'' in if r = [] then ''/'' else r)"

definition discovery_routes :: "server_settings \<Rightarrow> string \<Rightarrow> share_state \<Rightarrow> route list" where
  "discovery_routes settings hostname st =
     (if st_accounts st = [] then []
      else let usernames = sort (map fst (st_accounts st));
               accounts = map (\<lambda>n. the (map_of (st_accounts st) n)) usernames;
               entries = map (\<lambda>n. (n, sort_key entry_key (map_get n (st_entries st)))) usernames;
               rootPath = discovery_root (PublicBasePath settings);
               rootPaths = rootPath # (if rootPath \<noteq> ''/'' then [rootPath @ ''/''] else [])
           in [discoveryRoute rootPaths accounts entries rootPath hostname])"

section \<open>TLS\<close>

definition parse_octet :: "string \<Rightarrow> bool" where
  "parse_octet f \<longleftrightarrow>
     f \<noteq> [] \<and> list_all (\<lambda>c. CHR ''0'' \<le> c \<and> c \<le> CHR ''9'') f \<and> length f \<le> 3
     \<and> (length f > 1 \<longrightarrow> hd f \<noteq> CHR ''0'')
     \<and> foldl (\<lambda>n c. n * 10 + (byte_of c - 48)) 0 f \<le> 255"

text \<open>\<open>net.ParseIP(s) != nil\<close> for a string without a colon, which a valid hostname is.\<close>

definition is_ipv4 :: "string \<Rightarrow> bool" where
  "is_ipv4 s \<longleftrightarrow> length (split_on (CHR ''.'') s) = 4 \<and> list_all parse_octet (split_on (CHR ''.'') s)"

definition compileTLS ::
  "tls_profile \<Rightarrow> (ident \<times> dns_credential) list
     \<Rightarrow> compile_error + tls_app option \<times> tls_connection_policy list" where
  "compileTLS p providers =
     (if Mode p = TLSModeInternal then Inr (Some (TLSAutomation [Hostname p] InternalIssuer), [])
      else if Mode p = TLSModeCustom then
        Inr (Some (TLSCertificates (CertificatePath p) (PrivateKeyPath p) [''davdeck'']),
          [\<lparr>policy_SNI = (if is_ipv4 (Hostname p) then None else Some [Hostname p]),
            policy_AnyTag = [''davdeck'']\<rparr>])
      else if Mode p = TLSModeAutomatic then
        (if Challenge p \<noteq> TLSChallengeDNS then Inr (None, [])
         else case DNSProviderID p of None \<Rightarrow> Inl CompileDNSWithoutProvider
         | Some i \<Rightarrow>
           (case map_of providers i of None \<Rightarrow> Inl (CompileUnknownDNSProvider i)
            | Some credential \<Rightarrow>
              (case For (Provider credential) of
                 None \<Rightarrow> Inl (CompileUnsupportedDNSProvider (Provider credential))
               | Some a \<Rightarrow> Inr (Some (TLSAutomation [Hostname p]
                     (AcmeDNSIssuer (CaddyProvider a (dns_ID credential)))), []))))
      else Inr (None, []))"

section \<open>The compiler\<close>

definition fallback_route :: "string \<Rightarrow> route" where
  "fallback_route hostname =
     \<lparr>Match = [\<lparr>m_Path = [], m_Method = [], m_Host = [hostname]\<rparr>],
      Handle = [StaticResponseHandler 404 []], Terminal = True\<rparr>"

definition port_address :: "int \<Rightarrow> string" where
  "port_address p = CHR '':'' # show_int p"

definition plain_config :: "server_settings \<Rightarrow> route list \<Rightarrow> config" where
  "plain_config settings routes =
     \<lparr>cfg_HTTPPort = HTTPPort settings, cfg_HTTPSPort = HTTPSPort settings,
      cfg_Servers = [(''davdeck'', \<lparr>Listen = [port_address (HTTPPort settings)], Routes = routes,
        TLSConnectionPolicies = [], AutomaticHTTPS = None\<rparr>)],
      cfg_TLS = None, cfg_PKI = False\<rparr>"

definition tls_config ::
  "server_settings \<Rightarrow> route list \<Rightarrow> tls_profile \<Rightarrow> tls_app option \<Rightarrow> tls_connection_policy list \<Rightarrow> config" where
  "tls_config settings routes p app policies =
     \<lparr>cfg_HTTPPort = HTTPPort settings, cfg_HTTPSPort = HTTPSPort settings,
      cfg_Servers =
        [(''davdeck'', \<lparr>Listen = [port_address (HTTPSPort settings)],
            Routes = routes @ [fallback_route (Hostname p)], TLSConnectionPolicies = policies,
            AutomaticHTTPS = Some \<lparr>ah_Disabled = False, ah_DisableRedirects = True\<rparr>\<rparr>),
         (''davdeck-http-redirect'', \<lparr>Listen = [port_address (HTTPPort settings)],
            Routes = [httpsRedirectRoute (Hostname p) (HTTPSPort settings)], TLSConnectionPolicies = [],
            AutomaticHTTPS = Some \<lparr>ah_Disabled = True, ah_DisableRedirects = False\<rparr>\<rparr>)],
      cfg_TLS = app, cfg_PKI = (Mode p = TLSModeInternal)\<rparr>"

definition initial_share_state :: share_state where
  "initial_share_state =
     \<lparr>st_routes = [], st_ids = {}, st_slugs = {}, st_accounts = [], st_entries = [], st_warnings = []\<rparr>"

definition input_user_key :: "user \<Rightarrow> string \<times> ident" where
  "input_user_key u = (UsernameNormalized u, user_ID u)"

definition input_share_key :: "share_with_permissions \<Rightarrow> string \<times> ident" where
  "input_share_key s = (Slug (Share s), share_ID (Share s))"

definition input_hostname :: "runtime_input \<Rightarrow> string" where
  "input_hostname input = (case TLSProfile input of None \<Rightarrow> [] | Some p \<Rightarrow> Hostname p)"

definition compile_shares ::
  "runtime_input \<Rightarrow> (ident \<times> user) list \<Rightarrow> compile_error + share_state" where
  "compile_shares input users =
     for_each (compile_share (ServerSettings input) (input_hostname input) users)
       (sort_key input_share_key (Shares input)) initial_share_state"

definition compile_config ::
  "runtime_input \<Rightarrow> (ident \<times> dns_credential) list \<Rightarrow> share_state \<Rightarrow> compile_error + config" where
  "compile_config input providers st =
     (let settings = ServerSettings input;
          routes = discovery_routes settings (input_hostname input) st @ st_routes st
      in case TLSProfile input of
           None \<Rightarrow> Inr (plain_config settings routes)
         | Some p \<Rightarrow>
             (case compileTLS p providers of Inl e \<Rightarrow> Inl e
              | Inr (app, policies) \<Rightarrow> Inr (tls_config settings routes p app policies)))"

text \<open>\<open>Compile\<close> up to the configuration tree, with its warnings.\<close>

definition compile_tree :: "runtime_input \<Rightarrow> compile_error + config \<times> string list" where
  "compile_tree input =
     (case ServerSettings_Validate (ServerSettings input) of Some e \<Rightarrow> Inl (CompileSettings e)
      | None \<Rightarrow>
     (case for_each compile_provider (DNSProviderCredentials input) [] of Inl e \<Rightarrow> Inl e
      | Inr providers \<Rightarrow>
     (case Option.bind (TLSProfile input) TLSProfile_Validate of Some e \<Rightarrow> Inl (CompileTLSProfile e)
      | None \<Rightarrow>
     (case for_each compile_user (sort_key input_user_key (Users input)) ([], {}) of Inl e \<Rightarrow> Inl e
      | Inr (users, _) \<Rightarrow>
     (case compile_shares input users of Inl e \<Rightarrow> Inl e
      | Inr st \<Rightarrow>
     (case compile_config input providers st of Inl e \<Rightarrow> Inl e
      | Inr cfg \<Rightarrow> Inr (cfg, st_warnings st)))))))"

end
