(* ===== verification/Compiler_Facts.thy ===== *)
theory Compiler_Facts
  imports Compiler
begin

text \<open>
  What the compiler's loops compute.  \<open>share_readers\<close> and \<open>share_writers\<close> are the accounts a
  share grants, without loops; each loop of \<open>compile_tree\<close> succeeds exactly on valid distinct
  elements and then computes the obvious list.
\<close>

section \<open>Providers and users by identifier\<close>

lemma for_each_compile_provider:
  "for_each compile_provider ps m = Inr r \<longleftrightarrow>
     (\<forall>p \<in> set ps. DNSProviderCredential_Validate p = None)
     \<and> distinct (map dns_ID ps) \<and> dns_ID ` set ps \<inter> fst ` set m = {}
     \<and> r = rev (map (\<lambda>p. (dns_ID p, p)) ps) @ m"
  by (induction ps arbitrary: m) (auto simp: compile_provider_def map_of_eq_None_iff split: option.splits if_splits)

lemma for_each_compile_user:
  "for_each compile_user us (m, names) = Inr r \<longleftrightarrow>
     (\<forall>u \<in> set us. User_Validate u = None)
     \<and> distinct (map user_ID us) \<and> user_ID ` set us \<inter> fst ` set m = {}
     \<and> distinct (map UsernameNormalized us) \<and> UsernameNormalized ` set us \<inter> names = {}
     \<and> r = (rev (map (\<lambda>u. (user_ID u, u)) us) @ m, names \<union> UsernameNormalized ` set us)"
  by (induction us arbitrary: m names) (auto simp: compile_user_def map_of_eq_None_iff split: option.splits if_splits)

definition users_by_ID :: "user list \<Rightarrow> (ident \<times> user) list" where
  "users_by_ID us = rev (map (\<lambda>u. (user_ID u, u)) (sort_key input_user_key us))"

lemma map_of_rev_keys:
  assumes "distinct (map f xs)"
  shows "map_of (rev (map (\<lambda>x. (f x, x)) xs)) k = Some x \<longleftrightarrow> x \<in> set xs \<and> f x = k"
proof -
  have "map fst (rev (map (\<lambda>x. (f x, x)) xs)) = rev (map f xs)"
    by (simp add: rev_map [symmetric] comp_def)
  then have "distinct (map fst (rev (map (\<lambda>x. (f x, x)) xs)))" using assms by simp
  then show ?thesis by (auto simp: map_of_eq_Some_iff)
qed

lemma distinct_map_sort_key' [simp]: "distinct (map f (sort_key k xs)) \<longleftrightarrow> distinct (map f xs)"
  by (rule mset_eq_imp_distinct_iff) simp

lemma users_by_ID_Some:
  "distinct (map user_ID us) \<Longrightarrow>
     map_of (users_by_ID us) i = Some u \<longleftrightarrow> u \<in> set us \<and> user_ID u = i"
  by (simp add: users_by_ID_def map_of_rev_keys)

section \<open>The accounts of a share\<close>

definition grants :: "(ident \<times> user) list \<Rightarrow> share_permission \<Rightarrow> bool" where
  "grants users p \<longleftrightarrow>
     (case map_of users (perm_UserID p) of None \<Rightarrow> False
      | Some u \<Rightarrow> user_Enabled u \<and> Permission p \<noteq> PermissionNone)"

definition account_of :: "(ident \<times> user) list \<Rightarrow> share_permission \<Rightarrow> account" where
  "account_of users p =
     (let u = the (map_of users (perm_UserID p))
      in \<lparr>acc_Username = Username u, acc_Password = PasswordHash u\<rparr>)"

definition readers :: "(ident \<times> user) list \<Rightarrow> share_permission list \<Rightarrow> account list" where
  "readers users ps = map (account_of users) (filter (grants users) ps)"

definition writers :: "(ident \<times> user) list \<Rightarrow> share_permission list \<Rightarrow> account list" where
  "writers users ps =
     map (account_of users) (filter (\<lambda>p. grants users p \<and> Permission p = PermissionReadWrite) ps)"

definition permissions_compile :: "share \<Rightarrow> (ident \<times> user) list \<Rightarrow> share_permission list \<Rightarrow> bool" where
  "permissions_compile s users ps \<longleftrightarrow>
     (\<forall>p \<in> set ps. SharePermission_Validate p = None \<and> perm_ShareID p = share_ID s
        \<and> map_of users (perm_UserID p) \<noteq> None)
     \<and> distinct (map perm_UserID ps)"

lemma permission_None_neq [simp]:
  "PermissionReadWrite \<noteq> PermissionNone" "PermissionNone \<noteq> PermissionReadWrite"
  by (simp_all add: permission_defs)

lemma for_each_compile_permission:
  "for_each (compile_permission s users) ps (seen, r, w) = Inr t \<longleftrightarrow>
     permissions_compile s users ps \<and> perm_UserID ` set ps \<inter> seen = {}
     \<and> t = (seen \<union> perm_UserID ` set ps, r @ readers users ps, w @ writers users ps)"
proof (induction ps arbitrary: seen r w)
  case Nil
  then show ?case by (auto simp: permissions_compile_def readers_def writers_def)
next
  case (Cons p ps)
  have step: "compile_permission s users p (seen, r, w) = Inr x \<longleftrightarrow>
      SharePermission_Validate p = None \<and> perm_ShareID p = share_ID s
      \<and> map_of users (perm_UserID p) \<noteq> None \<and> perm_UserID p \<notin> seen
      \<and> x = (insert (perm_UserID p) seen, r @ readers users [p], w @ writers users [p])" for x
    by (auto simp: compile_permission_def readers_def writers_def grants_def account_of_def Let_def
        split: option.splits)
  have app: "readers users (p # ps) = readers users [p] @ readers users ps"
    "writers users (p # ps) = writers users [p] @ writers users ps"
    by (simp_all add: readers_def writers_def)
  show ?case
  proof (cases "compile_permission s users p (seen, r, w)")
    case (Inl e)
    with step show ?thesis by (fastforce simp: permissions_compile_def)
  next
    case (Inr x)
    with step [of x] Cons.IH show ?thesis
      by (auto simp: permissions_compile_def app simp del: append_assoc simp add: append_assoc [symmetric])
  qed
qed

definition share_readers :: "(ident \<times> user) list \<Rightarrow> share_with_permissions \<Rightarrow> account list" where
  "share_readers users item =
     sort_key acc_Username (readers users (sort_key perm_UserID (Permissions item)))"

definition share_writers :: "(ident \<times> user) list \<Rightarrow> share_with_permissions \<Rightarrow> account list" where
  "share_writers users item =
     sort_key acc_Username (writers users (sort_key perm_UserID (Permissions item)))"

lemma permissions_compile_sort [simp]:
  "permissions_compile s users (sort_key f ps) \<longleftrightarrow> permissions_compile s users ps"
  by (simp add: permissions_compile_def)

lemma compileAccounts_Inr:
  "compileAccounts item users = Inr x \<longleftrightarrow>
     permissions_compile (Share item) users (Permissions item)
     \<and> x = (share_readers users item, share_writers users item)"
  using for_each_compile_permission [of "Share item" users "sort_key perm_UserID (Permissions item)" "{}" "[]" "[]"]
  by (auto simp: compileAccounts_def share_readers_def share_writers_def split: sum.splits) blast+

lemma set_share_readers:
  "a \<in> set (share_readers users item) \<longleftrightarrow>
     (\<exists>p \<in> set (Permissions item). grants users p \<and> a = account_of users p)"
  by (auto simp: share_readers_def readers_def)

lemma set_share_writers:
  "a \<in> set (share_writers users item) \<longleftrightarrow>
     (\<exists>p \<in> set (Permissions item). grants users p \<and> Permission p = PermissionReadWrite
        \<and> a = account_of users p)"
  by (auto simp: share_writers_def writers_def)

section \<open>The loop over shares\<close>

definition share_prefix :: "server_settings \<Rightarrow> share_with_permissions \<Rightarrow> string" where
  "share_prefix settings item = joinPublicPath (PublicBasePath settings) (Slug (Share item))"

definition share_routes ::
  "server_settings \<Rightarrow> string \<Rightarrow> (ident \<times> user) list \<Rightarrow> share_with_permissions \<Rightarrow> route list" where
  "share_routes settings hostname users item =
     (let prefix = share_prefix settings item;
          route = (\<lambda>methods accounts. if accounts = [] then []
            else [permissionRoute (share_paths prefix) methods accounts (Path (Share item)) prefix hostname])
      in if \<not> share_Enabled (Share item) then []
         else route readMethods (share_readers users item) @ route [] (share_writers users item))"

definition share_entry :: "share_with_permissions \<Rightarrow> discovery_entry" where
  "share_entry item = \<lparr>entry_Slug = Slug (Share item), entry_Name = share_Name (Share item)\<rparr>"

definition enabled_readers :: "(ident \<times> user) list \<Rightarrow> share_with_permissions \<Rightarrow> account list" where
  "enabled_readers users item = (if share_Enabled (Share item) then share_readers users item else [])"

definition share_discovery where
  "share_discovery users item = add_discovery (share_entry item) (enabled_readers users item)"

definition share_warnings :: "(ident \<times> user) list \<Rightarrow> share_with_permissions \<Rightarrow> string list" where
  "share_warnings users item =
     (if share_Enabled (Share item) \<and> share_readers users item = []
      then [''share '' @ Slug (Share item) @ '' has no authorized users''] else [])"

definition share_compiles :: "(ident \<times> user) list \<Rightarrow> share_with_permissions \<Rightarrow> bool" where
  "share_compiles users item \<longleftrightarrow> Share_Validate (Share item) = None
     \<and> (share_Enabled (Share item) \<longrightarrow> permissions_compile (Share item) users (Permissions item))"

definition after_share ::
  "server_settings \<Rightarrow> string \<Rightarrow> (ident \<times> user) list \<Rightarrow> share_with_permissions \<Rightarrow> share_state \<Rightarrow> share_state" where
  "after_share settings hostname users item st =
     \<lparr>st_routes = st_routes st @ share_routes settings hostname users item,
      st_ids = insert (share_ID (Share item)) (st_ids st),
      st_slugs = insert (Slug (Share item)) (st_slugs st),
      st_accounts = fst (share_discovery users item (st_accounts st, st_entries st)),
      st_entries = snd (share_discovery users item (st_accounts st, st_entries st)),
      st_warnings = st_warnings st @ share_warnings users item\<rparr>"

lemma compile_share_Inr:
  "compile_share settings hostname users item st = Inr x \<longleftrightarrow>
     share_compiles users item \<and> share_ID (Share item) \<notin> st_ids st \<and> Slug (Share item) \<notin> st_slugs st
     \<and> x = after_share settings hostname users item st"
proof -
  let ?s = "Share item"
  have ok: "compile_share settings hostname users item st = Inr (after_share settings hostname users item st)"
    if "Share_Validate ?s = None" "share_ID ?s \<notin> st_ids st" "Slug ?s \<notin> st_slugs st"
      "share_Enabled ?s" "permissions_compile ?s users (Permissions item)"
  proof -
    from that(5) have acc: "compileAccounts item users = Inr (share_readers users item, share_writers users item)"
      by (simp add: compileAccounts_Inr)
    show ?thesis using that
      by (cases st) (simp add: compile_share_def Let_def acc after_share_def share_routes_def
          share_prefix_def share_warnings_def share_discovery_def enabled_readers_def share_entry_def
          case_prod_unfold)
  qed
  have dis: "compile_share settings hostname users item st = Inr (after_share settings hostname users item st)"
    if "Share_Validate ?s = None" "share_ID ?s \<notin> st_ids st" "Slug ?s \<notin> st_slugs st" "\<not> share_Enabled ?s"
    using that by (cases st) (simp add: compile_share_def Let_def after_share_def share_routes_def
        share_warnings_def share_discovery_def enabled_readers_def)
  have bad: "compile_share settings hostname users item st \<noteq> Inr x"
    if "share_Enabled ?s" "\<not> permissions_compile ?s users (Permissions item)"
  proof -
    from that(2) obtain e where "compileAccounts item users = Inl e"
      using compileAccounts_Inr [of item users] by (cases "compileAccounts item users") auto
    with that(1) show ?thesis by (simp add: compile_share_def Let_def split: option.split)
  qed
  show ?thesis
  proof (cases "Share_Validate ?s = None \<and> share_ID ?s \<notin> st_ids st \<and> Slug ?s \<notin> st_slugs st")
    case True
    show ?thesis
    proof (cases "share_compiles users item")
      case comp: True
      have "compile_share settings hostname users item st = Inr (after_share settings hostname users item st)"
        using ok dis comp True by (cases "share_Enabled ?s") (simp_all add: share_compiles_def)
      with comp True show ?thesis by auto
    next
      case comp: False
      with True bad show ?thesis by (simp add: share_compiles_def)
    qed
  next
    case False
    then show ?thesis by (auto simp: compile_share_def share_compiles_def Let_def split: option.split)
  qed
qed

lemma for_each_compile_share:
  "for_each (compile_share settings hostname users) ss st = Inr x \<longleftrightarrow>
     (\<forall>s \<in> set ss. share_compiles users s)
     \<and> distinct (map (share_ID \<circ> Share) ss) \<and> (share_ID \<circ> Share) ` set ss \<inter> st_ids st = {}
     \<and> distinct (map (Slug \<circ> Share) ss) \<and> (Slug \<circ> Share) ` set ss \<inter> st_slugs st = {}
     \<and> x = fold (after_share settings hostname users) ss st"
proof (induction ss arbitrary: st)
  case Nil
  then show ?case by auto
next
  case (Cons s ss)
  have f: "st_ids (after_share settings hostname users s st) = insert (share_ID (Share s)) (st_ids st)"
    "st_slugs (after_share settings hostname users s st) = insert (Slug (Share s)) (st_slugs st)"
    by (simp_all add: after_share_def)
  show ?case
  proof (cases "compile_share settings hostname users s st")
    case (Inl e)
    with compile_share_Inr [of settings hostname users s st] show ?thesis by fastforce
  next
    case (Inr y)
    with compile_share_Inr [of settings hostname users s st y] Cons.IH show ?thesis by (auto simp: f)
  qed
qed

text \<open>The fields of the state the loop ends in.\<close>

lemma fold_after_share:
  "st_routes (fold (after_share settings hostname users) ss st)
     = st_routes st @ concat (map (share_routes settings hostname users) ss)"
  "st_warnings (fold (after_share settings hostname users) ss st)
     = st_warnings st @ concat (map (share_warnings users) ss)"
  "(st_accounts (fold (after_share settings hostname users) ss st),
    st_entries (fold (after_share settings hostname users) ss st))
     = fold (share_discovery users) ss (st_accounts st, st_entries st)"
  by (induction ss arbitrary: st) (simp_all add: after_share_def)

end
