(* ===== verification/Snapshot.thy ===== *)
theory Snapshot
  imports Runtime_Input Json Sha256 "HOL-Library.Product_Lexorder"
begin

text \<open>
  Revision snapshots (\<^verbatim>\<open>domain/revision_snapshot.go\<close>): the canonical copy of the desired state
  stored with a revision, and the semantic identity whose hash decides whether two states are the
  same revision.  The snapshot's user and share types have exactly the fields of the domain
  types, so they share their records.
\<close>

definition ConfigRevisionSnapshotVersion :: int where
  "ConfigRevisionSnapshotVersion = 1"

record config_snapshot =
  snap_Version :: int
  snap_ServerSettings :: server_settings
  snap_TLSProfile :: "tls_profile option"
  snap_DNSProviders :: "dns_credential list"
  snap_Users :: "user list"
  snap_Shares :: "share_with_permissions list"

section \<open>Canonical copies\<close>

definition user_key :: "user \<Rightarrow> string \<times> ident" where
  "user_key u = (UsernameNormalized u, user_ID u)"

definition share_key :: "share_with_permissions \<Rightarrow> string \<times> ident" where
  "share_key s = (Slug (Share s), share_ID (Share s))"

definition dns_key :: "dns_credential \<Rightarrow> string \<times> ident" where
  "dns_key d = (dns_Name d, dns_ID d)"

definition sort_zones :: "dns_credential \<Rightarrow> dns_credential" where
  "sort_zones d = d\<lparr>AllowedZones := sort (AllowedZones d)\<rparr>"

definition sort_permissions :: "share_with_permissions \<Rightarrow> share_with_permissions" where
  "sort_permissions s = s\<lparr>Permissions := sort_key perm_UserID (Permissions s)\<rparr>"

definition NewConfigRevisionSnapshot :: "runtime_input \<Rightarrow> config_snapshot" where
  "NewConfigRevisionSnapshot input =
     \<lparr>snap_Version = ConfigRevisionSnapshotVersion,
      snap_ServerSettings = ServerSettings input,
      snap_TLSProfile = TLSProfile input,
      snap_DNSProviders = sort_key dns_key (map sort_zones (DNSProviderCredentials input)),
      snap_Users = sort_key user_key (Users input),
      snap_Shares = sort_key share_key (map sort_permissions (Shares input))\<rparr>"

definition Snapshot_RuntimeConfigInput :: "config_snapshot \<Rightarrow> runtime_input" where
  "Snapshot_RuntimeConfigInput s =
     \<lparr>ServerSettings = snap_ServerSettings s, TLSProfile = snap_TLSProfile s,
      DNSProviderCredentials = snap_DNSProviders s, Users = snap_Users s, Shares = snap_Shares s\<rparr>"

definition Snapshot_Validate :: "config_snapshot \<Rightarrow> input_error option" where
  "Snapshot_Validate s =
     (if snap_Version s \<noteq> ConfigRevisionSnapshotVersion
      then Some (UnsupportedSnapshotVersion (snap_Version s))
      else RuntimeConfigInput_Validate (Snapshot_RuntimeConfigInput s))"

section \<open>The semantic identity\<close>

text \<open>The identity drops creation and update times, reads an empty challenge as \<open>auto\<close> and
  skips \<open>NONE\<close> permissions.  It is built directly as the JSON tree that is hashed.\<close>

definition identity_settings :: "server_settings \<Rightarrow> json" where
  "identity_settings s = JObj
     (field ''id'' (JStr (settings_ID s)) @ field ''public_base_path'' (JStr (PublicBasePath s))
      @ field ''http_port'' (JInt (HTTPPort s)) @ field ''https_port'' (JInt (HTTPSPort s))
      @ field ''runtime_mode'' (JStr (RuntimeMode s)))"

definition identity_tls :: "tls_profile \<Rightarrow> json" where
  "identity_tls p = JObj
     (field ''id'' (JStr (tls_ID p)) @ field ''mode'' (JStr (Mode p))
      @ field ''hostname'' (JStr (Hostname p))
      @ field ''challenge'' (JStr (effective_challenge (Challenge p)))
      @ omit_none ''dns_provider_id'' (map_option JStr (DNSProviderID p))
      @ omit_empty_str ''certificate_path'' (CertificatePath p)
      @ omit_empty_str ''private_key_path'' (PrivateKeyPath p))"

definition identity_dns :: "dns_credential \<Rightarrow> json" where
  "identity_dns d = JObj
     (field ''id'' (JStr (dns_ID d)) @ field ''name'' (JStr (dns_Name d))
      @ field ''provider'' (JStr (Provider d))
      @ omit_empty_list ''allowed_zones'' (map JStr (AllowedZones d)))"

definition identity_user :: "user \<Rightarrow> json" where
  "identity_user u = JObj
     (field ''id'' (JStr (user_ID u)) @ field ''username'' (JStr (Username u))
      @ field ''username_normalized'' (JStr (UsernameNormalized u))
      @ field ''password_hash'' (JStr (PasswordHash u)) @ field ''enabled'' (JBool (user_Enabled u)))"

definition identity_permission :: "share_permission \<Rightarrow> json" where
  "identity_permission p = JObj
     (field ''share_id'' (JStr (perm_ShareID p)) @ field ''user_id'' (JStr (perm_UserID p))
      @ field ''permission'' (JStr (Permission p)))"

definition identity_share :: "share_with_permissions \<Rightarrow> json" where
  "identity_share item =
     (let s = Share item in JObj
      (field ''id'' (JStr (share_ID s)) @ field ''name'' (JStr (share_Name s))
       @ field ''slug'' (JStr (Slug s)) @ field ''path'' (JStr (Path s))
       @ field ''enabled'' (JBool (share_Enabled s))
       @ field ''permissions'' (JArr (map identity_permission
           (filter (\<lambda>p. Permission p \<noteq> PermissionNone) (Permissions item))))))"

definition revisionStateIdentityFromSnapshot :: "config_snapshot \<Rightarrow> json" where
  "revisionStateIdentityFromSnapshot s = JObj
     (field ''version'' (JInt (snap_Version s))
      @ field ''server_settings'' (identity_settings (snap_ServerSettings s))
      @ omit_none ''tls_profile'' (map_option identity_tls (snap_TLSProfile s))
      @ omit_empty_list ''dns_providers'' (map identity_dns (snap_DNSProviders s))
      @ field ''users'' (JArr (map identity_user (snap_Users s)))
      @ field ''shares'' (JArr (map identity_share (snap_Shares s))))"

definition HashConfigRevisionState :: "runtime_input \<Rightarrow> input_error + string" where
  "HashConfigRevisionState input =
     (let snapshot = NewConfigRevisionSnapshot input in
      case Snapshot_Validate snapshot of Some e \<Rightarrow> Inl e
      | None \<Rightarrow> Inr (sha256_hex (json_marshal (revisionStateIdentityFromSnapshot snapshot))))"

section \<open>Permutations of a state\<close>

text \<open>Two inputs that list the same providers, users, shares and permissions, each in some
  order.\<close>

definition dns_meaning :: "dns_credential \<Rightarrow> dns_credential \<times> string multiset" where
  "dns_meaning d = (d\<lparr>AllowedZones := []\<rparr>, mset (AllowedZones d))"

definition share_meaning :: "share_with_permissions \<Rightarrow> share \<times> share_permission multiset" where
  "share_meaning s = (Share s, mset (Permissions s))"

definition same_up_to_order :: "runtime_input \<Rightarrow> runtime_input \<Rightarrow> bool" where
  "same_up_to_order i j \<longleftrightarrow>
     ServerSettings i = ServerSettings j \<and> TLSProfile i = TLSProfile j
     \<and> mset (map dns_meaning (DNSProviderCredentials i)) = mset (map dns_meaning (DNSProviderCredentials j))
     \<and> mset (Users i) = mset (Users j)
     \<and> mset (map share_meaning (Shares i)) = mset (map share_meaning (Shares j))"

lemma sort_zones_factor: "sort_zones d = (case dns_meaning d of (d0, m) \<Rightarrow>
    d0\<lparr>AllowedZones := sorted_list_of_multiset m\<rparr>)"
  by (simp add: sort_zones_def dns_meaning_def)

definition list_of_mset :: "'a multiset \<Rightarrow> 'a list" where
  "list_of_mset m = (SOME xs. mset xs = m)"

lemma mset_list_of_mset: "mset (list_of_mset m) = m"
  unfolding list_of_mset_def by (rule someI_ex) (rule ex_mset)

lemma sort_permissions_factor:
  assumes "distinct (map perm_UserID (Permissions s))"
  shows "sort_permissions s = (case share_meaning s of (s0, m) \<Rightarrow>
    \<lparr>Share = s0, Permissions = sort_key perm_UserID (list_of_mset m)\<rparr>)"
  using sort_key_perm_eq [OF mset_list_of_mset [symmetric] assms]
  by (simp add: sort_permissions_def share_meaning_def)

lemma mset_map_factor:
  assumes "mset (map v xs) = mset (map v ys)"
    and "\<And>x. x \<in> set xs \<Longrightarrow> f x = g (v x)" and "\<And>y. y \<in> set ys \<Longrightarrow> f y = g (v y)"
  shows "mset (map f xs) = mset (map f ys)"
proof -
  have f: "map f xs = map g (map v xs)" "map f ys = map g (map v ys)"
    using assms(2,3) by simp_all
  show ?thesis unfolding f mset_map [of g] using assms(1) by (rule arg_cong)
qed

lemma mset_map_imp:
  assumes "mset (map v xs) = mset (map v ys)" and "\<And>x. f x = g (v x)"
  shows "mset (map f xs) = mset (map f ys)"
  using assms(1) by (rule mset_map_factor) (simp_all add: assms(2))

text \<open>The keys a state sorts and looks things up by are distinct; a valid state has this.\<close>

definition distinct_keys :: "runtime_input \<Rightarrow> bool" where
  "distinct_keys i \<longleftrightarrow>
     distinct (map dns_ID (DNSProviderCredentials i)) \<and> distinct (map user_ID (Users i))
     \<and> distinct (map (share_ID \<circ> Share) (Shares i))
     \<and> (\<forall>s \<in> set (Shares i). distinct (map perm_UserID (Permissions s)))"

lemma well_formed_distinct_keys: "well_formed_input i \<Longrightarrow> distinct_keys i"
  by (auto simp: well_formed_input_def distinct_keys_def well_formed_permissions_def)

lemma distinct_map_pair: "distinct (map g xs) \<Longrightarrow> distinct (map (\<lambda>x. (f x, g x)) xs)"
  by (auto simp: distinct_map inj_on_def)

lemma distinct_sort_keys:
  assumes "distinct_keys i"
  shows "distinct (map dns_key (map sort_zones (DNSProviderCredentials i)))"
    and "distinct (map user_key (Users i))"
    and "distinct (map share_key (map sort_permissions (Shares i)))"
  using assms distinct_map_pair [of dns_ID "DNSProviderCredentials i" dns_Name]
    distinct_map_pair [of user_ID "Users i" UsernameNormalized]
    distinct_map_pair [of "share_ID \<circ> Share" "Shares i" "Slug \<circ> Share"]
  by (simp_all add: distinct_keys_def comp_def dns_key_def sort_zones_def user_key_def [abs_def]
      share_key_def sort_permissions_def)

lemma share_view_distinct:
  assumes "distinct_keys i" and "mset (map share_meaning (Shares i)) = mset (map share_meaning (Shares j))"
    and "s \<in> set (Shares j)"
  shows "distinct (map perm_UserID (Permissions s))"
proof -
  from assms(2) have "share_meaning ` set (Shares i) = share_meaning ` set (Shares j)"
    by (metis list.set_map mset_eq_setD)
  with assms(3) obtain s' where s': "s' \<in> set (Shares i)" "share_meaning s = share_meaning s'" by blast
  from s'(2) have "mset (map perm_UserID (Permissions s)) = mset (map perm_UserID (Permissions s'))"
    by (simp add: share_meaning_def)
  moreover have "distinct (map perm_UserID (Permissions s'))"
    using assms(1) s'(1) by (simp add: distinct_keys_def)
  ultimately show ?thesis by (metis mset_eq_imp_distinct_iff)
qed

text \<open>A state and any reordering of it have the same canonical snapshot.\<close>

lemma snapshot_order_independent:
  assumes "distinct_keys i" and "same_up_to_order i j"
  shows "NewConfigRevisionSnapshot i = NewConfigRevisionSnapshot j"
proof -
  note k = distinct_sort_keys [OF assms(1)]
  note s = assms(2) [unfolded same_up_to_order_def]
  have d: "mset (map sort_zones (DNSProviderCredentials i)) = mset (map sort_zones (DNSProviderCredentials j))"
    by (rule mset_map_imp [where v = dns_meaning]) (use s sort_zones_factor in \<open>auto\<close>)
  have h: "mset (map sort_permissions (Shares i)) = mset (map sort_permissions (Shares j))"
    by (rule mset_map_factor [where v = share_meaning])
       (use s assms(1) share_view_distinct [OF assms(1)] sort_permissions_factor in
          \<open>auto simp: distinct_keys_def\<close>)
  from s sort_key_perm_eq [OF d k(1)] sort_key_perm_eq [OF h k(3)]
    sort_key_perm_eq [of "Users i" "Users j", OF _ k(2)]
  show ?thesis by (simp add: NewConfigRevisionSnapshot_def)
qed

section \<open>Snapshots are canonical and keep validity\<close>

lemma sort_zones_idem [simp]: "sort_zones (sort_zones d) = sort_zones d"
  by (simp add: sort_zones_def sort_key_idem)

lemma sort_permissions_idem [simp]: "sort_permissions (sort_permissions s) = sort_permissions s"
  by (simp add: sort_permissions_def sort_key_idem)

lemma map_sorted_copies:
  "map sort_zones (sort_key f (map sort_zones ds)) = sort_key f (map sort_zones ds)"
  "map sort_permissions (sort_key g (map sort_permissions ss)) = sort_key g (map sort_permissions ss)"
  by (auto intro!: map_idI)

lemma snapshot_idempotent:
  "NewConfigRevisionSnapshot (Snapshot_RuntimeConfigInput (NewConfigRevisionSnapshot i))
     = NewConfigRevisionSnapshot i"
  by (simp add: NewConfigRevisionSnapshot_def Snapshot_RuntimeConfigInput_def map_sorted_copies
      sort_key_idem)

lemma distinct_map_sort_key [simp]: "distinct (map f (sort_key k xs)) \<longleftrightarrow> distinct (map f xs)"
  by (rule mset_eq_imp_distinct_iff) simp

lemma validate_sort_zones [simp]:
  "DNSProviderCredential_Validate (sort_zones d) = None \<longleftrightarrow> DNSProviderCredential_Validate d = None"
  by (simp add: DNSProviderCredential_Validate_def sort_zones_def validate_zones_None_iff)

lemma well_formed_sort_permissions [simp]:
  "well_formed_permissions us sid (sort_key f ps) \<longleftrightarrow> well_formed_permissions us sid ps"
  by (simp add: well_formed_permissions_def)

lemma sorted_copies_fields [simp]:
  "dns_ID (sort_zones d) = dns_ID d" "dns_Name (sort_zones d) = dns_Name d"
  "Share (sort_permissions s) = Share s"
  "Permissions (sort_permissions s) = sort_key perm_UserID (Permissions s)"
  by (simp_all add: sort_zones_def sort_permissions_def)

lemma well_formed_snapshot:
  "well_formed_input (Snapshot_RuntimeConfigInput (NewConfigRevisionSnapshot i))
     \<longleftrightarrow> well_formed_input i"
  by (simp add: well_formed_input_def Snapshot_RuntimeConfigInput_def NewConfigRevisionSnapshot_def
      image_image comp_def)

lemma Snapshot_Validate_New:
  "Snapshot_Validate (NewConfigRevisionSnapshot i) = None \<longleftrightarrow> well_formed_input i"
  by (simp add: Snapshot_Validate_def RuntimeConfigInput_Validate_iff well_formed_snapshot)
     (simp add: NewConfigRevisionSnapshot_def)

section \<open>What the identity forgets\<close>

text \<open>\<open>erase\<close> keeps what a state means: no times, an explicit challenge, no \<open>NONE\<close> entries.\<close>

definition no_time :: timestamp where
  "no_time = Time 0 True"

definition erase_permissions :: "share_permission list \<Rightarrow> share_permission list" where
  "erase_permissions ps =
     map (\<lambda>p. p\<lparr>perm_CreatedAt := no_time, perm_UpdatedAt := no_time\<rparr>)
       (filter (\<lambda>p. Permission p \<noteq> PermissionNone) ps)"

definition erase_share :: "share_with_permissions \<Rightarrow> share_with_permissions" where
  "erase_share s =
     \<lparr>Share = (Share s)\<lparr>share_CreatedAt := no_time, share_UpdatedAt := no_time\<rparr>,
      Permissions = erase_permissions (Permissions s)\<rparr>"

definition erase_user :: "user \<Rightarrow> user" where
  "erase_user u = u\<lparr>user_CreatedAt := no_time, user_UpdatedAt := no_time\<rparr>"

definition erase_dns :: "dns_credential \<Rightarrow> dns_credential" where
  "erase_dns d = d\<lparr>dns_CreatedAt := no_time, dns_UpdatedAt := no_time\<rparr>"

definition erase_tls :: "tls_profile \<Rightarrow> tls_profile" where
  "erase_tls p = p\<lparr>Challenge := effective_challenge (Challenge p),
     tls_CreatedAt := no_time, tls_UpdatedAt := no_time\<rparr>"

definition erase :: "runtime_input \<Rightarrow> runtime_input" where
  "erase i =
     \<lparr>ServerSettings = (ServerSettings i)\<lparr>settings_CreatedAt := no_time, settings_UpdatedAt := no_time\<rparr>,
      TLSProfile = map_option erase_tls (TLSProfile i),
      DNSProviderCredentials = map erase_dns (DNSProviderCredentials i),
      Users = map erase_user (Users i),
      Shares = map erase_share (Shares i)\<rparr>"

definition same_meaning :: "runtime_input \<Rightarrow> runtime_input \<Rightarrow> bool" where
  "same_meaning i j \<longleftrightarrow> same_up_to_order (erase i) (erase j)"

lemma map_insort_key:
  "(\<And>x. k (g x) = k x) \<Longrightarrow> map g (insort_key k x xs) = insort_key k (g x) (map g xs)"
  by (induction xs) simp_all

lemma map_sort_key [sort_facts]:
  "(\<And>x. k (g x) = k x) \<Longrightarrow> map g (sort_key k xs) = sort_key k (map g xs)"
  by (induction xs) (simp_all add: map_insort_key)

lemma erase_keys [simp]:
  "user_key (erase_user u) = user_key u" "dns_key (erase_dns d) = dns_key d"
  "share_key (erase_share s) = share_key s" "user_ID (erase_user u) = user_ID u"
  "dns_ID (erase_dns d) = dns_ID d" "share_ID (Share (erase_share s)) = share_ID (Share s)"
  "effective_challenge (effective_challenge c) = effective_challenge c"
  by (simp_all add: user_key_def erase_user_def dns_key_def erase_dns_def share_key_def
      erase_share_def effective_challenge_def)

lemma erase_sort_zones: "sort_zones (erase_dns d) = erase_dns (sort_zones d)"
  by (simp add: sort_zones_def erase_dns_def)

lemma erase_permissions_sort:
  "erase_permissions (sort_key perm_UserID ps) = sort_key perm_UserID (erase_permissions ps)"
  by (simp add: erase_permissions_def filter_sort map_sort_key)

lemma erase_sort_permissions: "sort_permissions (erase_share s) = erase_share (sort_permissions s)"
  by (simp add: sort_permissions_def erase_share_def erase_permissions_sort)

lemma identity_erased [simp]:
  "identity_user (erase_user u) = identity_user u"
  "identity_dns (erase_dns d) = identity_dns d"
  "identity_tls (erase_tls p) = identity_tls p"
  "identity_settings (st\<lparr>settings_CreatedAt := t, settings_UpdatedAt := t'\<rparr>) = identity_settings st"
  by (simp_all add: identity_user_def erase_user_def identity_dns_def erase_dns_def identity_tls_def
      erase_tls_def identity_settings_def effective_challenge_def)

lemma identity_share_erased [simp]: "identity_share (erase_share s) = identity_share s"
proof -
  have "map identity_permission (filter (\<lambda>p. Permission p \<noteq> PermissionNone) (erase_permissions ps))
      = map identity_permission (filter (\<lambda>p. Permission p \<noteq> PermissionNone) ps)" for ps
    by (induction ps) (simp_all add: erase_permissions_def identity_permission_def)
  then show ?thesis by (simp add: identity_share_def erase_share_def Let_def)
qed

lemma identity_erase:
  "revisionStateIdentityFromSnapshot (NewConfigRevisionSnapshot (erase i))
     = revisionStateIdentityFromSnapshot (NewConfigRevisionSnapshot i)"
proof -
  have d: "sort_key dns_key (map (\<lambda>x. sort_zones (erase_dns x)) ds)
      = map erase_dns (sort_key dns_key (map sort_zones ds))" for ds
    by (simp add: map_sort_key erase_sort_zones comp_def)
  have s: "sort_key share_key (map (\<lambda>x. sort_permissions (erase_share x)) ss)
      = map erase_share (sort_key share_key (map sort_permissions ss))" for ss
    by (simp add: map_sort_key erase_sort_permissions comp_def)
  have u: "sort_key user_key (map erase_user us) = map erase_user (sort_key user_key us)" for us
    by (simp add: map_sort_key)
  show ?thesis
    by (simp add: revisionStateIdentityFromSnapshot_def NewConfigRevisionSnapshot_def erase_def d s u
        comp_def option.map_comp)
qed

lemma distinct_keys_erase: "distinct_keys i \<Longrightarrow> distinct_keys (erase i)"
  by (auto simp: distinct_keys_def erase_def comp_def erase_share_def erase_permissions_def
      map_filter_distinct)

lemma identity_same_meaning:
  assumes "distinct_keys i" and "same_meaning i j"
  shows "revisionStateIdentityFromSnapshot (NewConfigRevisionSnapshot i)
    = revisionStateIdentityFromSnapshot (NewConfigRevisionSnapshot j)"
  using snapshot_order_independent [OF distinct_keys_erase [OF assms(1)]] assms(2) identity_erase
  by (metis same_meaning_def)

lemma HashConfigRevisionState_ok:
  "well_formed_input i \<Longrightarrow> HashConfigRevisionState i
     = Inr (sha256_hex (json_marshal (revisionStateIdentityFromSnapshot (NewConfigRevisionSnapshot i))))"
  using Snapshot_Validate_New [of i] by (simp add: HashConfigRevisionState_def Let_def)

end
