(* ===== verification/Compiler_Correct.thy ===== *)
theory Compiler_Correct
  imports Compiler_Facts Snapshot
begin

text \<open>
  The compiler as a whole.  \<open>compile_tree_Inr\<close> replaces its loops by the lists they compute;
  the rest says what the compiled configuration grants, what the discovery root shows, which
  warnings come with it and that the order of the desired state does not matter.
\<close>

section \<open>The compiler without its loops\<close>

definition providers_by_ID :: "dns_credential list \<Rightarrow> (ident \<times> dns_credential) list" where
  "providers_by_ID ps = rev (map (\<lambda>p. (dns_ID p, p)) ps)"

definition sorted_shares :: "runtime_input \<Rightarrow> share_with_permissions list" where
  "sorted_shares input = sort_key input_share_key (Shares input)"

definition final_shares :: "runtime_input \<Rightarrow> share_state" where
  "final_shares input =
     fold (after_share (ServerSettings input) (input_hostname input) (users_by_ID (Users input)))
       (sorted_shares input) initial_share_state"

definition compilable :: "runtime_input \<Rightarrow> bool" where
  "compilable input \<longleftrightarrow>
     ServerSettings_Validate (ServerSettings input) = None
     \<and> (\<forall>p \<in> set (DNSProviderCredentials input). DNSProviderCredential_Validate p = None)
     \<and> distinct (map dns_ID (DNSProviderCredentials input))
     \<and> Option.bind (TLSProfile input) TLSProfile_Validate = None
     \<and> (\<forall>u \<in> set (Users input). User_Validate u = None)
     \<and> distinct (map user_ID (Users input))
     \<and> distinct (map UsernameNormalized (Users input))
     \<and> (\<forall>s \<in> set (Shares input). share_compiles (users_by_ID (Users input)) s)
     \<and> distinct (map (share_ID \<circ> Share) (Shares input))
     \<and> distinct (map (Slug \<circ> Share) (Shares input))"

lemma initial_share_state_simps [simp]:
  "st_routes initial_share_state = []" "st_ids initial_share_state = {}"
  "st_slugs initial_share_state = {}" "st_accounts initial_share_state = []"
  "st_entries initial_share_state = []" "st_warnings initial_share_state = []"
  by (simp_all add: initial_share_state_def)

lemma not_Inr: "(\<And>r. x \<noteq> Inr r) \<Longrightarrow> \<exists>e. x = Inl e"
  by (cases x) auto

lemma users_loop:
  "for_each compile_user (sort_key input_user_key us) ([], {}) = Inr r \<longleftrightarrow>
     (\<forall>u \<in> set us. User_Validate u = None) \<and> distinct (map user_ID us)
     \<and> distinct (map UsernameNormalized us) \<and> r = (users_by_ID us, UsernameNormalized ` set us)"
  by (auto simp: for_each_compile_user users_by_ID_def)

lemma providers_loop:
  "for_each compile_provider ps [] = Inr r \<longleftrightarrow>
     (\<forall>p \<in> set ps. DNSProviderCredential_Validate p = None)
     \<and> distinct (map dns_ID ps) \<and> r = providers_by_ID ps"
  by (simp add: for_each_compile_provider providers_by_ID_def)

lemma shares_loop:
  "compile_shares input (users_by_ID (Users input)) = Inr r \<longleftrightarrow>
     (\<forall>s \<in> set (Shares input). share_compiles (users_by_ID (Users input)) s)
     \<and> distinct (map (share_ID \<circ> Share) (Shares input))
     \<and> distinct (map (Slug \<circ> Share) (Shares input)) \<and> r = final_shares input"
  by (simp add: compile_shares_def for_each_compile_share final_shares_def sorted_shares_def)

lemma compile_tree_Inr:
  "compile_tree input = Inr r \<longleftrightarrow>
     compilable input
     \<and> compile_config input (providers_by_ID (DNSProviderCredentials input)) (final_shares input)
         = Inr (fst r)
     \<and> snd r = st_warnings (final_shares input)"
proof -
  let ?ps = "DNSProviderCredentials input" and ?us = "Users input"
  consider (bad) "\<not> ((\<forall>p \<in> set ?ps. DNSProviderCredential_Validate p = None) \<and> distinct (map dns_ID ?ps))"
    | (badu) "for_each compile_provider ?ps [] = Inr (providers_by_ID ?ps)"
        "\<not> ((\<forall>u \<in> set ?us. User_Validate u = None) \<and> distinct (map user_ID ?us)
            \<and> distinct (map UsernameNormalized ?us))"
    | (ok) "for_each compile_provider ?ps [] = Inr (providers_by_ID ?ps)"
        "for_each compile_user (sort_key input_user_key ?us) ([], {})
           = Inr (users_by_ID ?us, UsernameNormalized ` set ?us)"
    using providers_loop [of ?ps "providers_by_ID ?ps"]
      users_loop [of ?us "(users_by_ID ?us, UsernameNormalized ` set ?us)"] by argo
  then show ?thesis
  proof cases
    case bad
    then have "for_each compile_provider ?ps [] \<noteq> Inr x" for x
      using providers_loop [of ?ps x] by argo
    then obtain e where "for_each compile_provider ?ps [] = Inl e"
      by (metis not_Inr)
    then have "compile_tree input \<noteq> Inr r"
      by (simp add: compile_tree_def split: option.split)
    with bad show ?thesis by (simp add: compilable_def) argo
  next
    case badu
    then have "for_each compile_user (sort_key input_user_key ?us) ([], {}) \<noteq> Inr x" for x
      using users_loop [of ?us x] by argo
    then obtain e where "for_each compile_user (sort_key input_user_key ?us) ([], {}) = Inl e"
      by (metis not_Inr)
    then have "compile_tree input \<noteq> Inr r"
      using badu(1) by (simp add: compile_tree_def split: option.split)
    with badu(2) show ?thesis by (simp add: compilable_def) argo
  next
    case ok
    note valid = ok [unfolded providers_loop users_loop]
    show ?thesis
    proof (cases "compile_shares input (users_by_ID ?us)")
      case (Inl e)
      with ok have "compile_tree input \<noteq> Inr r"
        by (simp add: compile_tree_def split: option.split)
      moreover from Inl shares_loop [of input "final_shares input"] have "\<not> compilable input"
        by (simp add: compilable_def) 
      ultimately show ?thesis by simp
    next
      case (Inr st)
      note st = Inr [unfolded shares_loop]
      have "compilable input \<longleftrightarrow> ServerSettings_Validate (ServerSettings input) = None
          \<and> Option.bind (TLSProfile input) TLSProfile_Validate = None"
        using valid st by (simp add: compilable_def)
      moreover have "compile_tree input =
          (case ServerSettings_Validate (ServerSettings input) of Some e \<Rightarrow> Inl (CompileSettings e)
           | None \<Rightarrow> (case Option.bind (TLSProfile input) TLSProfile_Validate of
               Some e \<Rightarrow> Inl (CompileTLSProfile e)
             | None \<Rightarrow> (case compile_config input (providers_by_ID ?ps) (final_shares input) of
                 Inl e \<Rightarrow> Inl e | Inr cfg \<Rightarrow> Inr (cfg, st_warnings (final_shares input)))))"
        using st Inr by (simp only: compile_tree_def ok sum.case prod.case)
      ultimately show ?thesis
        by (cases r) (simp split: option.split sum.split, blast)
    qed
  qed
qed

lemma well_formed_compilable: "well_formed_input input \<Longrightarrow> compilable input"
proof -
  assume wf: "well_formed_input input"
  have users: "map_of (users_by_ID (Users input)) i \<noteq> None" if "i \<in> user_ID ` set (Users input)" for i
    using that wf users_by_ID_Some [of "Users input"] by (auto simp: well_formed_input_def)
  have "share_compiles (users_by_ID (Users input)) s" if "s \<in> set (Shares input)" for s
    using wf that users
    by (auto simp: share_compiles_def permissions_compile_def well_formed_input_def
        well_formed_permissions_def)
  with wf show ?thesis
    by (cases "TLSProfile input") (simp_all add: well_formed_input_def compilable_def)
qed

section \<open>Who gets in\<close>

definition all_routes :: "config \<Rightarrow> route list" where
  "all_routes cfg = concat (map (Routes \<circ> snd) (cfg_Servers cfg))"

definition user_account :: "user \<Rightarrow> account" where
  "user_account u = \<lparr>acc_Username = Username u, acc_Password = PasswordHash u\<rparr>"

text \<open>\<open>admits\<close>: some route of the configuration lets this account reach the directory \<open>root\<close>
  below \<open>prefix\<close> with these methods; the empty list stands for every method.\<close>

definition admits :: "config \<Rightarrow> string list \<Rightarrow> account \<Rightarrow> string \<Rightarrow> string \<Rightarrow> bool" where
  "admits cfg methods a root prefix \<longleftrightarrow>
     (\<exists>r \<in> set (all_routes cfg). \<exists>accounts paths hosts.
        Handle r = [AuthenticationHandler accounts, WebDAVHandler root prefix]
        \<and> Match r = [\<lparr>m_Path = paths, m_Method = methods, m_Host = hosts\<rparr>] \<and> a \<in> set accounts)"

text \<open>The desired state gives the account a permission of this kind on an enabled share.\<close>

definition permitted ::
  "runtime_input \<Rightarrow> permission set \<Rightarrow> account \<Rightarrow> string \<Rightarrow> string \<Rightarrow> bool" where
  "permitted input kinds a root prefix \<longleftrightarrow>
     (\<exists>item \<in> set (Shares input). \<exists>u \<in> set (Users input). \<exists>p \<in> set (Permissions item).
        share_Enabled (Share item) \<and> root = Path (Share item)
        \<and> prefix = share_prefix (ServerSettings input) item
        \<and> perm_UserID p = user_ID u \<and> user_Enabled u \<and> Permission p \<in> kinds \<and> a = user_account u)"

lemma permission_kinds:
  "SharePermission_Validate p = None \<Longrightarrow>
     Permission p \<noteq> PermissionNone \<longleftrightarrow> Permission p \<in> {PermissionRead, PermissionReadWrite}"
  by (auto simp: SharePermission_Validate_def Permission_Valid_def permission_defs)

lemma grants_users:
  assumes "distinct (map user_ID us)"
  shows "grants (users_by_ID us) p \<longleftrightarrow>
    (\<exists>u \<in> set us. user_ID u = perm_UserID p \<and> user_Enabled u \<and> Permission p \<noteq> PermissionNone)"
proof (cases "map_of (users_by_ID us) (perm_UserID p)")
  case None
  with users_by_ID_Some [OF assms, of "perm_UserID p"] show ?thesis
    by (simp add: grants_def)
next
  case (Some u)
  with users_by_ID_Some [OF assms, of "perm_UserID p" u]
  have u: "u \<in> set us" "user_ID u = perm_UserID p" by simp_all
  have "u' \<in> set us \<and> user_ID u' = perm_UserID p \<longleftrightarrow> u' = u" for u'
    using distinct_map_eq [OF assms _ u(1), of u'] u by auto
  with Some show ?thesis by (simp add: grants_def) metis
qed

lemma account_of_users:
  assumes "distinct (map user_ID us)" and "u \<in> set us" and "user_ID u = perm_UserID p"
  shows "account_of (users_by_ID us) p = user_account u"
  using users_by_ID_Some [OF assms(1), of "perm_UserID p" u] assms(2,3)
  by (simp add: account_of_def user_account_def)

lemma granted_account:
  assumes "distinct (map user_ID us)"
  shows "grants (users_by_ID us) p \<and> a = account_of (users_by_ID us) p \<longleftrightarrow>
    (\<exists>u \<in> set us. perm_UserID p = user_ID u \<and> user_Enabled u \<and> Permission p \<noteq> PermissionNone
       \<and> a = user_account u)"
  unfolding grants_users [OF assms] using account_of_users [OF assms] by metis

lemma in_share_readers:
  assumes "distinct (map user_ID us)" and "permissions_compile s (users_by_ID us) (Permissions item)"
  shows "a \<in> set (share_readers (users_by_ID us) item) \<longleftrightarrow>
    (\<exists>u \<in> set us. \<exists>p \<in> set (Permissions item). perm_UserID p = user_ID u \<and> user_Enabled u
       \<and> Permission p \<in> {PermissionRead, PermissionReadWrite} \<and> a = user_account u)"
proof -
  have "Permission p \<noteq> PermissionNone \<longleftrightarrow> Permission p \<in> {PermissionRead, PermissionReadWrite}"
    if "p \<in> set (Permissions item)" for p
    using assms(2) that by (intro permission_kinds) (simp add: permissions_compile_def)
  then show ?thesis
    unfolding set_share_readers granted_account [OF assms(1)] by fast
qed

lemma in_share_writers:
  assumes "distinct (map user_ID us)"
  shows "a \<in> set (share_writers (users_by_ID us) item) \<longleftrightarrow>
    (\<exists>u \<in> set us. \<exists>p \<in> set (Permissions item). perm_UserID p = user_ID u \<and> user_Enabled u
       \<and> Permission p \<in> {PermissionReadWrite} \<and> a = user_account u)"
proof -
  have "a \<in> set (share_writers (users_by_ID us) item) \<longleftrightarrow> (\<exists>p \<in> set (Permissions item).
      (grants (users_by_ID us) p \<and> a = account_of (users_by_ID us) p) \<and> Permission p = PermissionReadWrite)"
    by (auto simp: set_share_writers)
  then show ?thesis
    unfolding granted_account [OF assms] using permission_None_neq by (metis singletonD singletonI)
qed

text \<open>A writer is a reader, so the unrestricted route never admits an account that the route for
  the reading methods, which comes first, turns away.\<close>

lemma writers_are_readers:
  "set (share_writers users item) \<subseteq> set (share_readers users item)"
  by (auto simp: set_share_writers set_share_readers)

section \<open>The routes of a configuration\<close>

lemma compile_config_routes:
  assumes "compile_config input providers st = Inr cfg"
  shows "set (all_routes cfg) =
    set (discovery_routes (ServerSettings input) (input_hostname input) st) \<union> set (st_routes st)
    \<union> (case TLSProfile input of None \<Rightarrow> {}
       | Some p \<Rightarrow> {fallback_route (Hostname p),
                    httpsRedirectRoute (Hostname p) (HTTPSPort (ServerSettings input))})"
  using assms
  by (auto simp: compile_config_def Let_def all_routes_def plain_config_def tls_config_def
      split: option.splits sum.splits)

lemma final_routes:
  "set (st_routes (final_shares input)) =
     (\<Union>item \<in> set (Shares input). set (share_routes (ServerSettings input) (input_hostname input)
        (users_by_ID (Users input)) item))"
  by (simp add: final_shares_def fold_after_share sorted_shares_def)

lemma static_routes [simp]:
  "Handle (fallback_route h) = [StaticResponseHandler 404 []]"
  "\<exists>location. Handle (httpsRedirectRoute h port) = [StaticResponseHandler 308 location]"
  "WebDAVHandler root prefix \<notin> set (Handle (fallback_route h))"
  "WebDAVHandler root prefix \<notin> set (Handle (httpsRedirectRoute h port))"
  by (simp_all add: fallback_route_def httpsRedirectRoute_def Let_def)

lemma discovery_no_webdav:
  "r \<in> set (discovery_routes settings h st) \<Longrightarrow> WebDAVHandler root prefix \<notin> set (Handle r)"
  by (auto simp: discovery_routes_def Let_def discoveryRoute_def split: if_splits)

lemma webdav_routes:
  assumes "compile_tree input = Inr (cfg, ws)"
  shows "r \<in> set (all_routes cfg) \<and> WebDAVHandler root prefix \<in> set (Handle r) \<longleftrightarrow>
    (\<exists>item \<in> set (Shares input). r \<in> set (share_routes (ServerSettings input) (input_hostname input)
        (users_by_ID (Users input)) item)
      \<and> root = Path (Share item) \<and> prefix = share_prefix (ServerSettings input) item)"
proof -
  have cfg: "compile_config input (providers_by_ID (DNSProviderCredentials input)) (final_shares input) = Inr cfg"
    using assms by (simp add: compile_tree_Inr)
  have sr: "WebDAVHandler root prefix \<in> set (Handle x) \<longleftrightarrow>
      root = Path (Share item) \<and> prefix = share_prefix settings item"
    if "x \<in> set (share_routes settings h us item)" for x settings h us item
    using that by (auto simp: share_routes_def Let_def permissionRoute_def split: if_splits)
  have st: "WebDAVHandler root prefix \<notin> set (Handle x)"
    if "x \<in> (case TLSProfile input of None \<Rightarrow> {} | Some p \<Rightarrow> {fallback_route (Hostname p),
        httpsRedirectRoute (Hostname p) (HTTPSPort (ServerSettings input))})" for x
    using that by (auto split: option.splits)
  show ?thesis
    unfolding compile_config_routes [OF cfg] final_routes
    using sr st discovery_no_webdav by blast
qed

section \<open>What the configuration grants\<close>

lemma share_routes_iff:
  "r \<in> set (share_routes settings h users item) \<longleftrightarrow> share_Enabled (Share item) \<and>
     (\<exists>methods accounts. accounts \<noteq> []
        \<and> (methods = readMethods \<and> accounts = share_readers users item
           \<or> methods = [] \<and> accounts = share_writers users item)
        \<and> r = permissionRoute (share_paths (share_prefix settings item)) methods accounts
                (Path (Share item)) (share_prefix settings item) h)"
  by (auto simp: share_routes_def Let_def)

lemma admits_iff:
  assumes "compile_tree input = Inr (cfg, ws)"
  shows "admits cfg methods a root prefix \<longleftrightarrow>
    (\<exists>item \<in> set (Shares input). share_Enabled (Share item)
      \<and> root = Path (Share item) \<and> prefix = share_prefix (ServerSettings input) item
      \<and> (methods = readMethods \<and> a \<in> set (share_readers (users_by_ID (Users input)) item)
         \<or> methods = [] \<and> a \<in> set (share_writers (users_by_ID (Users input)) item)))"
    (is "?L \<longleftrightarrow> ?R")
proof
  assume ?L
  then obtain r accounts paths hosts where r: "r \<in> set (all_routes cfg)" "a \<in> set accounts"
      "Handle r = [AuthenticationHandler accounts, WebDAVHandler root prefix]"
      "Match r = [\<lparr>m_Path = paths, m_Method = methods, m_Host = hosts\<rparr>]"
    by (auto simp: admits_def)
  from r(1,3) webdav_routes [OF assms, of r root prefix] obtain item where
      item: "item \<in> set (Shares input)" "root = Path (Share item)"
        "prefix = share_prefix (ServerSettings input) item"
        "r \<in> set (share_routes (ServerSettings input) (input_hostname input)
          (users_by_ID (Users input)) item)"
    by auto
  from item(4) r(2-4) have "share_Enabled (Share item) \<and>
      (methods = readMethods \<and> a \<in> set (share_readers (users_by_ID (Users input)) item)
         \<or> methods = [] \<and> a \<in> set (share_writers (users_by_ID (Users input)) item))"
    by (auto simp: share_routes_iff permissionRoute_def)
  with item show ?R by blast
next
  assume ?R
  then obtain item accounts where item: "item \<in> set (Shares input)" "share_Enabled (Share item)"
      "root = Path (Share item)" "prefix = share_prefix (ServerSettings input) item" "a \<in> set accounts"
      "methods = readMethods \<and> accounts = share_readers (users_by_ID (Users input)) item
       \<or> methods = [] \<and> accounts = share_writers (users_by_ID (Users input)) item"
    by blast
  let ?r = "permissionRoute (share_paths prefix) methods accounts root prefix (input_hostname input)"
  from item have "?r \<in> set (share_routes (ServerSettings input) (input_hostname input)
      (users_by_ID (Users input)) item)"
    unfolding share_routes_iff by (intro conjI exI [of _ methods] exI [of _ accounts]) auto
  with item webdav_routes [OF assms, of ?r root prefix] have "?r \<in> set (all_routes cfg)"
    by auto
  with item(5) show ?L by (auto simp: admits_def permissionRoute_def intro!: bexI [of _ ?r])
qed

lemma compilable_facts:
  assumes "compile_tree input = Inr r"
  shows "distinct (map user_ID (Users input))"
    and "item \<in> set (Shares input) \<Longrightarrow> share_Enabled (Share item) \<Longrightarrow>
      permissions_compile (Share item) (users_by_ID (Users input)) (Permissions item)"
  using assms by (auto simp: compile_tree_Inr compilable_def share_compiles_def)

lemma admits_permitted:
  assumes "compile_tree input = Inr (cfg, ws)"
  shows "admits cfg methods a root prefix \<longleftrightarrow>
    methods = readMethods \<and> permitted input {PermissionRead, PermissionReadWrite} a root prefix
    \<or> methods = [] \<and> permitted input {PermissionReadWrite} a root prefix"
proof -
  note d = compilable_facts(1) [OF assms]
  have r: "a \<in> set (share_readers (users_by_ID (Users input)) item) \<longleftrightarrow>
      (\<exists>u \<in> set (Users input). \<exists>p \<in> set (Permissions item). perm_UserID p = user_ID u \<and> user_Enabled u
       \<and> Permission p \<in> {PermissionRead, PermissionReadWrite} \<and> a = user_account u)"
    if "item \<in> set (Shares input)" "share_Enabled (Share item)" for item
    using in_share_readers [OF d compilable_facts(2) [OF assms that]] .
  show ?thesis
    unfolding admits_iff [OF assms] permitted_def in_share_writers [OF d] using r by blast
qed

section \<open>The discovery root\<close>

definition has_reader :: "(ident \<times> user) list \<Rightarrow> string \<Rightarrow> share_with_permissions \<Rightarrow> bool" where
  "has_reader users n item \<longleftrightarrow> n \<in> acc_Username ` set (enabled_readers users item)"

lemma map_put_get [simp]:
  "map_get k (map_put k' v m) = (if k = k' then v else map_get k m)"
  by (induction m) (auto simp: map_put_def map_get_def)

lemma map_put_keys [simp]: "fst ` set (map_put k v m) = insert k (fst ` set m)"
  by (auto simp: map_put_def image_iff)

lemma map_put_distinct [simp]: "distinct (map fst m) \<Longrightarrow> distinct (map fst (map_put k v m))"
  by (induction m) (auto simp: map_put_def)

lemma map_of_map_put [simp]: "map_of (map_put k v m) k' = (if k' = k then Some v else map_of m k')"
  by (induction m) (auto simp: map_put_def)

lemma add_discovery_keys:
  assumes "fst ` set accounts = fst ` set entries" and "distinct (map fst accounts)"
  shows "fst ` set (fst (add_discovery e as (accounts, entries)))
      = fst ` set accounts \<union> acc_Username ` set as"
    and "fst ` set (snd (add_discovery e as (accounts, entries)))
      = fst ` set (fst (add_discovery e as (accounts, entries)))"
    and "distinct (map fst (fst (add_discovery e as (accounts, entries))))"
  using assms by (induction e as "(accounts, entries)" arbitrary: accounts entries rule: add_discovery.induct) auto

lemma add_discovery_entries:
  "distinct (map acc_Username as) \<Longrightarrow>
     map_get n (snd (add_discovery e as (accounts, entries)))
       = map_get n entries @ (if n \<in> acc_Username ` set as then [e] else [])"
  by (induction as arbitrary: accounts entries) auto

lemma add_discovery_account:
  "map_of (fst (add_discovery e as (accounts, entries))) n = Some a \<Longrightarrow>
     map_of accounts n = Some a \<or> a \<in> set as \<and> acc_Username a = n"
proof (induction as arbitrary: accounts entries)
  case (Cons b bs)
  have "map_of (map_put (acc_Username b) b accounts) n = Some a \<or> a \<in> set bs \<and> acc_Username a = n"
    by (rule Cons.IH) (use Cons.prems in simp)
  then show ?case by (auto split: if_splits)
qed simp

text \<open>After the loop, a username has the entries of the shares it can read, in the loop's order.\<close>

lemma fold_share_discovery:
  assumes "fst ` set (fst st) = fst ` set (snd st)" and "distinct (map fst (fst st))"
    and "\<forall>item \<in> set ss. distinct (map acc_Username (enabled_readers users item))"
  shows "fst ` set (fst (fold (share_discovery users) ss st))
      = fst ` set (fst st) \<union> (\<Union>item \<in> set ss. acc_Username ` set (enabled_readers users item))
    \<and> fst ` set (snd (fold (share_discovery users) ss st)) = fst ` set (fst (fold (share_discovery users) ss st))
    \<and> distinct (map fst (fst (fold (share_discovery users) ss st)))
    \<and> map_get n (snd (fold (share_discovery users) ss st))
        = map_get n (snd st) @ map share_entry (filter (has_reader users n) ss)"
  using assms
proof (induction ss arbitrary: st)
  case Nil
  then show ?case by simp
next
  case (Cons item ss)
  obtain accounts entries where st: "st = (accounts, entries)" by fastforce
  let ?st = "share_discovery users item st"
  from Cons.prems have pre: "fst ` set accounts = fst ` set entries" "distinct (map fst accounts)"
    and d: "distinct (map acc_Username (enabled_readers users item))"
    by (simp_all add: st)
  note k = add_discovery_keys [OF pre, of "share_entry item" "enabled_readers users item"]
  have "fst ` set (fst ?st) = fst ` set (snd ?st)" and "distinct (map fst (fst ?st))"
    using k by (simp_all add: st share_discovery_def)
  from Cons.IH [OF this] Cons.prems(3) k add_discovery_entries [OF d, of n "share_entry item" accounts entries]
  show ?case by (auto simp: st share_discovery_def has_reader_def)
qed

lemma fold_share_discovery_account:
  "map_of (fst (fold (share_discovery users) ss st)) n = Some a \<Longrightarrow>
     map_of (fst st) n = Some a
     \<or> (\<exists>item \<in> set ss. a \<in> set (enabled_readers users item) \<and> acc_Username a = n)"
proof (induction ss arbitrary: st)
  case Nil
  then show ?case by simp
next
  case (Cons item ss)
  obtain accounts entries where st: "st = (accounts, entries)" by fastforce
  from Cons have "map_of (fst (share_discovery users item st)) n = Some a
     \<or> (\<exists>item \<in> set ss. a \<in> set (enabled_readers users item) \<and> acc_Username a = n)"
    by simp
  with add_discovery_account [of "share_entry item" "enabled_readers users item" accounts entries n a]
  show ?case by (auto simp: st share_discovery_def)
qed

lemma valid_username_inj:
  assumes "\<forall>u \<in> set us. User_Validate u = None" and "distinct (map UsernameNormalized us)"
  shows "inj_on Username (set us)"
proof (rule inj_onI)
  fix u v assume uv: "u \<in> set us" "v \<in> set us" "Username u = Username v"
  then have "UsernameNormalized u = UsernameNormalized v"
    using assms(1) by (simp add: User_Validate_def)
  with uv distinct_map_eq [OF assms(2)] show "u = v" by blast
qed

lemma share_readers_distinct:
  assumes us: "\<forall>u \<in> set us. User_Validate u = None" "distinct (map UsernameNormalized us)"
      "distinct (map user_ID us)"
    and ps: "permissions_compile s (users_by_ID us) (Permissions item)"
  shows "distinct (map acc_Username (share_readers (users_by_ID us) item))"
proof -
  let ?m = "users_by_ID us" and ?ps = "Permissions item"
  have "distinct (map acc_Username (readers ?m ps))"
    if "distinct (map perm_UserID ps)" "set ps \<subseteq> set ?ps" for ps
    using that
  proof (induction ps)
    case Nil
    then show ?case by (simp add: readers_def)
  next
    case (Cons p ps)
    have False if p: "grants ?m p" and q: "q \<in> set ps" "grants ?m q"
      and eq: "acc_Username (account_of ?m p) = acc_Username (account_of ?m q)" for q
    proof -
      from p q(2) obtain u v where uv: "u \<in> set us" "user_ID u = perm_UserID p"
          "v \<in> set us" "user_ID v = perm_UserID q"
        by (auto simp: grants_users [OF us(3)])
      then have "Username u = Username v"
        using eq account_of_users [OF us(3)] by (simp add: user_account_def)
      then have "u = v" using valid_username_inj [OF us(1,2)] uv by (auto dest: inj_onD)
      with uv imageI [OF q(1), of perm_UserID] Cons.prems(1) show False by simp
    qed
    then show ?case using Cons by (auto simp: readers_def)
  qed
  moreover have "distinct (map perm_UserID ?ps)" using ps by (simp add: permissions_compile_def)
  ultimately have "distinct (map acc_Username (readers ?m (sort_key perm_UserID ?ps)))" by simp
  then show ?thesis by (simp add: share_readers_def)
qed

lemma discovery_state:
  assumes "compile_tree input = Inr r"
  shows "fst ` set (st_accounts (final_shares input)) = fst ` set (st_entries (final_shares input))"
    and "fst ` set (st_entries (final_shares input)) =
      (\<Union>item \<in> set (Shares input). acc_Username ` set (enabled_readers (users_by_ID (Users input)) item))"
    and "distinct (map fst (st_accounts (final_shares input)))"
    and "map_get n (st_entries (final_shares input)) = map share_entry
      (filter (has_reader (users_by_ID (Users input)) n) (sorted_shares input))"
    and "map_of (st_accounts (final_shares input)) n = Some a \<Longrightarrow>
      \<exists>item \<in> set (Shares input). a \<in> set (enabled_readers (users_by_ID (Users input)) item)
        \<and> acc_Username a = n"
proof -
  let ?users = "users_by_ID (Users input)"
  have c: "compilable input" using assms by (simp add: compile_tree_Inr)
  have d: "\<forall>item \<in> set (sorted_shares input). distinct (map acc_Username (enabled_readers ?users item))"
    using c share_readers_distinct [of "Users input"]
    by (auto simp: sorted_shares_def enabled_readers_def compilable_def share_compiles_def)
  have f: "(st_accounts (final_shares input), st_entries (final_shares input))
      = fold (share_discovery ?users) (sorted_shares input) ([], [])"
    by (simp add: final_shares_def fold_after_share)
  note fs = fold_share_discovery [of "([], [])" "sorted_shares input" ?users n, OF _ _ d,
      folded f, simplified]
  from fs show "fst ` set (st_accounts (final_shares input)) = fst ` set (st_entries (final_shares input))"
    and "fst ` set (st_entries (final_shares input)) =
      (\<Union>item \<in> set (Shares input). acc_Username ` set (enabled_readers (users_by_ID (Users input)) item))"
    and "distinct (map fst (st_accounts (final_shares input)))"
    and "map_get n (st_entries (final_shares input)) = map share_entry
      (filter (has_reader (users_by_ID (Users input)) n) (sorted_shares input))"
    by (simp_all add: sorted_shares_def map_get_def)
  assume "map_of (st_accounts (final_shares input)) n = Some a"
  with fold_share_discovery_account [of ?users "sorted_shares input" "([], [])" n a, folded f]
  show "\<exists>item \<in> set (Shares input). a \<in> set (enabled_readers (users_by_ID (Users input)) item)
        \<and> acc_Username a = n"
    by (simp add: sorted_shares_def)
qed

end
