(* ===== verification/Compiler_Discovery.thy ===== *)
theory Compiler_Discovery
  imports Compiler_Correct
begin

text \<open>
  What the compiled configuration shows each user at the discovery root, and the facts on the
  whole configuration that need it: independence of the order of the desired state, warnings,
  totality and the TLS server.
\<close>

section \<open>The discovery handler\<close>

definition can_read :: "runtime_input \<Rightarrow> string \<Rightarrow> share_with_permissions \<Rightarrow> bool" where
  "can_read input n item \<longleftrightarrow> share_Enabled (Share item) \<and>
     (\<exists>u \<in> set (Users input). \<exists>p \<in> set (Permissions item).
        Username u = n \<and> user_Enabled u \<and> perm_UserID p = user_ID u
        \<and> Permission p \<in> {PermissionRead, PermissionReadWrite})"

definition can_see :: "runtime_input \<Rightarrow> string \<Rightarrow> bool" where
  "can_see input n \<longleftrightarrow> (\<exists>item \<in> set (Shares input). can_read input n item)"

lemma in_enabled_readers:
  assumes "compile_tree input = Inr r" and "item \<in> set (Shares input)"
  shows "a \<in> set (enabled_readers (users_by_ID (Users input)) item) \<longleftrightarrow> share_Enabled (Share item) \<and>
    (\<exists>u \<in> set (Users input). \<exists>p \<in> set (Permissions item). perm_UserID p = user_ID u \<and> user_Enabled u
       \<and> Permission p \<in> {PermissionRead, PermissionReadWrite} \<and> a = user_account u)"
proof (cases "share_Enabled (Share item)")
  case True
  from in_share_readers [OF compilable_facts(1) [OF assms(1)] compilable_facts(2) [OF assms True]] True
  show ?thesis by (simp add: enabled_readers_def)
next
  case False
  then show ?thesis by (simp add: enabled_readers_def)
qed

lemma has_reader_can_read:
  assumes "compile_tree input = Inr r" and "item \<in> set (Shares input)"
  shows "has_reader (users_by_ID (Users input)) n item \<longleftrightarrow> can_read input n item"
proof
  assume "has_reader (users_by_ID (Users input)) n item"
  then obtain a where "a \<in> set (enabled_readers (users_by_ID (Users input)) item)" "n = acc_Username a"
    by (auto simp: has_reader_def)
  with in_enabled_readers [OF assms, of a] show "can_read input n item"
    by (auto simp: can_read_def user_account_def)
next
  assume "can_read input n item"
  then obtain u p where "share_Enabled (Share item)" "u \<in> set (Users input)" "p \<in> set (Permissions item)"
      "perm_UserID p = user_ID u" "user_Enabled u"
      "Permission p \<in> {PermissionRead, PermissionReadWrite}" "n = Username u"
    by (auto simp: can_read_def)
  then have "user_account u \<in> set (enabled_readers (users_by_ID (Users input)) item)" "n = Username u"
    unfolding in_enabled_readers [OF assms] by blast+
  then show "has_reader (users_by_ID (Users input)) n item"
    by (force simp: has_reader_def user_account_def)
qed

lemma discovery_names:
  assumes "compile_tree input = Inr r"
  shows "n \<in> fst ` set (st_accounts (final_shares input)) \<longleftrightarrow> can_see input n"
proof -
  have "n \<in> fst ` set (st_accounts (final_shares input)) \<longleftrightarrow>
      (\<exists>item \<in> set (Shares input). has_reader (users_by_ID (Users input)) n item)"
    by (auto simp: discovery_state(1,2) [OF assms] has_reader_def)
  then show ?thesis using has_reader_can_read [OF assms] by (auto simp: can_see_def)
qed

lemma distinct_slugs:
  "compile_tree input = Inr r \<Longrightarrow> distinct (map (Slug \<circ> Share) (Shares input))"
  by (simp add: compile_tree_Inr compilable_def)

lemma discovery_entries:
  assumes "compile_tree input = Inr r"
  shows "sort_key entry_key (map_get n (st_entries (final_shares input)))
    = sort_key entry_key (map share_entry (filter (can_read input n) (Shares input)))"
proof (rule sort_key_perm_eq)
  have "map_get n (st_entries (final_shares input))
      = map share_entry (filter (can_read input n) (sorted_shares input))"
    using has_reader_can_read [OF assms]
    by (auto simp: discovery_state(4) [OF assms] sorted_shares_def intro!: filter_cong
        arg_cong [where f = "map share_entry"])
  then show m: "mset (map_get n (st_entries (final_shares input)))
      = mset (map share_entry (filter (can_read input n) (Shares input)))"
    by (simp add: sorted_shares_def mset_filter)
  have "map (fst \<circ> entry_key) (map share_entry (filter (can_read input n) (Shares input)))
      = map (Slug \<circ> Share) (filter (can_read input n) (Shares input))"
    by (simp add: entry_key_def share_entry_def)
  then have "distinct (map (fst \<circ> entry_key) (map share_entry (filter (can_read input n) (Shares input))))"
    using distinct_slugs [OF assms] by (metis map_filter_distinct)
  then have "distinct (map entry_key (map share_entry (filter (can_read input n) (Shares input))))"
    using distinct_map [of fst] by (metis map_map)
  with m show "distinct (map entry_key (map_get n (st_entries (final_shares input))))"
    by (metis mset_eq_imp_distinct_iff mset_map)
qed

text \<open>The one discovery route, in terms of the desired state.\<close>

definition seen_entries :: "runtime_input \<Rightarrow> string \<Rightarrow> discovery_entry list" where
  "seen_entries input n = sort_key entry_key (map share_entry (filter (can_read input n) (Shares input)))"

definition seen_names :: "runtime_input \<Rightarrow> string list" where
  "seen_names input = sort (map fst (st_accounts (final_shares input)))"

definition seen_account :: "runtime_input \<Rightarrow> string \<Rightarrow> account" where
  "seen_account input n = the (map_of (st_accounts (final_shares input)) n)"

definition root_paths :: "string \<Rightarrow> string list" where
  "root_paths base = base # (if base \<noteq> ''/'' then [base @ ''/''] else [])"

lemma seen_names:
  assumes "compile_tree input = Inr r"
  shows "set (seen_names input) = {n. can_see input n}" and "sorted (seen_names input)"
    and "distinct (seen_names input)" and "seen_names input = [] \<longleftrightarrow> st_accounts (final_shares input) = []"
proof -
  show n: "set (seen_names input) = {n. can_see input n}"
    using discovery_names [OF assms] by (auto simp: seen_names_def)
  show "sorted (seen_names input)" "distinct (seen_names input)"
    using discovery_state(3) [OF assms] by (simp_all add: seen_names_def)
  show "seen_names input = [] \<longleftrightarrow> st_accounts (final_shares input) = []"
    by (metis list.map_disc_iff mset.simps(1) mset_sort mset_zero_iff seen_names_def)
qed

lemma discovery_routes_eq:
  assumes "compile_tree input = Inr r"
  shows "discovery_routes settings h (final_shares input) =
    (if seen_names input = [] then []
     else [discoveryRoute (root_paths (discovery_root (PublicBasePath settings)))
       (map (seen_account input) (seen_names input))
       (map (\<lambda>n. (n, seen_entries input n)) (seen_names input)) (discovery_root (PublicBasePath settings)) h])"
  using seen_names(4) [OF assms]
  by (simp add: discovery_routes_def Let_def discovery_entries [OF assms] root_paths_def
      seen_entries_def [abs_def] seen_account_def [abs_def] seen_names_def [symmetric])

lemma discovery_accounts:
  assumes "compile_tree input = Inr r"
  shows "seen_account input ` {n. can_see input n}
    = {user_account u | u. u \<in> set (Users input) \<and> user_Enabled u \<and> can_see input (Username u)}"
    (is "?f ` ?A = ?B")
proof -
  have c: "compilable input" using assms by (simp add: compile_tree_Inr)
  have inj: "inj_on Username (set (Users input))"
    using c valid_username_inj by (simp add: compilable_def)
  have f: "\<exists>u \<in> set (Users input). user_Enabled u \<and> Username u = n \<and> ?f n = user_account u" if "can_see input n" for n
  proof -
    from that obtain a where a: "map_of (st_accounts (final_shares input)) n = Some a"
      unfolding discovery_names [OF assms, symmetric] by (metis map_of_eq_None_iff not_None_eq)
    from discovery_state(5) [OF assms a] in_enabled_readers [OF assms] a
    show ?thesis by (auto simp: user_account_def seen_account_def)
  qed
  show ?thesis
  proof (intro set_eqI iffI)
    fix a assume "a \<in> ?f ` ?A"
    then show "a \<in> ?B" using f by auto
  next
    fix a assume "a \<in> ?B"
    then obtain u where u: "u \<in> set (Users input)" "can_see input (Username u)" "a = user_account u"
      by blast
    with f [OF u(2)] inj_onD [OF inj] have "a = ?f (Username u)" by metis
    with u(2) show "a \<in> ?f ` ?A" by blast
  qed
qed

section \<open>A well formed state compiles\<close>

lemma providers_by_ID_Some:
  "distinct (map dns_ID ps) \<Longrightarrow> map_of (providers_by_ID ps) i = Some d \<longleftrightarrow> d \<in> set ps \<and> dns_ID d = i"
  by (simp add: providers_by_ID_def map_of_rev_keys)

lemma compileTLS_ok:
  assumes "TLSProfile_Validate p = None"
    and "\<And>i. DNSProviderID p = Some i \<Longrightarrow> \<exists>d. map_of ps i = Some d \<and> DNSProviderType_Valid (Provider d)"
  shows "\<exists>r. compileTLS p ps = Inr r"
proof (cases "Mode p = TLSModeAutomatic \<and> Challenge p = TLSChallengeDNS")
  case True
  with assms(1) obtain i where i: "DNSProviderID p = Some i"
    by (auto simp: TLSProfile_Validate_None_iff)
  with assms(2) obtain d a where "map_of ps i = Some d" "For (Provider d) = Some a"
    using For_valid by metis
  with True i show ?thesis by (simp add: compileTLS_def)
next
  case False
  then show ?thesis by (auto simp: compileTLS_def)
qed

lemma compile_config_ok:
  assumes "well_formed_input input"
  shows "\<exists>cfg. compile_config input (providers_by_ID (DNSProviderCredentials input)) st = Inr cfg"
proof (cases "TLSProfile input")
  case None
  then show ?thesis by (simp add: compile_config_def Let_def)
next
  case (Some p)
  let ?ps = "DNSProviderCredentials input"
  have tls: "\<exists>r. compileTLS p (providers_by_ID ?ps) = Inr r"
  proof (rule compileTLS_ok)
    show "TLSProfile_Validate p = None" using assms Some by (simp add: well_formed_input_def)
  next
    fix i assume "DNSProviderID p = Some i"
    with assms Some obtain d where d: "d \<in> set ?ps" "dns_ID d = i" "DNSProviderCredential_Validate d = None"
      "distinct (map dns_ID ?ps)"
      by (auto simp: well_formed_input_def)
    then have "map_of (providers_by_ID ?ps) i = Some d" by (simp add: providers_by_ID_Some)
    with d(3) show "\<exists>d. map_of (providers_by_ID ?ps) i = Some d \<and> DNSProviderType_Valid (Provider d)"
      by (simp add: DNSProviderCredential_Validate_def)
  qed
  then obtain r where r: "compileTLS p (providers_by_ID ?ps) = Inr r" by blast
  with Some show ?thesis by (cases r) (simp add: compile_config_def Let_def)
qed

lemma compile_tree_ok:
  assumes "well_formed_input input"
  shows "\<exists>cfg. compile_tree input = Inr (cfg, st_warnings (final_shares input))"
  using compile_config_ok [OF assms] well_formed_compilable [OF assms]
  by (simp add: compile_tree_Inr)

section \<open>Only the canonical form of the state matters\<close>

definition canonical :: "runtime_input \<Rightarrow> runtime_input" where
  "canonical input = Snapshot_RuntimeConfigInput (NewConfigRevisionSnapshot input)"

lemma canonical_fields [simp]:
  "ServerSettings (canonical i) = ServerSettings i" "TLSProfile (canonical i) = TLSProfile i"
  "DNSProviderCredentials (canonical i) = sort_key dns_key (map sort_zones (DNSProviderCredentials i))"
  "Users (canonical i) = sort_key user_key (Users i)"
  "Shares (canonical i) = sort_key share_key (map sort_permissions (Shares i))"
  "input_hostname (canonical i) = input_hostname i"
  by (simp_all add: canonical_def Snapshot_RuntimeConfigInput_def NewConfigRevisionSnapshot_def
      input_hostname_def)

lemma input_keys: "input_user_key = user_key" "input_share_key = share_key"
  by (simp_all add: fun_eq_iff input_user_key_def user_key_def input_share_key_def share_key_def)

lemma share_lists_sorted [simp]:
  "share_readers users (sort_permissions item) = share_readers users item"
  "share_writers users (sort_permissions item) = share_writers users item"
  by (simp_all add: share_readers_def share_writers_def sort_key_idem)

lemma after_share_sorted [simp]:
  "after_share settings h users (sort_permissions item) = after_share settings h users item"
  by (simp add: fun_eq_iff after_share_def share_routes_def share_discovery_def share_warnings_def
      share_prefix_def share_entry_def enabled_readers_def Let_def)

lemma final_shares_canonical: "final_shares (canonical i) = final_shares i"
proof -
  have k: "share_key (sort_permissions s) = share_key s" for s
    by (simp add: share_key_def)
  have u: "users_by_ID (Users (canonical i)) = users_by_ID (Users i)"
    by (simp add: users_by_ID_def input_keys sort_key_idem)
  have s: "sorted_shares (canonical i) = map sort_permissions (sorted_shares i)"
    by (simp add: sorted_shares_def input_keys sort_key_idem map_sort_key k)
  show ?thesis by (simp add: final_shares_def u [simplified] s fold_map comp_def)
qed

lemma compileTLS_sort_zones:
  assumes "distinct (map dns_ID ps)"
  shows "compileTLS p (providers_by_ID (sort_key dns_key (map sort_zones ps))) = compileTLS p (providers_by_ID ps)"
proof -
  have "map_of (providers_by_ID (sort_key dns_key (map sort_zones ps))) i
      = map_option sort_zones (map_of (providers_by_ID ps) i)" for i
  proof (cases "map_of (providers_by_ID ps) i")
    case None
    then have "i \<notin> dns_ID ` set ps" by (simp add: providers_by_ID_def map_of_eq_None_iff image_image)
    then have "map_of (providers_by_ID (sort_key dns_key (map sort_zones ps))) i = None"
      by (simp add: providers_by_ID_def map_of_eq_None_iff image_image)
    with None show ?thesis by simp
  next
    case (Some d)
    then have "d \<in> set ps" "dns_ID d = i" using providers_by_ID_Some [OF assms] by simp_all
    then have "map_of (providers_by_ID (sort_key dns_key (map sort_zones ps))) i = Some (sort_zones d)"
      using assms by (subst providers_by_ID_Some) (simp_all add: comp_def)
    with Some show ?thesis by simp
  qed
  moreover have "Provider (sort_zones d) = Provider d" for d by (simp add: sort_zones_def)
  ultimately show ?thesis
    by (simp add: compileTLS_def split: option.split)
qed

lemma compile_tree_canonical:
  assumes "well_formed_input i"
  shows "compile_tree (canonical i) = compile_tree i"
proof -
  have wf: "well_formed_input (canonical i)" using assms by (simp add: canonical_def well_formed_snapshot)
  have d: "distinct (map dns_ID (DNSProviderCredentials i))" using assms by (simp add: well_formed_input_def)
  have "compile_config (canonical i) (providers_by_ID (DNSProviderCredentials (canonical i))) st
      = compile_config i (providers_by_ID (DNSProviderCredentials i)) st" for st
    by (simp add: compile_config_def compileTLS_sort_zones [OF d] cong: option.case_cong)
  then have "compile_tree (canonical i) = Inr r \<longleftrightarrow> compile_tree i = Inr r" for r
    using well_formed_compilable [OF assms] well_formed_compilable [OF wf]
    by (simp add: compile_tree_Inr final_shares_canonical)
  with compile_tree_ok [OF assms] show ?thesis by metis
qed

lemma compile_tree_order:
  assumes "well_formed_input i" and "same_up_to_order i j"
  shows "compile_tree i = compile_tree j"
proof -
  have c: "canonical i = canonical j"
    using snapshot_order_independent [OF well_formed_distinct_keys [OF assms(1)] assms(2)]
    by (simp add: canonical_def)
  have "well_formed_input j" using assms(1) c by (metis canonical_def well_formed_snapshot)
  with assms(1) c compile_tree_canonical show ?thesis by metis
qed

section \<open>Prefixes of different shares\<close>

text \<open>The requests a share's route is for: its prefix, and everything below it.\<close>

definition below :: "string \<Rightarrow> string \<Rightarrow> bool" where
  "below prefix path \<longleftrightarrow> path = prefix \<or> has_prefix path (prefix @ ''/'')"

lemma joinPublicPath_eq:
  "\<exists>base. \<forall>child. joinPublicPath basePath child = base @ ''/'' @ child"
  by (rule exI [of _ "if basePath = ''/'' then [] else trim_suffix basePath ''/''"])
     (simp add: joinPublicPath_def)

lemma first_component_unique:
  assumes "CHR ''/'' \<notin> set a" and "CHR ''/'' \<notin> set b"
    and "(a @ ''/'') @ x = (b @ ''/'') @ y"
  shows "a = b"
proof -
  have "takeWhile (\<lambda>c. c \<noteq> CHR ''/'') (a @ CHR ''/'' # x) = a"
    "takeWhile (\<lambda>c. c \<noteq> CHR ''/'') (b @ CHR ''/'' # y) = b"
    using assms(1,2) by (subst takeWhile_append2; auto)+
  with assms(3) show ?thesis by simp
qed

lemma has_prefix_split: "has_prefix s p \<Longrightarrow> \<exists>t. s = p @ t"
  unfolding has_prefix_def by (metis append_take_drop_id)

lemma below_unique:
  assumes "CHR ''/'' \<notin> set a" and "CHR ''/'' \<notin> set b"
    and "below (joinPublicPath base a) path" and "below (joinPublicPath base b) path"
  shows "a = b"
proof -
  obtain p where p: "\<And>child. joinPublicPath base child = p @ ''/'' @ child"
    using joinPublicPath_eq by blast
  have "\<exists>x. path @ ''/'' = p @ ''/'' @ (c @ ''/'') @ x" if "below (joinPublicPath base c) path" for c
    using that by (auto simp: below_def p dest!: has_prefix_split)
  from this [OF assms(3)] this [OF assms(4)] obtain x y where
    "path @ ''/'' = p @ ''/'' @ (a @ ''/'') @ x" "path @ ''/'' = p @ ''/'' @ (b @ ''/'') @ y" by auto
  then have "(a @ ''/'') @ x = (b @ ''/'') @ y" by simp
  with assms(1,2) show ?thesis by (rule first_component_unique)
qed

end
