(* ===== verification/Compiler_Json.thy ===== *)
theory Compiler_Json
  imports Compiler
begin

text \<open>
  The JSON rendering of the configuration tree (the struct tags of
  \<^verbatim>\<open>core/internal/caddy/compiler.go\<close>) and \<open>Compile\<close> as a whole: the text, its SHA-256 and the
  warnings.  A Go map is written with its keys in order.
\<close>

definition strings :: "string list \<Rightarrow> json" where
  "strings xs = JArr (map JStr xs)"

definition sorted_object :: "('v \<Rightarrow> json) \<Rightarrow> (string \<times> 'v) list \<Rightarrow> json" where
  "sorted_object f m = JObj (map (\<lambda>(k, v). (k, f v)) (sort_key fst m))"

definition account_json :: "account \<Rightarrow> json" where
  "account_json a = JObj
     (field ''username'' (JStr (acc_Username a)) @ field ''password'' (JStr (acc_Password a)))"

definition entry_json :: "discovery_entry \<Rightarrow> json" where
  "entry_json e = JObj
     (field ''slug'' (JStr (entry_Slug e)) @ field ''name'' (JStr (entry_Name e)))"

fun handler_json :: "handler \<Rightarrow> json" where
  "handler_json (AuthenticationHandler accounts) = JObj
     (field ''handler'' (JStr ''authentication'')
      @ field ''providers'' (JObj (field ''http_basic'' (JObj
          (field ''hash'' (JObj (field ''algorithm'' (JStr ''bcrypt'')))
           @ field ''accounts'' (JArr (map account_json accounts)))))))"
| "handler_json (WebDAVHandler root prefix) = JObj
     (field ''handler'' (JStr ''webdav'') @ field ''root'' (JStr root) @ field ''prefix'' (JStr prefix))"
| "handler_json (DiscoveryHandler basePath entries) = JObj
     (field ''handler'' (JStr ''davdeck_index'') @ field ''base_path'' (JStr basePath)
      @ field ''entries'' (sorted_object (\<lambda>es. JArr (map entry_json es)) entries))"
| "handler_json (StaticResponseHandler code headers) = JObj
     (field ''handler'' (JStr ''static_response'') @ field ''status_code'' (JInt code)
      @ (if headers = [] then [] else field ''headers'' (sorted_object strings headers)))"

definition matcher_json :: "matcher_set \<Rightarrow> json" where
  "matcher_json m = JObj
     (omit_empty_list ''path'' (map JStr (m_Path m)) @ omit_empty_list ''method'' (map JStr (m_Method m))
      @ omit_empty_list ''host'' (map JStr (m_Host m)))"

definition route_json :: "route \<Rightarrow> json" where
  "route_json r = JObj
     (field ''match'' (JArr (map matcher_json (Match r)))
      @ field ''handle'' (JArr (map handler_json (Handle r)))
      @ field ''terminal'' (JBool (Terminal r)))"

definition policy_json :: "tls_connection_policy \<Rightarrow> json" where
  "policy_json p = JObj
     (omit_none ''match'' (map_option (\<lambda>sni. JObj (field ''sni'' (strings sni))) (policy_SNI p))
      @ field ''certificate_selection'' (JObj (field ''any_tag'' (strings (policy_AnyTag p)))))"

definition automatic_https_json :: "automatic_https \<Rightarrow> json" where
  "automatic_https_json a = JObj
     (omit_false ''disable'' (ah_Disabled a) @ omit_false ''disable_redirects'' (ah_DisableRedirects a))"

definition server_json :: "http_server \<Rightarrow> json" where
  "server_json s = JObj
     (field ''listen'' (strings (Listen s)) @ field ''routes'' (JArr (map route_json (Routes s)))
      @ omit_empty_list ''tls_connection_policies'' (map policy_json (TLSConnectionPolicies s))
      @ omit_none ''automatic_https'' (map_option automatic_https_json (AutomaticHTTPS s)))"

fun issuer_json :: "tls_issuer \<Rightarrow> json" where
  "issuer_json InternalIssuer = JObj (field ''module'' (JStr ''internal''))"
| "issuer_json (AcmeDNSIssuer provider) = JObj
     (field ''module'' (JStr ''acme'')
      @ field ''challenges'' (JObj (field ''dns'' (JObj
          (field ''provider'' (sorted_object JStr provider))))))"

fun tls_app_json :: "tls_app \<Rightarrow> json" where
  "tls_app_json (TLSAutomation subjects issuer) = JObj
     (field ''automation'' (JObj (field ''policies'' (JArr [JObj
        (field ''subjects'' (strings subjects) @ field ''issuers'' (JArr [issuer_json issuer]))]))))"
| "tls_app_json (TLSCertificates certificate key tags) = JObj
     (field ''certificates'' (JObj (field ''load_files'' (JArr [JObj
        (field ''certificate'' (JStr certificate) @ field ''key'' (JStr key)
         @ field ''tags'' (strings tags))]))))"

definition pki_json :: json where
  "pki_json = JObj (field ''certificate_authorities'' (JObj
     (field ''local'' (JObj (field ''install_trust'' (JBool False))))))"

definition config_json :: "config \<Rightarrow> json" where
  "config_json c = JObj
     (field ''admin'' (JObj (field ''listen'' (JStr ''127.0.0.1:2019'')))
      @ field ''apps'' (JObj
          (field ''http'' (JObj
             (field ''http_port'' (JInt (cfg_HTTPPort c)) @ field ''https_port'' (JInt (cfg_HTTPSPort c))
              @ field ''servers'' (sorted_object server_json (cfg_Servers c))))
           @ omit_none ''tls'' (map_option tls_app_json (cfg_TLS c))
           @ (if cfg_PKI c then field ''pki'' pki_json else []))))"

record compiled_config =
  compiled_JSON :: string
  compiled_SHA256 :: string
  Warnings :: "string list"

definition Compile :: "runtime_input \<Rightarrow> compile_error + compiled_config" where
  "Compile input =
     (case compile_tree input of Inl e \<Rightarrow> Inl e
      | Inr (cfg, warnings) \<Rightarrow>
          let body = json_marshal_indent (config_json cfg) @ [newline]
          in Inr \<lparr>compiled_JSON = body, compiled_SHA256 = sha256_hex body, Warnings = warnings\<rparr>)"

lemma Compile_hash: "Compile input = Inr c \<Longrightarrow> compiled_SHA256 c = sha256_hex (compiled_JSON c)"
  by (auto simp: Compile_def Let_def split: sum.splits)

end
