(* ===== verification/Sample.thy ===== *)
theory Sample
  imports Runtime_Input
begin

text \<open>
  A small concrete desired state, used by the theorems that exhibit an instance of a property:
  two enabled users and a disabled one, an enabled and a disabled share, a certificate profile
  validated by DNS.
\<close>

definition t0 :: timestamp where "t0 = Time 63900000000000000000 True"

definition alice :: user where
  "alice = \<lparr>user_ID = ''00000000-0000-4000-8000-0000000000a1'', Username = ''Alice'',
     UsernameNormalized = ''alice'', PasswordHash = ''hash-a'', user_Enabled = True,
     user_CreatedAt = t0, user_UpdatedAt = t0\<rparr>"

definition bob :: user where
  "bob = \<lparr>user_ID = ''00000000-0000-4000-8000-0000000000b2'', Username = ''bob'',
     UsernameNormalized = ''bob'', PasswordHash = ''hash-b'', user_Enabled = True,
     user_CreatedAt = t0, user_UpdatedAt = t0\<rparr>"

definition carol :: user where
  "carol = \<lparr>user_ID = ''00000000-0000-4000-8000-0000000000c3'', Username = ''carol'',
     UsernameNormalized = ''carol'', PasswordHash = ''hash-c'', user_Enabled = False,
     user_CreatedAt = t0, user_UpdatedAt = t0\<rparr>"

definition docs :: share where
  "docs = \<lparr>share_ID = ''00000000-0000-4000-8000-0000000000d4'', share_Name = ''Docs'', Slug = ''docs'',
     Path = ''/srv/docs'', share_Enabled = True, share_CreatedAt = t0, share_UpdatedAt = t0\<rparr>"

definition vault :: share where
  "vault = \<lparr>share_ID = ''00000000-0000-4000-8000-0000000000e5'', share_Name = ''Vault'', Slug = ''vault'',
     Path = ''/srv/vault'', share_Enabled = False, share_CreatedAt = t0, share_UpdatedAt = t0\<rparr>"

definition permission :: "share \<Rightarrow> user \<Rightarrow> permission \<Rightarrow> share_permission" where
  "permission s u k = \<lparr>perm_ShareID = share_ID s, perm_UserID = user_ID u, Permission = k,
     perm_CreatedAt = t0, perm_UpdatedAt = t0\<rparr>"

definition sample_settings :: server_settings where
  "sample_settings = \<lparr>settings_ID = ''00000000-0000-4000-8000-000000000001'', PublicBasePath = ''/dav'',
     HTTPPort = 8080, HTTPSPort = 8443, RuntimeMode = RuntimeModePortable,
     settings_CreatedAt = t0, settings_UpdatedAt = t0\<rparr>"

definition sample_dns :: dns_credential where
  "sample_dns = \<lparr>dns_ID = ''00000000-0000-4000-8000-0000000000f6'', dns_Name = ''cf'',
     Provider = DNSProviderCloudflare, AllowedZones = [''example.org''],
     dns_CreatedAt = t0, dns_UpdatedAt = t0\<rparr>"

definition sample_tls :: tls_profile where
  "sample_tls = \<lparr>tls_ID = ''00000000-0000-4000-8000-000000000002'', Mode = TLSModeAutomatic,
     Hostname = ''dav.example.org'', Challenge = TLSChallengeDNS, DNSProviderID = Some (dns_ID sample_dns),
     CertificatePath = [], PrivateKeyPath = [], tls_CreatedAt = t0, tls_UpdatedAt = t0\<rparr>"

definition sample_docs :: share_with_permissions where
  "sample_docs = \<lparr>Share = docs, Permissions =
     [permission docs bob PermissionRead, permission docs alice PermissionReadWrite,
      permission docs carol PermissionReadWrite]\<rparr>"

definition sample_vault :: share_with_permissions where
  "sample_vault = \<lparr>Share = vault, Permissions = [permission vault bob PermissionReadWrite]\<rparr>"

definition sample_input :: runtime_input where
  "sample_input =
     \<lparr>ServerSettings = sample_settings, TLSProfile = Some sample_tls,
      DNSProviderCredentials = [sample_dns], Users = [bob, carol, alice],
      Shares = [sample_vault, sample_docs]\<rparr>"

lemmas sample_users = alice_def bob_def carol_def t0_def
lemmas sample_shares = docs_def vault_def t0_def
lemmas sample_defs = sample_users sample_shares permission_def sample_settings_def sample_dns_def
  sample_tls_def sample_docs_def sample_vault_def sample_input_def

lemmas domain_eval = validateID_def dash_positions_def is_lower_hex_def validateTimeRange_None_iff IsZero_def
  str_eval

lemma sample_users_valid [simp]:
  "User_Validate alice = None" "User_Validate bob = None" "User_Validate carol = None"
  by (simp_all add: User_Validate_def sample_users NormalizeUsername_def domain_eval)

lemma sample_shares_valid [simp]: "Share_Validate docs = None" "Share_Validate vault = None"
  by (simp_all add: Share_Validate_def sample_shares shareSlugPattern_def slug_char_def IsAbsolutePath_def
      path_clean_def clean_components_def clean_step_def Let_def domain_eval)

lemma sample_ids [simp]:
  "user_ID alice = ''00000000-0000-4000-8000-0000000000a1''"
  "user_ID bob = ''00000000-0000-4000-8000-0000000000b2''"
  "user_ID carol = ''00000000-0000-4000-8000-0000000000c3''"
  "share_ID docs = ''00000000-0000-4000-8000-0000000000d4''"
  "share_ID vault = ''00000000-0000-4000-8000-0000000000e5''"
  by (simp_all add: sample_defs)

lemma sample_ids_valid [simp]:
  "validateID f ''00000000-0000-4000-8000-0000000000a1'' = None"
  "validateID f ''00000000-0000-4000-8000-0000000000b2'' = None"
  "validateID f ''00000000-0000-4000-8000-0000000000c3'' = None"
  "validateID f ''00000000-0000-4000-8000-0000000000d4'' = None"
  "validateID f ''00000000-0000-4000-8000-0000000000e5'' = None"
  "validateID f ''00000000-0000-4000-8000-0000000000f6'' = None"
  by (simp_all add: domain_eval)

lemma t0_valid [simp]: "validateTimeRange c t0 u t0 = None"
  by (simp add: t0_def domain_eval)

lemma sample_permission_valid:
  assumes "s \<in> {docs, vault}" and "u \<in> {alice, bob, carol}" and "Permission_Valid k"
  shows "SharePermission_Validate (permission s u k) = None"
  using assms by (auto simp: SharePermission_Validate_def permission_def)

lemma sample_permissions_valid [simp]:
  "SharePermission_Validate (permission docs bob PermissionRead) = None"
  "SharePermission_Validate (permission docs alice PermissionReadWrite) = None"
  "SharePermission_Validate (permission docs carol PermissionReadWrite) = None"
  "SharePermission_Validate (permission vault bob PermissionReadWrite) = None"
  by (simp_all add: sample_permission_valid Permission_Valid_def)

lemma sample_settings_valid [simp]: "ServerSettings_Validate sample_settings = None"
  by (simp add: ServerSettings_Validate_def sample_settings_def validPublicBasePath_def validPort_def
      path_clean_def clean_components_def clean_step_def RuntimeMode_Valid_def backslash_def t0_def domain_eval)

lemmas hostname_eval = validHostname_def Let_def valid_label_def hostname_char_def backslash_def

lemma sample_dns_valid [simp]: "DNSProviderCredential_Validate sample_dns = None"
  by (simp add: DNSProviderCredential_Validate_def sample_dns_def DNSProviderType_Valid_def
      validDNSZone_def hostname_eval t0_def domain_eval)

lemma sample_tls_valid [simp]: "TLSProfile_Validate sample_tls = None"
  by (simp add: TLSProfile_Validate_None_iff sample_tls_def sample_dns_def TLSMode_Valid_def
      TLSChallenge_Valid_def effective_challenge_def hostname_eval t0_def domain_eval)
     (simp add: tls_const_defs)

lemma sample_fields [simp]:
  "Users sample_input = [bob, carol, alice]" "Shares sample_input = [sample_vault, sample_docs]"
  "ServerSettings sample_input = sample_settings" "TLSProfile sample_input = Some sample_tls"
  "DNSProviderCredentials sample_input = [sample_dns]"
  "Share sample_docs = docs" "Share sample_vault = vault"
  "Permissions sample_vault = [permission vault bob PermissionReadWrite]"
  "Permissions sample_docs = [permission docs bob PermissionRead,
     permission docs alice PermissionReadWrite, permission docs carol PermissionReadWrite]"
  "perm_ShareID (permission s u k) = share_ID s" "perm_UserID (permission s u k) = user_ID u"
  "Permission (permission s u k) = k" "share_Enabled docs" "\<not> share_Enabled vault"
  "user_Enabled alice" "user_Enabled bob" "\<not> user_Enabled carol"
  "Username alice = ''Alice''" "Username bob = ''bob''" "Username carol = ''carol''"
  "DNSProviderID sample_tls = Some (dns_ID sample_dns)" "Hostname sample_tls = ''dav.example.org''"
  by (simp_all add: sample_defs)

lemma sample_well_formed [simp]: "well_formed_input sample_input"
  by (simp add: well_formed_input_def well_formed_permissions_def)
     (simp add: sample_defs)

end
