(* ===== verification/Compiler_Properties.thy ===== *)
theory Compiler_Properties
  imports Compiler_Discovery Compiler_Json Sample
begin

text \<open>
  The properties of the configuration compiler, each with an instance on the sample state.
\<close>

section \<open>The sample state compiles\<close>

lemma sample_compiles: "\<exists>cfg ws. compile_tree sample_input = Inr (cfg, ws)"
  using compile_tree_ok [OF sample_well_formed] by blast

lemma sample_prefix: "share_prefix sample_settings sample_docs = ''/dav/docs''"
  by (simp add: share_prefix_def joinPublicPath_def trim_suffix_def sample_settings_def docs_def str_eval)

lemma sample_permitted:
  "permitted sample_input {PermissionReadWrite} (user_account alice) ''/srv/docs'' ''/dav/docs''"
  "\<not> permitted sample_input {PermissionReadWrite} (user_account bob) ''/srv/docs'' ''/dav/docs''"
  by (auto simp: permitted_def sample_prefix docs_def [THEN arg_cong [of _ _ Path]] permission_defs
      user_account_def)

lemma sample_can_read: "can_read sample_input ''bob'' sample_docs" "\<not> can_read sample_input ''carol'' sample_docs"
  by (auto simp: can_read_def)

section \<open>Access control\<close>

text \<open>C1. The compiled configuration gives an account exactly the access the desired state gives it:
  through a route with every method if and only if the account is that of an enabled user with a
  \<open>READ_WRITE\<close> permission on an enabled share, through a route with the reading methods if and only if
  the permission is \<open>READ\<close> or \<open>READ_WRITE\<close>, and through no other route at all; the route serves that
  share's directory below that share's prefix.\<close>

theorem compiled_access_is_desired_access:
  assumes "compile_tree input = Inr (cfg, ws)"
  shows "admits cfg methods a root prefix \<longleftrightarrow>
    methods = readMethods \<and> permitted input {PermissionRead, PermissionReadWrite} a root prefix
    \<or> methods = [] \<and> permitted input {PermissionReadWrite} a root prefix"
  using assms by (rule admits_permitted)

theorem compiled_access_is_desired_access_witness:
  "\<exists>cfg ws. compile_tree sample_input = Inr (cfg, ws)
     \<and> admits cfg [] (user_account alice) ''/srv/docs'' ''/dav/docs''
     \<and> \<not> admits cfg [] (user_account bob) ''/srv/docs'' ''/dav/docs''"
proof -
  obtain cfg ws where c: "compile_tree sample_input = Inr (cfg, ws)" using sample_compiles by blast
  with compiled_access_is_desired_access [OF c, of "[]"] sample_permitted show ?thesis
    by (auto simp: readMethods_def)
qed

text \<open>C2. No WebDAV handler is reachable without authentication: every route that serves a directory
  is terminal, is limited to one share's paths, to the configured host when there is a TLS
  profile, and to the reading methods or to none, and puts an authentication handler with at least one account
  before the file server.\<close>

theorem webdav_routes_are_authenticated:
  assumes "compile_tree input = Inr (cfg, ws)"
    and "r \<in> set (all_routes cfg)" and "WebDAVHandler root prefix \<in> set (Handle r)"
  shows "\<exists>accounts methods. accounts \<noteq> [] \<and> methods \<in> {readMethods, []} \<and> Terminal r
    \<and> Handle r = [AuthenticationHandler accounts, WebDAVHandler root prefix]
    \<and> Match r = [\<lparr>m_Path = [prefix, prefix @ ''/*''], m_Method = methods,
        m_Host = (case TLSProfile input of None \<Rightarrow> []
          | Some p \<Rightarrow> if Hostname p = [] then [] else [Hostname p])\<rparr>]"
proof -
  from webdav_routes [OF assms(1), of r root prefix] assms(2,3) obtain item where
    "r \<in> set (share_routes (ServerSettings input) (input_hostname input) (users_by_ID (Users input)) item)"
    "root = Path (Share item)" "prefix = share_prefix (ServerSettings input) item"
    by auto
  then show ?thesis
    by (auto simp: share_routes_iff permissionRoute_def share_paths_def host_matcher_def
        input_hostname_def split: option.splits)
qed

theorem webdav_routes_are_authenticated_witness:
  "\<exists>cfg ws r accounts. compile_tree sample_input = Inr (cfg, ws) \<and> r \<in> set (all_routes cfg)
     \<and> Handle r = [AuthenticationHandler accounts, WebDAVHandler ''/srv/docs'' ''/dav/docs'']
     \<and> accounts \<noteq> [] \<and> Terminal r"
proof -
  obtain cfg ws where c: "compile_tree sample_input = Inr (cfg, ws)" using sample_compiles by blast
  with admits_permitted [OF c] sample_permitted(1)
  have "admits cfg [] (user_account alice) ''/srv/docs'' ''/dav/docs''" by simp
  then obtain r accounts where r: "r \<in> set (all_routes cfg)"
      "Handle r = [AuthenticationHandler accounts, WebDAVHandler ''/srv/docs'' ''/dav/docs'']"
    by (auto simp: admits_def)
  with webdav_routes_are_authenticated [OF c r(1), of "''/srv/docs''" "''/dav/docs''"] c show ?thesis
    by auto
qed

lemma slug_no_slash: "shareSlugPattern s \<Longrightarrow> CHR ''/'' \<notin> set s"
proof -
  assume s: "shareSlugPattern s"
  have "c = CHR ''-'' \<or> (\<exists>f \<in> set (split_on (CHR ''-'') s). c \<in> set f)" if "c \<in> set s" for c
    using that by (induction "CHR ''-''" s rule: split_on.induct) (auto split: list.splits if_splits)
  with s show ?thesis
    by (fastforce simp: shareSlugPattern_def list_all_iff slug_char_def)
qed

text \<open>Routes of different shares never compete: no request path is for two shares of a state
  that compiles, since a share's prefix is the base path and its slug, slugs are distinct and a valid
  slug has no slash.\<close>

theorem share_prefixes_disjoint:
  assumes "compile_tree input = Inr r"
    and "s \<in> set (Shares input)" and "t \<in> set (Shares input)"
    and "below (share_prefix (ServerSettings input) s) path"
    and "below (share_prefix (ServerSettings input) t) path"
  shows "s = t"
proof -
  have v: "CHR ''/'' \<notin> set (Slug (Share x))" if "x \<in> set (Shares input)" for x
    using assms(1) that
    by (intro slug_no_slash) (auto simp: compile_tree_Inr compilable_def share_compiles_def Share_Validate_def)
  from below_unique [OF v [OF assms(2)] v [OF assms(3)]] assms(4,5)
  have "(Slug \<circ> Share) s = (Slug \<circ> Share) t" by (simp add: share_prefix_def)
  with distinct_map_eq [OF distinct_slugs [OF assms(1)] assms(2,3)] show ?thesis by simp
qed

theorem share_prefixes_disjoint_witness:
  "below ''/dav/docs'' ''/dav/docs/a.txt'' \<and> \<not> below (share_prefix sample_settings sample_vault) ''/dav/docs/a.txt''"
proof -
  obtain r where c: "compile_tree sample_input = Inr r" using sample_compiles by blast
  have b: "below (share_prefix (ServerSettings sample_input) sample_docs) ''/dav/docs/a.txt''"
    by (simp add: sample_prefix below_def has_prefix_def)
  moreover have "sample_docs \<noteq> sample_vault" by (simp add: sample_docs_def sample_vault_def docs_def vault_def)
  ultimately show ?thesis
    using share_prefixes_disjoint [OF c, of sample_docs sample_vault "''/dav/docs/a.txt''"]
    by (auto simp: sample_prefix)
qed

section \<open>Discovery\<close>

lemma discovery_route_content:
  assumes "compile_tree input = Inr (cfg, ws)" and "r \<in> set (all_routes cfg)"
    and "Handle r = [AuthenticationHandler accounts, DiscoveryHandler base entries]"
  shows "(\<forall>n. map_of entries n = (if can_see input n then Some (seen_entries input n) else None))
    \<and> sorted (map fst entries) \<and> distinct (map fst entries)
    \<and> set accounts = {user_account u | u. u \<in> set (Users input) \<and> user_Enabled u
        \<and> can_see input (Username u)}
    \<and> base = discovery_root (PublicBasePath (ServerSettings input))"
proof -
  have cfg: "compile_config input (providers_by_ID (DNSProviderCredentials input)) (final_shares input) = Inr cfg"
    using assms(1) by (simp add: compile_tree_Inr)
  have "r \<in> set (discovery_routes (ServerSettings input) (input_hostname input) (final_shares input))"
    using assms(2,3) unfolding compile_config_routes [OF cfg] final_routes
    by (auto simp: share_routes_iff permissionRoute_def fallback_route_def httpsRedirectRoute_def Let_def
        split: option.splits)
  then have a: "accounts = map (seen_account input) (seen_names input)"
    and e: "entries = map (\<lambda>n. (n, seen_entries input n)) (seen_names input)"
    and b: "base = discovery_root (PublicBasePath (ServerSettings input))"
    using assms(3) by (auto simp: discovery_routes_eq [OF assms(1)] discoveryRoute_def split: if_splits)
  have m: "map_of entries n = (if n \<in> set (seen_names input) then Some (seen_entries input n) else None)" for n
    by (simp add: e map_of_map_keys [symmetric] map_of_eq_None_iff image_image)
       (auto simp: map_of_map_restrict restrict_map_def)
  have k: "map fst entries = seen_names input" by (simp add: e comp_def)
  show ?thesis
    using m seen_names [OF assms(1)] discovery_accounts [OF assms(1)] by (simp add: a b k)
qed

lemma discovery_route_exists:
  assumes "compile_tree input = Inr (cfg, ws)" and "can_see input n"
  shows "\<exists>r \<in> set (all_routes cfg). \<exists>accounts base entries.
    Handle r = [AuthenticationHandler accounts, DiscoveryHandler base entries]"
proof -
  have cfg: "compile_config input (providers_by_ID (DNSProviderCredentials input)) (final_shares input) = Inr cfg"
    using assms(1) by (simp add: compile_tree_Inr)
  have "seen_names input \<noteq> []" using seen_names(1) [OF assms(1)] assms(2) by auto
  then show ?thesis
    unfolding compile_config_routes [OF cfg] discovery_routes_eq [OF assms(1)]
    by (simp add: discoveryRoute_def)
qed

text \<open>The discovery root shows a user exactly the enabled shares the user may read.  There is a
  discovery route if and only if some user can read some share; its handler holds one entry list per such
  username, with the slug and name of exactly the shares that user may read, in the order of their slugs;
  the accounts it authenticates are those of the same users.\<close>

theorem discovery_shows_readable_shares:
  assumes "compile_tree input = Inr (cfg, ws)"
  shows "((\<exists>n. can_see input n) \<longleftrightarrow> (\<exists>r \<in> set (all_routes cfg). \<exists>accounts base entries.
        Handle r = [AuthenticationHandler accounts, DiscoveryHandler base entries]))
    \<and> (\<forall>r accounts base entries. r \<in> set (all_routes cfg) \<longrightarrow>
        Handle r = [AuthenticationHandler accounts, DiscoveryHandler base entries] \<longrightarrow>
        (\<forall>n. map_of entries n = (if can_see input n then Some (seen_entries input n) else None))
        \<and> set accounts = {user_account u | u. u \<in> set (Users input) \<and> user_Enabled u
            \<and> can_see input (Username u)})"
proof (intro conjI allI impI iffI)
  assume "\<exists>n. can_see input n"
  with discovery_route_exists [OF assms] show "\<exists>r \<in> set (all_routes cfg). \<exists>accounts base entries.
        Handle r = [AuthenticationHandler accounts, DiscoveryHandler base entries]" by blast
next
  assume "\<exists>r \<in> set (all_routes cfg). \<exists>accounts base entries.
        Handle r = [AuthenticationHandler accounts, DiscoveryHandler base entries]"
  then obtain r accounts base entries where r: "r \<in> set (all_routes cfg)"
    "Handle r = [AuthenticationHandler accounts, DiscoveryHandler base entries]" by blast
  then have "r \<in> set (discovery_routes (ServerSettings input) (input_hostname input) (final_shares input))"
    using compile_config_routes [of input "providers_by_ID (DNSProviderCredentials input)" "final_shares input" cfg] assms
    by (auto simp: compile_tree_Inr final_routes share_routes_iff permissionRoute_def fallback_route_def
        httpsRedirectRoute_def Let_def split: option.splits)
  then have "seen_names input \<noteq> []" by (auto simp: discovery_routes_eq [OF assms])
  then show "\<exists>n. can_see input n" using seen_names(1) [OF assms] by (metis hd_in_set mem_Collect_eq)
qed (use discovery_route_content [OF assms] in auto)

lemma sample_seen: "seen_entries sample_input ''bob'' = [\<lparr>entry_Slug = ''docs'', entry_Name = ''Docs''\<rparr>]"
proof -
  have "filter (can_read sample_input ''bob'') (Shares sample_input) = [sample_docs]"
    using sample_can_read by (simp add: can_read_def)
  then show ?thesis by (simp add: seen_entries_def share_entry_def docs_def)
qed

theorem discovery_shows_readable_shares_witness:
  "\<exists>cfg ws r accounts base entries. compile_tree sample_input = Inr (cfg, ws) \<and> r \<in> set (all_routes cfg)
     \<and> Handle r = [AuthenticationHandler accounts, DiscoveryHandler base entries]
     \<and> map_of entries ''bob'' = Some [\<lparr>entry_Slug = ''docs'', entry_Name = ''Docs''\<rparr>]
     \<and> map_of entries ''carol'' = None"
proof -
  obtain cfg ws where c: "compile_tree sample_input = Inr (cfg, ws)" using sample_compiles by blast
  note d = discovery_shows_readable_shares [OF c]
  have see: "can_see sample_input ''bob''" "\<not> can_see sample_input ''carol''"
    using sample_can_read by (auto simp: can_see_def can_read_def)
  from d see(1) obtain r accounts base entries where r: "r \<in> set (all_routes cfg)"
    "Handle r = [AuthenticationHandler accounts, DiscoveryHandler base entries]" by blast
  with d see sample_seen have "map_of entries ''bob'' = Some [\<lparr>entry_Slug = ''docs'', entry_Name = ''Docs''\<rparr>]"
    "map_of entries ''carol'' = None" by auto
  with c r show ?thesis by blast
qed

section \<open>Totality and determinism\<close>

text \<open>C17. Compilation succeeds on every state the domain's validation accepts, and its warnings are
  exactly one line for each enabled share that no user may read, in the order of the slugs.\<close>

theorem validated_input_compiles:
  assumes "RuntimeConfigInput_Validate input = None"
  shows "\<exists>cfg. compile_tree input = Inr (cfg,
    map (\<lambda>item. ''share '' @ Slug (Share item) @ '' has no authorized users'')
      (filter (\<lambda>item. share_Enabled (Share item) \<and> \<not> (\<exists>n. can_read input n item))
        (sort_key input_share_key (Shares input))))"
proof -
  have wf: "well_formed_input input" using assms by (simp add: RuntimeConfigInput_Validate_iff)
  then obtain cfg where c: "compile_tree input = Inr (cfg, st_warnings (final_shares input))"
    using compile_tree_ok by blast
  have r: "share_readers (users_by_ID (Users input)) item = [] \<longleftrightarrow> \<not> (\<exists>n. can_read input n item)"
    if "item \<in> set (Shares input)" "share_Enabled (Share item)" for item
    using has_reader_can_read [OF c that(1)] that(2)
    by (cases "share_readers (users_by_ID (Users input)) item") (auto simp: has_reader_def enabled_readers_def)
  have w: "concat (map (share_warnings (users_by_ID (Users input))) ss)
      = map (\<lambda>item. ''share '' @ Slug (Share item) @ '' has no authorized users'')
          (filter (\<lambda>item. share_Enabled (Share item) \<and> \<not> (\<exists>n. can_read input n item)) ss)"
    if "set ss \<subseteq> set (Shares input)" for ss
    using that by (induction ss) (auto simp: share_warnings_def r)
  have "st_warnings (final_shares input)
      = concat (map (share_warnings (users_by_ID (Users input))) (sorted_shares input))"
    by (simp add: final_shares_def fold_after_share)
  with c w [of "sorted_shares input"] show ?thesis by (simp add: sorted_shares_def)
qed

theorem validated_input_compiles_witness: "\<exists>cfg. compile_tree sample_input = Inr (cfg, [])"
proof -
  have "\<exists>n. can_read sample_input n sample_docs" using sample_can_read by blast
  then have "filter (\<lambda>item. share_Enabled (Share item) \<and> \<not> (\<exists>n. can_read sample_input n item))
      (sort_key input_share_key (Shares sample_input)) = []"
    by (auto simp: filter_empty_conv)
  with validated_input_compiles [of sample_input] show ?thesis
    by (simp add: RuntimeConfigInput_Validate_iff)
qed

text \<open>C18. Compilation is deterministic up to the order of the desired state: listing the same
  providers, zones, users, shares and permissions in another order gives the same configuration text,
  the same hash and the same warnings.\<close>

theorem compile_order_independent:
  assumes "RuntimeConfigInput_Validate i = None" and "same_up_to_order i j"
  shows "Compile i = Compile j"
  using compile_tree_order [of i j] assms by (simp add: Compile_def RuntimeConfigInput_Validate_iff)

definition sample_reordered :: runtime_input where
  "sample_reordered = sample_input\<lparr>Users := [alice, bob, carol], Shares := [sample_docs, sample_vault]\<rparr>"

theorem compile_order_independent_witness: "Compile sample_input = Compile sample_reordered"
proof (rule compile_order_independent)
  show "RuntimeConfigInput_Validate sample_input = None" by (simp add: RuntimeConfigInput_Validate_iff)
  show "same_up_to_order sample_input sample_reordered"
    by (simp add: same_up_to_order_def sample_reordered_def)
qed

text \<open>C29. The snapshot a revision stores compiles to what the state it was taken from compiles to, so
  rolling back to a revision installs the configuration that revision described.\<close>

theorem snapshot_compiles_alike:
  assumes "RuntimeConfigInput_Validate input = None"
  shows "Snapshot_Validate (NewConfigRevisionSnapshot input) = None
    \<and> Compile (Snapshot_RuntimeConfigInput (NewConfigRevisionSnapshot input)) = Compile input"
  using compile_tree_canonical [of input] assms Snapshot_Validate_New [of input]
  by (simp add: Compile_def RuntimeConfigInput_Validate_iff canonical_def)

theorem snapshot_compiles_alike_witness:
  "Compile (Snapshot_RuntimeConfigInput (NewConfigRevisionSnapshot sample_input)) = Compile sample_input"
  using snapshot_compiles_alike [of sample_input] by (simp add: RuntimeConfigInput_Validate_iff)

section \<open>TLS\<close>

text \<open>C30. With a TLS profile nothing is served in the clear and nothing is served for another host: the
  configuration has exactly two servers; the one on the HTTP port answers requests for the profile's
  host only, with a permanent redirect to the HTTPS port; every route of the one on the HTTPS port is limited to the
  profile's host, and its last route refuses what no share and no discovery route took.\<close>

theorem tls_servers_bound_to_host:
  assumes "compile_tree input = Inr (cfg, ws)" and "TLSProfile input = Some p"
  shows "\<exists>https http. cfg_Servers cfg = [(''davdeck'', https), (''davdeck-http-redirect'', http)]
    \<and> Listen https = [port_address (HTTPSPort (ServerSettings input))]
    \<and> Listen http = [port_address (HTTPPort (ServerSettings input))]
    \<and> Routes http = [httpsRedirectRoute (Hostname p) (HTTPSPort (ServerSettings input))]
    \<and> (\<forall>r \<in> set (Routes https). \<forall>m \<in> set (Match r). m_Host m = [Hostname p])
    \<and> last (Routes https) = fallback_route (Hostname p)"
proof -
  let ?st = "final_shares input" and ?s = "ServerSettings input"
  have h: "input_hostname input = Hostname p" by (simp add: input_hostname_def assms(2))
  have ne: "Hostname p \<noteq> []"
    using assms by (auto simp: compile_tree_Inr compilable_def TLSProfile_Validate_None_iff validHostname_def)
  have cfg: "compile_config input (providers_by_ID (DNSProviderCredentials input)) ?st = Inr cfg"
    using assms(1) by (simp add: compile_tree_Inr)
  have "\<forall>m \<in> set (Match r). m_Host m = [Hostname p]"
    if "r \<in> set (discovery_routes ?s (Hostname p) ?st) \<union> set (st_routes ?st) \<union> {fallback_route (Hostname p)}" for r
    using that ne
    by (auto simp: discovery_routes_eq [OF assms(1)] final_routes share_routes_iff permissionRoute_def
        discoveryRoute_def fallback_route_def host_matcher_def h split: if_splits)
  with cfg assms(2) show ?thesis
    by (auto simp: compile_config_def Let_def tls_config_def h split: sum.splits)
qed

theorem tls_servers_bound_to_host_witness:
  "\<exists>cfg ws http. compile_tree sample_input = Inr (cfg, ws)
     \<and> map_of (cfg_Servers cfg) ''davdeck-http-redirect'' = Some http
     \<and> Routes http = [httpsRedirectRoute ''dav.example.org'' 8443]"
proof -
  obtain cfg ws where c: "compile_tree sample_input = Inr (cfg, ws)" using sample_compiles by blast
  with tls_servers_bound_to_host [OF c, of sample_tls] show ?thesis
    by (auto simp: sample_settings_def)
qed

section \<open>The identity of a state\<close>

text \<open>C31. The hash that decides whether a state needs a new revision sees only what the state means: states
  that differ in creation and update times, in the order of their entries, in \<open>NONE\<close> permissions or in
  writing the default challenge out have the same hash, which is 64 characters long.\<close>

theorem state_hash_sees_meaning_only:
  assumes "RuntimeConfigInput_Validate i = None" and "RuntimeConfigInput_Validate j = None"
    and "same_meaning i j"
  shows "\<exists>h. HashConfigRevisionState i = Inr h \<and> HashConfigRevisionState j = Inr h \<and> length h = 64"
  using assms identity_same_meaning [of i j] well_formed_distinct_keys [of i]
  by (simp add: RuntimeConfigInput_Validate_iff HashConfigRevisionState_ok length_sha256_hex)

definition sample_touched :: runtime_input where
  "sample_touched = sample_input\<lparr>Users := [alice, bob, carol],
     ServerSettings := sample_settings\<lparr>settings_UpdatedAt := Time (instant t0 + 5) True\<rparr>\<rparr>"

lemma sample_touched_valid: "RuntimeConfigInput_Validate sample_touched = None"
proof -
  have s: "ServerSettings_Validate (sample_settings\<lparr>settings_UpdatedAt := Time (instant t0 + 5) True\<rparr>) = None"
    using sample_settings_valid by (simp add: ServerSettings_Validate_def validateTimeRange_None_iff t0_def
        sample_settings_def IsZero_def)
  show ?thesis
    unfolding RuntimeConfigInput_Validate_iff
    by (simp add: well_formed_input_def well_formed_permissions_def sample_touched_def s insert_commute)
       (simp add: sample_defs)
qed

theorem state_hash_sees_meaning_only_witness:
  "HashConfigRevisionState sample_input = HashConfigRevisionState sample_touched"
proof -
  have "same_meaning sample_input sample_touched"
    by (simp add: same_meaning_def same_up_to_order_def erase_def sample_touched_def)
  with state_hash_sees_meaning_only [of sample_input sample_touched] sample_touched_valid show ?thesis
    by (auto simp: RuntimeConfigInput_Validate_iff)
qed

end
