(* ===== verification/Json_Parse.thy ===== *)
theory Json_Parse
  imports Json
begin

text \<open>
  \<open>encoding/json\<close> as a reader: the grammar \<open>json.Valid\<close> and \<open>json.Unmarshal\<close> accept, with
  their limit of 10000 nested arrays and objects.  A string is decoded the way \<open>Unmarshal\<close>
  does it: escapes are resolved, surrogate pairs joined, and bytes that are not UTF-8 become U+FFFD.
  The recursion is bounded by the length of the text.
\<close>

section \<open>Strings\<close>

definition hex_digit_value :: "char \<Rightarrow> nat option" where
  "hex_digit_value c =
     (if CHR ''0'' \<le> c \<and> c \<le> CHR ''9'' then Some (byte_of c - 48)
      else if CHR ''a'' \<le> c \<and> c \<le> CHR ''f'' then Some (byte_of c - 87)
      else if CHR ''A'' \<le> c \<and> c \<le> CHR ''F'' then Some (byte_of c - 55)
      else None)"

fun hex4 :: "string \<Rightarrow> nat option" where
  "hex4 (a # b # c # d # _) =
     (case (hex_digit_value a, hex_digit_value b, hex_digit_value c, hex_digit_value d) of
        (Some w, Some x, Some y, Some z) \<Rightarrow> Some (w * 4096 + x * 256 + y * 16 + z)
      | _ \<Rightarrow> None)"
| "hex4 _ = None"

definition simple_escapes :: "(char \<times> nat) list" where
  "simple_escapes =
     [(quote_char, 34), (escape_char, 92), (CHR ''/'', 47), (CHR ''b'', 8), (CHR ''f'', 12),
      (CHR ''n'', 10), (CHR ''r'', 13), (CHR ''t'', 9)]"

text \<open>The low surrogate of a pair: the text after a high one goes on with its escape.\<close>

definition low_surrogate :: "string \<Rightarrow> nat option" where
  "low_surrogate cs =
     (case cs of
        a # b # rest \<Rightarrow>
          if a = escape_char \<and> b = CHR ''u''
          then (case hex4 rest of
                  Some x \<Rightarrow> if 56320 \<le> x \<and> x \<le> 57343 then Some x else None
                | None \<Rightarrow> None)
          else None
      | _ \<Rightarrow> None)"

text \<open>An escape after its backslash: the bytes it stands for and how many bytes it takes.\<close>

definition decode_escape :: "string \<Rightarrow> (string \<times> nat) option" where
  "decode_escape cs =
     (case cs of [] \<Rightarrow> None
      | c # rest \<Rightarrow>
          if c = CHR ''u''
          then (case hex4 rest of None \<Rightarrow> None
                | Some r \<Rightarrow>
                    if 55296 \<le> r \<and> r \<le> 56319
                    then (case low_surrogate (drop 4 rest) of
                            Some l \<Rightarrow> Some (encode_rune ((r - 55296) * 1024 + (l - 56320) + 65536), 11)
                          | None \<Rightarrow> Some (encode_rune rune_error, 5))
                    else Some (encode_rune r, 5))
          else map_option (\<lambda>r. (encode_rune r, 1)) (map_of simple_escapes c))"

text \<open>\<open>unquote\<close>: the string whose opening quote has been read, and the text after its closing one.\<close>

function unquote :: "string \<Rightarrow> (string \<times> string) option" where
  "unquote [] = None"
| "unquote (c # cs) =
     (if c = quote_char then Some ([], cs)
      else if c = escape_char then
        (case decode_escape cs of None \<Rightarrow> None
         | Some (bytes, n) \<Rightarrow> map_option (\<lambda>(s, rest). (bytes @ s, rest)) (unquote (drop n cs)))
      else if byte_of c < 32 then None
      else
        let n = snd (decode_rune c cs);
            bytes = (if n = 0 \<and> 128 \<le> byte_of c then encode_rune rune_error else c # take n cs)
        in map_option (\<lambda>(s, rest). (bytes @ s, rest)) (unquote (drop n cs)))"
  by pat_completeness auto
termination by (relation "measure length") auto

section \<open>Numbers\<close>

definition is_digit :: "char \<Rightarrow> bool" where
  "is_digit c \<longleftrightarrow> CHR ''0'' \<le> c \<and> c \<le> CHR ''9''"

definition scan_digits :: "string \<Rightarrow> (string \<times> string) option" where
  "scan_digits s =
     (let ds = takeWhile is_digit s in if ds = [] then None else Some (ds, dropWhile is_digit s))"

definition scan_integer :: "string \<Rightarrow> (string \<times> string) option" where
  "scan_integer s =
     (case s of c # cs \<Rightarrow> if c = CHR ''0'' then Some ([c], cs) else scan_digits s | [] \<Rightarrow> None)"

definition scan_fraction :: "string \<Rightarrow> (string \<times> string) option" where
  "scan_fraction s =
     (case s of c # cs \<Rightarrow>
        if c = CHR ''.'' then map_option (\<lambda>(ds, rest). (c # ds, rest)) (scan_digits cs) else Some ([], s)
      | [] \<Rightarrow> Some ([], s))"

definition scan_exponent :: "string \<Rightarrow> (string \<times> string) option" where
  "scan_exponent s =
     (case s of c # cs \<Rightarrow>
        if c = CHR ''e'' \<or> c = CHR ''E''
        then (case cs of d # ds \<Rightarrow>
                if d = CHR ''+'' \<or> d = CHR ''-''
                then map_option (\<lambda>(x, rest). (c # d # x, rest)) (scan_digits ds)
                else map_option (\<lambda>(x, rest). (c # x, rest)) (scan_digits cs)
              | [] \<Rightarrow> None)
        else Some ([], s)
      | [] \<Rightarrow> Some ([], s))"

definition scan_number :: "string \<Rightarrow> (string \<times> string) option" where
  "scan_number s =
     (let (sign, s0) = (case s of c # cs \<Rightarrow> if c = CHR ''-'' then ([c], cs) else ([], s) | [] \<Rightarrow> ([], s)) in
      Option.bind (scan_integer s0) (\<lambda>(i, s1).
      Option.bind (scan_fraction s1) (\<lambda>(f, s2).
      Option.bind (scan_exponent s2) (\<lambda>(e, s3). Some (sign @ i @ f @ e, s3)))))"

section \<open>Values\<close>

definition is_ws :: "char \<Rightarrow> bool" where
  "is_ws c \<longleftrightarrow> byte_of c \<in> {32, 9, 13, 10}"

definition skip_ws :: "string \<Rightarrow> string" where
  "skip_ws s = dropWhile is_ws s"

definition scan_literal :: "string \<Rightarrow> (json \<times> string) option" where
  "scan_literal s =
     (if has_prefix s ''null'' then Some (JNull, drop 4 s)
      else if has_prefix s ''true'' then Some (JBool True, drop 4 s)
      else if has_prefix s ''false'' then Some (JBool False, drop 5 s)
      else map_option (\<lambda>(n, rest). (JNum n, rest)) (scan_number s))"

text \<open>The three scanners call each other; the first argument bounds the calls, the second the
  nesting.\<close>

fun parse_value :: "nat \<Rightarrow> nat \<Rightarrow> string \<Rightarrow> (json \<times> string) option"
  and parse_elements :: "nat \<Rightarrow> nat \<Rightarrow> string \<Rightarrow> (json list \<times> string) option"
  and parse_members :: "nat \<Rightarrow> nat \<Rightarrow> string \<Rightarrow> ((string \<times> json) list \<times> string) option" where
  "parse_value 0 d s = None"
| "parse_value (Suc n) d [] = None"
| "parse_value (Suc n) d (c # cs) =
     (if c = quote_char then map_option (\<lambda>(x, rest). (JStr x, rest)) (unquote cs)
      else if c = CHR ''['' then
        (if d = 0 then None
         else if skip_ws cs \<noteq> [] \<and> hd (skip_ws cs) = CHR '']'' then Some (JArr [], tl (skip_ws cs))
         else map_option (\<lambda>(xs, rest). (JArr xs, rest)) (parse_elements n (d - 1) (skip_ws cs)))
      else if c = CHR ''{'' then
        (if d = 0 then None
         else if skip_ws cs \<noteq> [] \<and> hd (skip_ws cs) = CHR ''}'' then Some (JObj [], tl (skip_ws cs))
         else map_option (\<lambda>(xs, rest). (JObj xs, rest)) (parse_members n (d - 1) (skip_ws cs)))
      else scan_literal (c # cs))"
| "parse_elements 0 d s = None"
| "parse_elements (Suc n) d s =
     (case parse_value n d s of None \<Rightarrow> None
      | Some (x, rest) \<Rightarrow>
          (case skip_ws rest of [] \<Rightarrow> None
           | c # cs \<Rightarrow>
               if c = CHR '','' then map_option (\<lambda>(xs, r). (x # xs, r)) (parse_elements n d (skip_ws cs))
               else if c = CHR '']'' then Some ([x], cs) else None))"
| "parse_members 0 d s = None"
| "parse_members (Suc n) d s =
     (case s of [] \<Rightarrow> None
      | q # qs \<Rightarrow>
          if q \<noteq> quote_char then None
          else (case unquote qs of None \<Rightarrow> None
            | Some (k, r1) \<Rightarrow>
                (case skip_ws r1 of [] \<Rightarrow> None
                 | e # es \<Rightarrow>
                     if e \<noteq> CHR '':'' then None
                     else (case parse_value n d (skip_ws es) of None \<Rightarrow> None
                       | Some (x, rest) \<Rightarrow>
                           (case skip_ws rest of [] \<Rightarrow> None
                            | c # cs \<Rightarrow>
                                if c = CHR '','' then
                                  map_option (\<lambda>(xs, r). ((k, x) # xs, r)) (parse_members n d (skip_ws cs))
                                else if c = CHR ''}'' then Some ([(k, x)], cs) else None)))))"

definition max_nesting :: nat where
  "max_nesting = 10000"

definition json_parse :: "string \<Rightarrow> json option" where
  "json_parse s =
     (case parse_value (2 * length s + 2) max_nesting (skip_ws s) of None \<Rightarrow> None
      | Some (v, rest) \<Rightarrow> if skip_ws rest = [] then Some v else None)"

definition json_valid :: "string \<Rightarrow> bool" where
  "json_valid s \<longleftrightarrow> json_parse s \<noteq> None"

end
