(* ===== verification/Timestamp_Text.thy ===== *)
theory Timestamp_Text
  imports Domain Json
begin

text \<open>
  The text of a timestamp (\<^verbatim>\<open>domain/timestamp.go\<close>): RFC 3339 with nanoseconds in UTC, as
  \<open>time.Time.Format\<close> writes it and as the fast path of \<open>time.Parse\<close> reads it.  The laxer forms
  \<open>time.Parse\<close> falls back to (an hour of one digit, a comma before the fraction) are read as errors here.
  An instant counts nanoseconds from 1 January of year 1.
\<close>

section \<open>The calendar\<close>

definition leap :: "int \<Rightarrow> bool" where
  "leap y \<longleftrightarrow> y mod 4 = 0 \<and> (y mod 100 \<noteq> 0 \<or> y mod 400 = 0)"

definition month_lengths :: "int \<Rightarrow> int list" where
  "month_lengths y = [31, if leap y then 29 else 28, 31, 30, 31, 30, 31, 31, 30, 31, 30, 31]"

definition year_days :: "int \<Rightarrow> int" where
  "year_days y = 365 * (y - 1) + (y - 1) div 4 - (y - 1) div 100 + (y - 1) div 400"

definition days_of :: "int \<Rightarrow> nat \<Rightarrow> int \<Rightarrow> int" where
  "days_of y m d = year_days y + sum_list (take (m - 1) (month_lengths y)) + d - 1"

fun month_of :: "int list \<Rightarrow> int \<Rightarrow> nat \<Rightarrow> nat \<times> int" where
  "month_of [] d m = (m, d + 1)"
| "month_of (l # ls) d m = (if d < l then (m, d + 1) else month_of ls (d - l) (Suc m))"

text \<open>Year and day of the year of a day, by the cycles of 400, 100, 4 and 1 years.\<close>

definition year_of :: "int \<Rightarrow> int \<times> int" where
  "year_of days =
     (let n400 = days div 146097; r = days mod 146097;
          n100 = min 3 (r div 36524); r1 = r - 36524 * n100;
          n4 = r1 div 1461; r2 = r1 mod 1461;
          n1 = min 3 (r2 div 365)
      in (400 * n400 + 100 * n100 + 4 * n4 + n1 + 1, r2 - 365 * n1))"

definition civil :: "int \<Rightarrow> int \<times> nat \<times> int" where
  "civil days = (let (y, yd) = year_of days; (m, d) = month_of (month_lengths y) yd 1 in (y, m, d))"

section \<open>Text\<close>

definition digit :: "int \<Rightarrow> char" where
  "digit n = char_of (48 + nat (n mod 10))"

fun digits_fixed :: "nat \<Rightarrow> int \<Rightarrow> string" where
  "digits_fixed 0 n = []"
| "digits_fixed (Suc k) n = digits_fixed k (n div 10) @ [digit n]"

definition format_year :: "int \<Rightarrow> string" where
  "format_year y =
     (if y < 0 then CHR ''-'' # (if y > - 10000 then digits_fixed 4 (- y) else digits_of (nat (- y)))
      else if y < 10000 then digits_fixed 4 y else digits_of (nat y))"

definition format_fraction :: "int \<Rightarrow> string" where
  "format_fraction n =
     (if n = 0 then []
      else CHR ''.'' # rev (dropWhile (\<lambda>c. c = CHR ''0'') (rev (digits_fixed 9 n))))"

definition format_clock :: "int \<Rightarrow> string" where
  "format_clock s =
     digits_fixed 2 (s div 3600) @ '':'' @ digits_fixed 2 (s div 60 mod 60) @ '':'' @ digits_fixed 2 (s mod 60)"

definition Timestamp_String :: "timestamp \<Rightarrow> string" where
  "Timestamp_String t =
     (if IsZero t then []
      else let secs = instant t div 1000000000;
               (y, m, d) = civil (secs div 86400)
           in format_year y @ ''-'' @ digits_fixed 2 (int m) @ ''-'' @ digits_fixed 2 d @ ''T''
              @ format_clock (secs mod 86400)
              @ format_fraction (instant t mod 1000000000) @ ''Z'')"

definition digit_char :: "char \<Rightarrow> bool" where
  "digit_char c \<longleftrightarrow> CHR ''0'' \<le> c \<and> c \<le> CHR ''9''"

definition number_of :: "string \<Rightarrow> int" where
  "number_of s = foldl (\<lambda>n c. n * 10 + int (byte_of c - 48)) 0 s"

definition parse_uint :: "string \<Rightarrow> int \<Rightarrow> int \<Rightarrow> int option" where
  "parse_uint s lo hi =
     (if list_all digit_char s \<and> lo \<le> number_of s \<and> number_of s \<le> hi then Some (number_of s) else None)"

text \<open>The fraction: a point and at least one digit; digits after the ninth do not count.\<close>

definition parse_fraction :: "string \<Rightarrow> int \<times> string" where
  "parse_fraction s =
     (case s of p # rest \<Rightarrow>
        let ds = takeWhile digit_char rest in
        if p = CHR ''.'' \<and> ds \<noteq> []
        then (number_of (take 9 (take 9 ds @ replicate 9 (CHR ''0''))), dropWhile digit_char rest)
        else (0, s)
      | [] \<Rightarrow> (0, []))"

definition parse_zone :: "string \<Rightarrow> int option" where
  "parse_zone s =
     (if s = ''Z'' then Some 0
      else if length s = 6 \<and> (s ! 0 = CHR ''+'' \<or> s ! 0 = CHR ''-'') \<and> s ! 3 = CHR '':''
      then (case (parse_uint (take 2 (drop 1 s)) 0 23, parse_uint (drop 4 s) 0 59) of
              (Some h, Some m) \<Rightarrow>
                Some ((if s ! 0 = CHR ''-'' then - 1 else 1) * (h * 3600 + m * 60))
            | _ \<Rightarrow> None)
      else None)"

definition parse_date :: "string \<Rightarrow> int option" where
  "parse_date s =
     (if s ! 4 = CHR ''-'' \<and> s ! 7 = CHR ''-'' then
        Option.bind (parse_uint (take 4 s) 0 9999) (\<lambda>y.
        Option.bind (parse_uint (take 2 (drop 5 s)) 1 12) (\<lambda>m.
        Option.bind (parse_uint (take 2 (drop 8 s)) 1 (month_lengths y ! (nat m - 1))) (\<lambda>d.
          Some (days_of y (nat m) d))))
      else None)"

definition parse_clock :: "string \<Rightarrow> int option" where
  "parse_clock s =
     (if s ! 2 = CHR '':'' \<and> s ! 5 = CHR '':'' then
        Option.bind (parse_uint (take 2 s) 0 23) (\<lambda>h.
        Option.bind (parse_uint (take 2 (drop 3 s)) 0 59) (\<lambda>m.
        Option.bind (parse_uint (take 2 (drop 6 s)) 0 59) (\<lambda>x.
          Some (h * 3600 + m * 60 + x))))
      else None)"

definition parse_rfc3339 :: "string \<Rightarrow> int option" where
  "parse_rfc3339 s =
     (if length s < 19 \<or> s ! 10 \<noteq> CHR ''T'' then None
      else Option.bind (parse_date (take 10 s)) (\<lambda>days.
           Option.bind (parse_clock (take 8 (drop 11 s))) (\<lambda>secs.
             let (nanos, rest) = parse_fraction (drop 19 s) in
             map_option (\<lambda>z. (days * 86400 + secs - z) * 1000000000 + nanos) (parse_zone rest))))"

definition ParseTimestamp :: "string \<Rightarrow> verror + timestamp" where
  "ParseTimestamp value =
     (case parse_rfc3339 value of None \<Rightarrow> Inl (ValidationError CodeInvalidTimestamp ''timestamp'')
      | Some i \<Rightarrow> NewTimestamp (Time i True))"

section \<open>Round trip\<close>

text \<open>A timestamp of the years 1 to 9999 is read back from its text.\<close>

section \<open>The calendar\<close>

lemma month_of_correct:
  assumes "0 \<le> d" and "d < sum_list ls" and "\<forall>l \<in> set ls. 0 \<le> l" and "month_of ls d m = (m', d')"
  shows "m \<le> m' \<and> m' < m + length ls \<and> 1 \<le> d' \<and> d' \<le> ls ! (m' - m)
    \<and> sum_list (take (m' - m) ls) + d' = d + 1"
  using assms
proof (induction ls d m rule: month_of.induct)
  case (1 d m)
  then show ?case by simp
next
  case (2 l ls d m)
  show ?case
  proof (cases "d < l")
    case True
    with 2 show ?thesis by auto
  next
    case False
    with 2 have ih: "Suc m \<le> m' \<and> m' < Suc m + length ls \<and> 1 \<le> d' \<and> d' \<le> ls ! (m' - Suc m)
      \<and> sum_list (take (m' - Suc m) ls) + d' = d - l + 1" by simp
    then obtain k where "m' - m = Suc k" "m' - Suc m = k" by (metis Suc_diff_Suc Suc_le_eq)
    with ih show ?thesis by auto
  qed
qed

lemma month_lengths_sum: "sum_list (month_lengths y) = (if leap y then 366 else 365)"
  by (simp add: month_lengths_def)

lemma div_exact: "0 \<le> x \<Longrightarrow> x < k \<Longrightarrow> (k * a + x) div k = (a::int)"
  by simp

lemma mod_exact: "0 \<le> x \<Longrightarrow> x < k \<Longrightarrow> (k * a + x) mod k = (x::int)"
  by simp

lemma year_of_correct:
  assumes "year_of days = (y, yd)"
  shows "year_days y + yd = days" and "0 \<le> yd" and "yd < (if leap y then 366 else 365)"
proof -
  define a r where "a = days div 146097" and "r = days mod 146097"
  define b where "b = min 3 (r div 36524)"
  define r1 where "r1 = r - 36524 * b"
  define c r2 where "c = r1 div 1461" and "r2 = r1 mod 1461"
  define e where "e = min 3 (r2 div 365)"
  have y: "y = 400 * a + 100 * b + 4 * c + e + 1" and yd: "yd = r2 - 365 * e"
    using assms by (simp_all add: year_of_def Let_def a_def r_def b_def r1_def c_def r2_def e_def)
  have r: "days = 146097 * a + r" "0 \<le> r" "r < 146097"
    by (simp_all add: a_def r_def)
  have b: "0 \<le> b" "b \<le> 3" "0 \<le> r1" "r1 \<le> 36524" "r1 = 36524 \<longrightarrow> b = 3" "r = 36524 * b + r1"
    using r(2,3) by (auto simp: b_def r1_def min_def)
  have c: "0 \<le> c" "c \<le> 24" "0 \<le> r2" "r2 < 1461" "r1 = 1461 * c + r2"
    using b(3,4) by (auto simp: c_def r2_def)
  have e: "0 \<le> e" "e \<le> 3" "0 \<le> yd" "yd \<le> 365" "yd = 365 \<longrightarrow> e = 3"
    using c(3,4) by (auto simp: e_def yd min_def)
  have d4: "(y - 1) div 4 = 100 * a + 25 * b + c"
    using div_exact [of e 4 "100 * a + 25 * b + c"] e by (simp add: y algebra_simps)
  have d100: "(y - 1) div 100 = 4 * a + b"
    using div_exact [of "4 * c + e" 100 "4 * a + b"] e c by (simp add: y algebra_simps)
  have d400: "(y - 1) div 400 = a"
    using div_exact [of "100 * b + 4 * c + e" 400 a] e c b by (simp add: y algebra_simps)
  show "year_days y + yd = days"
    unfolding year_days_def d4 d100 d400 using y yd r b c by simp
  show "0 \<le> yd" by fact
  show "yd < (if leap y then 366 else 365)"
  proof (cases "yd = 365")
    case True
    then have "e = 3" "r2 = 1460" using e yd by auto
    then have "c < 24 \<or> b = 3" using b c by auto
    have yc: "y = 400 * a + 100 * b + 4 * (c + 1)" using y \<open>e = 3\<close> by simp
    have "leap y"
    proof (cases "c < 24")
      case True
      have "y mod 100 = 4 * (c + 1)"
        using mod_exact [of "4 * (c + 1)" 100 "4 * a + b"] True c(1) yc by (simp add: algebra_simps)
      moreover have "y mod 4 = 0" using yc by simp
      ultimately show ?thesis using c(1) by (simp add: leap_def)
    next
      case False
      then have "y = 400 * (a + 1)" using c(2) \<open>c < 24 \<or> b = 3\<close> yc by simp
      then show ?thesis by (simp add: leap_def)
    qed
    with e(4) show ?thesis by simp
  next
    case False
    with e(4) show ?thesis by simp
  qed
qed

lemma civil_correct:
  assumes "civil days = (y, m, d)"
  shows "days_of y m d = days" and "1 \<le> m" and "m \<le> 12" and "1 \<le> d" and "d \<le> month_lengths y ! (m - 1)"
proof -
  obtain yd where y: "year_of days = (y, yd)" and m: "month_of (month_lengths y) yd 1 = (m, d)"
    using assms by (auto simp: civil_def split: prod.splits)
  note yc = year_of_correct [OF y]
  have pos: "\<forall>l \<in> set (month_lengths y). 0 \<le> l" by (simp add: month_lengths_def)
  have lt: "yd < sum_list (month_lengths y)" using yc(3) by (simp add: month_lengths_sum)
  note mc = month_of_correct [OF yc(2) lt pos m]
  have len: "length (month_lengths y) = 12" by (simp add: month_lengths_def)
  from mc len show "1 \<le> m" "m \<le> 12" "1 \<le> d" "d \<le> month_lengths y ! (m - 1)" by auto
  from mc yc(1) show "days_of y m d = days" by (simp add: days_of_def)
qed

lemma civil_year:
  assumes "civil days = (y, m, d)" and "0 \<le> days" and "days < 3652059"
  shows "1 \<le> y" and "y \<le> 9999"
proof -
  obtain yd where y: "year_of days = (y, yd)"
    using assms by (auto simp: civil_def split: prod.splits)
  note yc = year_of_correct [OF y]
  have mono: "year_days a \<le> year_days b" if "a \<le> b" for a b
  proof -
    have "(a - 1) div 100 \<le> (b - 1) div 100" using that by (auto intro: zdiv_mono1)
    moreover have "(b - 1) div 100 = (a - 1) div 100
        \<or> 100 * ((b - 1) div 100) - 100 * ((a - 1) div 100) \<le> b - a + 99"
      using mult_div_mod_eq [of 100 "a - 1"] mult_div_mod_eq [of 100 "b - 1"]
        pos_mod_bound [of 100 "a - 1"] pos_mod_sign [of 100 "b - 1"] by linarith
    ultimately have "(b - 1) div 100 - (a - 1) div 100 \<le> b - a" using that by linarith
    moreover have "(a - 1) div 4 \<le> (b - 1) div 4" "(a - 1) div 400 \<le> (b - 1) div 400"
      using that by (auto intro: zdiv_mono1)
    ultimately show ?thesis using that by (simp add: year_days_def)
  qed
  show "1 \<le> y"
  proof (rule ccontr)
    assume "\<not> 1 \<le> y"
    then have "y \<le> 0" by simp
    with mono [of y 0] have "year_days y \<le> - 366" by (simp add: year_days_def)
    with yc(1,3) assms(2) show False by (auto split: if_splits)
  qed
  show "y \<le> 9999"
  proof (rule ccontr)
    assume "\<not> y \<le> 9999"
    then have "10000 \<le> y" by simp
    with mono [of 10000 y] have "3652059 \<le> year_days y" by (simp add: year_days_def)
    with yc(1,2) assms(3) show False by simp
  qed
qed

section \<open>Digits\<close>

lemma digit_range: "byte_of (digit n) - 48 = nat (n mod 10)" "digit_char (digit n)"
proof -
  have "nat (n mod 10) < 10" by simp
  then have b: "byte_of (digit n) = 48 + nat (n mod 10)" by (simp add: digit_def byte_of_def)
  then show "byte_of (digit n) - 48 = nat (n mod 10)" by simp
  show "digit_char (digit n)" using b by (simp add: digit_char_def byte_of_le str_eval)
qed

lemma digits_fixed_length [simp]: "length (digits_fixed k n) = k"
  by (induction k arbitrary: n) auto

lemma digits_fixed_digits: "list_all digit_char (digits_fixed k n)"
  by (induction k arbitrary: n) (auto simp: digit_range)

lemma number_of_append: "number_of (s @ [c]) = number_of s * 10 + int (byte_of c - 48)"
  by (simp add: number_of_def)

lemma number_of_digits: "0 \<le> n \<Longrightarrow> number_of (digits_fixed k n) = n mod 10 ^ k"
proof (induction k arbitrary: n)
  case 0
  then show ?case by (simp add: number_of_def)
next
  case (Suc k)
  have "number_of (digits_fixed (Suc k) n) = (n div 10 mod 10 ^ k) * 10 + n mod 10"
    using Suc by (simp add: number_of_append digit_range)
  also have "\<dots> = n mod (10 * 10 ^ k)"
    by (simp add: zmod_zmult2_eq algebra_simps)
  finally show ?case by simp
qed

lemma parse_digits:
  "0 \<le> n \<Longrightarrow> n < 10 ^ k \<Longrightarrow> lo \<le> n \<Longrightarrow> n \<le> hi \<Longrightarrow> parse_uint (digits_fixed k n) lo hi = Some n"
  by (simp add: parse_uint_def digits_fixed_digits number_of_digits)

lemma trimmed_zeros:
  "rev (dropWhile (\<lambda>c. c = z) (rev ds))
     @ replicate (length ds - length (rev (dropWhile (\<lambda>c. c = z) (rev ds)))) z = ds"
proof -
  let ?t = "takeWhile (\<lambda>c. c = z) (rev ds)" and ?d = "dropWhile (\<lambda>c. c = z) (rev ds)"
  have t: "?t = replicate (length ?t) z"
    by (rule replicate_length_same [symmetric]) (auto dest: set_takeWhileD)
  have "length ?t + length ?d = length ds"
    by (metis length_append length_rev takeWhile_dropWhile_id)
  then have l: "length ?t = length ds - length ?d" by simp
  have "ds = rev (?t @ ?d)" by (simp only: takeWhile_dropWhile_id rev_rev_ident)
  also have "\<dots> = rev ?d @ rev ?t" by (simp only: rev_append)
  also have "rev ?t = replicate (length ds - length ?d) z"
    by (subst t) (simp only: l rev_replicate)
  finally show ?thesis by (simp only: length_rev)
qed

lemma parse_fraction_format:
  assumes "0 \<le> n" and "n < 1000000000"
  shows "parse_fraction (format_fraction n @ ''Z'') = (n, ''Z'')"
proof (cases "n = 0")
  case True
  then show ?thesis by (simp add: format_fraction_def parse_fraction_def Let_def digit_char_def)
next
  case False
  let ?ds = "digits_fixed 9 n"
  let ?t = "rev (dropWhile (\<lambda>c. c = CHR ''0'') (rev ?ds))"
  have all: "\<forall>c \<in> set ?t. digit_char c"
    using digits_fixed_digits [of 9 n] by (auto simp: list_all_iff dest: set_dropWhileD)
  have z: "\<not> digit_char (CHR ''Z'')" by (simp add: digit_char_def byte_of_le str_eval)
  have tw: "takeWhile digit_char (?t @ ''Z'') = ?t" "dropWhile digit_char (?t @ ''Z'') = ''Z''"
    using all z by (auto simp: takeWhile_append dropWhile_append)
  have le: "length ?t \<le> 9"
    using length_dropWhile_le [of "\<lambda>c. c = CHR ''0''" "rev ?ds"] by simp
  have "take 9 (take 9 ?t @ replicate 9 (CHR ''0'')) = ?t @ replicate (9 - length ?t) (CHR ''0'')"
    using le by (simp add: min_def)
  also have "\<dots> = ?ds" using trimmed_zeros [of "CHR ''0''" ?ds] by simp
  finally have p: "take 9 (take 9 ?t @ replicate 9 (CHR ''0'')) = ?ds" .
  have "number_of ?ds = n" using number_of_digits [OF assms(1), of 9] assms by simp
  moreover have "?t \<noteq> []"
  proof
    assume "?t = []"
    with trimmed_zeros [of "CHR ''0''" ?ds] have "?ds = replicate 9 (CHR ''0'')"
      by (simp only: append.simps list.size diff_zero digits_fixed_length)
    then have "number_of ?ds = 0" by (simp add: number_of_def numeral_eq_Suc byte_of_def)
    with \<open>number_of ?ds = n\<close> False show False by simp
  qed
  ultimately show ?thesis
    using False p tw by (simp add: format_fraction_def parse_fraction_def Let_def)
qed

section \<open>The text as a whole\<close>

text \<open>The instants of the years 1 to 9999, the first one (Go's zero time) excluded.\<close>

definition storable :: "timestamp \<Rightarrow> bool" where
  "storable t \<longleftrightarrow> 0 < instant t \<and> instant t < 3652059 * 86400 * 1000000000 \<and> in_utc t"

lemma append_nths:
  assumes "length a = 4" "length b = 2" "length c = 2" "length e = 8"
  shows "length (a @ ''-'' @ b @ ''-'' @ c @ ''T'' @ e @ f) = 19 + length f"
    and "(a @ ''-'' @ b @ ''-'' @ c @ ''T'' @ e @ f) ! 10 = CHR ''T''"
    and "take 10 (a @ ''-'' @ b @ ''-'' @ c @ ''T'' @ e @ f) = a @ ''-'' @ b @ ''-'' @ c"
    and "take 8 (drop 11 (a @ ''-'' @ b @ ''-'' @ c @ ''T'' @ e @ f)) = e"
    and "drop 19 (a @ ''-'' @ b @ ''-'' @ c @ ''T'' @ e @ f) = f"
  using assms by (simp_all add: nth_append)

lemma parse_date_format:
  assumes "1 \<le> y" "y \<le> 9999" "1 \<le> m" "m \<le> 12" "1 \<le> d" "d \<le> month_lengths y ! (m - 1)"
  shows "parse_date (format_year y @ ''-'' @ digits_fixed 2 (int m) @ ''-'' @ digits_fixed 2 d) = Some (days_of y m d)"
proof -
  have y: "format_year y = digits_fixed 4 y" using assms by (simp add: format_year_def)
  have "length (month_lengths y) = 12" by (simp add: month_lengths_def)
  then have "month_lengths y ! (m - 1) \<in> set (month_lengths y)" using assms(3,4) by (intro nth_mem) simp
  then have d: "d \<le> 31" using assms(6) by (auto simp: month_lengths_def split: if_splits)
  have p: "parse_uint (digits_fixed 4 y) 0 9999 = Some y" "parse_uint (digits_fixed 2 (int m)) 1 12 = Some (int m)"
    "parse_uint (digits_fixed 2 d) 1 (month_lengths y ! (m - 1)) = Some d"
    using assms d by (auto intro!: parse_digits)
  show ?thesis
    using p by (simp add: parse_date_def y nth_append numeral_eq_Suc nat_diff_distrib del: digits_fixed.simps)
qed

lemma parse_clock_format:
  assumes "0 \<le> x" and "x < 86400"
  shows "parse_clock (format_clock x) = Some x"
proof -
  have h: "0 \<le> x div 3600" "x div 3600 \<le> 23" "0 \<le> x div 60 mod 60" "x div 60 mod 60 \<le> 59"
    "0 \<le> x mod 60" "x mod 60 \<le> 59"
    using assms by auto
  have "x div 60 = x div 3600 * 60 + x div 60 mod 60"
    using div_mult_mod_eq [of "x div 60" 60] by (simp add: zdiv_zmult2_eq [symmetric])
  moreover have "x = x div 60 * 60 + x mod 60" by simp
  ultimately have x: "x div 3600 * 3600 + x div 60 mod 60 * 60 + x mod 60 = x" by linarith
  have p: "parse_uint (digits_fixed 2 (x div 3600)) 0 23 = Some (x div 3600)"
    "parse_uint (digits_fixed 2 (x div 60 mod 60)) 0 59 = Some (x div 60 mod 60)"
    "parse_uint (digits_fixed 2 (x mod 60)) 0 59 = Some (x mod 60)"
    using h by (auto intro!: parse_digits)
  show ?thesis
    unfolding format_clock_def
    using p x by (simp add: parse_clock_def nth_append numeral_eq_Suc del: digits_fixed.simps)
qed

lemma format_clock_length: "length (format_clock x) = 8"
  by (simp add: format_clock_def)

theorem timestamp_roundtrip:
  assumes "storable t"
  shows "ParseTimestamp (Timestamp_String t) = Inr t"
proof -
  let ?secs = "instant t div 1000000000"
  obtain y m d where c: "civil (?secs div 86400) = (y, m, d)" by (metis prod_cases3)
  have i: "0 < instant t" "instant t < 3652059 * 86400 * 1000000000" "in_utc t"
    using assms by (simp_all add: storable_def)
  have "?secs < 3652059 * 86400" "0 \<le> ?secs" using i by auto
  then have days: "0 \<le> ?secs div 86400" "?secs div 86400 < 3652059" by auto
  note cy = civil_year [OF c days]
  note cc = civil_correct [OF c]
  have ylen: "length (format_year y) = 4" using cy by (simp add: format_year_def)
  have shape: "Timestamp_String t = format_year y @ ''-'' @ digits_fixed 2 (int m) @ ''-'' @ digits_fixed 2 d
      @ ''T'' @ format_clock (?secs mod 86400) @ format_fraction (instant t mod 1000000000) @ ''Z''"
    using i c by (simp add: Timestamp_String_def IsZero_def Let_def)
  note n = append_nths [OF ylen digits_fixed_length digits_fixed_length format_clock_length]
  have "parse_rfc3339 (Timestamp_String t)
      = Some ((days_of y m d * 86400 + ?secs mod 86400 - 0) * 1000000000 + instant t mod 1000000000)"
    unfolding shape parse_rfc3339_def n
    using parse_date_format [OF cy cc(2-5)] parse_clock_format [of "?secs mod 86400"]
      parse_fraction_format [of "instant t mod 1000000000"]
    by (simp add: parse_zone_def)
  also have "(days_of y m d * 86400 + ?secs mod 86400 - 0) * 1000000000 + instant t mod 1000000000 = instant t"
    unfolding cc(1) by simp
  finally have "parse_rfc3339 (Timestamp_String t) = Some (instant t)" .
  then show ?thesis
    using i by (cases t) (simp add: ParseTimestamp_def NewTimestamp_def IsZero_def)
qed

end
