(* ===== verification/Snapshot_Codec.thy ===== *)
theory Snapshot_Codec
  imports Snapshot Json_Parse Timestamp_Text
begin

text \<open>
  The stored form of a revision snapshot: \<open>MarshalConfigRevisionSnapshot\<close> and
  \<open>ParseConfigRevisionSnapshot\<close> (\<^verbatim>\<open>domain/revision_snapshot.go\<close>), with the struct tags of
  the types it contains.  Decoding goes through the members of an object in order, the way \<open>json.Unmarshal\<close>
  fills a struct: a member is matched to a field by its exact name or else by its case-folded
  name, other members are skipped, \<open>null\<close> leaves a field alone (but is an error for a timestamp, which decodes
  itself), and a value of the wrong type is an error.
\<close>

section \<open>Encoding\<close>

definition time_json :: "timestamp \<Rightarrow> json" where
  "time_json t = JStr (Timestamp_String t)"

definition settings_json :: "server_settings \<Rightarrow> json" where
  "settings_json s = JObj
     [(''ID'', JStr (settings_ID s)), (''PublicBasePath'', JStr (PublicBasePath s)),
      (''HTTPPort'', JInt (HTTPPort s)), (''HTTPSPort'', JInt (HTTPSPort s)),
      (''RuntimeMode'', JStr (RuntimeMode s)), (''CreatedAt'', time_json (settings_CreatedAt s)),
      (''UpdatedAt'', time_json (settings_UpdatedAt s))]"

definition tls_json :: "tls_profile \<Rightarrow> json" where
  "tls_json p = JObj
     ([(''id'', JStr (tls_ID p)), (''mode'', JStr (Mode p)), (''hostname'', JStr (Hostname p))]
      @ omit_empty_str ''challenge'' (Challenge p)
      @ omit_none ''dns_provider_id'' (map_option JStr (DNSProviderID p))
      @ omit_empty_str ''certificate_path'' (CertificatePath p)
      @ omit_empty_str ''private_key_path'' (PrivateKeyPath p)
      @ [(''created_at'', time_json (tls_CreatedAt p)), (''updated_at'', time_json (tls_UpdatedAt p))])"

definition dns_json :: "dns_credential \<Rightarrow> json" where
  "dns_json d = JObj
     ([(''id'', JStr (dns_ID d)), (''name'', JStr (dns_Name d)), (''provider'', JStr (Provider d))]
      @ omit_empty_list ''allowed_zones'' (map JStr (AllowedZones d))
      @ [(''created_at'', time_json (dns_CreatedAt d)), (''updated_at'', time_json (dns_UpdatedAt d))])"

definition user_json :: "user \<Rightarrow> json" where
  "user_json u = JObj
     [(''id'', JStr (user_ID u)), (''username'', JStr (Username u)),
      (''username_normalized'', JStr (UsernameNormalized u)), (''password_hash'', JStr (PasswordHash u)),
      (''enabled'', JBool (user_Enabled u)), (''created_at'', time_json (user_CreatedAt u)),
      (''updated_at'', time_json (user_UpdatedAt u))]"

definition share_json :: "share \<Rightarrow> json" where
  "share_json s = JObj
     [(''ID'', JStr (share_ID s)), (''Name'', JStr (share_Name s)), (''Slug'', JStr (Slug s)),
      (''Path'', JStr (Path s)), (''Enabled'', JBool (share_Enabled s)),
      (''CreatedAt'', time_json (share_CreatedAt s)), (''UpdatedAt'', time_json (share_UpdatedAt s))]"

definition permission_json :: "share_permission \<Rightarrow> json" where
  "permission_json p = JObj
     [(''ShareID'', JStr (perm_ShareID p)), (''UserID'', JStr (perm_UserID p)),
      (''Permission'', JStr (Permission p)), (''CreatedAt'', time_json (perm_CreatedAt p)),
      (''UpdatedAt'', time_json (perm_UpdatedAt p))]"

text \<open>The copy of an empty permission list is a nil slice, which is written as \<open>null\<close>.\<close>

definition share_entry_json :: "share_with_permissions \<Rightarrow> json" where
  "share_entry_json s = JObj
     [(''share'', share_json (Share s)),
      (''permissions'', if Permissions s = [] then JNull else JArr (map permission_json (Permissions s)))]"

definition snapshot_json :: "config_snapshot \<Rightarrow> json" where
  "snapshot_json s = JObj
     ([(''version'', JInt (snap_Version s)), (''server_settings'', settings_json (snap_ServerSettings s))]
      @ omit_none ''tls_profile'' (map_option tls_json (snap_TLSProfile s))
      @ omit_empty_list ''dns_providers'' (map dns_json (snap_DNSProviders s))
      @ [(''users'', JArr (map user_json (snap_Users s))),
         (''shares'', JArr (map share_entry_json (snap_Shares s)))])"

definition MarshalConfigRevisionSnapshot :: "runtime_input \<Rightarrow> input_error + string" where
  "MarshalConfigRevisionSnapshot input =
     (let snapshot = NewConfigRevisionSnapshot input in
      case Snapshot_Validate snapshot of Some e \<Rightarrow> Inl e
      | None \<Rightarrow> Inr (json_marshal (snapshot_json snapshot)))"

section \<open>Decoding\<close>

definition fold_rune :: "rune \<Rightarrow> rune" where
  "fold_rune r = (if 97 \<le> r \<and> r \<le> 122 then r - 32 else if r = 8490 then 75 else if r = 383 then 83 else r)"

definition field_of :: "string list \<Rightarrow> string \<Rightarrow> string option" where
  "field_of names key =
     (if key \<in> set names then Some key
      else find (\<lambda>n. map fold_rune (runes n) = map fold_rune (runes key)) names)"

fun decode_members ::
  "string list \<Rightarrow> (string \<Rightarrow> json \<Rightarrow> 'r \<Rightarrow> 'r option) \<Rightarrow> (string \<times> json) list \<Rightarrow> 'r \<Rightarrow> 'r option" where
  "decode_members names assign [] r = Some r"
| "decode_members names assign ((k, v) # kvs) r =
     (case field_of names k of
        None \<Rightarrow> decode_members names assign kvs r
      | Some n \<Rightarrow> (case assign n v r of None \<Rightarrow> None | Some r' \<Rightarrow> decode_members names assign kvs r'))"

definition decode_struct ::
  "string list \<Rightarrow> (string \<Rightarrow> json \<Rightarrow> 'r \<Rightarrow> 'r option) \<Rightarrow> json \<Rightarrow> 'r \<Rightarrow> 'r option" where
  "decode_struct names assign j r =
     (case j of JObj kvs \<Rightarrow> decode_members names assign kvs r | JNull \<Rightarrow> Some r | _ \<Rightarrow> None)"

fun decode_string :: "json \<Rightarrow> string \<Rightarrow> string option" where
  "decode_string (JStr s) old = Some s"
| "decode_string JNull old = Some old"
| "decode_string _ old = None"

fun decode_bool :: "json \<Rightarrow> bool \<Rightarrow> bool option" where
  "decode_bool (JBool b) old = Some b"
| "decode_bool JNull old = Some old"
| "decode_bool _ old = None"

definition int_of_literal :: "string \<Rightarrow> int option" where
  "int_of_literal s =
     (let (neg, ds) = (case s of c # cs \<Rightarrow> if c = CHR ''-'' then (True, cs) else (False, s) | [] \<Rightarrow> (False, s));
          v = (if neg then - number_of ds else number_of ds)
      in if ds \<noteq> [] \<and> list_all digit_char ds \<and> - (2 ^ 63) \<le> v \<and> v < 2 ^ 63 then Some v else None)"

fun decode_int :: "json \<Rightarrow> int \<Rightarrow> int option" where
  "decode_int (JNum s) old = int_of_literal s"
| "decode_int JNull old = Some old"
| "decode_int _ old = None"

fun decode_time :: "json \<Rightarrow> timestamp option" where
  "decode_time (JStr s) = (case ParseTimestamp s of Inl _ \<Rightarrow> None | Inr t \<Rightarrow> Some t)"
| "decode_time _ = None"

fun decode_list :: "(json \<Rightarrow> 'a option) \<Rightarrow> json \<Rightarrow> 'a list \<Rightarrow> 'a list option" where
  "decode_list f (JArr xs) old =
     (if list_all (\<lambda>x. f x \<noteq> None) xs then Some (map (\<lambda>x. the (f x)) xs) else None)"
| "decode_list f JNull old = Some []"
| "decode_list f _ old = None"

definition zero_time :: timestamp where
  "zero_time = Time 0 True"

definition zero_settings :: server_settings where
  "zero_settings = \<lparr>settings_ID = [], PublicBasePath = [], HTTPPort = 0, HTTPSPort = 0, RuntimeMode = [],
     settings_CreatedAt = zero_time, settings_UpdatedAt = zero_time\<rparr>"

definition zero_tls :: tls_profile where
  "zero_tls = \<lparr>tls_ID = [], Mode = [], Hostname = [], Challenge = [], DNSProviderID = None,
     CertificatePath = [], PrivateKeyPath = [], tls_CreatedAt = zero_time, tls_UpdatedAt = zero_time\<rparr>"

definition zero_dns :: dns_credential where
  "zero_dns = \<lparr>dns_ID = [], dns_Name = [], Provider = [], AllowedZones = [], dns_CreatedAt = zero_time,
     dns_UpdatedAt = zero_time\<rparr>"

definition zero_user :: user where
  "zero_user = \<lparr>user_ID = [], Username = [], UsernameNormalized = [], PasswordHash = [], user_Enabled = False,
     user_CreatedAt = zero_time, user_UpdatedAt = zero_time\<rparr>"

definition zero_share :: share where
  "zero_share = \<lparr>share_ID = [], share_Name = [], Slug = [], Path = [], share_Enabled = False,
     share_CreatedAt = zero_time, share_UpdatedAt = zero_time\<rparr>"

definition zero_permission :: share_permission where
  "zero_permission = \<lparr>perm_ShareID = [], perm_UserID = [], Permission = [], perm_CreatedAt = zero_time,
     perm_UpdatedAt = zero_time\<rparr>"

definition assign_settings :: "string \<Rightarrow> json \<Rightarrow> server_settings \<Rightarrow> server_settings option" where
  "assign_settings n v s =
     (if n = ''ID'' then map_option (\<lambda>x. s\<lparr>settings_ID := x\<rparr>) (decode_string v (settings_ID s))
      else if n = ''PublicBasePath'' then map_option (\<lambda>x. s\<lparr>PublicBasePath := x\<rparr>) (decode_string v (PublicBasePath s))
      else if n = ''HTTPPort'' then map_option (\<lambda>x. s\<lparr>HTTPPort := x\<rparr>) (decode_int v (HTTPPort s))
      else if n = ''HTTPSPort'' then map_option (\<lambda>x. s\<lparr>HTTPSPort := x\<rparr>) (decode_int v (HTTPSPort s))
      else if n = ''RuntimeMode'' then map_option (\<lambda>x. s\<lparr>RuntimeMode := x\<rparr>) (decode_string v (RuntimeMode s))
      else if n = ''CreatedAt'' then map_option (\<lambda>x. s\<lparr>settings_CreatedAt := x\<rparr>) (decode_time v)
      else map_option (\<lambda>x. s\<lparr>settings_UpdatedAt := x\<rparr>) (decode_time v))"

definition settings_fields :: "string list" where
  "settings_fields = [''ID'', ''PublicBasePath'', ''HTTPPort'', ''HTTPSPort'', ''RuntimeMode'', ''CreatedAt'', ''UpdatedAt'']"

definition decode_settings :: "json \<Rightarrow> server_settings \<Rightarrow> server_settings option" where
  "decode_settings = decode_struct settings_fields assign_settings"

fun decode_pointer :: "(json \<Rightarrow> 'a \<Rightarrow> 'a option) \<Rightarrow> 'a \<Rightarrow> json \<Rightarrow> 'a option \<Rightarrow> 'a option option" where
  "decode_pointer f zero JNull old = Some None"
| "decode_pointer f zero j old = map_option Some (f j (case old of None \<Rightarrow> zero | Some x \<Rightarrow> x))"

definition assign_tls :: "string \<Rightarrow> json \<Rightarrow> tls_profile \<Rightarrow> tls_profile option" where
  "assign_tls n v p =
     (if n = ''id'' then map_option (\<lambda>x. p\<lparr>tls_ID := x\<rparr>) (decode_string v (tls_ID p))
      else if n = ''mode'' then map_option (\<lambda>x. p\<lparr>Mode := x\<rparr>) (decode_string v (Mode p))
      else if n = ''hostname'' then map_option (\<lambda>x. p\<lparr>Hostname := x\<rparr>) (decode_string v (Hostname p))
      else if n = ''challenge'' then map_option (\<lambda>x. p\<lparr>Challenge := x\<rparr>) (decode_string v (Challenge p))
      else if n = ''dns_provider_id'' then
        map_option (\<lambda>x. p\<lparr>DNSProviderID := x\<rparr>) (decode_pointer decode_string [] v (DNSProviderID p))
      else if n = ''certificate_path'' then map_option (\<lambda>x. p\<lparr>CertificatePath := x\<rparr>) (decode_string v (CertificatePath p))
      else if n = ''private_key_path'' then map_option (\<lambda>x. p\<lparr>PrivateKeyPath := x\<rparr>) (decode_string v (PrivateKeyPath p))
      else if n = ''created_at'' then map_option (\<lambda>x. p\<lparr>tls_CreatedAt := x\<rparr>) (decode_time v)
      else map_option (\<lambda>x. p\<lparr>tls_UpdatedAt := x\<rparr>) (decode_time v))"

definition tls_fields :: "string list" where
  "tls_fields = [''id'', ''mode'', ''hostname'', ''challenge'', ''dns_provider_id'', ''certificate_path'',
     ''private_key_path'', ''created_at'', ''updated_at'']"

definition decode_tls :: "json \<Rightarrow> tls_profile \<Rightarrow> tls_profile option" where
  "decode_tls = decode_struct tls_fields assign_tls"

definition assign_dns :: "string \<Rightarrow> json \<Rightarrow> dns_credential \<Rightarrow> dns_credential option" where
  "assign_dns n v d =
     (if n = ''id'' then map_option (\<lambda>x. d\<lparr>dns_ID := x\<rparr>) (decode_string v (dns_ID d))
      else if n = ''name'' then map_option (\<lambda>x. d\<lparr>dns_Name := x\<rparr>) (decode_string v (dns_Name d))
      else if n = ''provider'' then map_option (\<lambda>x. d\<lparr>Provider := x\<rparr>) (decode_string v (Provider d))
      else if n = ''allowed_zones'' then
        map_option (\<lambda>x. d\<lparr>AllowedZones := x\<rparr>) (decode_list (\<lambda>j. decode_string j []) v (AllowedZones d))
      else if n = ''created_at'' then map_option (\<lambda>x. d\<lparr>dns_CreatedAt := x\<rparr>) (decode_time v)
      else map_option (\<lambda>x. d\<lparr>dns_UpdatedAt := x\<rparr>) (decode_time v))"

definition dns_fields :: "string list" where
  "dns_fields = [''id'', ''name'', ''provider'', ''allowed_zones'', ''created_at'', ''updated_at'']"

definition decode_dns :: "json \<Rightarrow> dns_credential option" where
  "decode_dns j = decode_struct dns_fields assign_dns j zero_dns"

definition assign_user :: "string \<Rightarrow> json \<Rightarrow> user \<Rightarrow> user option" where
  "assign_user n v u =
     (if n = ''id'' then map_option (\<lambda>x. u\<lparr>user_ID := x\<rparr>) (decode_string v (user_ID u))
      else if n = ''username'' then map_option (\<lambda>x. u\<lparr>Username := x\<rparr>) (decode_string v (Username u))
      else if n = ''username_normalized'' then
        map_option (\<lambda>x. u\<lparr>UsernameNormalized := x\<rparr>) (decode_string v (UsernameNormalized u))
      else if n = ''password_hash'' then map_option (\<lambda>x. u\<lparr>PasswordHash := x\<rparr>) (decode_string v (PasswordHash u))
      else if n = ''enabled'' then map_option (\<lambda>x. u\<lparr>user_Enabled := x\<rparr>) (decode_bool v (user_Enabled u))
      else if n = ''created_at'' then map_option (\<lambda>x. u\<lparr>user_CreatedAt := x\<rparr>) (decode_time v)
      else map_option (\<lambda>x. u\<lparr>user_UpdatedAt := x\<rparr>) (decode_time v))"

definition user_fields :: "string list" where
  "user_fields = [''id'', ''username'', ''username_normalized'', ''password_hash'', ''enabled'', ''created_at'', ''updated_at'']"

definition decode_user :: "json \<Rightarrow> user option" where
  "decode_user j = decode_struct user_fields assign_user j zero_user"

definition assign_share :: "string \<Rightarrow> json \<Rightarrow> share \<Rightarrow> share option" where
  "assign_share n v s =
     (if n = ''ID'' then map_option (\<lambda>x. s\<lparr>share_ID := x\<rparr>) (decode_string v (share_ID s))
      else if n = ''Name'' then map_option (\<lambda>x. s\<lparr>share_Name := x\<rparr>) (decode_string v (share_Name s))
      else if n = ''Slug'' then map_option (\<lambda>x. s\<lparr>Slug := x\<rparr>) (decode_string v (Slug s))
      else if n = ''Path'' then map_option (\<lambda>x. s\<lparr>Path := x\<rparr>) (decode_string v (Path s))
      else if n = ''Enabled'' then map_option (\<lambda>x. s\<lparr>share_Enabled := x\<rparr>) (decode_bool v (share_Enabled s))
      else if n = ''CreatedAt'' then map_option (\<lambda>x. s\<lparr>share_CreatedAt := x\<rparr>) (decode_time v)
      else map_option (\<lambda>x. s\<lparr>share_UpdatedAt := x\<rparr>) (decode_time v))"

definition share_fields :: "string list" where
  "share_fields = [''ID'', ''Name'', ''Slug'', ''Path'', ''Enabled'', ''CreatedAt'', ''UpdatedAt'']"

definition assign_permission :: "string \<Rightarrow> json \<Rightarrow> share_permission \<Rightarrow> share_permission option" where
  "assign_permission n v p =
     (if n = ''ShareID'' then map_option (\<lambda>x. p\<lparr>perm_ShareID := x\<rparr>) (decode_string v (perm_ShareID p))
      else if n = ''UserID'' then map_option (\<lambda>x. p\<lparr>perm_UserID := x\<rparr>) (decode_string v (perm_UserID p))
      else if n = ''Permission'' then map_option (\<lambda>x. p\<lparr>Permission := x\<rparr>) (decode_string v (Permission p))
      else if n = ''CreatedAt'' then map_option (\<lambda>x. p\<lparr>perm_CreatedAt := x\<rparr>) (decode_time v)
      else map_option (\<lambda>x. p\<lparr>perm_UpdatedAt := x\<rparr>) (decode_time v))"

definition permission_fields :: "string list" where
  "permission_fields = [''ShareID'', ''UserID'', ''Permission'', ''CreatedAt'', ''UpdatedAt'']"

definition decode_permission :: "json \<Rightarrow> share_permission option" where
  "decode_permission j = decode_struct permission_fields assign_permission j zero_permission"

definition assign_entry :: "string \<Rightarrow> json \<Rightarrow> share_with_permissions \<Rightarrow> share_with_permissions option" where
  "assign_entry n v s =
     (if n = ''share'' then map_option (\<lambda>x. s\<lparr>Share := x\<rparr>) (decode_struct share_fields assign_share v (Share s))
      else map_option (\<lambda>x. s\<lparr>Permissions := x\<rparr>) (decode_list decode_permission v (Permissions s)))"

definition decode_entry :: "json \<Rightarrow> share_with_permissions option" where
  "decode_entry j = decode_struct [''share'', ''permissions''] assign_entry j
     \<lparr>Share = zero_share, Permissions = []\<rparr>"

definition assign_snapshot :: "string \<Rightarrow> json \<Rightarrow> config_snapshot \<Rightarrow> config_snapshot option" where
  "assign_snapshot n v s =
     (if n = ''version'' then map_option (\<lambda>x. s\<lparr>snap_Version := x\<rparr>) (decode_int v (snap_Version s))
      else if n = ''server_settings'' then
        map_option (\<lambda>x. s\<lparr>snap_ServerSettings := x\<rparr>) (decode_settings v (snap_ServerSettings s))
      else if n = ''tls_profile'' then
        map_option (\<lambda>x. s\<lparr>snap_TLSProfile := x\<rparr>) (decode_pointer decode_tls zero_tls v (snap_TLSProfile s))
      else if n = ''dns_providers'' then
        map_option (\<lambda>x. s\<lparr>snap_DNSProviders := x\<rparr>) (decode_list decode_dns v (snap_DNSProviders s))
      else if n = ''users'' then map_option (\<lambda>x. s\<lparr>snap_Users := x\<rparr>) (decode_list decode_user v (snap_Users s))
      else map_option (\<lambda>x. s\<lparr>snap_Shares := x\<rparr>) (decode_list decode_entry v (snap_Shares s)))"

definition snapshot_fields :: "string list" where
  "snapshot_fields = [''version'', ''server_settings'', ''tls_profile'', ''dns_providers'', ''users'', ''shares'']"

definition zero_snapshot :: config_snapshot where
  "zero_snapshot = \<lparr>snap_Version = 0, snap_ServerSettings = zero_settings, snap_TLSProfile = None,
     snap_DNSProviders = [], snap_Users = [], snap_Shares = []\<rparr>"

definition decode_snapshot :: "json \<Rightarrow> config_snapshot option" where
  "decode_snapshot j = decode_struct snapshot_fields assign_snapshot j zero_snapshot"

datatype snapshot_error = NoSnapshot | UndecodableSnapshot | InvalidSnapshot input_error

definition ParseConfigRevisionSnapshot :: "string \<Rightarrow> snapshot_error + runtime_input" where
  "ParseConfigRevisionSnapshot body =
     (if body = [] then Inl NoSnapshot
      else case Option.bind (json_parse body) decode_snapshot of
        None \<Rightarrow> Inl UndecodableSnapshot
      | Some s \<Rightarrow>
          (case Snapshot_Validate s of Some e \<Rightarrow> Inl (InvalidSnapshot e)
           | None \<Rightarrow> Inr (Snapshot_RuntimeConfigInput s)))"

definition HashConfigRevisionStateSnapshot :: "string \<Rightarrow> (snapshot_error + input_error) + string" where
  "HashConfigRevisionStateSnapshot body =
     (case ParseConfigRevisionSnapshot body of Inl e \<Rightarrow> Inl (Inl e)
      | Inr input \<Rightarrow> (case HashConfigRevisionState input of Inl e \<Rightarrow> Inl (Inr e) | Inr h \<Rightarrow> Inr h))"

end
