(* ===== verification/Revision.thy ===== *)
theory Revision
  imports Domain Sha256 Json_Parse
begin

text \<open>
  Configuration revisions (\<^verbatim>\<open>domain/revision.go\<close>).  The statuses are strings, as in the source.
\<close>

type_synonym revision_status = string

definition RevisionValidationPending :: revision_status where "RevisionValidationPending = ''PENDING''"
definition RevisionValidationValid :: revision_status where "RevisionValidationValid = ''VALID''"
definition RevisionValidationInvalid :: revision_status where "RevisionValidationInvalid = ''INVALID''"
definition RevisionApplyNotApplied :: revision_status where "RevisionApplyNotApplied = ''NOT_APPLIED''"
definition RevisionApplyApplied :: revision_status where "RevisionApplyApplied = ''APPLIED''"
definition RevisionApplyFailed :: revision_status where "RevisionApplyFailed = ''FAILED''"

lemmas status_defs =
  RevisionValidationPending_def RevisionValidationValid_def RevisionValidationInvalid_def
  RevisionApplyNotApplied_def RevisionApplyApplied_def RevisionApplyFailed_def

definition RevisionValidationStatus_Valid :: "revision_status \<Rightarrow> bool" where
  "RevisionValidationStatus_Valid s \<longleftrightarrow>
     s = RevisionValidationPending \<or> s = RevisionValidationValid \<or> s = RevisionValidationInvalid"

definition RevisionApplyStatus_Valid :: "revision_status \<Rightarrow> bool" where
  "RevisionApplyStatus_Valid s \<longleftrightarrow>
     s = RevisionApplyNotApplied \<or> s = RevisionApplyApplied \<or> s = RevisionApplyFailed"

record config_revision =
  rev_ID :: ident
  Number :: int
  rev_CreatedAt :: timestamp
  ConfigJSON :: string
  StateSnapshotJSON :: string
  ConfigHash :: string
  StateHash :: string
  ValidationStatus :: revision_status
  ApplyStatus :: revision_status
  AppVersion :: string
  ErrorCode :: string
  ErrorSummary :: string

definition HashConfigJSON :: "string \<Rightarrow> string" where
  "HashConfigJSON body = sha256_hex body"

definition validSHA256 :: "string \<Rightarrow> bool" where
  "validSHA256 value \<longleftrightarrow>
     length value = 64 \<and> value = to_lower value \<and> list_all (\<lambda>c. hex_digit_value c \<noteq> None) value"

definition ConfigRevision_Validate :: "config_revision \<Rightarrow> verror option" where
  "ConfigRevision_Validate r =
     (let failed = ValidationStatus r = RevisionValidationInvalid \<or> ApplyStatus r = RevisionApplyFailed
      in first_err
       [validateID ''id'' (rev_ID r),
        fail_if (Number r = 0) (ValidationError CodeInvalidRevision ''number''),
        validateTimestamp ''created_at'' (rev_CreatedAt r),
        fail_if (\<not> json_valid (ConfigJSON r)) (ValidationError CodeInvalidConfig ''config_json''),
        fail_if (StateSnapshotJSON r \<noteq> [] \<and> \<not> json_valid (StateSnapshotJSON r))
          (ValidationError CodeInvalidConfig ''state_snapshot_json''),
        fail_if (\<not> validSHA256 (ConfigHash r) \<or> ConfigHash r \<noteq> HashConfigJSON (ConfigJSON r))
          (ValidationError CodeInvalidConfigHash ''config_hash''),
        fail_if (StateHash r \<noteq> [] \<and> \<not> validSHA256 (StateHash r))
          (ValidationError CodeInvalidConfigHash ''state_hash''),
        fail_if (\<not> RevisionValidationStatus_Valid (ValidationStatus r))
          (ValidationError CodeInvalidRevisionStatus ''validation_status''),
        fail_if (\<not> RevisionApplyStatus_Valid (ApplyStatus r))
          (ValidationError CodeInvalidRevisionStatus ''apply_status''),
        fail_if (ValidationStatus r \<noteq> RevisionValidationValid \<and> ApplyStatus r = RevisionApplyApplied)
          (ValidationError CodeInvalidRevisionStatus ''apply_status''),
        fail_if (trim_space (AppVersion r) = [] \<or> contains_control (AppVersion r))
          (ValidationError CodeInvalidRevision ''app_version''),
        fail_if (failed \<and> (trim_space (ErrorCode r) = [] \<or> trim_space (ErrorSummary r) = []))
          (ValidationError CodeInvalidRevisionStatus ''error_code''),
        fail_if (\<not> failed \<and> (ErrorCode r \<noteq> [] \<or> ErrorSummary r \<noteq> []))
          (ValidationError CodeInvalidRevisionStatus ''error_code''),
        fail_if (contains_control (ErrorCode r) \<or> contains_control (ErrorSummary r))
          (ValidationError CodeInvalidRevisionStatus ''error_summary'')])"

section \<open>The digests the program computes are valid\<close>

lemma hex_digit_ok:
  assumes "n < 16"
  shows "byte_of (hex_digit n) < 128" and "ascii_lower (hex_digit n) = hex_digit n"
    and "hex_digit_value (hex_digit n) \<noteq> None"
proof -
  have range: "(CHR ''0'' \<le> char_of k \<and> char_of k \<le> CHR ''9'') = (48 \<le> k \<and> k \<le> 57)"
      "(CHR ''a'' \<le> char_of k \<and> char_of k \<le> CHR ''f'') = (97 \<le> k \<and> k \<le> 102)"
    if "k < 256" for k :: nat
    using that by (auto simp: less_eq_char_def)
  show "hex_digit_value (hex_digit n) \<noteq> None"
    using assms by (auto simp: hex_digit_def hex_digit_value_def range)
  show "byte_of (hex_digit n) < 128" and "ascii_lower (hex_digit n) = hex_digit n"
    using assms by (auto simp: hex_digit_def byte_of_def ascii_lower_def less_eq_char_def)
qed

lemma hex_encode_ok:
  assumes "\<forall>b \<in> set bs. b < 256"
  shows "ascii (hex_encode bs) \<and> map ascii_lower (hex_encode bs) = hex_encode bs
    \<and> list_all (\<lambda>c. hex_digit_value c \<noteq> None) (hex_encode bs)"
  using assms
proof (induction bs)
  case Nil
  then show ?case by (simp add: hex_encode_def ascii_def)
next
  case (Cons b bs)
  then have "b < 16 * 16" by simp
  then have "b div 16 < 16" and "b mod 16 < 16" by (rule less_mult_imp_div_less) simp
  note d = hex_digit_ok [OF this(1)] hex_digit_ok [OF this(2)]
  have e: "hex_encode (b # bs) = hex_digit (b div 16) # hex_digit (b mod 16) # hex_encode bs"
    by (simp add: hex_encode_def)
  show ?case using Cons d unfolding e by (simp add: ascii_def)
qed

lemma validSHA256_hex [simp]: "validSHA256 (sha256_hex s)"
proof -
  have "\<forall>b \<in> set (sha256 s). b < 256" using sha256_bytes by blast
  from hex_encode_ok [OF this] show ?thesis
    by (simp add: validSHA256_def length_sha256_hex to_lower_ascii sha256_hex_def [symmetric])
qed

end
