(* ===== verification/Database.thy ===== *)
theory Database
  imports Snapshot_Codec Revision
begin

text \<open>
  The SQLite database (\<^verbatim>\<open>core/migrations\<close>): one list of rows per table, in insertion
  order, and one function per kind of statement the repositories run.  A statement checks the
  constraints the schema declares, fires the triggers that mark the runtime state dirty (once per
  affected row) and follows \<open>ON DELETE CASCADE\<close>.  Times and zone lists are stored as text; a row keeps
  the value that was written and \<open>scan_\<dots>\<close> reads it back through its text, as the Go
  scan functions do.  \<open>runtime_state.updated_at\<close>, which nothing reads, is left out.
\<close>

section \<open>Errors\<close>

text \<open>\<open>Unavailable\<close> is any failure of the driver or the file; a violated constraint names its column;
  \<open>NilDereference\<close> is a panic.\<close>

datatype db_error =
  Unavailable
| UniqueViolation string
| CheckViolation string
| ForeignKeyViolation
| NoRows
| RowError verror
| UndecodableZones
| InputError input_error
| SnapshotError snapshot_error
| StateHashMismatch
| NoStateSnapshot ident
| StateSnapshotMismatch ident
| ErrUserNotFound
| ErrUserAlreadyExists
| ErrShareNotFound
| ErrShareAlreadyExists
| ErrPermissionNotFound
| ErrServerSettingsNotFound
| ErrDNSProviderNotFound
| ErrDNSProviderInUse
| ErrRevisionNotFound
| ErrRevisionActive
| ErrRevisionDesired
| ErrConfigImportConflict
| NilDereference

section \<open>Tables\<close>

record db =
  t_users :: "user list"
  t_shares :: "share list"
  t_permissions :: "share_permission list"
  t_settings :: "server_settings list"
  t_tls :: "tls_profile list"
  t_dns :: "dns_credential list"
  t_secrets :: "(ident \<times> string) list"
  t_revisions :: "config_revision list"
  desired_revision_id :: "ident option"
  active_revision_id :: "ident option"
  db_dirty :: bool
  next_number :: int

definition mark_dirty :: "db \<Rightarrow> db" where
  "mark_dirty d = d\<lparr>db_dirty := True\<rparr>"

text \<open>The settings row of \<^verbatim>\<open>0004_runtime_state.sql\<close> and an empty database after all migrations.\<close>

definition default_settings :: "timestamp \<Rightarrow> server_settings" where
  "default_settings now =
     \<lparr>settings_ID = ''00000000-0000-4000-8000-000000000001'', PublicBasePath = ''/dav'',
      HTTPPort = 8080, HTTPSPort = 8443, RuntimeMode = RuntimeModePortable,
      settings_CreatedAt = now, settings_UpdatedAt = now\<rparr>"

definition empty_db :: "timestamp \<Rightarrow> db" where
  "empty_db now =
     \<lparr>t_users = [], t_shares = [], t_permissions = [], t_settings = [default_settings now], t_tls = [],
      t_dns = [], t_secrets = [], t_revisions = [], desired_revision_id = None,
      active_revision_id = None, db_dirty = True, next_number = 1\<rparr>"

section \<open>Statements\<close>

text \<open>A statement that changes rows; \<open>transaction\<close> commits a sequence of them or, when one fails,
  leaves the database as it was.\<close>

type_synonym statement = "db \<Rightarrow> db_error + db"

definition transaction :: "statement list \<Rightarrow> statement" where
  "transaction stmts d = for_each (\<lambda>stmt. stmt) stmts d"

definition update_where :: "('a \<Rightarrow> bool) \<Rightarrow> ('a \<Rightarrow> 'a) \<Rightarrow> 'a list \<Rightarrow> 'a list" where
  "update_where P f rows = map (\<lambda>r. if P r then f r else r) rows"

definition with_triggers :: "'a list \<Rightarrow> db \<Rightarrow> db" where
  "with_triggers affected d = (if affected = [] then d else mark_dirty d)"

paragraph \<open>Users\<close>

definition insert_user :: "user \<Rightarrow> statement" where
  "insert_user u d =
     (if UsernameNormalized u \<in> UsernameNormalized ` set (t_users d)
        then Inl (UniqueViolation ''users.username_normalized'')
      else if user_ID u \<in> user_ID ` set (t_users d) then Inl (UniqueViolation ''users.id'')
      else Inr (mark_dirty (d\<lparr>t_users := t_users d @ [u]\<rparr>)))"

definition update_user :: "ident \<Rightarrow> (user \<Rightarrow> user) \<Rightarrow> db \<Rightarrow> db" where
  "update_user i f d =
     with_triggers (filter (\<lambda>u. user_ID u = i) (t_users d))
       (d\<lparr>t_users := update_where (\<lambda>u. user_ID u = i) f (t_users d)\<rparr>)"

definition delete_users :: "(user \<Rightarrow> bool) \<Rightarrow> db \<Rightarrow> db" where
  "delete_users P d =
     (let gone = filter P (t_users d) in
      with_triggers gone
        (d\<lparr>t_users := filter (\<lambda>u. \<not> P u) (t_users d),
           t_permissions := filter (\<lambda>p. perm_UserID p \<notin> user_ID ` set gone) (t_permissions d)\<rparr>))"

paragraph \<open>Shares\<close>

definition insert_share :: "share \<Rightarrow> statement" where
  "insert_share s d =
     (if Slug s \<in> Slug ` set (t_shares d) then Inl (UniqueViolation ''shares.slug'')
      else if share_ID s \<in> share_ID ` set (t_shares d) then Inl (UniqueViolation ''shares.id'')
      else Inr (mark_dirty (d\<lparr>t_shares := t_shares d @ [s]\<rparr>)))"

definition update_share :: "share \<Rightarrow> statement" where
  "update_share s d =
     (let this = (\<lambda>r. share_ID r = share_ID s) in
      if list_ex this (t_shares d) \<and> Slug s \<in> Slug ` set (filter (\<lambda>r. \<not> this r) (t_shares d))
        then Inl (UniqueViolation ''shares.slug'')
      else Inr (with_triggers (filter this (t_shares d))
             (d\<lparr>t_shares := update_where this
                (\<lambda>r. r\<lparr>share_Name := share_Name s, Slug := Slug s, Path := Path s,
                       share_Enabled := share_Enabled s, share_UpdatedAt := share_UpdatedAt s\<rparr>)
                (t_shares d)\<rparr>)))"

definition delete_shares :: "(share \<Rightarrow> bool) \<Rightarrow> db \<Rightarrow> db" where
  "delete_shares P d =
     (let gone = filter P (t_shares d) in
      with_triggers gone
        (d\<lparr>t_shares := filter (\<lambda>s. \<not> P s) (t_shares d),
           t_permissions := filter (\<lambda>p. perm_ShareID p \<notin> share_ID ` set gone) (t_permissions d)\<rparr>))"

paragraph \<open>Permissions\<close>

definition permission_parents :: "share_permission \<Rightarrow> db \<Rightarrow> bool" where
  "permission_parents p d \<longleftrightarrow>
     perm_ShareID p \<in> share_ID ` set (t_shares d) \<and> perm_UserID p \<in> user_ID ` set (t_users d)"

definition same_grant :: "share_permission \<Rightarrow> share_permission \<Rightarrow> bool" where
  "same_grant p q \<longleftrightarrow> perm_ShareID q = perm_ShareID p \<and> perm_UserID q = perm_UserID p"

definition insert_permission :: "share_permission \<Rightarrow> statement" where
  "insert_permission p d =
     (if \<not> Permission_Valid (Permission p) then Inl (CheckViolation ''permission'')
      else if list_ex (same_grant p) (t_permissions d)
        then Inl (UniqueViolation ''share_permissions.share_id, share_permissions.user_id'')
      else if \<not> permission_parents p d then Inl ForeignKeyViolation
      else Inr (mark_dirty (d\<lparr>t_permissions := t_permissions d @ [p]\<rparr>)))"

definition upsert_permission :: "share_permission \<Rightarrow> statement" where
  "upsert_permission p d =
     (if list_ex (same_grant p) (t_permissions d)
      then if \<not> Permission_Valid (Permission p) then Inl (CheckViolation ''permission'')
           else Inr (mark_dirty (d\<lparr>t_permissions := update_where (same_grant p)
                  (\<lambda>q. q\<lparr>Permission := Permission p, perm_UpdatedAt := perm_UpdatedAt p\<rparr>) (t_permissions d)\<rparr>))
      else insert_permission p d)"

definition delete_permissions :: "(share_permission \<Rightarrow> bool) \<Rightarrow> db \<Rightarrow> db" where
  "delete_permissions P d =
     with_triggers (filter P (t_permissions d))
       (d\<lparr>t_permissions := filter (\<lambda>p. \<not> P p) (t_permissions d)\<rparr>)"

paragraph \<open>Server settings\<close>

text \<open>Only updates of this table fire a trigger.\<close>

definition settings_checks :: "server_settings \<Rightarrow> db_error option" where
  "settings_checks s = first_err
     [fail_if (\<not> (1 \<le> HTTPPort s \<and> HTTPPort s \<le> 65535)) (CheckViolation ''http_port''),
      fail_if (\<not> (1 \<le> HTTPSPort s \<and> HTTPSPort s \<le> 65535)) (CheckViolation ''https_port''),
      fail_if (RuntimeMode s \<noteq> RuntimeModePortable \<and> RuntimeMode s \<noteq> RuntimeModeService)
        (CheckViolation ''runtime_mode''),
      fail_if (HTTPPort s = HTTPSPort s) (CheckViolation ''http_port'')]"

definition update_settings :: "(server_settings \<Rightarrow> server_settings) \<Rightarrow> statement" where
  "update_settings f d =
     (case first_err (map (settings_checks \<circ> f) (t_settings d)) of Some e \<Rightarrow> Inl e
      | None \<Rightarrow> Inr (with_triggers (t_settings d) (d\<lparr>t_settings := map f (t_settings d)\<rparr>)))"

definition insert_settings :: "server_settings \<Rightarrow> statement" where
  "insert_settings s d =
     (case settings_checks s of Some e \<Rightarrow> Inl e
      | None \<Rightarrow>
          if settings_ID s \<in> settings_ID ` set (t_settings d) then Inl (UniqueViolation ''server_settings.id'')
          else Inr (d\<lparr>t_settings := t_settings d @ [s]\<rparr>))"

paragraph \<open>DNS provider credentials and secrets\<close>

definition upsert_dns :: "dns_credential \<Rightarrow> statement" where
  "upsert_dns c d =
     (if \<not> DNSProviderType_Valid (Provider c) then Inl (CheckViolation ''provider'')
      else Inr (mark_dirty (d\<lparr>t_dns :=
        (if dns_ID c \<in> dns_ID ` set (t_dns d)
         then update_where (\<lambda>r. dns_ID r = dns_ID c)
                (\<lambda>r. r\<lparr>dns_Name := dns_Name c, Provider := Provider c,
                       AllowedZones := AllowedZones c, dns_UpdatedAt := dns_UpdatedAt c\<rparr>) (t_dns d)
         else t_dns d @ [c])\<rparr>)))"

definition delete_dns :: "ident \<Rightarrow> statement" where
  "delete_dns i d =
     (if Some i \<in> DNSProviderID ` set (t_tls d) \<and> i \<in> dns_ID ` set (t_dns d) then Inl ForeignKeyViolation
      else Inr (with_triggers (filter (\<lambda>c. dns_ID c = i) (t_dns d))
             (d\<lparr>t_dns := filter (\<lambda>c. dns_ID c \<noteq> i) (t_dns d),
                t_secrets := (if i \<in> dns_ID ` set (t_dns d)
                              then filter (\<lambda>s. fst s \<noteq> i) (t_secrets d) else t_secrets d)\<rparr>)))"

definition upsert_secret :: "ident \<Rightarrow> string \<Rightarrow> statement" where
  "upsert_secret i ciphertext d =
     (if i \<in> fst ` set (t_secrets d)
      then Inr (mark_dirty (d\<lparr>t_secrets := update_where (\<lambda>s. fst s = i) (\<lambda>_. (i, ciphertext)) (t_secrets d)\<rparr>))
      else if i \<notin> dns_ID ` set (t_dns d) then Inl ForeignKeyViolation
      else Inr (mark_dirty (d\<lparr>t_secrets := t_secrets d @ [(i, ciphertext)]\<rparr>)))"

definition delete_secret :: "ident \<Rightarrow> db \<Rightarrow> db" where
  "delete_secret i d =
     with_triggers (filter (\<lambda>s. fst s = i) (t_secrets d))
       (d\<lparr>t_secrets := filter (\<lambda>s. fst s \<noteq> i) (t_secrets d)\<rparr>)"

paragraph \<open>TLS profiles\<close>

definition tls_checks :: "tls_profile \<Rightarrow> db \<Rightarrow> db_error option" where
  "tls_checks p d = first_err
     [fail_if (\<not> TLSMode_Valid (Mode p)) (CheckViolation ''mode''),
      fail_if (Challenge p \<noteq> TLSChallengeAuto \<and> Challenge p \<noteq> TLSChallengeDNS) (CheckViolation ''challenge''),
      fail_if (case DNSProviderID p of None \<Rightarrow> False | Some i \<Rightarrow> i \<notin> dns_ID ` set (t_dns d))
        ForeignKeyViolation]"

definition insert_tls :: "tls_profile \<Rightarrow> statement" where
  "insert_tls p d =
     (case tls_checks p d of Some e \<Rightarrow> Inl e
      | None \<Rightarrow>
          if tls_ID p \<in> tls_ID ` set (t_tls d) then Inl (UniqueViolation ''tls_profiles.id'')
          else Inr (mark_dirty (d\<lparr>t_tls := t_tls d @ [p]\<rparr>)))"

definition upsert_tls :: "tls_profile \<Rightarrow> statement" where
  "upsert_tls p d =
     (case tls_checks p d of Some e \<Rightarrow> Inl e
      | None \<Rightarrow> Inr (mark_dirty (d\<lparr>t_tls :=
          (if tls_ID p \<in> tls_ID ` set (t_tls d)
           then update_where (\<lambda>r. tls_ID r = tls_ID p) (\<lambda>r. p\<lparr>tls_CreatedAt := tls_CreatedAt r\<rparr>) (t_tls d)
           else t_tls d @ [p])\<rparr>)))"

definition delete_tls :: "(tls_profile \<Rightarrow> bool) \<Rightarrow> db \<Rightarrow> db" where
  "delete_tls P d =
     with_triggers (filter P (t_tls d)) (d\<lparr>t_tls := filter (\<lambda>p. \<not> P p) (t_tls d)\<rparr>)"

paragraph \<open>Revisions and the runtime state\<close>

definition insert_revision :: "config_revision \<Rightarrow> statement" where
  "insert_revision r d =
     (if Number r \<le> 0 then Inl (CheckViolation ''revision_number'')
      else if Number r \<in> Number ` set (t_revisions d)
        then Inl (UniqueViolation ''config_revisions.revision_number'')
      else if rev_ID r \<in> rev_ID ` set (t_revisions d) then Inl (UniqueViolation ''config_revisions.id'')
      else Inr (d\<lparr>t_revisions := t_revisions d @ [r]\<rparr>))"

definition revision_exists :: "db \<Rightarrow> ident option \<Rightarrow> bool" where
  "revision_exists d i \<longleftrightarrow> i = None \<or> the i \<in> rev_ID ` set (t_revisions d)"

definition set_runtime_state :: "ident option \<Rightarrow> ident option \<Rightarrow> statement" where
  "set_runtime_state desired active d =
     (if revision_exists d desired \<and> revision_exists d active
      then Inr (d\<lparr>desired_revision_id := desired, active_revision_id := active, db_dirty := False\<rparr>)
      else Inl ForeignKeyViolation)"

definition delete_revision :: "ident \<Rightarrow> statement" where
  "delete_revision i d =
     (if i \<in> rev_ID ` set (t_revisions d) \<and> (desired_revision_id d = Some i \<or> active_revision_id d = Some i)
      then Inl ForeignKeyViolation
      else Inr (d\<lparr>t_revisions := filter (\<lambda>r. rev_ID r \<noteq> i) (t_revisions d)\<rparr>))"

section \<open>Reading rows\<close>

fun scan_rows :: "('a \<Rightarrow> db_error + 'b) \<Rightarrow> 'a list \<Rightarrow> db_error + 'b list" where
  "scan_rows scan [] = Inr []"
| "scan_rows scan (r # rs) =
     (case scan r of Inl e \<Rightarrow> Inl e
      | Inr x \<Rightarrow> (case scan_rows scan rs of Inl e \<Rightarrow> Inl e | Inr xs \<Rightarrow> Inr (x # xs)))"

text \<open>The first row of a query, or \<open>sql.ErrNoRows\<close>.\<close>

definition query_row :: "('a \<Rightarrow> db_error + 'b) \<Rightarrow> 'a list \<Rightarrow> db_error + 'b" where
  "query_row scan rows = (case rows of [] \<Rightarrow> Inl NoRows | r # _ \<Rightarrow> scan r)"

definition scan_time :: "timestamp \<Rightarrow> db_error + timestamp" where
  "scan_time t = (case ParseTimestamp (Timestamp_String t) of Inl e \<Rightarrow> Inl (RowError e) | Inr t' \<Rightarrow> Inr t')"

text \<open>Every scan function parses the identifier and the two times, in this order.\<close>

definition scan_header ::
  "ident \<Rightarrow> timestamp \<Rightarrow> timestamp \<Rightarrow> db_error + (timestamp \<times> timestamp)" where
  "scan_header i created updated =
     (case ParseID i of Inl e \<Rightarrow> Inl (RowError e)
      | Inr _ \<Rightarrow>
          (case scan_time created of Inl e \<Rightarrow> Inl e
           | Inr c \<Rightarrow> (case scan_time updated of Inl e \<Rightarrow> Inl e | Inr u \<Rightarrow> Inr (c, u))))"

definition validated :: "('a \<Rightarrow> verror option) \<Rightarrow> 'a \<Rightarrow> db_error + 'a" where
  "validated check x = (case check x of Some e \<Rightarrow> Inl (RowError e) | None \<Rightarrow> Inr x)"

definition scanUser :: "user \<Rightarrow> db_error + user" where
  "scanUser r =
     (case scan_header (user_ID r) (user_CreatedAt r) (user_UpdatedAt r) of Inl e \<Rightarrow> Inl e
      | Inr (c, u) \<Rightarrow> Inr (r\<lparr>user_CreatedAt := c, user_UpdatedAt := u\<rparr>))"

definition scanShare :: "share \<Rightarrow> db_error + share" where
  "scanShare r =
     (case scan_header (share_ID r) (share_CreatedAt r) (share_UpdatedAt r) of Inl e \<Rightarrow> Inl e
      | Inr (c, u) \<Rightarrow> Inr (r\<lparr>share_CreatedAt := c, share_UpdatedAt := u\<rparr>))"

definition scanPermission :: "share_permission \<Rightarrow> db_error + share_permission" where
  "scanPermission r =
     (case ParseID (perm_ShareID r) of Inl e \<Rightarrow> Inl (RowError e)
      | Inr _ \<Rightarrow>
          (case scan_header (perm_UserID r) (perm_CreatedAt r) (perm_UpdatedAt r) of Inl e \<Rightarrow> Inl e
           | Inr (c, u) \<Rightarrow>
               validated SharePermission_Validate (r\<lparr>perm_CreatedAt := c, perm_UpdatedAt := u\<rparr>)))"

definition scanSettings :: "server_settings \<Rightarrow> db_error + server_settings" where
  "scanSettings r =
     (case scan_header (settings_ID r) (settings_CreatedAt r) (settings_UpdatedAt r) of Inl e \<Rightarrow> Inl e
      | Inr (c, u) \<Rightarrow>
          validated ServerSettings_Validate (r\<lparr>settings_CreatedAt := c, settings_UpdatedAt := u\<rparr>))"

definition scanTLSProfile :: "tls_profile \<Rightarrow> db_error + tls_profile" where
  "scanTLSProfile r =
     (case scan_header (tls_ID r) (tls_CreatedAt r) (tls_UpdatedAt r) of Inl e \<Rightarrow> Inl e
      | Inr (c, u) \<Rightarrow>
          (case (case DNSProviderID r of None \<Rightarrow> None | Some i \<Rightarrow> validateID ''id'' i) of
             Some e \<Rightarrow> Inl (RowError e)
           | None \<Rightarrow>
               validated TLSProfile_Validate
                 (r\<lparr>Challenge := (if Challenge r = [] then TLSChallengeAuto else Challenge r),
                    tls_CreatedAt := c, tls_UpdatedAt := u\<rparr>)))"

definition zones_text :: "string list \<Rightarrow> string" where
  "zones_text zones = json_marshal (JArr (map JStr zones))"

definition scanDNSProviderCredential :: "dns_credential \<Rightarrow> db_error + dns_credential" where
  "scanDNSProviderCredential r =
     (case ParseID (dns_ID r) of Inl e \<Rightarrow> Inl (RowError e)
      | Inr _ \<Rightarrow>
          (case Option.bind (json_parse (zones_text (AllowedZones r)))
                  (\<lambda>j. decode_list (\<lambda>z. decode_string z []) j []) of
             None \<Rightarrow> Inl UndecodableZones
           | Some zones \<Rightarrow>
               (case scan_header (dns_ID r) (dns_CreatedAt r) (dns_UpdatedAt r) of Inl e \<Rightarrow> Inl e
                | Inr (c, u) \<Rightarrow>
                    validated DNSProviderCredential_Validate
                      (r\<lparr>AllowedZones := sort zones, dns_CreatedAt := c, dns_UpdatedAt := u\<rparr>))))"

definition scanRevision :: "config_revision \<Rightarrow> db_error + config_revision" where
  "scanRevision r =
     (case ParseID (rev_ID r) of Inl e \<Rightarrow> Inl (RowError e)
      | Inr _ \<Rightarrow>
          (case scan_time (rev_CreatedAt r) of Inl e \<Rightarrow> Inl e
           | Inr c \<Rightarrow> validated ConfigRevision_Validate (r\<lparr>rev_CreatedAt := c\<rparr>)))"

end
