(* ===== verification/Repositories.thy ===== *)
theory Repositories
  imports Database
begin

text \<open>
  The SQLite repositories of users, shares, permissions, server settings, the TLS profile and DNS
  provider credentials (\<^verbatim>\<open>core/internal/storage\<close>) and the consistent snapshot the compiler reads.
  A query is a function of the database; an operation also returns the database after it.
\<close>

type_synonym 'a query = "db \<Rightarrow> db_error + 'a"
type_synonym 'a operation = "db \<Rightarrow> db \<times> (db_error + 'a)"

text \<open>Run a statement outside a transaction, or a transaction of several: on an error nothing changed.\<close>

definition exec :: "statement \<Rightarrow> unit operation" where
  "exec stmt d = (case stmt d of Inl e \<Rightarrow> (d, Inl e) | Inr d' \<Rightarrow> (d', Inr ()))"

definition expect_affected :: "'a list \<Rightarrow> db_error \<Rightarrow> statement \<Rightarrow> unit operation" where
  "expect_affected rows missing stmt d =
     (case stmt d of Inl e \<Rightarrow> (d, Inl e)
      | Inr d' \<Rightarrow> (d', if rows = [] then Inl missing else Inr ()))"

definition no_rows_as :: "db_error \<Rightarrow> (db_error + 'a) \<Rightarrow> db_error + 'a" where
  "no_rows_as missing r = (if r = Inl NoRows then Inl missing else r)"

section \<open>Users\<close>

definition User_List :: "user list query" where
  "User_List d = scan_rows scanUser (sort_key user_key (t_users d))"

definition User_Get :: "ident \<Rightarrow> user query" where
  "User_Get i d =
     no_rows_as ErrUserNotFound (query_row scanUser (filter (\<lambda>u. user_ID u = i) (t_users d)))"

definition User_Create :: "user \<Rightarrow> unit operation" where
  "User_Create u d =
     (case exec (insert_user u) d of
        (d', Inl e) \<Rightarrow> (d', Inl (if e = UniqueViolation ''users.username_normalized''
                                 then ErrUserAlreadyExists else e))
      | ok \<Rightarrow> ok)"

definition User_Delete :: "ident \<Rightarrow> unit operation" where
  "User_Delete i d =
     expect_affected (filter (\<lambda>u. user_ID u = i) (t_users d)) ErrUserNotFound
       (\<lambda>d. Inr (delete_users (\<lambda>u. user_ID u = i) d)) d"

definition User_SetEnabled :: "ident \<Rightarrow> bool \<Rightarrow> timestamp \<Rightarrow> unit operation" where
  "User_SetEnabled i enabled updated d =
     expect_affected (filter (\<lambda>u. user_ID u = i) (t_users d)) ErrUserNotFound
       (\<lambda>d. Inr (update_user i (\<lambda>u. u\<lparr>user_Enabled := enabled, user_UpdatedAt := updated\<rparr>) d)) d"

definition User_SetPasswordHash :: "ident \<Rightarrow> string \<Rightarrow> timestamp \<Rightarrow> unit operation" where
  "User_SetPasswordHash i hash updated d =
     expect_affected (filter (\<lambda>u. user_ID u = i) (t_users d)) ErrUserNotFound
       (\<lambda>d. Inr (update_user i (\<lambda>u. u\<lparr>PasswordHash := hash, user_UpdatedAt := updated\<rparr>) d)) d"

section \<open>Shares\<close>

definition share_row_key :: "share \<Rightarrow> string \<times> ident" where
  "share_row_key s = (Slug s, share_ID s)"

definition Share_List :: "share list query" where
  "Share_List d = scan_rows scanShare (sort_key share_row_key (t_shares d))"

definition Share_Get :: "ident \<Rightarrow> share query" where
  "Share_Get i d =
     no_rows_as ErrShareNotFound (query_row scanShare (filter (\<lambda>s. share_ID s = i) (t_shares d)))"

definition slug_taken :: "db_error \<Rightarrow> db_error" where
  "slug_taken e = (if e = UniqueViolation ''shares.slug'' then ErrShareAlreadyExists else e)"

definition Share_Create :: "share \<Rightarrow> unit operation" where
  "Share_Create s d =
     (case exec (insert_share s) d of (d', Inl e) \<Rightarrow> (d', Inl (slug_taken e)) | ok \<Rightarrow> ok)"

definition Share_Update :: "share \<Rightarrow> unit operation" where
  "Share_Update s d =
     (case expect_affected (filter (\<lambda>r. share_ID r = share_ID s) (t_shares d)) ErrShareNotFound
             (update_share s) d of
        (d', Inl e) \<Rightarrow> (d', Inl (slug_taken e)) | ok \<Rightarrow> ok)"

definition Share_Delete :: "ident \<Rightarrow> unit operation" where
  "Share_Delete i d =
     expect_affected (filter (\<lambda>s. share_ID s = i) (t_shares d)) ErrShareNotFound
       (\<lambda>d. Inr (delete_shares (\<lambda>s. share_ID s = i) d)) d"

section \<open>Permissions\<close>

definition Permission_ListByShare :: "ident \<Rightarrow> share_permission list query" where
  "Permission_ListByShare i d =
     scan_rows scanPermission
       (sort_key perm_UserID (filter (\<lambda>p. perm_ShareID p = i) (t_permissions d)))"

definition Permission_ListByUser :: "ident \<Rightarrow> share_permission list query" where
  "Permission_ListByUser i d =
     scan_rows scanPermission
       (sort_key perm_ShareID (filter (\<lambda>p. perm_UserID p = i) (t_permissions d)))"

definition Permission_ListAll :: "share_permission list query" where
  "Permission_ListAll d =
     scan_rows scanPermission (sort_key (\<lambda>p. (perm_ShareID p, perm_UserID p)) (t_permissions d))"

definition Permission_Set :: "share_permission \<Rightarrow> unit operation" where
  "Permission_Set p d = exec (upsert_permission p) d"

definition Permission_Delete :: "ident \<Rightarrow> ident \<Rightarrow> unit operation" where
  "Permission_Delete sid uid d =
     (let this = (\<lambda>p. perm_ShareID p = sid \<and> perm_UserID p = uid) in
      expect_affected (filter this (t_permissions d)) ErrPermissionNotFound
        (\<lambda>d. Inr (delete_permissions this d)) d)"

section \<open>Server settings\<close>

definition Settings_Get :: "server_settings query" where
  "Settings_Get d = query_row scanSettings (t_settings d)"

text \<open>The update has no \<open>WHERE\<close>; it is committed before its row count is looked at.\<close>

definition Settings_UpdatePorts :: "int \<Rightarrow> int \<Rightarrow> timestamp \<Rightarrow> server_settings operation" where
  "Settings_UpdatePorts http https updated d =
     (case update_settings
             (\<lambda>s. s\<lparr>HTTPPort := http, HTTPSPort := https, settings_UpdatedAt := updated\<rparr>) d of
        Inl e \<Rightarrow> (d, Inl e)
      | Inr d' \<Rightarrow>
          (d', if length (t_settings d) \<noteq> 1 then Inl ErrServerSettingsNotFound else Settings_Get d'))"

section \<open>The TLS profile\<close>

definition tls_key :: "tls_profile \<Rightarrow> string \<times> ident" where
  "tls_key p = (Timestamp_String (tls_CreatedAt p), tls_ID p)"

definition TLS_Get :: "tls_profile option query" where
  "TLS_Get d =
     (case query_row scanTLSProfile (sort_key tls_key (t_tls d)) of
        Inl e \<Rightarrow> if e = NoRows then Inr None else Inl e
      | Inr p \<Rightarrow> Inr (Some p))"

definition default_challenge :: "tls_profile \<Rightarrow> tls_profile" where
  "default_challenge p = p\<lparr>Challenge := (if Challenge p = [] then TLSChallengeAuto else Challenge p)\<rparr>"

definition TLS_Save :: "tls_profile \<Rightarrow> unit operation" where
  "TLS_Save p d =
     exec (transaction
       [\<lambda>d. Inr (delete_tls (\<lambda>q. tls_ID q \<noteq> tls_ID p) d), upsert_tls (default_challenge p)]) d"

definition TLS_Delete :: "unit operation" where
  "TLS_Delete d = exec (\<lambda>d. Inr (delete_tls (\<lambda>_. True) d)) d"

section \<open>DNS provider credentials\<close>

definition DNS_List :: "dns_credential list query" where
  "DNS_List d = scan_rows scanDNSProviderCredential (sort_key dns_key (t_dns d))"

definition DNS_Get :: "ident \<Rightarrow> dns_credential query" where
  "DNS_Get i d =
     no_rows_as ErrDNSProviderNotFound
       (query_row scanDNSProviderCredential (filter (\<lambda>c. dns_ID c = i) (t_dns d)))"

definition DNS_Save :: "dns_credential \<Rightarrow> unit operation" where
  "DNS_Save c d =
     (case DNSProviderCredential_Validate c of Some e \<Rightarrow> (d, Inl (RowError e))
      | None \<Rightarrow> exec (upsert_dns (c\<lparr>AllowedZones := sort (AllowedZones c)\<rparr>)) d)"

definition DNS_Delete :: "ident \<Rightarrow> unit operation" where
  "DNS_Delete i d =
     (if Some i \<in> DNSProviderID ` set (t_tls d) then (d, Inl ErrDNSProviderInUse)
      else expect_affected (filter (\<lambda>c. dns_ID c = i) (t_dns d)) ErrDNSProviderNotFound (delete_dns i) d)"

section \<open>The snapshot\<close>

text \<open>One read transaction: settings, DNS providers, TLS profile, users, shares and then the
  permissions of each share.\<close>

definition share_with_rows :: "share_permission list \<Rightarrow> share \<Rightarrow> db_error + share_with_permissions" where
  "share_with_rows rows s =
     (case scan_rows scanPermission (sort_key perm_UserID (filter (\<lambda>p. perm_ShareID p = share_ID s) rows)) of
        Inl e \<Rightarrow> Inl e | Inr ps \<Rightarrow> Inr \<lparr>Share = s, Permissions = ps\<rparr>)"

definition Snapshot :: "runtime_input query" where
  "Snapshot d =
     (case query_row scanSettings (t_settings d) of Inl e \<Rightarrow> Inl e
      | Inr settings \<Rightarrow>
     (case scan_rows scanDNSProviderCredential (sort_key dns_key (t_dns d)) of Inl e \<Rightarrow> Inl e
      | Inr providers \<Rightarrow>
     (case TLS_Get d of Inl e \<Rightarrow> Inl e
      | Inr tls \<Rightarrow>
     (case scan_rows scanUser (sort_key user_key (t_users d)) of Inl e \<Rightarrow> Inl e
      | Inr users \<Rightarrow>
     (case scan_rows scanShare (sort_key share_row_key (t_shares d)) of Inl e \<Rightarrow> Inl e
      | Inr shares \<Rightarrow>
     (case scan_rows (share_with_rows (t_permissions d)) shares of Inl e \<Rightarrow> Inl e
      | Inr entries \<Rightarrow>
          Inr \<lparr>ServerSettings = settings, TLSProfile = tls, DNSProviderCredentials = providers,
               Users = users, Shares = entries\<rparr>))))))"

end
