(* ===== verification/Revision_Repository.thy ===== *)
theory Revision_Repository
  imports Repositories
begin

text \<open>
  The revision repository (\<^verbatim>\<open>storage/revision_repository.go\<close>): numbered revisions, the desired and
  the active one, and the restoration of the state a revision was made from.
\<close>

record revision_state =
  DesiredRevision :: "int option"
  ActiveRevision :: "int option"
  Dirty :: bool
  Pending :: bool

definition fingerprint :: "config_revision \<Rightarrow> db_error + config_revision" where
  "fingerprint r =
     (if StateSnapshotJSON r = [] then Inr r
      else case HashConfigRevisionStateSnapshot (StateSnapshotJSON r) of
        Inl (Inl e) \<Rightarrow> Inl (SnapshotError e)
      | Inl (Inr e) \<Rightarrow> Inl (InputError e)
      | Inr h \<Rightarrow>
          if StateHash r = [] then Inr (r\<lparr>StateHash := h\<rparr>)
          else if StateHash r \<noteq> h then Inl StateHashMismatch
          else Inr r)"

definition Revision_Create :: "config_revision \<Rightarrow> config_revision operation" where
  "Revision_Create r d =
     (case fingerprint r of Inl e \<Rightarrow> (d, Inl e)
      | Inr r' \<Rightarrow>
          let numbered = r'\<lparr>Number := next_number d\<rparr>
          in case transaction
                [\<lambda>d. Inr (d\<lparr>next_number := next_number d + 1\<rparr>),
                 \<lambda>d. (case ConfigRevision_Validate numbered of Some e \<Rightarrow> Inl (RowError e) | None \<Rightarrow> Inr d),
                 insert_revision numbered,
                 \<lambda>d. set_runtime_state (Some (rev_ID numbered)) (active_revision_id d) d] d of
               Inl e \<Rightarrow> (d, Inl e)
             | Inr d' \<Rightarrow> (d', Inr numbered))"

definition newest_first :: "config_revision list \<Rightarrow> config_revision list" where
  "newest_first rs = sort_key (\<lambda>r. - Number r) rs"

definition restorable :: "config_revision \<Rightarrow> bool" where
  "restorable r \<longleftrightarrow> ValidationStatus r = RevisionValidationValid \<and> StateSnapshotJSON r \<noteq> []"

fun first_legacy :: "string \<Rightarrow> config_revision list \<Rightarrow> db_error + config_revision option" where
  "first_legacy stateHash [] = Inr None"
| "first_legacy stateHash (row # rows) =
     (case scanRevision row of Inl e \<Rightarrow> Inl e
      | Inr r \<Rightarrow>
          (case HashConfigRevisionStateSnapshot (StateSnapshotJSON r) of
             Inl _ \<Rightarrow> first_legacy stateHash rows
           | Inr h \<Rightarrow> if h = stateHash then Inr (Some r) else first_legacy stateHash rows))"

definition findLegacyByIdentity :: "string \<Rightarrow> string \<Rightarrow> config_revision option query" where
  "findLegacyByIdentity configHash stateHash d =
     first_legacy stateHash
       (newest_first (filter (\<lambda>r. ConfigHash r = configHash \<and> StateHash r = [] \<and> restorable r)
          (t_revisions d)))"

definition FindByIdentity :: "string \<Rightarrow> string \<Rightarrow> config_revision option query" where
  "FindByIdentity configHash stateHash d =
     (case query_row scanRevision
             (newest_first (filter (\<lambda>r. ConfigHash r = configHash \<and> StateHash r = stateHash \<and> restorable r)
                (t_revisions d))) of
        Inl e \<Rightarrow> if e = NoRows then findLegacyByIdentity configHash stateHash d else Inl e
      | Inr r \<Rightarrow> Inr (Some r))"

definition SetDesired :: "ident \<Rightarrow> unit operation" where
  "SetDesired i d =
     expect_affected (filter (\<lambda>r. rev_ID r = i) (t_revisions d)) ErrRevisionNotFound
       (\<lambda>d. if i \<in> rev_ID ` set (t_revisions d)
             then set_runtime_state (Some i) (active_revision_id d) d else Inr d) d"

definition with_status ::
  "ident \<Rightarrow> (config_revision \<Rightarrow> config_revision) \<Rightarrow> db \<Rightarrow> db" where
  "with_status i f d =
     d\<lparr>t_revisions :=
        update_where (\<lambda>r. rev_ID r = i \<and> ValidationStatus r = RevisionValidationValid) f (t_revisions d)\<rparr>"

definition applied :: "config_revision \<Rightarrow> config_revision" where
  "applied r = r\<lparr>ApplyStatus := RevisionApplyApplied, ErrorCode := [], ErrorSummary := []\<rparr>"

text \<open>The update of a valid revision, or \<open>ErrRevisionNotFound\<close> when no row was affected.\<close>

definition update_valid_revision :: "ident \<Rightarrow> (config_revision \<Rightarrow> config_revision) \<Rightarrow> statement" where
  "update_valid_revision i f d =
     (if list_ex (\<lambda>r. rev_ID r = i \<and> ValidationStatus r = RevisionValidationValid) (t_revisions d)
      then Inr (with_status i f d) else Inl ErrRevisionNotFound)"

definition MarkApplied :: "ident \<Rightarrow> unit operation" where
  "MarkApplied i d =
     exec (transaction
       [update_valid_revision i applied, set_runtime_state (Some i) (Some i)]) d"

definition MarkFailed :: "ident \<Rightarrow> string \<Rightarrow> string \<Rightarrow> unit operation" where
  "MarkFailed i code summary d =
     exec (update_valid_revision i
       (\<lambda>r. r\<lparr>ApplyStatus := RevisionApplyFailed, ErrorCode := code, ErrorSummary := summary\<rparr>)) d"

definition MarkRestored :: "ident \<Rightarrow> unit operation" where
  "MarkRestored i d =
     exec (transaction
       [update_valid_revision i applied, set_runtime_state (Some i) (Some i)]) d"

definition Revision_Delete :: "ident \<Rightarrow> unit operation" where
  "Revision_Delete i d =
     (if active_revision_id d = Some i then (d, Inl ErrRevisionActive)
      else if desired_revision_id d = Some i then (d, Inl ErrRevisionDesired)
      else exec (transaction
        [\<lambda>d. if i \<in> rev_ID ` set (t_revisions d) then delete_revision i d else Inl ErrRevisionNotFound]) d)"

section \<open>Restoring a state\<close>

definition restore_rows :: "runtime_input \<Rightarrow> statement list" where
  "restore_rows input =
     [\<lambda>d. Inr (delete_permissions (\<lambda>_. True) d),
      \<lambda>d. Inr (delete_shares (\<lambda>_. True) d),
      \<lambda>d. Inr (delete_users (\<lambda>_. True) d),
      \<lambda>d. Inr (delete_tls (\<lambda>_. True) d),
      \<lambda>d. Inr (d\<lparr>t_settings := []\<rparr>),
      insert_settings (ServerSettings input)]
     @ map insert_user (Users input)
     @ concat (map (\<lambda>item. insert_share (Share item) # map insert_permission (Permissions item))
         (Shares input))
     @ map upsert_dns (DNSProviderCredentials input)
     @ (case TLSProfile input of None \<Rightarrow> [] | Some p \<Rightarrow> [insert_tls (default_challenge p)])"

definition snapshot_guard :: "ident \<Rightarrow> string \<Rightarrow> statement" where
  "snapshot_guard i expected d =
     (case filter (\<lambda>r. rev_ID r = i \<and> ValidationStatus r = RevisionValidationValid) (t_revisions d) of
        [] \<Rightarrow> Inl ErrRevisionNotFound
      | r # _ \<Rightarrow>
          if StateSnapshotJSON r = [] then Inl (NoStateSnapshot i)
          else if StateSnapshotJSON r \<noteq> expected then Inl (StateSnapshotMismatch i)
          else Inr d)"

definition RestoreState :: "runtime_input \<Rightarrow> ident \<Rightarrow> unit operation" where
  "RestoreState input i d =
     (case RuntimeConfigInput_Validate input of Some e \<Rightarrow> (d, Inl (InputError e))
      | None \<Rightarrow>
          (case MarshalConfigRevisionSnapshot input of Inl e \<Rightarrow> (d, Inl (InputError e))
           | Inr expected \<Rightarrow>
               exec (transaction
                 ([snapshot_guard i expected] @ restore_rows input
                  @ [update_valid_revision i applied, set_runtime_state (Some i) (Some i)])) d))"

section \<open>Queries\<close>

definition Revision_List :: "config_revision list query" where
  "Revision_List d = scan_rows scanRevision (newest_first (t_revisions d))"

definition Revision_Get :: "ident \<Rightarrow> config_revision query" where
  "Revision_Get i d =
     no_rows_as ErrRevisionNotFound
       (query_row scanRevision (filter (\<lambda>r. rev_ID r = i) (t_revisions d)))"

definition Revision_Active :: "config_revision option query" where
  "Revision_Active d =
     (case query_row scanRevision (filter (\<lambda>r. Some (rev_ID r) = active_revision_id d) (t_revisions d)) of
        Inl e \<Rightarrow> if e = NoRows then Inr None else Inl e
      | Inr r \<Rightarrow> Inr (Some r))"

definition number_of_revision :: "db \<Rightarrow> ident option \<Rightarrow> int option" where
  "number_of_revision d i =
     map_option Number (find (\<lambda>r. Some (rev_ID r) = i) (t_revisions d))"

definition sameRevision :: "int option \<Rightarrow> int option \<Rightarrow> bool" where
  "sameRevision left right =
     (case (left, right) of
        (Some l, Some r) \<Rightarrow> l = r
      | (l, r) \<Rightarrow> l = None \<and> r = None)"

definition Revision_State :: "revision_state query" where
  "Revision_State d =
     (let desired = number_of_revision d (desired_revision_id d);
          active = number_of_revision d (active_revision_id d)
      in Inr \<lparr>DesiredRevision = desired, ActiveRevision = active, Dirty = db_dirty d,
              Pending = (db_dirty d \<or> \<not> sameRevision desired active)\<rparr>)"

end
