(* ===== verification/Config_Document.thy ===== *)
theory Config_Document
  imports Runtime_Input "HOL-Library.AList"
begin

text \<open>
  The versioned, secret-free interchange document (\<^verbatim>\<open>core/internal/configfile\<close>): its structure,
  validation, the checks on the YAML tree it is read from, and the export of a snapshot.  YAML
  itself is the library's, so the tree is a datatype here, reading a document out of it is a
  parameter, and \<open>Export\<close> stops at the document.
  A Go map is an association list with distinct keys; a loop over it visits it in list order.
\<close>

record doc_server =
  doc_PublicBasePath :: string
  doc_HTTPPort :: int
  doc_HTTPSPort :: int
  doc_RuntimeMode :: string

record doc_tls =
  doc_Mode :: string
  doc_Hostname :: string
  doc_Challenge :: string
  doc_DNSProvider :: string
  doc_CertificatePath :: string
  doc_PrivateKeyPath :: string

record doc_user =
  doc_Username :: string
  doc_user_Enabled :: "bool option"

record doc_share =
  doc_Name :: string
  doc_Slug :: string
  doc_Path :: string
  doc_share_Enabled :: "bool option"
  doc_Permissions :: "(string \<times> string) list"

record document =
  Version :: int
  Server :: "doc_server option"
  TLS :: "doc_tls option"
  doc_Users :: "doc_user list"
  doc_Shares :: "doc_share list"

section \<open>Validation\<close>

datatype document_error =
  BadServer verror
| BadTLS verror
| UserEnabledRequired
| BadUser verror
| DuplicateDocUsername string
| ShareEnabledRequired
| BadShare verror
| DuplicateDocSlug string
| BadPermissionUser
| DuplicatePermissionUser string
| BadPermissionValue

definition doc_stamp :: timestamp where
  "doc_stamp = Time 63902822400000000000 True"

definition placeholderID :: ident where
  "placeholderID = ''00000000-0000-4000-8000-000000000001''"

definition ParsePermission :: "string \<Rightarrow> permission option" where
  "ParsePermission v =
     (if v = ''none'' then Some PermissionNone
      else if v = ''read'' then Some PermissionRead
      else if v = ''read_write'' then Some PermissionReadWrite
      else None)"

definition PermissionValue :: "permission \<Rightarrow> string option" where
  "PermissionValue p =
     (if p = PermissionNone then Some ''none''
      else if p = PermissionRead then Some ''read''
      else if p = PermissionReadWrite then Some ''read_write''
      else None)"

definition doc_settings :: "doc_server \<Rightarrow> server_settings" where
  "doc_settings s =
     \<lparr>settings_ID = placeholderID, PublicBasePath = doc_PublicBasePath s, HTTPPort = doc_HTTPPort s,
      HTTPSPort = doc_HTTPSPort s, RuntimeMode = doc_RuntimeMode s,
      settings_CreatedAt = doc_stamp, settings_UpdatedAt = doc_stamp\<rparr>"

definition doc_profile :: "doc_tls \<Rightarrow> tls_profile" where
  "doc_profile t =
     \<lparr>tls_ID = placeholderID, Mode = doc_Mode t, Hostname = doc_Hostname t, Challenge = doc_Challenge t,
      DNSProviderID = (if doc_DNSProvider t = [] then None else Some placeholderID),
      CertificatePath = doc_CertificatePath t, PrivateKeyPath = doc_PrivateKeyPath t,
      tls_CreatedAt = doc_stamp, tls_UpdatedAt = doc_stamp\<rparr>"

definition doc_account :: "string \<Rightarrow> bool \<Rightarrow> user" where
  "doc_account name enabled =
     \<lparr>user_ID = placeholderID, Username = name, UsernameNormalized = NormalizeUsername name,
      PasswordHash = ''not-exported'', user_Enabled = enabled,
      user_CreatedAt = doc_stamp, user_UpdatedAt = doc_stamp\<rparr>"

definition doc_directory :: "doc_share \<Rightarrow> bool \<Rightarrow> share" where
  "doc_directory s enabled =
     \<lparr>share_ID = placeholderID, share_Name = doc_Name s, Slug = doc_Slug s, Path = doc_Path s,
      share_Enabled = enabled, share_CreatedAt = doc_stamp, share_UpdatedAt = doc_stamp\<rparr>"

definition check_doc_user :: "doc_user \<Rightarrow> string set \<Rightarrow> document_error + string set" where
  "check_doc_user u seen =
     (case doc_user_Enabled u of None \<Rightarrow> Inl UserEnabledRequired
      | Some enabled \<Rightarrow>
          let normalized = NormalizeUsername (doc_Username u) in
          (case User_Validate (doc_account (doc_Username u) enabled) of Some e \<Rightarrow> Inl (BadUser e)
           | None \<Rightarrow>
               if normalized \<in> seen then Inl (DuplicateDocUsername normalized)
               else Inr (insert normalized seen)))"

definition check_doc_permission ::
  "string \<times> string \<Rightarrow> string set \<Rightarrow> document_error + string set" where
  "check_doc_permission = (\<lambda>(username, permission) seen.
     let normalized = NormalizeUsername username in
     if User_Validate (doc_account username True) \<noteq> None then Inl BadPermissionUser
     else if normalized \<in> seen then Inl (DuplicatePermissionUser normalized)
     else if ParsePermission permission = None then Inl BadPermissionValue
     else Inr (insert normalized seen))"

definition check_doc_share :: "doc_share \<Rightarrow> string set \<Rightarrow> document_error + string set" where
  "check_doc_share s seen =
     (case doc_share_Enabled s of None \<Rightarrow> Inl ShareEnabledRequired
      | Some enabled \<Rightarrow>
          (case Share_Validate (doc_directory s enabled) of Some e \<Rightarrow> Inl (BadShare e)
           | None \<Rightarrow>
               if doc_Slug s \<in> seen then Inl (DuplicateDocSlug (doc_Slug s))
               else (case for_each check_doc_permission (doc_Permissions s) {} of
                       Inl e \<Rightarrow> Inl e | Inr _ \<Rightarrow> Inr (insert (doc_Slug s) seen))))"

definition Document_Validate :: "document \<Rightarrow> document_error option" where
  "Document_Validate d =
     (case Option.bind (Server d) (\<lambda>s. ServerSettings_Validate (doc_settings s)) of
        Some e \<Rightarrow> Some (BadServer e)
      | None \<Rightarrow>
     (case Option.bind (TLS d) (\<lambda>t. TLSProfile_Validate (doc_profile t)) of
        Some e \<Rightarrow> Some (BadTLS e)
      | None \<Rightarrow>
     (case for_each check_doc_user (doc_Users d) {} of
        Inl e \<Rightarrow> Some e
      | Inr _ \<Rightarrow>
     (case for_each check_doc_share (doc_Shares d) {} of
        Inl e \<Rightarrow> Some e
      | Inr _ \<Rightarrow> None))))"

section \<open>The YAML tree\<close>

datatype yaml_node =
  YScalar (y_tag: string) (y_value: string)
| YMapping (y_tag: string) "yaml_node list"
| YSequence (y_tag: string) "yaml_node list"
| YDocument "yaml_node list"
| YAlias

definition maximumNodes :: nat where "maximumNodes = 10000"
definition maximumDepth :: nat where "maximumDepth = 64"
definition MaximumSizeBytes :: nat where "MaximumSizeBytes = 2 ^ 20"

datatype yaml_error = ExceedsLimits | AliasesUnsupported | CustomTag | KeyNotScalar | MergeKey | DuplicateKey

definition allowedTags :: "string list" where
  "allowedTags = ['''', ''!!map'', ''!!seq'', ''!!str'', ''!!int'', ''!!bool'', ''!!null'']"

fun check_keys :: "string set \<Rightarrow> yaml_node list \<Rightarrow> yaml_error option" where
  "check_keys seen [] = None"
| "check_keys seen (YScalar t key # value # rest) =
     (if key = ''<<'' then Some MergeKey
      else if key \<in> seen then Some DuplicateKey
      else check_keys (insert key seen) rest)"
| "check_keys seen _ = Some KeyNotScalar"

fun children :: "yaml_node \<Rightarrow> yaml_node list" where
  "children (YMapping _ ns) = ns"
| "children (YSequence _ ns) = ns"
| "children (YDocument ns) = ns"
| "children _ = []"

fun short_tag :: "yaml_node \<Rightarrow> string" where
  "short_tag (YDocument _) = ''''"
| "short_tag YAlias = ''''"
| "short_tag n = y_tag n"

fun inspectNode :: "nat \<Rightarrow> yaml_node \<Rightarrow> nat \<Rightarrow> yaml_error + nat"
  and inspectNodes :: "nat \<Rightarrow> yaml_node list \<Rightarrow> nat \<Rightarrow> yaml_error + nat" where
  "inspectNode depth (YScalar t v) visited =
     (if Suc visited > maximumNodes \<or> depth > maximumDepth then Inl ExceedsLimits
      else if t \<notin> set allowedTags then Inl CustomTag
      else Inr (Suc visited))"
| "inspectNode depth YAlias visited =
     (if Suc visited > maximumNodes \<or> depth > maximumDepth then Inl ExceedsLimits else Inl AliasesUnsupported)"
| "inspectNode depth (YMapping t ns) visited =
     (if Suc visited > maximumNodes \<or> depth > maximumDepth then Inl ExceedsLimits
      else if t \<notin> set allowedTags then Inl CustomTag
      else case check_keys {} ns of Some e \<Rightarrow> Inl e | None \<Rightarrow> inspectNodes (Suc depth) ns (Suc visited))"
| "inspectNode depth (YSequence t ns) visited =
     (if Suc visited > maximumNodes \<or> depth > maximumDepth then Inl ExceedsLimits
      else if t \<notin> set allowedTags then Inl CustomTag
      else inspectNodes (Suc depth) ns (Suc visited))"
| "inspectNode depth (YDocument ns) visited =
     (if Suc visited > maximumNodes \<or> depth > maximumDepth then Inl ExceedsLimits
      else inspectNodes (Suc depth) ns (Suc visited))"
| "inspectNodes depth [] visited = Inr visited"
| "inspectNodes depth (n # ns) visited =
     (case inspectNode depth n visited of Inl e \<Rightarrow> Inl e | Inr c \<Rightarrow> inspectNodes depth ns c)"

datatype config_error_code = CodeInvalidDocument | CodeUnsupported

datatype config_error =
  BadSize | BadYAML | UnsupportedYAML yaml_error | UnknownFields | ExtraDocument | UnsupportedVersion
| InvalidDocument document_error

fun config_error_Code :: "config_error \<Rightarrow> config_error_code" where
  "config_error_Code UnsupportedVersion = CodeUnsupported"
| "config_error_Code _ = CodeInvalidDocument"

text \<open>The YAML library: the tree of a text, the strict decoder, and whether a second document follows.\<close>

record yaml_library =
  unmarshal_tree :: "string \<Rightarrow> yaml_node option"
  decode_strict :: "string \<Rightarrow> document option"
  at_end :: "string \<Rightarrow> bool"

definition ConfigVersion :: int where "ConfigVersion = 1"

definition Parse :: "yaml_library \<Rightarrow> string \<Rightarrow> config_error + document" where
  "Parse y body =
     (if body = [] \<or> length body > MaximumSizeBytes then Inl BadSize
      else case unmarshal_tree y body of None \<Rightarrow> Inl BadYAML
      | Some root \<Rightarrow>
          (case inspectNode 0 root 0 of Inl e \<Rightarrow> Inl (UnsupportedYAML e)
           | Inr _ \<Rightarrow>
               (case decode_strict y body of None \<Rightarrow> Inl UnknownFields
                | Some d \<Rightarrow>
                    if \<not> at_end y body then Inl ExtraDocument
                    else if Version d \<noteq> ConfigVersion then Inl UnsupportedVersion
                    else (case Document_Validate d of Some e \<Rightarrow> Inl (InvalidDocument e)
                          | None \<Rightarrow> Inr d))))"

section \<open>Export\<close>

datatype export_error = UnknownExportProvider | UnknownExportUser | InvalidExportPermission

definition doc_user_key :: "doc_user \<Rightarrow> string" where
  "doc_user_key u = NormalizeUsername (doc_Username u)"

definition normalizeDocument :: "document \<Rightarrow> document" where
  "normalizeDocument d =
     d\<lparr>doc_Users := sort_key doc_user_key (doc_Users d), doc_Shares := sort_key doc_Slug (doc_Shares d)\<rparr>"

definition export_tls :: "runtime_input \<Rightarrow> tls_profile \<Rightarrow> export_error + doc_tls" where
  "export_tls input p =
     (let provider = (case DNSProviderID p of None \<Rightarrow> []
                      | Some i \<Rightarrow> (case find (\<lambda>c. dns_ID c = i) (DNSProviderCredentials input) of
                                     None \<Rightarrow> [] | Some c \<Rightarrow> dns_Name c))
      in if DNSProviderID p \<noteq> None \<and> provider = [] then Inl UnknownExportProvider
         else Inr \<lparr>doc_Mode = Mode p, doc_Hostname = Hostname p, doc_Challenge = Challenge p,
                   doc_DNSProvider = provider, doc_CertificatePath = CertificatePath p,
                   doc_PrivateKeyPath = PrivateKeyPath p\<rparr>)"

text \<open>\<open>share.Permissions[username] = value\<close>: a later entry of the same user replaces the earlier one.\<close>

definition export_permission ::
  "(ident \<times> string) list \<Rightarrow> share_permission \<Rightarrow> (string \<times> string) list \<Rightarrow> export_error + (string \<times> string) list" where
  "export_permission names p acc =
     (case map_of names (perm_UserID p) of None \<Rightarrow> Inl UnknownExportUser
      | Some username \<Rightarrow>
          (case PermissionValue (Permission p) of None \<Rightarrow> Inl InvalidExportPermission
           | Some v \<Rightarrow> Inr (AList.update username v acc)))"

definition export_share ::
  "(ident \<times> string) list \<Rightarrow> share_with_permissions \<Rightarrow> doc_share list \<Rightarrow> export_error + doc_share list" where
  "export_share names item acc =
     (case for_each (export_permission names) (Permissions item) [] of Inl e \<Rightarrow> Inl e
      | Inr perms \<Rightarrow>
          Inr (acc @ [\<lparr>doc_Name = share_Name (Share item), doc_Slug = Slug (Share item),
                       doc_Path = Path (Share item), doc_share_Enabled = Some (share_Enabled (Share item)),
                       doc_Permissions = perms\<rparr>]))"

definition Export :: "runtime_input \<Rightarrow> export_error + document" where
  "Export input =
     (let names = rev (map (\<lambda>u. (user_ID u, Username u)) (Users input));
          server = \<lparr>doc_PublicBasePath = PublicBasePath (ServerSettings input),
                    doc_HTTPPort = HTTPPort (ServerSettings input),
                    doc_HTTPSPort = HTTPSPort (ServerSettings input),
                    doc_RuntimeMode = RuntimeMode (ServerSettings input)\<rparr>
      in case (case TLSProfile input of None \<Rightarrow> Inr None | Some p \<Rightarrow> map_sum id Some (export_tls input p)) of
           Inl e \<Rightarrow> Inl e
         | Inr tls \<Rightarrow>
             (case for_each (export_share names) (Shares input) [] of Inl e \<Rightarrow> Inl e
              | Inr shares \<Rightarrow>
                  Inr (normalizeDocument
                    \<lparr>Version = ConfigVersion, Server = Some server, TLS = tls,
                     doc_Users = map (\<lambda>u. \<lparr>doc_Username = Username u, doc_user_Enabled = Some (user_Enabled u)\<rparr>)
                       (Users input),
                     doc_Shares = shares\<rparr>)))"

definition ImportedUsernames :: "document \<Rightarrow> string list" where
  "ImportedUsernames d = sort_key NormalizeUsername (map doc_Username (doc_Users d))"

end
