(* ===== verification/Config_Import.thy ===== *)
theory Config_Import
  imports Repositories Config_Document
begin

text \<open>
  \<open>SQLiteConfigRepository.Import\<close> (\<^verbatim>\<open>storage/config_repository.go\<close>): one transaction that updates the
  server settings, replaces the TLS profile, and inserts or updates users, shares and permissions by
  their natural keys.  The seed holds a fresh identifier for everything that may be created; a Go
  map lookup of an absent key is the empty string.
\<close>

record import_seed =
  seed_Document :: document
  UserIDs :: "(string \<times> ident) list"
  UserHashes :: "(string \<times> string) list"
  ShareIDs :: "(string \<times> ident) list"
  TLSID :: ident
  Timestamp :: timestamp

record import_result =
  UsersCreated :: nat
  UsersUpdated :: nat
  SharesCreated :: nat
  SharesUpdated :: nat
  PermissionsUpserted :: nat
  TLSUpdated :: bool
  ServerUpdated :: bool
  PasswordResetRequired :: "string list"
  PendingApply :: bool

definition zero_result :: import_result where
  "zero_result =
     \<lparr>UsersCreated = 0, UsersUpdated = 0, SharesCreated = 0, SharesUpdated = 0, PermissionsUpserted = 0,
      TLSUpdated = False, ServerUpdated = False, PasswordResetRequired = [], PendingApply = False\<rparr>"

definition map_index :: "(string \<times> string) list \<Rightarrow> string \<Rightarrow> string" where
  "map_index m k = (case map_of m k of None \<Rightarrow> [] | Some v \<Rightarrow> v)"

text \<open>The transaction: the database, the result so far and the identifiers of users and shares met.\<close>

record import_tx =
  tx_db :: db
  tx_result :: import_result
  tx_userIDs :: "(string \<times> ident) list"
  tx_shareIDs :: "(string \<times> ident) list"

type_synonym import_step = "import_tx \<Rightarrow> db_error + import_tx"

definition run_statement :: "statement \<Rightarrow> import_step" where
  "run_statement stmt x = (case stmt (tx_db x) of Inl e \<Rightarrow> Inl e | Inr d \<Rightarrow> Inr (x\<lparr>tx_db := d\<rparr>))"

definition count_result :: "(import_result \<Rightarrow> import_result) \<Rightarrow> import_step" where
  "count_result f x = Inr (x\<lparr>tx_result := f (tx_result x)\<rparr>)"

definition steps :: "import_step list \<Rightarrow> import_step" where
  "steps ss x = for_each (\<lambda>s. s) ss x"

definition import_server :: "timestamp \<Rightarrow> doc_server \<Rightarrow> import_step" where
  "import_server stamp s = steps
     [run_statement (update_settings (\<lambda>r. r\<lparr>PublicBasePath := doc_PublicBasePath s,
        HTTPPort := doc_HTTPPort s, HTTPSPort := doc_HTTPSPort s, RuntimeMode := doc_RuntimeMode s,
        settings_UpdatedAt := stamp\<rparr>)),
      (\<lambda>x. if length (t_settings (tx_db x)) \<noteq> 1 then Inl ErrConfigImportConflict else Inr x),
      count_result (\<lambda>r. r\<lparr>ServerUpdated := True\<rparr>)]"

definition import_tls :: "import_seed \<Rightarrow> doc_tls \<Rightarrow> import_step" where
  "import_tls seed t x =
     (let d = tx_db x;
          existing = (case sort_key tls_key (t_tls d) of
              [] \<Rightarrow> Inr (TLSID seed, Timestamp seed)
            | r # _ \<Rightarrow> (case ParseID (tls_ID r) of Inl e \<Rightarrow> Inl (RowError e)
                         | Inr i \<Rightarrow> Inr (i, tls_CreatedAt r)))
      in case existing of Inl e \<Rightarrow> Inl e
         | Inr (i, created) \<Rightarrow>
             let provider = (if doc_DNSProvider t = [] then Inr None
                  else case find (\<lambda>c. dns_Name c = doc_DNSProvider t) (t_dns d) of
                    None \<Rightarrow> Inl ErrConfigImportConflict | Some c \<Rightarrow> Inr (Some (dns_ID c)))
             in case provider of Inl e \<Rightarrow> Inl e
                | Inr providerID \<Rightarrow> steps
                    [run_statement (\<lambda>d. Inr (delete_tls (\<lambda>r. tls_ID r \<noteq> i) d)),
                     run_statement (upsert_tls (default_challenge
                       \<lparr>tls_ID = i, Mode = doc_Mode t, Hostname = doc_Hostname t, Challenge = doc_Challenge t,
                        DNSProviderID = providerID, CertificatePath = doc_CertificatePath t,
                        PrivateKeyPath = doc_PrivateKeyPath t, tls_CreatedAt = created,
                        tls_UpdatedAt = Timestamp seed\<rparr>)),
                     count_result (\<lambda>r. r\<lparr>TLSUpdated := True\<rparr>)] x)"

definition import_user :: "import_seed \<Rightarrow> doc_user \<Rightarrow> import_step" where
  "import_user seed u x =
     (let normalized = NormalizeUsername (doc_Username u) in
      case find (\<lambda>r. UsernameNormalized r = normalized) (t_users (tx_db x)) of
        Some r \<Rightarrow>
          (case (ParseID (user_ID r), doc_user_Enabled u) of
             (Inl e, _) \<Rightarrow> Inl (RowError e)
           | (_, None) \<Rightarrow> Inl NilDereference
           | (Inr i, Some enabled) \<Rightarrow> steps
               [run_statement (\<lambda>d. Inr (update_user i (\<lambda>r. r\<lparr>Username := doc_Username u,
                  user_Enabled := enabled, user_UpdatedAt := Timestamp seed\<rparr>) d)),
                (\<lambda>x. Inr (x\<lparr>tx_userIDs := AList.update normalized i (tx_userIDs x)\<rparr>)),
                count_result (\<lambda>r. r\<lparr>UsersUpdated := UsersUpdated r + 1\<rparr>)] x)
      | None \<Rightarrow>
          let i = map_index (UserIDs seed) normalized; hash = map_index (UserHashes seed) normalized in
          if i = [] \<or> hash = [] then Inl ErrConfigImportConflict
          else case doc_user_Enabled u of None \<Rightarrow> Inl NilDereference
             | Some enabled \<Rightarrow> steps
                 [run_statement (insert_user
                    \<lparr>user_ID = i, Username = doc_Username u, UsernameNormalized = normalized,
                     PasswordHash = hash, user_Enabled = enabled, user_CreatedAt = Timestamp seed,
                     user_UpdatedAt = Timestamp seed\<rparr>),
                  (\<lambda>x. Inr (x\<lparr>tx_userIDs := AList.update normalized i (tx_userIDs x)\<rparr>)),
                  count_result (\<lambda>r. r\<lparr>UsersCreated := UsersCreated r + 1,
                    PasswordResetRequired := PasswordResetRequired r @ [doc_Username u]\<rparr>)] x)"

definition import_share :: "import_seed \<Rightarrow> doc_share \<Rightarrow> import_step" where
  "import_share seed s x =
     (case find (\<lambda>r. Slug r = doc_Slug s) (t_shares (tx_db x)) of
        Some r \<Rightarrow>
          (case (ParseID (share_ID r), doc_share_Enabled s) of
             (Inl e, _) \<Rightarrow> Inl (RowError e)
           | (_, None) \<Rightarrow> Inl NilDereference
           | (Inr i, Some enabled) \<Rightarrow> steps
               [run_statement (update_share (r\<lparr>share_Name := doc_Name s, Path := doc_Path s,
                  share_Enabled := enabled, share_UpdatedAt := Timestamp seed\<rparr>)),
                (\<lambda>x. Inr (x\<lparr>tx_shareIDs := AList.update (doc_Slug s) i (tx_shareIDs x)\<rparr>)),
                count_result (\<lambda>r. r\<lparr>SharesUpdated := SharesUpdated r + 1\<rparr>)] x)
      | None \<Rightarrow>
          let i = map_index (ShareIDs seed) (doc_Slug s) in
          if i = [] then Inl ErrConfigImportConflict
          else case doc_share_Enabled s of None \<Rightarrow> Inl NilDereference
             | Some enabled \<Rightarrow> steps
                 [run_statement (insert_share
                    \<lparr>share_ID = i, share_Name = doc_Name s, Slug = doc_Slug s, Path = doc_Path s,
                     share_Enabled = enabled, share_CreatedAt = Timestamp seed,
                     share_UpdatedAt = Timestamp seed\<rparr>),
                  (\<lambda>x. Inr (x\<lparr>tx_shareIDs := AList.update (doc_Slug s) i (tx_shareIDs x)\<rparr>)),
                  count_result (\<lambda>r. r\<lparr>SharesCreated := SharesCreated r + 1\<rparr>)] x)"

definition import_permission ::
  "import_seed \<Rightarrow> ident \<Rightarrow> string \<times> string \<Rightarrow> import_step" where
  "import_permission seed shareID = (\<lambda>(username, value) x.
     let normalized = NormalizeUsername username;
         met = map_index (tx_userIDs x) normalized;
         user = (if met \<noteq> [] then Inr met
           else case find (\<lambda>r. UsernameNormalized r = normalized) (t_users (tx_db x)) of
             None \<Rightarrow> Inl ErrConfigImportConflict
           | Some r \<Rightarrow> (case ParseID (user_ID r) of Inl e \<Rightarrow> Inl (RowError e) | Inr i \<Rightarrow> Inr i))
     in case user of Inl e \<Rightarrow> Inl e
        | Inr userID \<Rightarrow>
            (case ParsePermission value of None \<Rightarrow> Inl ErrConfigImportConflict
             | Some p \<Rightarrow> steps
                 [run_statement (upsert_permission
                    \<lparr>perm_ShareID = shareID, perm_UserID = userID, Permission = p,
                     perm_CreatedAt = Timestamp seed, perm_UpdatedAt = Timestamp seed\<rparr>),
                  count_result (\<lambda>r. r\<lparr>PermissionsUpserted := PermissionsUpserted r + 1\<rparr>)] x))"

definition import_permissions :: "import_seed \<Rightarrow> doc_share \<Rightarrow> import_step" where
  "import_permissions seed s x =
     for_each (import_permission seed (map_index (tx_shareIDs x) (doc_Slug s)))
       (sort_key (NormalizeUsername \<circ> fst) (doc_Permissions s)) x"

definition import_plan :: "import_seed \<Rightarrow> import_step list" where
  "import_plan seed =
     (let doc = seed_Document seed in
      (case Server doc of None \<Rightarrow> [] | Some s \<Rightarrow> [import_server (Timestamp seed) s])
      @ (case TLS doc of None \<Rightarrow> [] | Some t \<Rightarrow> [import_tls seed t])
      @ map (import_user seed) (doc_Users doc)
      @ map (import_share seed) (doc_Shares doc)
      @ map (import_permissions seed) (doc_Shares doc))"

definition Config_Import :: "import_seed \<Rightarrow> import_result operation" where
  "Config_Import seed d =
     (case steps (import_plan seed)
             \<lparr>tx_db = d, tx_result = zero_result, tx_userIDs = [], tx_shareIDs = []\<rparr> of
        Inl e \<Rightarrow> (d, Inl e)
      | Inr x \<Rightarrow> (tx_db x, Inr (tx_result x)))"

end
