(* ===== verification/Secret_Store.thy ===== *)
theory Secret_Store
  imports Repositories Dns_Registry Compiler_Json "HOL-Library.AList"
begin

text \<open>
  The encrypted store of DNS provider secrets (\<^verbatim>\<open>storage/secret_store.go\<close>).  AES-GCM and the random
  source are the standard library's: the cipher is a parameter, and an operation takes the nonce the
  random source returned, or \<open>None\<close> when it failed.
\<close>

record aead =
  NonceSize :: nat
  Seal :: "string \<Rightarrow> string \<Rightarrow> string"
  Open :: "string \<Rightarrow> string \<Rightarrow> string option"

datatype secret_store_error = SecretDB db_error | NonceUnavailable | TruncatedSecret | CannotDecrypt | CannotDecode

definition encrypt :: "aead \<Rightarrow> string option \<Rightarrow> string \<Rightarrow> secret_store_error + string" where
  "encrypt a random plaintext =
     (case random of None \<Rightarrow> Inl NonceUnavailable | Some nonce \<Rightarrow> Inr (nonce @ Seal a nonce plaintext))"

definition decrypt :: "aead \<Rightarrow> string \<Rightarrow> secret_store_error + string" where
  "decrypt a ciphertext =
     (if length ciphertext < NonceSize a then Inl TruncatedSecret
      else case Open a (take (NonceSize a) ciphertext) (drop (NonceSize a) ciphertext) of
        None \<Rightarrow> Inl CannotDecrypt | Some plaintext \<Rightarrow> Inr plaintext)"

text \<open>The JSON object of a Go map, its keys sorted, and its decoding into a nil map.\<close>

definition secret_json :: "dns_secret \<Rightarrow> json" where
  "secret_json secret = sorted_object JStr secret"

fun decode_secret_members :: "(string \<times> json) list \<Rightarrow> dns_secret \<Rightarrow> dns_secret option" where
  "decode_secret_members [] acc = Some acc"
| "decode_secret_members ((k, v) # kvs) acc =
     (case decode_string v [] of None \<Rightarrow> None
      | Some s \<Rightarrow> decode_secret_members kvs (AList.update k s acc))"

lemma decode_members:
  "distinct (map fst (acc @ m)) \<Longrightarrow> decode_secret_members (map (\<lambda>(k, v). (k, JStr v)) m) acc = Some (acc @ m)"
proof (induction m arbitrary: acc)
  case (Cons kv m)
  obtain k v where kv: "kv = (k, v)" by fastforce
  have "k \<notin> fst ` set acc" using Cons.prems by (auto simp: kv)
  then have "AList.update k v acc = acc @ [(k, v)]" by (induction acc) auto
  then show ?case using Cons.IH [of "acc @ [(k, v)]"] Cons.prems by (simp add: kv)
qed simp

definition decode_secret :: "string \<Rightarrow> dns_secret option" where
  "decode_secret text =
     (case json_parse text of
        Some (JObj kvs) \<Rightarrow> decode_secret_members kvs []
      | Some JNull \<Rightarrow> Some []
      | _ \<Rightarrow> None)"

definition Secret_Get :: "aead \<Rightarrow> ident \<Rightarrow> db \<Rightarrow> secret_store_error + dns_secret option" where
  "Secret_Get a i d =
     (case map_of (t_secrets d) i of None \<Rightarrow> Inr None
      | Some ciphertext \<Rightarrow>
          (case decrypt a ciphertext of Inl e \<Rightarrow> Inl e
           | Inr plaintext \<Rightarrow>
               (case decode_secret plaintext of None \<Rightarrow> Inl CannotDecode | Some s \<Rightarrow> Inr (Some s))))"

definition Secret_Put ::
  "aead \<Rightarrow> string option \<Rightarrow> ident \<Rightarrow> dns_secret \<Rightarrow> db \<Rightarrow> db \<times> secret_store_error option" where
  "Secret_Put a random i secret d =
     (case encrypt a random (json_marshal (secret_json secret)) of Inl e \<Rightarrow> (d, Some e)
      | Inr ciphertext \<Rightarrow>
          (case exec (upsert_secret i ciphertext) d of
             (d', Inl e) \<Rightarrow> (d', Some (SecretDB e)) | (d', Inr _) \<Rightarrow> (d', None)))"

definition Secret_Delete :: "ident \<Rightarrow> unit operation" where
  "Secret_Delete i d = exec (\<lambda>d. Inr (delete_secret i d)) d"

text \<open>The cipher that leaves the text as it is has the required law.\<close>

definition plain_cipher :: aead where
  "plain_cipher = \<lparr>NonceSize = 1, Seal = (\<lambda>n p. p), Open = (\<lambda>n c. Some c)\<rparr>"

end
