(* ===== verification/Database_Invariant.thy ===== *)
theory Database_Invariant
  imports Revision_Repository Config_Import Secret_Store
begin

text \<open>
  What the schema guarantees: primary keys, unique columns, foreign keys and checks hold in every
  table (\<open>schema_ok\<close>), every statement keeps them, there is one settings row, and revision
  numbers stay below the sequence (\<open>db_ok\<close>).  The predicate of a table takes that table and the keys it
  refers to, so a statement on another table leaves it alone by simplification.
\<close>

section \<open>The constraints\<close>

definition users_ok :: "user list \<Rightarrow> bool" where
  "users_ok us \<longleftrightarrow> distinct (map user_ID us) \<and> distinct (map UsernameNormalized us)"

definition shares_ok :: "share list \<Rightarrow> bool" where
  "shares_ok ss \<longleftrightarrow> distinct (map share_ID ss) \<and> distinct (map Slug ss)"

definition grant_key :: "share_permission \<Rightarrow> ident \<times> ident" where
  "grant_key p = (perm_ShareID p, perm_UserID p)"

definition permissions_ok :: "ident set \<Rightarrow> ident set \<Rightarrow> share_permission list \<Rightarrow> bool" where
  "permissions_ok shares users ps \<longleftrightarrow> distinct (map grant_key ps)
     \<and> (\<forall>p \<in> set ps. perm_ShareID p \<in> shares \<and> perm_UserID p \<in> users \<and> Permission_Valid (Permission p))"

definition settings_ok :: "server_settings list \<Rightarrow> bool" where
  "settings_ok ss \<longleftrightarrow> distinct (map settings_ID ss) \<and> (\<forall>s \<in> set ss. settings_checks s = None)"

definition dns_ok :: "dns_credential list \<Rightarrow> bool" where
  "dns_ok cs \<longleftrightarrow> distinct (map dns_ID cs) \<and> (\<forall>c \<in> set cs. DNSProviderType_Valid (Provider c))"

definition secrets_ok :: "ident set \<Rightarrow> (ident \<times> string) list \<Rightarrow> bool" where
  "secrets_ok providers ss \<longleftrightarrow> distinct (map fst ss) \<and> fst ` set ss \<subseteq> providers"

definition tls_ok :: "ident set \<Rightarrow> tls_profile list \<Rightarrow> bool" where
  "tls_ok providers ps \<longleftrightarrow> distinct (map tls_ID ps)
     \<and> (\<forall>p \<in> set ps. TLSMode_Valid (Mode p) \<and> (Challenge p = TLSChallengeAuto \<or> Challenge p = TLSChallengeDNS)
          \<and> (\<forall>i. DNSProviderID p = Some i \<longrightarrow> i \<in> providers))"

definition revisions_ok :: "ident option \<Rightarrow> ident option \<Rightarrow> config_revision list \<Rightarrow> bool" where
  "revisions_ok desired active rs \<longleftrightarrow> distinct (map rev_ID rs) \<and> distinct (map Number rs)
     \<and> (\<forall>r \<in> set rs. 0 < Number r)
     \<and> set_option desired \<subseteq> rev_ID ` set rs \<and> set_option active \<subseteq> rev_ID ` set rs"

lemmas table_defs =
  users_ok_def shares_ok_def permissions_ok_def settings_ok_def dns_ok_def secrets_ok_def tls_ok_def
  revisions_ok_def

definition schema_ok :: "db \<Rightarrow> bool" where
  "schema_ok d \<longleftrightarrow> users_ok (t_users d) \<and> shares_ok (t_shares d)
     \<and> permissions_ok (share_ID ` set (t_shares d)) (user_ID ` set (t_users d)) (t_permissions d)
     \<and> settings_ok (t_settings d) \<and> dns_ok (t_dns d) \<and> secrets_ok (dns_ID ` set (t_dns d)) (t_secrets d)
     \<and> tls_ok (dns_ID ` set (t_dns d)) (t_tls d)
     \<and> revisions_ok (desired_revision_id d) (active_revision_id d) (t_revisions d)"

definition db_ok :: "db \<Rightarrow> bool" where
  "db_ok d \<longleftrightarrow> schema_ok d \<and> length (t_settings d) = 1
     \<and> (\<forall>r \<in> set (t_revisions d). Number r < next_number d) \<and> 0 < next_number d"

section \<open>Statements that keep a predicate\<close>

definition keeps :: "(db \<Rightarrow> bool) \<Rightarrow> statement \<Rightarrow> bool" where
  "keeps I stmt \<longleftrightarrow> (\<forall>d d'. I d \<longrightarrow> stmt d = Inr d' \<longrightarrow> I d')"

named_theorems keeps_intros \<open>statements that keep the schema\<close>

lemma keepsD: "keeps I stmt \<Longrightarrow> stmt d = Inr d' \<Longrightarrow> I d \<Longrightarrow> I d'"
  by (auto simp: keeps_def)

lemma keepsI: "(\<And>d d'. I d \<Longrightarrow> stmt d = Inr d' \<Longrightarrow> I d') \<Longrightarrow> keeps I stmt"
  by (auto simp: keeps_def)

lemma for_each_keeps:
  assumes "\<And>stmt. stmt \<in> set stmts \<Longrightarrow> keeps I stmt"
  shows "for_each (\<lambda>stmt. stmt) stmts d = Inr d' \<Longrightarrow> I d \<Longrightarrow> I d'"
  using assms
proof (induction stmts arbitrary: d)
  case Nil
  then show ?case by simp
next
  case (Cons s ss)
  obtain d1 where s: "s d = Inr d1" and rest: "for_each (\<lambda>stmt. stmt) ss d1 = Inr d'"
    using Cons.prems(1) by (cases "s d") auto
  have "keeps I s" using Cons.prems(3) by simp
  then have "I d1" using s Cons.prems(2) by (rule keepsD)
  then show ?case using Cons.IH [OF rest] Cons.prems(3) by simp
qed

lemma keeps_transaction:
  assumes "\<And>stmt. stmt \<in> set stmts \<Longrightarrow> keeps I stmt"
  shows "keeps I (transaction stmts)"
proof (rule keepsI)
  fix d d'
  assume "I d" and "transaction stmts d = Inr d'"
  then show "I d'" using for_each_keeps [OF assms, of stmts d d'] by (simp add: transaction_def)
qed

lemma keeps_total: "(\<And>d. I d \<Longrightarrow> I (f d)) \<Longrightarrow> keeps I (\<lambda>d. Inr (f d))"
  by (simp add: keeps_def)

section \<open>Updates of rows\<close>

lemma update_where_map [simp]:
  "(\<And>r. g (f r) = g r) \<Longrightarrow> map g (update_where P f rows) = map g rows"
  by (induction rows) (auto simp: update_where_def)

lemma update_where_Cons [simp]:
  "update_where P f (r # rs) = (if P r then f r else r) # update_where P f rs"
  "update_where P f [] = []"
  by (simp_all add: update_where_def)

lemma set_update_where: "set (update_where P f rows) = (\<lambda>r. if P r then f r else r) ` set rows"
  by (simp add: update_where_def)

lemma image_update_where [simp]:
  assumes "\<And>r. g (f r) = g r"
  shows "g ` set (update_where P f rows) = g ` set rows"
  using update_where_map [of g f P rows] assms by (metis list.set_map)

lemma ball_update_where:
  "(\<forall>r \<in> set (update_where P f rows). Q r) \<longleftrightarrow> (\<forall>r \<in> set rows. Q (if P r then f r else r))"
  by (auto simp: set_update_where)

lemma mark_dirty_fields [simp]:
  "t_users (mark_dirty d) = t_users d" "t_shares (mark_dirty d) = t_shares d"
  "t_permissions (mark_dirty d) = t_permissions d" "t_settings (mark_dirty d) = t_settings d"
  "t_tls (mark_dirty d) = t_tls d" "t_dns (mark_dirty d) = t_dns d" "t_secrets (mark_dirty d) = t_secrets d"
  "t_revisions (mark_dirty d) = t_revisions d" "desired_revision_id (mark_dirty d) = desired_revision_id d"
  "active_revision_id (mark_dirty d) = active_revision_id d" "db_dirty (mark_dirty d)"
  "next_number (mark_dirty d) = next_number d"
  by (simp_all add: mark_dirty_def)

lemma with_triggers_fields [simp]:
  "t_users (with_triggers rs d) = t_users d" "t_shares (with_triggers rs d) = t_shares d"
  "t_permissions (with_triggers rs d) = t_permissions d" "t_settings (with_triggers rs d) = t_settings d"
  "t_tls (with_triggers rs d) = t_tls d" "t_dns (with_triggers rs d) = t_dns d"
  "t_secrets (with_triggers rs d) = t_secrets d" "t_revisions (with_triggers rs d) = t_revisions d"
  "desired_revision_id (with_triggers rs d) = desired_revision_id d"
  "active_revision_id (with_triggers rs d) = active_revision_id d"
  "next_number (with_triggers rs d) = next_number d"
  "db_dirty (with_triggers rs d) \<longleftrightarrow> rs \<noteq> [] \<or> db_dirty d"
  by (simp_all add: with_triggers_def)

lemma schema_mark_dirty [simp]: "schema_ok (mark_dirty d) = schema_ok d"
  by (simp add: schema_ok_def)

lemma schema_with_triggers [simp]: "schema_ok (with_triggers rows d) = schema_ok d"
  by (simp add: with_triggers_def)

section \<open>Every statement keeps the schema\<close>

lemma permissions_mono:
  "permissions_ok ss us ps \<Longrightarrow> ss \<subseteq> ss' \<Longrightarrow> us \<subseteq> us' \<Longrightarrow> permissions_ok ss' us' ps"
  by (auto simp: permissions_ok_def)

lemma keeps_insert_user [keeps_intros]: "keeps schema_ok (insert_user u)"
  by (rule keepsI)
     (auto simp: insert_user_def schema_ok_def users_ok_def elim!: permissions_mono split: if_splits)

lemma schema_update_user:
  assumes "\<And>u. user_ID (f u) = user_ID u" and "\<And>u. UsernameNormalized (f u) = UsernameNormalized u"
    and "schema_ok d"
  shows "schema_ok (update_user i f d)"
  using assms by (simp add: update_user_def schema_ok_def users_ok_def)

lemma permissions_filter:
  "permissions_ok ss us ps \<Longrightarrow> (\<And>p. p \<in> set ps \<Longrightarrow> Q p \<Longrightarrow> perm_ShareID p \<in> ss' \<and> perm_UserID p \<in> us')
     \<Longrightarrow> permissions_ok ss' us' (filter Q ps)"
  by (auto simp: permissions_ok_def map_filter_distinct)

lemma schema_delete_users: "schema_ok d \<Longrightarrow> schema_ok (delete_users P d)"
  by (auto simp: delete_users_def Let_def schema_ok_def users_ok_def map_filter_distinct permissions_ok_def)

lemma keeps_insert_share [keeps_intros]: "keeps schema_ok (insert_share s)"
  by (rule keepsI)
     (auto simp: insert_share_def schema_ok_def shares_ok_def elim!: permissions_mono split: if_splits)

lemma schema_delete_shares: "schema_ok d \<Longrightarrow> schema_ok (delete_shares P d)"
  by (auto simp: delete_shares_def Let_def schema_ok_def shares_ok_def map_filter_distinct permissions_ok_def)

lemma distinct_update_one:
  assumes "distinct (map k rows)" and "distinct (map g rows)"
    and "\<And>r. g (f r) = v" and "v \<notin> g ` set (filter (\<lambda>r. k r \<noteq> i) rows)"
  shows "distinct (map g (update_where (\<lambda>r. k r = i) f rows))"
  using assms
proof (induction rows)
  case Nil
  then show ?case by simp
next
  case (Cons r rows)
  show ?case
  proof (cases "k r = i")
    case True
    then have "\<forall>q \<in> set rows. k q \<noteq> i" using Cons.prems(1) by (auto simp: image_iff)
    then have "update_where (\<lambda>r. k r = i) f rows = rows" and "filter (\<lambda>r. k r \<noteq> i) rows = rows"
      by (auto simp: update_where_def map_idI)
    then show ?thesis using True Cons.prems by simp
  next
    case False
    then have "distinct (map g (update_where (\<lambda>r. k r = i) f rows))" using Cons by simp
    moreover have "g r \<notin> g ` set (update_where (\<lambda>r. k r = i) f rows)"
      using False Cons.prems(2-4) by (auto simp: set_update_where split: if_splits)
    ultimately show ?thesis using False by simp
  qed
qed

lemma keeps_update_share [keeps_intros]: "keeps schema_ok (update_share s)"
proof (rule keepsI)
  fix d d'
  assume ok: "schema_ok d" and run: "update_share s d = Inr d'"
  let ?f = "\<lambda>r. r\<lparr>share_Name := share_Name s, Slug := Slug s, Path := Path s,
                 share_Enabled := share_Enabled s, share_UpdatedAt := share_UpdatedAt s\<rparr>"
  let ?rows = "update_where (\<lambda>r. share_ID r = share_ID s) ?f (t_shares d)"
  from run have d': "d' = with_triggers (filter (\<lambda>r. share_ID r = share_ID s) (t_shares d)) (d\<lparr>t_shares := ?rows\<rparr>)"
    and free: "(\<exists>r \<in> set (t_shares d). share_ID r = share_ID s)
      \<Longrightarrow> Slug s \<notin> Slug ` set (filter (\<lambda>r. share_ID r \<noteq> share_ID s) (t_shares d))"
    by (auto simp: update_share_def Let_def list_ex_iff split: if_splits)
  have sh: "distinct (map share_ID (t_shares d))" "distinct (map Slug (t_shares d))"
    using ok by (simp_all add: schema_ok_def shares_ok_def)
  have "distinct (map Slug ?rows)"
  proof (cases "\<exists>r \<in> set (t_shares d). share_ID r = share_ID s")
    case True
    then show ?thesis using sh free by (intro distinct_update_one [where v = "Slug s"]) auto
  next
    case False
    then have "?rows = t_shares d" by (auto simp: update_where_def intro!: map_idI)
    then show ?thesis using sh(2) by simp
  qed
  then show "schema_ok d'"
    using ok sh unfolding d' by (simp add: schema_ok_def shares_ok_def)
qed

lemma permissions_insert:
  assumes "permissions_ok ss us ps" and "\<not> list_ex (same_grant p) ps"
    and "perm_ShareID p \<in> ss" and "perm_UserID p \<in> us" and "Permission_Valid (Permission p)"
  shows "permissions_ok ss us (ps @ [p])"
proof -
  have "grant_key p \<notin> grant_key ` set ps"
    using assms(2) by (auto simp: list_ex_iff same_grant_def grant_key_def)
  then show ?thesis using assms by (auto simp: permissions_ok_def)
qed

lemma keeps_insert_permission [keeps_intros]: "keeps schema_ok (insert_permission p)"
proof (rule keepsI)
  fix d d'
  assume ok: "schema_ok d" and run: "insert_permission p d = Inr d'"
  from run have "d' = mark_dirty (d\<lparr>t_permissions := t_permissions d @ [p]\<rparr>)"
    and "\<not> list_ex (same_grant p) (t_permissions d)" and "permission_parents p d"
    and "Permission_Valid (Permission p)"
    by (auto simp: insert_permission_def split: if_splits)
  then show "schema_ok d'"
    using ok by (simp add: schema_ok_def permission_parents_def permissions_insert)
qed

lemma permissions_update:
  assumes "permissions_ok ss us ps" and "\<And>q. grant_key (f q) = grant_key q"
    and "\<And>q. Permission_Valid (Permission (f q))"
  shows "permissions_ok ss us (update_where P f ps)"
  using assms unfolding permissions_ok_def ball_update_where by (auto simp: grant_key_def)

lemma keeps_upsert_permission [keeps_intros]: "keeps schema_ok (upsert_permission p)"
proof (rule keepsI)
  fix d d'
  assume ok: "schema_ok d" and run: "upsert_permission p d = Inr d'"
  show "schema_ok d'"
  proof (cases "list_ex (same_grant p) (t_permissions d)")
    case True
    with run ok show ?thesis
      by (auto simp: upsert_permission_def schema_ok_def grant_key_def intro!: permissions_update split: if_splits)
  next
    case False
    with run have "insert_permission p d = Inr d'" by (simp add: upsert_permission_def)
    from keepsD [OF keeps_insert_permission this ok] show ?thesis .
  qed
qed

lemma schema_delete_permissions: "schema_ok d \<Longrightarrow> schema_ok (delete_permissions P d)"
  by (auto simp: delete_permissions_def schema_ok_def elim: permissions_filter
      simp: permissions_ok_def map_filter_distinct)

lemma keeps_update_settings [keeps_intros]:
  assumes "\<And>s. settings_ID (f s) = settings_ID s"
  shows "keeps schema_ok (update_settings f)"
proof (rule keepsI)
  fix d d'
  assume ok: "schema_ok d" and run: "update_settings f d = Inr d'"
  have "map settings_ID (map f (t_settings d)) = map settings_ID (t_settings d)"
    by (simp add: assms)
  then show "schema_ok d'"
    using ok run by (auto simp: update_settings_def schema_ok_def settings_ok_def simp del: map_map
        split: option.splits)
qed

lemma keeps_insert_settings [keeps_intros]: "keeps schema_ok (insert_settings s)"
  by (rule keepsI) (auto simp: insert_settings_def schema_ok_def settings_ok_def split: option.splits if_splits)

lemma tls_mono: "tls_ok ids ps \<Longrightarrow> ids \<subseteq> ids' \<Longrightarrow> tls_ok ids' ps"
  by (auto simp: tls_ok_def)

lemma secrets_mono: "secrets_ok ids ps \<Longrightarrow> ids \<subseteq> ids' \<Longrightarrow> secrets_ok ids' ps"
  by (auto simp: secrets_ok_def)

lemma keeps_upsert_dns [keeps_intros]: "keeps schema_ok (upsert_dns c)"
proof (rule keepsI)
  fix d d'
  assume ok: "schema_ok d" and run: "upsert_dns c d = Inr d'"
  show "schema_ok d'"
  proof (cases "dns_ID c \<in> dns_ID ` set (t_dns d)")
    case True
    define rows where "rows = update_where (\<lambda>r. dns_ID r = dns_ID c) (\<lambda>r. r\<lparr>dns_Name := dns_Name c,
        Provider := Provider c, AllowedZones := AllowedZones c, dns_UpdatedAt := dns_UpdatedAt c\<rparr>) (t_dns d)"
    have "DNSProviderType_Valid (Provider c)" and d': "d' = mark_dirty (d\<lparr>t_dns := rows\<rparr>)"
      using run True by (auto simp: upsert_dns_def rows_def split: if_splits)
    moreover from this ok have "dns_ok rows"
      by (simp add: dns_ok_def schema_ok_def rows_def ball_update_where)
    moreover have "dns_ID ` set rows = dns_ID ` set (t_dns d)" by (simp add: rows_def)
    ultimately show ?thesis using ok by (simp add: schema_ok_def)
  next
    case False
    then show ?thesis
      using ok run unfolding upsert_dns_def schema_ok_def dns_ok_def
      by (auto elim!: tls_mono secrets_mono split: if_splits)
  qed
qed

lemma keeps_delete_dns [keeps_intros]: "keeps schema_ok (delete_dns i)"
proof (rule keepsI)
  fix d d'
  assume ok: "schema_ok d" and run: "delete_dns i d = Inr d'"
  have unused: "i \<in> dns_ID ` set (t_dns d) \<Longrightarrow> Some i \<notin> DNSProviderID ` set (t_tls d)"
    and d': "t_dns d' = filter (\<lambda>c. dns_ID c \<noteq> i) (t_dns d)"
      "t_secrets d' = (if i \<in> dns_ID ` set (t_dns d) then filter (\<lambda>s. fst s \<noteq> i) (t_secrets d) else t_secrets d)"
    and frame: "t_users d' = t_users d" "t_shares d' = t_shares d" "t_permissions d' = t_permissions d"
      "t_settings d' = t_settings d" "t_tls d' = t_tls d" "t_revisions d' = t_revisions d"
      "desired_revision_id d' = desired_revision_id d" "active_revision_id d' = active_revision_id d"
    using run by (auto simp: delete_dns_def split: if_splits)
  have ids: "dns_ID ` set (t_dns d') = dns_ID ` set (t_dns d) - {i}" by (auto simp: d')
  have "dns_ok (t_dns d')" using ok by (simp add: d' schema_ok_def dns_ok_def map_filter_distinct)
  moreover have "secrets_ok (dns_ID ` set (t_dns d')) (t_secrets d')"
    using ok unfolding ids by (auto simp: d' schema_ok_def secrets_ok_def map_filter_distinct)
  moreover have "tls_ok (dns_ID ` set (t_dns d')) (t_tls d')"
    using ok unused unfolding ids frame by (fastforce simp: schema_ok_def tls_ok_def image_iff)
  ultimately show "schema_ok d'" using ok by (simp add: schema_ok_def frame)
qed

lemma secrets_insert:
  "secrets_ok ids ss \<Longrightarrow> i \<in> ids \<Longrightarrow> i \<notin> fst ` set ss \<Longrightarrow> secrets_ok ids (ss @ [(i, c)])"
  by (auto simp: secrets_ok_def)

lemma secrets_update: "secrets_ok ids ss \<Longrightarrow> secrets_ok ids (update_where (\<lambda>s. fst s = i) (\<lambda>_. (i, c)) ss)"
proof -
  have keys: "map fst (update_where (\<lambda>s. fst s = i) (\<lambda>_. (i, c)) ss) = map fst ss" by (auto simp: update_where_def)
  then have "fst ` set (update_where (\<lambda>s. fst s = i) (\<lambda>_. (i, c)) ss) = fst ` set ss" by (metis list.set_map)
  with keys show "secrets_ok ids ss \<Longrightarrow> ?thesis" by (simp add: secrets_ok_def)
qed

lemma keeps_upsert_secret [keeps_intros]: "keeps schema_ok (upsert_secret i c)"
  by (rule keepsI)
     (auto simp: upsert_secret_def schema_ok_def intro!: secrets_insert secrets_update split: if_splits)

lemma schema_delete_secret: "schema_ok d \<Longrightarrow> schema_ok (delete_secret i d)"
  by (auto simp: delete_secret_def schema_ok_def secrets_ok_def map_filter_distinct)

lemma tls_checks_None:
  "tls_checks p d = None \<longleftrightarrow> TLSMode_Valid (Mode p) \<and> (Challenge p = TLSChallengeAuto \<or> Challenge p = TLSChallengeDNS)
     \<and> (\<forall>i. DNSProviderID p = Some i \<longrightarrow> i \<in> dns_ID ` set (t_dns d))"
  by (auto simp: tls_checks_def split: option.splits)

lemma keeps_insert_tls [keeps_intros]: "keeps schema_ok (insert_tls p)"
  by (rule keepsI)
     (auto simp: insert_tls_def schema_ok_def tls_ok_def tls_checks_None split: option.splits if_splits)

lemma keeps_upsert_tls [keeps_intros]: "keeps schema_ok (upsert_tls p)"
proof (rule keepsI)
  fix d d'
  assume ok: "schema_ok d" and run: "upsert_tls p d = Inr d'"
  let ?new = "update_where (\<lambda>r. tls_ID r = tls_ID p) (\<lambda>r. p\<lparr>tls_CreatedAt := tls_CreatedAt r\<rparr>) (t_tls d)"
  have keys: "map tls_ID ?new = map tls_ID (t_tls d)" by (simp add: update_where_def)
  have checked: "tls_checks p d = None" using run by (simp add: upsert_tls_def split: option.splits)
  have "tls_ok (dns_ID ` set (t_dns d)) ?new"
    using ok checked keys unfolding schema_ok_def tls_ok_def ball_update_where tls_checks_None by simp
  then show "schema_ok d'"
    using ok run checked by (auto simp: upsert_tls_def schema_ok_def tls_ok_def tls_checks_None split: if_splits)
qed

lemma schema_delete_tls: "schema_ok d \<Longrightarrow> schema_ok (delete_tls P d)"
  by (auto simp: delete_tls_def schema_ok_def tls_ok_def map_filter_distinct)

lemma keeps_set_runtime_state [keeps_intros]: "keeps schema_ok (set_runtime_state desired active)"
  by (rule keepsI)
     (auto simp: set_runtime_state_def schema_ok_def revisions_ok_def revision_exists_def split: if_splits)

lemma keeps_insert_revision [keeps_intros]: "keeps schema_ok (insert_revision r)"
  by (rule keepsI) (auto simp: insert_revision_def schema_ok_def revisions_ok_def split: if_splits)

lemma revisions_delete:
  assumes "revisions_ok desired active rs" and "i \<in> rev_ID ` set rs \<Longrightarrow> desired \<noteq> Some i \<and> active \<noteq> Some i"
  shows "revisions_ok desired active (filter (\<lambda>r. rev_ID r \<noteq> i) rs)"
proof -
  have ids: "rev_ID ` set (filter (\<lambda>r. rev_ID r \<noteq> i) rs) = rev_ID ` set rs - {i}" by auto
  have "i \<notin> set_option desired \<and> i \<notin> set_option active"
    using assms by (cases desired; cases active) (auto simp: revisions_ok_def)
  then show ?thesis
    using assms(1) unfolding revisions_ok_def ids by (auto simp: map_filter_distinct)
qed

lemma keeps_delete_revision [keeps_intros]: "keeps schema_ok (delete_revision i)"
  by (rule keepsI) (auto simp: delete_revision_def schema_ok_def intro!: revisions_delete split: if_splits)

lemma schema_with_status:
  assumes "\<And>r. rev_ID (f r) = rev_ID r" and "\<And>r. Number (f r) = Number r" and "schema_ok d"
  shows "schema_ok (with_status i f d)"
  using assms by (simp add: with_status_def schema_ok_def revisions_ok_def ball_update_where)

lemma keeps_update_valid_revision [keeps_intros]:
  assumes "\<And>r. rev_ID (f r) = rev_ID r" and "\<And>r. Number (f r) = Number r"
  shows "keeps schema_ok (update_valid_revision i f)"
  using schema_with_status [OF assms] by (auto simp: keeps_def update_valid_revision_def)

end
