(* ===== verification/Repository_Calls.thy ===== *)
theory Repository_Calls
  imports Database_Invariant
begin

text \<open>
  The calls the services make on the repositories, and the locale \<open>edit_invariant\<close>: a predicate kept by
  the statements an edit of the desired state is made of is kept by every edit, the import included.
\<close>

section \<open>Calls\<close>

text \<open>The calls the services make, and the database after each.\<close>

datatype repository_call =
  CreateUser user | DeleteUser ident | SetUserEnabled ident bool timestamp
| SetUserPasswordHash ident string timestamp
| CreateShare share | UpdateShare share | DeleteShare ident
| SetPermission share_permission | DeletePermission ident ident
| UpdatePorts int int timestamp
| SaveTLS tls_profile | DeleteTLS
| SaveDNS dns_credential | DeleteDNS ident
| PutSecret aead "string option" ident dns_secret | DeleteSecret ident
| ImportConfig import_seed
| CreateRevision config_revision | SetDesiredRevision ident | MarkRevisionApplied ident
| MarkRevisionFailed ident string string | MarkRevisionRestored ident | DeleteRevision ident
| RestoreRevisionState runtime_input ident

fun run_call :: "repository_call \<Rightarrow> db \<Rightarrow> db" where
  "run_call (CreateUser u) d = fst (User_Create u d)"
| "run_call (DeleteUser i) d = fst (User_Delete i d)"
| "run_call (SetUserEnabled i b t) d = fst (User_SetEnabled i b t d)"
| "run_call (SetUserPasswordHash i h t) d = fst (User_SetPasswordHash i h t d)"
| "run_call (CreateShare s) d = fst (Share_Create s d)"
| "run_call (UpdateShare s) d = fst (Share_Update s d)"
| "run_call (DeleteShare i) d = fst (Share_Delete i d)"
| "run_call (SetPermission p) d = fst (Permission_Set p d)"
| "run_call (DeletePermission s u) d = fst (Permission_Delete s u d)"
| "run_call (UpdatePorts a b t) d = fst (Settings_UpdatePorts a b t d)"
| "run_call (SaveTLS p) d = fst (TLS_Save p d)"
| "run_call DeleteTLS d = fst (TLS_Delete d)"
| "run_call (SaveDNS c) d = fst (DNS_Save c d)"
| "run_call (DeleteDNS i) d = fst (DNS_Delete i d)"
| "run_call (PutSecret a r i s) d = fst (Secret_Put a r i s d)"
| "run_call (DeleteSecret i) d = fst (Secret_Delete i d)"
| "run_call (ImportConfig seed) d = fst (Config_Import seed d)"
| "run_call (CreateRevision r) d = fst (Revision_Create r d)"
| "run_call (SetDesiredRevision i) d = fst (SetDesired i d)"
| "run_call (MarkRevisionApplied i) d = fst (MarkApplied i d)"
| "run_call (MarkRevisionFailed i c s) d = fst (MarkFailed i c s d)"
| "run_call (MarkRevisionRestored i) d = fst (MarkRestored i d)"
| "run_call (DeleteRevision i) d = fst (Revision_Delete i d)"
| "run_call (RestoreRevisionState input i) d = fst (RestoreState input i d)"

text \<open>The calls that edit the desired state, as against those that record revisions.\<close>

fun is_edit :: "repository_call \<Rightarrow> bool" where
  "is_edit (CreateRevision _) = False"
| "is_edit (SetDesiredRevision _) = False"
| "is_edit (MarkRevisionApplied _) = False"
| "is_edit (MarkRevisionFailed _ _ _) = False"
| "is_edit (MarkRevisionRestored _) = False"
| "is_edit (DeleteRevision _) = False"
| "is_edit (RestoreRevisionState _ _) = False"
| "is_edit _ = True"

section \<open>Running statements\<close>

lemma keeps_exec: "keeps I stmt \<Longrightarrow> I d \<Longrightarrow> I (fst (exec stmt d))"
  by (auto simp: exec_def keeps_def split: sum.splits)

lemma keeps_affected: "keeps I stmt \<Longrightarrow> I d \<Longrightarrow> I (fst (expect_affected rows e stmt d))"
  by (auto simp: expect_affected_def keeps_def split: sum.splits)

lemma kept_guard [intro]: "keeps I (\<lambda>d. if P d then Inl (e d) else Inr d)"
  by (simp add: keeps_def)

lemma kept_snapshot_guard [intro]: "keeps I (snapshot_guard i expected)"
proof (rule keepsI)
  fix d d'
  assume "I d" and "snapshot_guard i expected d = Inr d'"
  moreover from this have "d' = d" by (auto simp: snapshot_guard_def split: list.splits if_splits)
  ultimately show "I d'" by simp
qed

lemma kept_if [intro]:
  "keeps I s \<Longrightarrow> keeps I s' \<Longrightarrow> keeps I (\<lambda>d. if P d then s d else s' d)"
  by (rule keepsI) (metis keepsD)

lemma kept_Inl [intro]: "keeps I (\<lambda>d. Inl (e d))" "keeps I (\<lambda>d. Inr d)"
  by (simp_all add: keeps_def)

section \<open>Steps of the import\<close>

definition step_keeps :: "(db \<Rightarrow> bool) \<Rightarrow> import_step \<Rightarrow> bool" where
  "step_keeps I s \<longleftrightarrow> (\<forall>x x'. I (tx_db x) \<longrightarrow> s x = Inr x' \<longrightarrow> I (tx_db x'))"

lemma step_keepsD: "step_keeps I s \<Longrightarrow> s x = Inr x' \<Longrightarrow> I (tx_db x) \<Longrightarrow> I (tx_db x')"
  by (auto simp: step_keeps_def)

lemma step_keepsI: "(\<And>x x'. I (tx_db x) \<Longrightarrow> s x = Inr x' \<Longrightarrow> I (tx_db x')) \<Longrightarrow> step_keeps I s"
  by (auto simp: step_keeps_def)

lemma step_keeps_loop:
  assumes "\<And>a. a \<in> set as \<Longrightarrow> step_keeps I (body a)"
  shows "for_each body as x = Inr x' \<Longrightarrow> I (tx_db x) \<Longrightarrow> I (tx_db x')"
  using assms
proof (induction as arbitrary: x)
  case Nil
  then show ?case by simp
next
  case (Cons a as)
  obtain x1 where s: "body a x = Inr x1" and rest: "for_each body as x1 = Inr x'"
    using Cons.prems(1) by (cases "body a x") auto
  have "step_keeps I (body a)" using Cons.prems(3) by simp
  then have "I (tx_db x1)" using s Cons.prems(2) by (rule step_keepsD)
  then show ?case using Cons.IH [OF rest] Cons.prems(3) by simp
qed

lemma step_keeps_steps [intro]:
  assumes "\<And>s. s \<in> set ss \<Longrightarrow> step_keeps I s"
  shows "step_keeps I (steps ss)"
proof (rule step_keepsI)
  fix x x'
  assume "I (tx_db x)" and "steps ss x = Inr x'"
  then show "I (tx_db x')" using step_keeps_loop [where body = "\<lambda>s. s" and as = ss, OF assms] by (simp add: steps_def)
qed

lemma step_keeps_run [intro]: "keeps I stmt \<Longrightarrow> step_keeps I (run_statement stmt)"
  by (auto simp: step_keeps_def run_statement_def keeps_def split: sum.splits)

lemma step_keeps_pure [intro]:
  "step_keeps I (count_result f)" "step_keeps I (\<lambda>x. Inr (x\<lparr>tx_userIDs := g x\<rparr>))"
  "step_keeps I (\<lambda>x. Inr (x\<lparr>tx_shareIDs := g x\<rparr>))" "step_keeps I (\<lambda>x. if P x then Inl (e x) else Inr x)"
  by (auto simp: step_keeps_def count_result_def)

lemma step_keeps_row:
  assumes "keeps I stmt"
  shows "step_keeps I (steps [run_statement stmt, (\<lambda>x. Inr (x\<lparr>tx_userIDs := g x\<rparr>)), count_result f])"
    and "step_keeps I (steps [run_statement stmt, (\<lambda>x. Inr (x\<lparr>tx_shareIDs := h x\<rparr>)), count_result f])"
    and "step_keeps I (steps [run_statement stmt, count_result f])"
  by (rule step_keeps_steps; use assms in auto)+

section \<open>Edits\<close>

locale edit_invariant =
  fixes I :: "db \<Rightarrow> bool"
  assumes insert_user: "keeps I (insert_user u)"
    and update_user: "(\<And>u. user_ID (f u) = user_ID u) \<Longrightarrow> (\<And>u. UsernameNormalized (f u) = UsernameNormalized u)
          \<Longrightarrow> I d \<Longrightarrow> I (update_user i f d)"
    and delete_users: "I d \<Longrightarrow> I (delete_users P d)"
    and insert_share: "keeps I (insert_share s)"
    and update_share: "keeps I (update_share s)"
    and delete_shares: "I d \<Longrightarrow> I (delete_shares P' d)"
    and upsert_permission: "keeps I (upsert_permission p)"
    and delete_permissions: "I d \<Longrightarrow> I (delete_permissions P'' d)"
    and update_settings: "(\<And>s. settings_ID (h s) = settings_ID s) \<Longrightarrow> keeps I (update_settings h)"
    and upsert_tls: "keeps I (upsert_tls t)"
    and delete_tls: "I d \<Longrightarrow> I (delete_tls Q d)"
    and upsert_dns: "keeps I (upsert_dns c)"
    and delete_dns: "keeps I (delete_dns i)"
    and upsert_secret: "keeps I (upsert_secret i ct)"
    and delete_secret: "I d \<Longrightarrow> I (delete_secret i d)"
begin

lemmas statements = insert_user insert_share update_share upsert_permission upsert_tls upsert_dns
  delete_dns upsert_secret

lemma totals:
  "keeps I (\<lambda>d. Inr (delete_users P d))" "keeps I (\<lambda>d. Inr (delete_shares P' d))"
  "keeps I (\<lambda>d. Inr (delete_permissions P'' d))" "keeps I (\<lambda>d. Inr (delete_tls Q d))"
  "keeps I (\<lambda>d. Inr (delete_secret i d))"
  using delete_users delete_shares delete_permissions delete_tls delete_secret by (auto simp: keeps_def)

lemma keeps_update_user:
  assumes "\<And>u. user_ID (f u) = user_ID u" and "\<And>u. UsernameNormalized (f u) = UsernameNormalized u"
  shows "keeps I (\<lambda>d. Inr (update_user i f d))"
  using update_user [OF assms] by (simp add: keeps_def)

lemma import_server_keeps: "step_keeps I (import_server stamp s)"
  unfolding import_server_def
  by (rule step_keeps_steps) (auto intro!: step_keeps_run update_settings)

lemma import_tls_keeps: "step_keeps I (import_tls seed t)"
proof (rule step_keepsI)
  fix x x'
  assume ok: "I (tx_db x)" and run: "import_tls seed t x = Inr x'"
  then obtain i p where "steps [run_statement (\<lambda>d. Inr (delete_tls (\<lambda>r. tls_ID r \<noteq> i) d)),
      run_statement (upsert_tls p), count_result (\<lambda>r. r\<lparr>TLSUpdated := True\<rparr>)] x = Inr x'"
    by (auto simp: import_tls_def Let_def split: sum.splits prod.splits)
  moreover have "step_keeps I (steps [run_statement (\<lambda>d. Inr (delete_tls (\<lambda>r. tls_ID r \<noteq> i) d)),
      run_statement (upsert_tls p), count_result (\<lambda>r. r\<lparr>TLSUpdated := True\<rparr>)])"
    by (rule step_keeps_steps) (auto intro!: step_keeps_run totals upsert_tls)
  ultimately show "I (tx_db x')" using ok by (blast dest: step_keepsD)
qed

lemma import_user_keeps: "step_keeps I (import_user seed u)"
proof (rule step_keepsI)
  fix x x'
  assume ok: "I (tx_db x)" and run: "import_user seed u x = Inr x'"
  let ?n = "NormalizeUsername (doc_Username u)"
  show "I (tx_db x')"
  proof (cases "find (\<lambda>r. UsernameNormalized r = ?n) (t_users (tx_db x))")
    case None
    with run obtain row i f where
      "steps [run_statement (insert_user row), (\<lambda>x. Inr (x\<lparr>tx_userIDs := AList.update ?n i (tx_userIDs x)\<rparr>)),
         count_result f] x = Inr x'"
      unfolding import_user_def Let_def by (auto split: if_splits option.splits)
    with step_keeps_row(1) [OF insert_user] show ?thesis using ok by (rule step_keepsD)
  next
    case (Some r)
    with run obtain i enabled f where run':
      "steps [run_statement (\<lambda>d. Inr (update_user i (\<lambda>r. r\<lparr>Username := doc_Username u,
                  user_Enabled := enabled, user_UpdatedAt := Timestamp seed\<rparr>) d)),
                (\<lambda>x. Inr (x\<lparr>tx_userIDs := AList.update ?n i (tx_userIDs x)\<rparr>)), count_result f] x = Inr x'"
      unfolding import_user_def Let_def by (auto split: sum.splits option.splits)
    have "keeps I (\<lambda>d. Inr (update_user i (\<lambda>r. r\<lparr>Username := doc_Username u,
        user_Enabled := enabled, user_UpdatedAt := Timestamp seed\<rparr>) d))"
      by (rule keeps_update_user) simp_all
    from step_keepsD [OF step_keeps_row(1) [OF this] run' ok] show ?thesis .
  qed
qed

lemma import_share_keeps: "step_keeps I (import_share seed s)"
proof (rule step_keepsI)
  fix x x'
  assume ok: "I (tx_db x)" and run: "import_share seed s x = Inr x'"
  show "I (tx_db x')"
  proof (cases "find (\<lambda>r. Slug r = doc_Slug s) (t_shares (tx_db x))")
    case None
    with run obtain row i f where
      "steps [run_statement (insert_share row), (\<lambda>x. Inr (x\<lparr>tx_shareIDs := AList.update (doc_Slug s) i (tx_shareIDs x)\<rparr>)),
         count_result f] x = Inr x'"
      unfolding import_share_def Let_def by (auto split: if_splits option.splits)
    with step_keeps_row(2) [OF insert_share] show ?thesis using ok by (rule step_keepsD)
  next
    case (Some r)
    with run obtain row i f where
      "steps [run_statement (update_share row), (\<lambda>x. Inr (x\<lparr>tx_shareIDs := AList.update (doc_Slug s) i (tx_shareIDs x)\<rparr>)),
         count_result f] x = Inr x'"
      unfolding import_share_def Let_def by (auto split: sum.splits option.splits)
    with step_keeps_row(2) [OF update_share] show ?thesis using ok by (rule step_keepsD)
  qed
qed

lemma import_permission_keeps: "step_keeps I (import_permission seed i grant)"
proof (rule step_keepsI)
  fix x x'
  assume ok: "I (tx_db x)" and run: "import_permission seed i grant x = Inr x'"
  from run obtain p f where "steps [run_statement (upsert_permission p), count_result f] x = Inr x'"
    unfolding import_permission_def Let_def
    by (cases grant) (auto split: sum.splits option.splits if_splits)
  with step_keeps_row(3) [OF upsert_permission] show "I (tx_db x')" using ok by (rule step_keepsD)
qed

lemma import_permissions_keeps: "step_keeps I (import_permissions seed s)"
  by (rule step_keepsI)
     (auto simp: import_permissions_def intro: step_keeps_loop [OF import_permission_keeps])

lemma import_plan_keeps: "s \<in> set (import_plan seed) \<Longrightarrow> step_keeps I s"
  by (auto simp: import_plan_def Let_def import_server_keeps import_tls_keeps import_user_keeps
      import_share_keeps import_permissions_keeps split: option.splits)

lemma import_keeps:
  assumes "I d"
  shows "I (fst (Config_Import seed d))"
proof (cases "steps (import_plan seed) \<lparr>tx_db = d, tx_result = zero_result, tx_userIDs = [], tx_shareIDs = []\<rparr>")
  case (Inr x)
  have "step_keeps I (steps (import_plan seed))"
    using import_plan_keeps by blast
  from step_keepsD [OF this Inr] assms show ?thesis by (simp add: Config_Import_def Inr)
qed (use assms in \<open>simp add: Config_Import_def\<close>)

lemma tls_save_keeps:
  "keeps I (transaction [\<lambda>d. Inr (delete_tls (\<lambda>q. tls_ID q \<noteq> tls_ID p) d), upsert_tls (default_challenge p)])"
  using totals(4) upsert_tls by (intro keeps_transaction) auto

lemma ports_keep:
  assumes "I d"
  shows "I (fst (Settings_UpdatePorts a b t d))"
proof -
  have "keeps I (update_settings (\<lambda>s. s\<lparr>HTTPPort := a, HTTPSPort := b, settings_UpdatedAt := t\<rparr>))"
    by (rule update_settings) simp
  from keeps_exec [OF this assms] show ?thesis
    by (auto simp: Settings_UpdatePorts_def exec_def split: sum.splits)
qed

lemma mapped_error: "fst (case r of (d', Inl e) \<Rightarrow> (d', Inl (g e)) | (d', Inr y) \<Rightarrow> (d', Inr y)) = fst r"
  by (auto split: prod.splits sum.splits)

lemma named_keeps:
  assumes "I d"
  shows "I (fst (User_Create u d))" "I (fst (Share_Create s d))" "I (fst (Share_Update s d))"
    "I (fst (Secret_Put a r i sec d))"
proof -
  show "I (fst (User_Create u d))"
    using keeps_exec [OF insert_user assms, of u] by (simp add: User_Create_def mapped_error)
  show "I (fst (Share_Create s d))"
    using keeps_exec [OF insert_share assms, of s] by (simp add: Share_Create_def mapped_error)
  show "I (fst (Share_Update s d))"
    using keeps_affected [OF update_share assms] by (simp add: Share_Update_def mapped_error)
  show "I (fst (Secret_Put a r i sec d))"
    using keeps_exec [OF upsert_secret assms] assms
    by (auto simp: Secret_Put_def split: prod.splits sum.splits) (metis fst_conv)+
qed

lemma direct_keeps:
  assumes "I d"
  shows "I (fst (User_Delete i d))" "I (fst (Share_Delete i d))" "I (fst (Permission_Delete j i d))"
    "I (fst (Permission_Set p d))" "I (fst (TLS_Save t d))" "I (fst (TLS_Delete d))"
    "I (fst (DNS_Save c d))" "I (fst (DNS_Delete i d))" "I (fst (Secret_Delete i d))"
    "I (fst (User_SetEnabled i b stamp d))" "I (fst (User_SetPasswordHash i hash stamp d))"
proof -
  show "I (fst (User_Delete i d))" unfolding User_Delete_def by (rule keeps_affected [OF totals(1) assms])
  show "I (fst (Share_Delete i d))" unfolding Share_Delete_def by (rule keeps_affected [OF totals(2) assms])
  show "I (fst (Permission_Delete j i d))"
    unfolding Permission_Delete_def Let_def by (rule keeps_affected [OF totals(3) assms])
  show "I (fst (Permission_Set p d))" unfolding Permission_Set_def by (rule keeps_exec [OF upsert_permission assms])
  show "I (fst (TLS_Save t d))" unfolding TLS_Save_def by (rule keeps_exec [OF tls_save_keeps assms])
  show "I (fst (TLS_Delete d))" unfolding TLS_Delete_def by (rule keeps_exec [OF totals(4) assms])
  show "I (fst (DNS_Save c d))"
    using keeps_exec [OF upsert_dns assms] assms by (simp add: DNS_Save_def split: option.splits)
  show "I (fst (DNS_Delete i d))"
    by (simp add: DNS_Delete_def assms keeps_affected [OF delete_dns assms])
  show "I (fst (Secret_Delete i d))" unfolding Secret_Delete_def by (rule keeps_exec [OF totals(5) assms])
  have "keeps I (\<lambda>d. Inr (update_user i (\<lambda>u. u\<lparr>user_Enabled := b, user_UpdatedAt := stamp\<rparr>) d))"
    "keeps I (\<lambda>d. Inr (update_user i (\<lambda>u. u\<lparr>PasswordHash := hash, user_UpdatedAt := stamp\<rparr>) d))"
    by (rule keeps_update_user; simp)+
  then show "I (fst (User_SetEnabled i b stamp d))" "I (fst (User_SetPasswordHash i hash stamp d))"
    unfolding User_SetEnabled_def User_SetPasswordHash_def by (simp_all add: keeps_affected assms)
qed

lemma run_edit: "is_edit c \<Longrightarrow> I d \<Longrightarrow> I (run_call c d)"
  by (cases c) (simp_all add: direct_keeps named_keeps ports_keep import_keeps)

end

end
