(* ===== verification/Repository_Invariant.thy ===== *)
theory Repository_Invariant
  imports Repository_Calls
begin

text \<open>
  Every repository call keeps the database (\<open>db_ok\<close>), whatever its arguments and whether it succeeds
  or fails, and revision numbers are never used twice.
\<close>

text \<open>\<open>db_ok\<close> of a statement that touches neither the sequence nor the number of settings rows.\<close>

definition frame_ok :: "nat \<Rightarrow> int \<Rightarrow> db \<Rightarrow> bool" where
  "frame_ok k n d \<longleftrightarrow> length (t_settings d) = k \<and> next_number d = n
     \<and> (\<forall>r \<in> set (t_revisions d). Number r < n)"

lemma db_ok_frame: "db_ok d \<longleftrightarrow> schema_ok d \<and> frame_ok 1 (next_number d) d \<and> 0 < next_number d"
  by (auto simp: db_ok_def frame_ok_def)

named_theorems frame_intros \<open>statements that keep the sequence and the settings row\<close>

lemma frame_update_user [simp]: "frame_ok k n (update_user i f d) = frame_ok k n d"
  by (simp add: frame_ok_def update_user_def)

lemma frame_delete [simp]:
  "frame_ok k n (delete_users P d) = frame_ok k n d" "frame_ok k n (delete_shares P' d) = frame_ok k n d"
  "frame_ok k n (delete_permissions P'' d) = frame_ok k n d" "frame_ok k n (delete_tls Q d) = frame_ok k n d"
  "frame_ok k n (delete_secret i d) = frame_ok k n d"
  by (simp_all add: frame_ok_def delete_users_def delete_shares_def delete_permissions_def delete_tls_def
      delete_secret_def Let_def)

lemma keeps_frame [frame_intros]:
  "keeps (frame_ok k n) (insert_user u)" "keeps (frame_ok k n) (insert_share s)"
  "keeps (frame_ok k n) (update_share s)" "keeps (frame_ok k n) (insert_permission p)"
  "keeps (frame_ok k n) (upsert_permission p)" "keeps (frame_ok k n) (update_settings f)"
  "keeps (frame_ok k n) (upsert_dns c)" "keeps (frame_ok k n) (delete_dns i)"
  "keeps (frame_ok k n) (upsert_secret i ct)" "keeps (frame_ok k n) (insert_tls t)"
  "keeps (frame_ok k n) (upsert_tls t)" "keeps (frame_ok k n) (set_runtime_state a b)"
  "keeps (frame_ok k n) (delete_revision i)"
  by (rule keepsI; auto simp: frame_ok_def insert_user_def insert_share_def update_share_def
      insert_permission_def upsert_permission_def update_settings_def upsert_dns_def delete_dns_def
      upsert_secret_def insert_tls_def upsert_tls_def set_runtime_state_def delete_revision_def Let_def
      split: if_splits option.splits)+

lemma keeps_frame_status [frame_intros]:
  assumes "\<And>r. Number (f r) = Number r"
  shows "keeps (frame_ok k n) (update_valid_revision i f)"
  using assms by (auto simp: keeps_def update_valid_revision_def with_status_def frame_ok_def set_update_where
      update_where_def split: if_splits)

text \<open>The two parts together, for a fixed sequence and number of settings rows.\<close>

definition kept :: "nat \<Rightarrow> int \<Rightarrow> db \<Rightarrow> bool" where
  "kept k n d \<longleftrightarrow> schema_ok d \<and> frame_ok k n d"

lemma keeps_kept: "keeps schema_ok stmt \<Longrightarrow> keeps (frame_ok k n) stmt \<Longrightarrow> keeps (kept k n) stmt"
  by (auto simp: keeps_def kept_def)

lemmas keeps_kept_intros [intro] = keeps_kept [OF keeps_insert_user keeps_frame(1)]
  keeps_kept [OF keeps_insert_share keeps_frame(2)] keeps_kept [OF keeps_update_share keeps_frame(3)]
  keeps_kept [OF keeps_insert_permission keeps_frame(4)] keeps_kept [OF keeps_upsert_permission keeps_frame(5)]
  keeps_kept [OF keeps_update_settings keeps_frame(6)] keeps_kept [OF keeps_upsert_dns keeps_frame(7)]
  keeps_kept [OF keeps_delete_dns keeps_frame(8)] keeps_kept [OF keeps_upsert_secret keeps_frame(9)]
  keeps_kept [OF keeps_insert_tls keeps_frame(10)] keeps_kept [OF keeps_upsert_tls keeps_frame(11)]
  keeps_kept [OF keeps_set_runtime_state keeps_frame(12)] keeps_kept [OF keeps_delete_revision keeps_frame(13)]
  keeps_kept [OF keeps_update_valid_revision keeps_frame_status]

lemma kept_deletes [intro]:
  "keeps (kept k n) (\<lambda>d. Inr (delete_users P d))" "keeps (kept k n) (\<lambda>d. Inr (delete_shares P' d))"
  "keeps (kept k n) (\<lambda>d. Inr (delete_permissions P'' d))" "keeps (kept k n) (\<lambda>d. Inr (delete_tls Q d))"
  "keeps (kept k n) (\<lambda>d. Inr (delete_secret i d))"
  by (rule keeps_total; simp add: kept_def schema_delete_users schema_delete_shares
      schema_delete_permissions schema_delete_tls schema_delete_secret)+

lemma kept_update_user [intro]:
  assumes "\<And>u. user_ID (f u) = user_ID u" and "\<And>u. UsernameNormalized (f u) = UsernameNormalized u"
  shows "keeps (kept k n) (\<lambda>d. Inr (update_user i f d))"
  by (rule keeps_total) (use assms schema_update_user in \<open>simp add: kept_def\<close>)

lemma kept_db_ok: "db_ok d \<longleftrightarrow> kept 1 (next_number d) d \<and> 0 < next_number d"
  by (auto simp: db_ok_frame kept_def)

interpretation kept: edit_invariant "kept k n" for k n
  by unfold_locales
     (auto simp: kept_def schema_update_user schema_delete_users schema_delete_shares schema_delete_permissions
       schema_delete_tls schema_delete_secret)

lemma transaction_Inr:
  "transaction [] d = Inr d' \<longleftrightarrow> d' = d"
  "transaction (s # ss) d = Inr d' \<longleftrightarrow> (\<exists>d1. s d = Inr d1 \<and> transaction ss d1 = Inr d')"
  by (auto simp: transaction_def split: sum.splits)

lemma fingerprint_Inr: "fingerprint r = Inr r' \<Longrightarrow> \<exists>h. r' = r\<lparr>StateHash := h\<rparr>"
  by (cases r) (auto simp: fingerprint_def split: if_splits sum.splits)

lemma Revision_Create_Inr:
  assumes "Revision_Create r d = (d', Inr c)"
  shows "\<exists>h. c = r\<lparr>Number := next_number d, StateHash := h\<rparr>" and "ConfigRevision_Validate c = None"
    and "transaction [insert_revision c,
           (\<lambda>d. set_runtime_state (Some (rev_ID c)) (active_revision_id d) d)]
           (d\<lparr>next_number := next_number d + 1\<rparr>) = Inr d'"
    and "0 < next_number d" and "t_revisions d' = t_revisions d @ [c]"
    and "rev_ID c \<notin> rev_ID ` set (t_revisions d)"
    and "next_number d' = next_number d + 1" and "desired_revision_id d' = Some (rev_ID c)"
    and "active_revision_id d' = active_revision_id d" and "\<not> db_dirty d'"
    and "t_settings d' = t_settings d"
proof -
  obtain r' h where f: "fingerprint r = Inr r'" "r' = r\<lparr>StateHash := h\<rparr>"
    using assms fingerprint_Inr by (auto simp: Revision_Create_def split: sum.splits)
  then have c: "c = r'\<lparr>Number := next_number d\<rparr>"
    using assms by (auto simp: Revision_Create_def Let_def split: sum.splits)
  with f have "c = r\<lparr>Number := next_number d, StateHash := h\<rparr>" by simp
  then show "\<exists>h. c = r\<lparr>Number := next_number d, StateHash := h\<rparr>" ..
  have n: "Number c = next_number d" by (simp add: c)
  from assms f c obtain d1 where v: "ConfigRevision_Validate c = None"
    and i: "insert_revision c (d\<lparr>next_number := next_number d + 1\<rparr>) = Inr d1"
    and u: "set_runtime_state (Some (rev_ID c)) (active_revision_id d1) d1 = Inr d'"
    by (auto simp: Revision_Create_def Let_def transaction_Inr split: sum.splits option.splits)
  show "ConfigRevision_Validate c = None" by (rule v)
  show "transaction [insert_revision c,
           (\<lambda>d. set_runtime_state (Some (rev_ID c)) (active_revision_id d) d)]
           (d\<lparr>next_number := next_number d + 1\<rparr>) = Inr d'"
    using i u by (simp add: transaction_Inr)
  show "0 < next_number d" and "t_revisions d' = t_revisions d @ [c]"
    and "rev_ID c \<notin> rev_ID ` set (t_revisions d)"
    and "next_number d' = next_number d + 1" and "desired_revision_id d' = Some (rev_ID c)"
    and "active_revision_id d' = active_revision_id d" and "\<not> db_dirty d'"
    and "t_settings d' = t_settings d"
    using i u n by (auto simp: insert_revision_def set_runtime_state_def split: if_splits)
qed

lemma db_ok_create: "db_ok d \<Longrightarrow> db_ok (fst (Revision_Create r d))"
proof -
  assume ok: "db_ok d"
  obtain d' res where run: "Revision_Create r d = (d', res)" by (cases "Revision_Create r d")
  show ?thesis
  proof (cases res)
    case (Inl e)
    with run have "d' = d" by (auto simp: Revision_Create_def Let_def split: sum.splits)
    with run ok show ?thesis by simp
  next
    case (Inr c)
    note c = Revision_Create_Inr [OF run [unfolded Inr]]
    have "schema_ok (d\<lparr>next_number := next_number d + 1\<rparr>)"
      using ok by (simp add: db_ok_def schema_ok_def)
    moreover have "keeps schema_ok (\<lambda>d. set_runtime_state (Some (rev_ID c)) (active_revision_id d) d)"
      by (rule keepsI) (rule keepsD [OF keeps_set_runtime_state])
    then have "keeps schema_ok (transaction [insert_revision c,
        (\<lambda>d. set_runtime_state (Some (rev_ID c)) (active_revision_id d) d)])"
      by (intro keeps_transaction) (auto simp: keeps_insert_revision)
    ultimately have "schema_ok d'" using c(3) by (blast dest: keepsD)
    moreover have "Number c = next_number d" using c(1) by auto
    ultimately show ?thesis using ok c run by (auto simp: db_ok_def)
  qed
qed

lemma transaction_append:
  "transaction (ss @ ts) d = Inr d' \<longleftrightarrow> (\<exists>d1. transaction ss d = Inr d1 \<and> transaction ts d1 = Inr d')"
  by (auto simp: transaction_def for_each_append split: sum.splits)

lemma restore_keeps:
  assumes "transaction (restore_rows input) d = Inr d'" and "kept 1 n d"
  shows "kept 1 n d'"
proof -
  let ?clear = "[\<lambda>d. Inr (delete_permissions (\<lambda>_. True) d), \<lambda>d. Inr (delete_shares (\<lambda>_. True) d),
      \<lambda>d. Inr (delete_users (\<lambda>_. True) d), \<lambda>d. Inr (delete_tls (\<lambda>_. True) d)]"
  let ?fill = "map insert_user (Users input)
     @ concat (map (\<lambda>item. insert_share (Share item) # map insert_permission (Permissions item)) (Shares input))
     @ map upsert_dns (DNSProviderCredentials input)
     @ (case TLSProfile input of None \<Rightarrow> [] | Some p \<Rightarrow> [insert_tls (default_challenge p)])"
  have rows: "restore_rows input = ?clear @ [\<lambda>d. Inr (d\<lparr>t_settings := []\<rparr>), insert_settings (ServerSettings input)] @ ?fill"
    by (simp add: restore_rows_def)
  obtain d1 d2 where clear: "transaction ?clear d = Inr d1"
    and settings: "insert_settings (ServerSettings input) (d1\<lparr>t_settings := []\<rparr>) = Inr d2"
    and fill: "transaction ?fill d2 = Inr d'"
    using assms(1) unfolding rows transaction_append by (auto simp: transaction_Inr)
  have "keeps (kept 1 n) (transaction ?clear)" by (intro keeps_transaction) auto
  from keepsD [OF this clear assms(2)] have k1: "kept 1 n d1" .
  then have "kept 0 n (d1\<lparr>t_settings := []\<rparr>)"
    by (auto simp: kept_def schema_ok_def settings_ok_def frame_ok_def)
  then have k2: "kept 1 n d2"
    using settings keepsD [OF keeps_insert_settings settings]
    by (auto simp: kept_def frame_ok_def insert_settings_def split: option.splits if_splits)
  have "keeps (kept 1 n) (transaction ?fill)"
    by (intro keeps_transaction) (auto split: option.splits)
  from keepsD [OF this fill k2] show ?thesis .
qed

lemma restore_kept:
  "db_ok d \<Longrightarrow> kept 1 (next_number d) (fst (RestoreState input i d))"
proof -
  assume ok: "db_ok d"
  have "keeps (kept 1 n) (transaction ([snapshot_guard i expected] @ restore_rows input
      @ [update_valid_revision i applied, set_runtime_state (Some i) (Some i)]))" for expected n
  proof (rule keepsI)
    fix d d'
    assume k: "kept 1 n d" and "transaction ([snapshot_guard i expected] @ restore_rows input
      @ [update_valid_revision i applied, set_runtime_state (Some i) (Some i)]) d = Inr d'"
    then obtain d1 d2 where g: "snapshot_guard i expected d = Inr d1"
      and r: "transaction (restore_rows input) d1 = Inr d2"
      and u: "transaction [update_valid_revision i applied, set_runtime_state (Some i) (Some i)] d2 = Inr d'"
      unfolding transaction_append by (auto simp: transaction_Inr)
    have "kept 1 n d1" using kept_snapshot_guard g k by (rule keepsD)
    from restore_keeps [OF r this] have k2: "kept 1 n d2" .
    have "keeps (kept 1 n) (update_valid_revision i applied)"
      by (rule keeps_kept_intros(14)) (simp_all add: applied_def)
    then have "keeps (kept 1 n) (transaction [update_valid_revision i applied, set_runtime_state (Some i) (Some i)])"
      by (intro keeps_transaction) auto
    from keepsD [OF this u k2] show "kept 1 n d'" .
  qed
  from keeps_exec [OF this, of "next_number d" d] ok show ?thesis
    by (auto simp: RestoreState_def kept_db_ok split: option.splits sum.splits)
qed

lemma kept_set_desired [intro]:
  "keeps (kept k n) (\<lambda>d. if P d then set_runtime_state a (active_revision_id d) d else Inr d)"
proof (rule keepsI)
  fix d d'
  assume "kept k n d" and "(if P d then set_runtime_state a (active_revision_id d) d else Inr d) = Inr d'"
  then show "kept k n d'"
    by (cases "P d") (auto intro: keepsD [OF keeps_kept_intros(12)])
qed

lemma kept_delete_guarded [intro]:
  "keeps (kept k n) (\<lambda>d. if P d then delete_revision i d else Inl e)"
proof (rule keepsI)
  fix d d'
  assume "kept k n d" and "(if P d then delete_revision i d else Inl e) = Inr d'"
  then show "kept k n d'"
    by (cases "P d") (auto intro: keepsD [OF keeps_kept_intros(13)])
qed

lemma kept_marks [intro]:
  "keeps (kept k n) (transaction [update_valid_revision i applied, set_runtime_state (Some i) (Some i)])"
  "keeps (kept k n) (update_valid_revision i
     (\<lambda>r. r\<lparr>ApplyStatus := a, ErrorCode := c, ErrorSummary := s\<rparr>))"
proof -
  have "keeps (kept k n) (update_valid_revision i applied)"
    by (rule keeps_kept_intros(14)) (simp_all add: applied_def)
  then show "keeps (kept k n) (transaction [update_valid_revision i applied, set_runtime_state (Some i) (Some i)])"
    by (intro keeps_transaction) auto
  show "keeps (kept k n) (update_valid_revision i
     (\<lambda>r. r\<lparr>ApplyStatus := a, ErrorCode := c, ErrorSummary := s\<rparr>))"
    by (rule keeps_kept_intros(14)) simp_all
qed

text \<open>A call ends in a good database whose sequence has not gone back.\<close>

definition advanced :: "db \<Rightarrow> db \<Rightarrow> bool" where
  "advanced d d' \<longleftrightarrow> db_ok d' \<and> next_number d \<le> next_number d'"

lemma kept_advanced: "db_ok d \<Longrightarrow> kept 1 (next_number d) d' \<Longrightarrow> advanced d d'"
  by (auto simp: kept_db_ok advanced_def kept_def frame_ok_def)

lemma exec_advanced:
  assumes "db_ok d" and "\<And>k n. keeps (kept k n) stmt"
  shows "advanced d (fst (exec stmt d))" and "advanced d (fst (expect_affected rows e stmt d))"
proof -
  have k: "kept 1 (next_number d) d" using assms(1) by (simp only: kept_db_ok)
  show "advanced d (fst (exec stmt d))" by (rule kept_advanced [OF assms(1) keeps_exec [OF assms(2) k]])
  show "advanced d (fst (expect_affected rows e stmt d))"
    by (rule kept_advanced [OF assms(1) keeps_affected [OF assms(2) k]])
qed

lemma create_advanced: "db_ok d \<Longrightarrow> advanced d (fst (Revision_Create r d))"
  using db_ok_create [of d r] Revision_Create_Inr(7) [of r d]
  by (cases "Revision_Create r d"; cases "snd (Revision_Create r d)")
     (auto simp: advanced_def Revision_Create_def Let_def split: sum.splits)

lemma restore_advanced: "db_ok d \<Longrightarrow> advanced d (fst (RestoreState input i d))"
  by (rule kept_advanced [OF _ restore_kept])

lemma delete_advanced: "db_ok d \<Longrightarrow> advanced d (fst (Revision_Delete i d))"
proof -
  assume ok: "db_ok d"
  have "keeps (kept k n) (transaction
      [\<lambda>d. if i \<in> rev_ID ` set (t_revisions d) then delete_revision i d else Inl ErrRevisionNotFound])" for k n
    by (intro keeps_transaction) auto
  from exec_advanced(1) [OF ok this] ok show ?thesis
    by (auto simp: Revision_Delete_def advanced_def)
qed

theorem run_call_advanced:
  assumes "db_ok d"
  shows "advanced d (run_call c d)"
proof (cases "is_edit c")
  case True
  have "kept 1 (next_number d) d" using assms by (simp only: kept_db_ok)
  from kept_advanced [OF assms kept.run_edit [OF True this]] show ?thesis .
next
  case False
  then show ?thesis
    by (cases c) (use assms in \<open>auto simp: SetDesired_def MarkApplied_def MarkFailed_def MarkRestored_def
        create_advanced restore_advanced delete_advanced intro!: exec_advanced\<close>)
qed

end
