(* ===== verification/Pending_Changes.thy ===== *)
theory Pending_Changes
  imports Repository_Invariant
begin

text \<open>
  The dirty flag: an edit that changed a table of the desired state leaves the database marked, and
  leaves the revisions alone; so \<open>Pending\<close> is true until a revision is made of the new state.
\<close>

definition state_tables where
  "state_tables d = (t_users d, t_shares d, t_permissions d, t_settings d, t_tls d, t_dns d, t_secrets d)"

definition revision_tables where
  "revision_tables d = (t_revisions d, desired_revision_id d, active_revision_id d, next_number d)"

definition tracked :: "db \<Rightarrow> db \<Rightarrow> bool" where
  "tracked d0 d \<longleftrightarrow> (state_tables d \<noteq> state_tables d0 \<longrightarrow> db_dirty d) \<and> (db_dirty d0 \<longrightarrow> db_dirty d)
     \<and> revision_tables d = revision_tables d0"

lemma tracked_refl [simp]: "tracked d d"
  by (simp add: tracked_def)

text \<open>A statement either marks the database or changes no table.\<close>

lemma tracked_marked: "tracked d0 d \<Longrightarrow> revision_tables d' = revision_tables d \<Longrightarrow> db_dirty d' \<Longrightarrow> tracked d0 d'"
  by (simp add: tracked_def)

lemma tracked_same: "tracked d0 d \<Longrightarrow> revision_tables d' = revision_tables d \<Longrightarrow> db_dirty d' = db_dirty d
    \<Longrightarrow> state_tables d' = state_tables d \<Longrightarrow> tracked d0 d'"
  by (simp add: tracked_def)

lemma keeps_tracked:
  assumes "\<And>d d'. stmt d = Inr d' \<Longrightarrow> revision_tables d' = revision_tables d
      \<and> (db_dirty d' \<or> d' = d)"
  shows "keeps (tracked d0) stmt"
proof (rule keepsI)
  fix d d'
  assume t: "tracked d0 d" and "stmt d = Inr d'"
  with assms have "revision_tables d' = revision_tables d" and "db_dirty d' \<or> d' = d" by blast+
  then show "tracked d0 d'" using t tracked_marked by auto
qed

lemma tracked_total:
  assumes "revision_tables d' = revision_tables d" and "db_dirty d' \<or> state_tables d' = state_tables d \<and> db_dirty d' = db_dirty d"
    and "tracked d0 d"
  shows "tracked d0 d'"
  using assms tracked_marked tracked_same by blast

lemmas table_tuples = state_tables_def revision_tables_def

lemma empty_filter: "filter P xs = [] \<Longrightarrow> filter (\<lambda>x. \<not> P x) xs = xs"
  by (auto simp: filter_empty_conv intro!: filter_True)

lemma empty_selection: "filter P xs = [] \<Longrightarrow> {x \<in> set xs. P x} = {}"
  by (auto simp: filter_empty_conv)

lemma empty_update: "filter P xs = [] \<Longrightarrow> update_where P f xs = xs"
  by (auto simp: filter_empty_conv update_where_def intro!: map_idI)

lemma tracked_deletes:
  assumes "tracked d0 d"
  shows "tracked d0 (delete_users P d)" and "tracked d0 (delete_shares P' d)"
    and "tracked d0 (delete_permissions P'' d)" and "tracked d0 (delete_tls Q d)"
    and "tracked d0 (delete_secret i d)" and "tracked d0 (update_user j f d)"
proof -
  show "tracked d0 (delete_users P d)"
    by (rule tracked_total [OF _ _ assms])
       (auto simp: delete_users_def Let_def table_tuples empty_filter empty_selection)
  show "tracked d0 (delete_shares P' d)"
    by (rule tracked_total [OF _ _ assms])
       (auto simp: delete_shares_def Let_def table_tuples empty_filter empty_selection)
  show "tracked d0 (delete_permissions P'' d)"
    by (rule tracked_total [OF _ _ assms]) (auto simp: delete_permissions_def table_tuples empty_filter)
  show "tracked d0 (delete_tls Q d)"
    by (rule tracked_total [OF _ _ assms]) (auto simp: delete_tls_def table_tuples empty_filter)
  show "tracked d0 (delete_secret i d)"
    by (rule tracked_total [OF _ _ assms])
       (use empty_filter [of "\<lambda>s. fst s = i" "t_secrets d"] in \<open>auto simp: delete_secret_def table_tuples\<close>)
  show "tracked d0 (update_user j f d)"
    by (rule tracked_total [OF _ _ assms]) (auto simp: update_user_def table_tuples empty_update)
qed

lemma tracked_statements:
  "keeps (tracked d0) (insert_user u)" "keeps (tracked d0) (insert_share s)"
  "keeps (tracked d0) (upsert_permission p)" "keeps (tracked d0) (upsert_tls t)"
  "keeps (tracked d0) (upsert_dns c)" "keeps (tracked d0) (upsert_secret i ct)"
  by (rule keeps_tracked; auto simp: insert_user_def insert_share_def upsert_permission_def
      insert_permission_def upsert_tls_def upsert_dns_def upsert_secret_def table_tuples
      split: if_splits option.splits)+

lemma tracked_conditional:
  "keeps (tracked d0) (update_share s)" "keeps (tracked d0) (update_settings h)" "keeps (tracked d0) (delete_dns i)"
proof -
  show "keeps (tracked d0) (update_share s)"
  proof (rule keepsI)
    fix d d' assume t: "tracked d0 d" and "update_share s d = Inr d'"
    then show "tracked d0 d'"
      by (intro tracked_total [OF _ _ t])
         (auto simp: update_share_def Let_def table_tuples empty_update split: if_splits)
  qed
  show "keeps (tracked d0) (update_settings h)"
  proof (rule keepsI)
    fix d d' assume t: "tracked d0 d" and "update_settings h d = Inr d'"
    then show "tracked d0 d'"
      by (intro tracked_total [OF _ _ t]) (auto simp: update_settings_def table_tuples split: option.splits)
  qed
  show "keeps (tracked d0) (delete_dns i)"
  proof (rule keepsI)
    fix d d' assume t: "tracked d0 d" and "delete_dns i d = Inr d'"
    then show "tracked d0 d'"
      using empty_filter [of "\<lambda>c. dns_ID c = i" "t_dns d"]
      by (intro tracked_total [OF _ _ t])
         (auto simp: delete_dns_def table_tuples filter_empty_conv split: if_splits)
  qed
qed

interpretation tracked: edit_invariant "tracked d0" for d0
  by unfold_locales (auto simp: tracked_deletes tracked_statements tracked_conditional)

end
