(* ===== verification/Json_Roundtrip.thy ===== *)
theory Json_Roundtrip
  imports Json_Parse
begin

text \<open>
  What \<open>json.Marshal\<close> writes, \<open>json.Unmarshal\<close> reads back: on trees whose strings are UTF-8
  and whose numbers are integers.
\<close>

section \<open>Code points and their bytes\<close>

lemma byte_of_less [simp]: "byte_of c < 256"
  by (simp add: byte_of_def)

lemma lead_info_cases:
  assumes "lead_info b = Some (n, lo, hi)"
  obtains "n = 0" "b < 128"
    | "n = 1" "194 \<le> b" "b < 224" "lo = 128" "hi = 191"
    | "n = 2" "224 \<le> b" "b < 240" "lo = (if b = 224 then 160 else 128)" "hi = (if b = 237 then 159 else 191)"
    | "n = 3" "240 \<le> b" "b \<le> 244" "lo = (if b = 240 then 144 else 128)" "hi = (if b = 244 then 143 else 191)"
  using assms by (auto simp: lead_info_def split: if_splits)

lemma lead_info_0: "lead_info b = Some (n, lo, hi) \<Longrightarrow> n = 0 \<longleftrightarrow> b < 128"
  by (auto simp: lead_info_def split: if_splits)

lemma continues_Suc:
  "continues (Suc n) lo hi cs \<longleftrightarrow>
     (\<exists>c ds. cs = c # ds \<and> lo \<le> byte_of c \<and> byte_of c \<le> hi \<and> continues n 128 191 ds)"
  by (cases cs) auto

lemma continues_2:
  "continues 2 lo hi cs \<Longrightarrow> \<exists>c1 c2 ds. cs = c1 # c2 # ds \<and> lo \<le> byte_of c1 \<and> byte_of c1 \<le> hi
     \<and> 128 \<le> byte_of c2 \<and> byte_of c2 \<le> 191"
  unfolding numeral_2_eq_2 continues_Suc by blast

lemma continues_3:
  "continues 3 lo hi cs \<Longrightarrow> \<exists>c1 c2 c3 ds. cs = c1 # c2 # c3 # ds \<and> lo \<le> byte_of c1 \<and> byte_of c1 \<le> hi
     \<and> 128 \<le> byte_of c2 \<and> byte_of c2 \<le> 191 \<and> 128 \<le> byte_of c3 \<and> byte_of c3 \<le> 191"
  unfolding numeral_3_eq_3 continues_Suc by blast

lemma cont_bits_2: "cont_bits 2 acc (c1 # c2 # ds) = (acc * 64 + byte_of c1 mod 64) * 64 + byte_of c2 mod 64"
  by (simp add: numeral_2_eq_2)

lemma cont_bits_3: "cont_bits 3 acc (c1 # c2 # c3 # ds)
    = ((acc * 64 + byte_of c1 mod 64) * 64 + byte_of c2 mod 64) * 64 + byte_of c3 mod 64"
  by (simp add: numeral_3_eq_3)

definition bad_byte :: "char \<Rightarrow> string \<Rightarrow> bool" where
  "bad_byte c cs \<longleftrightarrow> snd (decode_rune c cs) = 0 \<and> 128 \<le> byte_of c"

lemma div_mod_64: "z < 64 \<Longrightarrow> (q * 64 + z) div 64 = q" "z < 64 \<Longrightarrow> (q * 64 + z) mod 64 = (z::nat)"
  by simp_all

lemma mod_128: "(128 + y) mod 64 = y" if "y < (64::nat)"
proof -
  have "(128 + y) mod 64 = (2 * 64 + y) mod 64" by simp
  then show ?thesis using that by (metis div_mod_64(2))
qed

lemma decode_1:
  assumes "194 \<le> b" "b < 224" "128 \<le> b1" "b1 \<le> (191::nat)" "r = (b - 192) * 64 + b1 mod 64"
  shows "128 \<le> r" "r < 2048" "192 + r div 64 = b" "128 + r mod 64 = b1"
proof -
  define x y where "x = b - 192" and "y = b1 - 128"
  then have xy: "b = 192 + x" "b1 = 128 + y" using assms(1,3) by auto
  have lt: "2 \<le> x" "x < 32" "y < 64" using xy assms by auto
  have r: "r = x * 64 + y" using assms(5) lt xy mod_128 [OF lt(3)] by simp
  show "128 \<le> r" "r < 2048" using r lt by auto
  show "192 + r div 64 = b" "128 + r mod 64 = b1" using div_mod_64 [OF lt(3), of x] r xy by auto
qed

lemma decode_2:
  assumes "224 \<le> b" "b < 240" "(if b = 224 then 160 else 128) \<le> b1"
    "b1 \<le> (if b = 237 then 159 else (191::nat))" "128 \<le> b2" "b2 \<le> 191"
    "r = ((b - 224) * 64 + b1 mod 64) * 64 + b2 mod 64"
  shows "2048 \<le> r" "r < 65536" "\<not> (55296 \<le> r \<and> r \<le> 57343)"
    "224 + r div 4096 = b" "128 + r div 64 mod 64 = b1" "128 + r mod 64 = b2"
proof -
  have b1: "128 \<le> b1" "b1 \<le> 191" using assms(3,4) by (auto split: if_splits)
  define x y z where "x = b - 224" and "y = b1 - 128" and "z = b2 - 128"
  then have xyz: "b = 224 + x" "b1 = 128 + y" "b2 = 128 + z" using assms(1,5) b1 by auto
  have lt: "x < 16" "y < 64" "z < 64" using xyz assms b1 by auto
  have r: "r = (x * 64 + y) * 64 + z"
    using assms(7) xyz mod_128 lt by simp
  have d: "r div 64 = x * 64 + y" "r mod 64 = z" unfolding r using div_mod_64 lt(3) by blast+
  have "r div 4096 = r div 64 div 64" by (simp add: div_mult2_eq [symmetric])
  also have "\<dots> = x" using d(1) div_mod_64 [OF lt(2)] by simp
  finally have q: "r div 4096 = x" .
  show "224 + r div 4096 = b" "128 + r mod 64 = b2" using xyz d q by auto
  show "128 + r div 64 mod 64 = b1" using xyz d(1) div_mod_64 [OF lt(2)] by simp
  show "2048 \<le> r" "r < 65536" "\<not> (55296 \<le> r \<and> r \<le> 57343)"
    using assms(3,4) xyz lt r by (auto split: if_splits)
qed

lemma decode_3:
  assumes "240 \<le> b" "b \<le> 244" "(if b = 240 then 144 else 128) \<le> b1"
    "b1 \<le> (if b = 244 then 143 else (191::nat))" "128 \<le> b2" "b2 \<le> 191" "128 \<le> b3" "b3 \<le> 191"
    "r = (((b - 240) * 64 + b1 mod 64) * 64 + b2 mod 64) * 64 + b3 mod 64"
  shows "65536 \<le> r" "r \<le> 1114111" "240 + r div 262144 = b" "128 + r div 4096 mod 64 = b1"
    "128 + r div 64 mod 64 = b2" "128 + r mod 64 = b3"
proof -
  have b1: "128 \<le> b1" "b1 \<le> 191" using assms(3,4) by (auto split: if_splits)
  define x y z w where "x = b - 240" and "y = b1 - 128" and "z = b2 - 128" and "w = b3 - 128"
  then have xyz: "b = 240 + x" "b1 = 128 + y" "b2 = 128 + z" "b3 = 128 + w" using assms(1,5,7) b1 by auto
  have lt: "x < 5" "y < 64" "z < 64" "w < 64" using xyz assms b1 by auto
  have r: "r = ((x * 64 + y) * 64 + z) * 64 + w"
    using assms(9) xyz mod_128 lt by simp
  have d: "r div 64 = (x * 64 + y) * 64 + z" "r mod 64 = w" unfolding r using div_mod_64 lt(4) by blast+
  have d2: "r div 4096 = x * 64 + y"
  proof -
    have "r div 4096 = r div 64 div 64" by (simp add: div_mult2_eq [symmetric])
    then show ?thesis using d(1) div_mod_64 [OF lt(3)] by simp
  qed
  have d3: "r div 262144 = x"
  proof -
    have "r div 262144 = r div 4096 div 64" by (simp add: div_mult2_eq [symmetric])
    then show ?thesis using d2 div_mod_64 [OF lt(2)] by simp
  qed
  show "240 + r div 262144 = b" "128 + r mod 64 = b3" using xyz d d3 by auto
  show "128 + r div 4096 mod 64 = b1" "128 + r div 64 mod 64 = b2"
    by (simp_all only: d(1) d2 div_mod_64(2) [OF lt(3)] div_mod_64(2) [OF lt(2)] xyz)
  show "65536 \<le> r" "r \<le> 1114111" using assms(3,4) xyz lt r by (auto split: if_splits)
qed

text \<open>The bytes of a well formed code point are the bytes it is encoded to.\<close>

lemma encode_decode:
  assumes "decode_rune c cs = (r, n)" and "\<not> bad_byte c cs"
  shows "encode_rune r = c # take n cs" and "r < 128 \<longleftrightarrow> byte_of c < 128" and "byte_of c < 128 \<Longrightarrow> r = byte_of c \<and> n = 0"
proof -
  obtain k lo hi where li: "lead_info (byte_of c) = Some (k, lo, hi)" "continues k lo hi cs" "n = k"
      "r = cont_bits k (lead_bits k (byte_of c)) cs"
  proof (cases "lead_info (byte_of c)")
    case None
    then have "128 \<le> byte_of c" by (auto simp: lead_info_def split: if_splits)
    with None assms(2) show ?thesis by (simp add: bad_byte_def decode_rune_def)
  next
    case (Some t)
    obtain k lo hi where t: "t = (k, lo, hi)" by (cases t) auto
    show ?thesis
    proof (cases "continues k lo hi cs")
      case True
      have "n = k" "r = cont_bits k (lead_bits k (byte_of c)) cs"
        using True Some t assms(1) by (auto simp: decode_rune_def)
      with Some t True show ?thesis by (intro that [of k lo hi]) simp_all
    next
      case False
      then have "k \<noteq> 0" by (cases k) auto
      with Some t have "128 \<le> byte_of c" using lead_info_0 by (metis not_less)
      with False Some t assms(2) show ?thesis by (simp add: bad_byte_def decode_rune_def)
    qed
  qed
  let ?b = "byte_of c"
  from li(1) have "encode_rune r = c # take n cs \<and> (r < 128 \<longleftrightarrow> ?b < 128) \<and> (?b < 128 \<longrightarrow> r = ?b \<and> n = 0)"
  proof (cases rule: lead_info_cases)
    case 1
    with li show ?thesis by (simp add: lead_bits_def encode_rune_def Let_def)
  next
    case 2
    with li obtain c1 ds where cs: "cs = c1 # ds" "128 \<le> byte_of c1" "byte_of c1 \<le> 191"
      by (auto simp: continues_Suc)
    have r: "r = (?b - 192) * 64 + byte_of c1 mod 64" using li 2 cs by (simp add: lead_bits_def)
    note f = decode_1 [OF 2(2,3) cs(2,3) r]
    have "encode_rune r = map char_of [192 + r div 64, 128 + r mod 64]"
      using f(1,2) by (simp add: encode_rune_def Let_def)
    with f 2 cs li show ?thesis by simp
  next
    case 3
    note k = 3(1)
    obtain c1 c2 ds where cs: "cs = c1 # c2 # ds" "lo \<le> byte_of c1" "byte_of c1 \<le> hi"
        "128 \<le> byte_of c2" "byte_of c2 \<le> 191"
      using continues_2 [OF li(2) [unfolded k]] by blast
    have r: "r = ((?b - 224) * 64 + byte_of c1 mod 64) * 64 + byte_of c2 mod 64"
      by (simp only: li(4) k cs(1) cont_bits_2) (simp add: lead_bits_def)
    note f = decode_2 [OF 3(2,3) cs(2) [unfolded 3(4)] cs(3) [unfolded 3(5)] cs(4,5) r]
    have "encode_rune r = map char_of [224 + r div 4096, 128 + r div 64 mod 64, 128 + r mod 64]"
      using f(1,2,3) by (auto simp: encode_rune_def Let_def)
    also have "\<dots> = c # take n cs"
      by (simp only: f(4-6) cs(1) li(3) k list.map char_of_byte_of) (simp add: numeral_2_eq_2)
    finally show ?thesis using f(1) 3(2) by auto
  next
    case 4
    note k = 4(1)
    obtain c1 c2 c3 ds where cs: "cs = c1 # c2 # c3 # ds" "lo \<le> byte_of c1" "byte_of c1 \<le> hi"
        "128 \<le> byte_of c2" "byte_of c2 \<le> 191" "128 \<le> byte_of c3" "byte_of c3 \<le> 191"
      using continues_3 [OF li(2) [unfolded k]] by blast
    have r: "r = (((?b - 240) * 64 + byte_of c1 mod 64) * 64 + byte_of c2 mod 64) * 64 + byte_of c3 mod 64"
      by (simp only: li(4) k cs(1) cont_bits_3) (simp add: lead_bits_def)
    note f = decode_3 [OF 4(2,3) cs(2) [unfolded 4(4)] cs(3) [unfolded 4(5)] cs(4-7) r]
    have "encode_rune r = map char_of [240 + r div 262144, 128 + r div 4096 mod 64,
        128 + r div 64 mod 64, 128 + r mod 64]"
      using f(1,2) by (simp add: encode_rune_def Let_def)
    also have "\<dots> = c # take n cs"
      by (simp only: f(3-6) cs(1) li(3) k list.map char_of_byte_of) (simp add: numeral_3_eq_3)
    finally show ?thesis using f(1) 4(2) by auto
  qed
  then show "encode_rune r = c # take n cs" and "r < 128 \<longleftrightarrow> byte_of c < 128"
    and "byte_of c < 128 \<Longrightarrow> r = byte_of c \<and> n = 0" by blast+
qed

section \<open>Strings\<close>

lemma continues_take: "continues k lo hi cs \<Longrightarrow> continues k lo hi (take k cs @ t)"
  by (induction k lo hi cs rule: continues.induct) auto

lemma cont_bits_take: "continues k lo hi cs \<Longrightarrow> cont_bits k acc (take k cs @ t) = cont_bits k acc cs"
  by (induction k lo hi cs arbitrary: acc rule: continues.induct) auto

lemma decode_rune_take:
  assumes "decode_rune c cs = (r, n)" and "\<not> bad_byte c cs"
  shows "decode_rune c (take n cs @ t) = (r, n)"
proof (cases "lead_info (byte_of c)")
  case None
  then have "128 \<le> byte_of c" by (auto simp: lead_info_def split: if_splits)
  with None assms(2) show ?thesis by (simp add: bad_byte_def decode_rune_def)
next
  case (Some x)
  obtain k lo hi where x: "x = (k, lo, hi)" by (cases x) auto
  show ?thesis
  proof (cases "continues k lo hi cs")
    case True
    with Some x assms(1) continues_take [OF True] cont_bits_take [OF True] show ?thesis
      by (auto simp: decode_rune_def)
  next
    case False
    then have "k \<noteq> 0" by (cases k) auto
    with Some x have "128 \<le> byte_of c" using lead_info_0 by (metis not_less)
    with False Some x assms(2) show ?thesis by (simp add: bad_byte_def decode_rune_def)
  qed
qed

lemma decode_length:
  "decode_rune c cs = (r, n) \<Longrightarrow> n \<le> length cs"
proof -
  have "continues k lo hi cs \<Longrightarrow> k \<le> length cs" for k lo hi
    by (induction k lo hi cs rule: continues.induct) auto
  then show "decode_rune c cs = (r, n) \<Longrightarrow> n \<le> length cs"
    by (auto simp: decode_rune_def split: option.splits if_splits)
qed

lemma special_chars:
  "quote_char \<noteq> escape_char" "escape_char \<noteq> quote_char" "byte_of quote_char = 34"
  "byte_of escape_char = 92" "CHR ''u'' \<noteq> quote_char"
  by (simp_all add: quote_char_def escape_char_def byte_of_def)

abbreviation prepend :: "string \<Rightarrow> (string \<times> string) option \<Rightarrow> (string \<times> string) option" where
  "prepend b r \<equiv> map_option (\<lambda>(s, rest). (b @ s, rest)) r"

lemma unquote_escape:
  "decode_escape cs = Some (b, n) \<Longrightarrow> unquote (escape_char # cs) = prepend b (unquote (drop n cs))"
  by (simp add: special_chars)

lemma unquote_simple:
  "map_of simple_escapes e = Some v \<Longrightarrow> unquote ([escape_char, e] @ t) = prepend (encode_rune v) (unquote t)"
proof -
  assume e: "map_of simple_escapes e = Some v"
  then have "e \<noteq> CHR ''u''"
    by (auto simp: simple_escapes_def quote_char_def escape_char_def split: if_splits)
  with e have "decode_escape (e # t) = Some (encode_rune v, 1)" by (simp add: decode_escape_def)
  from unquote_escape [OF this] show ?thesis by simp
qed

lemma hex_nibble_value:
  assumes "n < 16"
  shows "hex_digit_value (hex_nibble n) = Some n"
proof -
  have "byte_of (hex_nibble n) = (if n < 10 then 48 + n else 87 + n)"
    using assms by (simp add: hex_nibble_def byte_of_def)
  then show ?thesis using assms by (simp add: hex_digit_value_def byte_of_le str_eval)
qed

lemma nibble_sum:
  "q3 * 16 + m2 = q2 \<Longrightarrow> q2 * 16 + m1 = q1 \<Longrightarrow> q1 * 16 + m0 = r \<Longrightarrow>
     q3 * 4096 + m2 * 256 + m1 * 16 + m0 = (r::nat)"
  by auto

lemma hex4_nibbles:
  assumes "r < 65536"
  shows "\<exists>h. u_escape r = escape_char # CHR ''u'' # h \<and> length h = 4 \<and> (\<forall>t. hex4 (h @ t) = Some r)"
proof -
  let ?h = "[hex_nibble (r div 4096 mod 16), hex_nibble (r div 256 mod 16), hex_nibble (r div 16 mod 16),
    hex_nibble (r mod 16)]"
  have q: "r div 256 = r div 16 div 16" "r div 4096 = r div 256 div 16"
    using div_mult2_eq [of r 16 16] div_mult2_eq [of r 256 16] by simp_all
  have "r div 4096 < 16" using assms by simp
  then have "r div 4096 mod 16 * 16 + r div 256 mod 16 = r div 256"
    using div_mult_mod_eq [of "r div 256" 16] by (simp only: q(2) [symmetric] mod_less)
  moreover have "r div 256 * 16 + r div 16 mod 16 = r div 16"
    unfolding q(1) by (rule div_mult_mod_eq)
  ultimately have "r div 4096 mod 16 * 4096 + r div 256 mod 16 * 256 + r div 16 mod 16 * 16 + r mod 16 = r"
    by (rule nibble_sum) (rule div_mult_mod_eq)
  then have "hex4 (?h @ t) = Some r" for t
    by (simp only: append.simps hex4.simps hex_nibble_value mod_less_divisor zero_less_numeral
        option.case prod.case)
  then show ?thesis by (intro exI [of _ ?h]) (simp only: u_escape_def, simp)
qed

lemma unquote_u:
  assumes "r < 65536" and "\<not> (55296 \<le> r \<and> r \<le> 56319)"
  shows "unquote (u_escape r @ t) = prepend (encode_rune r) (unquote t)"
proof -
  obtain h where h: "u_escape r = escape_char # CHR ''u'' # h" "length h = 4" "\<And>t. hex4 (h @ t) = Some r"
    using hex4_nibbles [OF assms(1)] by blast
  have "decode_escape (CHR ''u'' # h @ t) = Some (encode_rune r, 5)"
    unfolding decode_escape_def using assms(2) h(3) by auto
  from unquote_escape [OF this] h(1,2) show ?thesis by simp
qed

text \<open>One code point: what \<open>escape_rune\<close> writes, \<open>unquote\<close> turns back into its bytes.\<close>

lemma unquote_chunk:
  assumes d: "decode_rune c cs = (r, n)" and ok: "\<not> bad_byte c cs"
  shows "unquote (escape_rune (r, c # take n cs) @ t) = prepend (c # take n cs) (unquote t)"
proof -
  note e = encode_decode [OF d ok]
  have simple: "unquote ([escape_char, x] @ t) = prepend (c # take n cs) (unquote t)"
    if "map_of simple_escapes x = Some r" for x
    using unquote_simple [OF that, of t] e(1) by simp
  have u: "unquote (u_escape r @ t) = prepend (c # take n cs) (unquote t)"
    if "r < 65536" "\<not> (55296 \<le> r \<and> r \<le> 56319)"
    using unquote_u [OF that, of t] e(1) by simp
  have raw: "unquote ((c # take n cs) @ t) = prepend (c # take n cs) (unquote t)"
    if "r \<noteq> 34" "r \<noteq> 92" "\<not> r < 32"
  proof -
    have c: "c \<noteq> quote_char" "c \<noteq> escape_char" "\<not> byte_of c < 32"
      using that e(2,3) special_chars by auto
    have m: "min (length cs) n = n" using decode_length [OF d] by simp
    have nb: "\<not> (n = 0 \<and> 128 \<le> byte_of c)" using ok d by (simp add: bad_byte_def)
    have "unquote (c # take n cs @ t) = prepend (c # take n cs) (unquote t)"
      using c decode_rune_take [OF d ok, of t] m by (simp add: Let_def if_not_P [OF nb])
    then show ?thesis by simp
  qed
  have sp: "map_of simple_escapes quote_char = Some 34" "map_of simple_escapes escape_char = Some 92"
    "map_of simple_escapes (CHR ''b'') = Some 8" "map_of simple_escapes (CHR ''f'') = Some 12"
    "map_of simple_escapes (CHR ''n'') = Some 10" "map_of simple_escapes (CHR ''r'') = Some 13"
    "map_of simple_escapes (CHR ''t'') = Some 9"
    by (simp_all add: simple_escapes_def quote_char_def escape_char_def)
  have err: "\<not> (r = rune_error \<and> length (c # take n cs) = 1)"
  proof
    assume a: "r = rune_error \<and> length (c # take n cs) = 1"
    then have "\<not> byte_of c < 128" using e(3) by (auto simp: rune_error_def)
    with ok d have "n \<noteq> 0" by (simp add: bad_byte_def)
    with a decode_length [OF d] show False by auto
  qed
  consider "r = 34" | "r = 92" | "r = 8" | "r = 12" | "r = 10" | "r = 13" | "r = 9"
    | "r \<notin> {34, 92, 8, 12, 10, 13, 9}" by blast
  then show ?thesis
  proof cases
    case 8
    show ?thesis
    proof (cases "r < 32 \<or> r = 60 \<or> r = 62 \<or> r = 38 \<or> r = 8232 \<or> r = 8233")
      case True
      with 8 have "escape_rune (r, c # take n cs) = u_escape r"
        unfolding escape_rune_def by auto
      with True u show ?thesis by auto
    next
      case False
      with 8 err have "escape_rune (r, c # take n cs) = c # take n cs"
        by (auto simp: escape_rune_def simp del: length_Cons length_take One_nat_def)
      with False 8 raw show ?thesis by auto
    qed
  qed (use simple sp in \<open>simp_all add: escape_rune_def\<close>)
qed

definition valid_utf8 :: "string \<Rightarrow> bool" where
  "valid_utf8 s \<longleftrightarrow> list_all (\<lambda>(r, b). \<not> (r = rune_error \<and> length b = 1)) (chunks s)"

lemma bad_byte_chunk:
  assumes "decode_rune c cs = (r, n)" and "\<not> (r = rune_error \<and> length (c # take n cs) = 1)"
  shows "\<not> bad_byte c cs"
proof
  assume b: "bad_byte c cs"
  then have n: "n = 0" "128 \<le> byte_of c" using assms(1) by (simp_all add: bad_byte_def)
  have "r = rune_error"
  proof (cases "lead_info (byte_of c)")
    case None
    with assms(1) show ?thesis by (simp add: decode_rune_def)
  next
    case (Some x)
    obtain k lo hi where x: "x = (k, lo, hi)" by (cases x) auto
    then have "k \<noteq> 0" using lead_info_0 Some n(2) by (metis not_less)
    with Some x assms(1) n(1) show ?thesis by (auto simp: decode_rune_def split: if_splits)
  qed
  with assms(2) n(1) show False by simp
qed

lemma unquote_quote:
  "valid_utf8 s \<Longrightarrow> unquote (concat (map escape_rune (chunks s)) @ quote_char # t) = Some (s, t)"
proof (induction s rule: chunks.induct)
  case 1
  then show ?case by simp
next
  case (2 c cs)
  obtain r n where d: "decode_rune c cs = (r, n)" by fastforce
  from 2(2) d have v: "\<not> (r = rune_error \<and> length (c # take n cs) = 1)" "valid_utf8 (drop n cs)"
    by (simp_all add: valid_utf8_def)
  have "unquote (escape_rune (r, c # take n cs) @ concat (map escape_rune (chunks (drop n cs))) @ quote_char # t)
      = prepend (c # take n cs) (Some (drop n cs, t))"
    using unquote_chunk [OF d bad_byte_chunk [OF d v(1)]] 2(1) d v(2) by simp
  with d show ?case by simp
qed

section \<open>Values\<close>

text \<open>The trees a round trip keeps: strings in UTF-8, and numbers that are integer literals.\<close>

definition int_literal :: "string \<Rightarrow> bool" where
  "int_literal s \<longleftrightarrow> scan_number s = Some (s, [])
     \<and> list_all (\<lambda>c. is_digit c \<or> c = CHR ''-'') s \<and> s \<noteq> []"

fun clean :: "json \<Rightarrow> bool" where
  "clean JNull = True"
| "clean (JBool b) = True"
| "clean (JNum s) = int_literal s"
| "clean (JStr s) = valid_utf8 s"
| "clean (JArr xs) = list_all clean xs"
| "clean (JObj kvs) = list_all (\<lambda>(k, v). valid_utf8 k \<and> clean v) kvs"

fun depth :: "json \<Rightarrow> nat" where
  "depth (JArr xs) = Suc (foldr (max \<circ> depth) xs 0)"
| "depth (JObj kvs) = Suc (foldr (max \<circ> depth \<circ> snd) kvs 0)"
| "depth j = 0"

fun fuel :: "json \<Rightarrow> nat" where
  "fuel (JArr xs) = Suc (sum_list (map (\<lambda>x. Suc (fuel x)) xs))"
| "fuel (JObj kvs) = Suc (sum_list (map (\<lambda>kv. Suc (fuel (snd kv))) kvs))"
| "fuel j = 1"

text \<open>What may follow a value: nothing that would prolong a number.\<close>

definition stops :: "string \<Rightarrow> bool" where
  "stops t \<longleftrightarrow> (case t of [] \<Rightarrow> True
     | c # _ \<Rightarrow> \<not> is_digit c \<and> c \<noteq> CHR ''.'' \<and> c \<noteq> CHR ''e'' \<and> c \<noteq> CHR ''E'')"

lemma scan_digits_append:
  "scan_digits s = Some (ds, []) \<Longrightarrow> stops t \<Longrightarrow> scan_digits (s @ t) = Some (ds, t)"
proof -
  assume a: "scan_digits s = Some (ds, [])" and t: "stops t"
  then have "dropWhile is_digit s = []" "ds = takeWhile is_digit s" "ds \<noteq> []"
    by (auto simp: scan_digits_def Let_def split: if_splits)
  then have all: "\<forall>c \<in> set s. is_digit c" and ds: "ds = s" by (auto simp: takeWhile_eq_all_conv)
  have "takeWhile is_digit (s @ t) = s" "dropWhile is_digit (s @ t) = t"
    using all t by (cases t; auto simp: stops_def takeWhile_append dropWhile_append)+
  then show ?thesis using ds \<open>ds \<noteq> []\<close> by (simp add: scan_digits_def)
qed

lemma scan_integer_rest:
  assumes "scan_integer s = Some (i, r)"
  shows "s = i @ r" and "list_all is_digit i"
proof -
  have d: "scan_digits s = Some (i, r) \<Longrightarrow> s = i @ r \<and> list_all is_digit i" for s
    by (auto simp: scan_digits_def Let_def list_all_iff dest: set_takeWhileD split: if_splits)
  show "s = i @ r" "list_all is_digit i"
    using assms d by (auto simp: scan_integer_def is_digit_def split: list.splits if_splits)
qed

lemma int_literal_scan:
  assumes "int_literal s" and "stops t"
  shows "scan_number (s @ t) = Some (s, t)"
proof -
  obtain sg s0 where sg: "(case s of c # cs \<Rightarrow> if c = CHR ''-'' then ([c], cs) else ([], s) | [] \<Rightarrow> ([], s)) = (sg, s0)"
    by fastforce
  have sgt: "(case s @ t of c # cs \<Rightarrow> if c = CHR ''-'' then ([c], cs) else ([], s @ t) | [] \<Rightarrow> ([], s @ t)) = (sg, s0 @ t)"
    using sg assms(1) by (cases s) (auto simp: int_literal_def split: if_splits)
  have s: "s = sg @ s0" using sg by (auto split: list.splits if_splits)
  from assms(1) sg obtain i r1 where i: "scan_integer s0 = Some (i, r1)"
    by (auto simp: int_literal_def scan_number_def split: Option.bind_splits)
  have r1: "r1 = []"
  proof (rule ccontr)
    assume ne: "r1 \<noteq> []"
    then obtain c cs where c: "r1 = c # cs" by (cases r1) auto
    have digits: "\<forall>x \<in> set s0. is_digit x \<or> x = CHR ''-''"
      using assms(1) s by (auto simp: int_literal_def list_all_iff)
    then have "is_digit c \<or> c = CHR ''-''" using scan_integer_rest(1) [OF i] c by auto
    then have "c \<noteq> CHR ''.''" "c \<noteq> CHR ''e''" "c \<noteq> CHR ''E''"
      by (auto simp: is_digit_def)
    then have "scan_fraction r1 = Some ([], r1)" "scan_exponent r1 = Some ([], r1)"
      using c by (simp_all add: scan_fraction_def scan_exponent_def)
    then have "scan_number s = Some (sg @ i, r1)"
      using i sg by (simp add: scan_number_def)
    with assms(1) ne show False by (simp add: int_literal_def)
  qed
  have i': "scan_integer (s0 @ t) = Some (i, t)"
  proof (cases s0)
    case Nil
    with i show ?thesis by (simp add: scan_integer_def)
  next
    case (Cons c cs)
    show ?thesis
    proof (cases "c = CHR ''0''")
      case True
      with Cons i r1 show ?thesis by (auto simp: scan_integer_def)
    next
      case False
      with Cons i r1 have "scan_digits s0 = Some (i, [])" by (simp add: scan_integer_def)
      from scan_digits_append [OF this assms(2)] False Cons show ?thesis by (simp add: scan_integer_def)
    qed
  qed
  have "scan_fraction t = Some ([], t)" "scan_exponent t = Some ([], t)"
    using assms(2) by (auto simp: stops_def scan_fraction_def scan_exponent_def split: list.splits)
  with i' sgt have "scan_number (s @ t) = Some (sg @ i, t)" by (simp add: scan_number_def)
  moreover have "sg @ i = s" using s scan_integer_rest(1) [OF i] r1 by simp
  ultimately show ?thesis by simp
qed

lemma int_literal_head:
  assumes "int_literal s"
  shows "\<exists>c cs. s = c # cs \<and> (is_digit c \<or> c = CHR ''-'')"
  using assms by (cases s) (auto simp: int_literal_def)

lemma punctuation [simp]:
  "\<not> is_ws (CHR '','')" "\<not> is_ws (CHR '']'')" "\<not> is_ws (CHR ''}'')" "\<not> is_ws (CHR '':'')"
  "\<not> is_ws (CHR ''['')" "\<not> is_ws (CHR ''{'')" "\<not> is_ws (CHR ''n'')" "\<not> is_ws (CHR ''t'')"
  "\<not> is_ws (CHR ''f'')" "\<not> is_ws (CHR ''-'')" "\<not> is_ws quote_char" "quote_char \<noteq> CHR '']''"
  by (simp_all add: is_ws_def quote_char_def byte_of_def)

lemma digit_head:
  "is_digit c \<Longrightarrow> \<not> is_ws c \<and> c \<noteq> CHR '']'' \<and> c \<noteq> quote_char \<and> c \<noteq> CHR ''['' \<and> c \<noteq> CHR ''{''
     \<and> c \<noteq> CHR ''n'' \<and> c \<noteq> CHR ''t'' \<and> c \<noteq> CHR ''f''"
  by (auto simp: is_ws_def is_digit_def byte_of_le byte_of_def quote_char_def)

lemma print_head:
  assumes "clean j"
  shows "\<exists>c cs. json_print j = c # cs \<and> \<not> is_ws c \<and> c \<noteq> CHR '']''"
proof (cases j)
  case (JNum s)
  with assms have "int_literal s" by simp
  from int_literal_head [OF this] obtain c cs where c: "s = c # cs" "is_digit c \<or> c = CHR ''-''"
    by blast
  then have "\<not> is_ws c \<and> c \<noteq> CHR '']''" using digit_head [of c] by auto
  with c JNum show ?thesis by simp
qed (simp_all add: quote_string_def)

lemma skip_ws_head [simp]: "\<not> is_ws c \<Longrightarrow> skip_ws (c # cs) = c # cs"
  by (simp add: skip_ws_def)

lemma skip_ws_print:
  assumes "clean j"
  shows "skip_ws (json_print j @ t) = json_print j @ t"
proof -
  obtain c cs where "json_print j = c # cs" "\<not> is_ws c" using print_head [OF assms] by blast
  then show ?thesis by simp
qed

lemma stops_punctuation [simp]:
  "stops (CHR '','' # t)" "stops (CHR '']'' # t)" "stops (CHR ''}'' # t)" "stops []"
  by (simp_all add: stops_def is_digit_def byte_of_le str_eval)

definition reads :: "nat \<Rightarrow> nat \<Rightarrow> json \<Rightarrow> bool" where
  "reads n d j \<longleftrightarrow> (\<forall>m t. n \<le> m \<longrightarrow> stops t \<longrightarrow> parse_value m d (json_print j @ t) = Some (j, t))"

lemma parse_elements_print:
  assumes "\<forall>x \<in> set xs. clean x \<and> reads (fuel x) d x" and "xs \<noteq> []"
    and "sum_list (map (\<lambda>x. Suc (fuel x)) xs) \<le> n"
  shows "parse_elements n d (join_with '','' (map json_print xs) @ '']'' @ t) = Some (xs, t)"
  using assms
proof (induction xs arbitrary: n)
  case Nil
  then show ?case by simp
next
  case (Cons x xs)
  obtain m where n: "n = Suc m" using Cons.prems(3) by (cases n) auto
  have m: "fuel x \<le> m" "sum_list (map (\<lambda>x. Suc (fuel x)) xs) \<le> m"
    using Cons.prems(3) n by auto
  have v: "parse_value m d (json_print x @ u) = Some (x, u)" if "stops u" for u
    using Cons.prems(1) m(1) that by (simp add: reads_def)
  show ?case
  proof (cases xs)
    case Nil
    with v show ?thesis by (simp add: n)
  next
    case (Cons y ys)
    let ?rest = "join_with '','' (map json_print xs) @ '']'' @ t"
    have "skip_ws ?rest = ?rest"
      using skip_ws_print [of y] Cons.prems(1) Cons by (cases ys) auto
    moreover have "parse_elements m d ?rest = Some (xs, t)"
      using Cons.IH [of m] Cons.prems(1) m(2) Cons by simp
    ultimately show ?thesis using v Cons by (simp add: n)
  qed
qed

lemma parse_members_print:
  assumes "\<forall>(k, x) \<in> set xs. valid_utf8 k \<and> clean x \<and> reads (fuel x) d x" and "xs \<noteq> []"
    and "sum_list (map (\<lambda>kv. Suc (fuel (snd kv))) xs) \<le> n"
  shows "parse_members n d
    (join_with '','' (map (\<lambda>(k, v). quote_string k @ '':'' @ json_print v) xs) @ ''}'' @ t) = Some (xs, t)"
  using assms
proof (induction xs arbitrary: n)
  case Nil
  then show ?case by simp
next
  case (Cons kx xs)
  obtain k x where kx: "kx = (k, x)" by (cases kx)
  obtain m where n: "n = Suc m" using Cons.prems(3) by (cases n) auto
  have m: "fuel x \<le> m" "sum_list (map (\<lambda>kv. Suc (fuel (snd kv))) xs) \<le> m"
    using Cons.prems(3) n kx by auto
  have v: "parse_value m d (json_print x @ u) = Some (x, u)" if "stops u" for u
    using Cons.prems(1) m(1) that kx by (simp add: reads_def)
  have w: "skip_ws (json_print x @ u) = json_print x @ u" for u
    using skip_ws_print Cons.prems(1) kx by simp
  have q: "unquote (concat (map escape_rune (chunks k)) @ quote_char # u) = Some (k, u)" for u
    using unquote_quote Cons.prems(1) kx by simp
  show ?case
  proof (cases xs)
    case Nil
    with v w q show ?thesis by (simp add: n kx quote_string_def)
  next
    case (Cons y ys)
    let ?rest = "join_with '','' (map (\<lambda>(k, v). quote_string k @ '':'' @ json_print v) xs) @ ''}'' @ t"
    have "skip_ws ?rest = ?rest"
      using Cons by (cases y; cases ys) (auto simp: quote_string_def)
    moreover have "parse_members m d ?rest = Some (xs, t)"
      using Cons.IH [of m] Cons.prems(1) m(2) Cons by simp
    ultimately show ?thesis using v w q Cons by (simp add: n kx quote_string_def)
  qed
qed

lemma depth_elements: "foldr (max \<circ> depth) xs 0 \<le> d \<longleftrightarrow> (\<forall>x \<in> set xs. depth x \<le> d)"
  by (induction xs) auto

lemma depth_members: "foldr (max \<circ> depth \<circ> snd) kvs 0 \<le> d \<longleftrightarrow> (\<forall>kv \<in> set kvs. depth (snd kv) \<le> d)"
  by (induction kvs) auto

lemma number_head:
  assumes "int_literal s"
  shows "\<exists>c cs. s = c # cs \<and> c \<noteq> quote_char \<and> c \<noteq> CHR ''['' \<and> c \<noteq> CHR ''{''
    \<and> c \<noteq> CHR ''n'' \<and> c \<noteq> CHR ''t'' \<and> c \<noteq> CHR ''f''"
proof -
  from int_literal_head [OF assms] obtain c cs where c: "s = c # cs" "is_digit c \<or> c = CHR ''-''" by blast
  from c(2) have "c \<noteq> quote_char \<and> c \<noteq> CHR ''['' \<and> c \<noteq> CHR ''{'' \<and> c \<noteq> CHR ''n'' \<and> c \<noteq> CHR ''t'' \<and> c \<noteq> CHR ''f''"
    using digit_head [of c] by (auto simp: quote_char_def)
  with c(1) show ?thesis by simp
qed

lemma reads_number:
  assumes "int_literal s"
  shows "reads 1 d (JNum s)"
  unfolding reads_def
proof (intro allI impI)
  fix m :: nat and t assume m: "1 \<le> m" and t: "stops t"
  obtain k where k: "m = Suc k" using m by (cases m) auto
  obtain c cs where c: "s = c # cs" "c \<noteq> quote_char" "c \<noteq> CHR ''[''" "c \<noteq> CHR ''{''"
    "c \<noteq> CHR ''n''" "c \<noteq> CHR ''t''" "c \<noteq> CHR ''f''"
    using number_head [OF assms] by blast
  have "scan_literal (s @ t) = Some (JNum s, t)"
    using int_literal_scan [OF assms t] c by (simp add: scan_literal_def has_prefix_def)
  with c show "parse_value m d (json_print (JNum s) @ t) = Some (JNum s, t)" by (simp add: k)
qed

lemma parse_print: "clean j \<Longrightarrow> depth j \<le> d \<Longrightarrow> reads (fuel j) d j"
proof (induction j arbitrary: d)
  case (JNum s)
  then show ?case using reads_number by simp
next
  case (JStr s)
  show ?case
    unfolding reads_def
  proof (intro allI impI)
    fix m :: nat and t assume "fuel (JStr s) \<le> m"
    then obtain k where "m = Suc k" by (cases m) auto
    with JStr unquote_quote [of s t] show "parse_value m d (json_print (JStr s) @ t) = Some (JStr s, t)"
      by (simp add: quote_string_def)
  qed
next
  case (JArr xs)
  show ?case
    unfolding reads_def
  proof (intro allI impI)
    fix m :: nat and t assume m: "fuel (JArr xs) \<le> m"
    then obtain k where k: "m = Suc k" by (cases m) auto
    have d: "d \<noteq> 0" "\<forall>x \<in> set xs. depth x \<le> d - 1"
      using JArr.prems(2) depth_elements [of xs "d - 1"] by (cases d; simp)+
    show "parse_value m d (json_print (JArr xs) @ t) = Some (JArr xs, t)"
    proof (cases "xs = []")
      case True
      with d show ?thesis by (simp add: k quote_char_def)
    next
      case False
      then obtain y ys where xs: "xs = y # ys" by (cases xs) auto
      let ?body = "join_with '','' (map json_print xs) @ '']'' @ t"
      obtain c cs where c: "json_print y = c # cs" "\<not> is_ws c" "c \<noteq> CHR '']''"
        using print_head [of y] JArr.prems(1) xs by auto
      have b: "\<exists>r. ?body = c # r" using c xs by (cases ys) auto
      then have w: "skip_ws ?body = ?body" "hd ?body \<noteq> CHR '']''" "?body \<noteq> []"
        using c by auto
      have "parse_elements k (d - 1) ?body = Some (xs, t)"
        using JArr.IH JArr.prems(1) d(2) m k False
        by (intro parse_elements_print) (auto simp: list_all_iff)
      with w d(1) show ?thesis by (simp add: k quote_char_def)
    qed
  qed
next
  case (JObj kvs)
  show ?case
    unfolding reads_def
  proof (intro allI impI)
    fix m :: nat and t assume m: "fuel (JObj kvs) \<le> m"
    then obtain k where k: "m = Suc k" by (cases m) auto
    have d: "d \<noteq> 0" "\<forall>kv \<in> set kvs. depth (snd kv) \<le> d - 1"
      using JObj.prems(2) depth_members [of kvs "d - 1"] by (cases d; simp)+
    show "parse_value m d (json_print (JObj kvs) @ t) = Some (JObj kvs, t)"
    proof (cases "kvs = []")
      case True
      with d show ?thesis by (simp add: k quote_char_def)
    next
      case False
      then obtain y ys where xs: "kvs = y # ys" by (cases kvs) auto
      let ?body = "join_with '','' (map (\<lambda>(k, v). quote_string k @ '':'' @ json_print v) kvs) @ ''}'' @ t"
      have b: "\<exists>r. ?body = quote_char # r"
        using xs by (cases y; cases ys) (auto simp: quote_string_def)
      then have w: "skip_ws ?body = ?body" "hd ?body \<noteq> CHR ''}''" "?body \<noteq> []"
        by (auto simp: quote_char_def [of]) (simp_all add: quote_char_def is_ws_def byte_of_def)
      have "parse_members k (d - 1) ?body = Some (kvs, t)"
        using JObj.IH JObj.prems(1) d(2) m k False
        by (intro parse_members_print) (fastforce simp: list_all_iff)+
      with w d(1) show ?thesis by (simp add: k quote_char_def)
    qed
  qed
qed (auto simp: reads_def scan_literal_def has_prefix_def quote_char_def Suc_le_eq gr0_conv_Suc)

lemma fuel_length: "clean j \<Longrightarrow> fuel j \<le> 2 * length (json_print j)"
proof (induction j)
  case (JNum s)
  then show ?case using int_literal_head by (cases s) auto
next
  case (JArr xs)
  have "sum_list (map (\<lambda>x. Suc (fuel x)) ys) \<le> 2 * length (join_with '','' (map json_print ys)) + 2"
    if "set ys \<subseteq> set xs" for ys
    using that
  proof (induction ys)
    case (Cons y ys)
    then have "fuel y \<le> 2 * length (json_print y)" using JArr by (auto simp: list_all_iff)
    with Cons show ?case by (cases ys) auto
  qed simp
  from this [of xs] show ?case by simp
next
  case (JObj kvs)
  let ?f = "\<lambda>(k, v). quote_string k @ '':'' @ json_print v"
  have "sum_list (map (\<lambda>kv. Suc (fuel (snd kv))) ys) \<le> 2 * length (join_with '','' (map ?f ys)) + 2"
    if "set ys \<subseteq> set kvs" for ys
    using that
  proof (induction ys)
    case (Cons y ys)
    obtain k v where y: "y = (k, v)" by (cases y)
    with Cons have "fuel v \<le> 2 * length (json_print v)" using JObj by (fastforce simp: list_all_iff)
    with Cons y show ?case by (cases ys) auto
  qed simp
  from this [of kvs] show ?case by simp
qed (simp_all add: quote_string_def)

theorem json_roundtrip:
  assumes "clean j" and "depth j \<le> max_nesting"
  shows "json_parse (json_marshal j) = Some j"
proof -
  have "fuel j \<le> 2 * length (json_print j) + 2" using fuel_length [OF assms(1)] by simp
  then have "parse_value (2 * length (json_print j) + 2) max_nesting (json_print j @ []) = Some (j, [])"
    using parse_print [OF assms] stops_punctuation(4) unfolding reads_def by blast
  with skip_ws_print [OF assms(1), of "[]"] show ?thesis
    by (simp add: json_parse_def json_marshal_def skip_ws_def)
qed

end
