(* ===== verification/Snapshot_Roundtrip.thy ===== *)
theory Snapshot_Roundtrip
  imports Snapshot_Codec Json_Roundtrip
begin

text \<open>
  A valid state, written as a revision snapshot and read back, is its canonical form.
\<close>

section \<open>Literals\<close>

lemma ascii_valid_utf8: "ascii s \<Longrightarrow> valid_utf8 s"
  by (fastforce simp: valid_utf8_def chunks_ascii list_all_iff ascii_def rune_error_def)

lemma digits_of_step:
  "digits_of n = (if n < 10 then [char_of (48 + n)] else digits_of (n div 10) @ [char_of (48 + n mod 10)])"
  by (subst digits_of.simps) (rule refl)

lemma digit_char_of: "k < 10 \<Longrightarrow> digit_char (char_of (48 + k)) \<and> byte_of (char_of (48 + k :: nat)) - 48 = k"
  by (simp add: digit_char_def byte_of_le byte_of_def)

lemma digits_of_digits: "list_all digit_char (digits_of n) \<and> digits_of n \<noteq> []"
proof (induction n rule: digits_of.induct)
  case (1 n)
  then show ?case using digit_char_of [of n] digit_char_of [of "n mod 10"]
    by (subst digits_of_step) (auto simp: digits_of_step [of n])
qed

lemma number_of_digits_of: "number_of (digits_of n) = int n"
proof (induction n rule: digits_of.induct)
  case (1 n)
  show ?case
  proof (cases "n < 10")
    case True
    then show ?thesis using digit_char_of [of n] by (simp add: digits_of_step [of n] number_of_def)
  next
    case False
    with 1 digit_char_of [of "n mod 10"] show ?thesis
      by (subst digits_of_step) (simp add: number_of_append zdiv_int zmod_int)
  qed
qed

lemma digits_of_head: "0 < n \<Longrightarrow> hd (digits_of n) \<noteq> CHR ''0''"
proof (induction n rule: digits_of.induct)
  case (1 n)
  show ?case
  proof (cases "n < 10")
    case True
    with 1(2) have "byte_of (char_of (48 + n)) \<noteq> byte_of (CHR ''0'')" by (simp add: byte_of_def)
    with True show ?thesis by (subst digits_of_step) auto
  next
    case False
    with 1(1) digits_of_digits [of "n div 10"] show ?thesis by (subst digits_of_step) simp
  qed
qed

lemma digit_char_is_digit: "digit_char = is_digit"
  by (simp add: fun_eq_iff digit_char_def is_digit_def)

lemma scan_integer_digits_of: "scan_integer (digits_of n) = Some (digits_of n, [])"
proof (cases "n = 0")
  case True
  have "(char_of (48 :: nat) :: char) = CHR ''0''" by (simp add: char_of_eq_byte str_eval)
  with True show ?thesis by (simp add: digits_of_step [of 0] scan_integer_def)
next
  case False
  obtain c cs where c: "digits_of n = c # cs" using digits_of_digits [of n] by (cases "digits_of n") auto
  have "c \<noteq> CHR ''0''" using digits_of_head [of n] False c by simp
  moreover have "scan_digits (digits_of n) = Some (digits_of n, [])"
  proof -
    have a: "\<forall>c \<in> set (digits_of n). is_digit c"
      using digits_of_digits [of n] by (simp add: digit_char_is_digit list_all_iff)
    then have t: "takeWhile is_digit (digits_of n) = digits_of n" "dropWhile is_digit (digits_of n) = []"
      by (simp_all add: takeWhile_eq_all_conv)
    show ?thesis unfolding scan_digits_def Let_def t using digits_of_digits [of n] by simp
  qed
  ultimately show ?thesis by (simp add: scan_integer_def c)
qed

lemma show_int_literal: "int_literal (show_int i)"
proof -
  have "scan_number (show_int i) = Some (show_int i, [])"
  proof (cases "i < 0")
    case True
    then show ?thesis
      by (simp add: show_int_def scan_number_def scan_integer_digits_of scan_fraction_def scan_exponent_def)
  next
    case False
    obtain c cs where c: "digits_of (nat i) = c # cs"
      using digits_of_digits [of "nat i"] by (cases "digits_of (nat i)") auto
    then have "digit_char c" using digits_of_digits [of "nat i"] by simp
    then have "c \<noteq> CHR ''-''" by (auto simp: digit_char_def byte_of_le str_eval)
    with False c scan_integer_digits_of [of "nat i"] show ?thesis
      by (simp add: show_int_def scan_number_def scan_fraction_def scan_exponent_def)
  qed
  moreover have "list_all (\<lambda>c. is_digit c \<or> c = CHR ''-'') (show_int i)"
    using digits_of_digits by (auto simp: show_int_def list_all_iff digit_char_is_digit)
  moreover have "show_int i \<noteq> []" using digits_of_digits by (auto simp: show_int_def)
  ultimately show ?thesis by (simp add: int_literal_def)
qed

lemma int_of_show: "- (2 ^ 63) \<le> i \<Longrightarrow> i < 2 ^ 63 \<Longrightarrow> int_of_literal (show_int i) = Some i"
proof (cases "i < 0")
  case True
  assume "- (2 ^ 63) \<le> i" "i < 2 ^ 63"
  with True digits_of_digits [of "nat (- i)"] show ?thesis
    by (simp add: int_of_literal_def show_int_def number_of_digits_of)
next
  case False
  assume b: "- (2 ^ 63) \<le> i" "i < 2 ^ 63"
  obtain c cs where c: "digits_of (nat i) = c # cs"
    using digits_of_digits [of "nat i"] by (cases "digits_of (nat i)") auto
  then have "digit_char c" using digits_of_digits [of "nat i"] by simp
  then have "c \<noteq> CHR ''-''" by (auto simp: digit_char_def byte_of_le str_eval)
  with False b c digits_of_digits [of "nat i"] number_of_digits_of [of "nat i"] show ?thesis
    by (simp add: int_of_literal_def show_int_def)
qed

text \<open>The text of a timestamp has no spaces.\<close>

lemma timestamp_text_plain:
  assumes "storable t" shows "\<forall>c \<in> set (Timestamp_String t). 33 \<le> byte_of c \<and> byte_of c < 127"
proof -
  obtain y m d where c: "civil (instant t div 1000000000 div 86400) = (y, m, d)" by (metis prod_cases3)
  have days: "0 \<le> instant t div 1000000000 div 86400" "instant t div 1000000000 div 86400 < 3652059"
    using assms by (auto simp: storable_def)
  note cy = civil_year [OF c days]
  have digits: "33 \<le> byte_of c \<and> byte_of c < 127" if "digit_char c" for c
    using that by (simp add: digit_char_def byte_of_le str_eval)
  have f: "\<forall>c \<in> set (digits_fixed k n). 33 \<le> byte_of c \<and> byte_of c < 127" for k n
    using digits_fixed_digits [of k n] digits by (auto simp: list_all_iff)
  have fr: "\<forall>c \<in> set (format_fraction n). 33 \<le> byte_of c \<and> byte_of c < 127" for n
    using f [of 9 n] by (auto simp: format_fraction_def str_eval dest: set_dropWhileD)
  show ?thesis
    using assms c cy f fr
    by (auto simp: Timestamp_String_def storable_def IsZero_def Let_def format_year_def format_clock_def str_eval)
qed

lemma timestamp_text_utf8: "storable t \<Longrightarrow> valid_utf8 (Timestamp_String t)"
  using timestamp_text_plain [of t] by (intro ascii_valid_utf8) (auto simp: ascii_def list_all_iff)

lemma decode_time_json: "storable t \<Longrightarrow> decode_time (time_json t) = Some t"
  by (simp add: time_json_def timestamp_roundtrip)

section \<open>States that have a text\<close>

text \<open>Every string is UTF-8 and every time is one of the years 1 to 9999; the state the management API
  builds has both.\<close>

definition user_text :: "user \<Rightarrow> bool" where
  "user_text u \<longleftrightarrow> valid_utf8 (user_ID u) \<and> valid_utf8 (Username u) \<and> valid_utf8 (UsernameNormalized u)
     \<and> valid_utf8 (PasswordHash u) \<and> storable (user_CreatedAt u) \<and> storable (user_UpdatedAt u)"

definition share_text :: "share \<Rightarrow> bool" where
  "share_text s \<longleftrightarrow> valid_utf8 (share_ID s) \<and> valid_utf8 (share_Name s) \<and> valid_utf8 (Slug s)
     \<and> valid_utf8 (Path s) \<and> storable (share_CreatedAt s) \<and> storable (share_UpdatedAt s)"

definition permission_text :: "share_permission \<Rightarrow> bool" where
  "permission_text p \<longleftrightarrow> valid_utf8 (perm_ShareID p) \<and> valid_utf8 (perm_UserID p) \<and> valid_utf8 (Permission p)
     \<and> storable (perm_CreatedAt p) \<and> storable (perm_UpdatedAt p)"

definition settings_text :: "server_settings \<Rightarrow> bool" where
  "settings_text s \<longleftrightarrow> valid_utf8 (settings_ID s) \<and> valid_utf8 (PublicBasePath s) \<and> valid_utf8 (RuntimeMode s)
     \<and> storable (settings_CreatedAt s) \<and> storable (settings_UpdatedAt s)"

definition tls_text :: "tls_profile \<Rightarrow> bool" where
  "tls_text p \<longleftrightarrow> valid_utf8 (tls_ID p) \<and> valid_utf8 (Mode p) \<and> valid_utf8 (Hostname p)
     \<and> valid_utf8 (Challenge p) \<and> (\<forall>i. DNSProviderID p = Some i \<longrightarrow> valid_utf8 i)
     \<and> valid_utf8 (CertificatePath p) \<and> valid_utf8 (PrivateKeyPath p)
     \<and> storable (tls_CreatedAt p) \<and> storable (tls_UpdatedAt p)"

definition dns_text :: "dns_credential \<Rightarrow> bool" where
  "dns_text d \<longleftrightarrow> valid_utf8 (dns_ID d) \<and> valid_utf8 (dns_Name d) \<and> valid_utf8 (Provider d)
     \<and> (\<forall>z \<in> set (AllowedZones d). valid_utf8 z) \<and> storable (dns_CreatedAt d) \<and> storable (dns_UpdatedAt d)"

definition has_text :: "runtime_input \<Rightarrow> bool" where
  "has_text i \<longleftrightarrow> settings_text (ServerSettings i) \<and> (\<forall>p. TLSProfile i = Some p \<longrightarrow> tls_text p)
     \<and> (\<forall>d \<in> set (DNSProviderCredentials i). dns_text d) \<and> (\<forall>u \<in> set (Users i). user_text u)
     \<and> (\<forall>s \<in> set (Shares i). share_text (Share s) \<and> (\<forall>p \<in> set (Permissions s). permission_text p))"

lemmas text_defs = user_text_def share_text_def permission_text_def settings_text_def tls_text_def dns_text_def

section \<open>Decoding what was encoded\<close>

lemma field_of_in [simp]: "k \<in> set names \<Longrightarrow> field_of names k = Some k"
  by (simp add: field_of_def)

lemma decode_user_json: "user_text u \<Longrightarrow> decode_user (user_json u) = Some u"
  by (simp add: decode_user_def user_json_def decode_struct_def user_fields_def assign_user_def text_defs
      decode_time_json zero_user_def)

lemma decode_permission_json: "permission_text p \<Longrightarrow> decode_permission (permission_json p) = Some p"
  by (simp add: decode_permission_def permission_json_def decode_struct_def permission_fields_def
      assign_permission_def text_defs decode_time_json zero_permission_def)

lemma decode_share_json:
  "share_text s \<Longrightarrow> decode_struct share_fields assign_share (share_json s) zero_share = Some s"
  by (simp add: share_json_def decode_struct_def share_fields_def assign_share_def text_defs
      decode_time_json zero_share_def)

lemma decode_settings_json:
  "settings_text s \<Longrightarrow> validPort (HTTPPort s) \<Longrightarrow> validPort (HTTPSPort s) \<Longrightarrow>
     decode_settings (settings_json s) zero_settings = Some s"
  by (simp add: decode_settings_def settings_json_def decode_struct_def settings_fields_def assign_settings_def
      text_defs decode_time_json zero_settings_def int_of_show validPort_def)

lemma decode_tls_json: "tls_text p \<Longrightarrow> decode_tls (tls_json p) zero_tls = Some p"
  by (cases "Challenge p = []"; cases "DNSProviderID p"; cases "CertificatePath p = []"; cases "PrivateKeyPath p = []")
     (simp_all add: decode_tls_def tls_json_def decode_struct_def tls_fields_def assign_tls_def text_defs
      decode_time_json zero_tls_def omit_empty_str_def omit_none_def)

lemma decode_list_map:
  "(\<And>x. x \<in> set xs \<Longrightarrow> f (g x) = Some x) \<Longrightarrow> decode_list f (JArr (map g xs)) old = Some xs"
  by (simp add: list_all_iff map_idI)

lemma decode_dns_json: "dns_text d \<Longrightarrow> decode_dns (dns_json d) = Some d"
proof -
  assume t: "dns_text d"
  have z: "decode_list (\<lambda>j. decode_string j []) (JArr (map JStr zs)) old = Some zs" for zs old
    by (rule decode_list_map) simp
  show ?thesis
    using t by (cases "AllowedZones d = []")
      (simp_all add: decode_dns_def dns_json_def decode_struct_def dns_fields_def assign_dns_def text_defs
        decode_time_json zero_dns_def omit_empty_list_def z del: decode_list.simps)
qed

lemma decode_entry_json:
  "share_text (Share s) \<Longrightarrow> (\<forall>p \<in> set (Permissions s). permission_text p) \<Longrightarrow>
     decode_entry (share_entry_json s) = Some s"
proof -
  assume t: "share_text (Share s)" "\<forall>p \<in> set (Permissions s). permission_text p"
  have "decode_list decode_permission (JArr (map permission_json (Permissions s))) old = Some (Permissions s)" for old
    using t(2) by (intro decode_list_map) (simp add: decode_permission_json)
  with t(1) show ?thesis
    by (cases "Permissions s = []")
       (simp_all add: decode_entry_def share_entry_json_def decode_struct_def assign_entry_def
         decode_share_json [unfolded decode_struct_def] decode_share_json del: decode_list.simps(1))
qed

section \<open>The text of a snapshot\<close>

lemma key_utf8 [simp]:
  "valid_utf8 ''ID''" "valid_utf8 ''PublicBasePath''" "valid_utf8 ''HTTPPort''" "valid_utf8 ''HTTPSPort''"
  "valid_utf8 ''RuntimeMode''" "valid_utf8 ''CreatedAt''" "valid_utf8 ''UpdatedAt''" "valid_utf8 ''id''"
  "valid_utf8 ''mode''" "valid_utf8 ''hostname''" "valid_utf8 ''challenge''" "valid_utf8 ''dns_provider_id''"
  "valid_utf8 ''certificate_path''" "valid_utf8 ''private_key_path''" "valid_utf8 ''created_at''"
  "valid_utf8 ''updated_at''" "valid_utf8 ''name''" "valid_utf8 ''provider''" "valid_utf8 ''allowed_zones''"
  "valid_utf8 ''username''" "valid_utf8 ''username_normalized''" "valid_utf8 ''password_hash''"
  "valid_utf8 ''enabled''" "valid_utf8 ''Name''" "valid_utf8 ''Slug''" "valid_utf8 ''Path''"
  "valid_utf8 ''Enabled''" "valid_utf8 ''ShareID''" "valid_utf8 ''UserID''" "valid_utf8 ''Permission''"
  "valid_utf8 ''share''" "valid_utf8 ''permissions''" "valid_utf8 ''version''" "valid_utf8 ''server_settings''"
  "valid_utf8 ''tls_profile''" "valid_utf8 ''dns_providers''" "valid_utf8 ''users''" "valid_utf8 ''shares''"
  by (simp_all add: ascii_valid_utf8 ascii_def byte_of_def)

lemma clean_parts:
  "user_text u \<Longrightarrow> clean (user_json u)" "share_text s \<Longrightarrow> clean (share_json s)"
  "permission_text p \<Longrightarrow> clean (permission_json p)" "settings_text t \<Longrightarrow> clean (settings_json t)"
  "dns_text d \<Longrightarrow> clean (dns_json d)"
  by (simp_all add: user_json_def share_json_def permission_json_def settings_json_def dns_json_def text_defs
      time_json_def timestamp_text_utf8 show_int_literal omit_empty_list_def list_all_iff)

lemma clean_tls: "tls_text p \<Longrightarrow> clean (tls_json p)"
  by (simp add: tls_json_def text_defs time_json_def timestamp_text_utf8 omit_empty_str_def omit_none_def
      split: option.split)

lemma depth_parts:
  "depth (user_json u) = 1" "depth (share_json s) = 1" "depth (permission_json p) = 1"
  "depth (settings_json t) = 1" "depth (tls_json q) = 1" "depth (dns_json d) \<le> 2"
proof -
  have z: "foldr (max \<circ> (depth \<circ> JStr)) zs 0 = 0" for zs by (induction zs) simp_all
  show "depth (dns_json d) \<le> 2"
    by (simp add: dns_json_def time_json_def omit_empty_list_def foldr_map z comp_assoc)
qed (simp_all add: user_json_def share_json_def permission_json_def settings_json_def tls_json_def
      time_json_def omit_empty_str_def omit_none_def split: option.split)

lemma depth_list:
  "(\<And>x. x \<in> set xs \<Longrightarrow> depth (f x) \<le> d) \<Longrightarrow> depth (JArr (map f xs)) \<le> Suc d"
  using depth_elements [of "map f xs" d] by simp

lemma depth_entry: "depth (share_entry_json s) \<le> 3"
  using depth_list [of "Permissions s" permission_json 1] depth_parts(3)
  by (simp add: share_entry_json_def depth_parts del: depth.simps(1))

lemma depth_snapshot: "depth (snapshot_json s) \<le> 5"
  using depth_list [of "snap_DNSProviders s" dns_json 2] depth_list [of "snap_Users s" user_json 1]
    depth_list [of "snap_Shares s" share_entry_json 3] depth_parts depth_entry
  by (simp add: snapshot_json_def omit_none_def omit_empty_list_def depth_parts del: depth.simps(1)
      split: option.split)

definition snapshot_text :: "config_snapshot \<Rightarrow> bool" where
  "snapshot_text s \<longleftrightarrow> settings_text (snap_ServerSettings s) \<and> (\<forall>p. snap_TLSProfile s = Some p \<longrightarrow> tls_text p)
     \<and> (\<forall>d \<in> set (snap_DNSProviders s). dns_text d) \<and> (\<forall>u \<in> set (snap_Users s). user_text u)
     \<and> (\<forall>e \<in> set (snap_Shares s). share_text (Share e) \<and> (\<forall>p \<in> set (Permissions e). permission_text p))"

lemma clean_entry:
  "share_text (Share e) \<Longrightarrow> (\<forall>p \<in> set (Permissions e). permission_text p) \<Longrightarrow> clean (share_entry_json e)"
  by (simp add: share_entry_json_def clean_parts list_all_iff)

lemma clean_snapshot: "snapshot_text s \<Longrightarrow> clean (snapshot_json s)"
  by (auto simp: snapshot_json_def snapshot_text_def clean_parts clean_tls clean_entry show_int_literal
      omit_none_def omit_empty_list_def list_all_iff split: option.split)

lemma decode_snapshot_json:
  assumes "snapshot_text s" and "snap_Version s = ConfigRevisionSnapshotVersion"
    and "validPort (HTTPPort (snap_ServerSettings s))" and "validPort (HTTPSPort (snap_ServerSettings s))"
  shows "decode_snapshot (snapshot_json s) = Some s"
proof -
  note t = assms(1) [unfolded snapshot_text_def]
  have l: "decode_list decode_dns (JArr (map dns_json (snap_DNSProviders s))) old = Some (snap_DNSProviders s)"
    "decode_list decode_user (JArr (map user_json (snap_Users s))) old' = Some (snap_Users s)"
    "decode_list decode_entry (JArr (map share_entry_json (snap_Shares s))) old'' = Some (snap_Shares s)"
    for old old' old''
    using t by (auto intro!: decode_list_map simp: decode_dns_json decode_user_json decode_entry_json
        simp del: decode_list.simps)
  have v: "int_of_literal (show_int 1) = Some 1" by (rule int_of_show) simp_all
  have p: "decode_pointer decode_tls zero_tls (tls_json q) None = Some (Some q)" if "snap_TLSProfile s = Some q" for q
    using t that decode_tls_json [of q] by (simp add: tls_json_def)
  show ?thesis
    using t assms(2-4) l v p
    by (cases "snap_TLSProfile s"; cases "snap_DNSProviders s = []")
       (simp_all add: decode_snapshot_def snapshot_json_def decode_struct_def snapshot_fields_def assign_snapshot_def
         zero_snapshot_def decode_settings_json omit_none_def omit_empty_list_def ConfigRevisionSnapshotVersion_def
         del: decode_list.simps decode_pointer.simps)
qed

lemma has_text_snapshot: "has_text i \<Longrightarrow> snapshot_text (NewConfigRevisionSnapshot i)"
  by (auto simp: has_text_def snapshot_text_def NewConfigRevisionSnapshot_def sort_zones_def dns_text_def)

lemma snapshot_roundtrip:
  assumes "well_formed_input i" and "has_text i"
  shows "MarshalConfigRevisionSnapshot i = Inr (json_marshal (snapshot_json (NewConfigRevisionSnapshot i)))"
    and "ParseConfigRevisionSnapshot (json_marshal (snapshot_json (NewConfigRevisionSnapshot i)))
      = Inr (Snapshot_RuntimeConfigInput (NewConfigRevisionSnapshot i))"
proof -
  let ?s = "NewConfigRevisionSnapshot i"
  have v: "Snapshot_Validate ?s = None" using assms(1) Snapshot_Validate_New by simp
  show "MarshalConfigRevisionSnapshot i = Inr (json_marshal (snapshot_json ?s))"
    using v by (simp add: MarshalConfigRevisionSnapshot_def Let_def)
  have st: "snapshot_text ?s" using has_text_snapshot [OF assms(2)] .
  have ports: "validPort (HTTPPort (snap_ServerSettings ?s))" "validPort (HTTPSPort (snap_ServerSettings ?s))"
    using assms(1) by (simp_all add: well_formed_input_def NewConfigRevisionSnapshot_def ServerSettings_Validate_def)
  have "json_parse (json_marshal (snapshot_json ?s)) = Some (snapshot_json ?s)"
    using clean_snapshot [OF st] depth_snapshot [of ?s] by (intro json_roundtrip) (simp_all add: max_nesting_def)
  moreover have "decode_snapshot (snapshot_json ?s) = Some ?s"
    using st ports by (intro decode_snapshot_json) (simp_all add: NewConfigRevisionSnapshot_def)
  moreover have "json_marshal (snapshot_json ?s) \<noteq> []" by (simp add: json_marshal_def snapshot_json_def)
  ultimately show "ParseConfigRevisionSnapshot (json_marshal (snapshot_json ?s))
      = Inr (Snapshot_RuntimeConfigInput ?s)"
    using v by (simp add: ParseConfigRevisionSnapshot_def)
qed

end
