(* ===== verification/Snapshot_Restore.thy ===== *)
theory Snapshot_Restore
  imports Pending_Changes Snapshot_Roundtrip
begin

text \<open>
  What \<open>RestoreState\<close> leaves in the tables, what \<open>Snapshot\<close> reads from them, and that restoring a
  revision with a complete snapshot succeeds.
\<close>

section \<open>Reading back what was stored\<close>

lemma scan_rows_map:
  "(\<And>x. x \<in> set xs \<Longrightarrow> scan x = Inr (f x)) \<Longrightarrow> scan_rows scan xs = Inr (map f xs)"
  by (induction xs) auto

lemma scan_rows_id: "(\<And>x. x \<in> set xs \<Longrightarrow> scan x = Inr x) \<Longrightarrow> scan_rows scan xs = Inr xs"
  using scan_rows_map [of xs scan id] by simp

lemma scan_rows_comp: "scan_rows scan (map g xs) = scan_rows (scan \<circ> g) xs"
  by (induction xs) (simp_all split: sum.splits)

lemma sort_key_map:
  assumes "\<And>x. k (g x) = k' x"
  shows "sort_key k (map g xs) = map g (sort_key k' xs)"
proof -
  have "insort_key k (g x) (map g ys) = map g (insort_key k' x ys)" for x ys
    by (induction ys) (simp_all add: assms)
  then show ?thesis by (induction xs) simp_all
qed

lemma scan_time_storable: "storable t \<Longrightarrow> scan_time t = Inr t"
  by (simp add: scan_time_def timestamp_roundtrip)

lemma validateID_field: "validateID f i = None \<longleftrightarrow> validateID g i = None"
  by (simp add: validateID_def)

lemma ParseID_ok: "validateID f i = None \<Longrightarrow> ParseID i = Inr i"
  using validateID_field [of f i "''id''"] by (simp add: ParseID_def)

lemma scan_header_ok:
  "validateID f i = None \<Longrightarrow> storable c \<Longrightarrow> storable u \<Longrightarrow> scan_header i c u = Inr (c, u)"
  by (simp add: scan_header_def ParseID_ok scan_time_storable)

lemma scanUser_ok: "User_Validate u = None \<Longrightarrow> user_text u \<Longrightarrow> scanUser u = Inr u"
  using scan_header_ok [of "''id''" "user_ID u"]
  by (simp add: scanUser_def User_Validate_def user_text_def)

lemma scanShare_ok: "Share_Validate s = None \<Longrightarrow> share_text s \<Longrightarrow> scanShare s = Inr s"
  using scan_header_ok [of "''id''" "share_ID s"]
  by (simp add: scanShare_def Share_Validate_def share_text_def)

lemma scanPermission_ok:
  "SharePermission_Validate p = None \<Longrightarrow> permission_text p \<Longrightarrow> scanPermission p = Inr p"
  using scan_header_ok [of "''user_id''" "perm_UserID p"] ParseID_ok [of "''share_id''" "perm_ShareID p"]
  by (simp add: scanPermission_def SharePermission_Validate_def permission_text_def validated_def)

lemma scanSettings_ok:
  "ServerSettings_Validate s = None \<Longrightarrow> settings_text s \<Longrightarrow> scanSettings s = Inr s"
  using scan_header_ok [of "''id''" "settings_ID s"]
  by (simp add: scanSettings_def ServerSettings_Validate_def settings_text_def validated_def)

lemma scanTLSProfile_ok:
  assumes "TLSProfile_Validate p = None" and "tls_text p"
  shows "scanTLSProfile (default_challenge p) = Inr (default_challenge p)"
proof -
  let ?q = "default_challenge p"
  have h: "scan_header (tls_ID ?q) (tls_CreatedAt ?q) (tls_UpdatedAt ?q) = Inr (tls_CreatedAt p, tls_UpdatedAt p)"
    using assms scan_header_ok [of "''id''" "tls_ID p"]
    by (simp add: TLSProfile_Validate_None_iff tls_text_def default_challenge_def)
  have ref: "(case DNSProviderID ?q of None \<Rightarrow> None | Some i \<Rightarrow> validateID ''id'' i) = None"
    using assms(1) validateID_field [of "''id''" _ "''dns_provider_id''"]
    by (auto simp: TLSProfile_Validate_None_iff default_challenge_def split: option.splits)
  have same: "?q\<lparr>Challenge := if Challenge ?q = [] then TLSChallengeAuto else Challenge ?q,
      tls_CreatedAt := tls_CreatedAt p, tls_UpdatedAt := tls_UpdatedAt p\<rparr> = ?q"
    by (cases p) (simp add: default_challenge_def TLSChallengeAuto_def)
  have v: "TLSProfile_Validate ?q = None"
  proof (cases "Challenge p = []")
    case True
    with assms(1) show ?thesis
      by (simp add: TLSProfile_Validate_None_iff default_challenge_def effective_challenge_def
          TLSChallengeAuto_def TLSChallengeDNS_def)
  next
    case False
    then have "?q = p" by (simp add: default_challenge_def)
    with assms(1) show ?thesis by simp
  qed
  show ?thesis
    unfolding scanTLSProfile_def h ref using v same by (simp add: validated_def)
qed

lemma zones_decoded:
  assumes "\<forall>z \<in> set zs. valid_utf8 z"
  shows "Option.bind (json_parse (zones_text zs)) (\<lambda>j. decode_list (\<lambda>z. decode_string z []) j []) = Some zs"
proof -
  have "foldr (max \<circ> depth) (map JStr zs) 0 = 0" by (induction zs) simp_all
  then have "json_parse (json_marshal (JArr (map JStr zs))) = Some (JArr (map JStr zs))"
    using assms by (intro json_roundtrip) (auto simp: list_all_iff max_nesting_def)
  moreover have "decode_list (\<lambda>z. decode_string z []) (JArr (map JStr zs)) [] = Some zs"
    by (rule decode_list_map) simp
  ultimately show ?thesis by (simp only: zones_text_def Option.bind.simps)
qed

lemma scanDNS_ok:
  assumes "DNSProviderCredential_Validate c = None" and "dns_text c"
  shows "scanDNSProviderCredential c = Inr (sort_zones c)"
proof -
  have z: "Option.bind (json_parse (zones_text (AllowedZones c))) (\<lambda>j. decode_list (\<lambda>z. decode_string z []) j [])
      = Some (AllowedZones c)"
    using assms(2) by (intro zones_decoded) (simp add: dns_text_def)
  have i: "validateID ''id'' (dns_ID c) = None" using assms(1) by (simp add: DNSProviderCredential_Validate_def)
  have h: "scan_header (dns_ID c) (dns_CreatedAt c) (dns_UpdatedAt c) = Inr (dns_CreatedAt c, dns_UpdatedAt c)"
    using assms(2) by (intro scan_header_ok [OF i]) (simp_all add: dns_text_def)
  have "DNSProviderCredential_Validate (sort_zones c) = None" using assms(1) by simp
  then show ?thesis
    unfolding scanDNSProviderCredential_def z h
    by (simp add: ParseID_ok [OF i] validated_def sort_zones_def)
qed

section \<open>The tables after a restore\<close>

lemma insert_users:
  "transaction (map insert_user us) d = Inr d' \<Longrightarrow> \<exists>b. d' = d\<lparr>t_users := t_users d @ us, db_dirty := b\<rparr>"
proof (induction us arbitrary: d)
  case Nil
  then show ?case by (auto simp: transaction_Inr intro!: exI [of _ "db_dirty d"])
next
  case (Cons u us)
  then obtain d1 where "insert_user u d = Inr d1" and rest: "transaction (map insert_user us) d1 = Inr d'"
    by (auto simp: transaction_Inr)
  then have d1: "d1 = d\<lparr>t_users := t_users d @ [u], db_dirty := True\<rparr>"
    by (auto simp: insert_user_def mark_dirty_def split: if_splits)
  from Cons.IH [OF rest] show ?case by (auto simp: d1)
qed

lemma insert_permissions:
  "transaction (map insert_permission ps) d = Inr d' \<Longrightarrow>
     \<exists>b. d' = d\<lparr>t_permissions := t_permissions d @ ps, db_dirty := b\<rparr>"
proof (induction ps arbitrary: d)
  case Nil
  then show ?case by (auto simp: transaction_Inr intro!: exI [of _ "db_dirty d"])
next
  case (Cons p ps)
  then obtain d1 where "insert_permission p d = Inr d1" and rest: "transaction (map insert_permission ps) d1 = Inr d'"
    by (auto simp: transaction_Inr)
  then have d1: "d1 = d\<lparr>t_permissions := t_permissions d @ [p], db_dirty := True\<rparr>"
    by (auto simp: insert_permission_def mark_dirty_def split: if_splits)
  from Cons.IH [OF rest] show ?case by (auto simp: d1)
qed

lemma insert_shares:
  "transaction (concat (map (\<lambda>item. insert_share (Share item) # map insert_permission (Permissions item)) items)) d
     = Inr d' \<Longrightarrow>
     \<exists>b. d' = d\<lparr>t_shares := t_shares d @ map Share items,
              t_permissions := t_permissions d @ concat (map Permissions items), db_dirty := b\<rparr>"
proof (induction items arbitrary: d)
  case Nil
  then show ?case by (auto simp: transaction_Inr intro!: exI [of _ "db_dirty d"])
next
  case (Cons item items)
  then obtain d1 d2 where "insert_share (Share item) d = Inr d1"
    and ps: "transaction (map insert_permission (Permissions item)) d1 = Inr d2"
    and rest: "transaction (concat (map (\<lambda>item. insert_share (Share item) # map insert_permission (Permissions item)) items)) d2 = Inr d'"
    by (auto simp: transaction_Inr transaction_append)
  then have d1: "d1 = d\<lparr>t_shares := t_shares d @ [Share item], db_dirty := True\<rparr>"
    by (auto simp: insert_share_def mark_dirty_def split: if_splits)
  from Cons.IH [OF rest] insert_permissions [OF ps] show ?case by (auto simp: d1)
qed

text \<open>Upserting the credentials of a snapshot: rows with other identifiers stay as they were.\<close>

lemma upsert_dns_rows:
  assumes "upsert_dns c d = Inr d'" and "distinct (map dns_ID (t_dns d))"
    and "\<And>r. r \<in> set (t_dns d) \<Longrightarrow> dns_ID r = dns_ID c \<Longrightarrow> dns_CreatedAt r = dns_CreatedAt c"
  shows "set (t_dns d') = {r \<in> set (t_dns d). dns_ID r \<noteq> dns_ID c} \<union> {c}"
    and "distinct (map dns_ID (t_dns d'))" and "\<exists>b. d' = d\<lparr>t_dns := t_dns d', db_dirty := b\<rparr>"
proof -
  let ?f = "\<lambda>r. r\<lparr>dns_Name := dns_Name c, Provider := Provider c, AllowedZones := AllowedZones c,
                 dns_UpdatedAt := dns_UpdatedAt c\<rparr>"
  let ?new = "if dns_ID c \<in> dns_ID ` set (t_dns d)
      then update_where (\<lambda>r. dns_ID r = dns_ID c) ?f (t_dns d) else t_dns d @ [c]"
  have d': "d' = mark_dirty (d\<lparr>t_dns := ?new\<rparr>)"
    using assms(1) by (auto simp: upsert_dns_def split: if_splits)
  have same: "r \<in> set (t_dns d) \<Longrightarrow> dns_ID r = dns_ID c \<Longrightarrow> ?f r = c" for r
    using assms(3) [of r] by (cases r; cases c) simp
  have "set ?new = {r \<in> set (t_dns d). dns_ID r \<noteq> dns_ID c} \<union> {c}"
  proof (cases "dns_ID c \<in> dns_ID ` set (t_dns d)")
    case True
    then show ?thesis using same by (auto simp: set_update_where)
  next
    case False
    then have "\<forall>r \<in> set (t_dns d). dns_ID r \<noteq> dns_ID c" by (metis image_eqI)
    with False show ?thesis by auto
  qed
  then show "set (t_dns d') = {r \<in> set (t_dns d). dns_ID r \<noteq> dns_ID c} \<union> {c}"
    unfolding d' by simp
  show "distinct (map dns_ID (t_dns d'))" using assms(2) by (auto simp: d')
  show "\<exists>b. d' = d\<lparr>t_dns := t_dns d', db_dirty := b\<rparr>" by (auto simp: d' mark_dirty_def)
qed

lemma upsert_dns_all:
  assumes "transaction (map upsert_dns cs) d = Inr d'" and "distinct (map dns_ID (t_dns d))"
    and "distinct (map dns_ID cs)"
    and "\<And>r c. r \<in> set (t_dns d) \<Longrightarrow> c \<in> set cs \<Longrightarrow> dns_ID r = dns_ID c \<Longrightarrow> dns_CreatedAt r = dns_CreatedAt c"
  shows "set (t_dns d') = {r \<in> set (t_dns d). dns_ID r \<notin> dns_ID ` set cs} \<union> set cs
     \<and> distinct (map dns_ID (t_dns d')) \<and> (\<exists>b. d' = d\<lparr>t_dns := t_dns d', db_dirty := b\<rparr>)"
  using assms
proof (induction cs arbitrary: d)
  case Nil
  then have "d' = d" by (simp add: transaction_Inr)
  then have "d' = d\<lparr>t_dns := t_dns d', db_dirty := db_dirty d\<rparr>" by simp
  then have "\<exists>b. d' = d\<lparr>t_dns := t_dns d', db_dirty := b\<rparr>" ..
  with Nil.prems(2) \<open>d' = d\<close> show ?case by simp
next
  case (Cons c cs)
  obtain d1 where u: "upsert_dns c d = Inr d1" and rest: "transaction (map upsert_dns cs) d1 = Inr d'"
    using Cons.prems(1) by (auto simp: transaction_Inr)
  have created: "\<And>r. r \<in> set (t_dns d) \<Longrightarrow> dns_ID r = dns_ID c \<Longrightarrow> dns_CreatedAt r = dns_CreatedAt c"
    using Cons.prems(4) by simp
  note r = upsert_dns_rows [OF u Cons.prems(2) created]
  have "set (t_dns d') = {r \<in> set (t_dns d1). dns_ID r \<notin> dns_ID ` set cs} \<union> set cs
     \<and> distinct (map dns_ID (t_dns d')) \<and> (\<exists>b. d' = d1\<lparr>t_dns := t_dns d', db_dirty := b\<rparr>)"
  proof (rule Cons.IH [OF rest r(2)])
    show "distinct (map dns_ID cs)" using Cons.prems(3) by simp
  next
    fix q c' assume "q \<in> set (t_dns d1)" and c': "c' \<in> set cs" "dns_ID q = dns_ID c'"
    then show "dns_CreatedAt q = dns_CreatedAt c'"
      using r(1) Cons.prems(3) Cons.prems(4) [of q c'] by (auto simp: image_iff)
  qed
  then obtain b where S: "set (t_dns d') = {r \<in> set (t_dns d1). dns_ID r \<notin> dns_ID ` set cs} \<union> set cs"
    and D: "distinct (map dns_ID (t_dns d'))" and E: "d' = d1\<lparr>t_dns := t_dns d', db_dirty := b\<rparr>" by blast
  obtain b1 where E1: "d1 = d\<lparr>t_dns := t_dns d1, db_dirty := b1\<rparr>" using r(3) by blast
  have "d' = d\<lparr>t_dns := t_dns d', db_dirty := b\<rparr>" by (subst E, subst E1) simp
  moreover have "dns_ID c \<notin> dns_ID ` set cs" using Cons.prems(3) by simp
  then have "set (t_dns d') = {r \<in> set (t_dns d). dns_ID r \<notin> dns_ID ` set (c # cs)} \<union> set (c # cs)"
    using r(1) unfolding S by auto
  ultimately show ?case using D by blast
qed

lemma restore_tables:
  assumes run: "transaction (restore_rows input) d = Inr d'" and ok: "schema_ok d"
    and wf: "well_formed_input input"
    and created: "\<And>r c. r \<in> set (t_dns d) \<Longrightarrow> c \<in> set (DNSProviderCredentials input) \<Longrightarrow> dns_ID r = dns_ID c
        \<Longrightarrow> dns_CreatedAt r = dns_CreatedAt c"
  shows "t_users d' = Users input" and "t_shares d' = map Share (Shares input)"
    and "t_permissions d' = concat (map Permissions (Shares input))"
    and "t_settings d' = [ServerSettings input]"
    and "t_tls d' = (case TLSProfile input of None \<Rightarrow> [] | Some p \<Rightarrow> [default_challenge p])"
    and "set (t_dns d') = {r \<in> set (t_dns d). dns_ID r \<notin> dns_ID ` set (DNSProviderCredentials input)}
        \<union> set (DNSProviderCredentials input)"
    and "distinct (map dns_ID (t_dns d'))" and "t_revisions d' = t_revisions d"
proof -
  let ?cs = "DNSProviderCredentials input"
  let ?tls = "case TLSProfile input of None \<Rightarrow> [] | Some p \<Rightarrow> [insert_tls (default_challenge p)]"
  obtain d1 d2 d3 d4 where settings: "insert_settings (ServerSettings input) (d1\<lparr>t_settings := []\<rparr>) = Inr d2"
    and empty: "t_users d1 = []" "t_shares d1 = []" "t_permissions d1 = []" "t_tls d1 = []" "t_dns d1 = t_dns d"
      "t_revisions d1 = t_revisions d"
    and us: "transaction (map insert_user (Users input)) d2 = Inr d3"
    and ss: "transaction (concat (map (\<lambda>item. insert_share (Share item) # map insert_permission (Permissions item))
      (Shares input))) d3 = Inr d4"
    and rest: "transaction (map upsert_dns ?cs @ ?tls) d4 = Inr d'"
    using run unfolding restore_rows_def
    by (auto simp: transaction_Inr transaction_append delete_permissions_def delete_shares_def
        delete_users_def delete_tls_def Let_def)
  obtain b where d2: "d2 = d1\<lparr>t_settings := [ServerSettings input]\<rparr>"
    using settings by (auto simp: insert_settings_def split: option.splits)
  obtain b3 where d3: "d3 = d2\<lparr>t_users := Users input, db_dirty := b3\<rparr>"
    using insert_users [OF us] by (auto simp: d2 empty)
  obtain b4 where d4: "d4 = d3\<lparr>t_shares := map Share (Shares input),
      t_permissions := concat (map Permissions (Shares input)), db_dirty := b4\<rparr>"
    using insert_shares [OF ss] by (auto simp: d3 d2 empty)
  obtain d5 where dns: "transaction (map upsert_dns ?cs) d4 = Inr d5" and tls: "transaction ?tls d5 = Inr d'"
    using rest by (auto simp: transaction_append)
  have t4: "t_dns d4 = t_dns d" "t_tls d4 = []" by (simp_all add: d4 d3 d2 empty)
  have "distinct (map dns_ID (t_dns d4))" "distinct (map dns_ID ?cs)"
    using ok wf by (simp_all add: t4 schema_ok_def dns_ok_def well_formed_input_def)
  from upsert_dns_all [OF dns this] created obtain b5
    where S: "set (t_dns d5) = {r \<in> set (t_dns d). dns_ID r \<notin> dns_ID ` set ?cs} \<union> set ?cs"
      and D: "distinct (map dns_ID (t_dns d5))" and E: "d5 = d4\<lparr>t_dns := t_dns d5, db_dirty := b5\<rparr>"
    unfolding t4 by blast
  have f5: "t_users d5 = Users input" "t_shares d5 = map Share (Shares input)"
    "t_permissions d5 = concat (map Permissions (Shares input))" "t_settings d5 = [ServerSettings input]"
    "t_tls d5 = []" "t_revisions d5 = t_revisions d"
    by (subst E, simp add: d4 d3 d2 empty)+
  have "t_dns d' = t_dns d5 \<and> t_users d' = t_users d5 \<and> t_shares d' = t_shares d5
      \<and> t_permissions d' = t_permissions d5 \<and> t_settings d' = t_settings d5 \<and> t_revisions d' = t_revisions d5
      \<and> t_tls d' = (case TLSProfile input of None \<Rightarrow> [] | Some p \<Rightarrow> [default_challenge p])"
    using tls by (cases "TLSProfile input")
      (auto simp: transaction_Inr insert_tls_def f5 split: option.splits if_splits)
  then show "t_users d' = Users input" and "t_shares d' = map Share (Shares input)"
    and "t_permissions d' = concat (map Permissions (Shares input))"
    and "t_settings d' = [ServerSettings input]"
    and "t_tls d' = (case TLSProfile input of None \<Rightarrow> [] | Some p \<Rightarrow> [default_challenge p])"
    and "set (t_dns d') = {r \<in> set (t_dns d). dns_ID r \<notin> dns_ID ` set ?cs} \<union> set ?cs"
    and "distinct (map dns_ID (t_dns d'))" and "t_revisions d' = t_revisions d"
    using f5 S D by auto
qed

section \<open>The snapshot after a restore\<close>

text \<open>The snapshot of a database whose tables hold a well-formed state.\<close>

definition holds_state :: "runtime_input \<Rightarrow> db \<Rightarrow> bool" where
  "holds_state input d \<longleftrightarrow> t_users d = Users input \<and> t_shares d = map Share (Shares input)
     \<and> t_permissions d = concat (map Permissions (Shares input)) \<and> t_settings d = [ServerSettings input]
     \<and> t_tls d = (case TLSProfile input of None \<Rightarrow> [] | Some p \<Rightarrow> [default_challenge p])
     \<and> set (t_dns d) = set (DNSProviderCredentials input) \<and> distinct (map dns_ID (t_dns d))"

definition stored_form :: "runtime_input \<Rightarrow> runtime_input" where
  "stored_form input = Snapshot_RuntimeConfigInput (NewConfigRevisionSnapshot
     (input\<lparr>TLSProfile := map_option default_challenge (TLSProfile input)\<rparr>))"

lemma permissions_of_share:
  assumes "\<And>s. s \<in> set items \<Longrightarrow> \<forall>p \<in> set (Permissions s). perm_ShareID p = share_ID (Share s)"
    and "distinct (map (share_ID \<circ> Share) items)" and "item \<in> set items"
  shows "filter (\<lambda>p. perm_ShareID p = share_ID (Share item)) (concat (map Permissions items)) = Permissions item"
  using assms
proof (induction items)
  case Nil
  then show ?case by simp
next
  case (Cons s items)
  let ?P = "\<lambda>p. perm_ShareID p = share_ID (Share item)"
  have s: "\<forall>p \<in> set (Permissions s). perm_ShareID p = share_ID (Share s)"
    and fresh: "\<forall>q \<in> set items. share_ID (Share q) \<noteq> share_ID (Share s)"
    using Cons.prems(1,2) by (auto simp: image_iff)
  show ?case
  proof (cases "item = s")
    case True
    have "\<forall>p \<in> set (concat (map Permissions items)). \<not> ?P p"
      using Cons.prems(1) fresh True by fastforce
    then have "filter ?P (concat (map Permissions items)) = []" by (simp add: filter_empty_conv)
    moreover have "filter ?P (Permissions s) = Permissions s" using s True by simp
    ultimately show ?thesis using True by simp
  next
    case False
    then have i: "item \<in> set items" using Cons.prems(3) by simp
    then have "filter ?P (Permissions s) = []" using s fresh by (auto simp: filter_empty_conv)
    moreover have "filter ?P (concat (map Permissions items)) = Permissions item"
      using Cons.IH Cons.prems(1,2) i by simp
    ultimately show ?thesis by simp
  qed
qed

lemma Snapshot_holds:
  assumes h: "holds_state input d" and wf: "well_formed_input input" and txt_ok: "has_text input"
  shows "Snapshot d = Inr (stored_form input)"
proof -
  let ?cs = "DNSProviderCredentials input" and ?us = "Users input" and ?ss = "Shares input"
  note w = wf [unfolded well_formed_input_def] and t = txt_ok [unfolded has_text_def]
  have settings: "query_row scanSettings (t_settings d) = Inr (ServerSettings input)"
    using h w t by (simp add: holds_state_def query_row_def scanSettings_ok)
  have tls: "TLS_Get d = Inr (map_option default_challenge (TLSProfile input))"
    using h w t by (cases "TLSProfile input")
      (simp_all add: holds_state_def TLS_Get_def query_row_def scanTLSProfile_ok)
  have users: "scan_rows scanUser (sort_key user_key (t_users d)) = Inr (sort_key user_key ?us)"
  proof -
    have "scan_rows scanUser (sort_key user_key ?us) = Inr (sort_key user_key ?us)"
      using w t by (intro scan_rows_id) (simp add: scanUser_ok)
    then show ?thesis using h by (simp add: holds_state_def)
  qed
  have shares: "scan_rows scanShare (sort_key share_row_key (t_shares d)) = Inr (map Share (sort_key share_key ?ss))"
  proof -
    have "sort_key share_row_key (map Share ?ss) = map Share (sort_key share_key ?ss)"
      by (rule sort_key_map) (simp add: share_row_key_def share_key_def)
    moreover have "scan_rows scanShare (map Share (sort_key share_key ?ss)) = Inr (map Share (sort_key share_key ?ss))"
      using w t by (intro scan_rows_id) (auto simp: scanShare_ok)
    ultimately show ?thesis using h by (simp add: holds_state_def)
  qed
  have entry: "share_with_rows (t_permissions d) (Share item) = Inr (sort_permissions item)" if "item \<in> set ?ss" for item
  proof -
    have "filter (\<lambda>p. perm_ShareID p = share_ID (Share item)) (t_permissions d) = Permissions item"
      using h w that by (subst permissions_of_share [symmetric, of ?ss item])
        (auto simp: holds_state_def well_formed_permissions_def)
    moreover have "scan_rows scanPermission (sort_key perm_UserID (Permissions item))
        = Inr (sort_key perm_UserID (Permissions item))"
      using w t that by (intro scan_rows_id) (auto simp: well_formed_permissions_def scanPermission_ok)
    ultimately show ?thesis by (cases item) (simp add: share_with_rows_def sort_permissions_def)
  qed
  have entries: "scan_rows (share_with_rows (t_permissions d)) (map Share (sort_key share_key ?ss))
      = Inr (map sort_permissions (sort_key share_key ?ss))"
    unfolding scan_rows_comp by (rule scan_rows_map) (simp add: entry)
  have dns: "scan_rows scanDNSProviderCredential (sort_key dns_key (t_dns d))
      = Inr (sort_key dns_key (map sort_zones ?cs))"
  proof -
    have "distinct (t_dns d)" "distinct ?cs" "set (t_dns d) = set ?cs"
      using h w by (auto simp: holds_state_def distinct_map)
    then have "mset (t_dns d) = mset ?cs" by (simp add: set_eq_iff_mset_eq_distinct)
    moreover have "distinct (map dns_key (t_dns d))"
      using h unfolding holds_state_def dns_key_def by (intro distinct_map_pair) simp
    ultimately have "sort_key dns_key (t_dns d) = sort_key dns_key ?cs" by (rule sort_key_perm_eq)
    moreover have "scan_rows scanDNSProviderCredential (sort_key dns_key ?cs)
        = Inr (map sort_zones (sort_key dns_key ?cs))"
      using w t by (intro scan_rows_map) (simp add: scanDNS_ok)
    moreover have "map sort_zones (sort_key dns_key ?cs) = sort_key dns_key (map sort_zones ?cs)"
      by (rule map_sort_key) (simp add: dns_key_def sort_zones_def)
    ultimately show ?thesis by simp
  qed
  show ?thesis
    unfolding Snapshot_def settings dns tls users shares
    by (simp add: entries stored_form_def Snapshot_RuntimeConfigInput_def NewConfigRevisionSnapshot_def
        map_sort_key share_key_def sort_permissions_def)
qed

section \<open>A restore succeeds\<close>

lemma insert_users_ok:
  assumes "distinct (map user_ID us)" and "distinct (map UsernameNormalized us)"
    and "user_ID ` set us \<inter> user_ID ` set (t_users d) = {}"
    and "UsernameNormalized ` set us \<inter> UsernameNormalized ` set (t_users d) = {}"
  shows "\<exists>d'. transaction (map insert_user us) d = Inr d'"
  using assms
proof (induction us arbitrary: d)
  case Nil
  then show ?case by (simp add: transaction_def)
next
  case (Cons u us)
  let ?d1 = "mark_dirty (d\<lparr>t_users := t_users d @ [u]\<rparr>)"
  have "insert_user u d = Inr ?d1" using Cons.prems(3,4) by (auto simp: insert_user_def)
  moreover have "\<exists>d'. transaction (map insert_user us) ?d1 = Inr d'"
    using Cons.prems by (intro Cons.IH) auto
  ultimately show ?case by (auto simp: transaction_Inr)
qed

lemma insert_permissions_ok:
  assumes "distinct (map grant_key ps)" and "grant_key ` set ps \<inter> grant_key ` set (t_permissions d) = {}"
    and "\<forall>p \<in> set ps. Permission_Valid (Permission p) \<and> permission_parents p d"
  shows "\<exists>d'. transaction (map insert_permission ps) d = Inr d'"
  using assms
proof (induction ps arbitrary: d)
  case Nil
  then show ?case by (simp add: transaction_def)
next
  case (Cons p ps)
  let ?d1 = "mark_dirty (d\<lparr>t_permissions := t_permissions d @ [p]\<rparr>)"
  have "grant_key p \<notin> grant_key ` set (t_permissions d)" using Cons.prems(2) by simp
  then have "\<not> list_ex (same_grant p) (t_permissions d)"
    by (auto simp: list_ex_iff same_grant_def grant_key_def image_iff)
  then have "insert_permission p d = Inr ?d1" using Cons.prems(3) by (simp add: insert_permission_def)
  moreover have "\<exists>d'. transaction (map insert_permission ps) ?d1 = Inr d'"
    using Cons.prems by (intro Cons.IH) (auto simp: permission_parents_def)
  ultimately show ?case by (auto simp: transaction_Inr)
qed

lemma grant_keys_distinct:
  "distinct (map perm_UserID ps) \<Longrightarrow> distinct (map grant_key ps)"
  unfolding grant_key_def by (rule distinct_map_pair)

lemma insert_shares_ok:
  assumes "distinct (map (share_ID \<circ> Share) items)" and "distinct (map (Slug \<circ> Share) items)"
    and "(share_ID \<circ> Share) ` set items \<inter> share_ID ` set (t_shares d) = {}"
    and "(Slug \<circ> Share) ` set items \<inter> Slug ` set (t_shares d) = {}"
    and "\<forall>s \<in> set items. well_formed_permissions (user_ID ` set (t_users d)) (share_ID (Share s)) (Permissions s)"
    and "perm_ShareID ` set (t_permissions d) \<subseteq> share_ID ` set (t_shares d)"
  shows "\<exists>d'. transaction (concat (map (\<lambda>item. insert_share (Share item) # map insert_permission (Permissions item)) items)) d = Inr d'"
  using assms
proof (induction items arbitrary: d)
  case Nil
  then show ?case by (simp add: transaction_def)
next
  case (Cons item items)
  let ?d1 = "mark_dirty (d\<lparr>t_shares := t_shares d @ [Share item]\<rparr>)"
  have one: "insert_share (Share item) d = Inr ?d1" using Cons.prems(3,4) by (auto simp: insert_share_def)
  have wp: "well_formed_permissions (user_ID ` set (t_users d)) (share_ID (Share item)) (Permissions item)"
    using Cons.prems(5) by simp
  have "\<exists>d'. transaction (map insert_permission (Permissions item)) ?d1 = Inr d'"
  proof (rule insert_permissions_ok)
    show "distinct (map grant_key (Permissions item))"
      using wp by (simp add: well_formed_permissions_def grant_keys_distinct)
    have "share_ID (Share item) \<notin> perm_ShareID ` set (t_permissions d)"
      using Cons.prems(3,6) by auto
    then show "grant_key ` set (Permissions item) \<inter> grant_key ` set (t_permissions ?d1) = {}"
      using wp by (auto simp: well_formed_permissions_def grant_key_def)
    show "\<forall>p \<in> set (Permissions item). Permission_Valid (Permission p) \<and> permission_parents p ?d1"
      using wp by (auto simp: well_formed_permissions_def SharePermission_Validate_def permission_parents_def)
  qed
  then obtain d2 where two: "transaction (map insert_permission (Permissions item)) ?d1 = Inr d2" by blast
  obtain b where d2: "d2 = ?d1\<lparr>t_permissions := t_permissions d @ Permissions item, db_dirty := b\<rparr>"
    using insert_permissions [OF two] by auto
  have "\<exists>d'. transaction (concat (map (\<lambda>item. insert_share (Share item) # map insert_permission (Permissions item)) items)) d2 = Inr d'"
    using Cons.prems wp by (intro Cons.IH) (auto simp: d2 well_formed_permissions_def)
  then show ?case using one two by (auto simp: transaction_Inr transaction_append)
qed

lemma upsert_dns_ok:
  assumes "\<forall>c \<in> set cs. DNSProviderType_Valid (Provider c)"
  shows "\<exists>d'. transaction (map upsert_dns cs) d = Inr d' \<and> dns_ID ` set cs \<subseteq> dns_ID ` set (t_dns d')
    \<and> dns_ID ` set (t_dns d) \<subseteq> dns_ID ` set (t_dns d') \<and> (\<exists>b. d' = d\<lparr>t_dns := t_dns d', db_dirty := b\<rparr>)"
  using assms
proof (induction cs arbitrary: d)
  case Nil
  have "\<exists>b. d = d\<lparr>t_dns := t_dns d, db_dirty := b\<rparr>" by (rule exI [of _ "db_dirty d"]) simp
  then show ?case by (simp add: transaction_Inr del: db.update_convs)
next
  case (Cons c cs)
  define rows where "rows = (if dns_ID c \<in> dns_ID ` set (t_dns d)
         then update_where (\<lambda>r. dns_ID r = dns_ID c)
                (\<lambda>r. r\<lparr>dns_Name := dns_Name c, Provider := Provider c,
                       AllowedZones := AllowedZones c, dns_UpdatedAt := dns_UpdatedAt c\<rparr>) (t_dns d)
         else t_dns d @ [c])"
  define d1 where "d1 = mark_dirty (d\<lparr>t_dns := rows\<rparr>)"
  have u: "upsert_dns c d = Inr d1" using Cons.prems by (simp add: upsert_dns_def d1_def rows_def)
  have e: "d1 = d\<lparr>t_dns := t_dns d1, db_dirty := True\<rparr>" by (simp add: d1_def mark_dirty_def)
  have ids: "dns_ID ` set (t_dns d1) = insert (dns_ID c) (dns_ID ` set (t_dns d))"
    by (simp add: d1_def rows_def insert_absorb)
  obtain d' b where "transaction (map upsert_dns cs) d1 = Inr d'" and "dns_ID ` set cs \<subseteq> dns_ID ` set (t_dns d')"
    and "dns_ID ` set (t_dns d1) \<subseteq> dns_ID ` set (t_dns d')" and e': "d' = d1\<lparr>t_dns := t_dns d', db_dirty := b\<rparr>"
    using Cons.IH [of d1] Cons.prems by auto
  moreover have "d' = d\<lparr>t_dns := t_dns d', db_dirty := b\<rparr>" by (subst e', subst e) simp
  ultimately show ?case using u ids by (auto simp: transaction_Inr)
qed

lemma settings_checks_ok: "ServerSettings_Validate s = None \<Longrightarrow> settings_checks s = None"
  by (auto simp: ServerSettings_Validate_def settings_checks_def validPort_def RuntimeMode_Valid_def)

lemma restore_rows_ok:
  assumes wf: "well_formed_input input"
  shows "\<exists>d'. transaction (restore_rows input) d = Inr d'"
proof -
  note w = wf [unfolded well_formed_input_def]
  let ?clear = "[\<lambda>d. Inr (delete_permissions (\<lambda>_. True) d), \<lambda>d. Inr (delete_shares (\<lambda>_. True) d),
      \<lambda>d. Inr (delete_users (\<lambda>_. True) d), \<lambda>d. Inr (delete_tls (\<lambda>_. True) d),
      \<lambda>d. Inr (d\<lparr>t_settings := []\<rparr>), insert_settings (ServerSettings input)]"
  have "\<exists>d2. transaction ?clear d = Inr d2 \<and> t_users d2 = [] \<and> t_shares d2 = [] \<and> t_permissions d2 = []
      \<and> t_tls d2 = []"
    using w by (simp add: transaction_Inr insert_settings_def settings_checks_ok delete_permissions_def
        delete_shares_def delete_users_def delete_tls_def Let_def)
  then obtain d2 where clear: "transaction ?clear d = Inr d2" and empty: "t_users d2 = []" "t_shares d2 = []"
    "t_permissions d2 = []" "t_tls d2 = []" by blast
  obtain d3 where us: "transaction (map insert_user (Users input)) d2 = Inr d3"
    using insert_users_ok [of "Users input" d2] w by (auto simp: empty)
  obtain b where d3: "d3 = d2\<lparr>t_users := Users input, db_dirty := b\<rparr>"
    using insert_users [OF us] by (auto simp: empty)
  obtain d4 where ss: "transaction (concat (map (\<lambda>item. insert_share (Share item) # map insert_permission (Permissions item))
      (Shares input))) d3 = Inr d4"
    using insert_shares_ok [of "Shares input" d3] w by (auto simp: d3 empty)
  have t4: "t_tls d4 = []" using insert_shares [OF ss] by (auto simp: d3 empty)
  obtain d5 where dns: "transaction (map upsert_dns (DNSProviderCredentials input)) d4 = Inr d5"
    and ids: "dns_ID ` set (DNSProviderCredentials input) \<subseteq> dns_ID ` set (t_dns d5)"
    and "\<exists>b. d5 = d4\<lparr>t_dns := t_dns d5, db_dirty := b\<rparr>"
    using upsert_dns_ok [of "DNSProviderCredentials input" d4] w by (auto simp: DNSProviderCredential_Validate_def)
  then have t5: "t_tls d5 = []" using t4 by (metis db.ext_inject db.surjective db.update_convs(5,6,11))
  have "\<exists>d'. transaction (case TLSProfile input of None \<Rightarrow> [] | Some p \<Rightarrow> [insert_tls (default_challenge p)]) d5 = Inr d'"
  proof (cases "TLSProfile input")
    case (Some p)
    then have p: "TLSProfile_Validate p = None" "\<And>i. DNSProviderID p = Some i \<Longrightarrow> i \<in> dns_ID ` set (t_dns d5)"
      using w ids by auto
    have "Challenge (default_challenge p) = TLSChallengeAuto \<or> Challenge (default_challenge p) = TLSChallengeDNS"
      using p(1) by (auto simp: TLSProfile_Validate_None_iff TLSChallenge_Valid_def effective_challenge_def
          default_challenge_def)
    then have "tls_checks (default_challenge p) d5 = None"
      using p by (simp add: tls_checks_None default_challenge_def TLSProfile_Validate_None_iff)
    then show ?thesis using Some t5 by (simp add: transaction_Inr insert_tls_def)
  qed (simp add: transaction_def)
  then show ?thesis
    unfolding restore_rows_def using clear us ss dns
    by (auto simp: transaction_append transaction_Inr)
qed

lemma keeps_revisions_restore:
  assumes "transaction (restore_rows input) d = Inr d'"
  shows "t_revisions d' = t_revisions d"
proof -
  have k: "keeps (\<lambda>x. t_revisions x = t_revisions d) (transaction (restore_rows input))"
    unfolding restore_rows_def
    by (intro keeps_transaction)
       (auto simp: keeps_def insert_user_def insert_share_def insert_permission_def insert_settings_def
         upsert_dns_def insert_tls_def delete_permissions_def delete_shares_def delete_users_def
         delete_tls_def Let_def split: if_splits option.splits)
  from keepsD [OF k assms] show ?thesis by simp
qed

text \<open>\<open>RestoreState\<close> on a success.\<close>

lemma RestoreState_Inr:
  assumes "RestoreState input i d = (d', Inr ())"
  obtains expected d1 r where "well_formed_input input" and "MarshalConfigRevisionSnapshot input = Inr expected"
    and "transaction (restore_rows input) d = Inr d1" and "r \<in> set (t_revisions d)" and "rev_ID r = i"
    and "d' = (with_status i applied d1)\<lparr>desired_revision_id := Some i, active_revision_id := Some i, db_dirty := False\<rparr>"
proof -
  have wf: "well_formed_input input"
    using assms by (auto simp: RestoreState_def RuntimeConfigInput_Validate_iff [symmetric] split: option.splits)
  obtain expected where m: "MarshalConfigRevisionSnapshot input = Inr expected"
    and run: "transaction ([snapshot_guard i expected] @ restore_rows input
                  @ [update_valid_revision i applied, set_runtime_state (Some i) (Some i)]) d = Inr d'"
    using assms by (auto simp: RestoreState_def exec_def split: option.splits sum.splits)
  obtain d0 d1 d2 where g: "snapshot_guard i expected d = Inr d0" and rows: "transaction (restore_rows input) d0 = Inr d1"
    and u: "update_valid_revision i applied d1 = Inr d2" and s: "set_runtime_state (Some i) (Some i) d2 = Inr d'"
    using run unfolding transaction_append by (auto simp: transaction_Inr)
  have d0: "d0 = d" and "filter (\<lambda>r. rev_ID r = i \<and> ValidationStatus r = RevisionValidationValid) (t_revisions d) \<noteq> []"
    using g by (auto simp: snapshot_guard_def split: list.splits if_splits)
  then obtain r where "r \<in> set (t_revisions d)" "rev_ID r = i" by (auto simp: filter_empty_conv)
  moreover have "d' = (with_status i applied d1)\<lparr>desired_revision_id := Some i, active_revision_id := Some i, db_dirty := False\<rparr>"
    using u s by (auto simp: update_valid_revision_def set_runtime_state_def split: if_splits)
  ultimately show thesis using that wf m rows d0 by blast
qed

lemma RestoreState_ok:
  assumes wf: "well_formed_input input" and m: "MarshalConfigRevisionSnapshot input = Inr expected"
    and r: "r \<in> set (t_revisions d)" "rev_ID r = i" "ValidationStatus r = RevisionValidationValid"
      "StateSnapshotJSON r = expected" "expected \<noteq> []"
    and ids: "distinct (map rev_ID (t_revisions d))"
  shows "\<exists>d'. RestoreState input i d = (d', Inr ())"
proof -
  have "filter (\<lambda>r. rev_ID r = i \<and> ValidationStatus r = RevisionValidationValid) (t_revisions d) = [r]"
  proof -
    have "distinct (filter (\<lambda>r. rev_ID r = i \<and> ValidationStatus r = RevisionValidationValid) (t_revisions d))"
      using ids by (simp add: distinct_map)
    moreover have "set (filter (\<lambda>r. rev_ID r = i \<and> ValidationStatus r = RevisionValidationValid) (t_revisions d)) = {r}"
      using r(1-3) ids by (auto intro: distinct_map_eq [of rev_ID "t_revisions d"])
    ultimately show ?thesis by (rule distinct_set_singleton [rotated])
  qed
  then have g: "snapshot_guard i expected d = Inr d" using r(4,5) by (simp add: snapshot_guard_def)
  obtain d1 where rows: "transaction (restore_rows input) d = Inr d1" using restore_rows_ok [OF wf] by blast
  have revs: "t_revisions d1 = t_revisions d" by (rule keeps_revisions_restore [OF rows])
  have "update_valid_revision i applied d1 = Inr (with_status i applied d1)"
    using r by (auto simp: update_valid_revision_def revs list_ex_iff)
  moreover have "rev_ID ` set (t_revisions (with_status i applied d1)) = rev_ID ` set (t_revisions d)"
    by (simp add: with_status_def revs applied_def)
  then have "\<exists>d'. set_runtime_state (Some i) (Some i) (with_status i applied d1) = Inr d'"
    using r(1,2) by (auto simp: set_runtime_state_def revision_exists_def)
  ultimately have "\<exists>d'. transaction ([snapshot_guard i expected] @ restore_rows input
                  @ [update_valid_revision i applied, set_runtime_state (Some i) (Some i)]) d = Inr d'"
    unfolding transaction_append using g rows by (auto simp: transaction_Inr)
  then show ?thesis
    using wf m by (auto simp: RestoreState_def exec_def RuntimeConfigInput_Validate_iff [symmetric])
qed

end
