(* ===== verification/Store_Properties.thy ===== *)
theory Store_Properties
  imports Snapshot_Restore Sample
begin

text \<open>
  The properties of the database and of the repositories over it, each with an instance.
\<close>

section \<open>Concrete revisions and databases\<close>

definition sample_revision :: "ident \<Rightarrow> string \<Rightarrow> config_revision" where
  "sample_revision i body =
     \<lparr>rev_ID = i, Number = 0, rev_CreatedAt = t0, ConfigJSON = body, StateSnapshotJSON = [],
      ConfigHash = HashConfigJSON body, StateHash = [], ValidationStatus = RevisionValidationValid,
      ApplyStatus = RevisionApplyNotApplied, AppVersion = ''1.0.0'', ErrorCode = [], ErrorSummary = []\<rparr>"

lemma json_valid_braces: "json_valid ''{}''"
  by code_simp

lemma sample_revision_valid:
  "0 < n \<Longrightarrow> ConfigRevision_Validate ((sample_revision (user_ID alice) ''{}'')\<lparr>Number := n\<rparr>) = None"
  "0 < n \<Longrightarrow> ConfigRevision_Validate ((sample_revision (user_ID bob) ''{}'')\<lparr>Number := n\<rparr>) = None"
  by (simp_all add: ConfigRevision_Validate_def Let_def sample_revision_def json_valid_braces HashConfigJSON_def
      RevisionValidationStatus_Valid_def RevisionApplyStatus_Valid_def status_defs validateTimestamp_def
      t0_def IsZero_def str_eval)

lemma default_settings_checked: "settings_checks (default_settings now) = None"
  by (simp add: settings_checks_def default_settings_def)

lemma db_ok_empty: "db_ok (empty_db now)"
  by (simp add: db_ok_def schema_ok_def table_defs empty_db_def default_settings_checked)

lemma create_valid:
  assumes "fingerprint r = Inr r" and "ConfigRevision_Validate (r\<lparr>Number := next_number d\<rparr>) = None"
    and "0 < next_number d" and "next_number d \<notin> Number ` set (t_revisions d)"
    and "rev_ID r \<notin> rev_ID ` set (t_revisions d)" and "active_revision_id d = None"
  shows "Revision_Create r d = (d\<lparr>next_number := next_number d + 1, t_revisions := t_revisions d @ [r\<lparr>Number := next_number d\<rparr>],
     desired_revision_id := Some (rev_ID r), db_dirty := False\<rparr>, Inr (r\<lparr>Number := next_number d\<rparr>))"
  using assms by (simp add: Revision_Create_def Let_def transaction_def insert_revision_def
        set_runtime_state_def revision_exists_def)

lemma create_sample:
  assumes "r = sample_revision (user_ID alice) ''{}'' \<or> r = sample_revision (user_ID bob) ''{}''"
    and "0 < next_number d" and "next_number d \<notin> Number ` set (t_revisions d)"
    and "rev_ID r \<notin> rev_ID ` set (t_revisions d)" and "active_revision_id d = None"
  shows "Revision_Create r d = (d\<lparr>next_number := next_number d + 1, t_revisions := t_revisions d @ [r\<lparr>Number := next_number d\<rparr>],
     desired_revision_id := Some (rev_ID r), db_dirty := False\<rparr>, Inr (r\<lparr>Number := next_number d\<rparr>))"
proof (rule create_valid [OF _ _ assms(2-5)])
  show "fingerprint r = Inr r" using assms(1) by (elim disjE) (simp_all add: fingerprint_def sample_revision_def)
  show "ConfigRevision_Validate (r\<lparr>Number := next_number d\<rparr>) = None"
    using assms(1) sample_revision_valid [OF assms(2)] by (elim disjE) simp_all
qed

section \<open>Consistency\<close>

text \<open>The databases the daemon can have: a fresh one after any sequence of repository calls.\<close>

inductive reachable :: "db \<Rightarrow> bool" where
  fresh: "reachable (empty_db now)"
| call: "reachable d \<Longrightarrow> reachable (run_call c d)"

inductive_cases reachable_cases: "reachable d"

text \<open>C5. Every database the daemon can reach satisfies all constraints of the schema (keys, unique
  usernames and slugs, foreign keys, checks), has exactly one settings row, and has every revision number below
  the sequence, whatever calls were made and whichever of them failed.\<close>

theorem database_stays_consistent:
  assumes "reachable d"
  shows "db_ok d"
  using assms
proof (induction rule: reachable.induct)
  case (fresh now)
  show ?case by (rule db_ok_empty)
next
  case (call d c)
  then show ?case using run_call_advanced by (simp add: advanced_def)
qed

theorem database_stays_consistent_witness:
  "db_ok (run_call (CreateShare docs) (run_call (CreateUser alice) (empty_db t0)))"
  by (rule database_stays_consistent) (intro reachable.intros)

text \<open>C9. Revision numbers are never used twice: a revision created later has a larger number,
  whatever happened in between, the deletion of the earlier revision included.\<close>

theorem revision_numbers_never_reused:
  assumes "db_ok d" and "Revision_Create r d = (d1, Inr a)"
    and "Revision_Create s (fold run_call calls d1) = (d2, Inr b)"
  shows "Number a < Number b"
proof -
  have later: "db_ok (fold run_call calls e) \<and> next_number e \<le> next_number (fold run_call calls e)"
    if "db_ok e" for e
    using that
  proof (induction calls arbitrary: e)
    case (Cons c calls)
    have "db_ok (run_call c e)" and "next_number e \<le> next_number (run_call c e)"
      using run_call_advanced [OF Cons.prems, of c] by (simp_all add: advanced_def)
    with Cons.IH [of "run_call c e"] show ?case by simp
  qed simp
  have "db_ok d1" using db_ok_create [OF assms(1), of r] assms(2) by simp
  moreover obtain h where "a = r\<lparr>Number := next_number d, StateHash := h\<rparr>"
    using Revision_Create_Inr(1) [OF assms(2)] by blast
  moreover obtain h' where "b = s\<lparr>Number := next_number (fold run_call calls d1), StateHash := h'\<rparr>"
    using Revision_Create_Inr(1) [OF assms(3)] by blast
  ultimately show ?thesis using later [of d1] Revision_Create_Inr(7) [OF assms(2)] by simp
qed

theorem revision_numbers_never_reused_witness:
  "\<exists>d1 a d2 b. Revision_Create (sample_revision (user_ID alice) ''{}'') (empty_db t0) = (d1, Inr a)
     \<and> Revision_Create (sample_revision (user_ID bob) ''{}'')
         (fold run_call [CreateUser alice, DeleteUser (user_ID alice)] d1) = (d2, Inr b) \<and> Number a < Number b"
proof -
  let ?a = "sample_revision (user_ID alice) ''{}''" and ?b = "sample_revision (user_ID bob) ''{}''"
  obtain d1 a where one: "Revision_Create ?a (empty_db t0) = (d1, Inr a)"
    using create_sample [of ?a "empty_db t0"] by (auto simp: empty_db_def)
  let ?d = "fold run_call [CreateUser alice, DeleteUser (user_ID alice)] d1"
  have d1: "t_revisions d1 = [a]" "next_number d1 = 2" "active_revision_id d1 = None" "t_users d1 = []"
    "Number a = 1" "rev_ID a = user_ID alice"
    using one create_sample [of ?a "empty_db t0"] by (auto simp: empty_db_def sample_revision_def)
  have "t_revisions ?d = [a]" "next_number ?d = 2" "active_revision_id ?d = None"
    by (simp_all add: User_Create_def User_Delete_def exec_def expect_affected_def insert_user_def
        delete_users_def Let_def d1)
  then obtain d2 b where two: "Revision_Create ?b ?d = (d2, Inr b)"
    using create_sample [of ?b ?d] d1 by (auto simp: sample_revision_def)
  from revision_numbers_never_reused [OF db_ok_empty one two] one two show ?thesis by blast
qed

section \<open>Pending changes\<close>

text \<open>C10. An edit of the desired state (users, shares, permissions, ports, TLS profile, DNS credentials and secrets,
  an import) that changes any table leaves the state reported as pending; no edit clears the dirty flag or
  touches the revisions, the desired and the active one included.\<close>

theorem edits_are_pending:
  assumes "is_edit c"
  shows "(state_tables (run_call c d) \<noteq> state_tables d \<longrightarrow>
       (\<exists>s. Revision_State (run_call c d) = Inr s \<and> Pending s))
     \<and> (db_dirty d \<longrightarrow> db_dirty (run_call c d))
     \<and> revision_tables (run_call c d) = revision_tables d"
  using tracked.run_edit [OF assms tracked_refl, of d]
  by (auto simp: tracked_def Revision_State_def Let_def)

theorem edits_are_pending_witness:
  "\<exists>s. Revision_State (run_call (CreateUser alice) ((empty_db t0)\<lparr>db_dirty := False\<rparr>)) = Inr s \<and> Pending s"
proof -
  let ?d = "(empty_db t0)\<lparr>db_dirty := False\<rparr>"
  have "state_tables (run_call (CreateUser alice) ?d) \<noteq> state_tables ?d"
    by (simp add: state_tables_def User_Create_def exec_def insert_user_def empty_db_def)
  with edits_are_pending [of "CreateUser alice" ?d] show ?thesis by simp
qed

section \<open>Deletion\<close>

text \<open>Deleting a revision removes that revision only, and never the active or the desired one: those
  are refused with their own errors and nothing changes.\<close>

theorem deletion_spares_current_revision:
  assumes "db_ok d" and "Revision_Delete i d = (d', r)"
  shows "(active_revision_id d = Some i \<longrightarrow> r = Inl ErrRevisionActive \<and> d' = d)
     \<and> (active_revision_id d \<noteq> Some i \<and> desired_revision_id d = Some i \<longrightarrow> r = Inl ErrRevisionDesired \<and> d' = d)
     \<and> (active_revision_id d \<noteq> Some i \<and> desired_revision_id d \<noteq> Some i \<and> i \<notin> rev_ID ` set (t_revisions d)
          \<longrightarrow> r = Inl ErrRevisionNotFound \<and> d' = d)
     \<and> (r = Inr () \<longrightarrow> d' = d\<lparr>t_revisions := filter (\<lambda>q. rev_ID q \<noteq> i) (t_revisions d)\<rparr>
          \<and> Revision_Active d' = Revision_Active d \<and> Revision_State d' = Revision_State d)"
proof -
  have deleted: "Revision_Active d' = Revision_Active d \<and> Revision_State d' = Revision_State d"
    if d': "d' = d\<lparr>t_revisions := filter (\<lambda>q. rev_ID q \<noteq> i) (t_revisions d)\<rparr>"
      and other: "active_revision_id d \<noteq> Some i" "desired_revision_id d \<noteq> Some i"
  proof -
    have same: "filter (\<lambda>q. Some (rev_ID q) = k) (t_revisions d') = filter (\<lambda>q. Some (rev_ID q) = k) (t_revisions d)"
      if "k \<noteq> Some i" for k
      using that by (auto simp: d' intro!: filter_cong)
    have find: "find (\<lambda>q. Some (rev_ID q) = k) rs = (case filter (\<lambda>q. Some (rev_ID q) = k) rs of [] \<Rightarrow> None | q # _ \<Rightarrow> Some q)"
      for k rs by (induction rs) auto
    have "number_of_revision d' k = number_of_revision d k" if "k \<noteq> Some i" for k
      unfolding number_of_revision_def find same [OF that] ..
    with other same [OF other(1)] show ?thesis
      by (simp add: Revision_Active_def Revision_State_def d')
  qed
  show ?thesis
    using assms(2) deleted
    by (auto simp: Revision_Delete_def exec_def transaction_Inr transaction_def delete_revision_def
        split: if_splits sum.splits)
qed

theorem deletion_spares_current_revision_witness:
  "\<exists>d1 a. Revision_Create (sample_revision (user_ID alice) ''{}'') (empty_db t0) = (d1, Inr a)
     \<and> Revision_Delete (user_ID alice) d1 = (d1, Inl ErrRevisionDesired)"
proof -
  let ?a = "sample_revision (user_ID alice) ''{}''"
  obtain d1 a where one: "Revision_Create ?a (empty_db t0) = (d1, Inr a)"
    and d1: "desired_revision_id d1 = Some (user_ID alice)" "active_revision_id d1 = None"
    using create_sample [of ?a "empty_db t0"] by (auto simp: empty_db_def sample_revision_def)
  obtain d' r where del: "Revision_Delete (user_ID alice) d1 = (d', r)" by fastforce
  have "db_ok (fst (Revision_Create ?a (empty_db t0)))" by (rule db_ok_create) (rule db_ok_empty)
  then have "db_ok d1" unfolding one by simp
  from deletion_spares_current_revision [OF this del] d1 one del show ?thesis by auto
qed

section \<open>Restoring a revision\<close>

lemma storable_t0: "storable t0"
  by (simp add: storable_def t0_def)

lemma literal_utf8: "list_all (\<lambda>c. byte_of c < 128) s \<Longrightarrow> valid_utf8 s"
  by (simp add: ascii_valid_utf8 ascii_def)

lemmas literal_text = literal_utf8 byte_of_def storable_t0

lemma sample_text_ids:
  "valid_utf8 ''00000000-0000-4000-8000-0000000000a1''" "valid_utf8 ''00000000-0000-4000-8000-0000000000b2''"
  "valid_utf8 ''00000000-0000-4000-8000-0000000000c3''" "valid_utf8 ''00000000-0000-4000-8000-0000000000d4''"
  "valid_utf8 ''00000000-0000-4000-8000-0000000000e5''" "valid_utf8 ''00000000-0000-4000-8000-0000000000f6''"
  "valid_utf8 ''00000000-0000-4000-8000-000000000001''" "valid_utf8 ''00000000-0000-4000-8000-000000000002''"
  by (rule literal_utf8, simp add: byte_of_def)+

lemma sample_text_words:
  "valid_utf8 ''Alice''" "valid_utf8 ''alice''" "valid_utf8 ''bob''" "valid_utf8 ''carol''"
  "valid_utf8 ''hash-a''" "valid_utf8 ''hash-b''" "valid_utf8 ''hash-c''" "valid_utf8 ''Docs''"
  "valid_utf8 ''docs''" "valid_utf8 ''/srv/docs''" "valid_utf8 ''Vault''" "valid_utf8 ''vault''"
  "valid_utf8 ''/srv/vault''" "valid_utf8 ''/dav''" "valid_utf8 ''cf''" "valid_utf8 ''example.org''"
  "valid_utf8 ''dav.example.org''" "valid_utf8 []"
  by (rule literal_utf8, simp add: byte_of_def)+

lemma sample_text_consts:
  "valid_utf8 RuntimeModePortable" "valid_utf8 PermissionRead" "valid_utf8 PermissionReadWrite"
  "valid_utf8 DNSProviderCloudflare" "valid_utf8 TLSModeAutomatic" "valid_utf8 TLSChallengeDNS"
  by (rule literal_utf8, simp add: byte_of_def tls_const_defs RuntimeModePortable_def PermissionRead_def
      PermissionReadWrite_def DNSProviderCloudflare_def)+

lemmas sample_text = sample_text_ids sample_text_words sample_text_consts storable_t0

lemma sample_text_parts:
  "user_text alice" "user_text bob" "user_text carol" "share_text docs" "share_text vault"
  "settings_text sample_settings" "tls_text sample_tls" "dns_text sample_dns"
  by (simp_all only: user_text_def alice_def bob_def carol_def share_text_def docs_def vault_def settings_text_def
      sample_settings_def tls_text_def sample_tls_def dns_text_def sample_dns_def
      user.simps share.simps server_settings.simps tls_profile.simps dns_credential.simps)
     (simp_all add: sample_text)

lemma permission_text_sample:
  "valid_utf8 (share_ID s) \<Longrightarrow> valid_utf8 (user_ID u) \<Longrightarrow> valid_utf8 k \<Longrightarrow> permission_text (permission s u k)"
  by (simp add: permission_text_def permission_def storable_t0)

lemma has_text_sample: "has_text sample_input"
  by (simp add: has_text_def sample_text_parts permission_text_sample sample_text)

lemma nothing_pending:
  assumes "desired_revision_id d = active_revision_id d" and "\<not> db_dirty d"
  shows "\<exists>s. Revision_State d = Inr s \<and> \<not> Pending s"
  using assms by (cases "number_of_revision d (active_revision_id d)")
    (simp_all add: Revision_State_def sameRevision_def Let_def)

text \<open>C16. When \<open>RestoreState\<close> succeeds, the state read back from the database is exactly the restored one (in
  the order and with the defaults of the tables), the revision is the desired and the active one, and no change is
  pending; provided every DNS credential of the database belongs to the restored state, with the
  creation time it has there.\<close>

theorem restored_state_is_snapshot:
  assumes "db_ok d" and "has_text input" and "RestoreState input i d = (d', Inr ())"
    and known: "\<forall>r \<in> set (t_dns d). \<exists>c \<in> set (DNSProviderCredentials input).
      dns_ID c = dns_ID r \<and> dns_CreatedAt c = dns_CreatedAt r"
  shows "Snapshot d' = Inr (stored_form input) \<and> desired_revision_id d' = Some i \<and> active_revision_id d' = Some i
     \<and> (\<exists>s. Revision_State d' = Inr s \<and> \<not> Pending s)"
proof -
  obtain d1 where wf: "well_formed_input input" and run: "transaction (restore_rows input) d = Inr d1"
    and d': "d' = (with_status i applied d1)\<lparr>desired_revision_id := Some i, active_revision_id := Some i, db_dirty := False\<rparr>"
    using RestoreState_Inr [OF assms(3)] by metis
  have ok: "schema_ok d" using assms(1) by (simp add: db_ok_def)
  have distinct: "distinct (map dns_ID (DNSProviderCredentials input))"
    using wf by (simp add: well_formed_input_def)
  have created: "dns_CreatedAt r = dns_CreatedAt c"
    if r: "r \<in> set (t_dns d)" and c: "c \<in> set (DNSProviderCredentials input)" and same: "dns_ID r = dns_ID c" for r c
  proof -
    obtain k where "k \<in> set (DNSProviderCredentials input)" "dns_ID k = dns_ID r" "dns_CreatedAt k = dns_CreatedAt r"
      using known r by blast
    with c same distinct show ?thesis by (metis distinct_map_eq)
  qed
  have tables: "t_users d1 = Users input" "t_shares d1 = map Share (Shares input)"
    "t_permissions d1 = concat (map Permissions (Shares input))" "t_settings d1 = [ServerSettings input]"
    "t_tls d1 = (case TLSProfile input of None \<Rightarrow> [] | Some p \<Rightarrow> [default_challenge p])"
    "set (t_dns d1) = {r \<in> set (t_dns d). dns_ID r \<notin> dns_ID ` set (DNSProviderCredentials input)}
        \<union> set (DNSProviderCredentials input)" "distinct (map dns_ID (t_dns d1))"
    by (rule restore_tables [OF run ok wf]; erule (2) created)+
  have none: "{r \<in> set (t_dns d). dns_ID r \<notin> dns_ID ` set (DNSProviderCredentials input)} = {}"
    using known by (metis (no_types, lifting) empty_Collect_eq image_eqI)
  have same: "t_users d' = t_users d1" "t_shares d' = t_shares d1" "t_permissions d' = t_permissions d1"
    "t_settings d' = t_settings d1" "t_tls d' = t_tls d1" "t_dns d' = t_dns d1"
    by (simp_all add: d' with_status_def)
  have "holds_state input d'"
    unfolding holds_state_def same tables(1-5) tables(6) none using tables(7) by (simp only: Un_empty_left simp_thms)
  then have "Snapshot d' = Inr (stored_form input)" using wf assms(2) by (rule Snapshot_holds)
  moreover have "desired_revision_id d' = Some i" "active_revision_id d' = Some i" "\<not> db_dirty d'"
    by (simp_all add: d')
  ultimately show ?thesis using nothing_pending [of d'] by simp
qed

text \<open>The revision an apply makes of the sample state, and a database that holds it.\<close>

definition sample_snapshot_text :: string where
  "sample_snapshot_text = json_marshal (snapshot_json (NewConfigRevisionSnapshot sample_input))"

definition restorable_revision :: config_revision where
  "restorable_revision =
     (sample_revision (user_ID bob) ''{}'')\<lparr>StateSnapshotJSON := sample_snapshot_text\<rparr>"

definition restorable_db :: db where
  "restorable_db = (empty_db t0)\<lparr>next_number := 2, t_revisions := [restorable_revision\<lparr>Number := 1\<rparr>],
     desired_revision_id := Some (user_ID bob), t_users := [alice]\<rparr>"

lemma sample_marshal: "MarshalConfigRevisionSnapshot sample_input = Inr sample_snapshot_text"
  unfolding sample_snapshot_text_def by (rule snapshot_roundtrip) (simp_all add: has_text_sample)

lemma sample_snapshot_not_empty: "sample_snapshot_text \<noteq> []"
  by (simp add: sample_snapshot_text_def json_marshal_def snapshot_json_def)

lemma restorable_db_ok: "db_ok restorable_db"
  using db_ok_empty [of t0]
  by (simp add: restorable_db_def restorable_revision_def sample_revision_def db_ok_def schema_ok_def table_defs empty_db_def)

lemma restorable_restores: "\<exists>d'. RestoreState sample_input (user_ID bob) restorable_db = (d', Inr ())"
  by (rule RestoreState_ok [OF sample_well_formed sample_marshal, of "restorable_revision\<lparr>Number := 1\<rparr>"])
     (simp_all add: restorable_db_def restorable_revision_def sample_revision_def sample_snapshot_not_empty)

theorem restored_state_is_snapshot_witness:
  "\<exists>d'. RestoreState sample_input (user_ID bob) restorable_db = (d', Inr ())
     \<and> Snapshot d' = Inr (stored_form sample_input)"
proof -
  obtain d' where run: "RestoreState sample_input (user_ID bob) restorable_db = (d', Inr ())"
    using restorable_restores by blast
  have "t_dns restorable_db = []" by (simp add: restorable_db_def empty_db_def)
  then show ?thesis
    using restored_state_is_snapshot [OF restorable_db_ok has_text_sample run] run by simp
qed

text \<open>A restore does not remove a DNS credential that the restored state does not have: it stays in the
  database, so the state read back is not the one the revision was made from.\<close>

theorem restore_keeps_other_providers:
  assumes "RestoreState input i d = (d', Inr ())"
    and "c \<in> set (t_dns d)" and "dns_ID c \<notin> dns_ID ` set (DNSProviderCredentials input)"
  shows "c \<in> set (t_dns d')"
proof -
  obtain d1 where run: "transaction (restore_rows input) d = Inr d1"
    and d': "d' = (with_status i applied d1)\<lparr>desired_revision_id := Some i, active_revision_id := Some i, db_dirty := False\<rparr>"
    using RestoreState_Inr [OF assms(1)] by metis
  have upsert: "keeps (\<lambda>x. c \<in> set (t_dns x)) (upsert_dns k)" if "dns_ID k \<noteq> dns_ID c" for k
    using that by (auto simp: keeps_def upsert_dns_def update_where_def image_iff split: if_splits option.splits)
  have "keeps (\<lambda>x. c \<in> set (t_dns x)) (transaction (restore_rows input))"
    unfolding restore_rows_def
  proof (intro keeps_transaction)
    fix s
    assume s: "s \<in> set ([\<lambda>d. Inr (delete_permissions (\<lambda>_. True) d), \<lambda>d. Inr (delete_shares (\<lambda>_. True) d),
        \<lambda>d. Inr (delete_users (\<lambda>_. True) d), \<lambda>d. Inr (delete_tls (\<lambda>_. True) d), \<lambda>d. Inr (d\<lparr>t_settings := []\<rparr>),
        insert_settings (ServerSettings input)] @ map insert_user (Users input)
      @ concat (map (\<lambda>item. insert_share (Share item) # map insert_permission (Permissions item)) (Shares input))
      @ map upsert_dns (DNSProviderCredentials input)
      @ (case TLSProfile input of None \<Rightarrow> [] | Some p \<Rightarrow> [insert_tls (default_challenge p)]))"
    show "keeps (\<lambda>x. c \<in> set (t_dns x)) s"
    proof (cases "s \<in> upsert_dns ` set (DNSProviderCredentials input)")
      case True
      then obtain k where k: "k \<in> set (DNSProviderCredentials input)" and s: "s = upsert_dns k" by blast
      have "dns_ID k \<noteq> dns_ID c" using k assms(3) by (metis image_eqI)
      then show ?thesis unfolding s by (rule upsert)
    next
      case False
      with s show ?thesis
        by (auto simp: keeps_def insert_user_def insert_share_def insert_permission_def insert_settings_def
            insert_tls_def delete_permissions_def delete_shares_def delete_users_def delete_tls_def Let_def
            split: if_splits option.splits)
    qed
  qed
  from keepsD [OF this run] assms(2) show ?thesis by (simp add: d' with_status_def)
qed

theorem restore_keeps_other_providers_witness:
  "\<exists>d'. RestoreState (sample_input\<lparr>TLSProfile := None, DNSProviderCredentials := []\<rparr>) (user_ID bob)
       (restorable_db\<lparr>t_dns := [sample_dns], t_revisions := map (\<lambda>r. r\<lparr>StateSnapshotJSON := json_marshal (snapshot_json
          (NewConfigRevisionSnapshot (sample_input\<lparr>TLSProfile := None, DNSProviderCredentials := []\<rparr>)))\<rparr>)
          (t_revisions restorable_db)\<rparr>) = (d', Inr ())
     \<and> sample_dns \<in> set (t_dns d')"
proof -
  let ?i = "sample_input\<lparr>TLSProfile := None, DNSProviderCredentials := []\<rparr>"
  let ?t = "json_marshal (snapshot_json (NewConfigRevisionSnapshot ?i))"
  let ?d = "restorable_db\<lparr>t_dns := [sample_dns], t_revisions := map (\<lambda>r. r\<lparr>StateSnapshotJSON := ?t\<rparr>) (t_revisions restorable_db)\<rparr>"
  have wf: "well_formed_input ?i"
    using sample_well_formed by (simp add: well_formed_input_def well_formed_permissions_def)
  have "has_text ?i" using has_text_sample by (simp add: has_text_def)
  with wf have m: "MarshalConfigRevisionSnapshot ?i = Inr ?t" by (rule snapshot_roundtrip)
  have "?t \<noteq> []" by (simp add: json_marshal_def snapshot_json_def)
  then obtain d' where run: "RestoreState ?i (user_ID bob) ?d = (d', Inr ())"
    using RestoreState_ok [OF wf m, of "restorable_revision\<lparr>Number := 1, StateSnapshotJSON := ?t\<rparr>" ?d "user_ID bob"]
    by (auto simp: restorable_db_def restorable_revision_def sample_revision_def)
  show ?thesis using restore_keeps_other_providers [OF run, of sample_dns] run by simp
qed

lemma edits_keep_revisions:
  "\<forall>c \<in> set calls. is_edit c \<Longrightarrow> revision_tables (fold run_call calls d) = revision_tables d"
proof (induction calls arbitrary: d)
  case (Cons c calls)
  have "revision_tables (run_call c d) = revision_tables d"
    using tracked.run_edit [of c d d] Cons.prems by (simp add: tracked_def)
  with Cons show ?case by simp
qed simp

lemma edits_keep_db_ok: "db_ok d \<Longrightarrow> db_ok (fold run_call calls d)"
proof (induction calls arbitrary: d)
  case (Cons c calls)
  have "db_ok (run_call c d)" using run_call_advanced [OF Cons.prems, of c] by (simp add: advanced_def)
  with Cons.IH show ?case by simp
qed simp

lemma created_revision:
  assumes "db_ok d" and "Revision_Create r d = (d1, Inr a)" and "\<forall>c \<in> set calls. is_edit c"
  shows "t_revisions (fold run_call calls d1) = t_revisions d @ [a]"
    and "db_ok (fold run_call calls d1)" and "\<forall>q \<in> set (t_revisions d). Number q < Number a"
    and "ConfigRevision_Validate a = None" and "\<exists>n h. a = r\<lparr>Number := n, StateHash := h\<rparr>"
proof -
  note c = Revision_Create_Inr [OF assms(2)]
  show "t_revisions (fold run_call calls d1) = t_revisions d @ [a]"
    using edits_keep_revisions [OF assms(3), of d1] c(5) by (simp add: revision_tables_def)
  have "db_ok (fst (Revision_Create r d))" by (rule db_ok_create [OF assms(1)])
  then show "db_ok (fold run_call calls d1)" using edits_keep_db_ok assms(2) by simp
  have "Number a = next_number d" using c(1) by auto
  then show "\<forall>q \<in> set (t_revisions d). Number q < Number a" using assms(1) by (simp add: db_ok_def)
  show "ConfigRevision_Validate a = None" by (rule c(2))
  show "\<exists>n h. a = r\<lparr>Number := n, StateHash := h\<rparr>" using c(1) by blast
qed

text \<open>C33. A revision that was created from a valid state can be restored after any edits of the desired
  state: the restore succeeds, whatever users, shares, credentials and secrets were added or removed meanwhile.\<close>

theorem created_revision_restores:
  assumes "db_ok d" and "well_formed_input input" and "MarshalConfigRevisionSnapshot input = Inr body"
    and "StateSnapshotJSON r = body" and "ValidationStatus r = RevisionValidationValid"
    and "Revision_Create r d = (d1, Inr a)" and "\<forall>c \<in> set calls. is_edit c"
  shows "\<exists>d2. RestoreState input (rev_ID r) (fold run_call calls d1) = (d2, Inr ())"
proof -
  note c = created_revision [OF assms(1,6,7)]
  have a: "rev_ID a = rev_ID r" "StateSnapshotJSON a = body" "ValidationStatus a = RevisionValidationValid"
    using c(5) assms(4,5) by auto
  have "body \<noteq> []" using assms(3)
    by (auto simp: MarshalConfigRevisionSnapshot_def json_marshal_def snapshot_json_def Let_def split: option.splits)
  moreover have "distinct (map rev_ID (t_revisions (fold run_call calls d1)))"
    using c(2) by (simp add: db_ok_def schema_ok_def revisions_ok_def)
  ultimately show ?thesis
    using RestoreState_ok [OF assms(2,3), of a "fold run_call calls d1" "rev_ID r"] a c(1) by simp
qed

lemma sample_state_hash: "\<exists>h. HashConfigRevisionStateSnapshot sample_snapshot_text = Inr h \<and> validSHA256 h"
proof -
  let ?i = "Snapshot_RuntimeConfigInput (NewConfigRevisionSnapshot sample_input)"
  have "ParseConfigRevisionSnapshot sample_snapshot_text = Inr ?i"
    unfolding sample_snapshot_text_def by (rule snapshot_roundtrip) (simp_all add: has_text_sample)
  moreover have "Snapshot_Validate (NewConfigRevisionSnapshot ?i) = None"
    by (simp add: snapshot_idempotent Snapshot_Validate_New)
  ultimately show ?thesis by (simp add: HashConfigRevisionStateSnapshot_def HashConfigRevisionState_def Let_def)
qed

lemma sample_snapshot_json: "json_valid sample_snapshot_text"
proof -
  have "ParseConfigRevisionSnapshot sample_snapshot_text \<noteq> Inl e" for e
    unfolding sample_snapshot_text_def by (subst snapshot_roundtrip) (simp_all add: has_text_sample)
  then show ?thesis
    by (cases "json_parse sample_snapshot_text")
       (auto simp: json_valid_def ParseConfigRevisionSnapshot_def sample_snapshot_not_empty)
qed

lemma create_restorable:
  "\<exists>d1 a. Revision_Create restorable_revision (empty_db t0) = (d1, Inr a)"
proof -
  obtain h where h: "HashConfigRevisionStateSnapshot sample_snapshot_text = Inr h" "validSHA256 h"
    using sample_state_hash by blast
  let ?r = "restorable_revision\<lparr>StateHash := h\<rparr>" and ?d = "empty_db t0"
  have f: "fingerprint restorable_revision = Inr ?r"
    using h by (simp add: fingerprint_def restorable_revision_def sample_revision_def sample_snapshot_not_empty)
  have "ConfigRevision_Validate ((sample_revision (user_ID bob) ''{}'')\<lparr>Number := 1\<rparr>) = None"
    by (rule sample_revision_valid) simp
  then have "ConfigRevision_Validate (?r\<lparr>Number := 1\<rparr>) = None"
    using h(2) sample_snapshot_json
    by (simp add: ConfigRevision_Validate_def Let_def restorable_revision_def sample_revision_def)
  then show ?thesis
    by (simp add: Revision_Create_def f transaction_def insert_revision_def set_runtime_state_def
        revision_exists_def Let_def empty_db_def)
qed

theorem created_revision_restores_witness:
  "\<exists>d1 a d2. Revision_Create restorable_revision (empty_db t0) = (d1, Inr a)
     \<and> RestoreState sample_input (user_ID bob) (fold run_call [CreateUser alice, CreateShare docs] d1) = (d2, Inr ())"
proof -
  obtain d1 a where one: "Revision_Create restorable_revision (empty_db t0) = (d1, Inr a)"
    using create_restorable by blast
  have "rev_ID restorable_revision = user_ID bob" "StateSnapshotJSON restorable_revision = sample_snapshot_text"
    "ValidationStatus restorable_revision = RevisionValidationValid"
    by (simp_all add: restorable_revision_def sample_revision_def)
  with created_revision_restores [OF db_ok_empty sample_well_formed sample_marshal _ _ one,
      of "[CreateUser alice, CreateShare docs]"] one show ?thesis by simp
qed

lemma newest_first_snoc:
  assumes "\<forall>q \<in> set rs. Number q < Number a"
  shows "newest_first (rs @ [a]) = a # newest_first rs"
  using assms
proof (induction rs)
  case (Cons q rs)
  then show ?case by (simp add: newest_first_def)
qed (simp add: newest_first_def)

text \<open>The lookup an apply makes before it creates a revision: a revision created from a state is found by
  the hashes of its configuration and state, after any edits of the desired state, and it is the newest one.\<close>

theorem created_revision_is_found:
  assumes "db_ok d" and "Revision_Create r d = (d1, Inr a)" and "ValidationStatus r = RevisionValidationValid"
    and "StateSnapshotJSON r \<noteq> []" and "storable (rev_CreatedAt r)" and "\<forall>c \<in> set calls. is_edit c"
  shows "FindByIdentity (ConfigHash a) (StateHash a) (fold run_call calls d1) = Inr (Some a)"
proof -
  note c = created_revision [OF assms(1,2,6)]
  have a: "restorable a" "scan_time (rev_CreatedAt a) = Inr (rev_CreatedAt a)"
    using c(5) assms(3-5) by (auto simp: restorable_def scan_time_storable)
  moreover have "ParseID (rev_ID a) = Inr (rev_ID a)"
    using c(4) by (intro ParseID_ok [of "''id''"]) (simp add: ConfigRevision_Validate_def Let_def)
  ultimately have "scanRevision a = Inr a" using c(4) by (simp add: scanRevision_def validated_def)
  then show ?thesis
    using a c(1) c(3) by (simp add: FindByIdentity_def newest_first_snoc query_row_def)
qed

theorem created_revision_is_found_witness:
  "\<exists>d1 a. Revision_Create restorable_revision (empty_db t0) = (d1, Inr a)
     \<and> FindByIdentity (ConfigHash a) (StateHash a) (fold run_call [CreateUser alice] d1) = Inr (Some a)"
proof -
  obtain d1 a where one: "Revision_Create restorable_revision (empty_db t0) = (d1, Inr a)"
    using create_restorable by blast
  have "ValidationStatus restorable_revision = RevisionValidationValid"
    "StateSnapshotJSON restorable_revision \<noteq> []" "storable (rev_CreatedAt restorable_revision)"
    by (simp_all add: restorable_revision_def sample_revision_def sample_snapshot_not_empty storable_t0)
  from created_revision_is_found [OF db_ok_empty one this, of "[CreateUser alice]"] one show ?thesis by simp
qed

section \<open>Texts that are read back\<close>

text \<open>The snapshot text stored with a revision is read back as the state it was made from, in its
  canonical order: parsing what was marshalled gives a valid state with the same identity, and marshalling that
  again gives the same text.\<close>

theorem revision_snapshot_is_read_back:
  assumes "well_formed_input input" and "has_text input"
  shows "\<exists>body canonical. MarshalConfigRevisionSnapshot input = Inr body \<and> ParseConfigRevisionSnapshot body = Inr canonical
     \<and> well_formed_input canonical \<and> HashConfigRevisionState canonical = HashConfigRevisionState input
     \<and> MarshalConfigRevisionSnapshot canonical = Inr body"
proof -
  let ?s = "NewConfigRevisionSnapshot input"
  let ?c = "Snapshot_RuntimeConfigInput ?s"
  have idem: "NewConfigRevisionSnapshot ?c = ?s" by (rule snapshot_idempotent)
  show ?thesis
    using snapshot_roundtrip [OF assms] assms(1)
    by (intro exI [of _ "json_marshal (snapshot_json ?s)"] exI [of _ ?c])
       (simp add: HashConfigRevisionState_def well_formed_snapshot idem MarshalConfigRevisionSnapshot_def Let_def)
qed

theorem revision_snapshot_is_read_back_witness:
  "\<exists>body canonical. MarshalConfigRevisionSnapshot sample_input = Inr body
     \<and> ParseConfigRevisionSnapshot body = Inr canonical"
  using revision_snapshot_is_read_back [OF sample_well_formed has_text_sample] by blast

end
