(* ===== verification/Document_Properties.thy ===== *)
theory Document_Properties
  imports Config_Import Secret_Store Snapshot_Roundtrip Sample
begin

text \<open>
  The properties of the interchange document and of the store of secrets: the limits the YAML check
  enforces, the export of a valid state, and the encryption round trip.
\<close>

section \<open>The limits of a document\<close>

text \<open>The measures the limits are about, and the trees without anything the daemon does not read.\<close>

fun nodes :: "yaml_node \<Rightarrow> nat" where
  "nodes (YMapping t ns) = Suc (sum_list (map nodes ns))"
| "nodes (YSequence t ns) = Suc (sum_list (map nodes ns))"
| "nodes (YDocument ns) = Suc (sum_list (map nodes ns))"
| "nodes (YScalar t v) = 1"
| "nodes YAlias = 1"

fun within :: "nat \<Rightarrow> yaml_node \<Rightarrow> bool" where
  "within k (YMapping t ns) \<longleftrightarrow> (\<forall>n \<in> set ns. 0 < k \<and> within (k - 1) n)"
| "within k (YSequence t ns) \<longleftrightarrow> (\<forall>n \<in> set ns. 0 < k \<and> within (k - 1) n)"
| "within k (YDocument ns) \<longleftrightarrow> (\<forall>n \<in> set ns. 0 < k \<and> within (k - 1) n)"
| "within k (YScalar t v) \<longleftrightarrow> True"
| "within k YAlias \<longleftrightarrow> True"

text \<open>The content of a mapping is keys and values in turn.\<close>

fun keys_of :: "yaml_node list \<Rightarrow> yaml_node list" where
  "keys_of (k # v # ns) = k # keys_of ns"
| "keys_of ns = ns"

definition is_scalar :: "yaml_node \<Rightarrow> bool" where
  "is_scalar n \<longleftrightarrow> (\<exists>t v. n = YScalar t v)"

fun scalar_text :: "yaml_node \<Rightarrow> string" where
  "scalar_text (YScalar t v) = v"
| "scalar_text n = []"

text \<open>Every key has a value, is a scalar, is not the merge key, and occurs once.\<close>

definition plain_keys :: "yaml_node list \<Rightarrow> bool" where
  "plain_keys ns \<longleftrightarrow> even (length ns) \<and> (\<forall>k \<in> set (keys_of ns). is_scalar k) \<and> ''<<'' \<notin> scalar_text ` set (keys_of ns)
     \<and> distinct (map scalar_text (keys_of ns))"

definition core_tag :: "string \<Rightarrow> bool" where
  "core_tag t \<longleftrightarrow> t \<in> {[], ''!!map'', ''!!seq'', ''!!str'', ''!!int'', ''!!bool'', ''!!null''}"

fun plain :: "yaml_node \<Rightarrow> bool" where
  "plain (YMapping t ns) \<longleftrightarrow> core_tag t \<and> plain_keys ns \<and> (\<forall>n \<in> set ns. plain n)"
| "plain (YSequence t ns) \<longleftrightarrow> core_tag t \<and> (\<forall>n \<in> set ns. plain n)"
| "plain (YDocument ns) \<longleftrightarrow> (\<forall>n \<in> set ns. plain n)"
| "plain (YScalar t v) \<longleftrightarrow> core_tag t"
| "plain YAlias \<longleftrightarrow> False"

lemma first_key: "k \<in> set (keys_of (k # ns))"
  by (cases ns) simp_all

lemma check_keys_iff:
  "check_keys seen ns = None \<longleftrightarrow> plain_keys ns \<and> seen \<inter> scalar_text ` set (keys_of ns) = {}"
proof (induction seen ns rule: check_keys.induct)
  case (2 seen t key v ns)
  then show ?case by (auto simp: plain_keys_def is_scalar_def)
qed (use first_key in \<open>fastforce simp: plain_keys_def is_scalar_def\<close>)+

lemma core_tag_iff: "core_tag t \<longleftrightarrow> t \<in> set allowedTags"
  by (auto simp: core_tag_def allowedTags_def)

lemma plain_nodes:
  "plain (YMapping t ns) \<longleftrightarrow> t \<in> set allowedTags \<and> check_keys {} ns = None \<and> (\<forall>n \<in> set ns. plain n)"
  "plain (YSequence t ns) \<longleftrightarrow> t \<in> set allowedTags \<and> (\<forall>n \<in> set ns. plain n)"
  "plain (YScalar t v) \<longleftrightarrow> t \<in> set allowedTags"
  by (simp_all add: core_tag_iff check_keys_iff)

declare plain.simps(1,2,4) [simp del] plain_nodes [simp]

lemma child_limits:
  fixes v N M k :: nat
  assumes "Suc v \<le> N" and "k \<le> M" and "ns = [] \<longrightarrow> below = 0"
  shows "(\<forall>n \<in> set ns. plain n \<and> Suc k \<le> M \<and> within (M - Suc k) n) \<and> (ns = [] \<or> Suc v + below \<le> N)
       \<and> c = Suc v + below
     \<longleftrightarrow> (\<forall>n \<in> set ns. plain n) \<and> Suc (v + below) \<le> N \<and> (\<forall>n \<in> set ns. 0 < M - k \<and> within (M - k - 1) n)
       \<and> c = Suc (v + below)"
proof -
  have "M - Suc k = M - k - 1" "Suc k \<le> M \<longleftrightarrow> 0 < M - k" by auto
  then show ?thesis using assms by (cases "ns = []") auto
qed

lemma inspect_iff:
  "inspectNode k n v = Inr c \<longleftrightarrow> plain n \<and> v + nodes n \<le> maximumNodes \<and> k \<le> maximumDepth
     \<and> within (maximumDepth - k) n \<and> c = v + nodes n"
  "inspectNodes k ns v = Inr c \<longleftrightarrow> (\<forall>n \<in> set ns. plain n \<and> k \<le> maximumDepth \<and> within (maximumDepth - k) n)
     \<and> (ns = [] \<or> v + sum_list (map nodes ns) \<le> maximumNodes) \<and> c = v + sum_list (map nodes ns)"
proof (induction k n v and k ns v arbitrary: c and c rule: inspectNode_inspectNodes.induct)
  case (3 k t ns v)
  show ?case
  proof (cases "Suc v > maximumNodes \<or> k > maximumDepth \<or> t \<notin> set allowedTags \<or> check_keys {} ns \<noteq> None")
    case False
    then have g: "\<not> (Suc v > maximumNodes \<or> k > maximumDepth)" "\<not> t \<notin> set allowedTags" "check_keys {} ns = None"
      by auto
    show ?thesis
      unfolding inspectNode.simps if_not_P [OF g(1)] if_not_P [OF g(2)] g(3) option.case 3 [OF g]
      using g by (subst child_limits) auto
  qed auto
next
  case (4 k t ns v)
  show ?case
  proof (cases "Suc v > maximumNodes \<or> k > maximumDepth \<or> t \<notin> set allowedTags")
    case False
    then have g: "\<not> (Suc v > maximumNodes \<or> k > maximumDepth)" "\<not> t \<notin> set allowedTags" by auto
    show ?thesis
      unfolding inspectNode.simps if_not_P [OF g(1)] if_not_P [OF g(2)] 4 [OF g]
      using g by (subst child_limits) auto
  qed auto
next
  case (5 k ns v)
  show ?case
  proof (cases "Suc v > maximumNodes \<or> k > maximumDepth")
    case g: False
    show ?thesis
      unfolding inspectNode.simps if_not_P [OF g] 5 [OF g] using g by (subst child_limits) auto
  qed auto
next
  case (7 k n ns v)
  have pos: "0 < nodes n" by (cases n) simp_all
  show ?case
  proof (cases "inspectNode k n v")
    case (Inl e)
    then have "\<not> (plain n \<and> v + nodes n \<le> maximumNodes \<and> k \<le> maximumDepth \<and> within (maximumDepth - k) n)"
      using 7(1) [of "v + nodes n"] by simp
    with Inl show ?thesis by auto
  next
    case (Inr c')
    with 7(1) have c': "plain n" "v + nodes n \<le> maximumNodes" "k \<le> maximumDepth"
      "within (maximumDepth - k) n" "c' = v + nodes n" by blast+
    then show ?thesis using 7(2) [OF Inr, of c] Inr by (cases "ns = []") (simp_all add: add.assoc)
  qed
qed auto

text \<open>C34. The check of an imported YAML tree accepts exactly the trees of at most 10000 nodes, nested at most
  64 deep, without aliases and without other tags than the seven of the core, whose mappings pair every key with a value and
  have scalar keys, each once and none of them the merge key; the count it keeps is the number of nodes.\<close>

theorem yaml_check_enforces_limits:
  "inspectNode 0 root 0 = Inr c \<longleftrightarrow>
     plain root \<and> nodes root \<le> 10000 \<and> within 64 root \<and> c = nodes root"
  by (simp add: inspect_iff maximumNodes_def maximumDepth_def)

section \<open>Export\<close>

lemma doc_stamp_valid: "validateTimeRange c doc_stamp u doc_stamp = None"
  by (simp add: doc_stamp_def validateTimeRange_None_iff IsZero_def)

lemma placeholder_valid: "validateID f placeholderID = None"
  by (simp add: placeholderID_def domain_eval)

lemma hash_placeholder: "trim_space ''not-exported'' = ''not-exported''" "\<not> contains_control ''not-exported''"
  by (simp_all add: str_eval)

lemma account_valid: "User_Validate u = None \<Longrightarrow> User_Validate (doc_account (Username u) e) = None"
  by (simp add: User_Validate_def doc_account_def placeholder_valid doc_stamp_valid hash_placeholder)

lemma directory_valid:
  "Share_Validate s = None \<Longrightarrow> doc_Name d = share_Name s \<Longrightarrow> doc_Slug d = Slug s \<Longrightarrow> doc_Path d = Path s
     \<Longrightarrow> Share_Validate (doc_directory d e) = None"
  by (simp add: Share_Validate_def doc_directory_def placeholder_valid doc_stamp_valid)

lemma checked_users:
  assumes "\<forall>u \<in> set us. doc_user_Enabled u \<noteq> None \<and> (\<forall>e. User_Validate (doc_account (doc_Username u) e) = None)"
    and "distinct (map (\<lambda>u. NormalizeUsername (doc_Username u)) us)"
    and "(\<lambda>u. NormalizeUsername (doc_Username u)) ` set us \<inter> seen = {}"
  shows "\<exists>s. for_each check_doc_user us seen = Inr s"
  using assms
proof (induction us arbitrary: seen)
  case (Cons u us)
  then show ?case by (cases "doc_user_Enabled u") (auto simp: check_doc_user_def Let_def)
qed simp

lemma checked_permissions:
  assumes "\<forall>(n, v) \<in> set ps. User_Validate (doc_account n True) = None \<and> ParsePermission v \<noteq> None"
    and "distinct (map (NormalizeUsername \<circ> fst) ps)" and "(NormalizeUsername \<circ> fst) ` set ps \<inter> seen = {}"
  shows "\<exists>s. for_each check_doc_permission ps seen = Inr s"
  using assms
proof (induction ps arbitrary: seen)
  case (Cons p ps)
  then show ?case by (cases p) (auto simp: check_doc_permission_def Let_def)
qed simp

lemma checked_shares:
  assumes "\<forall>s \<in> set ss. doc_share_Enabled s \<noteq> None \<and> (\<forall>e. Share_Validate (doc_directory s e) = None)
      \<and> (\<exists>t. for_each check_doc_permission (doc_Permissions s) {} = Inr t)"
    and "distinct (map doc_Slug ss)" and "doc_Slug ` set ss \<inter> seen = {}"
  shows "\<exists>s. for_each check_doc_share ss seen = Inr s"
  using assms
proof (induction ss arbitrary: seen)
  case (Cons s ss)
  then obtain t where "for_each check_doc_permission (doc_Permissions s) {} = Inr t" by auto
  with Cons show ?case by (cases "doc_share_Enabled s") (auto simp: check_doc_share_def)
qed simp

text \<open>The permissions of a share: one entry for each grant, under the name of its user.\<close>

definition exported_entry :: "user list \<Rightarrow> share_permission \<Rightarrow> string \<times> string" where
  "exported_entry us p =
     (the (map_of (map (\<lambda>u. (user_ID u, Username u)) us) (perm_UserID p)), the (PermissionValue (Permission p)))"

lemma valid_permission_value: "Permission_Valid k \<Longrightarrow> \<exists>v. PermissionValue k = Some v \<and> ParsePermission v = Some k"
  by (auto simp: Permission_Valid_def PermissionValue_def ParsePermission_def)

lemma update_fresh: "k \<notin> fst ` set al \<Longrightarrow> AList.update k v al = al @ [(k, v)]"
  by (induction al) auto

lemma name_of_user:
  assumes "distinct (map user_ID us)" and "u \<in> set us"
  shows "map_of (map (\<lambda>u. (user_ID u, Username u)) us) (user_ID u) = Some (Username u)"
    and "map_of (rev (map (\<lambda>u. (user_ID u, Username u)) us)) (user_ID u) = Some (Username u)"
  using assms by (auto intro!: map_of_is_SomeI simp: comp_def rev_map [symmetric])

lemma exported_permissions:
  assumes us: "distinct (map user_ID us)" "distinct (map UsernameNormalized us)"
      "\<forall>u \<in> set us. UsernameNormalized u = NormalizeUsername (Username u)"
    and "\<forall>p \<in> set ps. Permission_Valid (Permission p) \<and> perm_UserID p \<in> user_ID ` set us"
    and "distinct (map perm_UserID ps)"
    and "\<forall>p \<in> set ps. fst (exported_entry us p) \<notin> fst ` set acc"
  shows "for_each (export_permission (rev (map (\<lambda>u. (user_ID u, Username u)) us))) ps acc
     = Inr (acc @ map (exported_entry us) ps)"
  using assms(4-)
proof (induction ps arbitrary: acc)
  case (Cons p ps)
  then obtain u where u: "u \<in> set us" "perm_UserID p = user_ID u" by auto
  obtain v where v: "PermissionValue (Permission p) = Some v"
    using Cons.prems(1) valid_permission_value by auto
  note names = name_of_user [OF us(1) u(1)]
  have e: "exported_entry us p = (Username u, v)" by (simp add: exported_entry_def u(2) names(1) v)
  have "fst (exported_entry us q) \<noteq> Username u" if q: "q \<in> set ps" for q
  proof -
    obtain w where w: "w \<in> set us" "perm_UserID q = user_ID w" using Cons.prems(1) q by auto
    have "perm_UserID q \<noteq> perm_UserID p" using Cons.prems(2) q by (metis distinct_map_insert image_eqI)
    then have "w \<noteq> u" using u w by auto
    then have "UsernameNormalized w \<noteq> UsernameNormalized u" using distinct_map_eq [OF us(2) w(1) u(1)] by blast
    then have "Username w \<noteq> Username u" using us(3) u(1) w(1) by auto
    then show ?thesis by (simp add: exported_entry_def w(2) name_of_user(1) [OF us(1) w(1)])
  qed
  with Cons e show ?case
    by (simp add: export_permission_def u(2) names(2) v update_fresh)
qed simp

definition exported_share :: "user list \<Rightarrow> share_with_permissions \<Rightarrow> doc_share" where
  "exported_share us item =
     \<lparr>doc_Name = share_Name (Share item), doc_Slug = Slug (Share item), doc_Path = Path (Share item),
      doc_share_Enabled = Some (share_Enabled (Share item)),
      doc_Permissions = map (exported_entry us) (Permissions item)\<rparr>"

lemma exported_shares:
  assumes us: "distinct (map user_ID us)" "distinct (map UsernameNormalized us)"
      "\<forall>u \<in> set us. UsernameNormalized u = NormalizeUsername (Username u)"
    and "\<forall>s \<in> set ss. well_formed_permissions (user_ID ` set us) (share_ID (Share s)) (Permissions s)"
  shows "for_each (export_share (rev (map (\<lambda>u. (user_ID u, Username u)) us))) ss acc
     = Inr (acc @ map (exported_share us) ss)"
  using assms(4)
proof (induction ss arbitrary: acc)
  case (Cons s ss)
  have "for_each (export_permission (rev (map (\<lambda>u. (user_ID u, Username u)) us))) (Permissions s) []
      = Inr ([] @ map (exported_entry us) (Permissions s))"
    using Cons.prems by (intro exported_permissions us)
      (auto simp: well_formed_permissions_def SharePermission_Validate_def split: if_splits)
  with Cons show ?case by (simp add: export_share_def exported_share_def)
qed simp

lemma exported_tls:
  assumes "well_formed_input input" and "TLSProfile input = Some p"
  shows "\<exists>t. export_tls input p = Inr t \<and> TLSProfile_Validate (doc_profile t) = None"
proof (cases "DNSProviderID p")
  case None
  then show ?thesis using assms
    by (auto simp: export_tls_def well_formed_input_def TLSProfile_Validate_None_iff doc_profile_def
        placeholder_valid doc_stamp_valid)
next
  case (Some i)
  then have "i \<in> dns_ID ` set (DNSProviderCredentials input)" using assms by (simp add: well_formed_input_def)
  then obtain c where c: "find (\<lambda>c. dns_ID c = i) (DNSProviderCredentials input) = Some c"
    by (cases "find (\<lambda>c. dns_ID c = i) (DNSProviderCredentials input)") (auto simp: find_None_iff)
  then have "c \<in> set (DNSProviderCredentials input)" by (auto simp: find_Some_iff)
  then have "dns_Name c \<noteq> []"
    using assms(1) by (auto simp: well_formed_input_def DNSProviderCredential_Validate_def)
  then show ?thesis using assms Some c
    by (auto simp: export_tls_def well_formed_input_def TLSProfile_Validate_None_iff doc_profile_def
        placeholder_valid doc_stamp_valid)
qed

lemma exported_entries_checked:
  assumes us: "distinct (map user_ID us)" "distinct (map UsernameNormalized us)"
      "\<forall>u \<in> set us. UsernameNormalized u = NormalizeUsername (Username u)"
    and valid: "\<forall>u \<in> set us. User_Validate u = None"
    and ps: "well_formed_permissions (user_ID ` set us) sid ps"
  shows "\<exists>t. for_each check_doc_permission (map (exported_entry us) ps) {} = Inr t"
proof (rule checked_permissions)
  have entry: "\<exists>u v. u \<in> set us \<and> perm_UserID p = user_ID u \<and> exported_entry us p = (Username u, v)
      \<and> ParsePermission v \<noteq> None" if "p \<in> set ps" for p
  proof -
    have "perm_UserID p \<in> user_ID ` set us" and k: "Permission_Valid (Permission p)"
      using ps that by (simp_all add: well_formed_permissions_def SharePermission_Validate_def)
    then obtain u where u: "u \<in> set us" "perm_UserID p = user_ID u" by blast
    obtain v where "PermissionValue (Permission p) = Some v" "ParsePermission v = Some (Permission p)"
      using valid_permission_value [OF k] by blast
    with u name_of_user(1) [OF us(1) u(1)] show ?thesis by (auto simp: exported_entry_def)
  qed
  show "\<forall>(n, v) \<in> set (map (exported_entry us) ps). User_Validate (doc_account n True) = None \<and> ParsePermission v \<noteq> None"
  proof
    fix x assume "x \<in> set (map (exported_entry us) ps)"
    then obtain p where "p \<in> set ps" and x: "x = exported_entry us p" by auto
    then obtain u v where "u \<in> set us" "x = (Username u, v)" "ParsePermission v \<noteq> None"
      using entry [of p] by auto
    then show "case x of (n, v) \<Rightarrow> User_Validate (doc_account n True) = None \<and> ParsePermission v \<noteq> None"
      using valid account_valid by simp
  qed
  have "inj_on (\<lambda>p. NormalizeUsername (fst (exported_entry us p))) (set ps)"
  proof (rule inj_onI)
    fix p q assume p: "p \<in> set ps" and q: "q \<in> set ps"
      and same: "NormalizeUsername (fst (exported_entry us p)) = NormalizeUsername (fst (exported_entry us q))"
    obtain u w where u: "u \<in> set us" "perm_UserID p = user_ID u" "fst (exported_entry us p) = Username u"
      and w: "w \<in> set us" "perm_UserID q = user_ID w" "fst (exported_entry us q) = Username w"
      using entry [OF p] entry [OF q] by (metis fst_conv)
    with same us(3) have "UsernameNormalized u = UsernameNormalized w" by simp
    then have "u = w" using distinct_map_eq [OF us(2) u(1) w(1)] by blast
    then have "perm_UserID p = perm_UserID q" using u w by simp
    moreover have "distinct (map perm_UserID ps)" using ps by (simp add: well_formed_permissions_def)
    ultimately show "p = q" using distinct_map_eq p q by metis
  qed
  moreover have "distinct ps" using ps by (auto simp: well_formed_permissions_def distinct_map)
  ultimately show "distinct (map (NormalizeUsername \<circ> fst) (map (exported_entry us) ps))"
    by (simp add: distinct_map comp_def)
qed simp

text \<open>Every valid state can be exported, and the document passes the validation an import starts with: it
  names every user and share once, in order, and grants are listed under user names.\<close>

theorem exported_document_validates:
  assumes "well_formed_input input"
  shows "\<exists>d. Export input = Inr d \<and> Document_Validate d = None
     \<and> set (doc_Shares d) = exported_share (Users input) ` set (Shares input)
     \<and> map doc_user_key (doc_Users d) = sort (map UsernameNormalized (Users input))
     \<and> sorted (map doc_Slug (doc_Shares d))"
proof -
  let ?us = "Users input" and ?ss = "Shares input"
  note w = assms [unfolded well_formed_input_def]
  have norm: "\<forall>u \<in> set ?us. UsernameNormalized u = NormalizeUsername (Username u)"
    using w by (auto simp: User_Validate_def)
  have us: "distinct (map user_ID ?us)" "distinct (map UsernameNormalized ?us)" using w by simp_all
  obtain tls where tls: "(case TLSProfile input of None \<Rightarrow> Inr None | Some p \<Rightarrow> map_sum id Some (export_tls input p)) = Inr tls"
    "Option.bind tls (\<lambda>t. TLSProfile_Validate (doc_profile t)) = None"
  proof (cases "TLSProfile input")
    case (Some p)
    then obtain t where "export_tls input p = Inr t" "TLSProfile_Validate (doc_profile t) = None"
      using exported_tls [OF assms Some] by blast
    with Some that [of "Some t"] show ?thesis by simp
  qed (use that [of None] in simp)
  let ?docs = "map (exported_share ?us) ?ss"
  let ?accounts = "map (\<lambda>u. \<lparr>doc_Username = Username u, doc_user_Enabled = Some (user_Enabled u)\<rparr>) ?us"
  have shares: "for_each (export_share (rev (map (\<lambda>u. (user_ID u, Username u)) ?us))) ?ss [] = Inr ?docs"
    using exported_shares [OF us norm, of ?ss "[]"] w by simp
  let ?server = "\<lparr>doc_PublicBasePath = PublicBasePath (ServerSettings input), doc_HTTPPort = HTTPPort (ServerSettings input),
      doc_HTTPSPort = HTTPSPort (ServerSettings input), doc_RuntimeMode = RuntimeMode (ServerSettings input)\<rparr>"
  let ?d = "\<lparr>Version = ConfigVersion, Server = Some ?server, TLS = tls,
      doc_Users = sort_key doc_user_key ?accounts, doc_Shares = sort_key doc_Slug ?docs\<rparr>"
  have e: "Export input = Inr ?d"
    by (simp add: Export_def tls(1) shares normalizeDocument_def)
  have keys: "map (\<lambda>u. NormalizeUsername (doc_Username u)) ?accounts = map UsernameNormalized ?us"
    using norm by simp
  have "ServerSettings_Validate (doc_settings ?server) = None"
    using w by (simp add: ServerSettings_Validate_def doc_settings_def placeholder_valid doc_stamp_valid)
  moreover have "\<exists>s. for_each check_doc_user (sort_key doc_user_key ?accounts) {} = Inr s"
  proof (rule checked_users)
    show "\<forall>u \<in> set (sort_key doc_user_key ?accounts). doc_user_Enabled u \<noteq> None
        \<and> (\<forall>e. User_Validate (doc_account (doc_Username u) e) = None)"
      using w account_valid by auto
    show "distinct (map (\<lambda>u. NormalizeUsername (doc_Username u)) (sort_key doc_user_key ?accounts))"
      unfolding distinct_map_sort_key keys by (rule us)
  qed simp
  moreover have "\<exists>s. for_each check_doc_share (sort_key doc_Slug ?docs) {} = Inr s"
  proof (rule checked_shares)
    show "\<forall>s \<in> set (sort_key doc_Slug ?docs). doc_share_Enabled s \<noteq> None
        \<and> (\<forall>e. Share_Validate (doc_directory s e) = None)
        \<and> (\<exists>t. for_each check_doc_permission (doc_Permissions s) {} = Inr t)"
    proof
      fix s assume "s \<in> set (sort_key doc_Slug ?docs)"
      then obtain item where i: "item \<in> set ?ss" and s: "s = exported_share ?us item" by auto
      have "\<exists>t. for_each check_doc_permission (doc_Permissions s) {} = Inr t"
        using exported_entries_checked [where ps = "Permissions item" and sid = "share_ID (Share item)", OF us norm] w i
        by (simp add: s exported_share_def)
      moreover have "Share_Validate (doc_directory s e) = None" for e
        using w i by (intro directory_valid [of "Share item"]) (simp_all add: s exported_share_def)
      ultimately show "doc_share_Enabled s \<noteq> None \<and> (\<forall>e. Share_Validate (doc_directory s e) = None)
          \<and> (\<exists>t. for_each check_doc_permission (doc_Permissions s) {} = Inr t)"
        by (simp add: s exported_share_def)
    qed
    show "distinct (map doc_Slug (sort_key doc_Slug ?docs))"
      using w by (simp add: exported_share_def comp_def)
  qed simp
  ultimately have "Document_Validate ?d = None"
    using tls(2) by (auto simp: Document_Validate_def)
  moreover have "map doc_user_key (sort_key doc_user_key ?accounts) = sort (map UsernameNormalized ?us)"
    unfolding keys [symmetric] by (intro properties_for_sort [symmetric]) (simp_all add: doc_user_key_def [abs_def] multiset.map_comp comp_def)
  ultimately show ?thesis using e by (intro exI [of _ ?d]) simp
qed

theorem exported_document_validates_witness:
  "\<exists>d. Export sample_input = Inr d \<and> Document_Validate d = None"
  using exported_document_validates [OF sample_well_formed] by blast

section \<open>Secrets\<close>

definition secret_text :: "dns_secret \<Rightarrow> bool" where
  "secret_text secret \<longleftrightarrow> distinct (map fst secret) \<and> (\<forall>(k, v) \<in> set secret. valid_utf8 k \<and> valid_utf8 v)"

lemma decode_secret_json:
  assumes "secret_text secret"
  shows "decode_secret (json_marshal (secret_json secret)) = Some (sort_key fst secret)"
proof -
  have flat: "foldr (\<lambda>x. max (depth (snd x))) (map (\<lambda>(k, v). (k, JStr v)) kvs) 0 = 0" for kvs
    by (induction kvs) auto
  have "json_parse (json_marshal (secret_json secret)) = Some (secret_json secret)"
    using assms
    by (intro json_roundtrip) (auto simp: secret_json_def sorted_object_def secret_text_def max_nesting_def list_all_iff comp_def flat)
  moreover have "decode_secret_members (map (\<lambda>(k, v). (k, JStr v)) (sort_key fst secret)) [] = Some (sort_key fst secret)"
    using assms by (subst decode_members) (auto simp: secret_text_def)
  ultimately show ?thesis by (simp add: decode_secret_def secret_json_def sorted_object_def)
qed

lemma map_of_updated:
  "map_of (update_where (\<lambda>s. fst s = i) (\<lambda>_. (i, c)) xs) j
     = (if j = i \<and> map_of xs i \<noteq> None then Some c else map_of xs j)"
  by (induction xs) (auto simp: update_where_def split: option.splits)

lemma upserted_secret:
  assumes "upsert_secret i c d = Inr d'"
  shows "map_of (t_secrets d') i = Some c" and "j \<noteq> i \<Longrightarrow> map_of (t_secrets d') j = map_of (t_secrets d) j"
proof -
  have "t_secrets d' = (if map_of (t_secrets d) i \<noteq> None
      then update_where (\<lambda>s. fst s = i) (\<lambda>_. (i, c)) (t_secrets d) else t_secrets d @ [(i, c)])"
    using assms by (auto simp: upsert_secret_def mark_dirty_def map_of_eq_None_iff split: if_splits)
  then show "map_of (t_secrets d') i = Some c" and "j \<noteq> i \<Longrightarrow> map_of (t_secrets d') j = map_of (t_secrets d) j"
    by (simp_all add: map_of_updated map_add_def split: option.splits)
qed

text \<open>C35. A secret that was stored is read back, field by field, whichever nonce was drawn, and the secrets of
  other credentials are unaffected; for any cipher that opens what it sealed under the same nonce.\<close>

theorem stored_secret_is_read_back:
  assumes "\<And>n p. Open a n (Seal a n p) = Some p" and "length nonce = NonceSize a"
    and "secret_text secret" and "Secret_Put a (Some nonce) i secret d = (d', None)"
  shows "\<exists>read. Secret_Get a i d' = Inr (Some read) \<and> map_of read = map_of secret
     \<and> (\<forall>j. j \<noteq> i \<longrightarrow> Secret_Get a j d' = Secret_Get a j d)"
proof -
  let ?c = "nonce @ Seal a nonce (json_marshal (secret_json secret))"
  have "upsert_secret i ?c d = Inr d'"
    using assms(4) by (auto simp: Secret_Put_def encrypt_def exec_def split: sum.splits)
  note stored = upserted_secret [OF this]
  have "decrypt a ?c = Inr (json_marshal (secret_json secret))"
    using assms(1,2) by (simp add: decrypt_def)
  then have "Secret_Get a i d' = Inr (Some (sort_key fst secret))"
    using stored by (simp add: Secret_Get_def decode_secret_json [OF assms(3)])
  moreover have "map_of (sort_key fst secret) = map_of secret"
    using assms(3) by (intro map_of_eqI) (auto simp: secret_text_def distinct_map)
  moreover have "Secret_Get a j d' = Secret_Get a j d" if "j \<noteq> i" for j
    using stored that by (simp add: Secret_Get_def)
  ultimately show ?thesis by blast
qed

theorem stored_secret_is_read_back_witness:
  "\<exists>d' read. Secret_Put plain_cipher (Some ''n'') (dns_ID sample_dns) [(''api_token'', ''t'')]
       ((empty_db t0)\<lparr>t_dns := [sample_dns]\<rparr>) = (d', None)
     \<and> Secret_Get plain_cipher (dns_ID sample_dns) d' = Inr (Some read) \<and> map_of read ''api_token'' = Some ''t''"
proof -
  let ?secret = "[(''api_token'', ''t'')]" and ?d = "(empty_db t0)\<lparr>t_dns := [sample_dns]\<rparr>"
  obtain d' where put: "Secret_Put plain_cipher (Some ''n'') (dns_ID sample_dns) ?secret ?d = (d', None)"
    by (auto simp: Secret_Put_def encrypt_def exec_def upsert_secret_def empty_db_def)
  have "valid_utf8 ''api_token''" "valid_utf8 ''t''"
    by (rule ascii_valid_utf8, simp add: ascii_def byte_of_def)+
  then have "secret_text ?secret" by (simp add: secret_text_def)
  from stored_secret_is_read_back [OF _ _ this put] put show ?thesis
    by (fastforce simp: plain_cipher_def)
qed

end
