(* ===== verification/Runtime_Manager.thy ===== *)
theory Runtime_Manager
  imports Dns_Registry "HOL-Library.AList"
begin

text \<open>
  The manager of the Caddy process (\<^verbatim>\<open>caddy/runtime.go\<close>, \<^verbatim>\<open>validator.go\<close>, \<^verbatim>\<open>environment.go\<close>).
  The record holds the manager's own fields together with what they stand for outside: the startup
  configuration file and the process itself.  The results of the operating system, of \<^verbatim>\<open>caddy validate\<close>
  and of Caddy's admin endpoint are arguments of an operation; only the managed process answers at
  the endpoint, so a call to it fails when the process is gone.  The mutex makes an operation one step;
  the process may exit between two steps, and during one where the code waits for it.
\<close>

section \<open>Errors\<close>

datatype runtime_error_code =
  CodeCaddyNotFound | CodeCaddyModuleMissing | CodeCaddyValidateFailed | CodeCaddyStartFailed
| CodeCaddyStopFailed | CodeCaddyReloadFailed | CodeRuntimeUnhealthy

text \<open>An error of the runtime, or another error an interface returned.\<close>

datatype runtime_error = RuntimeError runtime_error_code string | OtherError string

datatype runtime_state =
  RuntimeNotInstalled | RuntimeStopped | RuntimeStarting | RuntimeRunning | RuntimeStopping
| RuntimeDegraded | RuntimeFailed | RuntimeUnknown

section \<open>The environment of a process\<close>

text \<open>The assignments of \<^verbatim>\<open>os.Environ()\<close> whose text has an equals sign, later ones replacing earlier ones.\<close>

fun split_assignment :: "string \<Rightarrow> (string \<times> string) option" where
  "split_assignment [] = None"
| "split_assignment (c # cs) =
     (if c = CHR ''='' then Some ([], cs) else map_option (\<lambda>(k, v). (c # k, v)) (split_assignment cs))"

definition environ_values :: "string list \<Rightarrow> env" where
  "environ_values os =
     fold (\<lambda>value m. case split_assignment value of None \<Rightarrow> m | Some (k, v) \<Rightarrow> AList.update k v m) os []"

definition environmentWithOverrides :: "string list \<Rightarrow> env \<Rightarrow> string list" where
  "environmentWithOverrides os overrides =
     map (\<lambda>(k, v). k @ ''='' @ v)
       (sort_key fst (fold (\<lambda>(k, v) m. AList.update k v m) overrides (environ_values os)))"

text \<open>A Go map as an association list; looking up an absent key gives the empty string.\<close>

definition env_value :: "env \<Rightarrow> string \<Rightarrow> string" where
  "env_value e k = (case map_of e k of None \<Rightarrow> [] | Some v \<Rightarrow> v)"

definition cloneEnvironment :: "env \<Rightarrow> env" where
  "cloneEnvironment e = (if e = [] then [] else fold (\<lambda>(k, v) m. AList.update k v m) e [])"

section \<open>Validation and the configuration file\<close>

record validator =
  Validate :: "string \<Rightarrow> runtime_error option"
  ValidateWithEnvironment :: "(string \<Rightarrow> env \<Rightarrow> runtime_error option) option"

definition validateWithEnvironment :: "validator \<Rightarrow> string \<Rightarrow> env \<Rightarrow> runtime_error option" where
  "validateWithEnvironment v configuration environment =
     (case ValidateWithEnvironment v of
        Some f \<Rightarrow> f configuration environment
      | None \<Rightarrow> Validate v configuration)"

text \<open>The system calls of a validation: each succeeded or not; \<open>run_validate\<close> is \<^verbatim>\<open>caddy validate\<close> under
  the environment it is given.\<close>

record validation_calls =
  binary_found :: bool
  directory_made :: bool
  directory_secured :: bool
  file_created :: bool
  file_secured :: bool
  file_written :: bool
  file_closed :: bool
  run_validate :: "string \<Rightarrow> string list \<Rightarrow> bool"

definition validateBinary :: "bool \<Rightarrow> runtime_error option" where
  "validateBinary found =
     (if found then None else Some (RuntimeError CodeCaddyNotFound ''Caddy binary was not found''))"

definition binary_validate ::
  "string list \<Rightarrow> bool \<Rightarrow> validation_calls \<Rightarrow> string \<Rightarrow> env \<Rightarrow> runtime_error option" where
  "binary_validate os own_directory calls configuration environment = first_err
     [validateBinary (binary_found calls),
      fail_if (\<not> directory_made calls)
        (RuntimeError CodeCaddyValidateFailed ''Unable to prepare Caddy validation''),
      fail_if (own_directory \<and> \<not> directory_secured calls)
        (RuntimeError CodeCaddyValidateFailed ''Unable to secure Caddy validation directory''),
      fail_if (\<not> file_created calls)
        (RuntimeError CodeCaddyValidateFailed ''Unable to prepare Caddy validation''),
      fail_if (\<not> file_secured calls)
        (RuntimeError CodeCaddyValidateFailed ''Unable to secure Caddy validation file''),
      fail_if (\<not> file_written calls)
        (RuntimeError CodeCaddyValidateFailed ''Unable to prepare Caddy validation''),
      fail_if (\<not> file_closed calls)
        (RuntimeError CodeCaddyValidateFailed ''Unable to prepare Caddy validation''),
      fail_if (\<not> run_validate calls configuration (environmentWithOverrides os environment))
        (RuntimeError CodeCaddyValidateFailed ''Caddy rejected the generated configuration'')]"

definition BinaryValidator :: "string list \<Rightarrow> bool \<Rightarrow> validation_calls \<Rightarrow> validator" where
  "BinaryValidator os own_directory calls =
     \<lparr>Validate = (\<lambda>configuration. binary_validate os own_directory calls configuration []),
      ValidateWithEnvironment = Some (binary_validate os own_directory calls)\<rparr>"

text \<open>The seven calls that may fail, in order; the last one, the rename, replaces the file.\<close>

definition writeConfigAtomically :: "bool list \<Rightarrow> string \<Rightarrow> string option \<Rightarrow> string option \<times> bool" where
  "writeConfigAtomically calls configuration file =
     (if list_all id calls then (Some configuration, True) else (file, False))"

section \<open>The manager\<close>

datatype process_exit = ExitedNormally | ExitError | WaitError

text \<open>The process: the configuration it serves and the environment it was started with.\<close>

record caddy_process =
  serving :: string
  inherited :: env

record certificate_renewal =
  renewal_serial :: nat
  renewal_hostname :: string
  oldFingerprint :: string
  renewal_state :: string
  renewal_message :: string
  renewal_error :: string

text \<open>
  \<open>command\<close>: \<^verbatim>\<open>m.command != nil\<close>.  \<open>done_chan\<close>: \<open>None\<close> for the nil channel, otherwise the exit value in the
  buffer, if any.  A renewal is told from a later one for the same host by its serial number (the code
  compares pointers); \<open>cancelled\<close> holds the renewals whose context was cancelled.
\<close>

record runtime_manager =
  command :: bool
  done_chan :: "process_exit option option"
  lastErrorCode :: "runtime_error_code option"
  environment :: env
  renewals :: "(string \<times> certificate_renewal) list"
  next_serial :: nat
  cancelled :: "nat set"
  config_file :: "string option"
  process :: "caddy_process option"

definition NewRuntimeManager :: "string option \<Rightarrow> runtime_manager" where
  "NewRuntimeManager file =
     \<lparr>command = False, done_chan = None, lastErrorCode = None, environment = [], renewals = [],
      next_serial = 0, cancelled = {}, config_file = file, process = None\<rparr>"

text \<open>\<^verbatim>\<open>runningLocked\<close>: it takes the exit value out of the channel.\<close>

definition runningLocked :: "runtime_manager \<Rightarrow> runtime_manager \<times> bool" where
  "runningLocked m =
     (if \<not> command m then (m, False)
      else case done_chan m of
        None \<Rightarrow> (m, False)
      | Some (Some e) \<Rightarrow> (m\<lparr>done_chan := Some None\<rparr>, False)
      | Some None \<Rightarrow> (m, True))"

definition cancelRenewalsLocked :: "runtime_manager \<Rightarrow> runtime_manager" where
  "cancelRenewalsLocked m =
     m\<lparr>renewals := [], cancelled := cancelled m \<union> renewal_serial ` snd ` set (renewals m)\<rparr>"

definition recordFailure :: "runtime_error \<Rightarrow> runtime_manager \<Rightarrow> runtime_manager \<times> runtime_error option" where
  "recordFailure err m =
     (m\<lparr>lastErrorCode := Some (case err of RuntimeError code _ \<Rightarrow> code | OtherError _ \<Rightarrow> CodeRuntimeUnhealthy)\<rparr>,
      Some err)"

definition fail_runtime ::
  "runtime_error_code \<Rightarrow> string \<Rightarrow> runtime_manager \<Rightarrow> runtime_manager \<times> runtime_error option" where
  "fail_runtime code message = recordFailure (RuntimeError code message)"

text \<open>The process exits by itself: the goroutine that waits for it sends the exit value.\<close>

definition process_exits :: "process_exit \<Rightarrow> runtime_manager \<Rightarrow> runtime_manager" where
  "process_exits e m =
     (if process m = None then m else m\<lparr>process := None, done_chan := Some (Some e)\<rparr>)"

definition kill_process :: "runtime_manager \<Rightarrow> runtime_manager" where
  "kill_process m = process_exits ExitError m"

section \<open>Starting\<close>

text \<open>One turn of the startup loop: the health request succeeds, or it fails and the process exits, the
  deadline passes, or the loop waits.  The deadline passes at the latest after the listed turns.\<close>

datatype poll = HealthOK | ProcessExited process_exit | DeadlinePassed | PollAgain

record runtime_calls =
  write_calls :: "bool list"
  spawn_ok :: bool
  polls :: "poll list"
  health_ok :: bool
  reload_ok :: bool
  stop_ok :: bool
  stop_wait :: "process_exit option"
  stop_canceled :: bool

definition startup_times_out :: "runtime_manager \<Rightarrow> runtime_manager \<times> runtime_error option" where
  "startup_times_out m =
     fail_runtime CodeRuntimeUnhealthy ''Caddy did not become healthy'' ((kill_process m)\<lparr>command := False\<rparr>)"

fun await_health :: "env \<Rightarrow> poll list \<Rightarrow> runtime_manager \<Rightarrow> runtime_manager \<times> runtime_error option" where
  "await_health env [] m = startup_times_out m"
| "await_health env (HealthOK # ps) m = (m\<lparr>lastErrorCode := None, environment := cloneEnvironment env\<rparr>, None)"
| "await_health env (ProcessExited e # ps) m =
     fail_runtime CodeCaddyStartFailed ''Caddy exited during startup''
       ((process_exits e m)\<lparr>done_chan := Some None, command := False\<rparr>)"
| "await_health env (DeadlinePassed # ps) m = startup_times_out m"
| "await_health env (PollAgain # ps) m = await_health env ps m"

definition StartWithEnvironment ::
  "validator \<Rightarrow> runtime_calls \<Rightarrow> string \<Rightarrow> env \<Rightarrow> runtime_manager \<Rightarrow> runtime_manager \<times> runtime_error option" where
  "StartWithEnvironment v calls configuration env m =
     (case runningLocked m of (m1, running) \<Rightarrow>
        if running then (m1, None)
        else
          let m2 = cancelRenewalsLocked m1 in
          case validateWithEnvironment v configuration env of Some err \<Rightarrow> recordFailure err m2
          | None \<Rightarrow>
              (case writeConfigAtomically (write_calls calls) configuration (config_file m2) of (file, written) \<Rightarrow>
                 let m3 = m2\<lparr>config_file := file\<rparr> in
                 if \<not> written then fail_runtime CodeCaddyStartFailed ''Unable to save Caddy configuration'' m3
                 else if \<not> spawn_ok calls then fail_runtime CodeCaddyStartFailed ''Unable to start Caddy'' m3
                 else await_health env (polls calls)
                        (m3\<lparr>command := True, done_chan := Some None,
                            process := Some \<lparr>serving = configuration, inherited = env\<rparr>\<rparr>)))"

definition Start ::
  "validator \<Rightarrow> runtime_calls \<Rightarrow> string \<Rightarrow> runtime_manager \<Rightarrow> runtime_manager \<times> runtime_error option" where
  "Start v calls configuration m = StartWithEnvironment v calls configuration [] m"

definition EnvironmentMatches :: "env \<Rightarrow> runtime_manager \<Rightarrow> runtime_manager \<times> bool" where
  "EnvironmentMatches env m =
     (case runningLocked m of (m1, running) \<Rightarrow>
        (m1, running \<and> length (environment m1) = length env
             \<and> list_all (\<lambda>(k, v). env_value (environment m1) k = v) env))"

definition CurrentEnvironment :: "runtime_manager \<Rightarrow> env" where
  "CurrentEnvironment m = cloneEnvironment (environment m)"

section \<open>Reloading, stopping and the status\<close>

definition Reload ::
  "validator \<Rightarrow> runtime_calls \<Rightarrow> string \<Rightarrow> runtime_manager \<Rightarrow> runtime_manager \<times> runtime_error option" where
  "Reload v calls configuration m =
     (case runningLocked (cancelRenewalsLocked m) of (m1, running) \<Rightarrow>
        if \<not> running then fail_runtime CodeCaddyReloadFailed ''Caddy is not running'' m1
        else case Validate v configuration of Some err \<Rightarrow> recordFailure err m1
        | None \<Rightarrow>
            (case process m1 of
               Some p \<Rightarrow>
                 if \<not> reload_ok calls then fail_runtime CodeCaddyReloadFailed ''Caddy rejected the reload'' m1
                 else
                   let m2 = m1\<lparr>process := Some (p\<lparr>serving := configuration\<rparr>)\<rparr> in
                   (case writeConfigAtomically (write_calls calls) configuration (config_file m2) of (file, written) \<Rightarrow>
                      if \<not> written then fail_runtime CodeCaddyReloadFailed
                        ''Caddy reloaded but the startup configuration could not be saved'' m2
                      else (m2\<lparr>config_file := file, lastErrorCode := None\<rparr>, None))
             | None \<Rightarrow> fail_runtime CodeCaddyReloadFailed ''Caddy rejected the reload'' m1))"

text \<open>\<^verbatim>\<open>Stop\<close>.  When the admin endpoint accepted the request, the wait ends with the exit of the process, with the
  caller's context, or with the timer, after which the process is killed.  A process that is gone
  without an exit value in the channel is not waited for longer than the timer.\<close>

definition Stop_Runtime :: "runtime_calls \<Rightarrow> runtime_manager \<Rightarrow> runtime_manager \<times> runtime_error option" where
  "Stop_Runtime calls m =
     (case runningLocked (cancelRenewalsLocked m) of (m1, running) \<Rightarrow>
        if \<not> running then
          let m2 = (if command m1 \<and> done_chan m1 \<noteq> None then m1\<lparr>done_chan := Some None\<rparr> else m1)
          in (m2\<lparr>command := False, lastErrorCode := None\<rparr>, None)
        else if process m1 = None \<or> \<not> stop_ok calls then
          fail_runtime CodeCaddyStopFailed ''Unable to request Caddy shutdown'' m1
        else case stop_wait calls of
          Some e \<Rightarrow>
            let m2 = (process_exits e m1)\<lparr>done_chan := Some None, command := False\<rparr> in
            if e = WaitError then fail_runtime CodeCaddyStopFailed ''Caddy shutdown failed'' m2
            else (m2\<lparr>lastErrorCode := None\<rparr>, None)
        | None \<Rightarrow>
            if stop_canceled calls then fail_runtime CodeCaddyStopFailed ''Caddy shutdown was canceled'' m1
            else fail_runtime CodeCaddyStopFailed ''Caddy shutdown timed out''
                   ((kill_process m1)\<lparr>command := False\<rparr>))"

definition Restart_Runtime ::
  "validator \<Rightarrow> runtime_calls \<Rightarrow> runtime_calls \<Rightarrow> string \<Rightarrow> runtime_manager \<Rightarrow> runtime_manager \<times> runtime_error option" where
  "Restart_Runtime v stop start configuration m =
     (case Stop_Runtime stop m of (m1, Some err) \<Rightarrow> (m1, Some err)
      | (m1, None) \<Rightarrow> Start v start configuration m1)"

record runtime_snapshot =
  Caddy :: runtime_state
  WebDAV :: runtime_state
  LastErrorCode :: "runtime_error_code option"

definition StatusSnapshot :: "runtime_calls \<Rightarrow> runtime_manager \<Rightarrow> runtime_manager \<times> runtime_snapshot" where
  "StatusSnapshot calls m =
     (case runningLocked m of (m1, running) \<Rightarrow>
        if \<not> running then
          let state = (if lastErrorCode m1 = None then RuntimeStopped else RuntimeFailed)
          in (m1\<lparr>command := False\<rparr>, \<lparr>Caddy = state, WebDAV = state, LastErrorCode = lastErrorCode m1\<rparr>)
        else if process m1 = None \<or> \<not> health_ok calls then
          (m1, \<lparr>Caddy = RuntimeDegraded, WebDAV = RuntimeDegraded, LastErrorCode = Some CodeRuntimeUnhealthy\<rparr>)
        else (m1, \<lparr>Caddy = RuntimeRunning, WebDAV = RuntimeRunning, LastErrorCode = lastErrorCode m1\<rparr>))"

definition Status :: "runtime_calls \<Rightarrow> runtime_manager \<Rightarrow> runtime_manager \<times> runtime_state" where
  "Status calls m = (case StatusSnapshot calls m of (m1, s) \<Rightarrow> (m1, Caddy s))"

text \<open>The message a failure is logged with: at most 512 characters, none of them a control character.\<close>

definition safe_summary :: "string \<Rightarrow> string" where
  "safe_summary value = concat (map encode_rune
     (filter (\<lambda>r. \<not> (r < 32 \<or> r = 127)) (runes (trim_space value))))"

definition first_characters :: "nat \<Rightarrow> string \<Rightarrow> string" where
  "first_characters n value = (if length (runes value) > n then concat (map encode_rune (take n (runes value))) else value)"

definition safeRuntimeLogMessage :: "string \<Rightarrow> string" where
  "safeRuntimeLogMessage value =
     (let safe = safe_summary value in
      if length (runes safe) > 512 then first_characters 512 safe
      else if safe = [] then ''Managed Caddy runtime failed'' else safe)"

end
