(* ===== verification/App_Errors.thy ===== *)
theory App_Errors
  imports Runtime_Manager Database
begin

text \<open>
  The application's errors (\<^verbatim>\<open>app/errors.go\<close>) and the maps from repository errors to them.  A code is the
  text the API shows; the wrapped cause, which only logs see, is left out.  \<open>AppCode\<dots>\<close> are the codes whose
  name the domain's validation errors have too.
\<close>

datatype app_error = AppError (error_Code: string) (error_Message: string)

definition CodeUserNotFound :: string where "CodeUserNotFound = ''USER_NOT_FOUND''"
definition CodeUserAlreadyExists :: string where "CodeUserAlreadyExists = ''USER_ALREADY_EXISTS''"
definition AppCodeInvalidUsername :: string where "AppCodeInvalidUsername = ''INVALID_USERNAME''"
definition CodeInvalidPassword :: string where "CodeInvalidPassword = ''INVALID_PASSWORD''"
definition CodeDatabase :: string where "CodeDatabase = ''DATABASE_ERROR''"
definition CodeShareNotFound :: string where "CodeShareNotFound = ''SHARE_NOT_FOUND''"
definition CodeShareAlreadyExists :: string where "CodeShareAlreadyExists = ''SHARE_ALREADY_EXISTS''"
definition AppCodeInvalidShareName :: string where "AppCodeInvalidShareName = ''INVALID_SHARE_NAME''"
definition AppCodeInvalidShareSlug :: string where "AppCodeInvalidShareSlug = ''INVALID_SHARE_SLUG''"
definition AppCodeInvalidSharePath :: string where "AppCodeInvalidSharePath = ''INVALID_SHARE_PATH''"
definition CodeSharePathNotFound :: string where "CodeSharePathNotFound = ''SHARE_PATH_NOT_FOUND''"
definition CodeSharePathUnreadable :: string where "CodeSharePathUnreadable = ''SHARE_PATH_NOT_READABLE''"
definition CodeSharePathUnwritable :: string where "CodeSharePathUnwritable = ''SHARE_PATH_NOT_WRITABLE''"
definition AppCodeInvalidPermission :: string where "AppCodeInvalidPermission = ''INVALID_PERMISSION''"
definition CodeRevisionNotFound :: string where "CodeRevisionNotFound = ''REVISION_NOT_FOUND''"
definition CodeRevisionStateUnavailable :: string where "CodeRevisionStateUnavailable = ''REVISION_STATE_UNAVAILABLE''"
definition CodeRevisionActive :: string where "CodeRevisionActive = ''REVISION_ACTIVE''"
definition CodeRevisionDesired :: string where "CodeRevisionDesired = ''REVISION_DESIRED''"
definition CodeApplyInProgress :: string where "CodeApplyInProgress = ''CONFIG_APPLY_IN_PROGRESS''"
definition CodeTLSConfiguration :: string where "CodeTLSConfiguration = ''TLS_CONFIGURATION_ERROR''"
definition CodeTLSCertificate :: string where "CodeTLSCertificate = ''TLS_CERTIFICATE_NOT_FOUND''"
definition CodeTLSPrivateKey :: string where "CodeTLSPrivateKey = ''TLS_PRIVATE_KEY_NOT_FOUND''"
definition CodeTLSRenewalInProgress :: string where "CodeTLSRenewalInProgress = ''TLS_RENEWAL_IN_PROGRESS''"
definition CodeDNSCheckFailed :: string where "CodeDNSCheckFailed = ''DNS_CHECK_FAILED''"
definition CodeDNSProviderNotFound :: string where "CodeDNSProviderNotFound = ''DNS_PROVIDER_NOT_FOUND''"
definition CodeDNSProviderAlreadyExists :: string where "CodeDNSProviderAlreadyExists = ''DNS_PROVIDER_ALREADY_EXISTS''"
definition CodeDNSProviderInUse :: string where "CodeDNSProviderInUse = ''DNS_PROVIDER_IN_USE''"
definition AppCodeInvalidDNSProvider :: string where "AppCodeInvalidDNSProvider = ''INVALID_DNS_PROVIDER''"
definition CodeInvalidDNSProviderSecret :: string where "CodeInvalidDNSProviderSecret = ''INVALID_DNS_PROVIDER_SECRET''"
definition CodeDNSProviderSecretMissing :: string where "CodeDNSProviderSecretMissing = ''DNS_PROVIDER_SECRET_MISSING''"
definition CodeDNSProviderZoneNotAllowed :: string where "CodeDNSProviderZoneNotAllowed = ''DNS_PROVIDER_ZONE_NOT_ALLOWED''"
definition CodeConfigImportInvalid :: string where "CodeConfigImportInvalid = ''CONFIG_IMPORT_INVALID''"
definition CodeConfigVersionUnsupported :: string where "CodeConfigVersionUnsupported = ''CONFIG_VERSION_UNSUPPORTED''"
definition CodeConfigExportFailed :: string where "CodeConfigExportFailed = ''CONFIG_EXPORT_FAILED''"
definition CodeInvalidServerPorts :: string where "CodeInvalidServerPorts = ''INVALID_SERVER_PORTS''"
definition CodeServerPortUnavailable :: string where "CodeServerPortUnavailable = ''SERVER_PORT_UNAVAILABLE''"
definition CodeServerSettingsNotFound :: string where "CodeServerSettingsNotFound = ''SERVER_SETTINGS_NOT_FOUND''"

definition runtime_code :: "runtime_error_code \<Rightarrow> string" where
  "runtime_code code =
     (case code of
        CodeCaddyNotFound \<Rightarrow> ''CADDY_NOT_FOUND''
      | CodeCaddyModuleMissing \<Rightarrow> ''CADDY_MODULE_MISSING''
      | CodeCaddyValidateFailed \<Rightarrow> ''CADDY_VALIDATE_FAILED''
      | CodeCaddyStartFailed \<Rightarrow> ''CADDY_START_FAILED''
      | CodeCaddyStopFailed \<Rightarrow> ''CADDY_STOP_FAILED''
      | CodeCaddyReloadFailed \<Rightarrow> ''CADDY_RELOAD_FAILED''
      | CodeRuntimeUnhealthy \<Rightarrow> ''RUNTIME_UNHEALTHY'')"

definition databaseError :: app_error where
  "databaseError = AppError CodeDatabase ''Database operation failed''"

definition mapUserRepositoryError :: "db_error \<Rightarrow> app_error" where
  "mapUserRepositoryError err =
     (if err = ErrUserNotFound then AppError CodeUserNotFound ''User was not found''
      else if err = ErrUserAlreadyExists then AppError CodeUserAlreadyExists ''Username already exists''
      else databaseError)"

text \<open>An error of a share operation: the repository's, or what the path validator found.\<close>

datatype share_path_error = ErrSharePathNotFound | ErrSharePathUnreadable | ErrSharePathUnwritable | OtherPathError

definition mapShareError :: "db_error \<Rightarrow> app_error" where
  "mapShareError err =
     (if err = ErrShareNotFound then AppError CodeShareNotFound ''Share was not found''
      else if err = ErrShareAlreadyExists then AppError CodeShareAlreadyExists ''Share slug already exists''
      else databaseError)"

definition mapSharePathError :: "share_path_error \<Rightarrow> app_error" where
  "mapSharePathError err =
     (case err of
        ErrSharePathNotFound \<Rightarrow> AppError CodeSharePathNotFound ''Share directory does not exist''
      | ErrSharePathUnreadable \<Rightarrow> AppError CodeSharePathUnreadable ''Share directory is not readable''
      | ErrSharePathUnwritable \<Rightarrow> AppError CodeSharePathUnwritable ''Share directory is not writable''
      | OtherPathError \<Rightarrow> databaseError)"

definition mapDNSProviderRepositoryError :: "db_error \<Rightarrow> app_error" where
  "mapDNSProviderRepositoryError err =
     (if err = ErrDNSProviderNotFound
      then AppError CodeDNSProviderNotFound ''DNS provider credential was not found''
      else if err = ErrDNSProviderInUse
      then AppError CodeDNSProviderInUse ''DNS provider credential is still used by TLS''
      else databaseError)"

definition mapServerSettingsError :: "db_error \<Rightarrow> app_error" where
  "mapServerSettingsError err =
     (if err = ErrServerSettingsNotFound
      then AppError CodeServerSettingsNotFound ''Server settings were not found'' else databaseError)"

definition map_error :: "('e \<Rightarrow> app_error) \<Rightarrow> 'e + 'a \<Rightarrow> app_error + 'a" where
  "map_error f r = (case r of Inl e \<Rightarrow> Inl (f e) | Inr x \<Rightarrow> Inr x)"

text \<open>What the generators of an operation returned: an identifier or its failure, and the clock's times.\<close>

type_synonym new_ID = "ident option"

definition generated :: "new_ID \<Rightarrow> app_error + ident" where
  "generated i = (case i of None \<Rightarrow> Inl databaseError | Some x \<Rightarrow> Inr x)"

definition stamped :: "timestamp \<Rightarrow> app_error + timestamp" where
  "stamped now = map_error (\<lambda>_. databaseError) (NewTimestamp now)"

end
