(* ===== verification/Apply_Service.thy ===== *)
theory Apply_Service
  imports App_Errors Revision_Repository Compiler_Json
begin

text \<open>
  Applying the desired state (\<^verbatim>\<open>app/apply_service.go\<close>).  The service works on the revision store and the
  Caddy runtime through their interfaces, so the model takes them as records of operations over an
  arbitrary store state and an arbitrary runtime state; the results of the generators are arguments.
  A Go result that carries a revision beside an error is a pair of options.
\<close>

record 'd revision_store =
  st_Snapshot :: "'d \<Rightarrow> 'd \<times> (db_error + runtime_input)"
  st_Create :: "config_revision \<Rightarrow> 'd \<Rightarrow> 'd \<times> (db_error + config_revision)"
  st_FindByIdentity :: "string \<Rightarrow> string \<Rightarrow> 'd \<Rightarrow> 'd \<times> (db_error + config_revision option)"
  st_SetDesired :: "ident \<Rightarrow> 'd \<Rightarrow> 'd \<times> (db_error + unit)"
  st_MarkApplied :: "ident \<Rightarrow> 'd \<Rightarrow> 'd \<times> (db_error + unit)"
  st_MarkFailed :: "ident \<Rightarrow> string \<Rightarrow> string \<Rightarrow> 'd \<Rightarrow> 'd \<times> (db_error + unit)"
  st_RestoreState :: "runtime_input \<Rightarrow> ident \<Rightarrow> 'd \<Rightarrow> 'd \<times> (db_error + unit)"
  st_Delete :: "ident \<Rightarrow> 'd \<Rightarrow> 'd \<times> (db_error + unit)"
  st_Get :: "ident \<Rightarrow> 'd \<Rightarrow> 'd \<times> (db_error + config_revision)"
  st_Active :: "'d \<Rightarrow> 'd \<times> (db_error + config_revision option)"
  st_Environment :: "(runtime_input \<Rightarrow> 'd \<Rightarrow> 'd \<times> (app_error + env)) option"

text \<open>The runtime; the three optional interfaces are those the code asks for with a type assertion.\<close>

record 'r caddy_runtime =
  rt_Start :: "string \<Rightarrow> 'r \<Rightarrow> 'r \<times> runtime_error option"
  rt_Reload :: "string \<Rightarrow> 'r \<Rightarrow> 'r \<times> runtime_error option"
  rt_Stop :: "'r \<Rightarrow> 'r \<times> runtime_error option"
  rt_Status :: "'r \<Rightarrow> 'r \<times> runtime_state"
  rt_StartWithEnvironment :: "(string \<Rightarrow> env \<Rightarrow> 'r \<Rightarrow> 'r \<times> runtime_error option) option"
  rt_EnvironmentMatches :: "(env \<Rightarrow> 'r \<Rightarrow> 'r \<times> bool) option"
  rt_CurrentEnvironment :: "('r \<Rightarrow> env) option"

record ('d, 'r) apply_service =
  svc_store :: "'d revision_store"
  svc_runtime :: "'r caddy_runtime"
  svc_validator :: validator
  svc_AppVersion :: string

text \<open>The identifier and the two times one apply takes.\<close>

record apply_inputs =
  in_ID :: new_ID
  in_created :: timestamp
  in_stamp :: timestamp

section \<open>Small helpers\<close>

definition safeRuntimeFailure :: "runtime_error \<Rightarrow> runtime_error_code \<Rightarrow> string \<Rightarrow> string \<times> string" where
  "safeRuntimeFailure err fallback fallbackSummary =
     (let code = (case err of RuntimeError c _ \<Rightarrow> c | OtherError _ \<Rightarrow> fallback);
          message = (case err of RuntimeError _ m \<Rightarrow> m | OtherError _ \<Rightarrow> fallbackSummary);
          summary = first_characters 512 (safe_summary message)
      in (runtime_code code, if summary = [] then fallbackSummary else summary))"

definition runtime_app_error :: "runtime_error \<Rightarrow> runtime_error_code \<Rightarrow> string \<Rightarrow> app_error" where
  "runtime_app_error err fallback fallbackSummary =
     (case safeRuntimeFailure err fallback fallbackSummary of (code, summary) \<Rightarrow> AppError code summary)"

definition runtimeEnvironment ::
  "('d, 'r) apply_service \<Rightarrow> runtime_input \<Rightarrow> 'd \<Rightarrow> 'd \<times> (app_error + env)" where
  "runtimeEnvironment s input d =
     (case st_Environment (svc_store s) of None \<Rightarrow> (d, Inr []) | Some provider \<Rightarrow> provider input d)"

definition runtimeEnvironmentChanged :: "('d, 'r) apply_service \<Rightarrow> env \<Rightarrow> 'r \<Rightarrow> 'r \<times> bool" where
  "runtimeEnvironmentChanged s env r =
     (if env = [] then (r, False)
      else case rt_EnvironmentMatches (svc_runtime s) of
        None \<Rightarrow> (r, False)
      | Some matches \<Rightarrow> (case matches env r of (r', b) \<Rightarrow> (r', \<not> b)))"

definition currentRuntimeEnvironment :: "'r caddy_runtime \<Rightarrow> 'r \<Rightarrow> env" where
  "currentRuntimeEnvironment rt r = (case rt_CurrentEnvironment rt of None \<Rightarrow> [] | Some f \<Rightarrow> f r)"

definition startWithEnvironment :: "'r caddy_runtime \<Rightarrow> string \<Rightarrow> env \<Rightarrow> 'r \<Rightarrow> 'r \<times> runtime_error option" where
  "startWithEnvironment rt configuration env r =
     (case rt_StartWithEnvironment rt of
        Some start \<Rightarrow> start configuration env r
      | None \<Rightarrow> rt_Start rt configuration r)"

definition newRevision ::
  "('d, 'r) apply_service \<Rightarrow> apply_inputs \<Rightarrow> compiled_config \<Rightarrow> string \<Rightarrow> string \<Rightarrow> app_error + config_revision" where
  "newRevision s inputs compiled stateSnapshot stateHash =
     (case generated (in_ID inputs) of Inl e \<Rightarrow> Inl e
      | Inr i \<Rightarrow>
          (case stamped (in_created inputs) of Inl e \<Rightarrow> Inl e
           | Inr created \<Rightarrow> Inr
               \<lparr>rev_ID = i, Number = 0, rev_CreatedAt = created, ConfigJSON = compiled_JSON compiled,
                StateSnapshotJSON = stateSnapshot, ConfigHash = compiled_SHA256 compiled, StateHash = stateHash,
                ValidationStatus = RevisionValidationPending, ApplyStatus = RevisionApplyNotApplied,
                AppVersion = svc_AppVersion s, ErrorCode = [], ErrorSummary = []\<rparr>))"

section \<open>Activating a configuration\<close>

definition restart_runtime ::
  "'r caddy_runtime \<Rightarrow> string \<Rightarrow> env \<Rightarrow> string \<Rightarrow> env \<Rightarrow> 'r \<Rightarrow> 'r \<times> runtime_error option" where
  "restart_runtime rt configuration env previousConfiguration previousEnvironment r =
     (case rt_Stop rt r of (r1, Some err) \<Rightarrow> (r1, Some err)
      | (r1, None) \<Rightarrow>
          (case startWithEnvironment rt configuration env r1 of (r2, None) \<Rightarrow> (r2, None)
           | (r2, Some err) \<Rightarrow>
               if previousConfiguration = [] then (r2, Some err)
               else (fst (startWithEnvironment rt previousConfiguration previousEnvironment r2), Some err)))"

definition start_or_reload :: "'r caddy_runtime \<Rightarrow> string \<Rightarrow> env \<Rightarrow> 'r \<Rightarrow> 'r \<times> runtime_error option" where
  "start_or_reload rt configuration env r =
     (case rt_Status rt r of (r1, state) \<Rightarrow>
        if state \<in> {RuntimeStopped, RuntimeFailed, RuntimeUnknown, RuntimeNotInstalled}
        then startWithEnvironment rt configuration env r1
        else rt_Reload rt configuration r1)"

definition activate ::
  "'r caddy_runtime \<Rightarrow> string \<Rightarrow> env \<Rightarrow> bool \<Rightarrow> string \<Rightarrow> env \<Rightarrow> 'r \<Rightarrow> 'r \<times> runtime_error option" where
  "activate rt configuration env restart previousConfiguration previousEnvironment r =
     (if \<not> restart then start_or_reload rt configuration env r
      else case rt_Status rt r of (r1, state) \<Rightarrow>
        if state = RuntimeRunning
        then restart_runtime rt configuration env previousConfiguration previousEnvironment r1
        else start_or_reload rt configuration env r1)"

text \<open>\<open>activate\<close> and the health check that follows it.\<close>

definition activate_healthy ::
  "'r caddy_runtime \<Rightarrow> string \<Rightarrow> env \<Rightarrow> bool \<Rightarrow> string \<Rightarrow> env \<Rightarrow> 'r \<Rightarrow> 'r \<times> runtime_error option" where
  "activate_healthy rt configuration env restart previousConfiguration previousEnvironment r =
     (case activate rt configuration env restart previousConfiguration previousEnvironment r of
        (r1, Some err) \<Rightarrow> (r1, Some err)
      | (r1, None) \<Rightarrow>
          (case rt_Status rt r1 of (r2, state) \<Rightarrow>
             (r2, if state = RuntimeRunning then None
                  else Some (RuntimeError CodeRuntimeUnhealthy ''Caddy runtime health check failed''))))"

definition activateStart :: "'r caddy_runtime \<Rightarrow> string \<Rightarrow> env \<Rightarrow> 'r \<Rightarrow> 'r \<times> app_error option" where
  "activateStart rt configuration env r =
     (case startWithEnvironment rt configuration env r of
        (r1, Some err) \<Rightarrow> (r1, Some (runtime_app_error err CodeCaddyStartFailed ''Caddy could not start''))
      | (r1, None) \<Rightarrow>
          (case rt_Status rt r1 of (r2, state) \<Rightarrow>
             (r2, if state = RuntimeRunning then None
                  else Some (AppError (runtime_code CodeRuntimeUnhealthy) ''Caddy runtime health check failed''))))"

section \<open>Validating and applying\<close>

text \<open>What \<open>Validate\<close> and \<open>apply\<close> begin with: the snapshot, its configuration and its environment, accepted by
  \<^verbatim>\<open>caddy validate\<close>.\<close>

definition prepare ::
  "('d, 'r) apply_service \<Rightarrow> 'd \<Rightarrow> 'd \<times> (app_error + runtime_input \<times> compiled_config \<times> env)" where
  "prepare s d =
     (case st_Snapshot (svc_store s) d of (d1, Inl e) \<Rightarrow> (d1, Inl databaseError)
      | (d1, Inr snapshot) \<Rightarrow>
          (case Compile snapshot of
             Inl e \<Rightarrow> (d1, Inl (AppError (runtime_code CodeCaddyValidateFailed) ''Desired state could not be compiled''))
           | Inr compiled \<Rightarrow>
               (case runtimeEnvironment s snapshot d1 of (d2, Inl e) \<Rightarrow> (d2, Inl e)
                | (d2, Inr env) \<Rightarrow>
                    (d2, case validateWithEnvironment (svc_validator s) (compiled_JSON compiled) env of
                       Some err \<Rightarrow> Inl (runtime_app_error err CodeCaddyValidateFailed
                                         ''Caddy rejected the generated configuration'')
                     | None \<Rightarrow> Inr (snapshot, compiled, env)))))"

record validation_result =
  vr_Valid :: bool
  vr_ConfigHash :: string
  vr_Warnings :: "string list"

definition Apply_Validate :: "('d, 'r) apply_service \<Rightarrow> 'd \<Rightarrow> 'd \<times> (app_error + validation_result)" where
  "Apply_Validate s d =
     (case prepare s d of (d1, Inl e) \<Rightarrow> (d1, Inl e)
      | (d1, Inr (snapshot, compiled, env)) \<Rightarrow>
          (d1, Inr \<lparr>vr_Valid = True, vr_ConfigHash = compiled_SHA256 compiled, vr_Warnings = Warnings compiled\<rparr>))"

text \<open>The revision of a prepared state: the recorded one with the same identity, or a new one.\<close>

definition choose_revision ::
  "('d, 'r) apply_service \<Rightarrow> apply_inputs \<Rightarrow> runtime_input \<Rightarrow> compiled_config \<Rightarrow> 'd
     \<Rightarrow> 'd \<times> (app_error + config_revision \<times> bool)" where
  "choose_revision s inputs snapshot compiled d =
     (case MarshalConfigRevisionSnapshot snapshot of
        Inl e \<Rightarrow> (d, Inl (AppError CodeDatabase ''Desired state could not be snapshotted''))
      | Inr stateSnapshot \<Rightarrow>
          (case HashConfigRevisionState snapshot of
             Inl e \<Rightarrow> (d, Inl (AppError CodeDatabase ''Desired state could not be fingerprinted''))
           | Inr stateHash \<Rightarrow>
               (case st_FindByIdentity (svc_store s) (compiled_SHA256 compiled) stateHash d of
                  (d1, Inl e) \<Rightarrow> (d1, Inl databaseError)
                | (d1, Inr (Some revision)) \<Rightarrow> (d1, Inr (revision, False))
                | (d1, Inr None) \<Rightarrow>
                    (d1, case newRevision s inputs compiled stateSnapshot stateHash of
                           Inl e \<Rightarrow> Inl databaseError
                         | Inr revision \<Rightarrow>
                             Inr (revision\<lparr>ValidationStatus := RevisionValidationValid\<rparr>, True)))))"

text \<open>Create the revision, or make the recorded one the desired one.\<close>

definition record_desired ::
  "('d, 'r) apply_service \<Rightarrow> config_revision \<Rightarrow> bool \<Rightarrow> 'd \<Rightarrow> 'd \<times> (app_error + config_revision)" where
  "record_desired s revision created d =
     (if created then
        (case st_Create (svc_store s) revision d of
           (d1, Inl e) \<Rightarrow> (d1, Inl databaseError) | (d1, Inr r) \<Rightarrow> (d1, Inr r))
      else
        (case st_SetDesired (svc_store s) (rev_ID revision) d of
           (d1, Inl e) \<Rightarrow> (d1, Inl databaseError) | (d1, Inr _) \<Rightarrow> (d1, Inr revision)))"

type_synonym apply_result = "config_revision option \<times> app_error option"

text \<open>\<open>MarkFailed\<close> of a created revision, its error dropped.\<close>

definition note_failure ::
  "('d, 'r) apply_service \<Rightarrow> bool \<Rightarrow> config_revision \<Rightarrow> 'd \<Rightarrow> 'd" where
  "note_failure s created revision d =
     (if created
      then fst (st_MarkFailed (svc_store s) (rev_ID revision) CodeDatabase
                  ''Runtime activation metadata could not be saved'' d)
      else d)"

text \<open>The end of an apply when the runtime already serves the configuration.\<close>

definition finish_unchanged ::
  "('d, 'r) apply_service \<Rightarrow> config_revision \<Rightarrow> bool \<Rightarrow> 'd \<Rightarrow> 'd \<times> apply_result" where
  "finish_unchanged s revision created d =
     (case st_MarkApplied (svc_store s) (rev_ID revision) d of
        (d1, Inl e) \<Rightarrow> (note_failure s created revision d1, (Some revision, Some databaseError))
      | (d1, Inr _) \<Rightarrow> (d1, (Some (revision\<lparr>ApplyStatus := RevisionApplyApplied\<rparr>), None)))"

text \<open>The end of an apply whose activation failed, and of one whose activation succeeded.\<close>

definition finish_failed ::
  "('d, 'r) apply_service \<Rightarrow> config_revision \<Rightarrow> bool \<Rightarrow> runtime_error \<Rightarrow> 'd \<Rightarrow> 'd \<times> apply_result" where
  "finish_failed s revision created err d =
     (case safeRuntimeFailure err CodeCaddyReloadFailed ''Caddy could not apply the configuration'' of (code, summary) \<Rightarrow>
        if \<not> created then (d, (Some revision, Some (AppError code summary)))
        else case st_MarkFailed (svc_store s) (rev_ID revision) code summary d of
          (d1, Inl e) \<Rightarrow> (d1, (Some revision, Some databaseError))
        | (d1, Inr _) \<Rightarrow>
            (d1, (Some (revision\<lparr>ApplyStatus := RevisionApplyFailed, ErrorCode := code, ErrorSummary := summary\<rparr>),
                  Some (AppError code summary))))"

definition finish_activated ::
  "('d, 'r) apply_service \<Rightarrow> config_revision \<Rightarrow> bool \<Rightarrow> config_revision option \<Rightarrow> 'd \<times> 'r
     \<Rightarrow> ('d \<times> 'r) \<times> apply_result" where
  "finish_activated s revision created previous = (\<lambda>(d, r).
     (case st_MarkApplied (svc_store s) (rev_ID revision) d of
        (d1, Inr _) \<Rightarrow> ((d1, r), (Some (revision\<lparr>ApplyStatus := RevisionApplyApplied\<rparr>), None))
      | (d1, Inl e) \<Rightarrow>
          let r1 = (case previous of
                      Some p \<Rightarrow> fst (rt_Reload (svc_runtime s) (ConfigJSON p) r)
                    | None \<Rightarrow> fst (rt_Stop (svc_runtime s) r))
          in ((note_failure s created revision d1, r1), (Some revision, Some databaseError))))"

text \<open>The runtime's part of an apply, once the revision is the desired one.\<close>

definition previous_config :: "config_revision option \<Rightarrow> string" where
  "previous_config previous = (case previous of None \<Rightarrow> [] | Some p \<Rightarrow> ConfigJSON p)"

definition unchanged_and_running ::
  "('d, 'r) apply_service \<Rightarrow> config_revision option \<Rightarrow> compiled_config \<Rightarrow> bool \<Rightarrow> 'r \<Rightarrow> 'r \<times> bool" where
  "unchanged_and_running s previous compiled environmentChanged r =
     (case previous of None \<Rightarrow> (r, False)
      | Some p \<Rightarrow>
          if ConfigHash p \<noteq> compiled_SHA256 compiled then (r, False)
          else (case rt_Status (svc_runtime s) r of (r1, state) \<Rightarrow>
                  (r1, state = RuntimeRunning \<and> \<not> environmentChanged)))"

definition apply_to_runtime ::
  "('d, 'r) apply_service \<Rightarrow> config_revision \<Rightarrow> bool \<Rightarrow> config_revision option \<Rightarrow> compiled_config \<Rightarrow> env
     \<Rightarrow> 'd \<times> 'r \<Rightarrow> ('d \<times> 'r) \<times> apply_result" where
  "apply_to_runtime s revision created previous compiled env = (\<lambda>(d, r).
     (case runtimeEnvironmentChanged s env r of (r1, changed) \<Rightarrow>
      (case unchanged_and_running s previous compiled changed r1 of (r2, unchanged) \<Rightarrow>
         if unchanged then (case finish_unchanged s revision created d of (d1, res) \<Rightarrow> ((d1, r2), res))
         else
           (case activate_healthy (svc_runtime s) (compiled_JSON compiled) env changed (previous_config previous)
                   (currentRuntimeEnvironment (svc_runtime s) r2) r2 of
              (r3, Some err) \<Rightarrow> (case finish_failed s revision created err d of (d1, res) \<Rightarrow> ((d1, r3), res))
            | (r3, None) \<Rightarrow> finish_activated s revision created previous (d, r3)))))"

definition apply_state ::
  "('d, 'r) apply_service \<Rightarrow> apply_inputs \<Rightarrow> 'd \<times> 'r \<Rightarrow> ('d \<times> 'r) \<times> apply_result" where
  "apply_state s inputs = (\<lambda>(d, r).
     (case prepare s d of (d1, Inl e) \<Rightarrow> ((d1, r), (None, Some e))
      | (d1, Inr (snapshot, compiled, env)) \<Rightarrow>
     (case choose_revision s inputs snapshot compiled d1 of (d2, Inl e) \<Rightarrow> ((d2, r), (None, Some e))
      | (d2, Inr (revision, created)) \<Rightarrow>
     (case st_Active (svc_store s) d2 of (d3, Inl e) \<Rightarrow> ((d3, r), (None, Some databaseError))
      | (d3, Inr previous) \<Rightarrow>
     (case stamped (in_stamp inputs) of Inl e \<Rightarrow> ((d3, r), (None, Some e))
      | Inr stamp \<Rightarrow>
     (case record_desired s revision created d3 of (d4, Inl e) \<Rightarrow> ((d4, r), (None, Some e))
      | (d4, Inr recorded) \<Rightarrow> apply_to_runtime s recorded created previous compiled env (d4, r)))))))"

text \<open>The lock: an operation that finds it taken returns at once.\<close>

definition apply_in_progress :: app_error where
  "apply_in_progress = AppError CodeApplyInProgress ''Another configuration apply is in progress''"

definition Apply ::
  "('d, 'r) apply_service \<Rightarrow> bool \<Rightarrow> apply_inputs \<Rightarrow> 'd \<times> 'r \<Rightarrow> ('d \<times> 'r) \<times> apply_result" where
  "Apply s locked inputs x =
     (if locked then (x, (None, Some apply_in_progress)) else apply_state s inputs x)"

section \<open>Starting, stopping, restarting\<close>

text \<open>The active revision with the environment of its snapshot; without a readable one, an apply instead.\<close>

definition start_active ::
  "('d, 'r) apply_service \<Rightarrow> bool \<Rightarrow> apply_inputs \<Rightarrow> 'd \<times> 'r \<Rightarrow> ('d \<times> 'r) \<times> app_error option" where
  "start_active s stop_first inputs = (\<lambda>(d, r).
     (case st_Active (svc_store s) d of (d1, Inl e) \<Rightarrow> ((d1, r), Some databaseError)
      | (d1, Inr None) \<Rightarrow> (case apply_state s inputs (d1, r) of (x, (_, err)) \<Rightarrow> (x, err))
      | (d1, Inr (Some active)) \<Rightarrow>
          if StateSnapshotJSON active = [] then (case apply_state s inputs (d1, r) of (x, (_, err)) \<Rightarrow> (x, err))
          else (case ParseConfigRevisionSnapshot (StateSnapshotJSON active) of
             Inl e \<Rightarrow> (case apply_state s inputs (d1, r) of (x, (_, err)) \<Rightarrow> (x, err))
           | Inr input \<Rightarrow>
               (case runtimeEnvironment s input d1 of (d2, Inl e) \<Rightarrow> ((d2, r), Some e)
                | (d2, Inr env) \<Rightarrow>
                    (case (if stop_first then rt_Stop (svc_runtime s) r else (r, None)) of
                       (r1, Some err) \<Rightarrow> ((d2, r1), Some (runtime_app_error err CodeCaddyStopFailed ''Caddy could not stop''))
                     | (r1, None) \<Rightarrow>
                         (case activateStart (svc_runtime s) (ConfigJSON active) env r1 of (r2, err) \<Rightarrow>
                            ((d2, r2), err)))))))"

definition Apply_Start ::
  "('d, 'r) apply_service \<Rightarrow> bool \<Rightarrow> apply_inputs \<Rightarrow> 'd \<times> 'r \<Rightarrow> ('d \<times> 'r) \<times> app_error option" where
  "Apply_Start s locked inputs x =
     (if locked then (x, Some apply_in_progress) else start_active s False inputs x)"

definition Apply_Restart ::
  "('d, 'r) apply_service \<Rightarrow> bool \<Rightarrow> apply_inputs \<Rightarrow> 'd \<times> 'r \<Rightarrow> ('d \<times> 'r) \<times> app_error option" where
  "Apply_Restart s locked inputs x =
     (if locked then (x, Some apply_in_progress) else start_active s True inputs x)"

definition Apply_Stop :: "('d, 'r) apply_service \<Rightarrow> bool \<Rightarrow> 'd \<times> 'r \<Rightarrow> ('d \<times> 'r) \<times> app_error option" where
  "Apply_Stop s locked = (\<lambda>(d, r).
     if locked then ((d, r), Some apply_in_progress)
     else case rt_Stop (svc_runtime s) r of
       (r1, Some err) \<Rightarrow> ((d, r1), Some (runtime_app_error err CodeCaddyStopFailed ''Caddy could not stop''))
     | (r1, None) \<Rightarrow> ((d, r1), None))"

section \<open>Revisions\<close>

definition Apply_Get :: "('d, 'r) apply_service \<Rightarrow> ident \<Rightarrow> 'd \<Rightarrow> 'd \<times> (app_error + config_revision)" where
  "Apply_Get s i d =
     (case st_Get (svc_store s) i d of
        (d1, Inl e) \<Rightarrow> (d1, Inl (if e = ErrRevisionNotFound
                              then AppError CodeRevisionNotFound ''Revision was not found'' else databaseError))
      | (d1, Inr r) \<Rightarrow> (d1, Inr r))"

definition Apply_Delete :: "('d, 'r) apply_service \<Rightarrow> bool \<Rightarrow> ident \<Rightarrow> 'd \<Rightarrow> 'd \<times> app_error option" where
  "Apply_Delete s locked i d =
     (if locked then (d, Some apply_in_progress)
      else case st_Delete (svc_store s) i d of
        (d1, Inr _) \<Rightarrow> (d1, None)
      | (d1, Inl e) \<Rightarrow>
          (d1, Some (if e = ErrRevisionNotFound then AppError CodeRevisionNotFound ''Revision was not found''
             else if e = ErrRevisionActive
             then AppError CodeRevisionActive ''The active configuration revision cannot be deleted''
             else if e = ErrRevisionDesired
             then AppError CodeRevisionDesired ''The desired configuration revision cannot be deleted''
             else databaseError)))"

text \<open>What \<open>Restore\<close> checks before it touches the runtime.\<close>

definition prepare_restore ::
  "('d, 'r) apply_service \<Rightarrow> ident \<Rightarrow> 'd \<Rightarrow> 'd \<times> (app_error + config_revision \<times> runtime_input \<times> compiled_config \<times> env)" where
  "prepare_restore s i d =
     (case Apply_Get s i d of (d1, Inl e) \<Rightarrow> (d1, Inl e)
      | (d1, Inr revision) \<Rightarrow>
          if ValidationStatus revision \<noteq> RevisionValidationValid then
            (d1, Inl (AppError (runtime_code CodeCaddyValidateFailed) ''Only a valid configuration revision can be restored''))
          else if StateSnapshotJSON revision = [] then
            (d1, Inl (AppError CodeRevisionStateUnavailable ''This revision does not contain a complete application-state snapshot and cannot be safely restored''))
          else (case ParseConfigRevisionSnapshot (StateSnapshotJSON revision) of
             Inl e \<Rightarrow> (d1, Inl (AppError CodeRevisionStateUnavailable ''This revision contains an invalid application-state snapshot''))
           | Inr snapshot \<Rightarrow>
               (case Compile snapshot of
                  Inl e \<Rightarrow> (d1, Inl (AppError CodeRevisionStateUnavailable ''This revision cannot be safely restored because its application state and runtime configuration do not match''))
                | Inr compiled \<Rightarrow>
                    if compiled_SHA256 compiled \<noteq> ConfigHash revision \<or> compiled_JSON compiled \<noteq> ConfigJSON revision then
                      (d1, Inl (AppError CodeRevisionStateUnavailable ''This revision cannot be safely restored because its application state and runtime configuration do not match''))
                    else (case runtimeEnvironment s snapshot d1 of (d2, Inl e) \<Rightarrow> (d2, Inl e)
                       | (d2, Inr env) \<Rightarrow>
                           (d2, case validateWithEnvironment (svc_validator s) (compiled_JSON compiled) env of
                              Some err \<Rightarrow> Inl (runtime_app_error err CodeCaddyValidateFailed
                                                ''Caddy rejected the stored configuration revision'')
                            | None \<Rightarrow> Inr (revision, snapshot, compiled, env))))))"

text \<open>The runtime after a restore whose state could not be saved.\<close>

definition undo_restore ::
  "('d, 'r) apply_service \<Rightarrow> config_revision option \<Rightarrow> env \<Rightarrow> 'r \<Rightarrow> 'r" where
  "undo_restore s previous previousEnvironment r =
     (case previous of
        None \<Rightarrow> fst (rt_Stop (svc_runtime s) r)
      | Some p \<Rightarrow>
          (case rt_Status (svc_runtime s) r of (r1, state) \<Rightarrow>
             (case (if state = RuntimeRunning then runtimeEnvironmentChanged s previousEnvironment r1 else (r1, False)) of
                (r2, changed) \<Rightarrow>
                  if changed then
                    fst (startWithEnvironment (svc_runtime s) (ConfigJSON p) previousEnvironment
                           (fst (rt_Stop (svc_runtime s) r2)))
                  else fst (rt_Reload (svc_runtime s) (ConfigJSON p) r2))))"

definition Restore ::
  "('d, 'r) apply_service \<Rightarrow> bool \<Rightarrow> timestamp \<Rightarrow> ident \<Rightarrow> 'd \<times> 'r \<Rightarrow> ('d \<times> 'r) \<times> (app_error + config_revision)" where
  "Restore s locked now i = (\<lambda>(d, r).
     if locked then ((d, r), Inl apply_in_progress)
     else case prepare_restore s i d of (d1, Inl e) \<Rightarrow> ((d1, r), Inl e)
      | (d1, Inr (revision, snapshot, compiled, env)) \<Rightarrow>
     (case st_Active (svc_store s) d1 of (d2, Inl e) \<Rightarrow> ((d2, r), Inl databaseError)
      | (d2, Inr previous) \<Rightarrow>
          let previousEnvironment = currentRuntimeEnvironment (svc_runtime s) r in
     (case runtimeEnvironmentChanged s env r of (r1, changed) \<Rightarrow>
     (case activate_healthy (svc_runtime s) (compiled_JSON compiled) env changed (previous_config previous)
             previousEnvironment r1 of
        (r2, Some err) \<Rightarrow>
          ((d2, r2), Inl (runtime_app_error err CodeCaddyReloadFailed ''Caddy could not restore the configuration''))
      | (r2, None) \<Rightarrow>
     (case stamped now of Inl e \<Rightarrow> ((d2, r2), Inl e)
      | Inr stamp \<Rightarrow>
     (case st_RestoreState (svc_store s) snapshot (rev_ID revision) d2 of
        (d3, Inl e) \<Rightarrow> ((d3, undo_restore s previous previousEnvironment r2), Inl databaseError)
      | (d3, Inr _) \<Rightarrow>
          ((d3, r2), Inr (revision\<lparr>ApplyStatus := RevisionApplyApplied, ErrorCode := [], ErrorSummary := []\<rparr>))))))))"

end
