(* ===== verification/Apply_Contract.thy ===== *)
theory Apply_Contract
  imports Apply_Service
begin

text \<open>
  What applying relies on: the contract of the revision store, the contract of the runtime, and what an
  apply, a start and a restore guarantee over any store and any runtime that keep theirs.
\<close>

section \<open>The two contracts\<close>

text \<open>What is seen of a store: the identifiers and configuration hashes of the revisions, the desired and
  the active revision, and whether there are edits since the last revision was recorded.\<close>

record store_view =
  view_revisions :: "(ident \<times> string) list"
  view_desired :: "ident option"
  view_active :: "ident option"
  view_dirty :: bool

definition revision_entry :: "config_revision \<Rightarrow> ident \<times> string" where
  "revision_entry r = (rev_ID r, ConfigHash r)"

locale store_contract =
  fixes st :: "'d revision_store" and st_ok :: "'d \<Rightarrow> bool" and view :: "'d \<Rightarrow> store_view"
  assumes snapshot: "st_ok d \<Longrightarrow> st_Snapshot st d = (d', x) \<Longrightarrow> st_ok d' \<and> view d' = view d"
    and environment: "st_Environment st = Some f \<Longrightarrow> st_ok d \<Longrightarrow> f input d = (d', y) \<Longrightarrow> st_ok d' \<and> view d' = view d"
    and find: "st_ok d \<Longrightarrow> st_FindByIdentity st h sh d = (d', z) \<Longrightarrow> st_ok d' \<and> view d' = view d
          \<and> (\<forall>p. z = Inr (Some p) \<longrightarrow> ConfigHash p = h \<and> revision_entry p \<in> set (view_revisions (view d)))"
    and get: "st_ok d \<Longrightarrow> st_Get st i d = (d', g) \<Longrightarrow> st_ok d' \<and> view d' = view d
          \<and> (\<forall>p. g = Inr p \<longrightarrow> rev_ID p = i \<and> revision_entry p \<in> set (view_revisions (view d)))"
    and active: "st_ok d \<Longrightarrow> st_Active st d = (d', z) \<Longrightarrow> st_ok d' \<and> view d' = view d
          \<and> (\<forall>a. z = Inr a \<longrightarrow> map_option rev_ID a = view_active (view d)
               \<and> (\<forall>p. a = Some p \<longrightarrow> revision_entry p \<in> set (view_revisions (view d))))"
    and create: "st_ok d \<Longrightarrow> st_Create st r d = (d', g) \<Longrightarrow> st_ok d' \<and> (\<forall>e. g = Inl e \<longrightarrow> view d' = view d)
          \<and> (\<forall>c. g = Inr c \<longrightarrow> revision_entry c = revision_entry r
               \<and> view d' = (view d)\<lparr>view_revisions := view_revisions (view d) @ [revision_entry c],
                                    view_desired := Some (rev_ID c), view_dirty := False\<rparr>)"
    and set_desired: "st_ok d \<Longrightarrow> st_SetDesired st i d = (d', u) \<Longrightarrow> st_ok d'
          \<and> view d' = (if is_ok u then (view d)\<lparr>view_desired := Some i, view_dirty := False\<rparr> else view d)"
    and mark_applied: "st_ok d \<Longrightarrow> st_MarkApplied st i d = (d', u) \<Longrightarrow> st_ok d'
          \<and> view d' = (if is_ok u then (view d)\<lparr>view_desired := Some i, view_active := Some i, view_dirty := False\<rparr> else view d)"
    and mark_failed: "st_ok d \<Longrightarrow> st_MarkFailed st i code summary d = (d', u) \<Longrightarrow> st_ok d' \<and> view d' = view d"
    and restore_state: "st_ok d \<Longrightarrow> st_RestoreState st input i d = (d', u) \<Longrightarrow> st_ok d'
          \<and> view d' = (if is_ok u then (view d)\<lparr>view_desired := Some i, view_active := Some i, view_dirty := False\<rparr> else view d)"
    and unique: "st_ok d \<Longrightarrow> distinct (map fst (view_revisions (view d)))"

text \<open>What is seen of a runtime: the configuration the live process serves and its environment.\<close>

locale runtime_contract =
  fixes rt :: "'r caddy_runtime" and rt_ok :: "'r \<Rightarrow> bool" and live :: "'r \<Rightarrow> (string \<times> env) option"
  assumes status: "rt_ok r \<Longrightarrow> rt_Status rt r = (r', s) \<Longrightarrow> rt_ok r' \<and> live r' = live r
          \<and> (s = RuntimeRunning \<longrightarrow> live r \<noteq> None)
          \<and> (s \<in> {RuntimeStopped, RuntimeFailed, RuntimeUnknown, RuntimeNotInstalled} \<longrightarrow> live r = None)"
    and matches: "rt_EnvironmentMatches rt = Some f \<Longrightarrow> rt_ok r \<Longrightarrow> f env r = (r', b) \<Longrightarrow> rt_ok r' \<and> live r' = live r"
    and start: "rt_ok r \<Longrightarrow> startWithEnvironment rt c env r = (r', x) \<Longrightarrow> rt_ok r'
          \<and> (live r = None \<longrightarrow> x = None \<longrightarrow> live r' = Some (c, env)) \<and> (live r = None \<longrightarrow> x \<noteq> None \<longrightarrow> live r' = None)
          \<and> (live r \<noteq> None \<longrightarrow> live r' = live r)"
    and reload: "rt_ok r \<Longrightarrow> rt_Reload rt c r = (r', x) \<Longrightarrow> rt_ok r'
          \<and> (x = None \<longrightarrow> (\<exists>c0 env. live r = Some (c0, env) \<and> live r' = Some (c, env)))"
    and stop: "rt_ok r \<Longrightarrow> rt_Stop rt r = (r', x) \<Longrightarrow> rt_ok r' \<and> (x = None \<longrightarrow> live r' = None)"

text \<open>The live process serves the configuration of the active revision.\<close>

definition in_sync :: "store_view \<Rightarrow> (string \<times> env) option \<Rightarrow> bool" where
  "in_sync v l \<longleftrightarrow> (\<forall>c env. l = Some (c, env) \<longrightarrow>
     (\<exists>i. view_active v = Some i \<and> (i, HashConfigJSON c) \<in> set (view_revisions v)))"

section \<open>The runtime's part\<close>

context runtime_contract
begin

lemma changed:
  assumes "rt_ok r" and "svc_runtime s = rt" and "runtimeEnvironmentChanged s env r = (r', b)"
  shows "rt_ok r' \<and> live r' = live r"
proof (cases "env = [] \<or> rt_EnvironmentMatches rt = None")
  case True
  then show ?thesis using assms by (auto simp: runtimeEnvironmentChanged_def split: option.splits)
next
  case False
  then obtain f where f: "rt_EnvironmentMatches rt = Some f" by auto
  obtain r1 c where run: "f env r = (r1, c)" by fastforce
  then have "r' = r1" using assms(2,3) f False by (simp add: runtimeEnvironmentChanged_def)
  with matches [OF f assms(1) run] show ?thesis by simp
qed

lemma start_or_reload_live:
  assumes "rt_ok r" and "start_or_reload rt c env r = (r', x)"
  shows "rt_ok r' \<and> (x = None \<longrightarrow> (\<exists>env'. live r' = Some (c, env')))"
proof -
  obtain r1 s where s: "rt_Status rt r = (r1, s)" by fastforce
  note st = status [OF assms(1) s]
  show ?thesis
  proof (cases "s \<in> {RuntimeStopped, RuntimeFailed, RuntimeUnknown, RuntimeNotInstalled}")
    case True
    then have "startWithEnvironment rt c env r1 = (r', x)" using assms(2) s by (simp add: start_or_reload_def)
    from start [OF _ this] st True show ?thesis by auto
  next
    case False
    then have "rt_Reload rt c r1 = (r', x)" using assms(2) s by (simp add: start_or_reload_def)
    from reload [OF _ this] st show ?thesis by auto
  qed
qed

lemma restart_live:
  assumes "rt_ok r" and "restart_runtime rt c env pc pe r = (r', x)"
  shows "rt_ok r' \<and> (x = None \<longrightarrow> live r' = Some (c, env))"
proof -
  obtain r1 y where stop1: "rt_Stop rt r = (r1, y)" by fastforce
  note st = stop [OF assms(1) stop1]
  show ?thesis
  proof (cases y)
    case (Some err)
    then show ?thesis using assms(2) stop1 st by (auto simp: restart_runtime_def)
  next
    case None
    obtain r2 z where s: "startWithEnvironment rt c env r1 = (r2, z)" by fastforce
    note start1 = start [OF _ s]
    show ?thesis
    proof (cases z)
      case (Some err)
      obtain r3 w where "startWithEnvironment rt pc pe r2 = (r3, w)" by fastforce
      with start [OF _ this] start1 st show ?thesis
        using assms(2) stop1 s None Some by (auto simp: restart_runtime_def split: if_splits)
    qed (use assms(2) stop1 s None start1 st in \<open>auto simp: restart_runtime_def\<close>)
  qed
qed

lemma activate_live:
  assumes "rt_ok r" and "activate_healthy rt c env restart pc pe r = (r', x)"
  shows "rt_ok r' \<and> (x = None \<longrightarrow> (\<exists>env'. live r' = Some (c, env')))"
proof -
  obtain r1 y where a: "activate rt c env restart pc pe r = (r1, y)" by fastforce
  have ok: "rt_ok r1 \<and> (y = None \<longrightarrow> (\<exists>env'. live r1 = Some (c, env')))"
  proof (cases restart)
    case False
    then show ?thesis using a start_or_reload_live [OF assms(1)] by (simp add: activate_def)
  next
    case True
    obtain r0 s where s: "rt_Status rt r = (r0, s)" by fastforce
    have r0: "rt_ok r0" using status [OF assms(1) s] by simp
    show ?thesis
    proof (cases "s = RuntimeRunning")
      case t: True
      then have "restart_runtime rt c env pc pe r0 = (r1, y)" using a s True by (simp add: activate_def)
      from restart_live [OF r0 this] show ?thesis by blast
    next
      case f: False
      then have "start_or_reload rt c env r0 = (r1, y)" using a s True by (simp add: activate_def)
      from start_or_reload_live [OF r0 this] show ?thesis .
    qed
  qed
  obtain r2 s where s: "rt_Status rt r1 = (r2, s)" by fastforce
  show ?thesis
    using assms(2) a s ok status [of r1 r2 s] by (cases y) (auto simp: activate_healthy_def)
qed

lemma activateStart_ok:
  assumes "rt_ok r" and "activateStart rt c env r = (r', x)"
  shows "rt_ok r' \<and> (x = None \<longrightarrow> live r' \<noteq> None \<and> (live r = None \<longrightarrow> live r' = Some (c, env)))"
proof -
  obtain r1 y where s: "startWithEnvironment rt c env r = (r1, y)" by fastforce
  obtain r2 state where t: "rt_Status rt r1 = (r2, state)" by fastforce
  note st = start [OF assms(1) s]
  show ?thesis
    using assms(2) s t st status [of r1 r2 state]
    by (cases y) (auto simp: activateStart_def split: if_splits)
qed

end

section \<open>The store's part\<close>

context store_contract
begin

lemma runtimeEnvironment_view:
  assumes "st_ok d" and "svc_store s = st" and "runtimeEnvironment s input d = (d', x)"
  shows "st_ok d' \<and> view d' = view d"
proof (cases "st_Environment st")
  case None
  then show ?thesis using assms by (simp add: runtimeEnvironment_def)
next
  case (Some f)
  then have "f input d = (d', x)" using assms(2,3) by (simp add: runtimeEnvironment_def)
  from environment [OF Some assms(1) this] show ?thesis .
qed

lemma prepare_view:
  assumes "st_ok d" and "svc_store s = st" and "prepare s d = (d', x)"
  shows "st_ok d' \<and> view d' = view d"
proof -
  obtain d1 y where s: "st_Snapshot st d = (d1, y)" by fastforce
  note sn = snapshot [OF assms(1) s]
  show ?thesis
  proof (cases y)
    case (Inl e)
    then show ?thesis using assms(2,3) s sn by (simp add: prepare_def)
  next
    case (Inr input)
    show ?thesis
    proof (cases "Compile input")
      case (Inl e)
      then show ?thesis using assms(2,3) s sn Inr by (simp add: prepare_def)
    next
      case c: (Inr compiled)
      obtain d2 z where e: "runtimeEnvironment s input d1 = (d2, z)" by fastforce
      from runtimeEnvironment_view [OF _ assms(2) e] sn show ?thesis
        using assms(2,3) s Inr c e by (auto simp: prepare_def split: sum.splits)
    qed
  qed
qed

lemma choose_view:
  assumes "st_ok d" and "svc_store s = st" and "choose_revision s inputs snapshot compiled d = (d', x)"
  shows "st_ok d' \<and> view d' = view d \<and> (\<forall>r created. x = Inr (r, created) \<longrightarrow> ConfigHash r = compiled_SHA256 compiled
      \<and> (\<not> created \<longrightarrow> revision_entry r \<in> set (view_revisions (view d))))"
proof -
  have new: "newRevision s inputs compiled body h = Inr r \<Longrightarrow> ConfigHash r = compiled_SHA256 compiled" for body h r
    by (auto simp: newRevision_def split: sum.splits)
  show ?thesis
  proof (cases "MarshalConfigRevisionSnapshot snapshot")
    case (Inl e)
    then show ?thesis using assms by (auto simp: choose_revision_def)
  next
    case body: (Inr body)
    show ?thesis
    proof (cases "HashConfigRevisionState snapshot")
      case (Inl e)
      then show ?thesis using assms body by (auto simp: choose_revision_def)
    next
      case hash: (Inr h)
      obtain d1 z where f: "st_FindByIdentity st (compiled_SHA256 compiled) h d = (d1, z)" by fastforce
      note found = find [OF assms(1) f]
      have "d' = d1 \<and> (\<forall>r. x = Inr (r, False) \<longrightarrow> z = Inr (Some r))
          \<and> (\<forall>r. x = Inr (r, True) \<longrightarrow> (\<exists>r0. newRevision s inputs compiled body h = Inr r0 \<and> ConfigHash r = ConfigHash r0))"
        using assms(2,3) body hash f by (auto simp: choose_revision_def split: sum.splits option.splits)
      with found new [of body h] show ?thesis by (metis (full_types))
    qed
  qed
qed

lemma record_view:
  assumes "st_ok d" and "svc_store s = st" and "record_desired s r created d = (d', x)"
    and "\<not> created \<longrightarrow> revision_entry r \<in> set (view_revisions (view d))"
  shows "st_ok d' \<and> view_active (view d') = view_active (view d) \<and> set (view_revisions (view d)) \<subseteq> set (view_revisions (view d'))
     \<and> (\<forall>e. x = Inl e \<longrightarrow> view d' = view d)
     \<and> (\<forall>c. x = Inr c \<longrightarrow> revision_entry c = revision_entry r \<and> view_desired (view d') = Some (rev_ID c)
          \<and> revision_entry c \<in> set (view_revisions (view d')))"
proof (cases created)
  case True
  obtain d1 g where c: "st_Create st r d = (d1, g)" by fastforce
  from create [OF assms(1) c] assms(2,3) True c show ?thesis
    by (cases g) (auto simp: record_desired_def)
next
  case False
  obtain d1 u where c: "st_SetDesired st (rev_ID r) d = (d1, u)" by fastforce
  from set_desired [OF assms(1) c] assms False c show ?thesis
    by (cases u) (auto simp: record_desired_def)
qed

lemma note_view: "st_ok d \<Longrightarrow> svc_store s = st \<Longrightarrow> st_ok (note_failure s created r d) \<and> view (note_failure s created r d) = view d"
  by (cases "st_MarkFailed st (rev_ID r) CodeDatabase ''Runtime activation metadata could not be saved'' d")
     (auto simp: note_failure_def dest: mark_failed)

text \<open>The ends of an apply: on a success the revision is the active and the desired one, otherwise nothing
  seen of the store changed.\<close>

definition finished :: "config_revision \<Rightarrow> 'd \<Rightarrow> 'd \<Rightarrow> apply_result \<Rightarrow> bool" where
  "finished r d d' res \<longleftrightarrow> st_ok d'
     \<and> (snd res \<noteq> None \<longrightarrow> view d' = view d \<and> fst res \<noteq> None)
     \<and> (snd res = None \<longrightarrow> fst res = Some (r\<lparr>ApplyStatus := RevisionApplyApplied\<rparr>)
          \<and> view d' = (view d)\<lparr>view_desired := Some (rev_ID r), view_active := Some (rev_ID r), view_dirty := False\<rparr>)"

lemma finish_unchanged_view:
  assumes "st_ok d" and "svc_store s = st" and "finish_unchanged s r created d = (d', res)"
  shows "finished r d d' res"
proof -
  obtain d1 u where m: "st_MarkApplied st (rev_ID r) d = (d1, u)" by fastforce
  from mark_applied [OF assms(1) m] note_view [of d1 s created r] assms(2,3) m show ?thesis
    by (cases u) (auto simp: finish_unchanged_def finished_def)
qed

lemma finish_failed_view:
  assumes "st_ok d" and "svc_store s = st" and "finish_failed s r created err d = (d', res)"
  shows "st_ok d' \<and> view d' = view d \<and> snd res \<noteq> None \<and> fst res \<noteq> None"
proof -
  obtain code summary where c: "safeRuntimeFailure err CodeCaddyReloadFailed ''Caddy could not apply the configuration'' = (code, summary)"
    by fastforce
  obtain d1 u where m: "st_MarkFailed st (rev_ID r) code summary d = (d1, u)" by fastforce
  from mark_failed [OF assms(1) m] assms c m show ?thesis
    by (cases u) (auto simp: finish_failed_def split: if_splits)
qed

end

section \<open>The service over both\<close>

locale apply_contract = store: store_contract st st_ok view + runtime: runtime_contract rt rt_ok live
  for st :: "'d revision_store" and st_ok :: "'d \<Rightarrow> bool" and view :: "'d \<Rightarrow> store_view"
    and rt :: "'r caddy_runtime" and rt_ok :: "'r \<Rightarrow> bool" and live :: "'r \<Rightarrow> (string \<times> env) option" +
  fixes s :: "('d, 'r) apply_service"
  assumes parts: "svc_store s = st" "svc_runtime s = rt"
begin

lemma finish_activated_view:
  assumes "st_ok d" and "rt_ok r" and "finish_activated s revision created previous (d, r) = ((d', r'), res)"
  shows "store.finished revision d d' res \<and> rt_ok r' \<and> (snd res = None \<longrightarrow> r' = r)"
proof -
  obtain d1 u where m: "st_MarkApplied st (rev_ID revision) d = (d1, u)" by fastforce
  note marked = store.mark_applied [OF assms(1) m]
  show ?thesis
  proof (cases u)
    case (Inr x)
    then show ?thesis using assms(2,3) m marked parts
      by (auto simp: finish_activated_def store.finished_def)
  next
    case (Inl e)
    have undo: "rt_ok (fst (rt_Reload rt c r))" "rt_ok (fst (rt_Stop rt r))" for c
      using runtime.reload [OF assms(2)] runtime.stop [OF assms(2)] by (metis prod.collapse)+
    have "d' = note_failure s created revision d1" "res = (Some revision, Some databaseError)"
      "r' = (case previous of Some p \<Rightarrow> fst (rt_Reload rt (ConfigJSON p) r) | None \<Rightarrow> fst (rt_Stop rt r))"
      using assms(3) m Inl unfolding finish_activated_def parts by (auto simp: Let_def parts)
    then show ?thesis
      using undo marked Inl store.note_view [OF _ parts(1), of d1 created revision]
      by (auto simp: store.finished_def split: option.split)
  qed
qed

lemma unchanged_live:
  assumes "rt_ok r" and "unchanged_and_running s previous compiled changed r = (r', b)"
  shows "rt_ok r' \<and> live r' = live r
    \<and> (b \<longrightarrow> live r \<noteq> None \<and> (\<exists>p. previous = Some p \<and> ConfigHash p = compiled_SHA256 compiled))"
proof (cases "\<exists>p. previous = Some p \<and> ConfigHash p = compiled_SHA256 compiled")
  case True
  obtain r1 state where t: "rt_Status rt r = (r1, state)" by fastforce
  from runtime.status [OF assms(1) t] show ?thesis
    using assms(2) True t parts(2) by (auto simp: unchanged_and_running_def)
next
  case False
  then show ?thesis using assms by (auto simp: unchanged_and_running_def split: option.splits if_splits)
qed

text \<open>The runtime's part of an apply: on a success a process serves the compiled configuration, or it goes on serving
  one with the hash of the compiled one.\<close>

lemma apply_to_runtime_result:
  assumes "st_ok d" and "rt_ok r"
    and "apply_to_runtime s revision created previous compiled env (d, r) = ((d', r'), res)"
  shows "store.finished revision d d' res \<or> st_ok d' \<and> view d' = view d \<and> snd res \<noteq> None \<and> fst res \<noteq> None"
    and "rt_ok r'"
    and "snd res = None \<Longrightarrow> (\<exists>env'. live r' = Some (compiled_JSON compiled, env'))
      \<or> live r' = live r \<and> live r \<noteq> None \<and> (\<exists>p. previous = Some p \<and> ConfigHash p = compiled_SHA256 compiled)"
proof -
  obtain r1 changed where c: "runtimeEnvironmentChanged s env r = (r1, changed)" by fastforce
  note c1 = runtime.changed [OF assms(2) parts(2) c]
  obtain r2 unchanged where u: "unchanged_and_running s previous compiled changed r1 = (r2, unchanged)" by fastforce
  note u1 = unchanged_live [OF _ u]
  have "(store.finished revision d d' res \<or> st_ok d' \<and> view d' = view d \<and> snd res \<noteq> None \<and> fst res \<noteq> None)
    \<and> rt_ok r' \<and> (snd res = None \<longrightarrow> (\<exists>env'. live r' = Some (compiled_JSON compiled, env'))
      \<or> live r' = live r \<and> live r \<noteq> None \<and> (\<exists>p. previous = Some p \<and> ConfigHash p = compiled_SHA256 compiled))"
  proof (cases unchanged)
    case True
    obtain d1 x where f: "finish_unchanged s revision created d = (d1, x)" by (metis prod.collapse)
    have "d' = d1" "x = res" "r' = r2" using assms(3) c u True f by (simp_all add: apply_to_runtime_def)
    with store.finish_unchanged_view [OF assms(1) parts(1) f] u1 c1 True show ?thesis by auto
  next
    case False
    obtain r3 err where a: "activate_healthy rt (compiled_JSON compiled) env changed (previous_config previous)
        (currentRuntimeEnvironment rt r2) r2 = (r3, err)" by fastforce
    have "rt_ok r2" using u1 c1 by simp
    note live3 = runtime.activate_live [OF this a]
    show ?thesis
    proof (cases err)
      case (Some e)
      obtain d1 x where f: "finish_failed s revision created e d = (d1, x)" by (metis prod.collapse)
      have "d' = d1" "x = res" "r' = r3" using assms(3) c u False a Some f parts(2) by (simp_all add: apply_to_runtime_def)
      with store.finish_failed_view [OF assms(1) parts(1) f] live3 show ?thesis by auto
    next
      case None
      then have f: "finish_activated s revision created previous (d, r3) = ((d', r'), res)"
        using assms(3) c u False a parts(2) by (simp add: apply_to_runtime_def)
      from finish_activated_view [OF assms(1) _ f] live3 None show ?thesis by auto
    qed
  qed
  then show "store.finished revision d d' res \<or> st_ok d' \<and> view d' = view d \<and> snd res \<noteq> None \<and> fst res \<noteq> None"
    "rt_ok r'" "snd res = None \<Longrightarrow> (\<exists>env'. live r' = Some (compiled_JSON compiled, env'))
      \<or> live r' = live r \<and> live r \<noteq> None \<and> (\<exists>p. previous = Some p \<and> ConfigHash p = compiled_SHA256 compiled)"
    by blast+
qed

text \<open>An apply that succeeds went through all of its stages; one that fails stopped before the revision was recorded,
  when nothing had changed, or afterwards.\<close>

definition stages where
  "stages d snapshot compiled env revision created previous recorded d4 inputs \<longleftrightarrow>
     (\<exists>d1 d2 d3. prepare s d = (d1, Inr (snapshot, compiled, env))
        \<and> choose_revision s inputs snapshot compiled d1 = (d2, Inr (revision, created))
        \<and> st_Active st d2 = (d3, Inr previous) \<and> record_desired s revision created d3 = (d4, Inr recorded))"

lemma apply_state_stages:
  assumes ok: "st_ok d" and run: "apply_state s inputs (d, r) = ((d', r'), res)"
  shows "(r' = r \<and> st_ok d' \<and> view d' = view d \<and> fst res = None \<and> snd res \<noteq> None)
    \<or> (\<exists>snapshot compiled env revision created previous recorded d4.
         stages d snapshot compiled env revision created previous recorded d4 inputs
         \<and> apply_to_runtime s recorded created previous compiled env (d4, r) = ((d', r'), res))"
proof -
  obtain d1 x1 where 1: "prepare s d = (d1, x1)" by fastforce
  note v1 = store.prepare_view [OF ok parts(1) 1]
  show ?thesis
  proof (cases x1)
    case (Inl e)
    then show ?thesis using run 1 v1 by (auto simp: apply_state_def)
  next
    case x1: (Inr q)
    obtain snapshot compiled env where q: "q = (snapshot, compiled, env)" by (cases q)
    obtain d2 x2 where 2: "choose_revision s inputs snapshot compiled d1 = (d2, x2)" by fastforce
    note v2 = store.choose_view [OF _ parts(1) 2]
    show ?thesis
    proof (cases x2)
      case (Inl e)
      then show ?thesis using run 1 x1 q 2 v1 v2 by (auto simp: apply_state_def)
    next
      case x2: (Inr y)
      obtain revision created where y: "y = (revision, created)" by (cases y)
      obtain d3 x3 where 3: "st_Active st d2 = (d3, x3)" by fastforce
      note v3 = store.active [OF _ 3]
      show ?thesis
      proof (cases "\<exists>previous stamp. x3 = Inr previous \<and> stamped (in_stamp inputs) = Inr stamp")
        case False
        then show ?thesis using run 1 x1 q 2 x2 y 3 v1 v2 v3 parts
          by (auto simp: apply_state_def split: sum.splits)
      next
        case True
        then obtain previous stamp where x3: "x3 = Inr previous" "stamped (in_stamp inputs) = Inr stamp" by blast
        obtain d4 x4 where 4: "record_desired s revision created d3 = (d4, x4)" by fastforce
        show ?thesis
        proof (cases x4)
          case (Inl e)
          have "\<not> created \<longrightarrow> revision_entry revision \<in> set (view_revisions (view d3))"
            using v1 v2 v3 x2 y by simp
          from store.record_view [OF _ parts(1) 4 this] Inl show ?thesis
            using run 1 x1 q 2 x2 y 3 x3 4 v1 v2 v3 parts by (auto simp: apply_state_def)
        next
          case (Inr recorded)
          then have "apply_to_runtime s recorded created previous compiled env (d4, r) = ((d', r'), res)"
            using run 1 x1 q 2 x2 y 3 x3 4 parts by (simp add: apply_state_def)
          moreover have "stages d snapshot compiled env revision created previous recorded d4 inputs"
            using 1 x1 q 2 x2 y 3 x3 4 Inr by (auto simp: stages_def)
          ultimately show ?thesis by blast
        qed
      qed
    qed
  qed
qed

lemma stages_view:
  assumes ok: "st_ok d" and "stages d snapshot compiled env revision created previous recorded d4 inputs"
  shows "st_ok d4" and "view_active (view d4) = view_active (view d)"
    and "set (view_revisions (view d)) \<subseteq> set (view_revisions (view d4))"
    and "view_desired (view d4) = Some (rev_ID recorded)"
    and "(rev_ID recorded, compiled_SHA256 compiled) \<in> set (view_revisions (view d4))"
    and "\<And>p. previous = Some p \<Longrightarrow> view_active (view d) = Some (rev_ID p) \<and> revision_entry p \<in> set (view_revisions (view d))"
    and "\<exists>d1. prepare s d = (d1, Inr (snapshot, compiled, env))"
    and "previous = None \<longleftrightarrow> view_active (view d) = None"
proof -
  obtain d1 d2 d3 where 1: "prepare s d = (d1, Inr (snapshot, compiled, env))"
    and 2: "choose_revision s inputs snapshot compiled d1 = (d2, Inr (revision, created))"
    and 3: "st_Active st d2 = (d3, Inr previous)" and 4: "record_desired s revision created d3 = (d4, Inr recorded)"
    using assms(2) by (auto simp: stages_def)
  note v1 = store.prepare_view [OF ok parts(1) 1]
  note v2 = store.choose_view [OF conjunct1 [OF v1] parts(1) 2]
  note v3 = store.active [OF conjunct1 [OF v2] 3]
  have entry: "\<not> created \<longrightarrow> revision_entry revision \<in> set (view_revisions (view d3))" using v1 v2 v3 by simp
  note v4 = store.record_view [OF conjunct1 [OF v3] parts(1) 4 entry]
  have hash: "ConfigHash recorded = compiled_SHA256 compiled" using v2 v4 by (simp add: revision_entry_def)
  show "st_ok d4" "view_active (view d4) = view_active (view d)"
    "set (view_revisions (view d)) \<subseteq> set (view_revisions (view d4))" "view_desired (view d4) = Some (rev_ID recorded)"
    "(rev_ID recorded, compiled_SHA256 compiled) \<in> set (view_revisions (view d4))"
    using v1 v2 v3 v4 hash by (auto simp: revision_entry_def)
  show "\<And>p. previous = Some p \<Longrightarrow> view_active (view d) = Some (rev_ID p) \<and> revision_entry p \<in> set (view_revisions (view d))"
    "previous = None \<longleftrightarrow> view_active (view d) = None"
    using v1 v2 v3 by auto
  show "\<exists>d1. prepare s d = (d1, Inr (snapshot, compiled, env))" using 1 by blast
qed

lemma apply_failure:
  assumes "st_ok d" and "rt_ok r" and "apply_state s inputs (d, r) = ((d', r'), (x, Some e))"
  shows "st_ok d' \<and> rt_ok r' \<and> view_active (view d') = view_active (view d)
    \<and> set (view_revisions (view d)) \<subseteq> set (view_revisions (view d'))
    \<and> (x = None \<longrightarrow> view d' = view d \<and> r' = r)"
  using apply_state_stages [OF assms(1,3)]
proof (elim disjE exE conjE)
  fix snapshot compiled env revision created previous recorded d4
  assume st: "stages d snapshot compiled env revision created previous recorded d4 inputs"
    and run: "apply_to_runtime s recorded created previous compiled env (d4, r) = ((d', r'), (x, Some e))"
  note v = stages_view [OF assms(1) st]
  from apply_to_runtime_result(1,2) [OF v(1) assms(2) run] v show ?thesis
    by (auto simp: store.finished_def)
qed (use assms(2) in auto)

lemma apply_success:
  assumes "st_ok d" and "rt_ok r" and "apply_state s inputs (d, r) = ((d', r'), (x, None))"
  shows "\<exists>revision d1 snapshot compiled env. x = Some revision \<and> ApplyStatus revision = RevisionApplyApplied
    \<and> prepare s d = (d1, Inr (snapshot, compiled, env))
    \<and> st_ok d' \<and> rt_ok r' \<and> view_active (view d') = Some (rev_ID revision) \<and> view_desired (view d') = Some (rev_ID revision)
    \<and> \<not> view_dirty (view d') \<and> (rev_ID revision, compiled_SHA256 compiled) \<in> set (view_revisions (view d')) \<and> live r' \<noteq> None
    \<and> (in_sync (view d) (live r) \<longrightarrow> in_sync (view d') (live r')
         \<and> HashConfigJSON (fst (the (live r'))) = compiled_SHA256 compiled)"
  using apply_state_stages [OF assms(1,3)]
proof (elim disjE exE conjE)
  fix snapshot compiled env revision created previous recorded d4
  assume stg: "stages d snapshot compiled env revision created previous recorded d4 inputs"
    and run: "apply_to_runtime s recorded created previous compiled env (d4, r) = ((d', r'), (x, None))"
  note v = stages_view [OF assms(1) stg]
  note res = apply_to_runtime_result [OF v(1) assms(2) run]
  have fin: "x = Some (recorded\<lparr>ApplyStatus := RevisionApplyApplied\<rparr>)" "st_ok d'"
    "view d' = (view d4)\<lparr>view_desired := Some (rev_ID recorded), view_active := Some (rev_ID recorded), view_dirty := False\<rparr>"
    using res(1) by (auto simp: store.finished_def)
  obtain d1 where prep: "prepare s d = (d1, Inr (snapshot, compiled, env))" using v(7) by blast
  then obtain input where "Compile input = Inr compiled"
    by (auto simp: prepare_def split: prod.splits sum.splits option.splits)
  then have hash: "HashConfigJSON (compiled_JSON compiled) = compiled_SHA256 compiled"
    using Compile_hash by (simp add: HashConfigJSON_def)
  have sync: "HashConfigJSON (fst (the (live r'))) = compiled_SHA256 compiled" if s: "in_sync (view d) (live r)"
    using res(3) [simplified]
  proof (elim disjE exE conjE)
    fix p y assume live: "live r' = live r" "live r = Some y" "previous = Some p" "ConfigHash p = compiled_SHA256 compiled"
    obtain c e where y: "y = (c, e)" by (cases y)
    then obtain i where i: "view_active (view d) = Some i" "(i, HashConfigJSON c) \<in> set (view_revisions (view d))"
      using s live(2) by (auto simp: in_sync_def)
    have "i = rev_ID p" "(rev_ID p, ConfigHash p) \<in> set (view_revisions (view d))"
      using v(6) [OF live(3)] i(1) by (simp_all add: revision_entry_def)
    with i(2) store.unique [OF assms(1)] have "HashConfigJSON c = ConfigHash p" by (metis eq_key_imp_eq_value)
    with live y show ?thesis by simp
  qed (simp add: hash)
  have "live r' \<noteq> None" using res(3) by auto
  moreover have "in_sync (view d') (live r')" if "in_sync (view d) (live r)"
    using sync [OF that] v(5) fin(3) by (auto simp: in_sync_def)
  ultimately show ?thesis
    using fin res(2) prep v(5) sync by (intro exI [of _ "recorded\<lparr>ApplyStatus := RevisionApplyApplied\<rparr>"]) auto
qed auto

text \<open>A restore: the revision is looked up and checked, activated, and only then the state is replaced.\<close>

lemma prepare_restore_view:
  assumes "st_ok d" and "prepare_restore s i d = (d', x)"
  shows "st_ok d' \<and> view d' = view d \<and> (\<forall>revision snapshot compiled env. x = Inr (revision, snapshot, compiled, env) \<longrightarrow>
      rev_ID revision = i \<and> revision_entry revision \<in> set (view_revisions (view d))
      \<and> ConfigJSON revision = compiled_JSON compiled \<and> ConfigHash revision = compiled_SHA256 compiled
      \<and> Compile snapshot = Inr compiled \<and> ParseConfigRevisionSnapshot (StateSnapshotJSON revision) = Inr snapshot)"
proof -
  obtain d1 g where g: "st_Get st i d = (d1, g)" by fastforce
  note got = store.get [OF assms(1) g]
  show ?thesis
  proof (cases g)
    case (Inl e)
    then show ?thesis using assms(2) g got parts by (auto simp: prepare_restore_def Apply_Get_def)
  next
    case (Inr revision)
    then have a: "Apply_Get s i d = (d1, Inr revision)" using g parts by (simp add: Apply_Get_def)
    show ?thesis
    proof (cases "ParseConfigRevisionSnapshot (StateSnapshotJSON revision)")
      case (Inl e)
      then show ?thesis using assms(2) a got Inr by (auto simp: prepare_restore_def split: if_splits)
    next
      case p: (Inr snapshot)
      show ?thesis
      proof (cases "Compile snapshot")
        case (Inl e)
        then show ?thesis using assms(2) a got Inr p by (auto simp: prepare_restore_def split: if_splits)
      next
        case c: (Inr compiled)
        obtain d2 z where e: "runtimeEnvironment s snapshot d1 = (d2, z)" by fastforce
        have v: "st_ok d2 \<and> view d2 = view d1" using store.runtimeEnvironment_view [OF _ parts(1) e] got by simp
        show ?thesis
          using assms(2) a got Inr p c e v
          by (auto simp: prepare_restore_def split: if_splits sum.splits option.splits)
      qed
    qed
  qed
qed

lemma undo_ok: "rt_ok r \<Longrightarrow> rt_ok (undo_restore s previous env r)"
proof -
  assume ok: "rt_ok r"
  have stop: "rt_ok (fst (rt_Stop rt x))" and reload: "rt_ok (fst (rt_Reload rt c x))"
    and start: "rt_ok (fst (startWithEnvironment rt c e x))" if "rt_ok x" for x c e
    using that runtime.stop runtime.reload runtime.start by (metis prod.collapse)+
  obtain r1 state where t: "rt_Status rt r = (r1, state)" by fastforce
  have r1: "rt_ok r1" using runtime.status [OF ok t] by simp
  obtain r2 b where c: "(if state = RuntimeRunning then runtimeEnvironmentChanged s env r1 else (r1, False)) = (r2, b)" by fastforce
  have r2: "rt_ok r2" using c r1 runtime.changed [OF r1 parts(2), of env] by (auto split: if_splits)
  show ?thesis
    using ok t c r2 stop reload start parts by (cases previous) (auto simp: undo_restore_def)
qed

lemma restore_result:
  assumes "st_ok d" and "rt_ok r" and "Restore s locked now i (d, r) = ((d', r'), x)"
  shows "st_ok d' \<and> rt_ok r' \<and> (\<forall>e. x = Inl e \<longrightarrow> view d' = view d)
    \<and> (\<forall>revision. x = Inr revision \<longrightarrow> rev_ID revision = i
        \<and> view d' = (view d)\<lparr>view_desired := Some i, view_active := Some i, view_dirty := False\<rparr>
        \<and> (\<exists>env. live r' = Some (ConfigJSON revision, env)) \<and> revision_entry revision \<in> set (view_revisions (view d)))"
proof (cases locked)
  case True
  then show ?thesis using assms by (auto simp: Restore_def)
next
  case unlocked: False
  obtain d1 x1 where 1: "prepare_restore s i d = (d1, x1)" by fastforce
  note v1 = prepare_restore_view [OF assms(1) 1]
  show ?thesis
  proof (cases x1)
    case (Inl e)
    then show ?thesis using assms unlocked 1 v1 by (auto simp: Restore_def)
  next
    case (Inr q)
    obtain revision snapshot compiled env where q: "q = (revision, snapshot, compiled, env)" by (cases q)
    obtain d2 x2 where 2: "st_Active st d1 = (d2, x2)" by fastforce
    note v2 = store.active [OF conjunct1 [OF v1] 2]
    show ?thesis
    proof (cases x2)
      case (Inl e)
      then show ?thesis using assms unlocked 1 Inr q 2 v1 v2 parts by (auto simp: Restore_def)
    next
      case x2: (Inr previous)
      obtain r1 changed where 3: "runtimeEnvironmentChanged s env r = (r1, changed)" by fastforce
      note r1 = runtime.changed [OF assms(2) parts(2) 3]
      obtain r2 x4 where 4: "activate_healthy rt (compiled_JSON compiled) env changed (previous_config previous)
          (currentRuntimeEnvironment rt r) r1 = (r2, x4)" by fastforce
      note r2 = runtime.activate_live [OF conjunct1 [OF r1] 4]
      show ?thesis
      proof (cases "x4 = None \<and> is_ok (stamped now)")
        case False
        then show ?thesis using assms unlocked 1 Inr q 2 x2 3 4 r2 v1 v2 parts
          by (auto simp: Restore_def Let_def split: option.splits sum.splits)
      next
        case True
        then obtain stamp where stamp: "stamped now = Inr stamp" by (auto simp: is_ok_iff)
        obtain d3 x5 where 5: "st_RestoreState st snapshot (rev_ID revision) d2 = (d3, x5)" by fastforce
        note v3 = store.restore_state [OF conjunct1 [OF v2] 5]
        show ?thesis
        proof (cases x5)
          case (Inl e)
          have "d' = d3" "x = Inl databaseError" "r' = undo_restore s previous (currentRuntimeEnvironment rt r) r2"
            using assms(3) unlocked 1 Inr q 2 x2 3 4 True stamp 5 Inl parts by (simp_all add: Restore_def Let_def)
          with v1 v2 v3 r2 undo_ok Inl show ?thesis by auto
        next
          case x5: (Inr y)
          have "d' = d3" "r' = r2"
            "x = Inr (revision\<lparr>ApplyStatus := RevisionApplyApplied, ErrorCode := [], ErrorSummary := []\<rparr>)"
            using assms(3) unlocked 1 Inr q 2 x2 3 4 True stamp 5 x5 parts by (simp_all add: Restore_def Let_def)
          with v1 v2 v3 r2 x5 Inr q True show ?thesis by (auto simp: revision_entry_def)
        qed
      qed
    qed
  qed
qed

text \<open>Starting and restarting the active revision leave the revisions alone; a success leaves a process running.\<close>

lemma start_active_result:
  assumes "st_ok d" and "rt_ok r" and "start_active s stop_first inputs (d, r) = ((d', r'), err)"
    and "st_Active st d = (d1, Inr (Some active))" and "ParseConfigRevisionSnapshot (StateSnapshotJSON active) = Inr input"
  shows "st_ok d' \<and> rt_ok r' \<and> view d' = view d \<and> (err = None \<longrightarrow> live r' \<noteq> None
      \<and> (stop_first \<or> live r = None \<longrightarrow> (\<exists>env. live r' = Some (ConfigJSON active, env))))"
proof -
  note v1 = store.active [OF assms(1,4)]
  have body: "StateSnapshotJSON active \<noteq> []" using assms(5) by (auto simp: ParseConfigRevisionSnapshot_def split: if_splits)
  obtain d2 z where 2: "runtimeEnvironment s input d1 = (d2, z)" by fastforce
  note v2 = store.runtimeEnvironment_view [OF conjunct1 [OF v1] parts(1) 2]
  show ?thesis
  proof (cases z)
    case (Inl e)
    then show ?thesis using assms(2-5) body 2 v1 v2 parts by (auto simp: start_active_def)
  next
    case (Inr env)
    obtain r1 x where 3: "(if stop_first then rt_Stop rt r else (r, None)) = (r1, x)" by fastforce
    have r1: "rt_ok r1 \<and> (stop_first \<and> x = None \<longrightarrow> live r1 = None) \<and> (\<not> stop_first \<longrightarrow> r1 = r)"
      using 3 assms(2) runtime.stop [OF assms(2)] by (auto split: if_splits)
    show ?thesis
    proof (cases x)
      case (Some e)
      then show ?thesis using assms(3-5) body 2 Inr 3 r1 v1 v2 parts by (auto simp: start_active_def)
    next
      case None
      obtain r2 y where 4: "activateStart rt (ConfigJSON active) env r1 = (r2, y)" by fastforce
      have "d' = d2" "r' = r2" "err = y"
        using assms(3-5) body 2 Inr 3 [folded parts(2)] None 4 parts by (simp_all add: start_active_def)
      with runtime.activateStart_ok [OF conjunct1 [OF r1] 4] r1 v1 v2 None show ?thesis by auto
    qed
  qed
qed

end

end
