(* ===== verification/Service_Calls.thy ===== *)
theory Service_Calls
  imports App_Errors Repositories
begin

text \<open>
  What the services of \<^verbatim>\<open>core/internal/app\<close> share.  A service is a program over a state that ends with an
  application error or a value, composed the way the code composes calls: an error returns at once.
  The store behind the repositories is the database and, for every call in turn, whether the driver
  fails it; a failed call changes nothing.
\<close>

named_theorems service_intros

type_synonym ('s, 'a) service = "'s \<Rightarrow> 's \<times> (app_error + 'a)"

definition and_then :: "('s, 'a) service \<Rightarrow> ('a \<Rightarrow> ('s, 'b) service) \<Rightarrow> ('s, 'b) service" where
  "and_then m f x = (case m x of (y, Inl e) \<Rightarrow> (y, Inl e) | (y, Inr a) \<Rightarrow> f a y)"

definition give :: "app_error + 'a \<Rightarrow> ('s, 'a) service" where
  "give r x = (x, r)"

definition require :: "app_error option \<Rightarrow> ('s, unit) service" where
  "require problem x = (x, case problem of None \<Rightarrow> Inr () | Some e \<Rightarrow> Inl e)"

definition mapped :: "('e \<Rightarrow> app_error) \<Rightarrow> ('s \<Rightarrow> 's \<times> ('e + 'a)) \<Rightarrow> ('s, 'a) service" where
  "mapped f m x = (case m x of (y, r) \<Rightarrow> (y, map_error f r))"

section \<open>Calls of the repositories\<close>

type_synonym store = "db \<times> bool list"

definition query_call :: "'a query \<Rightarrow> store \<Rightarrow> store \<times> (db_error + 'a)" where
  "query_call q = (\<lambda>(d, faults). ((d, tl faults), if faults \<noteq> [] \<and> hd faults then Inl Unavailable else q d))"

definition operation_call :: "'a operation \<Rightarrow> store \<Rightarrow> store \<times> (db_error + 'a)" where
  "operation_call f = (\<lambda>(d, faults).
     if faults \<noteq> [] \<and> hd faults then ((d, tl faults), Inl Unavailable)
     else (case f d of (d', r) \<Rightarrow> ((d', tl faults), r)))"

section \<open>What programs keep\<close>

definition preserves :: "('d \<Rightarrow> bool) \<Rightarrow> ('d \<times> 'f, 'a) service \<Rightarrow> bool" where
  "preserves I m \<longleftrightarrow> (\<forall>d f. I d \<longrightarrow> I (fst (fst (m (d, f)))))"

definition readonly :: "('d \<times> 'f, 'a) service \<Rightarrow> bool" where
  "readonly m \<longleftrightarrow> (\<forall>d f. fst (fst (m (d, f))) = d)"

text \<open>A program that leaves the state alone when it ends with an error.\<close>

definition atomic :: "('d \<times> 'f, 'a) service \<Rightarrow> bool" where
  "atomic m \<longleftrightarrow> (\<forall>d f e. snd (m (d, f)) = Inl e \<longrightarrow> fst (fst (m (d, f))) = d)"

definition atomic_operation :: "'a operation \<Rightarrow> bool" where
  "atomic_operation f \<longleftrightarrow> (\<forall>d e. snd (f d) = Inl e \<longrightarrow> fst (f d) = d)"

lemma atomicD: "atomic m \<Longrightarrow> m (d, f) = ((d', f'), Inl e) \<Longrightarrow> d' = d"
  unfolding atomic_def by (metis fst_conv snd_conv)

lemma atomic_operationD: "atomic_operation f \<Longrightarrow> f d = (d', Inl e) \<Longrightarrow> d' = d"
  unfolding atomic_operation_def by (metis fst_conv snd_conv)

lemma operation_call_run:
  "operation_call f (d, faults) =
     (if faults \<noteq> [] \<and> hd faults then ((d, tl faults), Inl Unavailable) else ((fst (f d), tl faults), snd (f d)))"
  by (simp add: operation_call_def split: prod.splits)

lemma and_then_Inr:
  "and_then m f x = (y, Inr b) \<longleftrightarrow> (\<exists>z a. m x = (z, Inr a) \<and> f a z = (y, Inr b))"
  by (auto simp: and_then_def split: prod.splits sum.splits)

lemma give_Inr: "give r x = (y, Inr a) \<longleftrightarrow> y = x \<and> r = Inr a"
  by (auto simp: give_def)

lemma require_Inr: "require p x = (y, Inr u) \<longleftrightarrow> y = x \<and> p = None"
  by (cases p) (auto simp: require_def)

lemma map_error_Inr [simp]: "map_error f r = Inr a \<longleftrightarrow> r = Inr a"
  by (simp add: map_error_def split: sum.splits)

lemma map_error_Inl [simp]: "map_error f r = Inl e \<longleftrightarrow> (\<exists>e'. r = Inl e' \<and> e = f e')"
  by (auto simp: map_error_def split: sum.splits)

lemma mapped_Inr: "mapped f m x = (y, Inr a) \<longleftrightarrow> m x = (y, Inr a)"
  by (auto simp: mapped_def split: prod.splits)

lemma query_call_Inr:
  "query_call q x = (y, Inr a) \<longleftrightarrow> \<not> (snd x \<noteq> [] \<and> hd (snd x)) \<and> q (fst x) = Inr a \<and> y = (fst x, tl (snd x))"
  by (auto simp: query_call_def split: prod.splits if_splits)

lemma operation_call_Inr:
  "operation_call f x = (y, Inr a)
     \<longleftrightarrow> \<not> (snd x \<noteq> [] \<and> hd (snd x)) \<and> f (fst x) = (fst y, Inr a) \<and> snd y = tl (snd x)"
  by (cases y) (auto simp: operation_call_def split: prod.splits if_splits)

lemmas run_facts = and_then_Inr give_Inr require_Inr mapped_Inr query_call_Inr operation_call_Inr

lemma preserves_and_then [service_intros]:
  assumes "preserves I m" and "\<And>a. preserves I (f a)"
  shows "preserves I (and_then m f)"
proof (unfold preserves_def, intro allI impI)
  fix d g assume "I d"
  obtain d' g' r where run: "m (d, g) = ((d', g'), r)" by (metis prod.collapse)
  have "I d'" using assms(1) \<open>I d\<close> run by (metis preserves_def fst_conv)
  then show "I (fst (fst (and_then m f (d, g))))"
    using assms(2) run by (cases r) (simp_all add: and_then_def preserves_def)
qed

lemma readonly_and_then [service_intros]:
  assumes "readonly m" and "\<And>a. readonly (f a)"
  shows "readonly (and_then m f)"
proof (unfold readonly_def, intro allI)
  fix d g
  obtain d' g' r where run: "m (d, g) = ((d', g'), r)" by (metis prod.collapse)
  have "d' = d" using assms(1) run by (metis readonly_def fst_conv)
  then show "fst (fst (and_then m f (d, g))) = d"
    using assms(2) run by (cases r) (simp_all add: and_then_def readonly_def)
qed

lemma atomic_and_then [service_intros]:
  assumes "readonly m" and "\<And>a. atomic (f a)"
  shows "atomic (and_then m f)"
proof (unfold atomic_def, intro allI impI)
  fix d g e assume err: "snd (and_then m f (d, g)) = Inl e"
  obtain d' g' r where run: "m (d, g) = ((d', g'), r)" by (metis prod.collapse)
  have "d' = d" using assms(1) run by (metis readonly_def fst_conv)
  with err run show "fst (fst (and_then m f (d, g))) = d"
    using assms(2) by (cases r) (auto simp: and_then_def atomic_def)
qed

text \<open>After the last write only what cannot fail may follow.\<close>

lemma atomic_then_give [service_intros]:
  assumes "atomic m" shows "atomic (and_then m (\<lambda>a. give (Inr (g a))))"
proof (unfold atomic_def, intro allI impI)
  fix d f e assume err: "snd (and_then m (\<lambda>a. give (Inr (g a))) (d, f)) = Inl e"
  obtain d' f' r where run: "m (d, f) = ((d', f'), r)" by (metis prod.collapse)
  show "fst (fst (and_then m (\<lambda>a. give (Inr (g a))) (d, f))) = d"
    using err run atomicD [OF assms] by (cases r) (auto simp: and_then_def give_def)
qed

lemma readonly_basic [service_intros]:
  "readonly (give r)" "readonly (require p)" "readonly (mapped f (query_call q))"
  by (auto simp: readonly_def give_def require_def mapped_def query_call_def split: prod.splits)

lemma readonly_preserves [service_intros]: "readonly m \<Longrightarrow> preserves I m"
  by (simp add: readonly_def preserves_def)

lemma readonly_atomic [service_intros]: "readonly m \<Longrightarrow> atomic m"
  by (simp add: readonly_def atomic_def)

lemma preserves_operation [service_intros]:
  assumes "\<And>d. I d \<Longrightarrow> I (fst (f d))" shows "preserves I (mapped g (operation_call f))"
  using assms by (simp add: preserves_def mapped_def operation_call_run)

lemma atomic_call [service_intros]:
  assumes "atomic_operation f" shows "atomic (mapped g (operation_call f))"
  using assms by (auto simp: atomic_def mapped_def operation_call_run atomic_operation_def)

lemma service_if [service_intros]:
  "readonly m \<Longrightarrow> readonly n \<Longrightarrow> readonly (if b then m else n)"
  "atomic m \<Longrightarrow> atomic n \<Longrightarrow> atomic (if b then m else n)"
  "preserves I m \<Longrightarrow> preserves I n \<Longrightarrow> preserves I (if b then m else n)"
  by simp_all

lemma service_option [service_intros]:
  "readonly m \<Longrightarrow> (\<And>a. readonly (n a)) \<Longrightarrow> readonly (case x of None \<Rightarrow> m | Some a \<Rightarrow> n a)"
  "atomic m \<Longrightarrow> (\<And>a. atomic (n a)) \<Longrightarrow> atomic (case x of None \<Rightarrow> m | Some a \<Rightarrow> n a)"
  "preserves I m \<Longrightarrow> (\<And>a. preserves I (n a)) \<Longrightarrow> preserves I (case x of None \<Rightarrow> m | Some a \<Rightarrow> n a)"
  by (simp_all split: option.split)

section \<open>Which repository operations are atomic\<close>

lemma atomic_exec [service_intros]: "atomic_operation (exec stmt)"
  by (auto simp: atomic_operation_def exec_def split: sum.splits)

lemma atomic_recode [service_intros]:
  assumes "atomic_operation f"
  shows "atomic_operation (\<lambda>d. case f d of (d', Inl e) \<Rightarrow> (d', Inl (g e)) | ok \<Rightarrow> ok)"
proof (unfold atomic_operation_def, intro allI impI)
  fix d e assume err: "snd (case f d of (d', Inl e) \<Rightarrow> (d', Inl (g e)) | ok \<Rightarrow> ok) = Inl e"
  obtain d' r where run: "f d = (d', r)" by fastforce
  show "fst (case f d of (d', Inl e) \<Rightarrow> (d', Inl (g e)) | ok \<Rightarrow> ok) = d"
    using err run atomic_operationD [OF assms] by (cases r) auto
qed

lemma affected_atomic:
  assumes "\<And>d'. stmt d = Inr d' \<Longrightarrow> rows = [] \<Longrightarrow> d' = d"
    and "snd (expect_affected rows missing stmt d) = Inl e"
  shows "fst (expect_affected rows missing stmt d) = d"
  using assms by (auto simp: expect_affected_def split: sum.splits if_splits)

lemma update_where_none: "filter P rows = [] \<Longrightarrow> update_where P f rows = rows"
  by (auto simp: update_where_def filter_empty_conv intro: map_idI)

lemma update_none: "filter (\<lambda>u. user_ID u = i) (t_users d) = [] \<Longrightarrow> update_user i f d = d"
  by (simp add: update_user_def update_where_none with_triggers_def)

lemma delete_none:
  "filter (\<lambda>u. user_ID u = i) (t_users d) = [] \<Longrightarrow> delete_users (\<lambda>u. user_ID u = i) d = d"
  "filter (\<lambda>s. share_ID s = i) (t_shares d) = [] \<Longrightarrow> delete_shares (\<lambda>s. share_ID s = i) d = d"
  "filter P (t_permissions d) = [] \<Longrightarrow> delete_permissions P d = d"
  by (simp_all add: delete_users_def delete_shares_def delete_permissions_def with_triggers_def filter_empty_conv
      cong: filter_cong)

lemma atomic_operations [service_intros]:
  "atomic_operation (User_Create u)" "atomic_operation (User_Delete i)"
  "atomic_operation (User_SetEnabled i b t)" "atomic_operation (User_SetPasswordHash i h t)"
  "atomic_operation (Share_Create s)" "atomic_operation (Share_Update s)" "atomic_operation (Share_Delete i)"
  "atomic_operation (Permission_Set p)" "atomic_operation (Permission_Delete i j)"
  "atomic_operation (TLS_Save q)" "atomic_operation TLS_Delete"
  "atomic_operation (DNS_Save c)" "atomic_operation (DNS_Delete i)"
proof -
  show "atomic_operation (User_Create u)"
    unfolding User_Create_def by (rule atomic_recode) (rule atomic_exec)
  show "atomic_operation (Share_Create s)"
    unfolding Share_Create_def by (rule atomic_recode) (rule atomic_exec)
  show "atomic_operation (Permission_Set p)" "atomic_operation (TLS_Save q)" "atomic_operation TLS_Delete"
    unfolding Permission_Set_def TLS_Save_def TLS_Delete_def by (rule atomic_exec)+
  show "atomic_operation (User_Delete i)" "atomic_operation (User_SetEnabled i b t)"
    "atomic_operation (User_SetPasswordHash i h t)" "atomic_operation (Share_Delete i)"
    unfolding atomic_operation_def User_Delete_def User_SetEnabled_def User_SetPasswordHash_def Share_Delete_def
    by (auto intro!: affected_atomic simp: delete_none update_none)
  show "atomic_operation (Permission_Delete i j)"
    unfolding atomic_operation_def Permission_Delete_def Let_def
    by (auto intro!: affected_atomic simp: delete_none)
  show "atomic_operation (Share_Update s)"
    unfolding Share_Update_def
  proof (rule atomic_recode, unfold atomic_operation_def, intro allI impI)
    fix d e
    assume "snd (expect_affected (filter (\<lambda>r. share_ID r = share_ID s) (t_shares d)) ErrShareNotFound (update_share s) d) = Inl e"
    then show "fst (expect_affected (filter (\<lambda>r. share_ID r = share_ID s) (t_shares d)) ErrShareNotFound (update_share s) d) = d"
      by (rule affected_atomic [rotated])
        (auto simp: update_share_def Let_def update_where_none with_triggers_def split: if_splits)
  qed
  show "atomic_operation (DNS_Save c)"
    using atomic_exec [of "upsert_dns (c\<lparr>AllowedZones := sort (AllowedZones c)\<rparr>)"]
    by (auto simp: atomic_operation_def DNS_Save_def split: option.splits)
  show "atomic_operation (DNS_Delete i)"
    unfolding atomic_operation_def DNS_Delete_def
  proof (intro allI impI)
    fix d e
    let ?run = "if Some i \<in> DNSProviderID ` set (t_tls d) then (d, Inl ErrDNSProviderInUse)
      else expect_affected (filter (\<lambda>c. dns_ID c = i) (t_dns d)) ErrDNSProviderNotFound (delete_dns i) d"
    assume "snd ?run = Inl e"
    then show "fst ?run = d"
      by (auto simp: expect_affected_def delete_dns_def with_triggers_def filter_empty_conv image_iff
          split: if_splits cong: filter_cong)
  qed
qed

end
