(* ===== verification/Resource_Services.thy ===== *)
theory Resource_Services
  imports Service_Calls Config_Import
begin

text \<open>
  The services of users, shares, permissions and server settings (\<^verbatim>\<open>app/user_service.go\<close>,
  \<^verbatim>\<open>share_service.go\<close>, \<^verbatim>\<open>permission_service.go\<close>, \<^verbatim>\<open>settings_service.go\<close>).  The password hash, the check of a
  directory and the check of a port are the system's, so they are parameters; the identifier and
  the time an operation takes are arguments.
\<close>

section \<open>Users\<close>

definition validatePassword :: "string \<Rightarrow> app_error option" where
  "validatePassword password =
     fail_if (length password < 8 \<or> length password > 72)
       (AppError CodeInvalidPassword ''Password must contain between 8 and 72 UTF-8 bytes'')"

type_synonym hasher = "string \<Rightarrow> string option"

definition hashed :: "hasher \<Rightarrow> string \<Rightarrow> app_error + string" where
  "hashed hash password =
     (case hash password of None \<Rightarrow> Inl (AppError CodeInvalidPassword ''Password could not be hashed'')
      | Some h \<Rightarrow> Inr h)"

definition UserService_List :: "(store, user list) service" where
  "UserService_List = mapped (\<lambda>_. databaseError) (query_call User_List)"

definition UserService_Get :: "ident \<Rightarrow> (store, user) service" where
  "UserService_Get i = mapped mapUserRepositoryError (query_call (User_Get i))"

definition new_user :: "ident \<Rightarrow> string \<Rightarrow> string \<Rightarrow> timestamp \<Rightarrow> user" where
  "new_user i username hash stamp =
     \<lparr>user_ID = i, Username = username, UsernameNormalized = NormalizeUsername username, PasswordHash = hash,
      user_Enabled = True, user_CreatedAt = stamp, user_UpdatedAt = stamp\<rparr>"

definition UserService_Create ::
  "hasher \<Rightarrow> new_ID \<Rightarrow> timestamp \<Rightarrow> string \<Rightarrow> string \<Rightarrow> (store, user) service" where
  "UserService_Create hash fresh now username password =
     and_then (require (validatePassword password)) (\<lambda>_.
     and_then (give (generated fresh)) (\<lambda>i.
     and_then (give (stamped now)) (\<lambda>stamp.
     and_then (give (hashed hash password)) (\<lambda>h.
     and_then (require (from_err (\<lambda>_. AppError AppCodeInvalidUsername ''Username is invalid'')
                 (User_Validate (new_user i username h stamp)))) (\<lambda>_.
     and_then (mapped mapUserRepositoryError (operation_call (User_Create (new_user i username h stamp)))) (\<lambda>_.
     give (Inr (new_user i username h stamp))))))))"

definition UserService_Delete :: "ident \<Rightarrow> (store, unit) service" where
  "UserService_Delete i = mapped mapUserRepositoryError (operation_call (User_Delete i))"

definition UserService_SetEnabled :: "timestamp \<Rightarrow> ident \<Rightarrow> bool \<Rightarrow> (store, bool) service" where
  "UserService_SetEnabled now i enabled =
     and_then (mapped mapUserRepositoryError (query_call (User_Get i))) (\<lambda>current.
     if user_Enabled current = enabled then give (Inr False)
     else
       and_then (give (stamped now)) (\<lambda>stamp.
       and_then (mapped mapUserRepositoryError (operation_call (User_SetEnabled i enabled stamp))) (\<lambda>_.
       give (Inr True))))"

definition UserService_ChangePassword :: "hasher \<Rightarrow> timestamp \<Rightarrow> ident \<Rightarrow> string \<Rightarrow> (store, unit) service" where
  "UserService_ChangePassword hash now i password =
     and_then (require (validatePassword password)) (\<lambda>_.
     and_then (give (hashed hash password)) (\<lambda>h.
     and_then (give (stamped now)) (\<lambda>stamp.
     mapped mapUserRepositoryError (operation_call (User_SetPasswordHash i h stamp)))))"

section \<open>Shares\<close>

type_synonym path_validator = "string \<Rightarrow> share_path_error option"

definition validateShare :: "share \<Rightarrow> app_error option" where
  "validateShare s =
     (case Share_Validate s of None \<Rightarrow> None
      | Some e \<Rightarrow> Some
          (if verr_code e = CodeInvalidShareName then AppError AppCodeInvalidShareName ''Share name is invalid''
           else if verr_code e = CodeInvalidShareSlug then AppError AppCodeInvalidShareSlug ''Share slug is invalid''
           else if verr_code e = CodeInvalidSharePath then AppError AppCodeInvalidSharePath ''Share path is invalid''
           else AppError AppCodeInvalidSharePath ''Share is invalid''))"

definition ShareService_List :: "(store, share list) service" where
  "ShareService_List = mapped (\<lambda>_. databaseError) (query_call Share_List)"

definition ShareService_Get :: "ident \<Rightarrow> (store, share) service" where
  "ShareService_Get i = mapped mapShareError (query_call (Share_Get i))"

definition ShareService_Create ::
  "path_validator \<Rightarrow> new_ID \<Rightarrow> timestamp \<Rightarrow> string \<Rightarrow> string \<Rightarrow> string \<Rightarrow> (store, share) service" where
  "ShareService_Create paths fresh now name slug path =
     and_then (give (generated fresh)) (\<lambda>i.
     and_then (give (stamped now)) (\<lambda>stamp.
     let share = \<lparr>share_ID = i, share_Name = name, Slug = slug, Path = path, share_Enabled = True,
                  share_CreatedAt = stamp, share_UpdatedAt = stamp\<rparr> in
     and_then (require (validateShare share)) (\<lambda>_.
     and_then (require (from_err mapSharePathError (paths path))) (\<lambda>_.
     and_then (mapped mapShareError (operation_call (Share_Create share))) (\<lambda>_.
     give (Inr share))))))"

record share_update =
  update_Name :: "string option"
  update_Slug :: "string option"
  update_Path :: "string option"
  update_Enabled :: "bool option"

definition or_current :: "'a option \<Rightarrow> 'a \<Rightarrow> 'a" where
  "or_current x current = (case x of None \<Rightarrow> current | Some v \<Rightarrow> v)"

definition updated_share :: "share_update \<Rightarrow> share \<Rightarrow> share" where
  "updated_share u s =
     s\<lparr>share_Name := or_current (update_Name u) (share_Name s), Slug := or_current (update_Slug u) (Slug s),
       Path := or_current (update_Path u) (Path s), share_Enabled := or_current (update_Enabled u) (share_Enabled s)\<rparr>"

definition ShareService_Update ::
  "path_validator \<Rightarrow> timestamp \<Rightarrow> ident \<Rightarrow> share_update \<Rightarrow> (store, share \<times> bool) service" where
  "ShareService_Update paths now i u =
     and_then (mapped mapShareError (query_call (Share_Get i))) (\<lambda>current.
     let share = updated_share u current in
     and_then (require (validateShare share)) (\<lambda>_.
     and_then (require (if update_Path u = None then None else from_err mapSharePathError (paths (Path share)))) (\<lambda>_.
     if share = current then give (Inr (current, False))
     else
       and_then (give (stamped now)) (\<lambda>stamp.
       let stamped_share = share\<lparr>share_UpdatedAt := stamp\<rparr> in
       and_then (mapped mapShareError (operation_call (Share_Update stamped_share))) (\<lambda>_.
       give (Inr (stamped_share, True)))))))"

definition ShareService_Delete :: "ident \<Rightarrow> (store, unit) service" where
  "ShareService_Delete i = mapped mapShareError (operation_call (Share_Delete i))"

section \<open>Permissions\<close>

record permission_entry =
  entry_ShareID :: ident
  entry_UserID :: ident
  entry_Username :: string
  entry_UserEnabled :: bool
  entry_Permission :: permission

text \<open>\<open>UserPermissionEntry\<close> and \<open>UserPermissionSummary\<close> have the same fields.\<close>

record user_permission_entry =
  up_ShareID :: ident
  up_ShareName :: string
  up_ShareSlug :: string
  up_ShareEnabled :: bool
  up_Permission :: permission

definition invalid_permission :: "string \<Rightarrow> app_error" where
  "invalid_permission message = AppError AppCodeInvalidPermission message"

text \<open>A map filled from the rows, later rows replacing earlier ones; an absent key reads as no permission.\<close>

definition permission_map :: "(share_permission \<Rightarrow> ident) \<Rightarrow> share_permission list \<Rightarrow> (ident \<times> permission) list" where
  "permission_map key ps = fold (\<lambda>p m. AList.update (key p) (Permission p) m) ps []"

definition permission_of :: "(ident \<times> permission) list \<Rightarrow> ident \<Rightarrow> permission" where
  "permission_of m i = (if map_index m i = [] then PermissionNone else map_index m i)"

definition PermissionService_List :: "ident \<Rightarrow> (store, permission_entry list) service" where
  "PermissionService_List shareID =
     and_then (mapped mapShareError (query_call (Share_Get shareID))) (\<lambda>_.
     and_then (mapped (\<lambda>_. databaseError) (query_call User_List)) (\<lambda>users.
     and_then (mapped (\<lambda>_. databaseError) (query_call (Permission_ListByShare shareID))) (\<lambda>permissions.
     give (Inr (map (\<lambda>u. \<lparr>entry_ShareID = shareID, entry_UserID = user_ID u, entry_Username = Username u,
         entry_UserEnabled = user_Enabled u,
         entry_Permission = permission_of (permission_map perm_UserID permissions) (user_ID u)\<rparr>) users)))))"

definition PermissionService_Set ::
  "timestamp \<Rightarrow> ident \<Rightarrow> ident \<Rightarrow> permission \<Rightarrow> (store, permission_entry \<times> bool) service" where
  "PermissionService_Set now shareID userID permission =
     and_then (require (fail_if (\<not> Permission_Valid permission)
                 (invalid_permission ''Permission must be NONE, READ, or READ_WRITE''))) (\<lambda>_.
     and_then (mapped mapShareError (query_call (Share_Get shareID))) (\<lambda>_.
     and_then (mapped mapUserRepositoryError (query_call (User_Get userID))) (\<lambda>user.
     and_then (mapped (\<lambda>_. databaseError) (query_call (Permission_ListByShare shareID))) (\<lambda>permissions.
     let current = (case find (\<lambda>p. perm_UserID p = userID) permissions of
                      None \<Rightarrow> PermissionNone | Some p \<Rightarrow> Permission p);
         entry = \<lparr>entry_ShareID = shareID, entry_UserID = userID, entry_Username = Username user,
                  entry_UserEnabled = user_Enabled user, entry_Permission = permission\<rparr> in
     if current = permission then give (Inr (entry, False))
     else if permission = PermissionNone then
       (\<lambda>x. case operation_call (Permission_Delete shareID userID) x of
          (y, Inl e) \<Rightarrow> (y, if e = ErrPermissionNotFound then Inr (entry, True) else Inl databaseError)
        | (y, Inr _) \<Rightarrow> (y, Inr (entry, True)))
     else
       and_then (give (stamped now)) (\<lambda>stamp.
       let grant = \<lparr>perm_ShareID = shareID, perm_UserID = userID, Permission = permission,
                    perm_CreatedAt = stamp, perm_UpdatedAt = stamp\<rparr> in
       and_then (require (from_err (\<lambda>_. invalid_permission ''Permission is invalid'') (SharePermission_Validate grant))) (\<lambda>_.
       and_then (mapped (\<lambda>_. databaseError) (operation_call (Permission_Set grant))) (\<lambda>_.
       give (Inr (entry, True)))))))))"

definition user_entry :: "share \<Rightarrow> permission \<Rightarrow> user_permission_entry" where
  "user_entry s p =
     \<lparr>up_ShareID = share_ID s, up_ShareName = share_Name s, up_ShareSlug = Slug s, up_ShareEnabled = share_Enabled s,
      up_Permission = p\<rparr>"

definition PermissionService_ListByUser :: "ident \<Rightarrow> (store, user_permission_entry list) service" where
  "PermissionService_ListByUser userID =
     and_then (mapped mapUserRepositoryError (query_call (User_Get userID))) (\<lambda>_.
     and_then (mapped (\<lambda>_. databaseError) (query_call Share_List)) (\<lambda>shares.
     and_then (mapped (\<lambda>_. databaseError) (query_call (Permission_ListByUser userID))) (\<lambda>permissions.
     give (Inr (map (\<lambda>s. user_entry s (permission_of (permission_map perm_ShareID permissions) (share_ID s))) shares)))))"

definition count_grant :: "share_permission \<Rightarrow> (ident \<times> nat) list \<Rightarrow> (ident \<times> nat) list" where
  "count_grant p counts =
     (if Permission p = PermissionNone then counts
      else AList.update (perm_ShareID p)
             (case map_of counts (perm_ShareID p) of None \<Rightarrow> 1 | Some n \<Rightarrow> n + 1) counts)"

definition AuthorizedUserCounts :: "(store, (ident \<times> nat) list) service" where
  "AuthorizedUserCounts =
     and_then (mapped (\<lambda>_. databaseError) (query_call Permission_ListAll)) (\<lambda>permissions.
     give (Inr (fold count_grant permissions [])))"

definition summarize ::
  "share list \<Rightarrow> share_permission \<Rightarrow> (ident \<times> user_permission_entry list) list
     \<Rightarrow> (ident \<times> user_permission_entry list) list" where
  "summarize shares p result =
     (if Permission p = PermissionNone then result
      else case map_of (rev (map (\<lambda>s. (share_ID s, s)) shares)) (perm_ShareID p) of
        None \<Rightarrow> result
      | Some s \<Rightarrow> AList.update (perm_UserID p)
          ((case map_of result (perm_UserID p) of None \<Rightarrow> [] | Some es \<Rightarrow> es) @ [user_entry s (Permission p)]) result)"

definition SummariesByUser :: "(store, (ident \<times> user_permission_entry list) list) service" where
  "SummariesByUser =
     and_then (mapped (\<lambda>_. databaseError) (query_call Share_List)) (\<lambda>shares.
     and_then (mapped (\<lambda>_. databaseError) (query_call Permission_ListAll)) (\<lambda>permissions.
     give (Inr (fold (summarize shares) permissions []))))"

section \<open>Server settings\<close>

fun check_ports :: "(int \<Rightarrow> bool) \<Rightarrow> server_settings \<Rightarrow> int list \<Rightarrow> app_error option" where
  "check_ports free current [] = None"
| "check_ports free current (port # ports) =
     (if port = HTTPPort current \<or> port = HTTPSPort current \<or> free port then check_ports free current ports
      else Some (AppError CodeServerPortUnavailable (''Port '' @ show_int port @ '' is unavailable'')))"

definition SettingsService_Get :: "(store, server_settings) service" where
  "SettingsService_Get = mapped mapServerSettingsError (query_call Settings_Get)"

definition SettingsService_UpdatePorts ::
  "(int \<Rightarrow> bool) \<Rightarrow> timestamp \<Rightarrow> int \<Rightarrow> int \<Rightarrow> (store, server_settings) service" where
  "SettingsService_UpdatePorts free now http https =
     and_then SettingsService_Get (\<lambda>current.
     and_then (require (from_err (\<lambda>_. AppError CodeInvalidServerPorts ''Server ports are invalid'')
                 (ServerSettings_Validate (current\<lparr>HTTPPort := http, HTTPSPort := https\<rparr>)))) (\<lambda>_.
     and_then (require (check_ports free current [http, https])) (\<lambda>_.
     and_then (give (stamped now)) (\<lambda>stamp.
     mapped mapServerSettingsError (operation_call (Settings_UpdatePorts http https stamp))))))"

end
