(* ===== verification/Certificate_Renewal.thy ===== *)
theory Certificate_Renewal
  imports Runtime_Manager Domain Sha256
begin

text \<open>
  The certificate of the managed host: where Caddy keeps it, its status, and the forced renewal that
  runs beside the runtime (\<^verbatim>\<open>caddy/certificate_status.go\<close>, \<^verbatim>\<open>certificate_renewal.go\<close>).  Reading and parsing the
  PEM file is the library's: an operation takes what it returned.  The monitor goroutine of a renewal
  is a sequence of ticks, each of which may come between any two operations of the manager.
\<close>

section \<open>The path of a certificate\<close>

text \<open>The replacer scans from the left; no two of its patterns start alike.\<close>

fun storage_replace :: "string \<Rightarrow> string" where
  "storage_replace [] = []"
| "storage_replace (CHR ''.'' # CHR ''.'' # cs) = storage_replace cs"
| "storage_replace (c # cs) =
     (if c = CHR '' '' then ''_''
      else if c = CHR ''+'' then ''_plus_''
      else if c = CHR ''*'' then ''wildcard_''
      else if c = CHR '':'' then ''-''
      else [c]) @ storage_replace cs"

text \<open>The complement of \<open>unsafeStorageKeyCharacters\<close>; a character beyond ASCII is unsafe byte for byte.\<close>

definition storage_char :: "char \<Rightarrow> bool" where
  "storage_char c \<longleftrightarrow>
     c \<in> set ''_@.-'' \<or> isASCIILetter c \<or> (CHR ''0'' \<le> c \<and> c \<le> CHR ''9'')"

definition safeStorageKey :: "string \<Rightarrow> string" where
  "safeStorageKey value = filter storage_char (storage_replace (to_lower (trim_space value)))"

definition defaultACMEIssuerStorageKey :: string where
  "defaultACMEIssuerStorageKey = ''acme-v02.api.letsencrypt.org-directory''"

definition path_join :: "string list \<Rightarrow> string" where
  "path_join parts =
     (case filter (\<lambda>p. p \<noteq> []) parts of [] \<Rightarrow> []
      | p # ps \<Rightarrow> path_clean (concat (p # map (\<lambda>q. ''/'' @ q) ps)))"

definition acmeCertificatePath :: "string \<Rightarrow> string \<Rightarrow> string" where
  "acmeCertificatePath storagePath hostname =
     (let key = safeStorageKey hostname
      in path_join [storagePath, ''certificates'', defaultACMEIssuerStorageKey, key, key @ ''.crt''])"

datatype platform = Windows | Darwin | OtherUnix

record platform_environment =
  os_platform :: platform
  XDG_DATA_HOME :: string
  AppData :: string
  home_directory :: "string option"

definition defaultCaddyStoragePath :: "platform_environment \<Rightarrow> string" where
  "defaultCaddyStoragePath e =
     (if XDG_DATA_HOME e \<noteq> [] then path_join [XDG_DATA_HOME e, ''caddy'']
      else case home_directory e of
        None \<Rightarrow> ''./caddy''
      | Some home \<Rightarrow>
          if home = [] then ''./caddy''
          else (case os_platform e of
            Windows \<Rightarrow> if AppData e \<noteq> [] then path_join [AppData e, ''Caddy''] else path_join [home, ''Caddy'']
          | Darwin \<Rightarrow> path_join [home, ''Library'', ''Application Support'', ''Caddy'']
          | OtherUnix \<Rightarrow> path_join [home, ''.local'', ''share'', ''caddy'']))"

section \<open>The status of a certificate\<close>

record certificate =
  cert_Raw :: string
  NotBefore :: int
  NotAfter :: int

datatype certificate_read = CertificateMissing | CertificateUnreadable | CertificateRead certificate

record certificate_status =
  cs_State :: string
  StoragePath :: string
  cs_CertificatePath :: string
  Message :: string
  validity :: "(int \<times> int) option"
  cs_LastErrorCode :: string
  Renewal :: bool

definition CertificateStatusACMEErrorCode :: string where
  "CertificateStatusACMEErrorCode = ''ACME_CERTIFICATE_ISSUANCE_FAILED''"

definition error_code_text :: "runtime_error_code option \<Rightarrow> string" where
  "error_code_text code =
     (case code of None \<Rightarrow> []
      | Some CodeCaddyNotFound \<Rightarrow> ''CADDY_NOT_FOUND''
      | Some CodeCaddyModuleMissing \<Rightarrow> ''CADDY_MODULE_MISSING''
      | Some CodeCaddyValidateFailed \<Rightarrow> ''CADDY_VALIDATE_FAILED''
      | Some CodeCaddyStartFailed \<Rightarrow> ''CADDY_START_FAILED''
      | Some CodeCaddyStopFailed \<Rightarrow> ''CADDY_STOP_FAILED''
      | Some CodeCaddyReloadFailed \<Rightarrow> ''CADDY_RELOAD_FAILED''
      | Some CodeRuntimeUnhealthy \<Rightarrow> ''RUNTIME_UNHEALTHY'')"

definition renewal_key :: "string \<Rightarrow> string" where
  "renewal_key hostname = to_lower (trim_space hostname)"

definition certificateRenewalSnapshot :: "string \<Rightarrow> runtime_manager \<Rightarrow> certificate_renewal option" where
  "certificateRenewalSnapshot hostname m = map_of (renewals m) (renewal_key hostname)"

definition CertificateStatus ::
  "bool \<Rightarrow> string \<Rightarrow> (string \<Rightarrow> certificate_read) \<Rightarrow> int \<Rightarrow> (string \<Rightarrow> bool) option \<Rightarrow> string
     \<Rightarrow> runtime_manager \<Rightarrow> runtime_manager \<times> certificate_status" where
  "CertificateStatus canceled storagePath readCertificate now errorReader hostname m =
     (if canceled then
        (m, \<lparr>cs_State = ''UNKNOWN'', StoragePath = [], cs_CertificatePath = [],
             Message = ''Certificate status is unavailable'', validity = None, cs_LastErrorCode = [], Renewal = False\<rparr>)
      else
        case runningLocked m of (m1, running) \<Rightarrow>
          let path = acmeCertificatePath storagePath hostname;
              read = readCertificate path;
              result = \<lparr>cs_State = ''WAITING_FOR_RUNTIME'', StoragePath = storagePath, cs_CertificatePath = path,
                Message = ''Start Caddy and apply the configuration to request the certificate'',
                validity = (case read of CertificateRead c \<Rightarrow> Some (NotBefore c, NotAfter c) | _ \<Rightarrow> None),
                cs_LastErrorCode = error_code_text (lastErrorCode m1), Renewal = False\<rparr>
          in (m1,
              case certificateRenewalSnapshot hostname m1 of
                Some r \<Rightarrow> result\<lparr>Renewal := True, cs_State := renewal_state r, Message := renewal_message r,
                                cs_LastErrorCode := renewal_error r\<rparr>
              | None \<Rightarrow>
                  (case read of
                     CertificateRead c \<Rightarrow>
                       if \<not> now < NotAfter c
                       then result\<lparr>cs_State := ''EXPIRED'', Message := ''The managed certificate has expired''\<rparr>
                       else result\<lparr>cs_State := ''READY'', Message := ''The managed certificate is available''\<rparr>
                   | CertificateUnreadable \<Rightarrow>
                       result\<lparr>cs_State := ''FAILED'', Message := ''The managed certificate could not be read''\<rparr>
                   | CertificateMissing \<Rightarrow>
                       if lastErrorCode m1 \<noteq> None
                       then result\<lparr>cs_State := ''FAILED'',
                              Message := ''Caddy reported a runtime error while managing the certificate''\<rparr>
                       else if (case errorReader of None \<Rightarrow> False | Some seen \<Rightarrow> seen hostname)
                       then result\<lparr>cs_State := ''FAILED'', cs_LastErrorCode := CertificateStatusACMEErrorCode,
                              Message := ''Caddy reported an ACME certificate issuance error''\<rparr>
                       else if running
                       then result\<lparr>cs_State := ''ISSUING'',
                              Message := ''Caddy is requesting or renewing the certificate''\<rparr>
                       else result)))"

section \<open>Forcing a renewal\<close>

definition certificateRenewalIssuing :: string where "certificateRenewalIssuing = ''ISSUING''"
definition certificateRenewalFailed :: string where "certificateRenewalFailed = ''FAILED''"

definition renewalRuntimeError :: "string \<Rightarrow> runtime_error" where
  "renewalRuntimeError message = RuntimeError CodeCaddyReloadFailed message"

definition certificateFingerprint :: "certificate \<Rightarrow> string" where
  "certificateFingerprint c = sha256_hex (cert_Raw c)"

definition delete_renewal :: "string \<Rightarrow> runtime_manager \<Rightarrow> runtime_manager" where
  "delete_renewal hostname m = m\<lparr>renewals := AList.delete hostname (renewals m)\<rparr>"

definition cancel_context :: "nat \<Rightarrow> runtime_manager \<Rightarrow> runtime_manager" where
  "cancel_context serial m = m\<lparr>cancelled := insert serial (cancelled m)\<rparr>"

text \<open>The first critical section of \<open>ForceRenewCertificate\<close>: the renewal it registered, or its error.\<close>

definition begin_renewal ::
  "bool \<Rightarrow> bool \<Rightarrow> string \<Rightarrow> (string \<Rightarrow> certificate_read) \<Rightarrow> string \<Rightarrow> runtime_manager
     \<Rightarrow> runtime_manager \<times> (runtime_error + certificate_renewal)" where
  "begin_renewal canceled supported storagePath readCertificate host m =
     (let hostname = renewal_key host in
      if hostname = [] then (m, Inl (renewalRuntimeError ''Certificate hostname is required''))
      else if canceled then (m, Inl (renewalRuntimeError ''Certificate renewal was canceled''))
      else case runningLocked m of (m1, running) \<Rightarrow>
        if \<not> running then (m1, Inl (renewalRuntimeError ''Caddy is not running''))
        else if \<not> supported then
          (m1, Inl (renewalRuntimeError ''Caddy does not support forced certificate renewal''))
        else if (case map_of (renewals m1) hostname of None \<Rightarrow> False
                 | Some active \<Rightarrow> renewal_state active = certificateRenewalIssuing) then
          (m1, Inl (renewalRuntimeError ''Certificate renewal is already in progress''))
        else case readCertificate (acmeCertificatePath storagePath hostname) of
          CertificateRead old \<Rightarrow>
            let renewal = \<lparr>renewal_serial = next_serial m1, renewal_hostname = hostname,
                  oldFingerprint = certificateFingerprint old, renewal_state = certificateRenewalIssuing,
                  renewal_message = ''Caddy is forcing renewal through the saved ACME policy'', renewal_error = []\<rparr>
            in (m1\<lparr>renewals := AList.update hostname renewal (renewals m1), next_serial := next_serial m1 + 1\<rparr>,
                Inr renewal)
        | _ \<Rightarrow> (m1, Inl (renewalRuntimeError ''The managed certificate could not be loaded for renewal'')))"

definition registered :: "certificate_renewal \<Rightarrow> runtime_manager \<Rightarrow> bool" where
  "registered renewal m \<longleftrightarrow>
     (case map_of (renewals m) (renewal_hostname renewal) of None \<Rightarrow> False
      | Some r \<Rightarrow> renewal_serial r = renewal_serial renewal)"

text \<open>The second one, when Caddy did not accept the request.\<close>

definition abort_renewal :: "certificate_renewal \<Rightarrow> runtime_manager \<Rightarrow> runtime_manager \<times> runtime_error option" where
  "abort_renewal renewal m =
     (cancel_context (renewal_serial renewal)
        (if registered renewal m then delete_renewal (renewal_hostname renewal) m else m),
      Some (renewalRuntimeError ''Unable to start certificate renewal in Caddy''))"

definition ForceRenewCertificate ::
  "bool \<Rightarrow> bool \<Rightarrow> string \<Rightarrow> (string \<Rightarrow> certificate_read) \<Rightarrow> bool \<Rightarrow> string \<Rightarrow> runtime_manager
     \<Rightarrow> runtime_manager \<times> runtime_error option" where
  "ForceRenewCertificate canceled supported storagePath readCertificate accepted host m =
     (case begin_renewal canceled supported storagePath readCertificate host m of
        (m1, Inl err) \<Rightarrow> (m1, Some err)
      | (m1, Inr renewal) \<Rightarrow> if accepted then (m1, None) else abort_renewal renewal m1)"

section \<open>The monitor\<close>

definition recordCertificateRenewalFailureLocked :: "certificate_renewal \<Rightarrow> runtime_manager \<Rightarrow> runtime_manager" where
  "recordCertificateRenewalFailureLocked renewal m =
     cancel_context (renewal_serial renewal)
       (m\<lparr>renewals := AList.update (renewal_hostname renewal)
            (renewal\<lparr>renewal_state := certificateRenewalFailed,
               renewal_message := ''Caddy could not renew the managed certificate; check the logs'',
               renewal_error := CertificateStatusACMEErrorCode\<rparr>) (renewals m)\<rparr>)"

definition finishCertificateRenewal :: "certificate_renewal \<Rightarrow> runtime_manager \<Rightarrow> runtime_manager" where
  "finishCertificateRenewal renewal m =
     (if \<not> registered renewal m then m
      else cancel_context (renewal_serial renewal) (delete_renewal (renewal_hostname renewal) m))"

definition clearCertificateRenewal :: "certificate_renewal \<Rightarrow> runtime_manager \<Rightarrow> runtime_manager" where
  "clearCertificateRenewal renewal m =
     (if registered renewal m
      then cancel_context (renewal_serial renewal) (delete_renewal (renewal_hostname renewal) m) else m)"

definition failCertificateRenewal :: "certificate_renewal \<Rightarrow> runtime_manager \<Rightarrow> runtime_manager" where
  "failCertificateRenewal renewal m =
     (if registered renewal m then recordCertificateRenewalFailureLocked renewal m else m)"

datatype monitor_event =
  MonitorCanceled
| MonitorTimeout
| MonitorTick certificate_read "string option"

text \<open>One turn of \<open>monitorCertificateRenewal\<close>: the manager after it and whether the monitor goes on.\<close>

fun monitor_turn :: "certificate_renewal \<Rightarrow> monitor_event \<Rightarrow> runtime_manager \<Rightarrow> runtime_manager \<times> bool" where
  "monitor_turn renewal MonitorCanceled m = (m, False)"
| "monitor_turn renewal MonitorTimeout m = (failCertificateRenewal renewal m, False)"
| "monitor_turn renewal (MonitorTick read status) m =
     (if (case read of CertificateRead c \<Rightarrow> certificateFingerprint c \<noteq> oldFingerprint renewal | _ \<Rightarrow> False)
      then (finishCertificateRenewal renewal m, False)
      else case status of
        None \<Rightarrow> (m, True)
      | Some s \<Rightarrow>
          if s = certificateRenewalFailed then (failCertificateRenewal renewal m, False)
          else if s = ''CANCELED'' then (clearCertificateRenewal renewal m, False)
          else if s = ''SUCCEEDED'' then (finishCertificateRenewal renewal m, False)
          else (m, True))"

fun monitorCertificateRenewal :: "certificate_renewal \<Rightarrow> monitor_event list \<Rightarrow> runtime_manager \<Rightarrow> runtime_manager" where
  "monitorCertificateRenewal renewal [] m = m"
| "monitorCertificateRenewal renewal (e # es) m =
     (case monitor_turn renewal e m of (m1, continue) \<Rightarrow>
        if continue then monitorCertificateRenewal renewal es m1 else m1)"

section \<open>Canceling a renewal\<close>

text \<open>The renewal found in the first critical section is looked up again in the second one, after the
  request to Caddy.\<close>

definition find_active_renewal :: "bool \<Rightarrow> string \<Rightarrow> runtime_manager \<Rightarrow> runtime_error + certificate_renewal" where
  "find_active_renewal supported host m =
     (case map_of (renewals m) (renewal_key host) of
        None \<Rightarrow> Inl (renewalRuntimeError ''Certificate renewal is not in progress'')
      | Some renewal \<Rightarrow>
          if renewal_state renewal \<noteq> certificateRenewalIssuing
          then Inl (renewalRuntimeError ''Certificate renewal is not in progress'')
          else if \<not> supported
          then Inl (renewalRuntimeError ''Caddy does not support canceling certificate renewal'')
          else Inr renewal)"

definition CancelRenewCertificate ::
  "bool \<Rightarrow> bool \<Rightarrow> string \<Rightarrow> runtime_manager \<Rightarrow> runtime_manager \<times> runtime_error option" where
  "CancelRenewCertificate supported accepted host m =
     (case find_active_renewal supported host m of
        Inl err \<Rightarrow> (m, Some err)
      | Inr renewal \<Rightarrow>
          if \<not> accepted then (m, Some (renewalRuntimeError ''Unable to cancel certificate renewal''))
          else (clearCertificateRenewal renewal m, None))"

end
