(* ===== verification/Provider_Services.thy ===== *)
theory Provider_Services
  imports Resource_Services Secret_Store Certificate_Renewal
begin

text \<open>
  The services of DNS provider credentials and of TLS (\<^verbatim>\<open>app/dns_provider_service.go\<close>,
  \<^verbatim>\<open>tls_service.go\<close>).  A service of TLS also talks to the runtime, whose state is beside the store; the
  resolver and the file checker are the system's and so are parameters.
\<close>

section \<open>DNS provider credentials\<close>

record dns_view =
  view_ID :: ident
  view_Name :: string
  view_Provider :: dns_provider_type
  view_AllowedZones :: "string list"
  SecretConfigured :: bool
  view_CreatedAt :: timestamp
  view_UpdatedAt :: timestamp

text \<open>A nil map of secret fields, which is told from an empty one, is \<open>None\<close>.\<close>

record dns_update =
  up_ID :: ident
  up_Name :: string
  up_Provider :: dns_provider_type
  up_AllowedZones :: "string list"
  up_Secret :: "dns_secret option"

text \<open>Calls of the secret store.\<close>

definition secret_query :: "aead \<Rightarrow> ident \<Rightarrow> store \<Rightarrow> store \<times> (secret_store_error + dns_secret option)" where
  "secret_query a i = (\<lambda>(d, faults). ((d, tl faults),
     if faults \<noteq> [] \<and> hd faults then Inl (SecretDB Unavailable) else Secret_Get a i d))"

definition secret_put ::
  "aead \<Rightarrow> string option \<Rightarrow> ident \<Rightarrow> dns_secret \<Rightarrow> store \<Rightarrow> store \<times> (secret_store_error + unit)" where
  "secret_put a random i secret = (\<lambda>(d, faults).
     if faults \<noteq> [] \<and> hd faults then ((d, tl faults), Inl (SecretDB Unavailable))
     else (case Secret_Put a random i secret d of
        (d', Some e) \<Rightarrow> ((d', tl faults), Inl e) | (d', None) \<Rightarrow> ((d', tl faults), Inr ())))"

definition DNSProviderService_view :: "aead \<Rightarrow> dns_credential \<Rightarrow> (store, dns_view) service" where
  "DNSProviderService_view a c =
     and_then (mapped (\<lambda>_. databaseError) (secret_query a (dns_ID c))) (\<lambda>secret.
     give (Inr \<lparr>view_ID = dns_ID c, view_Name = dns_Name c, view_Provider = Provider c,
                view_AllowedZones = AllowedZones c, SecretConfigured = (secret \<noteq> None),
                view_CreatedAt = dns_CreatedAt c, view_UpdatedAt = dns_UpdatedAt c\<rparr>))"

fun views :: "aead \<Rightarrow> dns_credential list \<Rightarrow> (store, dns_view list) service" where
  "views a [] = give (Inr [])"
| "views a (c # cs) =
     and_then (DNSProviderService_view a c) (\<lambda>v. and_then (views a cs) (\<lambda>vs. give (Inr (v # vs))))"

definition DNSProviderService_List :: "aead \<Rightarrow> (store, dns_view list) service" where
  "DNSProviderService_List a = and_then (mapped (\<lambda>_. databaseError) (query_call DNS_List)) (views a)"

definition credential_error :: "db_error \<Rightarrow> app_error" where
  "credential_error e =
     (if e = ErrDNSProviderNotFound
      then AppError CodeDNSProviderNotFound ''DNS provider credential was not found'' else databaseError)"

definition DNSProviderService_Get :: "aead \<Rightarrow> ident \<Rightarrow> (store, dns_view) service" where
  "DNSProviderService_Get a i =
     and_then (mapped credential_error (query_call (DNS_Get i))) (DNSProviderService_view a)"

definition unsupported_provider :: app_error where
  "unsupported_provider = AppError AppCodeInvalidDNSProvider ''DNS provider is not supported by this build''"

definition invalid_secret :: app_error where
  "invalid_secret = AppError CodeInvalidDNSProviderSecret ''DNS provider secret is invalid''"

text \<open>The credential an update replaces, if it names one.\<close>

definition existing_credential :: "dns_update \<Rightarrow> (store, dns_credential option) service" where
  "existing_credential u =
     (if up_ID u = [] then give (Inr None)
      else and_then (mapped credential_error (query_call (DNS_Get (up_ID u)))) (\<lambda>c. give (Inr (Some c))))"

definition name_taken :: "dns_update \<Rightarrow> bool \<Rightarrow> dns_credential list \<Rightarrow> app_error option" where
  "name_taken u found cs =
     fail_if (list_ex (\<lambda>c. dns_Name c = up_Name u \<and> (\<not> found \<or> dns_ID c \<noteq> up_ID u)) cs)
       (AppError CodeDNSProviderAlreadyExists ''DNS provider credential name already exists'')"

definition saved_credential ::
  "dns_update \<Rightarrow> dns_credential option \<Rightarrow> new_ID \<Rightarrow> timestamp \<Rightarrow> app_error + dns_credential" where
  "saved_credential u existing fresh stamp =
     (case existing of
        Some c \<Rightarrow> Inr \<lparr>dns_ID = dns_ID c, dns_Name = up_Name u, Provider = up_Provider u,
                      AllowedZones = up_AllowedZones u, dns_CreatedAt = dns_CreatedAt c, dns_UpdatedAt = stamp\<rparr>
      | None \<Rightarrow>
          (case generated fresh of Inl e \<Rightarrow> Inl e
           | Inr i \<Rightarrow> Inr \<lparr>dns_ID = i, dns_Name = up_Name u, Provider = up_Provider u,
                           AllowedZones = up_AllowedZones u, dns_CreatedAt = stamp, dns_UpdatedAt = stamp\<rparr>))"

text \<open>The secret of an update is checked; without one, the stored one must be kept and be there.\<close>

definition check_secret ::
  "aead \<Rightarrow> adapter \<Rightarrow> dns_update \<Rightarrow> dns_credential option \<Rightarrow> dns_credential \<Rightarrow> (store, unit) service" where
  "check_secret a adapter u existing c =
     (if up_Secret u = None \<and> (\<exists>old. existing = Some old \<and> Provider old = Provider c) then
        and_then (mapped (\<lambda>_. databaseError) (secret_query a (dns_ID c))) (\<lambda>secret.
          require (fail_if (secret = None)
            (AppError CodeDNSProviderSecretMissing ''DNS provider credentials must be supplied'')))
      else require (from_err (\<lambda>_. invalid_secret)
        (ValidateSecret adapter (case up_Secret u of None \<Rightarrow> [] | Some s \<Rightarrow> s))))"

definition DNSProviderService_Save ::
  "aead \<Rightarrow> string option \<Rightarrow> new_ID \<Rightarrow> timestamp \<Rightarrow> dns_update \<Rightarrow> (store, dns_view) service" where
  "DNSProviderService_Save a random fresh now u =
     and_then (existing_credential u) (\<lambda>existing.
     and_then (mapped (\<lambda>_. databaseError) (query_call DNS_List)) (\<lambda>providers.
     and_then (require (name_taken u (existing \<noteq> None) providers)) (\<lambda>_.
     and_then (give (stamped now)) (\<lambda>stamp.
     and_then (give (saved_credential u existing fresh stamp)) (\<lambda>c.
     and_then (require (from_err (\<lambda>_. AppError AppCodeInvalidDNSProvider ''DNS provider credential metadata is invalid'')
                 (DNSProviderCredential_Validate c))) (\<lambda>_.
     and_then (give (case For (Provider c) of None \<Rightarrow> Inl unsupported_provider | Some adapter \<Rightarrow> Inr adapter)) (\<lambda>adapter.
     and_then (check_secret a adapter u existing c) (\<lambda>_.
     and_then (mapped mapDNSProviderRepositoryError (operation_call (DNS_Save c))) (\<lambda>_.
     and_then (case up_Secret u of None \<Rightarrow> give (Inr ())
               | Some secret \<Rightarrow> mapped (\<lambda>_. databaseError) (secret_put a random (dns_ID c) secret)) (\<lambda>_.
     DNSProviderService_view a c))))))))))"

definition DNSProviderService_Delete :: "ident \<Rightarrow> (store, unit) service" where
  "DNSProviderService_Delete i = mapped mapDNSProviderRepositoryError (operation_call (DNS_Delete i))"

definition hostnameAllowedByZones :: "string \<Rightarrow> string list \<Rightarrow> bool" where
  "hostnameAllowedByZones hostname zones =
     (let host = trim_prefix (to_lower hostname) ''*.'' in
      list_ex (\<lambda>z. let zone = to_lower (trim_suffix z ''.'')
                  in host = zone \<or> has_suffix host (''.'' @ zone)) zones)"

definition DNSProviderService_Environment :: "aead \<Rightarrow> runtime_input \<Rightarrow> (store, env) service" where
  "DNSProviderService_Environment a input =
     (case TLSProfile input of None \<Rightarrow> give (Inr [])
      | Some p \<Rightarrow>
          if Challenge p \<noteq> TLSChallengeDNS then give (Inr [])
          else (case DNSProviderID p of
             None \<Rightarrow> give (Inl (AppError CodeDNSProviderSecretMissing ''DNS TLS challenge has no provider''))
           | Some i \<Rightarrow>
               and_then (mapped credential_error (query_call (DNS_Get i))) (\<lambda>c.
               and_then (require (fail_if (AllowedZones c \<noteq> [] \<and> \<not> hostnameAllowedByZones (Hostname p) (AllowedZones c))
                           (AppError CodeDNSProviderZoneNotAllowed
                             ''TLS hostname is outside the DNS provider credential's allowed zones''))) (\<lambda>_.
               and_then (mapped (\<lambda>_. databaseError) (secret_query a (dns_ID c))) (\<lambda>configured.
               and_then (give (case configured of
                           None \<Rightarrow> Inl (AppError CodeDNSProviderSecretMissing ''DNS provider credential has no secret'')
                         | Some secret \<Rightarrow> Inr secret)) (\<lambda>secret.
               and_then (give (case For (Provider c) of None \<Rightarrow> Inl unsupported_provider | Some adapter \<Rightarrow> Inr adapter)) (\<lambda>adapter.
               and_then (require (from_err (\<lambda>_. invalid_secret) (ValidateSecret adapter secret))) (\<lambda>_.
               give (Inr (Environment adapter (dns_ID c) secret)))))))))) "

end
