(* ===== verification/Runtime_Steps.thy ===== *)
theory Runtime_Steps
  imports Certificate_Renewal
begin

text \<open>
  The manager as a state machine: the daemon's calls, the ticks of renewal monitors and the exits of
  the process in any order, its invariant, and what each call guarantees.
\<close>

section \<open>Steps\<close>

inductive runtime_step :: "runtime_manager \<Rightarrow> runtime_manager \<Rightarrow> bool" where
  starting: "runtime_step m (fst (StartWithEnvironment v calls c env m))"
| reloading: "runtime_step m (fst (Reload v calls c m))"
| stopping: "runtime_step m (fst (Stop_Runtime calls m))"
| asking: "runtime_step m (fst (StatusSnapshot calls m))"
| matching: "runtime_step m (fst (EnvironmentMatches env m))"
| exiting: "runtime_step m (process_exits e m)"
| reporting: "runtime_step m (fst (CertificateStatus canceled path read now reader host m))"
| renewing: "runtime_step m (fst (begin_renewal canceled supported path read host m))"
| aborting: "runtime_step m (fst (abort_renewal r m))"
| monitoring: "runtime_step m (fst (monitor_turn r e m))"
| canceling: "runtime_step m (fst (CancelRenewCertificate supported accepted host m))"

inductive runtime_reachable :: "runtime_manager \<Rightarrow> bool" where
  new: "runtime_reachable (NewRuntimeManager file)"
| next_step: "runtime_reachable m \<Longrightarrow> runtime_step m m' \<Longrightarrow> runtime_reachable m'"

inductive_cases runtime_stepE: "runtime_step m m'"

section \<open>The process\<close>

text \<open>A live process is the one the manager waits for, with the environment it remembers.\<close>

definition managed :: "runtime_manager \<Rightarrow> bool" where
  "managed m \<longleftrightarrow> (\<forall>p. process m = Some p \<longrightarrow>
     command m \<and> done_chan m = Some None \<and> environment m = cloneEnvironment (inherited p))"

lemma managed_running:
  "managed m \<Longrightarrow> process m \<noteq> None \<Longrightarrow> runningLocked m = (m, True)"
  by (auto simp: managed_def runningLocked_def)

lemma runningLocked_fields:
  assumes "runningLocked m = (m1, b)"
  shows "process m1 = process m" "command m1 = command m" "environment m1 = environment m"
    "config_file m1 = config_file m" "lastErrorCode m1 = lastErrorCode m" "renewals m1 = renewals m"
    "next_serial m1 = next_serial m" "cancelled m1 = cancelled m" "managed m \<Longrightarrow> managed m1"
    "b \<longleftrightarrow> command m \<and> done_chan m = Some None"
  using assms by (auto simp: runningLocked_def managed_def split: if_splits option.splits)

lemma cancelRenewals_fields [simp]:
  "process (cancelRenewalsLocked m) = process m" "command (cancelRenewalsLocked m) = command m"
  "environment (cancelRenewalsLocked m) = environment m" "done_chan (cancelRenewalsLocked m) = done_chan m"
  "config_file (cancelRenewalsLocked m) = config_file m" "lastErrorCode (cancelRenewalsLocked m) = lastErrorCode m"
  "renewals (cancelRenewalsLocked m) = []" "next_serial (cancelRenewalsLocked m) = next_serial m"
  by (simp_all add: cancelRenewalsLocked_def)

lemma recordFailure_fields [simp]:
  "process (fst (recordFailure err m)) = process m" "command (fst (recordFailure err m)) = command m"
  "environment (fst (recordFailure err m)) = environment m" "done_chan (fst (recordFailure err m)) = done_chan m"
  "config_file (fst (recordFailure err m)) = config_file m" "renewals (fst (recordFailure err m)) = renewals m"
  "next_serial (fst (recordFailure err m)) = next_serial m" "cancelled (fst (recordFailure err m)) = cancelled m"
  "snd (recordFailure err m) = Some err" "lastErrorCode (fst (recordFailure err m)) \<noteq> None"
  by (simp_all add: recordFailure_def)

lemma managed_cong:
  "process m' = process m \<Longrightarrow> command m' = command m \<Longrightarrow> done_chan m' = done_chan m
     \<Longrightarrow> environment m' = environment m \<Longrightarrow> managed m \<Longrightarrow> managed m'"
  by (simp add: managed_def)

lemma managed_dead: "process m = None \<Longrightarrow> managed m"
  by (simp add: managed_def)

lemma process_exits_fields [simp]:
  "process (process_exits e m) = None" "renewals (process_exits e m) = renewals m"
  "next_serial (process_exits e m) = next_serial m" "command (process_exits e m) = command m"
  "config_file (process_exits e m) = config_file m" "cancelled (process_exits e m) = cancelled m"
  "lastErrorCode (process_exits e m) = lastErrorCode m" "environment (process_exits e m) = environment m"
  by (simp_all add: process_exits_def)

text \<open>The startup loop ends healthy, or without a process.\<close>

definition startup_result :: "runtime_manager \<Rightarrow> runtime_manager \<times> runtime_error option \<Rightarrow> bool" where
  "startup_result m = (\<lambda>(m', r).
     renewals m' = renewals m \<and> next_serial m' = next_serial m \<and> config_file m' = config_file m
     \<and> cancelled m' = cancelled m
     \<and> (r = None \<longrightarrow> process m' = process m \<and> lastErrorCode m' = None \<and> command m' \<and> done_chan m' = Some None \<and> managed m')
     \<and> (r \<noteq> None \<longrightarrow> process m' = None \<and> \<not> command m' \<and> lastErrorCode m' \<noteq> None))"

lemma startup_failed:
  "process x = None \<Longrightarrow> \<not> command x \<Longrightarrow> renewals x = renewals m \<Longrightarrow> next_serial x = next_serial m
     \<Longrightarrow> config_file x = config_file m \<Longrightarrow> cancelled x = cancelled m \<Longrightarrow> startup_result m (recordFailure err x)"
  by (simp add: startup_result_def recordFailure_def)

lemma await_health_result:
  assumes "command m" and "done_chan m = Some None" and "\<And>p. process m = Some p \<Longrightarrow> inherited p = env"
  shows "startup_result m (await_health env ps m)"
  using assms
proof (induction env ps m rule: await_health.induct)
  case (2 env ps m)
  then show ?case by (simp add: startup_result_def managed_def)
qed (simp_all add: startup_times_out_def fail_runtime_def startup_failed kill_process_def)

lemma StartWithEnvironment_cases:
  assumes "StartWithEnvironment v calls c env m = (m', r)" and "managed m"
  shows "managed m'"
    and "process m \<noteq> None \<Longrightarrow> m' = m \<and> r = None"
    and "process m = None \<Longrightarrow> \<not> (command m \<and> done_chan m = Some None) \<Longrightarrow>
      (r = None \<longrightarrow> process m' = Some \<lparr>serving = c, inherited = env\<rparr> \<and> config_file m' = Some c
          \<and> lastErrorCode m' = None \<and> validateWithEnvironment v c env = None \<and> command m' \<and> done_chan m' = Some None)
      \<and> (r \<noteq> None \<longrightarrow> process m' = None \<and> lastErrorCode m' \<noteq> None)"
    and "renewals m' = renewals m \<and> cancelled m' = cancelled m \<or> renewals m' = []"
    and "next_serial m' = next_serial m"
proof -
  obtain m1 b where run: "runningLocked m = (m1, b)" by fastforce
  note f = runningLocked_fields [OF run]
  let ?m2 = "cancelRenewalsLocked m1"
  let ?m3 = "?m2\<lparr>config_file := Some c\<rparr>"
  let ?m4 = "?m3\<lparr>command := True, done_chan := Some None, process := Some \<lparr>serving = c, inherited = env\<rparr>\<rparr>"
  consider (running) "b" "m' = m1" "r = None"
    | (failed) "\<not> b" "r \<noteq> None" "process m' = process m" "command m' = command m1" "done_chan m' = done_chan m1"
        "environment m' = environment m" "renewals m' = []" "next_serial m' = next_serial m" "lastErrorCode m' \<noteq> None"
    | (started) "\<not> b" "validateWithEnvironment v c env = None" "await_health env (polls calls) ?m4 = (m', r)"
  proof (cases b)
    case True
    then show thesis using running assms(1) run by (simp add: StartWithEnvironment_def)
  next
    case no: False
    have fail: "recordFailure err x = (m', r) \<Longrightarrow> process x = process m \<Longrightarrow> command x = command m1 \<Longrightarrow> done_chan x = done_chan m1
        \<Longrightarrow> environment x = environment m \<Longrightarrow> renewals x = [] \<Longrightarrow> next_serial x = next_serial m \<Longrightarrow> thesis" for err x
      by (rule failed) (use no in \<open>auto simp: recordFailure_def\<close>)
    show thesis
    proof (cases "validateWithEnvironment v c env")
      case (Some err)
      then show thesis using fail [of err ?m2] assms(1) run no f by (simp add: StartWithEnvironment_def)
    next
      case None
      show thesis
      proof (cases "list_all id (write_calls calls) \<and> spawn_ok calls")
        case True
        then show thesis using started None no assms(1) run
          by (simp add: StartWithEnvironment_def writeConfigAtomically_def Let_def)
      next
        case False
        then have "(\<exists>err. recordFailure err ?m2 = (m', r)) \<or> (\<exists>err. recordFailure err ?m3 = (m', r))"
          using None no assms(1) run
          by (cases "list_all id (write_calls calls)")
             (auto simp: StartWithEnvironment_def writeConfigAtomically_def Let_def fail_runtime_def)
        then show thesis using fail [of _ ?m2] fail [of _ ?m3] f by auto
      qed
    qed
  qed
  then have "managed m' \<and> (process m \<noteq> None \<longrightarrow> m' = m \<and> r = None)
    \<and> (process m = None \<longrightarrow> \<not> (command m \<and> done_chan m = Some None) \<longrightarrow>
      (r = None \<longrightarrow> process m' = Some \<lparr>serving = c, inherited = env\<rparr> \<and> config_file m' = Some c
          \<and> lastErrorCode m' = None \<and> validateWithEnvironment v c env = None \<and> command m' \<and> done_chan m' = Some None)
      \<and> (r \<noteq> None \<longrightarrow> process m' = None \<and> lastErrorCode m' \<noteq> None))
    \<and> (renewals m' = renewals m \<and> cancelled m' = cancelled m \<or> renewals m' = []) \<and> next_serial m' = next_serial m"
  proof cases
    case running
    then show ?thesis using f assms(2) managed_running [OF assms(2)] run by auto
  next
    case failed
    have "process m = None" using failed(1) managed_running [OF assms(2)] run by (cases "process m") auto
    then show ?thesis using failed managed_dead by auto
  next
    case started
    have "process m = None" using started(1) managed_running [OF assms(2)] run by (cases "process m") auto
    moreover have "startup_result ?m4 (m', r)"
      unfolding started(3) [symmetric] by (rule await_health_result) simp_all
    ultimately show ?thesis using started(2) f managed_dead [of m'] by (cases r) (simp_all add: startup_result_def)
  qed
  then show "managed m'" "process m \<noteq> None \<Longrightarrow> m' = m \<and> r = None"
    "process m = None \<Longrightarrow> \<not> (command m \<and> done_chan m = Some None) \<Longrightarrow>
      (r = None \<longrightarrow> process m' = Some \<lparr>serving = c, inherited = env\<rparr> \<and> config_file m' = Some c
          \<and> lastErrorCode m' = None \<and> validateWithEnvironment v c env = None \<and> command m' \<and> done_chan m' = Some None)
      \<and> (r \<noteq> None \<longrightarrow> process m' = None \<and> lastErrorCode m' \<noteq> None)"
    "renewals m' = renewals m \<and> cancelled m' = cancelled m \<or> renewals m' = []" "next_serial m' = next_serial m"
    by blast+
qed

text \<open>The other calls, on a manager whose process is dead and on one whose process is alive.\<close>

lemma not_running:
  assumes "managed m" and "runningLocked m = (m1, False)"
  shows "process m = None"
  using assms managed_running by (cases "process m") force+

lemma managed_cancelRenewals [simp]: "managed m \<Longrightarrow> managed (cancelRenewalsLocked m)"
  by (simp add: managed_def)

lemma Stop_cases:
  assumes "Stop_Runtime calls m = (m', r)" and "managed m"
  shows "managed m'" and "r = None \<Longrightarrow> process m' = None \<and> \<not> command m' \<and> lastErrorCode m' = None"
    and "process m' = process m \<or> process m' = None" and "renewals m' = []" and "next_serial m' = next_serial m"
proof -
  let ?m = "cancelRenewalsLocked m"
  obtain m1 b where run: "runningLocked ?m = (m1, b)" by fastforce
  note f = runningLocked_fields [OF run]
  have "managed m' \<and> (r = None \<longrightarrow> process m' = None \<and> \<not> command m' \<and> lastErrorCode m' = None)
    \<and> (process m' = process m \<or> process m' = None) \<and> renewals m' = [] \<and> next_serial m' = next_serial m"
  proof (cases b)
    case False
    then have "process ?m = None" using run not_running [of ?m] assms(2) by simp
    with False assms run f show ?thesis
      by (auto simp: Stop_Runtime_def Let_def managed_def split: if_splits)
  next
    case True
    with assms run f show ?thesis
      by (auto simp: Stop_Runtime_def Let_def fail_runtime_def recordFailure_def managed_def kill_process_def
          split: if_splits option.splits)
  qed
  then show "managed m'" "r = None \<Longrightarrow> process m' = None \<and> \<not> command m' \<and> lastErrorCode m' = None"
    "process m' = process m \<or> process m' = None" "renewals m' = []" "next_serial m' = next_serial m" by simp_all
qed

lemma Reload_cases:
  assumes "Reload v calls c m = (m', r)" and "managed m"
  shows "managed m'" and "r = None \<Longrightarrow> \<exists>p. process m = Some p \<and> process m' = Some (p\<lparr>serving := c\<rparr>)
        \<and> config_file m' = Some c \<and> lastErrorCode m' = None \<and> Validate v c = None"
    and "r \<noteq> None \<Longrightarrow> process m' = process m
        \<or> (\<exists>p. process m = Some p \<and> process m' = Some (p\<lparr>serving := c\<rparr>) \<and> config_file m' = config_file m)"
    and "renewals m' = []" and "next_serial m' = next_serial m"
    and "process m = None \<Longrightarrow> process m' = None"
proof -
  let ?m = "cancelRenewalsLocked m"
  obtain m1 b where run: "runningLocked ?m = (m1, b)" by fastforce
  note f = runningLocked_fields [OF run]
  have "managed m' \<and> (r = None \<longrightarrow> (\<exists>p. process m = Some p \<and> process m' = Some (p\<lparr>serving := c\<rparr>)
        \<and> config_file m' = Some c \<and> lastErrorCode m' = None \<and> Validate v c = None))
    \<and> (r \<noteq> None \<longrightarrow> process m' = process m
        \<or> (\<exists>p. process m = Some p \<and> process m' = Some (p\<lparr>serving := c\<rparr>) \<and> config_file m' = config_file m))
    \<and> renewals m' = [] \<and> next_serial m' = next_serial m \<and> (process m = None \<longrightarrow> process m' = None)"
  proof (cases "process m")
    case None
    with assms run f show ?thesis
      by (cases "Validate v c")
         (auto simp: Reload_def fail_runtime_def recordFailure_def managed_def split: if_splits option.splits, metis)
  next
    case (Some p)
    have "m1 = ?m" "b" using run managed_running [of ?m] assms(2) Some by simp_all
    with assms Some run show ?thesis
      by (auto simp: Reload_def fail_runtime_def recordFailure_def managed_def writeConfigAtomically_def Let_def
          split: if_splits option.splits)
  qed
  then show "managed m'" "r = None \<Longrightarrow> \<exists>p. process m = Some p \<and> process m' = Some (p\<lparr>serving := c\<rparr>)
        \<and> config_file m' = Some c \<and> lastErrorCode m' = None \<and> Validate v c = None"
    "r \<noteq> None \<Longrightarrow> process m' = process m
        \<or> (\<exists>p. process m = Some p \<and> process m' = Some (p\<lparr>serving := c\<rparr>) \<and> config_file m' = config_file m)"
    "renewals m' = []" "next_serial m' = next_serial m" "process m = None \<Longrightarrow> process m' = None" by blast+
qed

lemma StatusSnapshot_cases:
  assumes "StatusSnapshot calls m = (m', s)" and "managed m"
  shows "managed m'" and "process m' = process m" and "config_file m' = config_file m"
    and "process m = None \<Longrightarrow> Caddy s \<noteq> RuntimeRunning"
    and "process m \<noteq> None \<Longrightarrow> m' = m \<and> Caddy s = (if health_ok calls then RuntimeRunning else RuntimeDegraded)"
    and "renewals m' = renewals m" and "next_serial m' = next_serial m" and "lastErrorCode m' = lastErrorCode m"
    and "Caddy s = RuntimeStopped \<or> Caddy s = RuntimeFailed \<Longrightarrow> \<not> command m'"
    and "Caddy s \<in> {RuntimeStopped, RuntimeFailed, RuntimeDegraded, RuntimeRunning}"
proof -
  obtain m1 b where run: "runningLocked m = (m1, b)" by fastforce
  note f = runningLocked_fields [OF run]
  have "managed m' \<and> process m' = process m \<and> config_file m' = config_file m
    \<and> (process m = None \<longrightarrow> Caddy s \<noteq> RuntimeRunning)
    \<and> (process m \<noteq> None \<longrightarrow> m' = m \<and> Caddy s = (if health_ok calls then RuntimeRunning else RuntimeDegraded))
    \<and> renewals m' = renewals m \<and> next_serial m' = next_serial m \<and> lastErrorCode m' = lastErrorCode m
    \<and> (Caddy s = RuntimeStopped \<or> Caddy s = RuntimeFailed \<longrightarrow> \<not> command m')
    \<and> Caddy s \<in> {RuntimeStopped, RuntimeFailed, RuntimeDegraded, RuntimeRunning}"
  proof (cases "process m")
    case None
    with assms run f show ?thesis
      by (auto simp: StatusSnapshot_def Let_def managed_def split: if_splits)
  next
    case (Some p)
    then have "m1 = m" "b" using run managed_running assms(2) by simp_all
    with assms Some run show ?thesis by (auto simp: StatusSnapshot_def Let_def split: if_splits)
  qed
  then show "managed m'" "process m' = process m" "config_file m' = config_file m"
    "process m = None \<Longrightarrow> Caddy s \<noteq> RuntimeRunning"
    "process m \<noteq> None \<Longrightarrow> m' = m \<and> Caddy s = (if health_ok calls then RuntimeRunning else RuntimeDegraded)"
    "renewals m' = renewals m" "next_serial m' = next_serial m" "lastErrorCode m' = lastErrorCode m"
    "Caddy s = RuntimeStopped \<or> Caddy s = RuntimeFailed \<Longrightarrow> \<not> command m'"
    "Caddy s \<in> {RuntimeStopped, RuntimeFailed, RuntimeDegraded, RuntimeRunning}" by blast+
qed

lemma EnvironmentMatches_cases:
  assumes "EnvironmentMatches env m = (m', b)" and "managed m"
  shows "managed m'" and "process m' = process m" and "process m \<noteq> None \<Longrightarrow> m' = m"
    and "renewals m' = renewals m" and "next_serial m' = next_serial m"
    and "b \<Longrightarrow> command m \<and> list_all (\<lambda>(k, v). env_value (environment m) k = v) env \<and> length (environment m) = length env"
    and "config_file m' = config_file m" and "environment m' = environment m"
proof -
  obtain m1 d where run: "runningLocked m = (m1, d)" by fastforce
  note f = runningLocked_fields [OF run]
  show "managed m'" "process m' = process m" "renewals m' = renewals m" "next_serial m' = next_serial m"
    "b \<Longrightarrow> command m \<and> list_all (\<lambda>(k, v). env_value (environment m) k = v) env \<and> length (environment m) = length env"
    "config_file m' = config_file m" "environment m' = environment m"
    using assms run f by (auto simp: EnvironmentMatches_def)
  show "process m \<noteq> None \<Longrightarrow> m' = m"
    using assms managed_running by (auto simp: EnvironmentMatches_def)
qed

section \<open>The renewals\<close>

text \<open>A renewal in the table is under its own host, and its serial number was given out once.\<close>

definition renewals_ok :: "runtime_manager \<Rightarrow> bool" where
  "renewals_ok m \<longleftrightarrow> distinct (map fst (renewals m))
     \<and> (\<forall>(h, r) \<in> set (renewals m). renewal_hostname r = h \<and> renewal_serial r < next_serial m)"

lemma renewals_ok_cong:
  "renewals m' = renewals m \<or> renewals m' = [] \<Longrightarrow> next_serial m' = next_serial m \<Longrightarrow> renewals_ok m \<Longrightarrow> renewals_ok m'"
  by (auto simp: renewals_ok_def)

lemma renewals_delete: "renewals_ok m \<Longrightarrow> renewals_ok (delete_renewal h m)"
  by (auto simp: renewals_ok_def delete_renewal_def map_filter_distinct AList.delete_eq)

lemma renewals_cancel [simp]: "renewals_ok (cancel_context n m) \<longleftrightarrow> renewals_ok m"
  by (simp add: renewals_ok_def cancel_context_def)

lemma renewals_update:
  assumes "renewals_ok m" and "renewal_hostname r = h" and "renewal_serial r < next_serial m"
  shows "renewals_ok (m\<lparr>renewals := AList.update h r (renewals m)\<rparr>)"
proof -
  have "set (AList.update h r al) \<subseteq> insert (h, r) (set al)" for al :: "(string \<times> certificate_renewal) list"
    by (induction al) auto
  then have "\<forall>x \<in> set (AList.update h r (renewals m)). x = (h, r) \<or> x \<in> set (renewals m)" by blast
  moreover have "distinct (map fst (AList.update h r (renewals m)))"
    using assms(1) by (intro distinct_update) (simp add: renewals_ok_def)
  ultimately show ?thesis using assms unfolding renewals_ok_def by (fastforce simp del: AList.update.simps)
qed

lemma registered_serial:
  "renewals_ok m \<Longrightarrow> registered r m \<Longrightarrow> renewal_serial r < next_serial m"
  by (auto simp: renewals_ok_def registered_def split: option.splits dest!: map_of_SomeD)

text \<open>What the calls on renewals leave alone.\<close>

lemma renewal_calls_process:
  "process (fst (monitor_turn r e m)) = process m" "command (fst (monitor_turn r e m)) = command m"
  "done_chan (fst (monitor_turn r e m)) = done_chan m" "environment (fst (monitor_turn r e m)) = environment m"
  "process (fst (abort_renewal r m)) = process m" "command (fst (abort_renewal r m)) = command m"
  "done_chan (fst (abort_renewal r m)) = done_chan m" "environment (fst (abort_renewal r m)) = environment m"
  "process (clearCertificateRenewal r m) = process m" "command (clearCertificateRenewal r m) = command m"
  "done_chan (clearCertificateRenewal r m) = done_chan m" "environment (clearCertificateRenewal r m) = environment m"
  "next_serial (fst (monitor_turn r e m)) = next_serial m" "next_serial (fst (abort_renewal r m)) = next_serial m"
  "next_serial (clearCertificateRenewal r m) = next_serial m"
  by (cases e; simp add: failCertificateRenewal_def recordCertificateRenewalFailureLocked_def cancel_context_def
      finishCertificateRenewal_def delete_renewal_def clearCertificateRenewal_def abort_renewal_def
      split: option.split certificate_read.split)+

lemma renewals_monitor: "renewals_ok m \<Longrightarrow> renewals_ok (fst (monitor_turn r e m))"
proof -
  assume ok: "renewals_ok m"
  have fail: "renewals_ok (failCertificateRenewal r m)"
    using ok registered_serial [OF ok]
    by (simp add: failCertificateRenewal_def recordCertificateRenewalFailureLocked_def renewals_update)
  have finish: "renewals_ok (finishCertificateRenewal r m)" "renewals_ok (clearCertificateRenewal r m)"
    using ok by (simp_all add: finishCertificateRenewal_def clearCertificateRenewal_def renewals_delete)
  from ok fail finish show ?thesis by (cases e) (auto split: option.split certificate_read.split)
qed

lemma begin_renewal_fields:
  assumes "begin_renewal canceled supported path read host m = (m', x)"
  shows "process m' = process m" "command m' = command m" "environment m' = environment m"
    "managed m \<Longrightarrow> managed m'" "renewals_ok m \<Longrightarrow> renewals_ok m'" "next_serial m \<le> next_serial m'"
proof -
  obtain m1 b where run: "runningLocked m = (m1, b)" by fastforce
  note f = runningLocked_fields [OF run]
  let ?h = "renewal_key host"
  have cases: "m' = m \<or> m' = m1 \<or> (\<exists>r. renewal_hostname r = ?h \<and> renewal_serial r = next_serial m1
      \<and> m' = m1\<lparr>renewals := AList.update ?h r (renewals m1), next_serial := next_serial m1 + 1\<rparr>)"
  proof (cases "\<exists>r. x = Inr r")
    case True
    then obtain r where r: "x = Inr r" by blast
    have "renewal_hostname r = ?h \<and> renewal_serial r = next_serial m1
      \<and> m' = m1\<lparr>renewals := AList.update ?h r (renewals m1), next_serial := next_serial m1 + 1\<rparr>"
      using assms run unfolding r
      by (auto simp: begin_renewal_def Let_def split: if_splits option.splits certificate_read.splits)
    then show ?thesis by blast
  next
    case False
    then show ?thesis
      using assms run by (auto simp: begin_renewal_def Let_def split: if_splits option.splits certificate_read.splits)
  qed
  have ok: "renewals_ok (m1\<lparr>renewals := AList.update ?h r (renewals m1), next_serial := next_serial m1 + 1\<rparr>)"
    if "renewals_ok m" "renewal_hostname r = ?h" "renewal_serial r = next_serial m1" for r
  proof -
    have "renewals_ok (m1\<lparr>next_serial := next_serial m1 + 1\<rparr>)" using that(1) f by (auto simp: renewals_ok_def)
    from renewals_update [OF this that(2)] that(3) show ?thesis by (simp add: renewals_ok_def)
  qed
  have same: "renewals_ok m \<Longrightarrow> renewals_ok m1" using f by (simp add: renewals_ok_def)
  show "process m' = process m" "command m' = command m" "environment m' = environment m"
    "managed m \<Longrightarrow> managed m'" "next_serial m \<le> next_serial m'"
    using cases f by (auto simp: managed_def)
  show "renewals_ok m \<Longrightarrow> renewals_ok m'" using cases ok same by blast
qed

lemma CertificateStatus_manager:
  "fst (CertificateStatus canceled path read now reader host m) = m
   \<or> fst (CertificateStatus canceled path read now reader host m) = fst (runningLocked m)"
  by (cases "runningLocked m") (simp add: CertificateStatus_def Let_def)

lemma CancelRenewCertificate_manager:
  "fst (CancelRenewCertificate supported accepted host m) = m
   \<or> (\<exists>r. fst (CancelRenewCertificate supported accepted host m) = clearCertificateRenewal r m)"
  by (auto simp: CancelRenewCertificate_def split: sum.split)

section \<open>The invariant\<close>

lemma step_invariant:
  assumes "runtime_step m m'" and "managed m" and "renewals_ok m"
  shows "managed m' \<and> renewals_ok m' \<and> next_serial m \<le> next_serial m'"
  using assms(1)
proof (cases rule: runtime_step.cases)
  case (starting v calls c env)
  obtain x where "StartWithEnvironment v calls c env m = (m', x)" using starting by (metis prod.collapse)
  from StartWithEnvironment_cases [OF this assms(2)] show ?thesis using assms(3) renewals_ok_cong [of m' m] by auto
next
  case (reloading v calls c)
  obtain x where "Reload v calls c m = (m', x)" using reloading by (metis prod.collapse)
  from Reload_cases [OF this assms(2)] show ?thesis using assms(3) renewals_ok_cong [of m' m] by auto
next
  case (stopping calls)
  obtain x where "Stop_Runtime calls m = (m', x)" using stopping by (metis prod.collapse)
  from Stop_cases [OF this assms(2)] show ?thesis using assms(3) renewals_ok_cong [of m' m] by auto
next
  case (asking calls)
  obtain x where "StatusSnapshot calls m = (m', x)" using asking by (metis prod.collapse)
  from StatusSnapshot_cases [OF this assms(2)] show ?thesis using assms(3) renewals_ok_cong [of m' m] by auto
next
  case (matching env)
  obtain x where "EnvironmentMatches env m = (m', x)" using matching by (metis prod.collapse)
  from EnvironmentMatches_cases [OF this assms(2)] show ?thesis using assms(3) renewals_ok_cong [of m' m] by auto
next
  case (exiting e)
  then show ?thesis using assms(3) renewals_ok_cong [of m' m] managed_dead [of m'] by simp
next
  case (reporting canceled path read now reader host)
  obtain m1 b where run: "runningLocked m = (m1, b)" by fastforce
  have "m' = m \<or> m' = m1" using reporting CertificateStatus_manager [of canceled path read now reader host m] run by auto
  then show ?thesis
    using assms(2,3) runningLocked_fields [OF run] renewals_ok_cong [of m1 m] by auto
next
  case (renewing canceled supported path read host)
  obtain x where "begin_renewal canceled supported path read host m = (m', x)" using renewing by (metis prod.collapse)
  from begin_renewal_fields [OF this] assms(2,3) show ?thesis by simp
next
  case (aborting r)
  have "renewals_ok m'" using aborting assms(3) by (simp add: abort_renewal_def renewals_delete)
  moreover have "managed m'" using managed_cong [of m' m] assms(2) aborting by (simp add: renewal_calls_process)
  ultimately show ?thesis using aborting by (simp add: renewal_calls_process)
next
  case (monitoring r e)
  have "renewals_ok m'" using monitoring renewals_monitor [OF assms(3)] by simp
  moreover have "managed m'" using managed_cong [of m' m] assms(2) monitoring by (simp add: renewal_calls_process)
  ultimately show ?thesis using monitoring by (simp add: renewal_calls_process)
next
  case (canceling supported accepted host)
  have "m' = m \<or> (\<exists>r. m' = clearCertificateRenewal r m)"
    using canceling CancelRenewCertificate_manager [of supported accepted host m] by simp
  then obtain r where "m' = m \<or> m' = clearCertificateRenewal r m" by blast
  then show ?thesis
    using assms(2,3) managed_cong [of "clearCertificateRenewal r m" m] renewals_delete [OF assms(3)]
    by (auto simp: renewal_calls_process) (simp add: clearCertificateRenewal_def)
qed

lemma reachable_invariant: "runtime_reachable m \<Longrightarrow> managed m \<and> renewals_ok m"
proof (induction rule: runtime_reachable.induct)
  case (new path)
  show ?case by (simp add: managed_def renewals_ok_def NewRuntimeManager_def)
next
  case (next_step m m')
  then show ?case using step_invariant by blast
qed

lemma steps_invariant:
  assumes "runtime_step\<^sup>*\<^sup>* m m'" and "managed m" and "renewals_ok m"
  shows "managed m' \<and> renewals_ok m' \<and> next_serial m \<le> next_serial m'"
  using assms(1)
proof (induction rule: rtranclp_induct)
  case base
  then show ?case using assms(2,3) by simp
next
  case (step y z)
  then show ?case using step_invariant [of y z] by force
qed

end
