(* ===== verification/Runtime_Properties.thy ===== *)
theory Runtime_Properties
  imports Runtime_Steps
begin

text \<open>
  The properties of the runtime manager, each with an instance.
\<close>

section \<open>One process\<close>

text \<open>C19. Whatever was called and whenever processes exited, as long as a Caddy process lives: its status is running, or
  degraded when the health call fails, and never stopped or failed; starting again, whatever configuration and environment it names,
  reports success and changes nothing, so that there is no second process and the old configuration stays served; and the
  environment the manager remembers is the one the process inherited.\<close>

theorem live_process_is_managed:
  assumes "runtime_reachable m" and "process m = Some p"
  shows "Caddy (snd (StatusSnapshot calls m)) = (if health_ok calls then RuntimeRunning else RuntimeDegraded)
     \<and> StartWithEnvironment v calls c env m = (m, None)
     \<and> CurrentEnvironment m = cloneEnvironment (cloneEnvironment (inherited p))"
proof -
  have ok: "managed m" using reachable_invariant [OF assms(1)] by simp
  obtain m1 s where s: "StatusSnapshot calls m = (m1, s)" by fastforce
  obtain m2 r where t: "StartWithEnvironment v calls c env m = (m2, r)" by fastforce
  show ?thesis
    using StatusSnapshot_cases(5) [OF s ok] StartWithEnvironment_cases(2) [OF t ok] s t assms(2) ok
    by (simp add: CurrentEnvironment_def managed_def)
qed

text \<open>A validator that accepts everything, and system calls that succeed.\<close>

definition accepting :: validator where
  "accepting = \<lparr>Validate = (\<lambda>c. None), ValidateWithEnvironment = Some (\<lambda>c e. None)\<rparr>"

definition working_calls :: runtime_calls where
  "working_calls = \<lparr>write_calls = [], spawn_ok = True, polls = [PollAgain, HealthOK], health_ok = True,
     reload_ok = True, stop_ok = True, stop_wait = Some ExitedNormally, stop_canceled = False\<rparr>"

definition started_manager :: runtime_manager where
  "started_manager = fst (StartWithEnvironment accepting working_calls ''{}'' [(''K'', ''v'')] (NewRuntimeManager None))"

lemmas run_manager =
  started_manager_def NewRuntimeManager_def StartWithEnvironment_def runningLocked_def cancelRenewalsLocked_def
  accepting_def working_calls_def validateWithEnvironment_def writeConfigAtomically_def cloneEnvironment_def

lemma started_reachable: "runtime_reachable started_manager"
  unfolding started_manager_def by (rule next_step [OF new starting])

lemma started_process: "process started_manager = Some \<lparr>serving = ''{}'', inherited = [(''K'', ''v'')]\<rparr>"
  by (simp add: run_manager)

theorem live_process_is_managed_witness:
  "StartWithEnvironment accepting working_calls ''{1}'' [] started_manager = (started_manager, None)"
  using live_process_is_managed [OF started_reachable started_process] by blast

section \<open>Starting and stopping\<close>

text \<open>C20. When the manager has no command recorded, so that it never started a process or has observed the exit of the last one,
  starting either succeeds, and then a process serves exactly the given configuration with
  the given environment, both were validated together and the startup file holds the configuration; or it fails,
  and then no process is left behind and the error is remembered.\<close>

theorem start_is_all_or_nothing:
  assumes "runtime_reachable m" and "\<not> command m" and "StartWithEnvironment v calls c env m = (m', r)"
  shows "(r = None \<longrightarrow> process m' = Some \<lparr>serving = c, inherited = env\<rparr> \<and> config_file m' = Some c
        \<and> lastErrorCode m' = None \<and> validateWithEnvironment v c env = None)
     \<and> (r \<noteq> None \<longrightarrow> process m' = None \<and> lastErrorCode m' \<noteq> None)"
proof -
  have ok: "managed m" using reachable_invariant [OF assms(1)] by simp
  then have "process m = None" using assms(2) by (cases "process m") (auto simp: managed_def)
  then show ?thesis using StartWithEnvironment_cases(3) [OF assms(3) ok] assms(2) by blast
qed

theorem start_is_all_or_nothing_witness:
  "\<exists>m' r. StartWithEnvironment accepting (working_calls\<lparr>polls := [ProcessExited ExitError]\<rparr>) ''{}'' []
     (NewRuntimeManager None) = (m', r) \<and> r \<noteq> None \<and> process m' = None"
proof -
  let ?calls = "working_calls\<lparr>polls := [ProcessExited ExitError]\<rparr>"
  obtain m' r where run: "StartWithEnvironment accepting ?calls ''{}'' [] (NewRuntimeManager None) = (m', r)" by fastforce
  then have "r \<noteq> None" by (auto simp: run_manager fail_runtime_def recordFailure_def)
  with start_is_all_or_nothing [OF new _ run] run show ?thesis by (auto simp: NewRuntimeManager_def)
qed

text \<open>After a successful stop no process is left and the status is stopped, with no error; a successful reload
  changes the configuration of the live process and of the startup file, and not its environment.\<close>

theorem stop_and_reload:
  assumes "runtime_reachable m"
  shows "(Stop_Runtime calls m = (m1, None) \<longrightarrow> process m1 = None
        \<and> snd (StatusSnapshot calls' m1) = \<lparr>Caddy = RuntimeStopped, WebDAV = RuntimeStopped, LastErrorCode = None\<rparr>)
     \<and> (Reload v calls c m = (m2, None) \<longrightarrow> (\<exists>p. process m = Some p \<and> process m2 = Some (p\<lparr>serving := c\<rparr>)
        \<and> config_file m2 = Some c \<and> CurrentEnvironment m2 = cloneEnvironment (cloneEnvironment (inherited p))))"
proof (intro conjI)
  have ok: "managed m" using reachable_invariant [OF assms] by simp
  show "Stop_Runtime calls m = (m1, None) \<longrightarrow> process m1 = None
        \<and> snd (StatusSnapshot calls' m1) = \<lparr>Caddy = RuntimeStopped, WebDAV = RuntimeStopped, LastErrorCode = None\<rparr>"
  proof
    assume stop: "Stop_Runtime calls m = (m1, None)"
    note c = Stop_cases(2) [OF stop ok refl]
    then have "runningLocked m1 = (m1, False)" by (simp add: runningLocked_def)
    with c show "process m1 = None
        \<and> snd (StatusSnapshot calls' m1) = \<lparr>Caddy = RuntimeStopped, WebDAV = RuntimeStopped, LastErrorCode = None\<rparr>"
      by (simp add: StatusSnapshot_def)
  qed
  show "Reload v calls c m = (m2, None) \<longrightarrow> (\<exists>p. process m = Some p \<and> process m2 = Some (p\<lparr>serving := c\<rparr>)
        \<and> config_file m2 = Some c \<and> CurrentEnvironment m2 = cloneEnvironment (cloneEnvironment (inherited p)))"
  proof
    assume reload: "Reload v calls c m = (m2, None)"
    from Reload_cases(1,2) [OF reload ok] show "\<exists>p. process m = Some p \<and> process m2 = Some (p\<lparr>serving := c\<rparr>)
        \<and> config_file m2 = Some c \<and> CurrentEnvironment m2 = cloneEnvironment (cloneEnvironment (inherited p))"
      by (auto simp: CurrentEnvironment_def managed_def)
  qed
qed

theorem stop_and_reload_witness:
  "process (fst (Stop_Runtime working_calls started_manager)) = None"
proof -
  have "snd (Stop_Runtime working_calls started_manager) = None"
    by (simp add: run_manager Stop_Runtime_def process_exits_def)
  then show ?thesis
    using stop_and_reload [OF started_reachable, of working_calls "fst (Stop_Runtime working_calls started_manager)"]
    by (metis prod.collapse)
qed

section \<open>A lost exit\<close>

text \<open>The process is gone, its exit value was taken from the channel, and the manager still has the command.\<close>

definition wedged :: "runtime_manager \<Rightarrow> bool" where
  "wedged m \<longleftrightarrow> command m \<and> done_chan m = Some None \<and> process m = None"

lemma wedged_running: "wedged m \<Longrightarrow> runningLocked m = (m, True)"
  by (simp add: wedged_def runningLocked_def)

lemma wedged_recordFailure [simp]: "wedged (fst (recordFailure err m)) \<longleftrightarrow> wedged m"
  by (simp add: wedged_def)

lemma wedged_cancel [simp]: "wedged (cancelRenewalsLocked m) \<longleftrightarrow> wedged m"
  by (simp add: wedged_def)

lemma wedged_calls:
  assumes "wedged m"
  shows "StartWithEnvironment v calls c env m = (m, None)"
    and "wedged (fst (Stop_Runtime calls m)) \<and> snd (Stop_Runtime calls m) \<noteq> None"
    and "wedged (fst (Reload v calls c m)) \<and> snd (Reload v calls c m) \<noteq> None"
    and "StatusSnapshot calls m
      = (m, \<lparr>Caddy = RuntimeDegraded, WebDAV = RuntimeDegraded, LastErrorCode = Some CodeRuntimeUnhealthy\<rparr>)"
    and "fst (EnvironmentMatches env m) = m"
proof -
  note run = wedged_running [OF assms] wedged_running [of "cancelRenewalsLocked m"]
  have none: "process m = None" "process (cancelRenewalsLocked m) = None" using assms by (simp_all add: wedged_def)
  show "StartWithEnvironment v calls c env m = (m, None)" by (simp add: StartWithEnvironment_def run)
  show "wedged (fst (Stop_Runtime calls m)) \<and> snd (Stop_Runtime calls m) \<noteq> None"
    using assms by (simp add: Stop_Runtime_def run none fail_runtime_def)
  show "wedged (fst (Reload v calls c m)) \<and> snd (Reload v calls c m) \<noteq> None"
    using assms by (simp add: Reload_def run none fail_runtime_def split: option.split)
  show "StatusSnapshot calls m
      = (m, \<lparr>Caddy = RuntimeDegraded, WebDAV = RuntimeDegraded, LastErrorCode = Some CodeRuntimeUnhealthy\<rparr>)"
    by (simp add: StatusSnapshot_def run none)
  show "fst (EnvironmentMatches env m) = m" by (simp add: EnvironmentMatches_def run)
qed

lemma wedged_step:
  assumes "runtime_step m m'" and "wedged m"
  shows "wedged m'"
  using assms(1)
proof (cases rule: runtime_step.cases)
  case (renewing canceled supported path read host)
  obtain x where b: "begin_renewal canceled supported path read host m = (m', x)" using renewing by (metis prod.collapse)
  have "done_chan m' = done_chan m"
    using b wedged_running [OF assms(2)]
    by (auto simp: begin_renewal_def Let_def split: if_splits option.splits certificate_read.splits)
  with begin_renewal_fields [OF b] assms(2) show ?thesis by (simp add: wedged_def)
next
  case (reporting canceled path read now reader host)
  then show ?thesis
    using CertificateStatus_manager [of canceled path read now reader host m] wedged_running [OF assms(2)] assms(2) by auto
next
  case (canceling supported accepted host)
  then show ?thesis
    using CancelRenewCertificate_manager [of supported accepted host m] assms(2)
    by (auto simp: wedged_def renewal_calls_process)
qed (use assms(2) wedged_calls in \<open>auto simp: process_exits_def wedged_def renewal_calls_process\<close>)

text \<open>An exit can be lost: when the process exits and its exit is first observed by a certificate status request,
  the manager takes a dead process for a live one, and for ever, whatever is called afterwards: starting succeeds
  without a process, stopping and reloading fail, and the status is degraded.\<close>

theorem lost_exit_wedges_the_runtime:
  assumes "runtime_reachable m" and "process m = Some p"
    and "runtime_step\<^sup>*\<^sup>* (fst (CertificateStatus False path read now reader host (process_exits e m))) m'"
  shows "process m' = None \<and> StartWithEnvironment v calls c env m' = (m', None)
     \<and> snd (Stop_Runtime calls m') \<noteq> None \<and> snd (Reload v calls c m') \<noteq> None
     \<and> Caddy (snd (StatusSnapshot calls m')) = RuntimeDegraded"
proof -
  have "managed m" using reachable_invariant [OF assms(1)] by simp
  then have "command m" using assms(2) by (simp add: managed_def)
  then have "runningLocked (process_exits e m) = ((process_exits e m)\<lparr>done_chan := Some None\<rparr>, False)"
    using assms(2) by (simp add: runningLocked_def process_exits_def)
  then have "wedged (fst (CertificateStatus False path read now reader host (process_exits e m)))"
    using \<open>command m\<close> by (simp add: CertificateStatus_def Let_def wedged_def)
  with assms(3) have "wedged m'"
    by (induction rule: rtranclp_induct) (auto intro: wedged_step)
  then show ?thesis using wedged_calls [of m'] by (simp add: wedged_def)
qed

theorem lost_exit_wedges_the_runtime_witness:
  "\<exists>m'. StartWithEnvironment accepting working_calls ''{}'' [] m' = (m', None) \<and> process m' = None"
  using lost_exit_wedges_the_runtime [OF started_reachable started_process rtranclp.rtrancl_refl] by blast

section \<open>Renewals\<close>

text \<open>The renewals in the table, by host and serial number.\<close>

definition table :: "runtime_manager \<Rightarrow> (string \<times> nat) set" where
  "table m = (\<lambda>(h, r). (h, renewal_serial r)) ` set (renewals m)"

lemma table_mono: "set (renewals m') \<subseteq> set (renewals m) \<Longrightarrow> table m' \<subseteq> table m"
  by (auto simp: table_def)

lemma registered_table: "registered r m \<Longrightarrow> (renewal_hostname r, renewal_serial r) \<in> table m"
  by (force simp: registered_def table_def split: option.splits dest: map_of_SomeD)

lemma table_registered:
  assumes "renewals_ok m" and "(renewal_hostname r, renewal_serial r) \<in> table m"
  shows "registered r m"
proof -
  obtain x where x: "(renewal_hostname r, x) \<in> set (renewals m)" "renewal_serial x = renewal_serial r"
    using assms(2) by (auto simp: table_def)
  then have "map_of (renewals m) (renewal_hostname r) = Some x"
    using assms(1) by (intro map_of_is_SomeI) (simp_all add: renewals_ok_def)
  then show ?thesis using x by (simp add: registered_def)
qed

lemma table_delete: "table (delete_renewal h m) \<subseteq> table m"
  by (rule table_mono) (auto simp: delete_renewal_def AList.delete_eq)

lemma table_update:
  "table (m\<lparr>renewals := AList.update h r (renewals m)\<rparr>) \<subseteq> insert (h, renewal_serial r) (table m)"
proof -
  have "set (AList.update h r al) \<subseteq> insert (h, r) (set al)" for al :: "(string \<times> certificate_renewal) list"
    by (induction al) auto
  then show ?thesis by (force simp: table_def)
qed

lemma table_cancel [simp]: "table (cancel_context n m) = table m"
  by (simp add: table_def cancel_context_def)

lemma table_clear: "table (clearCertificateRenewal r m) \<subseteq> table m"
  using table_delete by (auto simp: clearCertificateRenewal_def)

lemma table_monitor: "table (fst (monitor_turn r e m)) \<subseteq> table m"
proof -
  have "table (failCertificateRenewal r m) \<subseteq> table m"
  proof (cases "registered r m")
    case True
    let ?f = "r\<lparr>renewal_state := certificateRenewalFailed,
        renewal_message := ''Caddy could not renew the managed certificate; check the logs'',
        renewal_error := CertificateStatusACMEErrorCode\<rparr>"
    have "table (failCertificateRenewal r m)
        = table (m\<lparr>renewals := AList.update (renewal_hostname r) ?f (renewals m)\<rparr>)"
      using True by (simp add: failCertificateRenewal_def recordCertificateRenewalFailureLocked_def)
    also have "\<dots> \<subseteq> insert (renewal_hostname r, renewal_serial ?f) (table m)" by (rule table_update)
    also have "\<dots> = table m" using registered_table [OF True] by auto
    finally show ?thesis .
  qed (simp add: failCertificateRenewal_def)
  moreover have "table (finishCertificateRenewal r m) \<subseteq> table m"
    using table_delete by (auto simp: finishCertificateRenewal_def)
  ultimately show ?thesis
    using table_clear by (cases e) (auto split: option.split certificate_read.split)
qed

lemma table_step:
  assumes "runtime_step m m'" and "managed m"
  shows "table m' \<subseteq> table m \<union> {x. next_serial m \<le> snd x}"
proof -
  have same: "renewals m' = renewals m \<or> renewals m' = [] \<Longrightarrow> ?thesis" by (auto simp: table_def)
  from assms(1) show ?thesis
  proof (cases rule: runtime_step.cases)
    case (starting v calls c env)
    obtain x where "StartWithEnvironment v calls c env m = (m', x)" using starting by (metis prod.collapse)
    from StartWithEnvironment_cases(4) [OF this assms(2)] show ?thesis by (intro same) auto
  next
    case (reloading v calls c)
    obtain x where "Reload v calls c m = (m', x)" using reloading by (metis prod.collapse)
    from Reload_cases(4) [OF this assms(2)] show ?thesis by (intro same) auto
  next
    case (stopping calls)
    obtain x where "Stop_Runtime calls m = (m', x)" using stopping by (metis prod.collapse)
    from Stop_cases(4) [OF this assms(2)] show ?thesis by (intro same) auto
  next
    case (asking calls)
    obtain x where "StatusSnapshot calls m = (m', x)" using asking by (metis prod.collapse)
    from StatusSnapshot_cases(6) [OF this assms(2)] show ?thesis by (intro same) auto
  next
    case (matching env)
    obtain x where "EnvironmentMatches env m = (m', x)" using matching by (metis prod.collapse)
    from EnvironmentMatches_cases(4) [OF this assms(2)] show ?thesis by (intro same) auto
  next
    case (exiting e)
    then show ?thesis by (intro same) simp
  next
    case (reporting canceled path read now reader host)
    obtain m1 b where run: "runningLocked m = (m1, b)" by fastforce
    have "m' = m \<or> m' = m1" using reporting CertificateStatus_manager [of canceled path read now reader host m] run by auto
    then show ?thesis using runningLocked_fields(6) [OF run] by (intro same) auto
  next
    case (renewing canceled supported path read host)
    obtain m1 b where run: "runningLocked m = (m1, b)" by fastforce
    note f = runningLocked_fields [OF run]
    obtain x where b: "begin_renewal canceled supported path read host m = (m', x)" using renewing by (metis prod.collapse)
    show ?thesis
    proof (cases x)
      case (Inl err)
      then have "m' = m \<or> m' = m1"
        using b run by (auto simp: begin_renewal_def Let_def split: if_splits option.splits certificate_read.splits)
      then show ?thesis using f(6) by (intro same) auto
    next
      case (Inr r)
      then have r: "renewals m' = AList.update (renewal_key host) r (renewals m)" "renewal_serial r = next_serial m"
        using b run f by (auto simp: begin_renewal_def Let_def split: if_splits option.splits certificate_read.splits)
      have "table m' = table (m\<lparr>renewals := AList.update (renewal_key host) r (renewals m)\<rparr>)" by (simp add: table_def r(1))
      with table_update [where m = m and h = "renewal_key host" and r = r] r(2) show ?thesis by auto
    qed
  next
    case (aborting r)
    then have "table m' \<subseteq> table m" using table_delete by (simp add: abort_renewal_def)
    then show ?thesis by blast
  next
    case (monitoring r e)
    then show ?thesis using table_monitor by blast
  next
    case (canceling supported accepted host)
    then have "table m' \<subseteq> table m"
      using CancelRenewCertificate_manager [of supported accepted host m] by (metis order_refl table_clear)
    then show ?thesis by blast
  qed
qed

lemma dropped_stays_dropped:
  assumes "runtime_step\<^sup>*\<^sup>* m m'" and "managed m" and "renewals_ok m"
    and "renewal_serial r < next_serial m" and "\<not> registered r m"
  shows "\<not> registered r m'"
proof -
  have "(renewal_hostname r, renewal_serial r) \<notin> table m'"
    using assms(1)
  proof (induction rule: rtranclp_induct)
    case base
    then show ?case using table_registered assms(3,5) by blast
  next
    case (step y z)
    have "managed y" "next_serial m \<le> next_serial y" using steps_invariant [OF step(1) assms(2,3)] by simp_all
    with table_step [OF step(2)] step.IH assms(4) show ?case by auto
  qed
  then show ?thesis using registered_table by blast
qed

text \<open>The monitor of a renewal that was dropped (by a reload, a stop, a cancel) never changes the manager again,
  whatever its remaining ticks are and even when a new renewal of the same host was started meanwhile.\<close>

theorem stale_monitor_is_harmless:
  assumes "runtime_reachable m" and "renewal_serial r < next_serial m" and "\<not> registered r m"
    and "runtime_step\<^sup>*\<^sup>* m m'"
  shows "monitorCertificateRenewal r es m' = m'"
proof -
  have "managed m" "renewals_ok m" using reachable_invariant [OF assms(1)] by simp_all
  from dropped_stays_dropped [OF assms(4) this assms(2,3)] have "\<not> registered r m'" .
  then have turn: "fst (monitor_turn r e m') = m'" for e
    by (cases e) (auto simp: failCertificateRenewal_def finishCertificateRenewal_def clearCertificateRenewal_def
        split: option.split certificate_read.split)
  show ?thesis
  proof (induction es)
    case (Cons e es)
    then show ?case using turn [of e] by (cases "monitor_turn r e m'") simp
  qed simp
qed

text \<open>A renewal of the sample host, dropped by a reload, and a new one of the same host.\<close>

definition sample_certificate :: certificate where
  "sample_certificate = \<lparr>cert_Raw = ''raw'', NotBefore = 0, NotAfter = 10\<rparr>"

definition begin_sample :: "runtime_manager \<Rightarrow> runtime_manager \<times> (runtime_error + certificate_renewal)" where
  "begin_sample = begin_renewal False True ''/caddy'' (\<lambda>_. CertificateRead sample_certificate) ''host''"

theorem stale_monitor_is_harmless_witness:
  "\<exists>m1 r m2 m3. begin_sample started_manager = (m1, Inr r) \<and> m2 = fst (Reload accepting working_calls ''{}'' m1)
     \<and> m3 = fst (begin_sample m2) \<and> monitorCertificateRenewal r [MonitorTick CertificateMissing None, MonitorTimeout] m3 = m3"
proof -
  have key: "renewal_key ''host'' = ''host''" by (simp add: renewal_key_def str_eval)
  obtain r where b: "begin_sample started_manager = (started_manager\<lparr>renewals := [(''host'', r)], next_serial := 1\<rparr>, Inr r)"
    and r: "renewal_serial r = 0"
    by (simp add: begin_sample_def begin_renewal_def key Let_def run_manager)
  let ?m1 = "started_manager\<lparr>renewals := [(''host'', r)], next_serial := 1\<rparr>"
  let ?m2 = "fst (Reload accepting working_calls ''{}'' ?m1)"
  let ?m3 = "fst (begin_sample ?m2)"
  have r1: "runtime_reachable ?m1"
    using next_step [OF started_reachable renewing] b unfolding begin_sample_def by (metis fst_conv)
  have m: "managed ?m1" using reachable_invariant [OF r1] by simp
  obtain x where reload: "Reload accepting working_calls ''{}'' ?m1 = (?m2, x)" by (metis prod.collapse)
  have "renewals ?m2 = []" "next_serial ?m2 = 1"
    using Reload_cases(4,5) [OF reload m] by simp_all
  then have "\<not> registered r ?m2" "renewal_serial r < next_serial ?m2" by (simp_all add: registered_def r)
  moreover have "runtime_reachable ?m2" by (rule next_step [OF r1 reloading])
  moreover have "runtime_step\<^sup>*\<^sup>* ?m2 ?m3" unfolding begin_sample_def by (rule r_into_rtranclp) (rule renewing)
  ultimately have "monitorCertificateRenewal r [MonitorTick CertificateMissing None, MonitorTimeout] ?m3 = ?m3"
    by (intro stale_monitor_is_harmless)
  with b show ?thesis by blast
qed

end
