(* ===== verification/Apply_Model.thy ===== *)
theory Apply_Model
  imports Apply_Contract Provider_Services Runtime_Properties Snapshot_Restore Repository_Invariant
begin

text \<open>
  The service as the daemon wires it: the SQLite revision repository over a database whose calls may
  fail, the DNS credential service as the provider of the environment, and the manager of the Caddy
  process, whose operations take the results of their system calls from a list, one record each.
  Both keep their contracts, so what \<open>Apply_Contract\<close> proves holds of this service.
\<close>

section \<open>The revision store\<close>

definition sqlite_store ::
  "(runtime_input \<Rightarrow> store \<Rightarrow> store \<times> (app_error + env)) option \<Rightarrow> store revision_store" where
  "sqlite_store provider =
     \<lparr>st_Snapshot = query_call Snapshot,
      st_Create = (\<lambda>r. operation_call (Revision_Create r)),
      st_FindByIdentity = (\<lambda>h sh. query_call (FindByIdentity h sh)),
      st_SetDesired = (\<lambda>i. operation_call (SetDesired i)),
      st_MarkApplied = (\<lambda>i. operation_call (MarkApplied i)),
      st_MarkFailed = (\<lambda>i code summary. operation_call (MarkFailed i code summary)),
      st_RestoreState = (\<lambda>input i. operation_call (RestoreState input i)),
      st_Delete = (\<lambda>i. operation_call (Revision_Delete i)),
      st_Get = (\<lambda>i. query_call (Revision_Get i)),
      st_Active = query_call Revision_Active,
      st_Environment = provider\<rparr>"

lemma sqlite_store_fields [simp]:
  "st_Snapshot (sqlite_store p) = query_call Snapshot" "st_Active (sqlite_store p) = query_call Revision_Active"
  "st_Create (sqlite_store p) r = operation_call (Revision_Create r)"
  "st_FindByIdentity (sqlite_store p) h sh = query_call (FindByIdentity h sh)"
  "st_SetDesired (sqlite_store p) i = operation_call (SetDesired i)"
  "st_MarkApplied (sqlite_store p) i = operation_call (MarkApplied i)"
  "st_MarkFailed (sqlite_store p) i code summary = operation_call (MarkFailed i code summary)"
  "st_RestoreState (sqlite_store p) input i = operation_call (RestoreState input i)"
  "st_Delete (sqlite_store p) i = operation_call (Revision_Delete i)"
  "st_Get (sqlite_store p) i = query_call (Revision_Get i)" "st_Environment (sqlite_store p) = p"
  by (simp_all add: sqlite_store_def)

definition db_view :: "db \<Rightarrow> store_view" where
  "db_view d = \<lparr>view_revisions = map revision_entry (t_revisions d), view_desired = desired_revision_id d,
                view_active = active_revision_id d, view_dirty = db_dirty d\<rparr>"

lemma entry_in_view:
  "r \<in> set (t_revisions d) \<Longrightarrow> rev_ID p = rev_ID r \<Longrightarrow> ConfigHash p = ConfigHash r
     \<Longrightarrow> revision_entry p \<in> set (view_revisions (db_view d))"
  by (auto simp: db_view_def revision_entry_def intro!: image_eqI [of _ _ r])

text \<open>Reading a revision keeps its identifier and its hash.\<close>

lemma scanRevision_entry: "scanRevision r = Inr p \<Longrightarrow> rev_ID p = rev_ID r \<and> ConfigHash p = ConfigHash r"
  by (auto simp: scanRevision_def validated_def split: sum.splits option.splits)

lemma query_row_scanned:
  assumes "query_row scanRevision rows = Inr p"
  shows "\<exists>r \<in> set rows. rev_ID p = rev_ID r \<and> ConfigHash p = ConfigHash r"
  using assms scanRevision_entry by (cases rows) (auto simp: query_row_def)

lemma first_legacy_scanned:
  "first_legacy sh rows = Inr (Some p) \<Longrightarrow> \<exists>r \<in> set rows. rev_ID p = rev_ID r \<and> ConfigHash p = ConfigHash r"
proof (induction rows)
  case (Cons row rows)
  from Cons.prems obtain r where r: "scanRevision row = Inr r" by (auto split: sum.splits)
  with Cons scanRevision_entry [OF r] show ?case by (auto split: sum.splits if_splits)
qed simp

lemma FindByIdentity_entry:
  assumes "FindByIdentity h sh d = Inr (Some p)"
  shows "ConfigHash p = h \<and> revision_entry p \<in> set (view_revisions (db_view d))"
proof -
  have "\<exists>r \<in> set (t_revisions d). rev_ID p = rev_ID r \<and> ConfigHash p = ConfigHash r \<and> ConfigHash r = h"
    using assms query_row_scanned first_legacy_scanned
    by (auto simp: FindByIdentity_def findLegacyByIdentity_def newest_first_def split: sum.splits if_splits) fastforce+
  then show ?thesis using entry_in_view by auto
qed

lemma Revision_Get_entry:
  assumes "Revision_Get i d = Inr p"
  shows "rev_ID p = i \<and> revision_entry p \<in> set (view_revisions (db_view d))"
proof -
  have "query_row scanRevision (filter (\<lambda>r. rev_ID r = i) (t_revisions d)) = Inr p"
    using assms by (auto simp: Revision_Get_def no_rows_as_def split: if_splits)
  from query_row_scanned [OF this] obtain r where "r \<in> set (t_revisions d)" "rev_ID r = i" "rev_ID p = rev_ID r"
    "ConfigHash p = ConfigHash r" by auto
  then show ?thesis using entry_in_view by simp
qed

lemma active_row: "db_ok d \<Longrightarrow> active_revision_id d = Some i \<Longrightarrow> i \<in> rev_ID ` set (t_revisions d)"
  by (auto simp: db_ok_def schema_ok_def revisions_ok_def)

lemma Revision_Active_entry:
  assumes "Revision_Active d = Inr a" and "db_ok d"
  shows "map_option rev_ID a = active_revision_id d"
    and "a = Some p \<Longrightarrow> revision_entry p \<in> set (view_revisions (db_view d))"
proof -
  let ?rows = "filter (\<lambda>r. Some (rev_ID r) = active_revision_id d) (t_revisions d)"
  have "map_option rev_ID a = active_revision_id d
    \<and> (\<forall>p. a = Some p \<longrightarrow> revision_entry p \<in> set (view_revisions (db_view d)))"
  proof (cases ?rows)
    case Nil
    then have "active_revision_id d = None"
      using active_row [OF assms(2)] by (cases "active_revision_id d") (auto simp: filter_empty_conv)
    with Nil assms(1) show ?thesis by (simp add: Revision_Active_def query_row_def)
  next
    case (Cons r rs)
    have no: "scanRevision r \<noteq> Inl NoRows"
      by (auto simp: scanRevision_def validated_def scan_time_def split: sum.splits option.splits)
    then obtain p where p: "scanRevision r = Inr p" "a = Some p"
      using assms(1) Cons by (auto simp: Revision_Active_def query_row_def split: sum.splits if_splits)
    have "r \<in> set ?rows" by (simp add: Cons)
    then show ?thesis using p scanRevision_entry [OF p(1)] entry_in_view [of r d p] by auto
  qed
  then show "map_option rev_ID a = active_revision_id d"
    "a = Some p \<Longrightarrow> revision_entry p \<in> set (view_revisions (db_view d))" by blast+
qed

text \<open>Writing a status keeps every entry.\<close>

lemma with_status_entries:
  "(\<And>r. revision_entry (f r) = revision_entry r) \<Longrightarrow> map revision_entry (t_revisions (with_status i f d)) = map revision_entry (t_revisions d)"
  by (auto simp: with_status_def update_where_def)

lemma status_entries [simp]:
  "revision_entry (applied r) = revision_entry r"
  "revision_entry (r\<lparr>ApplyStatus := s, ErrorCode := c, ErrorSummary := m\<rparr>) = revision_entry r"
  by (simp_all add: revision_entry_def applied_def)

lemma with_status_fields [simp]:
  "desired_revision_id (with_status i f d) = desired_revision_id d" "active_revision_id (with_status i f d) = active_revision_id d"
  "db_dirty (with_status i f d) = db_dirty d"
  by (simp_all add: with_status_def)

lemma update_valid_Inr: "update_valid_revision i f d = Inr d' \<Longrightarrow> d' = with_status i f d"
  by (simp add: update_valid_revision_def split: if_splits)

lemma set_runtime_state_Inr:
  "set_runtime_state desired active d = Inr d' \<Longrightarrow>
     d' = d\<lparr>desired_revision_id := desired, active_revision_id := active, db_dirty := False\<rparr>"
  by (simp add: set_runtime_state_def split: if_splits)

lemma exec_Inr: "exec stmt d = (d', Inr u) \<longleftrightarrow> stmt d = Inr d'"
  by (auto simp: exec_def split: sum.splits)

lemma MarkApplied_view:
  assumes "MarkApplied i d = (d', Inr u)"
  shows "db_view d' = (db_view d)\<lparr>view_desired := Some i, view_active := Some i, view_dirty := False\<rparr>"
proof -
  from assms obtain d1 where 1: "update_valid_revision i applied d = Inr d1"
    and 2: "set_runtime_state (Some i) (Some i) d1 = Inr d'"
    by (auto simp: MarkApplied_def exec_Inr transaction_Inr)
  show ?thesis
    using update_valid_Inr [OF 1] set_runtime_state_Inr [OF 2] with_status_entries [of applied i d] by (simp add: db_view_def)
qed

lemma MarkFailed_view:
  assumes "MarkFailed i code summary d = (d', Inr u)" shows "db_view d' = db_view d"
proof -
  let ?f = "\<lambda>r. r\<lparr>ApplyStatus := RevisionApplyFailed, ErrorCode := code, ErrorSummary := summary\<rparr>"
  have "update_valid_revision i ?f d = Inr d'" using assms by (simp add: MarkFailed_def exec_Inr)
  from update_valid_Inr [OF this] with_status_entries [of ?f i d] show ?thesis by (simp add: db_view_def)
qed

lemma SetDesired_view:
  assumes "SetDesired i d = (d', Inr u)" shows "db_view d' = (db_view d)\<lparr>view_desired := Some i, view_dirty := False\<rparr>"
proof -
  have "filter (\<lambda>r. rev_ID r = i) (t_revisions d) \<noteq> []"
    using assms by (auto simp: SetDesired_def expect_affected_def split: sum.splits if_splits)
  then have "i \<in> rev_ID ` set (t_revisions d)" by (auto simp: filter_empty_conv)
  then have "set_runtime_state (Some i) (active_revision_id d) d = Inr d'"
    using assms by (auto simp: SetDesired_def expect_affected_def split: sum.splits if_splits)
  from set_runtime_state_Inr [OF this] show ?thesis by (simp add: db_view_def)
qed

lemma SetDesired_error: assumes "SetDesired i d = (d', Inl e)" shows "d' = d"
proof (cases "i \<in> rev_ID ` set (t_revisions d)")
  case True
  then have "filter (\<lambda>r. rev_ID r = i) (t_revisions d) \<noteq> []" by (auto simp: filter_empty_conv)
  then show ?thesis using assms by (auto simp: SetDesired_def expect_affected_def split: sum.splits if_splits)
qed (use assms in \<open>auto simp: SetDesired_def expect_affected_def split: if_splits\<close>)

text \<open>The rows a restore writes leave the runtime state alone.\<close>

definition runtime_row :: "ident option \<Rightarrow> ident option \<Rightarrow> db \<Rightarrow> bool" where
  "runtime_row desired active d \<longleftrightarrow> desired_revision_id d = desired \<and> active_revision_id d = active"

lemma RestoreState_view:
  assumes "RestoreState input i d = (d', Inr u)"
  shows "db_view d' = (db_view d)\<lparr>view_desired := Some i, view_active := Some i, view_dirty := False\<rparr>"
proof -
  from assms obtain expected d1 d2 d3 where "snapshot_guard i expected d = Inr d1"
    and 2: "transaction (restore_rows input) d1 = Inr d2"
    and 3: "update_valid_revision i applied d2 = Inr d3" and 4: "set_runtime_state (Some i) (Some i) d3 = Inr d'"
    by (auto simp: RestoreState_def exec_Inr transaction_append transaction_Inr split: option.splits sum.splits)
  moreover have "d1 = d" using \<open>snapshot_guard i expected d = Inr d1\<close>
    by (auto simp: snapshot_guard_def split: list.splits if_splits)
  ultimately have "t_revisions d2 = t_revisions d" using keeps_revisions_restore by simp
  then show ?thesis
    using update_valid_Inr [OF 3] set_runtime_state_Inr [OF 4] with_status_entries [of applied i d2] by (simp add: db_view_def)
qed

lemma RestoreState_error: "RestoreState input i d = (d', Inl e) \<Longrightarrow> d' = d"
  by (auto simp: RestoreState_def exec_def split: option.splits sum.splits)

lemma Revision_Create_view:
  assumes "Revision_Create r d = (d', Inr c)"
  shows "revision_entry c = revision_entry r"
    and "db_view d' = (db_view d)\<lparr>view_revisions := view_revisions (db_view d) @ [revision_entry c], view_desired := Some (rev_ID c), view_dirty := False\<rparr>"
  using Revision_Create_Inr [OF assms] by (auto simp: revision_entry_def db_view_def)

lemma Revision_Create_error: "Revision_Create r d = (d', Inl e) \<Longrightarrow> d' = d"
  by (auto simp: Revision_Create_def Let_def split: sum.splits)

text \<open>What the contract asks of a call that may be failed by the driver.\<close>

definition store_ok :: "store \<Rightarrow> bool" where
  "store_ok x \<longleftrightarrow> db_ok (fst x)"

definition view_of_store :: "store \<Rightarrow> store_view" where
  "view_of_store x = db_view (fst x)"

lemmas store_simps = store_ok_def view_of_store_def

lemma query_call_cases:
  assumes "query_call q x = (x', r)"
  shows "fst x' = fst x" and "r = Inr a \<Longrightarrow> q (fst x) = Inr a"
  using assms by (auto simp: query_call_def split: prod.splits if_splits)

text \<open>A call of an operation either was failed by the driver or ran.\<close>

lemma operation_call_cases:
  assumes "operation_call f x = (x', r)"
  obtains (failed) "fst x' = fst x" "r = Inl Unavailable" | (ran) "f (fst x) = (fst x', r)"
  using assms by (cases x) (auto simp: operation_call_def split: prod.splits if_splits)

lemma operation_contract:
  assumes ok: "store_ok x" and run: "operation_call f x = (x', r)" and keeps: "\<And>d. db_ok d \<Longrightarrow> db_ok (fst (f d))"
    and error: "\<And>d d' e. f d = (d', Inl e) \<Longrightarrow> d' = d"
  shows "store_ok x'" and "r = Inl e \<Longrightarrow> view_of_store x' = view_of_store x" and "r = Inr a \<Longrightarrow> f (fst x) = (fst x', Inr a)"
  using run
  by (cases rule: operation_call_cases; use ok keeps [of "fst x"] error in \<open>force simp: store_simps\<close>)+

lemma readonly_DNS_Environment: "readonly (DNSProviderService_Environment a input)"
proof -
  have secret: "readonly (mapped g (secret_query a i))" for g i
    by (auto simp: readonly_def mapped_def secret_query_def split: prod.splits)
  show ?thesis
    unfolding DNSProviderService_Environment_def
    by (intro service_option service_if readonly_and_then readonly_basic secret) 
qed

interpretation store: store_contract "sqlite_store (Some (DNSProviderService_Environment a))" store_ok view_of_store for a
proof unfold_locales
  let ?st = "sqlite_store (Some (DNSProviderService_Environment a))"
  fix d d' :: store
  assume ok: "store_ok d"
  show "store_ok d' \<and> view_of_store d' = view_of_store d" if "st_Snapshot ?st d = (d', x)" for x
    using query_call_cases(1) [of Snapshot d d' x] that ok by (simp add: store_simps)
  show "store_ok d' \<and> view_of_store d' = view_of_store d" if "st_Environment ?st = Some f" "f input d = (d', y)" for f input y
  proof -
    have "DNSProviderService_Environment a input d = (d', y)" using that by simp
    then have "fst d' = fst d" using readonly_DNS_Environment [of a input] unfolding readonly_def by (metis prod.collapse fst_conv)
    then show ?thesis using ok by (simp add: store_simps)
  qed
  show "store_ok d' \<and> view_of_store d' = view_of_store d
      \<and> (\<forall>p. z = Inr (Some p) \<longrightarrow> ConfigHash p = h \<and> revision_entry p \<in> set (view_revisions (view_of_store d)))"
    if "st_FindByIdentity ?st h sh d = (d', z)" for h sh z
  proof -
    have run: "query_call (FindByIdentity h sh) d = (d', z)" using that by simp
    have "ConfigHash p = h \<and> revision_entry p \<in> set (view_revisions (view_of_store d))" if z: "z = Inr (Some p)" for p
      using FindByIdentity_entry [OF query_call_cases(2) [OF run z]] by (simp add: view_of_store_def)
    then show ?thesis using query_call_cases(1) [OF run] ok by (simp add: store_simps)
  qed
  show "store_ok d' \<and> view_of_store d' = view_of_store d
      \<and> (\<forall>p. g = Inr p \<longrightarrow> rev_ID p = i \<and> revision_entry p \<in> set (view_revisions (view_of_store d)))"
    if "st_Get ?st i d = (d', g)" for i g
  proof -
    have run: "query_call (Revision_Get i) d = (d', g)" using that by simp
    have "rev_ID p = i \<and> revision_entry p \<in> set (view_revisions (view_of_store d))" if z: "g = Inr p" for p
      using Revision_Get_entry [OF query_call_cases(2) [OF run z]] by (simp add: view_of_store_def)
    then show ?thesis using query_call_cases(1) [OF run] ok by (simp add: store_simps)
  qed
  show "store_ok d' \<and> view_of_store d' = view_of_store d
      \<and> (\<forall>a. z = Inr a \<longrightarrow> map_option rev_ID a = view_active (view_of_store d)
           \<and> (\<forall>p. a = Some p \<longrightarrow> revision_entry p \<in> set (view_revisions (view_of_store d))))"
    if "st_Active ?st d = (d', z)" for z
  proof -
    have run: "query_call Revision_Active d = (d', z)" using that by simp
    have ok': "db_ok (fst d)" using ok by (simp add: store_simps)
    have a: "view_active (view_of_store d) = active_revision_id (fst d)" by (simp add: view_of_store_def db_view_def)
    have "map_option rev_ID a = view_active (view_of_store d)
        \<and> (\<forall>p. a = Some p \<longrightarrow> revision_entry p \<in> set (view_revisions (view_of_store d)))" if z: "z = Inr a" for a
      using Revision_Active_entry [OF query_call_cases(2) [OF run z] ok'] a by (simp add: view_of_store_def)
    then show ?thesis using query_call_cases(1) [OF run] ok by (simp add: store_simps)
  qed
  show "store_ok d' \<and> (\<forall>e. g = Inl e \<longrightarrow> view_of_store d' = view_of_store d)
      \<and> (\<forall>c. g = Inr c \<longrightarrow> revision_entry c = revision_entry r \<and> view_of_store d' = (view_of_store d)
            \<lparr>view_revisions := view_revisions (view_of_store d) @ [revision_entry c], view_desired := Some (rev_ID c), view_dirty := False\<rparr>)"
    if "st_Create ?st r d = (d', g)" for r g
  proof -
    have run: "operation_call (Revision_Create r) d = (d', g)" using that by simp
    note c = operation_contract [OF ok run db_ok_create Revision_Create_error]
    show ?thesis using c(1) c(2) Revision_Create_view [OF c(3)] by (auto simp: view_of_store_def)
  qed
  have calls: "db_ok e \<Longrightarrow> db_ok (run_call c e)" for c e using run_call_advanced [of e c] by (simp add: advanced_def)
  show "store_ok d' \<and> view_of_store d' = (if is_ok u then (view_of_store d)\<lparr>view_desired := Some i, view_dirty := False\<rparr> else view_of_store d)"
    if "st_SetDesired ?st i d = (d', u)" for i u
  proof -
    have run: "operation_call (SetDesired i) d = (d', u)" using that by simp
    note c = operation_contract [OF ok run calls [of _ "SetDesiredRevision i", simplified] SetDesired_error]
    show ?thesis using c(1) c(2) SetDesired_view [OF c(3)] by (cases u) (auto simp: view_of_store_def)
  qed
  show "store_ok d' \<and> view_of_store d' =
      (if is_ok u then (view_of_store d)\<lparr>view_desired := Some i, view_active := Some i, view_dirty := False\<rparr> else view_of_store d)"
    if "st_MarkApplied ?st i d = (d', u)" for i u
  proof -
    have run: "operation_call (MarkApplied i) d = (d', u)" using that by simp
    have err: "MarkApplied i b = (b', Inl e) \<Longrightarrow> b' = b" for b b' e
      using atomic_operationD [OF atomic_exec] by (auto simp: MarkApplied_def)
    note c = operation_contract [OF ok run calls [of _ "MarkRevisionApplied i", simplified] err]
    show ?thesis using c(1) c(2) MarkApplied_view [OF c(3)] by (cases u) (auto simp: view_of_store_def)
  qed
  show "store_ok d' \<and> view_of_store d' = view_of_store d" if "st_MarkFailed ?st i code summary d = (d', u)" for i code summary u
  proof -
    have run: "operation_call (MarkFailed i code summary) d = (d', u)" using that by simp
    have err: "MarkFailed i code summary b = (b', Inl e) \<Longrightarrow> b' = b" for b b' e
      using atomic_operationD [OF atomic_exec] by (auto simp: MarkFailed_def)
    note c = operation_contract [OF ok run calls [of _ "MarkRevisionFailed i code summary", simplified] err]
    show ?thesis using c(1) c(2) MarkFailed_view [OF c(3)] by (cases u) (auto simp: view_of_store_def)
  qed
  show "store_ok d' \<and> view_of_store d' =
      (if is_ok u then (view_of_store d)\<lparr>view_desired := Some i, view_active := Some i, view_dirty := False\<rparr> else view_of_store d)"
    if "st_RestoreState ?st input i d = (d', u)" for input i u
  proof -
    have run: "operation_call (RestoreState input i) d = (d', u)" using that by simp
    note c = operation_contract [OF ok run calls [of _ "RestoreRevisionState input i", simplified] RestoreState_error]
    show ?thesis using c(1) c(2) RestoreState_view [OF c(3)] by (cases u) (auto simp: view_of_store_def)
  qed
  show "distinct (map fst (view_revisions (view_of_store d)))"
    using ok by (auto simp: store_simps db_view_def revision_entry_def db_ok_def schema_ok_def revisions_ok_def comp_def)
qed

section \<open>The runtime\<close>

text \<open>The manager and the results of the system calls of its operations to come; past the end of the list they
  succeed.  The environment of a process that is started is the one the operation was given.\<close>

type_synonym managed_runtime = "runtime_manager \<times> runtime_calls list"

definition calm_calls :: runtime_calls where
  "calm_calls =
     \<lparr>write_calls = [], spawn_ok = True, polls = [HealthOK], health_ok = True, reload_ok = True, stop_ok = True,
      stop_wait = Some ExitedNormally, stop_canceled = False\<rparr>"

definition next_calls :: "runtime_calls list \<Rightarrow> runtime_calls" where
  "next_calls cs = (case cs of [] \<Rightarrow> calm_calls | c # _ \<Rightarrow> c)"

definition with_calls ::
  "(runtime_calls \<Rightarrow> runtime_manager \<Rightarrow> runtime_manager \<times> 'a) \<Rightarrow> managed_runtime \<Rightarrow> managed_runtime \<times> 'a" where
  "with_calls f = (\<lambda>(m, cs). case f (next_calls cs) m of (m', a) \<Rightarrow> ((m', tl cs), a))"

definition caddy_manager :: "validator \<Rightarrow> managed_runtime caddy_runtime" where
  "caddy_manager v =
     \<lparr>rt_Start = (\<lambda>c. with_calls (\<lambda>calls. Start v calls c)),
      rt_Reload = (\<lambda>c. with_calls (\<lambda>calls. Reload v calls c)),
      rt_Stop = with_calls Stop_Runtime,
      rt_Status = with_calls Status,
      rt_StartWithEnvironment = Some (\<lambda>c env. with_calls (\<lambda>calls. StartWithEnvironment v calls c env)),
      rt_EnvironmentMatches = Some (\<lambda>env. with_calls (\<lambda>_. EnvironmentMatches env)),
      rt_CurrentEnvironment = Some (\<lambda>(m, cs). CurrentEnvironment m)\<rparr>"

text \<open>No exit waits to be observed: without a process the manager has no command.\<close>

definition settled :: "runtime_manager \<Rightarrow> bool" where
  "settled m \<longleftrightarrow> managed m \<and> (process m = None \<longrightarrow> \<not> command m)"

definition runtime_ok :: "managed_runtime \<Rightarrow> bool" where
  "runtime_ok r \<longleftrightarrow> settled (fst r)"

definition live_process :: "managed_runtime \<Rightarrow> (string \<times> env) option" where
  "live_process r = map_option (\<lambda>p. (serving p, inherited p)) (process (fst r))"

end
