(* ===== verification/Apply_Runtime.thy ===== *)
theory Apply_Runtime
  imports Apply_Model
begin

text \<open>
  The manager of the Caddy process keeps the contract the service relies on, as long as no exit of the
  process waits to be observed when an operation of the service begins.
\<close>

lemma with_calls_run: "with_calls f r = (r', a) \<longleftrightarrow> f (next_calls (snd r)) (fst r) = (fst r', a) \<and> snd r' = tl (snd r)"
  by (cases r; cases r') (auto simp: with_calls_def split: prod.splits)

lemma settled_running:
  "settled m \<Longrightarrow> process m = None \<Longrightarrow> runningLocked m = (m, False)"
  "settled m \<Longrightarrow> process m \<noteq> None \<Longrightarrow> runningLocked m = (m, True)"
  by (auto simp: settled_def managed_running) (simp add: runningLocked_def)

lemma settled_cancel: "settled (cancelRenewalsLocked m) \<longleftrightarrow> settled m"
  by (simp add: settled_def managed_def)

lemma settled_managed: "settled m \<Longrightarrow> managed m"
  by (simp add: settled_def)

lemma settled_live: "managed m \<Longrightarrow> process m \<noteq> None \<Longrightarrow> settled m"
  by (auto simp: settled_def)

lemma settled_dead: "process m = None \<Longrightarrow> \<not> command m \<Longrightarrow> settled m"
  by (simp add: settled_def managed_def)

lemma Status_settled:
  assumes "settled m" and "Status calls m = (m', s)"
  shows "settled m'" and "process m' = process m" and "s = RuntimeRunning \<Longrightarrow> process m \<noteq> None"
    and "s \<in> {RuntimeStopped, RuntimeFailed, RuntimeUnknown, RuntimeNotInstalled} \<Longrightarrow> process m = None"
proof -
  have "settled m' \<and> process m' = process m \<and> (s = RuntimeRunning \<longrightarrow> process m \<noteq> None)
    \<and> (s \<in> {RuntimeStopped, RuntimeFailed, RuntimeUnknown, RuntimeNotInstalled} \<longrightarrow> process m = None)"
  proof (cases "process m")
    case None
    then show ?thesis using assms settled_running(1)
      by (auto simp: Status_def StatusSnapshot_def Let_def settled_def managed_def split: if_splits)
  next
    case (Some p)
    then show ?thesis using assms settled_running(2)
      by (auto simp: Status_def StatusSnapshot_def Let_def split: if_splits)
  qed
  then show "settled m'" "process m' = process m" "s = RuntimeRunning \<Longrightarrow> process m \<noteq> None"
    "s \<in> {RuntimeStopped, RuntimeFailed, RuntimeUnknown, RuntimeNotInstalled} \<Longrightarrow> process m = None" by blast+
qed

lemma Start_settled:
  assumes "settled m" and "StartWithEnvironment v calls c env m = (m', r)"
  shows "settled m'" and "process m \<noteq> None \<Longrightarrow> process m' = process m"
    and "process m = None \<Longrightarrow> process m' = (if r = None then Some \<lparr>serving = c, inherited = env\<rparr> else None)"
proof -
  note cases = StartWithEnvironment_cases [OF assms(2) settled_managed [OF assms(1)]]
  show "process m \<noteq> None \<Longrightarrow> process m' = process m" using cases(2) by blast
  have dead: "process m' = (if r = None then Some \<lparr>serving = c, inherited = env\<rparr> else None) \<and> settled m'"
    if none: "process m = None"
  proof -
    have quiet: "\<not> command m" using assms(1) none by (simp add: settled_def)
    have run: "runningLocked m = (m, False)" by (rule settled_running(1) [OF assms(1) none])
    let ?m = "(cancelRenewalsLocked m)\<lparr>config_file := Some c\<rparr>"
    let ?p = "?m\<lparr>command := True, done_chan := Some None, process := Some \<lparr>serving = c, inherited = env\<rparr>\<rparr>"
    have up: "startup_result ?p (await_health env (polls calls) ?p)" by (rule await_health_result) auto
    have "process m' = None \<and> \<not> command m' \<or> (m', r) = await_health env (polls calls) ?p"
      using assms(2) none quiet run
      by (auto simp: StartWithEnvironment_def Let_def writeConfigAtomically_def fail_runtime_def recordFailure_def
          split: if_splits option.splits)
    then have "settled m'"
    proof
      assume "(m', r) = await_health env (polls calls) ?p"
      then show ?thesis using up by (cases r) (auto simp: startup_result_def settled_def managed_def split: prod.splits)
    qed (simp add: settled_dead)
    with cases(3) [OF none] quiet show ?thesis by auto
  qed
  then show "process m = None \<Longrightarrow> process m' = (if r = None then Some \<lparr>serving = c, inherited = env\<rparr> else None)"
    by blast
  show "settled m'" using dead cases(1,2) settled_live [of m'] assms(1) by (cases "process m = None") auto
qed

lemma Reload_settled:
  assumes "settled m" and "Reload v calls c m = (m', r)"
  shows "settled m'" and "r = None \<Longrightarrow> \<exists>p. process m = Some p \<and> process m' = Some (p\<lparr>serving := c\<rparr>)"
proof -
  note cases = Reload_cases [OF assms(2) settled_managed [OF assms(1)]]
  show "r = None \<Longrightarrow> \<exists>p. process m = Some p \<and> process m' = Some (p\<lparr>serving := c\<rparr>)" using cases(2) by blast
  show "settled m'"
  proof (cases "process m")
    case None
    have s: "settled (cancelRenewalsLocked m)" using assms(1) by (simp add: settled_cancel)
    then have run: "runningLocked (cancelRenewalsLocked m) = (cancelRenewalsLocked m, False)"
      using settled_running(1) None by simp
    have "m' = fst (recordFailure (RuntimeError CodeCaddyReloadFailed ''Caddy is not running'') (cancelRenewalsLocked m))"
      using assms(2) run by (simp add: Reload_def fail_runtime_def)
    then show ?thesis using assms(1) None by (simp add: settled_def managed_def)
  next
    case (Some p)
    then show ?thesis using cases(1,2,3) settled_live by (cases r) auto
  qed
qed

lemma Stop_settled:
  assumes "settled m" and "Stop_Runtime calls m = (m', r)"
  shows "settled m'" and "r = None \<Longrightarrow> process m' = None"
proof -
  note cases = Stop_cases [OF assms(2) settled_managed [OF assms(1)]]
  show "r = None \<Longrightarrow> process m' = None" using cases(2) by blast
  have s: "settled (cancelRenewalsLocked m)" using assms(1) by (simp add: settled_cancel)
  show "settled m'"
  proof (cases "process m")
    case None
    then have "runningLocked (cancelRenewalsLocked m) = (cancelRenewalsLocked m, False)" using settled_running(1) [OF s] by simp
    then have "r = None" using assms(2) by (auto simp: Stop_Runtime_def Let_def)
    then show ?thesis using cases(2) settled_dead by blast
  next
    case (Some p)
    then have "runningLocked (cancelRenewalsLocked m) = (cancelRenewalsLocked m, True)" using settled_running(2) [OF s] by simp
    then have "process m' = None \<longrightarrow> \<not> command m'"
      using assms(2) Some by (auto simp: Stop_Runtime_def Let_def fail_runtime_def recordFailure_def kill_process_def
          process_exits_def split: if_splits option.splits)
    then show ?thesis using cases(1) by (simp add: settled_def)
  qed
qed

lemma Matches_settled:
  assumes "settled m" and "EnvironmentMatches env m = (m', b)" shows "m' = m"
  using assms settled_running [OF assms(1)] by (cases "process m = None") (auto simp: EnvironmentMatches_def)

lemma start_manager:
  "startWithEnvironment (caddy_manager v) c env = with_calls (\<lambda>calls. StartWithEnvironment v calls c env)"
  by (rule ext) (simp add: startWithEnvironment_def caddy_manager_def)

interpretation runtime: runtime_contract "caddy_manager v" runtime_ok live_process for v
proof unfold_locales
  fix r r' :: managed_runtime
  assume "runtime_ok r"
  then have ok: "settled (fst r)" by (simp add: runtime_ok_def)
  show "runtime_ok r' \<and> live_process r' = live_process r \<and> (s = RuntimeRunning \<longrightarrow> live_process r \<noteq> None)
      \<and> (s \<in> {RuntimeStopped, RuntimeFailed, RuntimeUnknown, RuntimeNotInstalled} \<longrightarrow> live_process r = None)"
    if "rt_Status (caddy_manager v) r = (r', s)" for s
    using Status_settled [OF ok, of "next_calls (snd r)" "fst r'" s] that
    by (simp add: caddy_manager_def with_calls_run runtime_ok_def live_process_def)
  show "runtime_ok r' \<and> live_process r' = live_process r"
    if "rt_EnvironmentMatches (caddy_manager v) = Some f" "f env r = (r', b)" for f env b
  proof -
    have "EnvironmentMatches env (fst r) = (fst r', b)" using that by (auto simp: caddy_manager_def with_calls_run)
    from Matches_settled [OF ok this] ok show ?thesis by (simp add: runtime_ok_def live_process_def)
  qed
  show "runtime_ok r' \<and> (live_process r = None \<longrightarrow> x = None \<longrightarrow> live_process r' = Some (c, env))
      \<and> (live_process r = None \<longrightarrow> x \<noteq> None \<longrightarrow> live_process r' = None)
      \<and> (live_process r \<noteq> None \<longrightarrow> live_process r' = live_process r)"
    if "startWithEnvironment (caddy_manager v) c env r = (r', x)" for c env x
    using Start_settled [OF ok, of v "next_calls (snd r)" c env "fst r'" x] that
    by (auto simp: start_manager with_calls_run runtime_ok_def live_process_def)
  show "runtime_ok r' \<and> (x = None \<longrightarrow> (\<exists>c0 env. live_process r = Some (c0, env) \<and> live_process r' = Some (c, env)))"
    if "rt_Reload (caddy_manager v) c r = (r', x)" for c x
    using Reload_settled [OF ok, of v "next_calls (snd r)" c "fst r'" x] that
    by (auto simp: caddy_manager_def with_calls_run runtime_ok_def live_process_def)
  show "runtime_ok r' \<and> (x = None \<longrightarrow> live_process r' = None)" if "rt_Stop (caddy_manager v) r = (r', x)" for x
    using Stop_settled [OF ok, of "next_calls (snd r)" "fst r'" x] that
    by (auto simp: caddy_manager_def with_calls_run runtime_ok_def live_process_def)
qed

text \<open>The service of the daemon.\<close>

definition daemon_service :: "aead \<Rightarrow> validator \<Rightarrow> string \<Rightarrow> (store, managed_runtime) apply_service" where
  "daemon_service a v version =
     \<lparr>svc_store = sqlite_store (Some (DNSProviderService_Environment a)), svc_runtime = caddy_manager v,
      svc_validator = v, svc_AppVersion = version\<rparr>"

interpretation daemon: apply_contract "sqlite_store (Some (DNSProviderService_Environment a))" store_ok view_of_store
  "caddy_manager v" runtime_ok live_process "daemon_service a v version" for a v version
  by unfold_locales (simp_all add: daemon_service_def)

lemma daemon_parts [simp]:
  "svc_store (daemon_service a v version) = sqlite_store (Some (DNSProviderService_Environment a))"
  "svc_runtime (daemon_service a v version) = caddy_manager v" "svc_validator (daemon_service a v version) = v"
  "svc_AppVersion (daemon_service a v version) = version"
  by (simp_all add: daemon_service_def)

end
