(* ===== verification/Json_Indent.thy ===== *)
theory Json_Indent
  imports Json_Roundtrip
begin

text \<open>
  The indented form of a value is read back as the value: the compiled configuration, which is printed this
  way, is valid JSON.
\<close>

lemma ws_indentation: "list_all is_ws (indentation l)"
proof -
  have "list_all is_ws (concat (replicate l ''  ''))" by (induction l) (simp_all add: is_ws_def byte_of_def)
  then show ?thesis by (simp add: indentation_def newline_def is_ws_def byte_of_def)
qed

lemma skip_ws_all: "list_all is_ws w \<Longrightarrow> skip_ws (w @ s) = skip_ws s"
  by (induction w) (simp_all add: skip_ws_def)

lemma skip_ws_indentation [simp]: "skip_ws (indentation l @ s) = skip_ws s"
  by (rule skip_ws_all) (rule ws_indentation)

lemma skip_ws_newline [simp]: "skip_ws [newline] = []"
  by (simp add: skip_ws_def newline_def is_ws_def byte_of_def)

lemma stops_indentation [simp]: "stops (indentation l @ s)" "stops [newline]"
  by (simp_all add: stops_def indentation_def newline_def is_digit_def byte_of_def)

lemma skip_ws_space [simp]: "skip_ws (CHR '' '' # s) = skip_ws s"
  by (simp add: skip_ws_def is_ws_def byte_of_def)

lemma indent_head:
  assumes "clean j"
  shows "\<exists>c cs. json_indent l j = c # cs \<and> \<not> is_ws c \<and> c \<noteq> CHR '']''"
proof (cases j)
  case (JNum s)
  with print_head [OF assms] show ?thesis by simp
qed (simp_all add: quote_string_def)

lemma skip_ws_indent: "clean j \<Longrightarrow> skip_ws (json_indent l j @ t) = json_indent l j @ t"
  using indent_head [of j l] by auto

definition reads_indented :: "nat \<Rightarrow> nat \<Rightarrow> nat \<Rightarrow> json \<Rightarrow> bool" where
  "reads_indented l n d j \<longleftrightarrow> (\<forall>m t. n \<le> m \<longrightarrow> stops t \<longrightarrow> parse_value m d (json_indent l j @ t) = Some (j, t))"

abbreviation separator :: "nat \<Rightarrow> string" where
  "separator l \<equiv> CHR '','' # indentation l"

lemma parse_elements_indent:
  assumes "\<forall>x \<in> set xs. clean x \<and> reads_indented l (fuel x) d x" and "xs \<noteq> []"
    and "sum_list (map (\<lambda>x. Suc (fuel x)) xs) \<le> n"
  shows "parse_elements n d (join_with (separator l) (map (json_indent l) xs) @ indentation k @ '']'' @ t) = Some (xs, t)"
  using assms
proof (induction xs arbitrary: n)
  case Nil
  then show ?case by simp
next
  case (Cons x xs)
  obtain m where n: "n = Suc m" using Cons.prems(3) by (cases n) auto
  have m: "fuel x \<le> m" "sum_list (map (\<lambda>x. Suc (fuel x)) xs) \<le> m"
    using Cons.prems(3) n by auto
  have v: "parse_value m d (json_indent l x @ u) = Some (x, u)" if "stops u" for u
    using Cons.prems(1) m(1) that by (simp add: reads_indented_def)
  show ?case
  proof (cases xs)
    case Nil
    with v show ?thesis by (simp add: n)
  next
    case (Cons y ys)
    let ?rest = "join_with (separator l) (map (json_indent l) xs) @ indentation k @ '']'' @ t"
    have "skip_ws ?rest = ?rest"
      using skip_ws_indent [of y] Cons.prems(1) Cons by (cases ys) auto
    moreover have "parse_elements m d ?rest = Some (xs, t)"
      using Cons.IH [of m] Cons.prems(1) m(2) Cons by simp
    ultimately show ?thesis using v Cons by (simp add: n)
  qed
qed

lemma parse_members_indent:
  assumes "\<forall>(k, x) \<in> set xs. valid_utf8 k \<and> clean x \<and> reads_indented l (fuel x) d x" and "xs \<noteq> []"
    and "sum_list (map (\<lambda>kv. Suc (fuel (snd kv))) xs) \<le> n"
  shows "parse_members n d
    (join_with (separator l) (map (\<lambda>(k, v). quote_string k @ '': '' @ json_indent l v) xs) @ indentation i @ ''}'' @ t)
      = Some (xs, t)"
  using assms
proof (induction xs arbitrary: n)
  case Nil
  then show ?case by simp
next
  case (Cons kx xs)
  obtain k x where kx: "kx = (k, x)" by (cases kx)
  obtain m where n: "n = Suc m" using Cons.prems(3) by (cases n) auto
  have m: "fuel x \<le> m" "sum_list (map (\<lambda>kv. Suc (fuel (snd kv))) xs) \<le> m"
    using Cons.prems(3) n kx by auto
  have v: "parse_value m d (json_indent l x @ u) = Some (x, u)" if "stops u" for u
    using Cons.prems(1) m(1) that kx by (simp add: reads_indented_def)
  have w: "skip_ws (json_indent l x @ u) = json_indent l x @ u" for u
    using skip_ws_indent Cons.prems(1) kx by simp
  have q: "unquote (concat (map escape_rune (chunks k)) @ quote_char # u) = Some (k, u)" for u
    using unquote_quote Cons.prems(1) kx by simp
  show ?case
  proof (cases xs)
    case Nil
    with v w q show ?thesis by (simp add: n kx quote_string_def)
  next
    case (Cons y ys)
    let ?rest = "join_with (separator l) (map (\<lambda>(k, v). quote_string k @ '': '' @ json_indent l v) xs) @ indentation i @ ''}'' @ t"
    have "skip_ws ?rest = ?rest"
      using Cons by (cases y; cases ys) (auto simp: quote_string_def)
    moreover have "parse_members m d ?rest = Some (xs, t)"
      using Cons.IH [of m] Cons.prems(1) m(2) Cons by simp
    ultimately show ?thesis using v w q Cons by (simp add: n kx quote_string_def)
  qed
qed

lemma parse_array_indent:
  assumes "\<forall>x \<in> set xs. clean x \<and> reads_indented (Suc l) (fuel x) (d - 1) x" and "d \<noteq> 0"
    and "fuel (JArr xs) \<le> m"
  shows "parse_value m d (json_indent l (JArr xs) @ t) = Some (JArr xs, t)"
proof -
  obtain k where k: "m = Suc k" using assms(3) by (cases m) auto
  show ?thesis
  proof (cases "xs = []")
    case True
    with assms(2) show ?thesis by (simp add: k quote_char_def)
  next
    case False
    then obtain y ys where xs: "xs = y # ys" by (cases xs) auto
    let ?body = "join_with (separator (Suc l)) (map (json_indent (Suc l)) xs) @ indentation l @ '']'' @ t"
    obtain c cs where c: "json_indent (Suc l) y = c # cs" "\<not> is_ws c" "c \<noteq> CHR '']''"
      using indent_head [of y "Suc l"] assms(1) xs by auto
    have b: "\<exists>r. ?body = c # r" using c xs by (cases ys) auto
    then have w: "skip_ws ?body = ?body" "hd ?body \<noteq> CHR '']''" "?body \<noteq> []"
      using c by auto
    have "parse_elements k (d - 1) ?body = Some (xs, t)"
      using assms(1,3) k False by (intro parse_elements_indent) auto
    with w assms(2) False show ?thesis by (simp add: k quote_char_def)
  qed
qed

lemma parse_object_indent:
  assumes "\<forall>(k, x) \<in> set kvs. valid_utf8 k \<and> clean x \<and> reads_indented (Suc l) (fuel x) (d - 1) x" and "d \<noteq> 0"
    and "fuel (JObj kvs) \<le> m"
  shows "parse_value m d (json_indent l (JObj kvs) @ t) = Some (JObj kvs, t)"
proof -
  obtain k where k: "m = Suc k" using assms(3) by (cases m) auto
  show ?thesis
  proof (cases "kvs = []")
    case True
    with assms(2) show ?thesis by (simp add: k quote_char_def)
  next
    case False
    then obtain y ys where xs: "kvs = y # ys" by (cases kvs) auto
    let ?body = "join_with (separator (Suc l)) (map (\<lambda>(k, v). quote_string k @ '': '' @ json_indent (Suc l) v) kvs)
      @ indentation l @ ''}'' @ t"
    have b: "\<exists>r. ?body = quote_char # r"
      using xs by (cases y; cases ys) (auto simp: quote_string_def)
    then have w: "skip_ws ?body = ?body" "hd ?body \<noteq> CHR ''}''" "?body \<noteq> []"
      by (auto simp: quote_char_def [of]) (simp_all add: quote_char_def is_ws_def byte_of_def)
    have "parse_members k (d - 1) ?body = Some (kvs, t)"
      using assms(1,3) k False by (intro parse_members_indent) auto
    with w assms(2) False show ?thesis by (simp add: k quote_char_def)
  qed
qed

lemma atom_indent:
  assumes "clean j" and "depth j \<le> d" and "json_indent l j = json_print j"
  shows "reads_indented l (fuel j) d j"
  using parse_print [OF assms(1,2)] assms(3) by (simp add: reads_indented_def reads_def)

lemma parse_indent: "clean j \<Longrightarrow> depth j \<le> d \<Longrightarrow> reads_indented l (fuel j) d j"
proof (induction j arbitrary: d l)
  case (JArr xs)
  have d: "d \<noteq> 0" "\<forall>x \<in> set xs. depth x \<le> d - 1"
    using JArr.prems(2) depth_elements [of xs "d - 1"] by (cases d; simp)+
  then have "\<forall>x \<in> set xs. clean x \<and> reads_indented (Suc l) (fuel x) (d - 1) x"
    using JArr.IH JArr.prems(1) by (auto simp: list_all_iff)
  from parse_array_indent [OF this d(1)] show ?case by (simp add: reads_indented_def)
next
  case (JObj kvs)
  have d: "d \<noteq> 0" "\<forall>kv \<in> set kvs. depth (snd kv) \<le> d - 1"
    using JObj.prems(2) depth_members [of kvs "d - 1"] by (cases d; simp)+
  then have "\<forall>(k, x) \<in> set kvs. valid_utf8 k \<and> clean x \<and> reads_indented (Suc l) (fuel x) (d - 1) x"
    using JObj.IH JObj.prems(1) by (fastforce simp: list_all_iff)
  from parse_object_indent [OF this d(1)] show ?case by (simp add: reads_indented_def)
qed (rule atom_indent; simp)+

lemma print_length_indent: "clean j \<Longrightarrow> fuel j \<le> 2 * length (json_indent l j)"
proof (induction j arbitrary: l)
  case (JNum s)
  then show ?case using fuel_length [of "JNum s"] by simp
next
  case (JArr xs)
  have "sum_list (map (\<lambda>x. Suc (fuel x)) ys) \<le> 2 * length (join_with (separator (Suc l)) (map (json_indent (Suc l)) ys)) + 2"
    if "set ys \<subseteq> set xs" for ys
    using that
  proof (induction ys)
    case (Cons y ys)
    then have "fuel y \<le> 2 * length (json_indent (Suc l) y)" using JArr by (auto simp: list_all_iff)
    with Cons show ?case by (cases ys) auto
  qed simp
  from this [of xs] show ?case by simp
next
  case (JObj kvs)
  let ?f = "\<lambda>(k, v). quote_string k @ '': '' @ json_indent (Suc l) v"
  have "sum_list (map (\<lambda>kv. Suc (fuel (snd kv))) ys) \<le> 2 * length (join_with (separator (Suc l)) (map ?f ys)) + 2"
    if "set ys \<subseteq> set kvs" for ys
    using that
  proof (induction ys)
    case (Cons y ys)
    obtain k v where y: "y = (k, v)" by (cases y)
    with Cons have "fuel v \<le> 2 * length (json_indent (Suc l) v)" using JObj by (fastforce simp: list_all_iff)
    with Cons y show ?case by (cases ys) auto
  qed simp
  from this [of kvs] show ?case by simp
qed (simp_all add: quote_string_def)

text \<open>An indented value followed by a newline, as the compiler prints its configuration.\<close>

lemma json_indent_roundtrip:
  assumes "clean j" and "depth j \<le> max_nesting"
  shows "json_parse (json_marshal_indent j @ [newline]) = Some j"
proof -
  let ?s = "json_indent 0 j @ [newline]"
  have "fuel j \<le> 2 * length ?s + 2" using print_length_indent [OF assms(1), of 0] by simp
  then have "parse_value (2 * length ?s + 2) max_nesting ?s = Some (j, [newline])"
    using parse_indent [OF assms] stops_indentation(2) unfolding reads_indented_def by blast
  with skip_ws_indent [OF assms(1), of 0 "[newline]"] show ?thesis
    by (simp add: json_parse_def json_marshal_indent_def)
qed

end
