(* ===== verification/Apply_Samples.thy ===== *)
theory Apply_Samples
  imports Apply_Runtime Store_Properties Json_Indent Secret_Store
begin

text \<open>
  Concrete states of the daemon, which show that the properties of applying have instances: a fresh
  database with a stopped runtime, and what a first apply makes of it.
\<close>

section \<open>A first apply\<close>

text \<open>The state of a fresh database.\<close>

definition plain_input :: runtime_input where
  "plain_input =
     \<lparr>ServerSettings = default_settings t0, TLSProfile = None, DNSProviderCredentials = [], Users = [], Shares = []\<rparr>"

definition accepting_validator :: validator where
  "accepting_validator = \<lparr>Validate = (\<lambda>_. None), ValidateWithEnvironment = Some (\<lambda>_ _. None)\<rparr>"

definition plain_compiled :: compiled_config where
  "plain_compiled =
     (let body = json_marshal_indent (config_json (plain_config (default_settings t0) [])) @ [newline]
      in \<lparr>compiled_JSON = body, compiled_SHA256 = sha256_hex body, Warnings = []\<rparr>)"

lemma default_settings_valid: "ServerSettings_Validate (default_settings t0) = None"
  by (simp add: ServerSettings_Validate_def default_settings_def validPublicBasePath_def validPort_def
      path_clean_def clean_components_def clean_step_def RuntimeMode_Valid_def backslash_def t0_def domain_eval)

lemma plain_no_TLS: "TLSProfile plain_input = None"
  by (simp add: plain_input_def)

lemma plain_compiles: "Compile plain_input = Inr plain_compiled"
  by (simp add: Compile_def compile_tree_def plain_input_def default_settings_valid compile_shares_def compile_config_def
      initial_share_state_def discovery_routes_def plain_compiled_def Let_def)

lemma plain_well_formed: "well_formed_input plain_input"
  by (simp add: well_formed_input_def plain_input_def default_settings_valid)

lemma plain_has_text: "has_text plain_input"
proof -
  have "settings_text (default_settings t0)"
    using sample_text_parts(6) by (simp add: settings_text_def default_settings_def sample_settings_def)
  then show ?thesis by (simp add: has_text_def plain_input_def)
qed

lemma int_literal_text: "int_literal s \<Longrightarrow> ascii s"
  by (auto simp: int_literal_def ascii_def list_all_iff is_digit_def byte_of_le byte_of_def)

lemma port_address_text: "valid_utf8 (port_address p)"
  using int_literal_text [OF show_int_literal [of p]]
  by (intro ascii_valid_utf8) (simp add: port_address_def ascii_def byte_of_def)

lemma plain_json: "json_valid (compiled_JSON plain_compiled)"
proof -
  let ?j = "config_json (plain_config (default_settings t0) [])"
  have words: "valid_utf8 s" if "s \<in> {''admin'', ''listen'', ''127.0.0.1:2019'', ''apps'', ''http'', ''http_port'', ''https_port'',
      ''servers'', ''davdeck'', ''routes''}" for s
    using that by (elim insertE emptyE) (simp_all only:, (rule literal_utf8, simp add: byte_of_def)+)
  have "clean ?j"
    by (simp add: config_json_def plain_config_def field_def omit_none_def omit_empty_list_def sorted_object_def server_json_def
        strings_def default_settings_def words port_address_text show_int_literal)
  moreover have "depth ?j \<le> max_nesting"
    by (simp add: config_json_def plain_config_def field_def omit_none_def omit_empty_list_def sorted_object_def server_json_def
        strings_def max_nesting_def)
  ultimately have "json_parse (json_marshal_indent ?j @ [newline]) = Some ?j" by (rule json_indent_roundtrip)
  then show ?thesis by (simp add: json_valid_def plain_compiled_def Let_def)
qed

lemma fresh_snapshot: "t_settings d = [default_settings t0] \<Longrightarrow> t_tls d = [] \<Longrightarrow> t_dns d = [] \<Longrightarrow> t_users d = []
  \<Longrightarrow> t_shares d = [] \<Longrightarrow> t_permissions d = [] \<Longrightarrow> Snapshot d = Inr plain_input"
  using Snapshot_holds [OF _ plain_well_formed plain_has_text, of d]
  by (simp add: holds_state_def plain_input_def stored_form_def Snapshot_RuntimeConfigInput_def NewConfigRevisionSnapshot_def)

definition plain_text :: string where
  "plain_text = json_marshal (snapshot_json (NewConfigRevisionSnapshot plain_input))"

definition plain_hash :: string where
  "plain_hash = sha256_hex (json_marshal (revisionStateIdentityFromSnapshot (NewConfigRevisionSnapshot plain_input)))"

definition first_inputs :: apply_inputs where
  "first_inputs = \<lparr>in_ID = Some (user_ID bob), in_created = t0, in_stamp = t0\<rparr>"

definition first_revision :: config_revision where
  "first_revision =
     \<lparr>rev_ID = user_ID bob, Number = 0, rev_CreatedAt = t0, ConfigJSON = compiled_JSON plain_compiled,
      StateSnapshotJSON = plain_text, ConfigHash = compiled_SHA256 plain_compiled, StateHash = plain_hash,
      ValidationStatus = RevisionValidationValid, ApplyStatus = RevisionApplyNotApplied, AppVersion = ''1.0.0'',
      ErrorCode = [], ErrorSummary = []\<rparr>"

lemma first_revision_fields [simp]:
  "rev_ID first_revision = user_ID bob" "StateSnapshotJSON first_revision = plain_text" "StateHash first_revision = plain_hash"
  "ConfigJSON first_revision = compiled_JSON plain_compiled" "ConfigHash first_revision = compiled_SHA256 plain_compiled"
  "ValidationStatus first_revision = RevisionValidationValid" "first_revision\<lparr>ValidationStatus := RevisionValidationValid\<rparr> = first_revision"
  by (simp_all only: first_revision_def config_revision.simps)

lemma bob_ID: "user_ID bob \<noteq> []" by simp

lemma stamped_t0: "stamped t0 = Inr t0"
  by (simp add: stamped_def map_error_def NewTimestamp_def IsZero_def t0_def)

lemma plain_marshal: "MarshalConfigRevisionSnapshot plain_input = Inr plain_text"
  unfolding plain_text_def by (rule snapshot_roundtrip(1) [OF plain_well_formed plain_has_text])

lemma plain_state_hash: "HashConfigRevisionState plain_input = Inr plain_hash"
  unfolding plain_hash_def by (rule HashConfigRevisionState_ok [OF plain_well_formed])

lemma plain_parse: "ParseConfigRevisionSnapshot plain_text = Inr (Snapshot_RuntimeConfigInput (NewConfigRevisionSnapshot plain_input))"
  unfolding plain_text_def by (rule snapshot_roundtrip(2) [OF plain_well_formed plain_has_text])

lemma plain_text_not_empty: "plain_text \<noteq> []"
  by (simp add: plain_text_def json_marshal_def snapshot_json_def)

lemma plain_text_json: "json_valid plain_text"
  using plain_parse plain_text_not_empty
  by (cases "json_parse plain_text") (auto simp: json_valid_def ParseConfigRevisionSnapshot_def)

lemma plain_snapshot_hash: "HashConfigRevisionStateSnapshot plain_text = Inr plain_hash"
proof -
  let ?i = "Snapshot_RuntimeConfigInput (NewConfigRevisionSnapshot plain_input)"
  have "Snapshot_Validate (NewConfigRevisionSnapshot ?i) = None"
    by (simp add: snapshot_idempotent Snapshot_Validate_New plain_well_formed)
  then show ?thesis
    by (simp add: HashConfigRevisionStateSnapshot_def plain_parse HashConfigRevisionState_def Let_def plain_hash_def snapshot_idempotent)
qed

lemma first_stamp: "in_stamp first_inputs = t0"
  by (simp add: first_inputs_def)

lemma first_new_revision: "newRevision (daemon_service a v ''1.0.0'') first_inputs plain_compiled plain_text plain_hash
    = Inr (first_revision\<lparr>ValidationStatus := RevisionValidationPending\<rparr>)"
  unfolding newRevision_def first_inputs_def generated_def by (simp add: stamped_t0 first_revision_def)

lemma first_choice:
  assumes "t_revisions d = []"
  shows "choose_revision (daemon_service a v ''1.0.0'') first_inputs plain_input plain_compiled (d, [])
    = ((d, []), Inr (first_revision, True))"
proof -
  have "FindByIdentity h sh d = Inr None" for h sh
    using assms by (simp add: FindByIdentity_def findLegacyByIdentity_def newest_first_def query_row_def)
  then show ?thesis
    by (simp add: choose_revision_def plain_marshal plain_state_hash query_call_def first_new_revision)
qed

lemma first_revision_valid: "ConfigRevision_Validate (first_revision\<lparr>Number := 1\<rparr>) = None"
proof -
  have "ConfigRevision_Validate ((sample_revision (user_ID bob) ''{}'')\<lparr>Number := 1\<rparr>) = None"
    by (rule sample_revision_valid) simp
  then show ?thesis
    using plain_json plain_text_json
    by (simp add: ConfigRevision_Validate_def Let_def first_revision_def sample_revision_def plain_compiled_def
        plain_hash_def HashConfigJSON_def)
qed

lemma first_create:
  assumes "t_revisions d = []" and "next_number d = 1" and "active_revision_id d = None"
  shows "Revision_Create first_revision d = (d\<lparr>next_number := 2, t_revisions := [first_revision\<lparr>Number := 1\<rparr>],
     desired_revision_id := Some (user_ID bob), db_dirty := False\<rparr>, Inr (first_revision\<lparr>Number := 1\<rparr>))"
proof -
  have f: "fingerprint first_revision = Inr first_revision"
    by (simp add: fingerprint_def plain_text_not_empty plain_snapshot_hash plain_hash_def)
  have v: "ConfigRevision_Validate (first_revision\<lparr>Number := next_number d\<rparr>) = None"
    using first_revision_valid assms(2) by simp
  from create_valid [OF f v] show ?thesis using assms by simp
qed

text \<open>The runtime of the first apply: nothing runs, and every system call succeeds.\<close>

definition stopped :: managed_runtime where
  "stopped = (NewRuntimeManager None, [])"

definition serving_plain :: managed_runtime where
  "serving_plain =
     ((NewRuntimeManager None)\<lparr>command := True, done_chan := Some None, config_file := Some (compiled_JSON plain_compiled),
        process := Some \<lparr>serving = compiled_JSON plain_compiled, inherited = []\<rparr>\<rparr>, [])"

lemma clone_nothing: "cloneEnvironment [] = []"
  unfolding cloneEnvironment_def by simp

lemma stopped_ok: "settled (fst stopped)"
  by (simp add: stopped_def settled_def managed_def NewRuntimeManager_def)

lemma serving_plain_ok: "settled (fst serving_plain)"
  by (simp add: serving_plain_def settled_def managed_def NewRuntimeManager_def clone_nothing)

lemma stopped_status: "rt_Status (caddy_manager v) stopped = (stopped, RuntimeStopped)"
  by (simp add: caddy_manager_def with_calls_def Status_def StatusSnapshot_def stopped_def NewRuntimeManager_def
      runningLocked_def Let_def)

lemma serving_status: "rt_Status (caddy_manager v) serving_plain = (serving_plain, RuntimeRunning)"
  by (simp add: caddy_manager_def with_calls_def Status_def StatusSnapshot_def serving_plain_def NewRuntimeManager_def
      runningLocked_def next_calls_def calm_calls_def)

lemma first_start: "startWithEnvironment (caddy_manager accepting_validator) (compiled_JSON plain_compiled) [] stopped
    = (serving_plain, None)"
  by (simp add: startWithEnvironment_def caddy_manager_def with_calls_def StartWithEnvironment_def stopped_def serving_plain_def
      NewRuntimeManager_def runningLocked_def cancelRenewalsLocked_def validateWithEnvironment_def accepting_validator_def
      writeConfigAtomically_def next_calls_def calm_calls_def clone_nothing Let_def)

lemma first_activation: "activate_healthy (caddy_manager accepting_validator) (compiled_JSON plain_compiled) [] False pc pe stopped
    = (serving_plain, None)"
  by (simp add: activate_healthy_def activate_def start_or_reload_def stopped_status first_start serving_status)

lemma first_revision_applied: "first_revision\<lparr>Number := 1, ApplyStatus := RevisionApplyApplied, ErrorCode := [], ErrorSummary := []\<rparr>
    = first_revision\<lparr>Number := 1, ApplyStatus := RevisionApplyApplied\<rparr>"
  by (simp only: first_revision_def config_revision.simps)

definition applied_db :: "db \<Rightarrow> db" where
  "applied_db d = d\<lparr>next_number := 2, t_revisions := [(first_revision\<lparr>Number := 1\<rparr>)\<lparr>ApplyStatus := RevisionApplyApplied\<rparr>],
     desired_revision_id := Some (user_ID bob), active_revision_id := Some (user_ID bob), db_dirty := False\<rparr>"

lemma first_marked: "MarkApplied (user_ID bob) (d\<lparr>next_number := 2, t_revisions := [first_revision\<lparr>Number := 1\<rparr>],
     desired_revision_id := Some (user_ID bob), db_dirty := False\<rparr>) = (applied_db d, Inr ())"
  by (simp add: MarkApplied_def exec_def transaction_def update_valid_revision_def with_status_def set_runtime_state_def
      applied_db_def revision_exists_def applied_def first_revision_applied)

lemma first_prepare:
  assumes "Snapshot d = Inr plain_input"
  shows "prepare (daemon_service a accepting_validator ''1.0.0'') (d, []) = ((d, []), Inr (plain_input, plain_compiled, []))"
  using assms by (simp add: prepare_def query_call_def plain_compiles runtimeEnvironment_def DNSProviderService_Environment_def
      plain_no_TLS give_def validateWithEnvironment_def accepting_validator_def)

lemma first_apply:
  assumes "Snapshot d = Inr plain_input" and "t_revisions d = []" and "next_number d = 1" and "active_revision_id d = None"
  shows "Apply (daemon_service a accepting_validator ''1.0.0'') False first_inputs ((d, []), stopped)
    = (((applied_db d, []), serving_plain), (Some ((first_revision\<lparr>Number := 1\<rparr>)\<lparr>ApplyStatus := RevisionApplyApplied\<rparr>), None))"
proof -
  let ?s = "daemon_service a accepting_validator ''1.0.0''"
  let ?d = "d\<lparr>next_number := 2, t_revisions := [first_revision\<lparr>Number := 1\<rparr>],
     desired_revision_id := Some (user_ID bob), db_dirty := False\<rparr>"
  have active: "Revision_Active d = Inr None" using assms(4) by (simp add: Revision_Active_def query_row_def)
  have desired: "record_desired ?s first_revision True (d, []) = ((?d, []), Inr (first_revision\<lparr>Number := 1\<rparr>))"
    by (simp add: record_desired_def operation_call_def first_create assms)
  have "apply_to_runtime ?s (first_revision\<lparr>Number := 1\<rparr>) True None plain_compiled [] ((?d, []), stopped)
      = (((applied_db d, []), serving_plain), (Some ((first_revision\<lparr>Number := 1\<rparr>)\<lparr>ApplyStatus := RevisionApplyApplied\<rparr>), None))"
    using first_marked [of d] by (simp add: apply_to_runtime_def runtimeEnvironmentChanged_def unchanged_and_running_def first_activation
        finish_activated_def operation_call_def)
  then show ?thesis
    unfolding Apply_def apply_state_def
    by (simp add: first_prepare [OF assms(1)] first_choice [OF assms(2)] query_call_def active desired
        first_stamp stamped_t0)
qed

text \<open>The service over a fresh database, before and after its first apply.\<close>

abbreviation sample_daemon :: "(store, managed_runtime) apply_service" where
  "sample_daemon \<equiv> daemon_service plain_cipher accepting_validator ''1.0.0''"

abbreviation fresh_db :: db where
  "fresh_db \<equiv> empty_db t0"

lemma fresh_snapshot_read: "Snapshot fresh_db = Inr plain_input"
  by (rule fresh_snapshot) (simp_all add: empty_db_def)

lemma fresh_db_fields [simp]: "t_revisions fresh_db = []" "next_number fresh_db = 1" "active_revision_id fresh_db = None"
  by (simp_all add: empty_db_def)

lemmas sample_apply = first_apply [OF fresh_snapshot_read fresh_db_fields, of plain_cipher]

lemma applied_db_ok: "db_ok (applied_db fresh_db)"
proof -
  have run: "apply_state sample_daemon first_inputs ((fresh_db, []), stopped)
      = (((applied_db fresh_db, []), serving_plain), (Some ((first_revision\<lparr>Number := 1\<rparr>)\<lparr>ApplyStatus := RevisionApplyApplied\<rparr>), None))"
    using sample_apply by (simp add: Apply_def)
  have "store_ok (fresh_db, [])" "runtime_ok stopped"
    using db_ok_empty stopped_ok by (simp_all add: store_simps runtime_ok_def)
  from daemon.apply_success [OF this run] show ?thesis by (auto simp: store_simps)
qed

lemma plain_stored: "Snapshot_RuntimeConfigInput (NewConfigRevisionSnapshot plain_input) = plain_input"
  by (simp add: plain_input_def Snapshot_RuntimeConfigInput_def NewConfigRevisionSnapshot_def)

abbreviation active_revision :: config_revision where
  "active_revision \<equiv> (first_revision\<lparr>Number := 1\<rparr>)\<lparr>ApplyStatus := RevisionApplyApplied\<rparr>"

lemma active_revision_valid: "ConfigRevision_Validate active_revision = None"
proof -
  have "compiled_SHA256 plain_compiled = HashConfigJSON (compiled_JSON plain_compiled)"
    by (simp add: plain_compiled_def HashConfigJSON_def Let_def)
  then show ?thesis
    using first_revision_valid by (simp add: ConfigRevision_Validate_def Let_def first_revision_def RevisionApplyStatus_Valid_def
        RevisionApplyApplied_def RevisionApplyNotApplied_def RevisionApplyFailed_def RevisionValidationValid_def
        RevisionValidationInvalid_def HashConfigJSON_def)
qed

lemma scan_active: "scanRevision active_revision = Inr active_revision"
proof -
  have "scan_time (rev_CreatedAt active_revision) = Inr (rev_CreatedAt active_revision)"
    by (simp add: first_revision_def scan_time_storable storable_t0)
  moreover have "ParseID (rev_ID active_revision) = Inr (rev_ID active_revision)"
    by (rule ParseID_ok) (simp add: domain_eval)
  ultimately show ?thesis
    using active_revision_valid by (simp add: scanRevision_def validated_def del: first_revision_fields)
qed

lemma applied_reads:
  "Revision_Active (applied_db fresh_db) = Inr (Some active_revision)"
  "Revision_Get (user_ID bob) (applied_db fresh_db) = Inr active_revision"
  using scan_active by (simp_all add: Revision_Active_def Revision_Get_def applied_db_def query_row_def no_rows_as_def)

lemma plain_reload: "rt_Reload (caddy_manager accepting_validator) (compiled_JSON plain_compiled) serving_plain = (serving_plain, None)"
  by (simp add: caddy_manager_def with_calls_def Reload_def serving_plain_def NewRuntimeManager_def runningLocked_def
      cancelRenewalsLocked_def accepting_validator_def writeConfigAtomically_def next_calls_def calm_calls_def Let_def)

lemma sample_restore:
  "\<exists>d' r. Restore sample_daemon False t0 (user_ID bob) ((applied_db fresh_db, []), serving_plain)
     = (((d', []), serving_plain), Inr r)"
proof -
  have "\<exists>d'. RestoreState plain_input (user_ID bob) (applied_db fresh_db) = (d', Inr ())"
    by (rule RestoreState_ok [OF plain_well_formed plain_marshal, of active_revision])
       (simp_all add: applied_db_def plain_text_not_empty)
  then obtain d' where restored: "RestoreState plain_input (user_ID bob) (applied_db fresh_db) = (d', Inr ())" ..
  have prepared: "prepare_restore sample_daemon (user_ID bob) (applied_db fresh_db, [])
      = ((applied_db fresh_db, []), Inr (active_revision, plain_input, plain_compiled, []))"
    by (simp only: prepare_restore_def Apply_Get_def daemon_parts sqlite_store_fields query_call_def)
       (simp add: applied_reads [unfolded sample_ids] plain_text_not_empty plain_parse plain_stored plain_compiles runtimeEnvironment_def
          DNSProviderService_Environment_def plain_no_TLS give_def validateWithEnvironment_def accepting_validator_def)
  have activation: "activate_healthy (caddy_manager accepting_validator) (compiled_JSON plain_compiled) [] False pc pe serving_plain
      = (serving_plain, None)" for pc pe
    by (simp add: activate_healthy_def activate_def start_or_reload_def serving_status plain_reload)
  show ?thesis
    by (simp only: Restore_def prod.case if_False prepared sum.case)
       (simp add: query_call_def applied_reads runtimeEnvironmentChanged_def activation stamped_t0 operation_call_def
          restored [unfolded sample_ids] Let_def)
qed

end
