(* ===== verification/Apply_Properties.thy ===== *)
theory Apply_Properties
  imports Apply_Samples
begin

text \<open>
  The properties of applying, starting and restoring, for the service of the daemon over its database
  and its Caddy process.
\<close>

text \<open>The live process, if there is one, serves the configuration of the active revision.\<close>

definition serves_active :: "db \<Rightarrow> runtime_manager \<Rightarrow> bool" where
  "serves_active d m \<longleftrightarrow> (\<forall>p. process m = Some p \<longrightarrow>
     (\<exists>r \<in> set (t_revisions d). active_revision_id d = Some (rev_ID r) \<and> ConfigHash r = HashConfigJSON (serving p)))"

lemma in_sync_serves: "in_sync (view_of_store (d, faults)) (live_process (m, calls)) \<longleftrightarrow> serves_active d m"
proof -
  have "(\<exists>i. active_revision_id d = Some i \<and> (i, h) \<in> revision_entry ` set (t_revisions d))
      \<longleftrightarrow> (\<exists>r \<in> set (t_revisions d). active_revision_id d = Some (rev_ID r) \<and> ConfigHash r = h)" for h
    by (force simp: revision_entry_def)
  then show ?thesis
    by (cases "process m") (simp_all add: serves_active_def in_sync_def view_of_store_def db_view_def live_process_def)
qed

lemma prepare_snapshot:
  assumes "prepare (daemon_service a v version) (d, faults) = (y, Inr (input, compiled, env))"
  shows "Snapshot d = Inr input" and "Compile input = Inr compiled" and "validateWithEnvironment v (compiled_JSON compiled) env = None"
  using assms by (auto simp: prepare_def query_call_def split: prod.splits sum.splits if_splits option.splits)

section \<open>Applying\<close>

text \<open>C11. An apply that succeeds activates the desired state: the revision it returns is recorded with the hash of
  the configuration compiled from the state that was read, is the active and the desired one with nothing
  pending, and a process runs.  If the process served the active revision before, it serves the new
  one afterwards.\<close>

theorem apply_activates_desired_state:
  assumes "db_ok d" and "settled m"
    and "Apply (daemon_service a v version) locked inputs ((d, faults), (m, calls)) = (((d', faults'), (m', calls')), (x, None))"
  shows "\<exists>revision input compiled p. x = Some revision \<and> ApplyStatus revision = RevisionApplyApplied
    \<and> Snapshot d = Inr input \<and> Compile input = Inr compiled
    \<and> (rev_ID revision, compiled_SHA256 compiled) \<in> revision_entry ` set (t_revisions d')
    \<and> active_revision_id d' = Some (rev_ID revision) \<and> desired_revision_id d' = Some (rev_ID revision) \<and> \<not> db_dirty d'
    \<and> process m' = Some p \<and> db_ok d' \<and> settled m'
    \<and> (serves_active d m \<longrightarrow> serves_active d' m' \<and> HashConfigJSON (serving p) = compiled_SHA256 compiled)"
proof -
  have run: "apply_state (daemon_service a v version) inputs ((d, faults), (m, calls)) = (((d', faults'), (m', calls')), (x, None))"
    using assms(3) by (simp add: Apply_def split: if_splits)
  have ok: "store_ok (d, faults)" "runtime_ok (m, calls)" using assms(1,2) by (simp_all add: store_simps runtime_ok_def)
  obtain revision y input compiled env where r: "x = Some revision" "ApplyStatus revision = RevisionApplyApplied"
    "prepare (daemon_service a v version) (d, faults) = (y, Inr (input, compiled, env))"
    "store_ok (d', faults')" "runtime_ok (m', calls')"
    "view_active (view_of_store (d', faults')) = Some (rev_ID revision)"
    "view_desired (view_of_store (d', faults')) = Some (rev_ID revision)" "\<not> view_dirty (view_of_store (d', faults'))"
    "(rev_ID revision, compiled_SHA256 compiled) \<in> set (view_revisions (view_of_store (d', faults')))"
    "live_process (m', calls') \<noteq> None"
    "serves_active d m \<longrightarrow> serves_active d' m' \<and> HashConfigJSON (fst (the (live_process (m', calls')))) = compiled_SHA256 compiled"
    using daemon.apply_success [OF ok run] unfolding in_sync_serves by blast
  obtain p where p: "process m' = Some p" using r(10) by (auto simp: live_process_def)
  show ?thesis
    by (rule exI [of _ revision], rule exI [of _ input], rule exI [of _ compiled], rule exI [of _ p])
      (use r p prepare_snapshot(1,2) [OF r(3)] in \<open>simp add: view_of_store_def db_view_def store_simps runtime_ok_def live_process_def\<close>)
qed

theorem apply_activates_desired_state_witness:
  "\<exists>d' m' r. Apply sample_daemon False first_inputs ((fresh_db, []), stopped) = (((d', []), m', []), (Some r, None))
     \<and> active_revision_id d' = Some (rev_ID r) \<and> serves_active d' m' \<and> process m' \<noteq> None"
proof -
  have ok: "db_ok fresh_db" "settled (NewRuntimeManager None)"
    using db_ok_empty stopped_ok by (simp_all add: stopped_def)
  have idle: "serves_active fresh_db (NewRuntimeManager None)" by (simp add: serves_active_def NewRuntimeManager_def)
  obtain m' where m': "serving_plain = (m', [])" by (simp add: serving_plain_def)
  have run: "Apply sample_daemon False first_inputs ((fresh_db, []), (NewRuntimeManager None, []))
      = (((applied_db fresh_db, []), (m', [])), (Some active_revision, None))"
    using sample_apply m' by (simp add: stopped_def)
  show ?thesis
    using apply_activates_desired_state [OF ok run] idle run unfolding stopped_def by blast
qed

text \<open>C6. An apply that fails leaves the active revision and all revisions in place, and when it fails before a
  revision is recorded nothing changed: neither the revisions and the pending state nor the process.\<close>

theorem failed_apply_keeps_active_revision:
  assumes "db_ok d" and "settled m"
    and "Apply (daemon_service a v version) locked inputs ((d, faults), (m, calls)) = (((d', faults'), (m', calls')), (x, Some e))"
  shows "db_ok d' \<and> settled m' \<and> active_revision_id d' = active_revision_id d
    \<and> revision_entry ` set (t_revisions d) \<subseteq> revision_entry ` set (t_revisions d')
    \<and> (x = None \<longrightarrow> m' = m \<and> db_view d' = db_view d)"
proof (cases locked)
  case True
  then show ?thesis using assms by (simp add: Apply_def)
next
  case False
  have run: "apply_state (daemon_service a v version) inputs ((d, faults), (m, calls)) = (((d', faults'), (m', calls')), (x, Some e))"
    using assms(3) False by (simp add: Apply_def)
  have ok: "store_ok (d, faults)" "runtime_ok (m, calls)" using assms(1,2) by (simp_all add: store_simps runtime_ok_def)
  from daemon.apply_failure [OF ok run] show ?thesis
    by (auto simp: view_of_store_def store_simps runtime_ok_def db_view_def)
qed

theorem failed_apply_keeps_active_revision_witness:
  "\<exists>d' m' e. Apply sample_daemon False first_inputs ((applied_db fresh_db, [True]), serving_plain) = (((d', []), m', []), (None, Some e))
     \<and> active_revision_id d' = Some (user_ID bob) \<and> m' = fst serving_plain"
proof -
  obtain m where m: "serving_plain = (m, [])" by (simp add: serving_plain_def)
  have ok: "settled m" by (metis fst_conv m serving_plain_ok)
  have run: "Apply sample_daemon False first_inputs ((applied_db fresh_db, [True]), (m, []))
      = (((applied_db fresh_db, []), (m, [])), (None, Some databaseError))"
    by (simp add: Apply_def apply_state_def prepare_def query_call_def)
  show ?thesis
    using failed_apply_keeps_active_revision [OF applied_db_ok ok run] run unfolding m
    by (auto simp: applied_db_def)
qed

section \<open>Restoring\<close>

text \<open>What the service asks of the database before it writes anything leaves the database as it is.\<close>

lemma daemon_environment_reads:
  assumes "runtimeEnvironment (daemon_service a v version) input x = (x', r)" shows "fst x' = fst x"
  using assms readonly_DNS_Environment [of a input]
  by (cases x) (auto simp: runtimeEnvironment_def readonly_def dest!: spec [of _ "fst x"] spec [of _ "snd x"])

lemma prepare_restore_reads:
  assumes "prepare_restore (daemon_service a v version) i x = (x', r)" shows "fst x' = fst x"
proof -
  obtain y g where g: "Apply_Get (daemon_service a v version) i x = (y, g)" by fastforce
  obtain z q where q: "query_call (Revision_Get i) x = (z, q)" by fastforce
  have y: "fst y = fst x" using query_call_cases(1) [OF q] g q by (auto simp: Apply_Get_def split: sum.splits)
  show ?thesis
    using assms g y daemon_environment_reads
    by (auto simp: prepare_restore_def split: sum.splits if_splits prod.splits option.splits)
qed

lemma failed_restore_writes_nothing:
  assumes "Restore (daemon_service a v version) locked now i (x, r) = ((x', r'), Inl e)" shows "fst x' = fst x"
proof (cases locked)
  case True
  then show ?thesis using assms by (simp add: Restore_def)
next
  case False
  obtain y g where g: "prepare_restore (daemon_service a v version) i x = (y, g)" by fastforce
  obtain z q where q: "query_call Revision_Active y = (z, q)" by fastforce
  have z: "fst y = fst x" "fst z = fst x"
    using prepare_restore_reads [OF g] query_call_cases(1) [OF q] by simp_all
  have written: "fst w = fst z" if "operation_call (RestoreState input j) z = (w, Inl err)" for input j w err
    using that by (cases rule: operation_call_cases) (auto dest: RestoreState_error)
  show ?thesis
    using assms False g q z written
    by (auto simp: Restore_def Let_def split: sum.splits prod.splits option.splits)
qed

lemma unprepared_restore:
  assumes "Restore s locked now i (x, r) = ((x', r'), Inl e)" and "locked \<or> (\<exists>y err. prepare_restore s i x = (y, Inl err))"
  shows "r' = r"
  using assms by (auto simp: Restore_def split: if_splits)

text \<open>C14. On a consistent database and a settled manager, a restore either fails and leaves the whole database equal to what
  it was, or makes the revision the active and the desired one with nothing pending, and a process serves the
  configuration of that revision.  A restore that is refused because another operation runs, or because the revision is
  missing, not valid, has no usable snapshot, does not match it or is rejected by Caddy, leaves the runtime as it was too;
  one that fails later has already turned to the runtime, which may then be serving another configuration or
  nothing.\<close>

theorem restore_is_all_or_nothing:
  assumes "db_ok d" and "settled m"
    and "Restore (daemon_service a v version) locked now i ((d, faults), (m, calls)) = (((d', faults'), (m', calls')), x)"
  shows "db_ok d' \<and> settled m'
    \<and> (\<forall>e. x = Inl e \<longrightarrow> d' = d
        \<and> (locked \<or> (\<exists>y err. prepare_restore (daemon_service a v version) i (d, faults) = (y, Inl err)) \<longrightarrow> m' = m))
    \<and> (\<forall>revision. x = Inr revision \<longrightarrow> rev_ID revision = i
        \<and> db_view d' = (db_view d)\<lparr>view_desired := Some i, view_active := Some i, view_dirty := False\<rparr>
        \<and> (\<exists>p. process m' = Some p \<and> serving p = ConfigJSON revision))"
proof -
  have ok: "store_ok (d, faults)" "runtime_ok (m, calls)" using assms(1,2) by (simp_all add: store_simps runtime_ok_def)
  have "\<forall>e. x = Inl e \<longrightarrow> d' = d
      \<and> (locked \<or> (\<exists>y err. prepare_restore (daemon_service a v version) i (d, faults) = (y, Inl err)) \<longrightarrow> m' = m)"
  proof (intro allI impI)
    fix e assume "x = Inl e"
    note run = assms(3) [unfolded this]
    from failed_restore_writes_nothing [OF run] unprepared_restore [OF run]
    show "d' = d \<and> (locked \<or> (\<exists>y err. prepare_restore (daemon_service a v version) i (d, faults) = (y, Inl err)) \<longrightarrow> m' = m)"
      by (simp only: fst_conv prod.inject) blast
  qed
  with daemon.restore_result [OF ok assms(3)] show ?thesis
    by (auto simp: view_of_store_def store_simps runtime_ok_def live_process_def)
qed

theorem restore_is_all_or_nothing_witness:
  "\<exists>d' m' r p. Restore sample_daemon False t0 (user_ID bob) ((applied_db fresh_db, []), serving_plain) = (((d', []), m', []), Inr r)
     \<and> active_revision_id d' = Some (user_ID bob) \<and> process m' = Some p \<and> serving p = ConfigJSON r"
proof -
  obtain m where m: "serving_plain = (m, [])" by (simp add: serving_plain_def)
  have ok: "settled m" by (metis fst_conv m serving_plain_ok)
  obtain d' r where run: "Restore sample_daemon False t0 (user_ID bob) ((applied_db fresh_db, []), serving_plain)
      = (((d', []), serving_plain), Inr r)"
    using sample_restore by blast
  show ?thesis
    using restore_is_all_or_nothing [OF applied_db_ok ok run [unfolded m]] run unfolding m
    by (auto simp: db_view_def)
qed

section \<open>Starting and restarting\<close>

lemma start_active_reads:
  assumes "start_active (daemon_service a v version) restart inputs (x, r) = ((x', r'), err)"
    and "st_Active (sqlite_store (Some (DNSProviderService_Environment a))) x = (y, Inr (Some active))" and "fst y = fst x"
    and "ParseConfigRevisionSnapshot (StateSnapshotJSON active) = Inr input"
  shows "fst x' = fst x"
proof -
  have body: "StateSnapshotJSON active \<noteq> []" using assms(4) by (auto simp: ParseConfigRevisionSnapshot_def split: if_splits)
  obtain z e where z: "runtimeEnvironment (daemon_service a v version) input y = (z, e)" by fastforce
  have "x' = z"
    using assms(1,2,4) body z
    by (cases e) (simp_all add: start_active_def split: prod.splits option.splits)
  with daemon_environment_reads [OF z] assms(3) show ?thesis by simp
qed

text \<open>C15. When there is an active revision that the database can read and whose snapshot can be parsed, and the manager is
  settled, starting and restarting leave the whole database equal to what it was, whether they succeed or fail; when
  a restart succeeds, or a start that found no process, the process serves the configuration of the active revision.
  (Without such a revision a start is an apply, which \<open>C6\<close> and \<open>C11\<close> describe.)\<close>

theorem start_serves_active_revision:
  assumes "db_ok d" and "settled m" and "\<not> (faults \<noteq> [] \<and> hd faults)"
    and "Revision_Active d = Inr (Some active)"
    and "ParseConfigRevisionSnapshot (StateSnapshotJSON active) = Inr input"
    and "(if restart then Apply_Restart else Apply_Start) (daemon_service a v version) locked inputs ((d, faults), (m, calls))
       = (((d', faults'), (m', calls')), err)"
  shows "d' = d \<and> settled m'
    \<and> (err = None \<longrightarrow> (\<exists>p. process m' = Some p \<and> (restart \<or> process m = None \<longrightarrow> serving p = ConfigJSON active)))"
proof (cases locked)
  case True
  then show ?thesis using assms by (auto simp: Apply_Start_def Apply_Restart_def split: if_splits)
next
  case False
  have run: "start_active (daemon_service a v version) restart inputs ((d, faults), (m, calls)) = (((d', faults'), (m', calls')), err)"
    using assms(6) False by (cases restart) (simp_all add: Apply_Start_def Apply_Restart_def)
  have ok: "store_ok (d, faults)" "runtime_ok (m, calls)" using assms(1,2) by (simp_all add: store_simps runtime_ok_def)
  have active: "st_Active (sqlite_store (Some (DNSProviderService_Environment a))) (d, faults) = ((d, tl faults), Inr (Some active))"
    using assms(3,4) by (auto simp: query_call_def)
  have "d' = d" using start_active_reads [OF run active _ assms(5)] by simp
  with daemon.start_active_result [OF ok run active assms(5)] show ?thesis
    by (auto simp: runtime_ok_def live_process_def)
qed

theorem start_serves_active_revision_witness:
  "\<exists>x m' p. Apply_Start sample_daemon False first_inputs ((applied_db fresh_db, []), stopped) = ((x, m', []), None)
     \<and> process m' = Some p \<and> serving p = compiled_JSON plain_compiled"
proof -
  let ?m = "NewRuntimeManager None"
  obtain m' where m': "serving_plain = (m', [])" by (simp add: serving_plain_def)
  have parse: "ParseConfigRevisionSnapshot (StateSnapshotJSON active_revision) = Inr plain_input"
    using plain_parse plain_stored by simp
  have run: "Apply_Start sample_daemon False first_inputs ((applied_db fresh_db, []), (?m, []))
      = (((applied_db fresh_db, []), (m', [])), None)"
    using first_start [unfolded stopped_def m'] serving_status [of accepting_validator, unfolded m'] parse
    by (simp add: Apply_Start_def start_active_def query_call_def applied_reads plain_text_not_empty runtimeEnvironment_def
        DNSProviderService_Environment_def plain_no_TLS give_def activateStart_def)
  have ok: "settled ?m" "\<not> (([]::bool list) \<noteq> [] \<and> hd [])" "process ?m = None"
    using stopped_ok by (simp_all add: stopped_def NewRuntimeManager_def)
  show ?thesis
    using start_serves_active_revision [OF applied_db_ok ok(1,2) applied_reads(1) parse, of False] run ok(3)
    unfolding stopped_def by fastforce
qed

section \<open>What goes wrong\<close>

text \<open>A reload whose startup file cannot be saved reports an error, but the process already serves the new
  configuration, while the startup file keeps the old one: the next start serves what the last reload replaced.\<close>

theorem unsaved_reload_stays_live:
  assumes "settled m" and "process m = Some p" and "Validate v c = None"
    and "reload_ok calls" and "\<not> list_all id (write_calls calls)"
  shows "\<exists>m' err. Reload v calls c m = (m', Some err)
    \<and> process m' = Some (p\<lparr>serving := c\<rparr>) \<and> config_file m' = config_file m"
proof -
  have "settled (cancelRenewalsLocked m)" using assms(1) by (simp add: settled_cancel)
  then have "runningLocked (cancelRenewalsLocked m) = (cancelRenewalsLocked m, True)"
    using settled_running(2) assms(2) by simp
  then show ?thesis
    using assms(2-5) by (simp add: Reload_def Let_def writeConfigAtomically_def fail_runtime_def recordFailure_def)
qed

theorem unsaved_reload_stays_live_witness:
  "\<exists>m' err p. Reload accepting_validator (calm_calls\<lparr>write_calls := [False]\<rparr>) ''{}'' (fst serving_plain) = (m', Some err)
     \<and> process m' = Some p \<and> serving p = ''{}'' \<and> config_file m' = Some (compiled_JSON plain_compiled)"
proof -
  obtain p where p: "process (fst serving_plain) = Some p" by (simp add: serving_plain_def)
  have "config_file (fst serving_plain) = Some (compiled_JSON plain_compiled)" by (simp add: serving_plain_def)
  with unsaved_reload_stays_live [OF serving_plain_ok p, of accepting_validator "''{}''" "calm_calls\<lparr>write_calls := [False]\<rparr>"]
  show ?thesis by (fastforce simp: accepting_validator_def calm_calls_def)
qed

text \<open>The process is gone and the manager still has its command: its exit waits in the channel, or was taken.\<close>

definition crashed :: "runtime_manager \<Rightarrow> bool" where
  "crashed m \<longleftrightarrow> process m = None \<and> command m \<and> done_chan m \<noteq> None"

lemma wedged_crashed: "wedged m \<Longrightarrow> crashed m"
  by (simp add: wedged_def crashed_def)

lemma Matches_crashed: "crashed m \<Longrightarrow> EnvironmentMatches env m = (m', b) \<Longrightarrow> wedged m' \<and> (wedged m \<or> \<not> b)"
  by (auto simp: crashed_def wedged_def EnvironmentMatches_def runningLocked_def split: option.splits)

lemma Status_wedged: "wedged m \<Longrightarrow> rt_Status (caddy_manager v) (m, cs) = ((m, tl cs), RuntimeDegraded)"
  using wedged_calls(4) by (simp add: caddy_manager_def with_calls_def Status_def)

lemma activate_wedged:
  assumes "wedged m"
  shows "\<exists>m' cs' err. activate_healthy (caddy_manager v) c env restart pc pe (m, cs) = ((m', cs'), Some err) \<and> wedged m'"
proof -
  have run: "\<exists>m' cs' err. start_or_reload (caddy_manager v) c env (m, cs) = ((m', cs'), Some err) \<and> wedged m'" for cs
  proof -
    obtain m1 r where r: "Reload v (next_calls (tl cs)) c m = (m1, r)" by fastforce
    then have "wedged m1 \<and> r \<noteq> None" using wedged_calls(3) [OF assms, of v "next_calls (tl cs)" c] by simp
    then show ?thesis
      using r by (auto simp: start_or_reload_def Status_wedged [OF assms]) (simp add: caddy_manager_def with_calls_def)
  qed
  have "\<exists>m' cs' err. activate (caddy_manager v) c env restart pc pe (m, cs) = ((m', cs'), Some err) \<and> wedged m'"
    using run [of cs] run [of "tl cs"] by (cases restart) (simp_all add: activate_def Status_wedged [OF assms])
  then show ?thesis by (auto simp: activate_healthy_def)
qed

text \<open>A crash of Caddy is not repaired by an apply when the configuration needs an environment: the comparison of
  environments takes the exit of the process, after which the process is found \<open>DEGRADED\<close> and reloaded, which fails;
  and so it goes with every later apply.\<close>

theorem apply_after_crash_fails:
  assumes "crashed m" and "env \<noteq> []"
    and "apply_to_runtime (daemon_service a v version) revision created previous compiled env (x, (m, calls)) = ((x', (m', calls')), res)"
  shows "snd res \<noteq> None \<and> crashed m'"
proof -
  let ?s = "daemon_service a v version"
  obtain m1 b where c: "EnvironmentMatches env m = (m1, b)" by fastforce
  have w: "wedged m1" using Matches_crashed [OF assms(1) c] by simp
  have changed: "runtimeEnvironmentChanged ?s env (m, calls) = ((m1, tl calls), \<not> b)"
    using assms(2) c by (simp add: runtimeEnvironmentChanged_def) (simp add: caddy_manager_def with_calls_def)
  have "\<exists>cs. unchanged_and_running ?s previous compiled (\<not> b) (m1, tl calls) = ((m1, cs), False)"
    by (auto simp: unchanged_and_running_def Status_wedged [OF w] split: option.split)
  then obtain cs where u: "unchanged_and_running ?s previous compiled (\<not> b) (m1, tl calls) = ((m1, cs), False)" ..
  obtain m2 cs2 err where act: "activate_healthy (caddy_manager v) (compiled_JSON compiled) env (\<not> b) (previous_config previous)
      (currentRuntimeEnvironment (caddy_manager v) (m1, cs)) (m1, cs) = ((m2, cs2), Some err)" and m2: "wedged m2"
    using activate_wedged [OF w] by metis
  obtain y r where f: "finish_failed ?s revision created err x = (y, r)" by (metis prod.collapse)
  then have "snd r \<noteq> None" by (auto simp: finish_failed_def split: prod.splits if_splits sum.splits)
  moreover have "m' = m2" "res = r"
    using assms(3) changed u act f by (simp_all add: apply_to_runtime_def)
  ultimately show ?thesis using wedged_crashed [OF m2] by simp
qed

theorem apply_after_crash_fails_witness:
  "\<exists>y res. apply_to_runtime sample_daemon active_revision False None plain_compiled [(''K'', ''v'')]
       ((applied_db fresh_db, []), (process_exits ExitError (fst serving_plain), [])) = (y, res) \<and> snd res \<noteq> None"
proof -
  let ?m = "process_exits ExitError (fst serving_plain)"
  have m: "crashed ?m" by (simp add: crashed_def process_exits_def serving_plain_def)
  obtain x' m' calls' res where run: "apply_to_runtime sample_daemon active_revision False None plain_compiled [(''K'', ''v'')]
       ((applied_db fresh_db, []), (?m, [])) = ((x', (m', calls')), res)"
    by (metis prod.collapse)
  show ?thesis using apply_after_crash_fails [OF m _ run] run by simp
qed

text \<open>The rows of the desired state: what an apply never writes.\<close>

definition desired_tables where
  "desired_tables d = (t_users d, t_shares d, t_permissions d, t_settings d, t_tls d, t_dns d, t_secrets d)"

lemma Create_tables: "Revision_Create r d = (d', Inr c) \<Longrightarrow> desired_tables d' = desired_tables d"
  by (auto simp: Revision_Create_def Let_def transaction_Inr insert_revision_def set_runtime_state_def desired_tables_def
      split: sum.splits option.splits if_splits)

lemma SetDesired_tables: "SetDesired i d = (d', Inr u) \<Longrightarrow> desired_tables d' = desired_tables d"
  by (auto simp: SetDesired_def expect_affected_def set_runtime_state_def desired_tables_def split: sum.splits if_splits)

lemma MarkApplied_tables: "MarkApplied i d = (d', Inr u) \<Longrightarrow> desired_tables d' = desired_tables d
     \<and> desired_revision_id d' = Some i \<and> active_revision_id d' = Some i \<and> \<not> db_dirty d'"
  by (auto simp: MarkApplied_def exec_Inr transaction_Inr set_runtime_state_def update_valid_revision_def with_status_def
      desired_tables_def split: if_splits)

lemma choose_fields:
  assumes "choose_revision (daemon_service a v version) inputs input compiled (d, faults) = ((d', faults'), Inr (revision, created))"
  shows "d' = d" and "ConfigHash revision = compiled_SHA256 compiled"
proof -
  let ?st = "sqlite_store (Some (DNSProviderService_Environment a))"
  obtain body h y where f: "st_FindByIdentity ?st (compiled_SHA256 compiled) h (d, faults) = ((d', faults'), Inr y)"
    and new: "y = None \<Longrightarrow> \<exists>r. newRevision (daemon_service a v version) inputs compiled body h = Inr r
      \<and> revision = r\<lparr>ValidationStatus := RevisionValidationValid\<rparr>" and old: "\<And>q. y = Some q \<Longrightarrow> revision = q"
    using assms by (auto simp: choose_revision_def split: sum.splits option.splits prod.splits)
  then have q: "query_call (FindByIdentity (compiled_SHA256 compiled) h) (d, faults) = ((d', faults'), Inr y)" by simp
  show "d' = d" using query_call_cases(1) [OF q] by simp
  have "FindByIdentity (compiled_SHA256 compiled) h d = Inr y" using query_call_cases(2) [OF q] by simp
  then show "ConfigHash revision = compiled_SHA256 compiled"
    using new old FindByIdentity_entry
    by (cases y) (auto simp: newRevision_def split: sum.splits)
qed

lemma record_fields:
  assumes "record_desired (daemon_service a v version) revision created (d, faults) = ((d', faults'), Inr recorded)"
  shows "desired_tables d' = desired_tables d" and "ConfigHash recorded = ConfigHash revision"
proof -
  have "desired_tables d' = desired_tables d \<and> ConfigHash recorded = ConfigHash revision"
  proof (cases created)
    case True
    then have "operation_call (Revision_Create revision) (d, faults) = ((d', faults'), Inr recorded)"
      using assms by (auto simp: record_desired_def split: prod.splits sum.splits)
    then have run: "Revision_Create revision d = (d', Inr recorded)" by (simp add: operation_call_Inr)
    from Create_tables [OF run] Revision_Create_view(1) [OF run] show ?thesis by (simp add: revision_entry_def)
  next
    case False
    then have "operation_call (SetDesired (rev_ID revision)) (d, faults) = ((d', faults'), Inr ()) \<and> recorded = revision"
      using assms by (auto simp: record_desired_def split: prod.splits sum.splits)
    then show ?thesis using SetDesired_tables by (auto simp: operation_call_Inr)
  qed
  then show "desired_tables d' = desired_tables d" "ConfigHash recorded = ConfigHash revision" by blast+
qed

text \<open>An edit made while an apply runs is lost from sight: the apply read the state before the edit, and recording its
  revision clears the mark the edit left.  The edit is in the database and the state is reported as applied, with
  nothing pending.\<close>

theorem edit_during_apply_is_lost:
  assumes "Snapshot d = Inr input" and "Compile input = Inr compiled"
    and "choose_revision (daemon_service a v version) inputs input compiled (run_call edit d, faults) = ((d1, faults1), Inr (revision, created))"
    and "record_desired (daemon_service a v version) revision created (d1, faults1) = ((d2, faults2), Inr recorded)"
    and "MarkApplied (rev_ID recorded) d2 = (d3, Inr ())"
  shows "desired_tables d3 = desired_tables (run_call edit d) \<and> ConfigHash recorded = compiled_SHA256 compiled
    \<and> active_revision_id d3 = Some (rev_ID recorded) \<and> (\<exists>s. Revision_State d3 = Inr s \<and> \<not> Pending s)"
proof -
  note c = choose_fields [OF assms(3)]
  note r = record_fields [OF assms(4)]
  note m = MarkApplied_tables [OF assms(5)]
  show ?thesis using c r m nothing_pending [of d3] by simp
qed

theorem edit_during_apply_is_lost_witness:
  "\<exists>d. alice \<in> set (t_users d) \<and> active_revision_id d = Some (user_ID bob) \<and> (\<exists>s. Revision_State d = Inr s \<and> \<not> Pending s)"
proof -
  let ?e = "run_call (CreateUser alice) fresh_db"
  have e: "t_users ?e = [alice]" "t_revisions ?e = []" "next_number ?e = 1" "active_revision_id ?e = None"
    by (simp_all add: User_Create_def exec_def insert_user_def empty_db_def)
  let ?d = "?e\<lparr>next_number := 2, t_revisions := [first_revision\<lparr>Number := 1\<rparr>],
     desired_revision_id := Some (user_ID bob), db_dirty := False\<rparr>"
  have desired: "record_desired sample_daemon first_revision True (?e, []) = ((?d, []), Inr (first_revision\<lparr>Number := 1\<rparr>))"
    using first_create [OF e(2-4)] by (simp add: record_desired_def operation_call_def del: run_call.simps sample_ids)
  have marked: "MarkApplied (rev_ID (first_revision\<lparr>Number := 1\<rparr>)) ?d = (applied_db ?e, Inr ())"
    using first_marked [of ?e] by (simp del: run_call.simps)
  show ?thesis
    using edit_during_apply_is_lost [OF fresh_snapshot_read plain_compiles first_choice [OF e(2)] desired marked] e(1)
    by (intro exI [of _ "applied_db ?e"]) (simp add: desired_tables_def del: run_call.simps)
qed

end
