(* ===== verification/Tls_Service.thy ===== *)
theory Tls_Service
  imports Provider_Services Revision_Repository
begin

text \<open>
  The TLS service (\<^verbatim>\<open>app/tls_service.go\<close>) and the endpoint service (\<^verbatim>\<open>app/endpoint_service.go\<close>).  The state is the
  store beside the state of the runtime.  The resolver, the file checker and the probe are the
  system's, so they are parameters, and the optional parts the code asks for at run time are options.
\<close>

definition in_store :: "(store, 'a) service \<Rightarrow> (store \<times> 'r, 'a) service" where
  "in_store m = (\<lambda>(x, r). case m x of (y, res) \<Rightarrow> ((y, r), res))"

definition in_runtime :: "('r \<Rightarrow> 'r \<times> 'a) \<Rightarrow> (store \<times> 'r, 'a) service" where
  "in_runtime f = (\<lambda>(x, r). case f r of (r', a) \<Rightarrow> ((x, r'), Inr a))"

record 'r tls_providers =
  cert_status :: "(string \<Rightarrow> 'r \<Rightarrow> 'r \<times> certificate_status) option"
  force_renew :: "(string \<Rightarrow> 'r \<Rightarrow> 'r \<times> runtime_error option) option"
  cancel_renew :: "(string \<Rightarrow> 'r \<Rightarrow> 'r \<times> runtime_error option) option"

definition TLSService_Get :: "(store, tls_profile option) service" where
  "TLSService_Get = mapped (\<lambda>_. databaseError) (query_call TLS_Get)"

definition tls_configuration :: "string \<Rightarrow> app_error" where
  "tls_configuration message = AppError CodeTLSConfiguration message"

definition TLSService_CertificateStatus :: "'r tls_providers \<Rightarrow> tls_profile \<Rightarrow> (store \<times> 'r, certificate_status) service" where
  "TLSService_CertificateStatus providers profile =
     (case cert_status providers of
        None \<Rightarrow> give (Inr \<lparr>cs_State = ''UNKNOWN'', StoragePath = [], cs_CertificatePath = [],
           Message = ''Certificate status is not available'', validity = None, cs_LastErrorCode = [], Renewal = False\<rparr>)
      | Some f \<Rightarrow> in_runtime (f (Hostname profile)))"

text \<open>What a renewal needs the status of the certificate to be.\<close>

definition renewable :: "certificate_status \<Rightarrow> app_error option" where
  "renewable status =
     (if cs_State status = ''READY'' \<or> cs_State status = ''EXPIRED'' then None
      else if cs_State status = ''ISSUING'' then
        (if Renewal status
         then Some (AppError CodeTLSRenewalInProgress ''Certificate renewal is already in progress'')
         else Some (AppError CodeTLSCertificate ''The initial certificate issuance is already in progress''))
      else if cs_State status = ''FAILED'' \<and> Renewal status then None
      else Some (AppError CodeTLSCertificate ''The managed certificate is not available for renewal''))"

definition renewal_failure :: "string \<Rightarrow> runtime_error option \<Rightarrow> app_error option" where
  "renewal_failure message result =
     (case result of None \<Rightarrow> None
      | Some (RuntimeError _ _) \<Rightarrow> Some (AppError (runtime_code CodeCaddyReloadFailed) message)
      | Some (OtherError _) \<Rightarrow> Some (tls_configuration message))"

definition TLSService_Renew :: "'r tls_providers \<Rightarrow> (store \<times> 'r, unit) service" where
  "TLSService_Renew providers =
     and_then (in_store TLSService_Get) (\<lambda>found.
     case found of None \<Rightarrow> give (Inl (tls_configuration ''TLS is not configured''))
     | Some profile \<Rightarrow>
         if Mode profile \<noteq> TLSModeAutomatic
         then give (Inl (tls_configuration ''Only automatic public certificates can be renewed''))
         else (case (cert_status providers, force_renew providers) of
           (Some status, Some renew) \<Rightarrow>
             and_then (in_runtime (status (Hostname profile))) (\<lambda>s.
             and_then (require (renewable s)) (\<lambda>_.
             and_then (in_runtime (renew (Hostname profile))) (\<lambda>result.
             require (renewal_failure ''Unable to start certificate renewal'' result))))
         | _ \<Rightarrow> give (Inl (tls_configuration ''Certificate renewal is not available''))))"

definition TLSService_CancelRenew :: "'r tls_providers \<Rightarrow> (store \<times> 'r, unit) service" where
  "TLSService_CancelRenew providers =
     and_then (in_store TLSService_Get) (\<lambda>found.
     if found = None \<or> Mode (the found) \<noteq> TLSModeAutomatic
     then give (Inl (tls_configuration ''Automatic public TLS is not configured''))
     else (case (cert_status providers, force_renew providers) of
         (Some status, Some renew) \<Rightarrow>
           and_then (in_runtime (status (Hostname (the found)))) (\<lambda>s.
           and_then (require (fail_if (\<not> Renewal s \<or> cs_State s \<noteq> ''ISSUING'')
                       (AppError CodeTLSRenewalInProgress ''Certificate renewal is not in progress''))) (\<lambda>_.
           case cancel_renew providers of
             None \<Rightarrow> give (Inl (tls_configuration ''Certificate renewal cancellation is not available''))
           | Some cancel \<Rightarrow>
               and_then (in_runtime (cancel (Hostname (the found)))) (\<lambda>result.
               require (renewal_failure ''Unable to cancel certificate renewal'' result))))
       | _ \<Rightarrow> give (Inl (tls_configuration ''Certificate renewal is not available''))))"

record tls_update =
  upd_Mode :: tls_mode
  upd_Hostname :: string
  upd_Challenge :: tls_challenge
  upd_DNSProviderID :: "ident option"
  upd_CertificatePath :: string
  upd_PrivateKeyPath :: string

definition updated_profile :: "tls_update \<Rightarrow> ident \<Rightarrow> timestamp \<Rightarrow> timestamp \<Rightarrow> tls_profile" where
  "updated_profile u i created stamp =
     \<lparr>tls_ID = i, Mode = upd_Mode u, Hostname = upd_Hostname u, Challenge = effective_challenge (upd_Challenge u),
      DNSProviderID = upd_DNSProviderID u, CertificatePath = upd_CertificatePath u,
      PrivateKeyPath = upd_PrivateKeyPath u, tls_CreatedAt = created, tls_UpdatedAt = stamp\<rparr>"

definition validateTLSProfile :: "tls_profile \<Rightarrow> app_error option" where
  "validateTLSProfile p = from_err (\<lambda>_. tls_configuration ''TLS configuration is invalid'') (TLSProfile_Validate p)"

text \<open>\<open>providers\<close>: whether the repository of DNS credentials was set.  The code dereferences the provider's
  identifier, which a valid profile with the DNS challenge has.\<close>

definition TLSService_Update ::
  "bool \<Rightarrow> new_ID \<Rightarrow> timestamp \<Rightarrow> tls_update \<Rightarrow> (store, tls_profile) service" where
  "TLSService_Update providers fresh now u =
     and_then TLSService_Get (\<lambda>existing.
     and_then (give (stamped now)) (\<lambda>stamp.
     and_then (give (case existing of
                 Some p \<Rightarrow> Inr (updated_profile u (tls_ID p) (tls_CreatedAt p) stamp)
               | None \<Rightarrow> (case generated fresh of Inl e \<Rightarrow> Inl e | Inr i \<Rightarrow> Inr (updated_profile u i stamp stamp)))) (\<lambda>profile.
     and_then (require (validateTLSProfile profile)) (\<lambda>_.
     and_then (if Challenge profile = TLSChallengeDNS \<and> providers
               then and_then (mapped credential_error (query_call (DNS_Get (the (DNSProviderID profile))))) (\<lambda>_. give (Inr ()))
               else give (Inr ())) (\<lambda>_.
     and_then (mapped (\<lambda>_. databaseError) (operation_call (TLS_Save profile))) (\<lambda>_.
     give (Inr profile)))))))"

definition TLSService_Disable :: "(store, unit) service" where
  "TLSService_Disable = mapped (\<lambda>_. databaseError) (operation_call TLS_Delete)"

section \<open>The check of a profile\<close>

record tls_check =
  check_Name :: string
  check_OK :: bool
  check_Message :: string

text \<open>A result may come beside an error.\<close>

type_synonym tls_check_result = "(bool \<times> tls_check list) \<times> app_error option"

definition passed :: "string \<Rightarrow> string \<Rightarrow> tls_check" where
  "passed name message = \<lparr>check_Name = name, check_OK = True, check_Message = message\<rparr>"

definition failed_check :: "tls_check list \<Rightarrow> string \<Rightarrow> string \<Rightarrow> app_error \<Rightarrow> tls_check_result" where
  "failed_check checks name message e =
     ((False, checks @ [\<lparr>check_Name = name, check_OK = False, check_Message = message\<rparr>]), Some e)"

datatype tls_file_error = FileErrorKind string | OtherFileError

text \<open>The three file operations: whether each succeeded.\<close>

definition CheckPair :: "bool \<Rightarrow> bool \<Rightarrow> bool \<Rightarrow> tls_file_error option" where
  "CheckPair certificate_there key_there pair_loads = first_err
     [fail_if (\<not> certificate_there) (FileErrorKind CodeTLSCertificate),
      fail_if (\<not> key_there) (FileErrorKind CodeTLSPrivateKey),
      fail_if (\<not> pair_loads) (FileErrorKind CodeTLSConfiguration)]"

definition mapTLSFileError :: "tls_file_error \<Rightarrow> app_error" where
  "mapTLSFileError err =
     (if err = FileErrorKind CodeTLSCertificate
      then AppError CodeTLSCertificate ''TLS certificate file was not found or is not readable''
      else if err = FileErrorKind CodeTLSPrivateKey
      then AppError CodeTLSPrivateKey ''TLS private key file was not found or is not readable''
      else tls_configuration ''TLS certificate and private key could not be loaded'')"

definition check_challenge :: "bool \<Rightarrow> tls_check list \<Rightarrow> tls_profile \<Rightarrow> store \<Rightarrow> store \<times> tls_check_result" where
  "check_challenge providers checks p x =
     (case DNSProviderID p of
        None \<Rightarrow> (x, failed_check checks ''dns_challenge'' ''DNS provider credential is not configured''
                     (tls_configuration ''DNS TLS challenge has no provider''))
      | Some i \<Rightarrow>
          (case (if providers then (case query_call (DNS_Get i) x of (y, Inl e) \<Rightarrow> (y, Some e) | (y, Inr _) \<Rightarrow> (y, None))
                 else (x, None)) of
             (y, Some e) \<Rightarrow>
               (y, if e = ErrDNSProviderNotFound
                   then failed_check checks ''dns_challenge'' ''DNS provider credential was not found''
                          (AppError CodeDNSProviderNotFound ''DNS provider credential was not found'')
                   else failed_check checks ''dns_challenge'' ''DNS provider credential could not be loaded'' databaseError)
           | (y, None) \<Rightarrow>
               (y, (True, checks @ [passed ''dns_challenge'' ''Caddy will validate the hostname through DNS-01'']), None)))"

definition TLSService_Check ::
  "bool \<Rightarrow> (string \<Rightarrow> nat option) \<Rightarrow> (string \<Rightarrow> string \<Rightarrow> tls_file_error option) \<Rightarrow> store \<Rightarrow> store \<times> tls_check_result" where
  "TLSService_Check providers addresses check_pair x =
     (case TLSService_Get x of (y, Inl e) \<Rightarrow> (y, (False, []), Some e)
      | (y, Inr None) \<Rightarrow> (y, (False, []), Some (tls_configuration ''TLS is not configured''))
      | (y, Inr (Some p)) \<Rightarrow>
          let checks = [passed ''configuration'' ''TLS configuration is valid''] in
          if Mode p = TLSModeAutomatic then
            (if Challenge p = TLSChallengeDNS then check_challenge providers checks p y
             else (y, case addresses (Hostname p) of
                 Some (Suc n) \<Rightarrow> ((True, checks @ [passed ''dns'' ''Hostname resolves'']), None)
               | _ \<Rightarrow> failed_check checks ''dns'' ''Hostname did not resolve''
                        (AppError CodeDNSCheckFailed ''TLS hostname did not resolve'')))
          else if Mode p = TLSModeCustom then
            (y, case check_pair (CertificatePath p) (PrivateKeyPath p) of
                Some e \<Rightarrow> failed_check checks ''certificate_pair'' ''Certificate pair could not be loaded'' (mapTLSFileError e)
              | None \<Rightarrow> ((True, checks @ [passed ''certificate_pair'' ''Certificate and private key are readable and match'']), None))
          else if Mode p = TLSModeInternal then
            (y, (True, checks @ [passed ''trust'' ''Internal CA trust is required on clients'']), None)
          else (y, (True, checks), None))"

section \<open>Endpoints\<close>

record endpoint =
  Protocol :: string
  URL :: string
  Port :: int
  ep_State :: string
  Configured :: bool
  Active :: bool
  Copyable :: bool
  ErrorCodeText :: string
  Description :: string

definition endpointState :: "runtime_state \<Rightarrow> bool \<Rightarrow> string" where
  "endpointState state pending =
     (if pending then ''PENDING''
      else case state of
        RuntimeRunning \<Rightarrow> ''RUNNING''
      | RuntimeStopped \<Rightarrow> ''STOPPED''
      | RuntimeFailed \<Rightarrow> ''FAILED''
      | RuntimeDegraded \<Rightarrow> ''DEGRADED''
      | _ \<Rightarrow> ''UNKNOWN'')"

definition endpointURL :: "string \<Rightarrow> string \<Rightarrow> int \<Rightarrow> string \<Rightarrow> string" where
  "endpointURL scheme host port path = scheme @ ''://'' @ host @ '':'' @ show_int port @ path"

definition probed :: "bool \<Rightarrow> string \<Rightarrow> endpoint \<Rightarrow> endpoint" where
  "probed reachable description e =
     (if reachable then e
      else e\<lparr>ep_State := ''DEGRADED'', ErrorCodeText := ''ENDPOINT_UNAVAILABLE'', Description := description\<rparr>)"

definition activated :: "endpoint \<Rightarrow> endpoint" where
  "activated e =
     (let active = Configured e \<and> ep_State e = ''RUNNING'' in e\<lparr>Active := active, Copyable := active\<rparr>)"

text \<open>The two endpoints, from the state, whether it is pending and the status of the runtime.\<close>

definition endpoint_path :: "string \<Rightarrow> string" where
  "endpoint_path path = (if path = ''/'' then path else trim_suffix path ''/'' @ ''/'')"

definition endpoints ::
  "(string \<Rightarrow> int \<Rightarrow> string \<Rightarrow> string \<Rightarrow> bool) option \<Rightarrow> runtime_input \<Rightarrow> bool \<Rightarrow> runtime_state \<Rightarrow> endpoint \<times> endpoint" where
  "endpoints probe input pending state =
     (let path = endpoint_path (PublicBasePath (ServerSettings input));
          host = (case TLSProfile input of None \<Rightarrow> ''localhost'' | Some p \<Rightarrow> Hostname p);
          http_port = HTTPPort (ServerSettings input); https_port = HTTPSPort (ServerSettings input);
          http = \<lparr>Protocol = ''HTTP'', URL = endpointURL ''http'' host http_port path, Port = http_port,
                  ep_State = endpointState state pending, Configured = True, Active = False, Copyable = False,
                  ErrorCodeText = [], Description = ''HTTP listener''\<rparr>;
          https = (case TLSProfile input of
              None \<Rightarrow> \<lparr>Protocol = ''HTTPS'', URL = [], Port = https_port, ep_State = ''NOT_CONFIGURED'',
                       Configured = False, Active = False, Copyable = False, ErrorCodeText = [],
                       Description = ''HTTPS is not configured''\<rparr>
            | Some p \<Rightarrow> \<lparr>Protocol = ''HTTPS'', URL = endpointURL ''https'' (Hostname p) https_port path, Port = https_port,
                       ep_State = endpointState state pending, Configured = True, Active = False, Copyable = False,
                       ErrorCodeText = [], Description = ''HTTPS listener''\<rparr>)
      in case probe of
           Some reachable \<Rightarrow>
             if \<not> pending \<and> state = RuntimeRunning then
               (activated (probed (reachable ''http'' http_port host path) ''HTTP endpoint is not reachable'' http),
                activated (if Configured https
                  then probed (reachable ''https'' https_port host path) ''HTTPS endpoint is not reachable'' https else https))
             else (activated http, activated https)
         | None \<Rightarrow> (activated http, activated https))"

text \<open>\<open>revisions\<close> and \<open>status\<close>: the providers of the pending state and of the runtime's status, when they are set.\<close>

definition EndpointService_Endpoints ::
  "bool \<Rightarrow> ('r \<Rightarrow> 'r \<times> runtime_snapshot) option \<Rightarrow> (string \<Rightarrow> int \<Rightarrow> string \<Rightarrow> string \<Rightarrow> bool) option
     \<Rightarrow> (store \<times> 'r, endpoint \<times> endpoint) service" where
  "EndpointService_Endpoints revisions status probe =
     and_then (in_store (mapped (\<lambda>_. databaseError) (query_call Snapshot))) (\<lambda>input.
     and_then (if revisions
               then and_then (in_store (mapped (\<lambda>_. databaseError) (query_call Revision_State))) (\<lambda>s. give (Inr (Pending s)))
               else give (Inr False)) (\<lambda>pending.
     and_then (case status of None \<Rightarrow> give (Inr RuntimeUnknown)
               | Some f \<Rightarrow> and_then (in_runtime f) (\<lambda>s. give (Inr (Caddy s)))) (\<lambda>state.
     give (Inr (endpoints probe input pending state)))))"

end
