(* ===== verification/Webdav_Module.thy ===== *)
theory Webdav_Module
  imports Compiler
begin

text \<open>
  The Caddy modules behind the compiled routes (\<^verbatim>\<open>src/caddy/caddy-webdav\<close>): the discovery handler, which answers
  at the base path with the shares of the authenticated user, the file system rooted at a share's
  directory, and the WebDAV handler.  Caddy itself, the WebDAV library and the \<^verbatim>\<open>os.Root\<close> handle are
  outside: a file operation is the call it makes on the handle.
\<close>

section \<open>The discovery handler\<close>

record discovery =
  BasePath :: string
  Entries :: "(string \<times> discovery_entry list) list"

text \<open>The check of one user's entries; the state is the set of slugs seen.\<close>

fun check_entries :: "string set \<Rightarrow> discovery_entry list \<Rightarrow> string option" where
  "check_entries seen [] = None"
| "check_entries seen (e # es) =
     (if \<not> shareSlugPattern (entry_Slug e) then Some ''discovery entry slug is invalid''
      else if entry_Name e = [] then Some ''discovery entry name must not be empty''
      else if entry_Slug e \<in> seen then Some ''discovery entry slug is duplicated''
      else check_entries (insert (entry_Slug e) seen) es)"

definition check_listed_user :: "string \<times> discovery_entry list \<Rightarrow> string option" where
  "check_listed_user = (\<lambda>(username, entries).
     if username = [] \<or> contains_control username
     then Some ''discovery username must be non-empty and contain no control characters''
     else check_entries {} entries)"

definition canonical_base_path :: "string \<Rightarrow> bool" where
  "canonical_base_path p \<longleftrightarrow>
     p \<noteq> [] \<and> has_prefix p ''/'' \<and> \<not> contains_any p [CHR ''?'', CHR ''#'', backslash] \<and> path_clean p = p"

definition Discovery_Validate :: "discovery \<Rightarrow> string option" where
  "Discovery_Validate d = first_err
     (fail_if (\<not> canonical_base_path (BasePath d)) ''discovery base path must be a canonical absolute URL path''
      # map check_listed_user (Entries d))"

definition rootPath :: "discovery \<Rightarrow> string" where
  "rootPath d = (if BasePath d = ''/'' then ''/'' else trim_suffix (BasePath d) ''/'' @ ''/'')"

definition entryPath :: "discovery \<Rightarrow> string \<Rightarrow> string" where
  "entryPath d slug = rootPath d @ slug @ ''/''"

text \<open>\<^verbatim>\<open>html.EscapeString\<close> and the handler's own escaping of XML text, which works on code points.\<close>

definition html_escape :: "string \<Rightarrow> string" where
  "html_escape s = concat (map (\<lambda>c.
     if c = CHR ''&'' then ''&amp;'' else if c = CHR 0x27 then ''&#39;'' else if c = CHR ''<'' then ''&lt;''
     else if c = CHR ''>'' then ''&gt;'' else if c = CHR 0x22 then ''&#34;'' else [c]) s)"

definition xml_escape_rune :: "rune \<Rightarrow> string" where
  "xml_escape_rune r =
     (if r = 38 then ''&amp;'' else if r = 60 then ''&lt;'' else if r = 62 then ''&gt;''
      else if r = 34 then ''&quot;'' else if r = 39 then ''&apos;'' else encode_rune r)"

definition writeXMLEscaped :: "string \<Rightarrow> string" where
  "writeXMLEscaped value = concat (map xml_escape_rune (runes value))"

definition quoted :: "string \<Rightarrow> string" where
  "quoted s = [CHR 0x22] @ s @ [CHR 0x22]"

definition htmlListing :: "discovery \<Rightarrow> discovery_entry list \<Rightarrow> string" where
  "htmlListing d entries =
     ''<!doctype html><html><head><meta charset='' @ quoted ''utf-8'' @ ''><title>WebDAV</title></head><body><h1>WebDAV</h1><ul>''
     @ concat (map (\<lambda>e. ''<li><a href='' @ quoted (html_escape (entryPath d (entry_Slug e))) @ ''>''
         @ html_escape (entry_Name e) @ ''</a></li>'') entries)
     @ ''</ul></body></html>'' @ [CHR 0x0A]"

definition response_start :: string where "response_start = ''<D:response><D:href>''"
definition response_name :: string where "response_name = ''</D:href><D:propstat><D:prop><D:displayname>''"
definition response_type :: string where "response_type = ''</D:displayname><D:resourcetype>''"
definition response_end :: string where
  "response_end = ''</D:resourcetype></D:prop><D:status>HTTP/1.1 200 OK</D:status></D:propstat></D:response>''"

definition writePropfindResponse :: "string \<Rightarrow> string \<Rightarrow> bool \<Rightarrow> string" where
  "writePropfindResponse href displayName collection =
     response_start @ writeXMLEscaped href @ response_name @ writeXMLEscaped displayName @ response_type
     @ (if collection then ''<D:collection/>'' else []) @ response_end"

definition multistatus_start :: string where
  "multistatus_start = ''<?xml version='' @ quoted ''1.0'' @ '' encoding='' @ quoted ''utf-8'' @ ''?>'' @ [CHR 0x0A]
     @ ''<D:multistatus xmlns:D='' @ quoted ''DAV:'' @ ''>''"

definition multistatus_end :: string where
  "multistatus_end = ''</D:multistatus>'' @ [CHR 0x0A]"

definition propfindListing :: "discovery \<Rightarrow> discovery_entry list \<Rightarrow> bool \<Rightarrow> string" where
  "propfindListing d entries includeEntries =
     multistatus_start @ writePropfindResponse (rootPath d) ''WebDAV'' True
     @ (if includeEntries
        then concat (map (\<lambda>e. writePropfindResponse (entryPath d (entry_Slug e)) (entry_Name e) True) entries) else [])
     @ multistatus_end"

text \<open>A request: its method, the \<open>Depth\<close> header (empty when absent) and the authenticated user, if the
  authentication ran.  The answer: a status with headers and a body, or a refusal with a status.\<close>

record discovery_request =
  dr_Method :: string
  dr_Depth :: string
  dr_User :: "string option"

datatype discovery_response =
  Refused nat string
| Answered nat "(string \<times> string) list" string

definition discovery_headers :: "(string \<times> string) list" where
  "discovery_headers = [(''DAV'', ''1''), (''Allow'', ''OPTIONS, GET, HEAD, PROPFIND'')]"

definition content_headers :: "string \<Rightarrow> string \<Rightarrow> (string \<times> string) list" where
  "content_headers media body =
     discovery_headers @ [(''Content-Type'', media), (''Content-Length'', show_int (int (length body)))]"

definition propfind_depth :: "string \<Rightarrow> string" where
  "propfind_depth header = (let depth = trim_space header in if depth = [] then ''1'' else depth)"

definition Discovery_ServeHTTP :: "discovery \<Rightarrow> discovery_request \<Rightarrow> discovery_response" where
  "Discovery_ServeHTTP d r =
     (case dr_User r of
        None \<Rightarrow> Refused 403 ''WebDAV discovery authentication context is missing''
      | Some username \<Rightarrow>
          (case map_of (Entries d) username of
             None \<Rightarrow> Refused 403 ''no WebDAV shares available''
           | Some entries \<Rightarrow>
               if entries = [] then Refused 403 ''no WebDAV shares available''
               else if dr_Method r = ''OPTIONS'' then Answered 200 discovery_headers []
               else if dr_Method r = ''GET'' \<or> dr_Method r = ''HEAD'' then
                 let body = htmlListing d entries
                 in Answered 200 (content_headers ''text/html; charset=utf-8'' body)
                      (if dr_Method r = ''GET'' then body else [])
               else if dr_Method r = ''PROPFIND'' then
                 let level = propfind_depth (dr_Depth r) in
                 if level \<noteq> ''0'' \<and> level \<noteq> ''1''
                 then Refused 403 ''WebDAV discovery depth is limited to zero or one''
                 else let body = propfindListing d entries (level = ''1'')
                      in Answered 207 (content_headers ''application/xml; charset=utf-8'' body) body
               else Refused 405 ''WebDAV discovery root is read-only''))"

section \<open>The rooted file system\<close>

text \<open>The operations are calls on the \<^verbatim>\<open>os.Root\<close> handle of the share, with a name inside it.  \<open>separator\<close> is the
  platform's \<^verbatim>\<open>filepath.Separator\<close>.\<close>

datatype file_error = ErrNotExist | ErrInvalid

datatype root_call =
  RootMkdir string
| RootOpenFile string
| RootRemoveAll string
| RootRename string string
| RootStat string

definition openRootedFileSystem :: "(string \<Rightarrow> bool) \<Rightarrow> string \<Rightarrow> bool" where
  "openRootedFileSystem opens root \<longleftrightarrow> root \<noteq> [] \<and> CHR ''{'' \<notin> set root \<and> opens root"

definition resolve :: "char \<Rightarrow> string \<Rightarrow> file_error + string" where
  "resolve separator name =
     (if CHR 0x00 \<in> set name \<or> (separator \<noteq> CHR ''/'' \<and> separator \<in> set name) then Inl ErrNotExist
      else let cleaned = path_clean (''/'' @ name)
           in if cleaned = ''/'' then Inr ''.'' else Inr (trim_prefix cleaned ''/''))"

definition fs_Mkdir :: "char \<Rightarrow> string \<Rightarrow> file_error + root_call" where
  "fs_Mkdir sep name = (case resolve sep name of Inl e \<Rightarrow> Inl e | Inr resolved \<Rightarrow> Inr (RootMkdir resolved))"

definition fs_OpenFile :: "char \<Rightarrow> string \<Rightarrow> file_error + root_call" where
  "fs_OpenFile sep name = (case resolve sep name of Inl e \<Rightarrow> Inl e | Inr resolved \<Rightarrow> Inr (RootOpenFile resolved))"

definition fs_RemoveAll :: "char \<Rightarrow> string \<Rightarrow> file_error + root_call" where
  "fs_RemoveAll sep name =
     (case resolve sep name of Inl e \<Rightarrow> Inl e
      | Inr resolved \<Rightarrow> if resolved = ''.'' then Inl ErrInvalid else Inr (RootRemoveAll resolved))"

definition fs_Rename :: "char \<Rightarrow> string \<Rightarrow> string \<Rightarrow> file_error + root_call" where
  "fs_Rename sep oldName newName =
     (case resolve sep oldName of Inl e \<Rightarrow> Inl e
      | Inr oldResolved \<Rightarrow>
          (case resolve sep newName of Inl e \<Rightarrow> Inl e
           | Inr newResolved \<Rightarrow>
               if oldResolved = ''.'' \<or> newResolved = ''.'' then Inl ErrInvalid
               else Inr (RootRename oldResolved newResolved)))"

definition fs_Stat :: "char \<Rightarrow> string \<Rightarrow> file_error + root_call" where
  "fs_Stat sep name = (case resolve sep name of Inl e \<Rightarrow> Inl e | Inr resolved \<Rightarrow> Inr (RootStat resolved))"

section \<open>The WebDAV handler\<close>

text \<open>What the handler passes to the WebDAV library: the method, the \<open>Depth\<close> header and whether the writer drops
  the body.  \<open>is_dir\<close> answers a \<^verbatim>\<open>Stat\<close> on the handle: nothing there, or whether it is a directory.\<close>

record webdav_request =
  wr_Method :: string
  wr_Path :: string
  wr_Depth :: string

definition stat_is_dir :: "char \<Rightarrow> (string \<Rightarrow> bool option) \<Rightarrow> string \<Rightarrow> bool" where
  "stat_is_dir sep is_dir name =
     (case fs_Stat sep name of Inr (RootStat resolved) \<Rightarrow> is_dir resolved = Some True | _ \<Rightarrow> False)"

definition WebDAV_ServeHTTP :: "char \<Rightarrow> (string \<Rightarrow> bool option) \<Rightarrow> webdav_request \<Rightarrow> webdav_request \<times> bool" where
  "WebDAV_ServeHTTP sep is_dir r =
     (let listed = (if (wr_Method r = ''GET'' \<or> wr_Method r = ''HEAD'') \<and> stat_is_dir sep is_dir (wr_Path r)
                    then r\<lparr>wr_Method := ''PROPFIND'', wr_Depth := (if wr_Depth r = [] then ''1'' else wr_Depth r)\<rparr>
                    else r)
      in (listed, wr_Method listed = ''HEAD''))"

end
