(* ===== verification/Webdav_Properties.thy ===== *)
theory Webdav_Properties
  imports Webdav_Module Compiler_Properties Snapshot_Roundtrip
begin

text \<open>
  The properties of the Caddy modules: names stay inside the share's root, the listing of the discovery
  handler can be read back, and the modules take what the compiler emits.
\<close>

section \<open>Names in a rooted file system\<close>

definition plain_component :: "string \<Rightarrow> bool" where
  "plain_component c \<longleftrightarrow> c \<noteq> [] \<and> c \<noteq> ''.'' \<and> c \<noteq> ''..''"

lemma clean_step_plain:
  "list_all plain_component st \<Longrightarrow> list_all plain_component (clean_step True c st)"
  by (cases st) (auto simp: clean_step_def plain_component_def)

lemma clean_components_plain: "list_all plain_component (clean_components True cs)"
proof -
  have "list_all plain_component (fold (clean_step True) cs st)" if "list_all plain_component st" for st
    using that by (induction cs arbitrary: st) (simp_all add: clean_step_plain)
  from this [of "[]"] show ?thesis by (simp add: clean_components_def)
qed

lemma clean_step_set: "set (clean_step rooted c st) \<subseteq> insert c (set st)"
  by (cases st) (auto simp: clean_step_def)

lemma clean_components_set: "set (clean_components rooted cs) \<subseteq> set cs"
proof -
  have "set (fold (clean_step rooted) cs st) \<subseteq> set cs \<union> set st" for st
  proof (induction cs arbitrary: st)
    case (Cons c cs)
    from Cons [of "clean_step rooted c st"] clean_step_set [of rooted c st] show ?case by auto
  qed simp
  from this [of "[]"] show ?thesis by (simp add: clean_components_def)
qed

lemma split_on_nonempty: "split_on sep s \<noteq> []"
  by (induction s) (auto split: list.split)

lemma split_on_parts: "f \<in> set (split_on sep s) \<Longrightarrow> sep \<notin> set f \<and> set f \<subseteq> set s"
proof (induction s arbitrary: f)
  case (Cons c cs)
  show ?case
  proof (cases "c = sep")
    case True
    with Cons show ?thesis by auto
  next
    case False
    obtain g gs where g: "split_on sep cs = g # gs" using split_on_nonempty [of sep cs] by (cases "split_on sep cs") auto
    with Cons.prems False have "f = c # g \<or> f \<in> set gs" by simp
    with Cons.IH [of g] Cons.IH [of f] g False show ?thesis by auto
  qed
qed simp

lemma split_join:
  assumes "cs \<noteq> []" and "\<forall>c \<in> set cs. sep \<notin> set c"
  shows "split_on sep (join_with [sep] cs) = cs"
proof -
  have one: "split_on sep c = [c]" if "sep \<notin> set c" for c
    using that by (induction c) auto
  have app: "split_on sep (c @ sep # s) = c # split_on sep s" if "sep \<notin> set c" for c s
    using that by (induction c) auto
  show ?thesis using assms
  proof (induction cs rule: induct_list012)
    case (3 x y zs)
    then show ?case using app [of x] by simp
  qed (use one in auto)
qed

text \<open>A name inside the root: the root itself, or components none of which leads upwards.\<close>

definition confined :: "string \<Rightarrow> bool" where
  "confined r \<longleftrightarrow> r = ''.'' \<or> (\<forall>c \<in> set (split_on (CHR ''/'') r). plain_component c)"

lemma resolve_parts:
  assumes "resolve sep name = Inr r"
  defines "cs \<equiv> clean_components True (split_on (CHR ''/'') (''/'' @ name))"
  shows "r = (if cs = [] then ''.'' else join_with ''/'' cs)"
    and "\<forall>c \<in> set cs. plain_component c \<and> CHR ''/'' \<notin> set c \<and> set c \<subseteq> set (''/'' @ name)"
proof -
  show parts: "\<forall>c \<in> set cs. plain_component c \<and> CHR ''/'' \<notin> set c \<and> set c \<subseteq> set (''/'' @ name)"
    using clean_components_plain [of "split_on (CHR ''/'') (''/'' @ name)"] split_on_parts
      clean_components_set [of True "split_on (CHR ''/'') (''/'' @ name)"]
    unfolding list_all_iff cs_def by blast
  have clean: "path_clean (''/'' @ name) = ''/'' @ join_with ''/'' cs"
    unfolding cs_def by (simp add: path_clean_def Let_def has_prefix_def)
  have "join_with ''/'' cs \<noteq> []" if "cs \<noteq> []"
    using that parts by (cases cs rule: remdups_adj.cases) (auto simp: plain_component_def)
  then show "r = (if cs = [] then ''.'' else join_with ''/'' cs)"
    using assms(1) unfolding resolve_def clean by (auto simp: Let_def trim_prefix_def has_prefix_def split: if_splits)
qed

lemma resolve_confined:
  assumes "resolve sep name = Inr r"
  shows "confined r"
proof -
  let ?cs = "clean_components True (split_on (CHR ''/'') (''/'' @ name))"
  note cs = resolve_parts [OF assms]
  show ?thesis
  proof (cases "?cs = []")
    case False
    then have "split_on (CHR ''/'') r = ?cs" using split_join [OF False, of "CHR ''/''"] cs by simp
    with cs(2) show ?thesis by (simp add: confined_def)
  next
    case True
    with cs(1) show ?thesis by (simp add: confined_def)
  qed
qed

lemma set_join_with: "set (join_with sep cs) \<subseteq> set sep \<union> \<Union> (set ` set cs)"
  by (induction sep cs rule: join_with.induct) auto

lemma resolve_set:
  assumes "resolve sep name = Inr r"
  shows "set r \<subseteq> insert (CHR ''.'') (insert (CHR ''/'') (set name))" and "CHR 0x00 \<notin> set name"
    and "sep = CHR ''/'' \<or> sep \<notin> set name"
proof -
  let ?cs = "clean_components True (split_on (CHR ''/'') (''/'' @ name))"
  note cs = resolve_parts [OF assms]
  have "set (join_with ''/'' ?cs) \<subseteq> insert (CHR ''/'') (set name)"
    using set_join_with [of "''/''" ?cs] cs(2) by fastforce
  then show "set r \<subseteq> insert (CHR ''.'') (insert (CHR ''/'') (set name))" using cs(1) by auto
  show "CHR 0x00 \<notin> set name" "sep = CHR ''/'' \<or> sep \<notin> set name"
    using assms by (auto simp: resolve_def split: if_splits)
qed

lemma backslash_no_dot: "backslash \<noteq> CHR ''.''"
  by (simp add: backslash_def)

fun call_names :: "root_call \<Rightarrow> string list" where
  "call_names (RootMkdir n) = [n]"
| "call_names (RootOpenFile n) = [n]"
| "call_names (RootRemoveAll n) = [n]"
| "call_names (RootRename n m) = [n, m]"
| "call_names (RootStat n) = [n]"

definition changes_root :: "root_call \<Rightarrow> bool" where
  "changes_root c \<longleftrightarrow> (case c of RootRemoveAll n \<Rightarrow> n = ''.'' | RootRename n m \<Rightarrow> n = ''.'' \<or> m = ''.'' | _ \<Rightarrow> False)"

definition file_call :: "char \<Rightarrow> string \<Rightarrow> string \<Rightarrow> root_call \<Rightarrow> bool" where
  "file_call sep n m c \<longleftrightarrow>
     Inr c \<in> {fs_Mkdir sep n, fs_OpenFile sep n, fs_Stat sep n, fs_RemoveAll sep n, fs_Rename sep n m}"

text \<open>C8. Whatever name a client sends, the calls the file system makes on the share's handle name files inside the
  share: no component of the name is empty, a dot or two dots, no NUL and no backslash gets through on a
  platform where it separates, and the share's root itself is never removed or renamed.\<close>

theorem file_calls_stay_in_share:
  assumes "file_call sep n m c" and "sep = CHR ''/'' \<or> sep = backslash"
  shows "\<not> changes_root c \<and> (\<forall>r \<in> set (call_names c). confined r \<and> CHR 0x00 \<notin> set r \<and> (sep = backslash \<longrightarrow> sep \<notin> set r))"
proof -
  have name: "confined r \<and> CHR 0x00 \<notin> set r \<and> (sep = backslash \<longrightarrow> sep \<notin> set r)" if "resolve sep k = Inr r" for k r
    using resolve_confined [OF that] resolve_set [OF that] backslash_no_dot
    by (auto simp: backslash_def)
  show ?thesis
    using assms(1) name backslash_no_dot
    by (auto simp: file_call_def fs_Mkdir_def fs_OpenFile_def fs_Stat_def fs_RemoveAll_def fs_Rename_def changes_root_def
        split: sum.splits if_splits)
qed

theorem file_calls_stay_in_share_witness:
  "file_call (CHR ''/'') ''/../../a//./b/../c'' [] (RootOpenFile ''a/c'') \<and> confined ''a/c''"
proof -
  have call: "file_call (CHR ''/'') ''/../../a//./b/../c'' [] (RootOpenFile ''a/c'')"
    by (simp add: file_call_def fs_OpenFile_def resolve_def path_clean_def has_prefix_def clean_components_def clean_step_def
        trim_prefix_def)
  show ?thesis using file_calls_stay_in_share [OF call] call by simp
qed

section \<open>Reading the listing back\<close>

text \<open>A reader of XML text: up to the next tag, with the five entities of the standard.\<close>

definition strip :: "string \<Rightarrow> string \<Rightarrow> string option" where
  "strip p s = (if has_prefix s p then Some (drop (length p) s) else None)"

definition entities :: "(string \<times> char) list" where
  "entities = [(''amp;'', CHR ''&''), (''lt;'', CHR ''<''), (''gt;'', CHR ''>''), (''quot;'', CHR 0x22), (''apos;'', CHR 0x27)]"

definition read_entity :: "string \<Rightarrow> char \<times> string" where
  "read_entity s =
     (case find (\<lambda>(name, c). has_prefix s name) entities of
        None \<Rightarrow> (CHR ''&'', s) | Some (name, c) \<Rightarrow> (c, drop (length name) s))"

function read_text :: "string \<Rightarrow> string \<times> string" where
  "read_text [] = ([], [])"
| "read_text (c # cs) =
     (if c = CHR ''<'' then ([], c # cs)
      else let (d, rest) = (if c = CHR ''&'' then read_entity cs else (c, cs));
               (t, rest') = read_text rest
           in (d # t, rest'))"
  by pat_completeness auto
termination
  by (relation "measure length") (auto simp: read_entity_def split: if_splits option.splits)

definition read_response :: "string \<Rightarrow> ((string \<times> string) \<times> string) option" where
  "read_response s =
     Option.bind (strip response_start s) (\<lambda>s1. case read_text s1 of (href, s2) \<Rightarrow>
     Option.bind (strip response_name s2) (\<lambda>s3. case read_text s3 of (name, s4) \<Rightarrow>
     Option.bind (strip (response_type @ ''<D:collection/>'' @ response_end) s4) (\<lambda>s5. Some ((href, name), s5))))"

fun read_responses :: "nat \<Rightarrow> string \<Rightarrow> (string \<times> string) list option" where
  "read_responses 0 s = None"
| "read_responses (Suc n) s =
     (if s = multistatus_end then Some []
      else Option.bind (read_response s) (\<lambda>(e, rest). map_option (\<lambda>es. e # es) (read_responses n rest)))"

definition read_multistatus :: "string \<Rightarrow> (string \<times> string) list option" where
  "read_multistatus s = Option.bind (strip multistatus_start s) (\<lambda>s1. read_responses (Suc (length s1)) s1)"

lemma strip_append [simp]: "strip p (p @ s) = Some s"
  by (simp add: strip_def has_prefix_def)

lemma read_plain:
  "\<forall>c \<in> set u. c \<noteq> CHR ''<'' \<and> c \<noteq> CHR ''&'' \<Longrightarrow> read_text (u @ t) = (u @ fst (read_text t), snd (read_text t))"
  by (induction u) (simp_all add: split_beta)

lemma encode_plain:
  assumes "r \<noteq> 38" and "r \<noteq> 60" and "c \<in> set (encode_rune r)"
  shows "c \<noteq> CHR ''<'' \<and> c \<noteq> CHR ''&''"
proof (cases "r < 128")
  case True
  then have "c = char_of r" using assms(3) by (simp add: encode_rune_def)
  then have "byte_of c = r" using True by (simp add: byte_of_def)
  then show ?thesis using assms(1,2) by (auto simp: byte_of_Char)
next
  case False
  then have "128 \<le> byte_of c"
    using assms(3) by (auto simp: encode_rune_def Let_def rune_error_def byte_of_def split: if_splits)
  then show ?thesis by (auto simp: byte_of_Char)
qed

lemma read_rune: "read_text (xml_escape_rune r @ t) = (encode_rune r @ fst (read_text t), snd (read_text t))"
proof (cases "r \<in> {34, 38, 39, 60, 62}")
  case True
  have e: "encode_rune 34 = [CHR 0x22]" "encode_rune 38 = ''&''" "encode_rune 39 = [CHR 0x27]" "encode_rune 60 = ''<''"
    "encode_rune 62 = ''>''"
    by (simp_all add: encode_rune_def char_of_eq_byte byte_of_Char)
  from True consider "r = 34" | "r = 38" | "r = 39" | "r = 60" | "r = 62" by blast
  then show ?thesis
    by cases (simp_all add: xml_escape_rune_def read_entity_def entities_def has_prefix_def split_beta e)
next
  case False
  then have "\<forall>c \<in> set (encode_rune r). c \<noteq> CHR ''<'' \<and> c \<noteq> CHR ''&''" using encode_plain by auto
  from read_plain [OF this] False show ?thesis by (simp add: xml_escape_rune_def)
qed

lemma utf8_runes: "valid_utf8 s \<Longrightarrow> concat (map encode_rune (runes s)) = s"
proof (induction s rule: chunks.induct)
  case (2 c cs)
  obtain r n where d: "decode_rune c cs = (r, n)" by fastforce
  from 2(2) d have v: "\<not> (r = rune_error \<and> length (c # take n cs) = 1)" "valid_utf8 (drop n cs)"
    by (simp_all add: valid_utf8_def)
  have "encode_rune r = c # take n cs" by (rule encode_decode(1) [OF d bad_byte_chunk [OF d v(1)]])
  with 2(1) v(2) d show ?case by (simp add: runes_def)
qed (simp add: runes_def)

lemma read_escaped:
  assumes "valid_utf8 v"
  shows "read_text (writeXMLEscaped v @ CHR ''<'' # t) = (v, CHR ''<'' # t)"
proof -
  have "read_text (concat (map xml_escape_rune rs) @ CHR ''<'' # t) = (concat (map encode_rune rs), CHR ''<'' # t)" for rs
    by (induction rs) (simp_all add: read_rune)
  then show ?thesis using utf8_runes [OF assms] by (simp add: writeXMLEscaped_def)
qed

lemma read_escaped_before:
  assumes "valid_utf8 v" and "hd rest = CHR ''<''" and "rest \<noteq> []"
  shows "read_text (writeXMLEscaped v @ rest) = (v, rest)"
  using read_escaped [OF assms(1), of "tl rest"] assms(2,3) by (cases rest) simp_all

lemma read_response_written:
  assumes "valid_utf8 href" and "valid_utf8 name"
  shows "read_response (writePropfindResponse href name True @ t) = Some ((href, name), t)"
proof -
  have "read_text (writeXMLEscaped href @ response_name @ u) = (href, response_name @ u)" for u
    by (rule read_escaped_before [OF assms(1)]) (simp_all add: response_name_def)
  moreover have "read_text (writeXMLEscaped name @ response_type @ u) = (name, response_type @ u)" for u
    by (rule read_escaped_before [OF assms(2)]) (simp_all add: response_type_def)
  moreover have "strip (response_type @ ''<D:collection/>'' @ response_end) (response_type @ ''<D:collection/>'' @ response_end @ t) = Some t"
    using strip_append [of "response_type @ ''<D:collection/>'' @ response_end" t] by (simp only: append_assoc)
  ultimately show ?thesis
    by (simp only: read_response_def writePropfindResponse_def append_assoc strip_append Option.bind.bind_lunit prod.case if_True)
qed

lemma response_not_end: "writePropfindResponse href name True @ t \<noteq> multistatus_end"
  by (simp add: writePropfindResponse_def response_start_def multistatus_end_def)

lemma read_responses_written:
  assumes "\<forall>e \<in> set es. valid_utf8 (f e) \<and> valid_utf8 (g e)" and "length es < n"
  shows "read_responses n (concat (map (\<lambda>e. writePropfindResponse (f e) (g e) True) es) @ multistatus_end)
    = Some (map (\<lambda>e. (f e, g e)) es)"
  using assms
proof (induction es arbitrary: n)
  case Nil
  then show ?case by (cases n) simp_all
next
  case (Cons e es)
  then obtain k where n: "n = Suc k" "length es < k" by (cases n) auto
  have v: "valid_utf8 (f e)" "valid_utf8 (g e)" using Cons.prems(1) by simp_all
  from Cons.IH [of k] Cons.prems(1) n show ?case
    by (simp add: response_not_end read_response_written [OF v])
qed

lemma response_length: "length es < length (concat (map (\<lambda>e. writePropfindResponse (f e) (g e) True) es) @ multistatus_end)"
  by (induction es) (simp_all add: multistatus_end_def writePropfindResponse_def response_start_def)

lemma propfind_reads_back:
  assumes "valid_utf8 (rootPath d)" and "\<forall>e \<in> set es. valid_utf8 (entryPath d (entry_Slug e)) \<and> valid_utf8 (entry_Name e)"
  shows "read_multistatus (propfindListing d es deep)
    = Some ((rootPath d, ''WebDAV'') # (if deep then map (\<lambda>e. (entryPath d (entry_Slug e), entry_Name e)) es else []))"
proof -
  let ?all = "(rootPath d, ''WebDAV'') # (if deep then map (\<lambda>e. (entryPath d (entry_Slug e), entry_Name e)) es else [])"
  let ?body = "concat (map (\<lambda>e. writePropfindResponse (fst e) (snd e) True) ?all) @ multistatus_end"
  have w: "valid_utf8 ''WebDAV''" by (simp add: valid_utf8_def decode_rune_def lead_info_def lead_bits_def byte_of_Char rune_error_def)
  have "propfindListing d es deep = multistatus_start @ ?body" by (simp add: propfindListing_def comp_def)
  moreover have "read_responses (Suc (length ?body)) ?body = Some (map (\<lambda>e. (fst e, snd e)) ?all)"
    using assms w response_length [of ?all fst snd] by (intro read_responses_written) (auto simp del: length_append)
  ultimately show ?thesis
    by (simp only: read_multistatus_def strip_append Option.bind.bind_lunit prod.collapse list.map_ident)
qed

section \<open>The modules and the compiler\<close>

lemma utf8_append: "valid_utf8 a \<Longrightarrow> valid_utf8 b \<Longrightarrow> valid_utf8 (a @ b)"
proof (induction a rule: chunks.induct)
  case (2 c cs)
  obtain r n where d: "decode_rune c cs = (r, n)" by fastforce
  from 2(2) d have v: "\<not> (r = rune_error \<and> length (c # take n cs) = 1)" "valid_utf8 (drop n cs)"
    by (simp_all add: valid_utf8_def)
  have ok: "\<not> bad_byte c cs" by (rule bad_byte_chunk [OF d v(1)])
  have n: "length (take n cs) = n" using decode_length [OF d] by simp
  have "decode_rune c (cs @ b) = (r, n)"
    using decode_rune_take [OF d ok, of "drop n cs @ b"] by (metis append.assoc append_take_drop_id)
  moreover have "take n (cs @ b) = take n cs" "drop n (cs @ b) = drop n cs @ b" using n by simp_all
  ultimately show ?case using 2(1) 2(3) v d by (simp add: valid_utf8_def)
qed simp

lemma split_on_covers: "set s \<subseteq> insert sep (\<Union> (set ` set (split_on sep s)))"
proof (induction s)
  case (Cons c cs)
  obtain g gs where "split_on sep cs = g # gs" using split_on_nonempty [of sep cs] by (cases "split_on sep cs") auto
  with Cons show ?case by auto
qed simp

lemma slug_utf8:
  assumes "shareSlugPattern s"
  shows "valid_utf8 s"
proof -
  have "c = CHR ''-'' \<or> slug_char c" if "c \<in> set s" for c
    using split_on_covers [of s "CHR ''-''"] assms that by (fastforce simp: shareSlugPattern_def list_all_iff)
  then have "byte_of c < 128" if "c \<in> set s" for c
    using that by (fastforce simp: slug_char_def byte_of_le byte_of_Char)
  then have "ascii s" by (simp add: ascii_def list_all_iff)
  then show ?thesis by (rule ascii_valid_utf8)
qed

lemma last_join:
  "cs \<noteq> [] \<Longrightarrow> \<forall>c \<in> set cs. c \<noteq> [] \<Longrightarrow> join_with sep cs \<noteq> [] \<and> last (join_with sep cs) = last (last cs)"
  by (induction sep cs rule: join_with.induct) auto

lemma canonical_no_slash:
  assumes "path_clean b = b" and "has_prefix b ''/''" and "b \<noteq> ''/''"
  shows "trim_suffix b ''/'' = b"
proof -
  let ?cs = "clean_components True (split_on (CHR ''/'') b)"
  have b: "b = ''/'' @ join_with ''/'' ?cs" using assms(1,2) by (simp add: path_clean_def Let_def)
  then have ne: "?cs \<noteq> []" using assms(3) by (metis append.right_neutral join_with.simps(1))
  have plain: "\<forall>c \<in> set ?cs. c \<noteq> [] \<and> CHR ''/'' \<notin> set c"
    using clean_components_plain [of "split_on (CHR ''/'') b"] clean_components_set [of True "split_on (CHR ''/'') b"] split_on_parts
    unfolding list_all_iff plain_component_def by blast
  with last_join [OF ne, of "''/''"] have "last (join_with ''/'' ?cs) = last (last ?cs)" "join_with ''/'' ?cs \<noteq> []" by auto
  moreover have "last (last ?cs) \<noteq> CHR ''/''" using plain ne by (metis last_in_set)
  ultimately have "last b \<noteq> CHR ''/''" using b by (metis last_appendR)
  moreover have "has_suffix b ''/'' \<Longrightarrow> last b = CHR ''/''"
    by (metis append_take_drop_id has_suffix_def last_appendR last_ConsL list.distinct(1))
  ultimately show ?thesis by (auto simp: trim_suffix_def)
qed

lemma discovery_paths:
  assumes "validPublicBasePath b"
  shows "canonical_base_path (discovery_root b)"
    and "rootPath \<lparr>BasePath = discovery_root b, Entries = es\<rparr> = (if b = ''/'' then b else b @ ''/'')"
    and "entryPath \<lparr>BasePath = discovery_root b, Entries = es\<rparr> slug = joinPublicPath b slug @ ''/''"
proof -
  have b: "b \<noteq> []" "path_clean b = b" "has_prefix b ''/''" "\<not> contains_any b [CHR ''?'', CHR ''#'', backslash]"
    using assms by (simp_all add: validPublicBasePath_def)
  have root: "discovery_root b = b"
    using canonical_no_slash [OF b(2,3)] b(1)
    by (cases "b = ''/''") (simp_all add: discovery_root_def trim_suffix_def has_suffix_def)
  then show "canonical_base_path (discovery_root b)" using b by (simp add: canonical_base_path_def)
  show paths: "rootPath \<lparr>BasePath = discovery_root b, Entries = es\<rparr> = (if b = ''/'' then b else b @ ''/'')"
    using canonical_no_slash [OF b(2,3)] by (simp add: rootPath_def root)
  show "entryPath \<lparr>BasePath = discovery_root b, Entries = es\<rparr> slug = joinPublicPath b slug @ ''/''"
    unfolding entryPath_def paths using canonical_no_slash [OF b(2,3)] by (simp add: joinPublicPath_def)
qed

lemma compiled_entries:
  assumes "compile_tree input = Inr (cfg, ws)" and "r \<in> set (all_routes cfg)"
    and "Handle r = [AuthenticationHandler accounts, DiscoveryHandler base entries]"
  shows "base = discovery_root (PublicBasePath (ServerSettings input))"
    and "map_of entries n = (if can_see input n then Some (seen_entries input n) else None)"
    and "(n, es) \<in> set entries \<Longrightarrow> can_see input n \<and> es = seen_entries input n"
proof -
  note c = discovery_route_content [OF assms]
  then show "base = discovery_root (PublicBasePath (ServerSettings input))" by blast
  have m: "map_of entries n = (if can_see input n then Some (seen_entries input n) else None)" for n using c by blast
  then show "map_of entries n = (if can_see input n then Some (seen_entries input n) else None)" .
  show "can_see input n \<and> es = seen_entries input n" if "(n, es) \<in> set entries"
  proof -
    have "distinct (map fst entries)" using c by blast
    then have "map_of entries n = Some es" using that by (rule map_of_is_SomeI)
    with m [of n] show ?thesis by (cases "can_see input n") simp_all
  qed
qed

lemma compiled_valid:
  assumes "compile_tree input = Inr r"
  shows "validPublicBasePath (PublicBasePath (ServerSettings input))"
    and "u \<in> set (Users input) \<Longrightarrow> Username u \<noteq> [] \<and> \<not> contains_control (Username u)"
    and "item \<in> set (Shares input) \<Longrightarrow> share_Enabled (Share item) \<Longrightarrow> shareSlugPattern (Slug (Share item)) \<and> share_Name (Share item) \<noteq> []"
  using assms by (auto simp: compile_tree_Inr compilable_def ServerSettings_Validate_def User_Validate_def share_compiles_def
      Share_Validate_def)

lemma seen_entry:
  assumes "compile_tree input = Inr r" and "e \<in> set (seen_entries input n)"
  shows "shareSlugPattern (entry_Slug e) \<and> entry_Name e \<noteq> []"
    and "\<exists>item \<in> set (Shares input). can_read input n item \<and> e = share_entry item"
proof -
  show item: "\<exists>item \<in> set (Shares input). can_read input n item \<and> e = share_entry item"
    using assms(2) by (auto simp: seen_entries_def)
  then show "shareSlugPattern (entry_Slug e) \<and> entry_Name e \<noteq> []"
    using compiled_valid(3) [OF assms(1)] by (auto simp: share_entry_def can_read_def)
qed

lemma check_entries_None:
  "check_entries seen es = None \<longleftrightarrow> (\<forall>e \<in> set es. shareSlugPattern (entry_Slug e) \<and> entry_Name e \<noteq> [])
     \<and> distinct (map entry_Slug es) \<and> seen \<inter> entry_Slug ` set es = {}"
  by (induction es arbitrary: seen) auto

lemma seen_slugs_distinct:
  assumes "compile_tree input = Inr r"
  shows "distinct (map entry_Slug (seen_entries input n))"
proof -
  have "distinct (map entry_Slug (map share_entry (filter (can_read input n) (Shares input))))"
    using distinct_map_filter [OF distinct_slugs [OF assms]] by (simp add: comp_def share_entry_def)
  moreover have "distinct (map entry_Slug (sort_key entry_key xs)) = distinct (map entry_Slug xs)" for xs
    by (simp add: distinct_map)
  ultimately show ?thesis by (simp only: seen_entries_def)
qed

lemma sample_discovery:
  obtains cfg ws r accounts base entries where "compile_tree sample_input = Inr (cfg, ws)" "r \<in> set (all_routes cfg)"
    "Handle r = [AuthenticationHandler accounts, DiscoveryHandler base entries]" "can_see sample_input ''bob''"
proof -
  obtain cfg ws where c: "compile_tree sample_input = Inr (cfg, ws)" using sample_compiles by blast
  have see: "can_see sample_input ''bob''" using sample_can_read by (auto simp: can_see_def can_read_def)
  with discovery_route_exists [OF c] obtain r accounts base entries where "r \<in> set (all_routes cfg)"
    "Handle r = [AuthenticationHandler accounts, DiscoveryHandler base entries]" by blast
  with c see show thesis by (intro that)
qed

text \<open>C21. The Caddy modules take what the compiler emits: every discovery handler passes the module's own validation, and
  every WebDAV handler's root can be opened exactly when its directory can and its path has no brace.\<close>

theorem modules_accept_compiled_configuration:
  assumes "compile_tree input = Inr (cfg, ws)" and "r \<in> set (all_routes cfg)"
  shows "(\<forall>accounts base entries. Handle r = [AuthenticationHandler accounts, DiscoveryHandler base entries]
      \<longrightarrow> Discovery_Validate \<lparr>BasePath = base, Entries = entries\<rparr> = None)
    \<and> (\<forall>root prefix. WebDAVHandler root prefix \<in> set (Handle r)
      \<longrightarrow> (openRootedFileSystem opens root \<longleftrightarrow> opens root \<and> CHR ''{'' \<notin> set root))"
proof (intro conjI allI impI)
  fix accounts base entries
  assume h: "Handle r = [AuthenticationHandler accounts, DiscoveryHandler base entries]"
  note c = compiled_entries [OF assms h]
  have "check_listed_user x = None" if x: "x \<in> set entries" for x
  proof -
    obtain n es where n: "x = (n, es)" by fastforce
    note seen = c(3) [OF x [unfolded n]]
    then obtain item u where "u \<in> set (Users input)" "Username u = n" by (auto simp: can_see_def can_read_def)
    then show ?thesis
      using compiled_valid(2) [OF assms(1)] seen seen_entry(1) [OF assms(1)] seen_slugs_distinct [OF assms(1), of n]
      by (auto simp: check_listed_user_def n check_entries_None)
  qed
  then show "Discovery_Validate \<lparr>BasePath = base, Entries = entries\<rparr> = None"
    using discovery_paths(1) [OF compiled_valid(1) [OF assms(1)]]
    by (auto simp: Discovery_Validate_def c(1) first_err_None_iff)
next
  fix root prefix
  assume h: "WebDAVHandler root prefix \<in> set (Handle r)"
  then obtain item where item: "item \<in> set (Shares input)" "root = Path (Share item)" "share_Enabled (Share item)"
    using webdav_routes [OF assms(1), of r root prefix] assms(2) share_routes_iff by blast
  then have "root \<noteq> []"
    using assms(1) by (auto simp: compile_tree_Inr compilable_def share_compiles_def Share_Validate_def IsAbsolutePath_def)
  then show "openRootedFileSystem opens root \<longleftrightarrow> opens root \<and> CHR ''{'' \<notin> set root"
    by (auto simp: openRootedFileSystem_def)
qed

theorem modules_accept_compiled_configuration_witness:
  "\<exists>cfg ws r accounts base entries s. compile_tree sample_input = Inr (cfg, ws) \<and> r \<in> set (all_routes cfg)
     \<and> Handle r = [AuthenticationHandler accounts, DiscoveryHandler base entries]
     \<and> Discovery_Validate \<lparr>BasePath = base, Entries = entries\<rparr> = None
     \<and> s \<in> set (all_routes cfg) \<and> WebDAVHandler ''/srv/docs'' ''/dav/docs'' \<in> set (Handle s)
     \<and> openRootedFileSystem (\<lambda>path. path = ''/srv/docs'') ''/srv/docs''"
proof -
  obtain cfg ws r accounts base entries where d: "compile_tree sample_input = Inr (cfg, ws)" "r \<in> set (all_routes cfg)"
    "Handle r = [AuthenticationHandler accounts, DiscoveryHandler base entries]" "can_see sample_input ''bob''" by (rule sample_discovery)
  have "admits cfg [] (user_account alice) ''/srv/docs'' ''/dav/docs''"
    unfolding admits_permitted [OF d(1)] using sample_permitted(1) by simp
  then obtain s where s: "s \<in> set (all_routes cfg)" "WebDAVHandler ''/srv/docs'' ''/dav/docs'' \<in> set (Handle s)"
    unfolding admits_def by (metis list.set_intros)
  have "Discovery_Validate \<lparr>BasePath = base, Entries = entries\<rparr> = None"
    using modules_accept_compiled_configuration [OF d(1,2)] d(3) by blast
  moreover have "openRootedFileSystem (\<lambda>path. path = ''/srv/docs'') ''/srv/docs''"
    using modules_accept_compiled_configuration [OF d(1) s(1), of "\<lambda>path. path = ''/srv/docs''"] s(2) by auto
  ultimately show ?thesis using d s by blast
qed

text \<open>A share path with a brace: the domain accepts it, the compiler emits it, the module refuses it.\<close>

lemma braced_path_is_refused:
  "Share_Validate (docs\<lparr>Path := ''/srv/{a}''\<rparr>) = None" "\<not> openRootedFileSystem opens ''/srv/{a}''"
  by (simp_all add: Share_Validate_def sample_shares shareSlugPattern_def slug_char_def IsAbsolutePath_def
      openRootedFileSystem_def path_clean_def clean_components_def clean_step_def Let_def domain_eval)

text \<open>C36. The listing a client gets is the list of shares it may read.  A PROPFIND of depth one, by a user the
  authentication let through, at the discovery root of a compiled configuration, is answered with a text in which an XML reader finds
  the root and then one collection per share the user may read, under the path of the share's routes and
  with its name, however the names are written; a user who may read nothing is refused.\<close>

theorem listing_shows_readable_shares:
  assumes "compile_tree input = Inr (cfg, ws)" and "r \<in> set (all_routes cfg)"
    and "Handle r = [AuthenticationHandler accounts, DiscoveryHandler base entries]"
    and "valid_utf8 (PublicBasePath (ServerSettings input))"
    and "\<forall>item \<in> set (Shares input). valid_utf8 (share_Name (Share item))"
    and "dr_User request = Some n" and "dr_Method request = ''PROPFIND''" and "propfind_depth (dr_Depth request) = ''1''"
  shows "if can_see input n
    then \<exists>headers body root listing.
      Discovery_ServeHTTP \<lparr>BasePath = base, Entries = entries\<rparr> request = Answered 207 headers body
      \<and> read_multistatus body = Some ((root, ''WebDAV'') # listing) \<and> distinct (map fst listing)
      \<and> set listing = (\<lambda>item. (share_prefix (ServerSettings input) item @ ''/'', share_Name (Share item)))
          ` {item \<in> set (Shares input). can_read input n item}
    else \<exists>message. Discovery_ServeHTTP \<lparr>BasePath = base, Entries = entries\<rparr> request = Refused 403 message"
proof -
  let ?d = "\<lparr>BasePath = base, Entries = entries\<rparr>" and ?es = "seen_entries input n"
  let ?listing = "map (\<lambda>e. (entryPath ?d (entry_Slug e), entry_Name e)) ?es"
  note c = compiled_entries [OF assms(1-3)]
  note valid = compiled_valid(1) [OF assms(1)]
  have paths: "rootPath ?d = (let b = PublicBasePath (ServerSettings input) in if b = ''/'' then b else b @ ''/'')"
    "entryPath ?d slug = joinPublicPath (PublicBasePath (ServerSettings input)) slug @ ''/''" for slug
    unfolding c(1) Let_def by (rule discovery_paths(2) [OF valid], rule discovery_paths(3) [OF valid])
  have slash: "valid_utf8 ''/''" by (rule ascii_valid_utf8) (simp add: ascii_def byte_of_Char)
  have root: "valid_utf8 (rootPath ?d)" using assms(4) slash by (simp add: paths(1) utf8_append Let_def)
  have names: "valid_utf8 (entryPath ?d (entry_Slug e)) \<and> valid_utf8 (entry_Name e)" if "e \<in> set ?es" for e
    using seen_entry [OF assms(1) that] assms(5) root slash
    by (auto simp: entryPath_def share_entry_def utf8_append slug_utf8)
  have served: "Discovery_ServeHTTP ?d request =
      (if can_see input n then Answered 207 (content_headers ''application/xml; charset=utf-8'' (propfindListing ?d ?es True)) (propfindListing ?d ?es True)
       else Refused 403 ''no WebDAV shares available'')"
  proof -
    have "can_see input n \<Longrightarrow> set ?es \<noteq> {}" by (auto simp: can_see_def seen_entries_def)
    then show ?thesis using assms(6-8) by (simp add: Discovery_ServeHTTP_def c(2) Let_def)
  qed
  show ?thesis
  proof (cases "can_see input n")
    case True
    have read: "read_multistatus (propfindListing ?d ?es True) = Some ((rootPath ?d, ''WebDAV'') # ?listing)"
      using propfind_reads_back [OF root, of ?es True] names by simp
    have "inj_on (entryPath ?d) X" for X by (simp add: inj_on_def entryPath_def)
    then have "distinct (map (entryPath ?d) (map entry_Slug ?es))"
      using seen_slugs_distinct [OF assms(1), of n] distinct_map by blast
    then have "distinct (map fst ?listing)" by (simp add: comp_def)
    moreover have "set ?listing = (\<lambda>item. (share_prefix (ServerSettings input) item @ ''/'', share_Name (Share item)))
        ` {item \<in> set (Shares input). can_read input n item}"
      by (simp add: seen_entries_def share_entry_def share_prefix_def paths(2) image_image)
    ultimately show ?thesis using True served read by auto
  next
    case False
    then show ?thesis using served by simp
  qed
qed

theorem listing_shows_readable_shares_witness:
  "\<exists>cfg ws r accounts base entries headers body listing. compile_tree sample_input = Inr (cfg, ws) \<and> r \<in> set (all_routes cfg)
     \<and> Handle r = [AuthenticationHandler accounts, DiscoveryHandler base entries]
     \<and> Discovery_ServeHTTP \<lparr>BasePath = base, Entries = entries\<rparr>
         \<lparr>dr_Method = ''PROPFIND'', dr_Depth = [], dr_User = Some ''bob''\<rparr> = Answered 207 headers body
     \<and> read_multistatus body = Some listing \<and> (''/dav/docs/'', ''Docs'') \<in> set listing"
proof -
  obtain cfg ws r accounts base entries where d: "compile_tree sample_input = Inr (cfg, ws)" "r \<in> set (all_routes cfg)"
    "Handle r = [AuthenticationHandler accounts, DiscoveryHandler base entries]" "can_see sample_input ''bob''"
    using sample_discovery by blast
  have names: "valid_utf8 ''/dav''" "valid_utf8 ''Docs''" "valid_utf8 ''Vault''"
    by (rule ascii_valid_utf8, simp add: ascii_def byte_of_Char)+
  have "share_prefix sample_settings sample_docs = ''/dav/docs''" by (rule sample_prefix)
  moreover have "sample_docs \<in> {item \<in> set (Shares sample_input). can_read sample_input ''bob'' item}"
    using sample_can_read by simp
  ultimately have "(''/dav/docs/'', ''Docs'') \<in> (\<lambda>item. (share_prefix (ServerSettings sample_input) item @ ''/'', share_Name (Share item)))
      ` {item \<in> set (Shares sample_input). can_read sample_input ''bob'' item}"
    by (auto intro!: image_eqI [of _ _ sample_docs] simp: docs_def)
  moreover have "propfind_depth [] = ''1''" by (simp add: propfind_depth_def str_eval)
  then have "\<exists>headers body root listing.
      Discovery_ServeHTTP \<lparr>BasePath = base, Entries = entries\<rparr> \<lparr>dr_Method = ''PROPFIND'', dr_Depth = [], dr_User = Some ''bob''\<rparr>
        = Answered 207 headers body
      \<and> read_multistatus body = Some ((root, ''WebDAV'') # listing) \<and> distinct (map fst listing)
      \<and> set listing = (\<lambda>item. (share_prefix (ServerSettings sample_input) item @ ''/'', share_Name (Share item)))
          ` {item \<in> set (Shares sample_input). can_read sample_input ''bob'' item}"
    using listing_shows_readable_shares [OF d(1-3), of "\<lparr>dr_Method = ''PROPFIND'', dr_Depth = [], dr_User = Some ''bob''\<rparr>" "''bob''"]
      d(4) names by (simp add: sample_settings_def docs_def vault_def)
  ultimately obtain headers body root listing where
    "Discovery_ServeHTTP \<lparr>BasePath = base, Entries = entries\<rparr> \<lparr>dr_Method = ''PROPFIND'', dr_Depth = [], dr_User = Some ''bob''\<rparr>
        = Answered 207 headers body"
    "read_multistatus body = Some ((root, ''WebDAV'') # listing)" "(''/dav/docs/'', ''Docs'') \<in> set listing" by blast
  then show ?thesis using d(1-3) list.set_intros(2) [of "(''/dav/docs/'', ''Docs'')" listing "(root, ''WebDAV'')"] by blast
qed

section \<open>Directories are looked up with the prefix\<close>

text \<open>The handler looks the whole request path up inside the share, where the file server strips the prefix.  So
  a \<^verbatim>\<open>GET\<close> on a directory of a share with a prefix is not turned into a listing, unless the share holds
  a directory of the prefix's name; and a \<^verbatim>\<open>HEAD\<close> that is turned into one keeps its body.\<close>

lemma directory_get_keeps_prefix:
  "resolve (CHR ''/'') ''/dav/docs/photos'' = Inr ''dav/docs/photos''"
  "WebDAV_ServeHTTP (CHR ''/'') (\<lambda>name. if name = ''photos'' then Some True else None)
     \<lparr>wr_Method = ''GET'', wr_Path = ''/dav/docs/photos'', wr_Depth = []\<rparr>
   = (\<lparr>wr_Method = ''GET'', wr_Path = ''/dav/docs/photos'', wr_Depth = []\<rparr>, False)"
proof -
  show r: "resolve (CHR ''/'') ''/dav/docs/photos'' = Inr ''dav/docs/photos''"
    by (simp add: resolve_def path_clean_def clean_components_def clean_step_def Let_def trim_prefix_def domain_eval)
  show "WebDAV_ServeHTTP (CHR ''/'') (\<lambda>name. if name = ''photos'' then Some True else None)
     \<lparr>wr_Method = ''GET'', wr_Path = ''/dav/docs/photos'', wr_Depth = []\<rparr>
   = (\<lparr>wr_Method = ''GET'', wr_Path = ''/dav/docs/photos'', wr_Depth = []\<rparr>, False)"
    by (simp add: WebDAV_ServeHTTP_def stat_is_dir_def fs_Stat_def r)
qed

lemma directory_head_keeps_body:
  "stat_is_dir sep is_dir name \<Longrightarrow>
     WebDAV_ServeHTTP sep is_dir \<lparr>wr_Method = ''HEAD'', wr_Path = name, wr_Depth = d\<rparr>
     = (\<lparr>wr_Method = ''PROPFIND'', wr_Path = name, wr_Depth = if d = [] then ''1'' else d\<rparr>, False)"
  by (simp add: WebDAV_ServeHTTP_def)

end
