(* ===== verification/Renewal_Admin.thy ===== *)
theory Renewal_Admin
  imports Snapshot_Codec
begin

text \<open>
  The Caddy admin module that renews a managed certificate on request (\<^verbatim>\<open>src/caddy/caddy-renewal\<close>): a registry
  of jobs, one goroutine per running job, and the two endpoints that start, show and cancel one.  The
  goroutine's call into Caddy's TLS app is the library's: its outcome is an argument of the step that ends the job.
\<close>

section \<open>Jobs\<close>

definition renewalStateIssuing :: string where "renewalStateIssuing = ''ISSUING''"
definition renewalStateCanceling :: string where "renewalStateCanceling = ''CANCELING''"
definition renewalStateCanceled :: string where "renewalStateCanceled = ''CANCELED''"
definition renewalStateSucceeded :: string where "renewalStateSucceeded = ''SUCCEEDED''"
definition renewalStateFailed :: string where "renewalStateFailed = ''FAILED''"
definition renewalErrorCode :: string where "renewalErrorCode = ''ACME_CERTIFICATE_ISSUANCE_FAILED''"

lemmas renewal_states = renewalStateIssuing_def renewalStateCanceling_def renewalStateCanceled_def
  renewalStateSucceeded_def renewalStateFailed_def

record renewal_job =
  job_hostname :: string
  job_state :: string
  job_message :: string
  job_errorCode :: string
  cancelRequested :: bool
  job_context_done :: bool

text \<open>The registry maps a hostname to the address of its job in \<open>job_store\<close>, because the goroutine of an earlier job keeps
  its own pointer; \<open>running\<close> are the jobs whose goroutine has not returned from Caddy.\<close>

record renewal_admin =
  jobs :: "string \<rightharpoonup> nat"
  job_store :: "renewal_job list"
  running :: "nat list"

definition Provision :: renewal_admin where
  "Provision = \<lparr>jobs = Map.empty, job_store = [], running = []\<rparr>"

definition live_job :: "renewal_job \<Rightarrow> bool" where
  "live_job job \<longleftrightarrow> job_state job = renewalStateIssuing \<or> job_state job = renewalStateCanceling"

section \<open>Requests and answers\<close>

record renewal_request =
  rr_Method :: string
  rr_Query :: string
  rr_Body :: string

record renewal_response =
  res_Hostname :: string
  res_State :: string
  res_Message :: string
  res_ErrorCode :: string

datatype renewal_answer =
  APIError nat
| RenewalResponse nat renewal_response

definition job_snapshot :: "renewal_job \<Rightarrow> renewal_response" where
  "job_snapshot job = \<lparr>res_Hostname = job_hostname job, res_State = job_state job, res_Message = job_message job,
     res_ErrorCode = job_errorCode job\<rparr>"

definition writeRenewalResponse :: "renewal_response \<Rightarrow> string" where
  "writeRenewalResponse r = json_marshal (JObj
     ([(''hostname'', JStr (res_Hostname r)), (''state'', JStr (res_State r)), (''message'', JStr (res_Message r))]
      @ (if res_ErrorCode r = [] then [] else [(''error_code'', JStr (res_ErrorCode r))]))) @ [CHR 0x0A]"

text \<open>The decoder reads one value of at most 4096 bytes and refuses a member that is not \<open>hostname\<close>.\<close>

definition decodeRenewalRequest :: "string \<Rightarrow> string option" where
  "decodeRenewalRequest body =
     (let limited = take 4096 body in
      case parse_value (2 * length limited + 2) max_nesting (skip_ws limited) of
        Some (JObj kvs, _) \<Rightarrow>
          if list_all (\<lambda>(k, _). field_of [''hostname''] k \<noteq> None) kvs
          then decode_members [''hostname''] (\<lambda>_ j old. decode_string j old) kvs [] else None
      | Some (JNull, _) \<Rightarrow> Some []
      | _ \<Rightarrow> None)"

definition normalizeHostname :: "string \<Rightarrow> string option" where
  "normalizeHostname value =
     (let hostname = to_lower (trim_suffix (trim_space value) ''.'')
      in if hostname = [] \<or> length hostname > 253 \<or> has_prefix hostname ''.''
            \<or> contains_any hostname (''/?#'' @ [backslash, CHR 0x22, CHR 0x27, CHR 0x09, CHR 0x0D, CHR 0x0A])
         then None else Some hostname)"

section \<open>The endpoints\<close>

text \<open>\<open>supported\<close>: the active configuration has the patched TLS app; \<open>parent_done\<close>: the active configuration's context is already
  cancelled, and the new job's with it.\<close>

definition new_job :: "bool \<Rightarrow> string \<Rightarrow> renewal_job" where
  "new_job parent_done hostname =
     \<lparr>job_hostname = hostname, job_state = renewalStateIssuing,
      job_message = ''Caddy is renewing the managed certificate'', job_errorCode = [],
      cancelRequested = False, job_context_done = parent_done\<rparr>"

definition job_of :: "renewal_admin \<Rightarrow> string \<Rightarrow> renewal_job option" where
  "job_of a hostname = map_option (\<lambda>i. job_store a ! i) (jobs a hostname)"

definition startRenewal :: "bool \<Rightarrow> bool \<Rightarrow> string \<Rightarrow> renewal_admin \<Rightarrow> renewal_admin \<times> renewal_answer" where
  "startRenewal supported parent_done hostname a =
     (if \<not> supported then (a, APIError 503)
      else (case job_of a hostname of
          Some job \<Rightarrow>
            if live_job job then (a, RenewalResponse 409 (job_snapshot job))
            else (let new = new_job parent_done hostname; i = length (job_store a) in
              (a\<lparr>jobs := (jobs a)(hostname \<mapsto> i), job_store := job_store a @ [new], running := running a @ [i]\<rparr>,
               RenewalResponse 202 (job_snapshot new)))
        | None \<Rightarrow>
            (let new = new_job parent_done hostname; i = length (job_store a) in
              (a\<lparr>jobs := (jobs a)(hostname \<mapsto> i), job_store := job_store a @ [new], running := running a @ [i]\<rparr>,
               RenewalResponse 202 (job_snapshot new)))))"

definition writeStatus :: "string \<Rightarrow> renewal_admin \<Rightarrow> renewal_answer" where
  "writeStatus hostname a =
     (case job_of a hostname of None \<Rightarrow> APIError 404 | Some job \<Rightarrow> RenewalResponse 200 (job_snapshot job))"

definition handleRenewal :: "bool \<Rightarrow> bool \<Rightarrow> renewal_request \<Rightarrow> renewal_admin \<Rightarrow> renewal_admin \<times> renewal_answer" where
  "handleRenewal supported parent_done r a =
     (if rr_Method r = ''POST'' then
        (case Option.bind (decodeRenewalRequest (rr_Body r)) normalizeHostname of
           None \<Rightarrow> (a, APIError 400)
         | Some hostname \<Rightarrow> startRenewal supported parent_done hostname a)
      else if rr_Method r = ''GET'' then
        (case normalizeHostname (rr_Query r) of
           None \<Rightarrow> (a, APIError 400)
         | Some hostname \<Rightarrow> (a, writeStatus hostname a))
      else (a, APIError 405))"

definition handleCancel :: "renewal_request \<Rightarrow> renewal_admin \<Rightarrow> renewal_admin \<times> renewal_answer" where
  "handleCancel r a =
     (if rr_Method r \<noteq> ''POST'' then (a, APIError 405)
      else (case Option.bind (decodeRenewalRequest (rr_Body r)) normalizeHostname of
          None \<Rightarrow> (a, APIError 400)
        | Some hostname \<Rightarrow>
            (case jobs a hostname of
               None \<Rightarrow> (a, APIError 404)
             | Some i \<Rightarrow>
                 let job = job_store a ! i in
                 if \<not> live_job job then (a, RenewalResponse 200 (job_snapshot job))
                 else (let requested = job\<lparr>cancelRequested := True, job_state := renewalStateCanceling,
                           job_message := ''Certificate renewal cancellation requested''\<rparr>
                   in (a\<lparr>job_store := (job_store a)[i := requested\<lparr>job_context_done := True\<rparr>]\<rparr>,
                       RenewalResponse 202 (job_snapshot requested))))))"

section \<open>The goroutine\<close>

datatype renew_error = ContextCanceled | RenewFailed

definition finished_job :: "renew_error option \<Rightarrow> renewal_job \<Rightarrow> renewal_job" where
  "finished_job err job =
     (if cancelRequested job \<or> err = Some ContextCanceled \<or> job_context_done job
      then job\<lparr>job_state := renewalStateCanceled, job_message := ''Certificate renewal canceled'', job_errorCode := []\<rparr>
      else if err \<noteq> None
      then job\<lparr>job_state := renewalStateFailed,
        job_message := ''Caddy could not renew the managed certificate; check the Caddy logs'', job_errorCode := renewalErrorCode\<rparr>
      else job\<lparr>job_state := renewalStateSucceeded, job_message := ''The managed certificate was renewed successfully'',
        job_errorCode := []\<rparr>)"

definition runRenewal :: "nat \<Rightarrow> renew_error option \<Rightarrow> renewal_admin \<Rightarrow> renewal_admin" where
  "runRenewal i err a =
     a\<lparr>job_store := (job_store a)[i := finished_job err (job_store a ! i)], running := remove1 i (running a)\<rparr>"

text \<open>Caddy replaced its configuration, which cancels the context the job was started under.\<close>

definition configuration_unloaded :: "nat \<Rightarrow> renewal_admin \<Rightarrow> renewal_admin" where
  "configuration_unloaded i a =
     a\<lparr>job_store := (job_store a)[i := (job_store a ! i)\<lparr>job_context_done := True\<rparr>]\<rparr>"

inductive admin_step :: "renewal_admin \<Rightarrow> renewal_admin \<Rightarrow> bool" where
  requesting: "admin_step a (fst (handleRenewal supported parent_done r a))"
| canceling_job: "admin_step a (fst (handleCancel r a))"
| returning: "i \<in> set (running a) \<Longrightarrow> admin_step a (runRenewal i err a)"
| unloading: "i \<in> set (running a) \<Longrightarrow> admin_step a (configuration_unloaded i a)"

inductive_cases admin_stepE: "admin_step a b"

end
