(* ===== verification/Renewal_Properties.thy ===== *)
theory Renewal_Properties
  imports Renewal_Admin
begin

text \<open>
  The registry of renewal jobs as a state machine: its invariant over every order of requests, returns and
  configuration changes, and what becomes of a job.
\<close>

inductive admin_reachable :: "renewal_admin \<Rightarrow> bool" where
  provisioned: "admin_reachable Provision"
| admin_next: "admin_reachable a \<Longrightarrow> admin_step a b \<Longrightarrow> admin_reachable b"

section \<open>The invariant\<close>

definition consistent_job :: "bool \<Rightarrow> renewal_job \<Rightarrow> bool" where
  "consistent_job is_running job \<longleftrightarrow> live_job job = is_running
     \<and> (cancelRequested job \<longrightarrow> job_state job \<in> {renewalStateCanceling, renewalStateCanceled})
     \<and> job_state job \<in> {renewalStateIssuing, renewalStateCanceling, renewalStateCanceled, renewalStateSucceeded, renewalStateFailed}
     \<and> (job_errorCode job \<noteq> [] \<longleftrightarrow> job_state job = renewalStateFailed)"

definition registry_ok :: "renewal_admin \<Rightarrow> bool" where
  "registry_ok a \<longleftrightarrow> distinct (running a) \<and> (\<forall>i \<in> set (running a). i < length (job_store a))
     \<and> (\<forall>i < length (job_store a). consistent_job (i \<in> set (running a)) (job_store a ! i)
          \<and> (i \<in> set (running a) \<longrightarrow> jobs a (job_hostname (job_store a ! i)) = Some i))
     \<and> (\<forall>h i. jobs a h = Some i \<longrightarrow> i < length (job_store a) \<and> job_hostname (job_store a ! i) = h)"

text \<open>The three changes a step can make: a new job where no live one is, the end of a running job, and
  a change of a running job that keeps it running.\<close>

definition add_job :: "bool \<Rightarrow> string \<Rightarrow> renewal_admin \<Rightarrow> renewal_admin" where
  "add_job parent_done h a = a\<lparr>jobs := (jobs a)(h \<mapsto> length (job_store a)),
     job_store := job_store a @ [new_job parent_done h], running := running a @ [length (job_store a)]\<rparr>"

definition keeps_running :: "renewal_job \<Rightarrow> renewal_job \<Rightarrow> bool" where
  "keeps_running job job' \<longleftrightarrow> job_hostname job' = job_hostname job \<and> consistent_job True job'
     \<and> (cancelRequested job \<longrightarrow> cancelRequested job')"

definition set_job :: "nat \<Rightarrow> renewal_job \<Rightarrow> renewal_admin \<Rightarrow> renewal_admin" where
  "set_job i job a = a\<lparr>job_store := (job_store a)[i := job]\<rparr>"

lemma finished_consistent: "consistent_job True job \<Longrightarrow> consistent_job False (finished_job err job)"
  by (auto simp: consistent_job_def live_job_def finished_job_def renewal_states renewalErrorCode_def)

lemma finished_fields [simp]:
  "job_hostname (finished_job err job) = job_hostname job"
  "cancelRequested (finished_job err job) = cancelRequested job"
  "cancelRequested job \<Longrightarrow> job_state (finished_job err job) = renewalStateCanceled"
  by (simp_all add: finished_job_def)

lemma cancel_keeps_running:
  assumes "consistent_job True job"
  shows "keeps_running job (job\<lparr>cancelRequested := True, job_state := renewalStateCanceling,
    job_message := m, job_context_done := True\<rparr>)"
  using assms by (auto simp: keeps_running_def consistent_job_def live_job_def renewal_states)

lemma handleCancel_changes:
  assumes "registry_ok a"
  shows "fst (handleCancel r a) = a \<or> (\<exists>i \<in> set (running a). \<exists>job.
    fst (handleCancel r a) = set_job i job a \<and> keeps_running (job_store a ! i) job)"
proof (cases "Option.bind (decodeRenewalRequest (rr_Body r)) normalizeHostname")
  case (Some h)
  show ?thesis
  proof (cases "jobs a h")
    case (Some i)
    then have i: "i < length (job_store a)" "consistent_job (i \<in> set (running a)) (job_store a ! i)"
      using assms by (auto simp: registry_ok_def)
    show ?thesis
    proof (cases "live_job (job_store a ! i)")
      case True
      then have "i \<in> set (running a)" using i(2) by (simp add: consistent_job_def)
      moreover have "keeps_running (job_store a ! i) ((job_store a ! i)\<lparr>cancelRequested := True, job_state := renewalStateCanceling,
          job_message := ''Certificate renewal cancellation requested'', job_context_done := True\<rparr>)"
        using i(2) calculation by (simp add: cancel_keeps_running)
      ultimately show ?thesis
        using Some True \<open>Option.bind _ _ = Some h\<close> by (auto simp: handleCancel_def set_job_def Let_def)
    qed (use Some \<open>Option.bind _ _ = Some h\<close> in \<open>simp add: handleCancel_def Let_def\<close>)
  qed (use Some in \<open>simp add: handleCancel_def\<close>)
qed (simp add: handleCancel_def)

lemma handleRenewal_changes:
  "fst (handleRenewal supported parent_done r a) = a \<or> (\<exists>h. fst (handleRenewal supported parent_done r a) = add_job parent_done h a
     \<and> (\<forall>job. job_of a h = Some job \<longrightarrow> \<not> live_job job))"
  by (auto simp: handleRenewal_def startRenewal_def add_job_def Let_def split: option.splits)

lemma admin_step_cases:
  assumes "admin_step a b" and "registry_ok a"
  obtains "b = a"
  | h parent_done where "b = add_job parent_done h a" "\<forall>job. job_of a h = Some job \<longrightarrow> \<not> live_job job"
  | i job where "b = set_job i job a" "i \<in> set (running a)" "keeps_running (job_store a ! i) job"
  | i err where "b = runRenewal i err a" "i \<in> set (running a)"
  using assms(1)
proof (cases rule: admin_step.cases)
  case (requesting supported parent_done r)
  then show thesis using handleRenewal_changes [of supported parent_done r a] that(1,2) by metis
next
  case (canceling_job r)
  then show thesis using handleCancel_changes [OF assms(2), of r] that(1,3) by metis
next
  case (unloading i)
  then have "consistent_job True (job_store a ! i)" using assms(2) by (auto simp: registry_ok_def)
  then have "keeps_running (job_store a ! i) ((job_store a ! i)\<lparr>job_context_done := True\<rparr>)"
    by (simp add: keeps_running_def consistent_job_def live_job_def)
  with unloading show thesis by (intro that(3)) (simp_all add: configuration_unloaded_def set_job_def)
qed (rule that(4))

lemma registry_add:
  assumes "registry_ok a" and "\<forall>job. job_of a h = Some job \<longrightarrow> \<not> live_job job"
  shows "registry_ok (add_job parent_done h a)"
proof -
  have idle: "job_hostname (job_store a ! i) \<noteq> h" if "i \<in> set (running a)" for i
    using assms that by (auto simp: registry_ok_def consistent_job_def job_of_def)
  have new: "consistent_job True (new_job parent_done h)"
    by (simp add: consistent_job_def new_job_def live_job_def renewal_states)
  show ?thesis
    using assms(1) idle new unfolding registry_ok_def add_job_def
    by (auto simp: nth_append less_Suc_eq new_job_def)
qed

lemma registry_set:
  assumes "registry_ok a" and "i \<in> set (running a)" and "keeps_running (job_store a ! i) job"
  shows "registry_ok (set_job i job a)"
  using assms unfolding registry_ok_def set_job_def
  by (auto simp: nth_list_update keeps_running_def)

lemma registry_run:
  assumes "registry_ok a" and "i \<in> set (running a)"
  shows "registry_ok (runRenewal i err a)"
proof -
  have "consistent_job True (job_store a ! i)" using assms by (auto simp: registry_ok_def)
  then have "consistent_job False (finished_job err (job_store a ! i))" by (rule finished_consistent)
  then show ?thesis using assms unfolding registry_ok_def runRenewal_def
    by (auto simp: nth_list_update)
qed

lemma registry_step: "admin_step a b \<Longrightarrow> registry_ok a \<Longrightarrow> registry_ok b"
  by (erule (1) admin_step_cases) (auto intro: registry_add registry_set registry_run)

lemma reachable_registry: "admin_reachable a \<Longrightarrow> registry_ok a"
proof (induction rule: admin_reachable.induct)
  case provisioned
  then show ?case by (simp add: registry_ok_def Provision_def)
qed (rule registry_step)

section \<open>What becomes of a job\<close>

definition job_kept :: "renewal_admin \<Rightarrow> renewal_admin \<Rightarrow> nat \<Rightarrow> bool" where
  "job_kept a b i \<longleftrightarrow> i < length (job_store b) \<and> job_hostname (job_store b ! i) = job_hostname (job_store a ! i)
     \<and> (cancelRequested (job_store a ! i) \<longrightarrow> cancelRequested (job_store b ! i))
     \<and> (i \<notin> set (running a) \<longrightarrow> i \<notin> set (running b) \<and> job_store b ! i = job_store a ! i)"

lemma job_kept_trans: "job_kept a b i \<Longrightarrow> job_kept b c i \<Longrightarrow> job_kept a c i"
  by (auto simp: job_kept_def)

lemma step_keeps_job:
  assumes "admin_step a b" and "registry_ok a" and "i < length (job_store a)"
  shows "job_kept a b i"
  using assms(1,2)
proof (cases rule: admin_step_cases)
  case (2 h parent_done)
  then show ?thesis using assms(3) by (simp add: job_kept_def add_job_def nth_append)
next
  case (3 j job)
  then show ?thesis using assms(3) by (cases "i = j") (simp_all add: job_kept_def set_job_def keeps_running_def)
next
  case (4 j err)
  then show ?thesis using assms(3) notin_set_remove1 [of i "running a" j]
    by (cases "i = j") (simp_all add: job_kept_def runRenewal_def)
qed (use assms(3) in \<open>simp add: job_kept_def\<close>)

lemma steps_keep_job:
  assumes "admin_step\<^sup>*\<^sup>* a b" and "registry_ok a" and "i < length (job_store a)"
  shows "registry_ok b \<and> job_kept a b i"
  using assms(1)
proof (induction rule: rtranclp_induct)
  case base
  then show ?case using assms by (simp add: job_kept_def)
next
  case (step b c)
  then have "job_kept b c i" using step_keeps_job by (simp add: job_kept_def)
  with step show ?case using registry_step job_kept_trans by blast
qed

text \<open>C26. A renewal settles exactly once.  In every reachable state of the admin module and however requests, returns and
  configuration changes go on: a job is shown as running exactly while its goroutine runs, the
  registry shows that job for its hostname, so that no hostname has two; a settled job never changes; and a job whose cancellation was
  accepted settles as cancelled, whatever Caddy returns.\<close>

theorem renewal_settles_once:
  assumes "admin_reachable a" and "admin_step\<^sup>*\<^sup>* a b" and "i < length (job_store a)"
  shows "(live_job (job_store b ! i) \<longleftrightarrow> i \<in> set (running b))
    \<and> (i \<in> set (running b) \<longrightarrow> jobs b (job_hostname (job_store a ! i)) = Some i)
    \<and> (i \<notin> set (running a) \<longrightarrow> job_store b ! i = job_store a ! i)
    \<and> (cancelRequested (job_store a ! i) \<and> i \<notin> set (running b) \<longrightarrow> job_state (job_store b ! i) = renewalStateCanceled)"
proof -
  have k: "registry_ok b" "job_kept a b i"
    using steps_keep_job [OF assms(2) reachable_registry [OF assms(1)] assms(3)] by auto
  then have i: "i < length (job_store b)" by (simp add: job_kept_def)
  then have c: "consistent_job (i \<in> set (running b)) (job_store b ! i)"
    "i \<in> set (running b) \<longrightarrow> jobs b (job_hostname (job_store b ! i)) = Some i"
    using k(1) by (simp_all add: registry_ok_def)
  have settled: "i \<notin> set (running b) \<Longrightarrow> cancelRequested (job_store b ! i) \<Longrightarrow> job_state (job_store b ! i) = renewalStateCanceled"
    using c(1) by (auto simp: consistent_job_def live_job_def)
  have live: "live_job (job_store b ! i) \<longleftrightarrow> i \<in> set (running b)" using c(1) by (simp add: consistent_job_def)
  have kept: "job_hostname (job_store b ! i) = job_hostname (job_store a ! i)"
    "cancelRequested (job_store a ! i) \<Longrightarrow> cancelRequested (job_store b ! i)"
    "i \<notin> set (running a) \<Longrightarrow> job_store b ! i = job_store a ! i" using k(2) by (simp_all add: job_kept_def)
  show ?thesis using c(2) settled kept unfolding live kept(1) by blast
qed

definition renew_body :: string where
  "renew_body = ''{'' @ [CHR 0x22] @ ''hostname'' @ [CHR 0x22] @ '':'' @ [CHR 0x22] @ ''Dav.example.org.'' @ [CHR 0x22] @ ''}''"

lemma renew_body_parsed:
  "parse_value (Suc (Suc (Suc n))) (Suc d) renew_body = Some (JObj [(''hostname'', JStr ''Dav.example.org.'')], [])"
  by (simp add: renew_body_def skip_ws_def is_ws_def quote_char_def escape_char_def decode_rune_def lead_info_def lead_bits_def str_eval)

lemma renew_body_decoded: "decodeRenewalRequest renew_body = Some ''Dav.example.org.''"
proof -
  have l: "take 4096 renew_body = renew_body" "skip_ws renew_body = renew_body" "2 * length renew_body + 2 = Suc (Suc (Suc 61))"
    "max_nesting = Suc 9999" by (simp_all add: renew_body_def skip_ws_def is_ws_def max_nesting_def str_eval)
  show ?thesis unfolding decodeRenewalRequest_def Let_def l renew_body_parsed
    by (simp add: field_of_def)
qed

lemma renew_host: "normalizeHostname ''Dav.example.org.'' = Some ''dav.example.org''"
  by (simp add: normalizeHostname_def Let_def trim_suffix_def has_suffix_def has_prefix_def contains_any_def backslash_def str_eval)

theorem renewal_settles_once_witness:
  "\<exists>a b. admin_reachable a \<and> admin_step\<^sup>*\<^sup>* a b \<and> job_state (job_store a ! 0) = renewalStateCanceling
     \<and> running b = [] \<and> job_state (job_store b ! 0) = renewalStateCanceled"
proof -
  let ?post = "\<lparr>rr_Method = ''POST'', rr_Query = [], rr_Body = renew_body\<rparr>" and ?h = "''dav.example.org''"
  have start: "handleRenewal True False ?post a = startRenewal True False ?h a" for a
    by (simp add: handleRenewal_def renew_body_decoded renew_host)
  let ?a0 = "fst (handleRenewal True False ?post Provision)" and ?job = "new_job False ?h"
  have a0: "?a0 = \<lparr>jobs = [?h \<mapsto> 0], job_store = [?job], running = [0]\<rparr>"
    unfolding start by (simp add: startRenewal_def job_of_def Provision_def Let_def)
  define a where "a = fst (handleCancel ?post ?a0)"
  have r: "admin_reachable a" unfolding a_def by (rule admin_next [OF admin_next [OF provisioned requesting] canceling_job])
  have "live_job ?job" by (simp add: live_job_def new_job_def)
  then have a: "running a = [0] \<and> length (job_store a) = 1 \<and> cancelRequested (job_store a ! 0)
      \<and> job_state (job_store a ! 0) = renewalStateCanceling"
    unfolding a_def a0 by (simp add: handleCancel_def renew_body_decoded renew_host Let_def)
  then have s: "admin_step\<^sup>*\<^sup>* a (runRenewal 0 None a)" by (intro r_into_rtranclp returning) simp
  have "running (runRenewal 0 None a) = []" using a by (simp add: runRenewal_def)
  then show ?thesis using renewal_settles_once [OF r s, of 0] r s a by auto
qed

end
