(* ===== verification/Log_Text.thy ===== *)
theory Log_Text
  imports Json_Parse Snapshot_Codec
begin

text \<open>
  What the log keeps out of its records (\<^verbatim>\<open>core/internal/logging/store.go\<close>): the three patterns of secrets in a
  message, over the part of Go's \<^verbatim>\<open>regexp\<close> they use, the names of secret fields, and the redaction of values.
\<close>

section \<open>Regular expressions\<close>

text \<open>A pattern gives, at a position of a text, the positions where a match can end, the preferred one first: Go
  takes the match a backtracking search finds first.  \<open>Many\<close> prefers more, \<open>Few\<close> fewer repetitions.\<close>

datatype regex =
  Class "rune \<Rightarrow> bool"
| Nothing
| Cat regex regex
| Alt regex regex
| Many regex
| Few regex
| Boundary

definition word_rune :: "rune \<Rightarrow> bool" where
  "word_rune r \<longleftrightarrow> (48 \<le> r \<and> r \<le> 57) \<or> (65 \<le> r \<and> r \<le> 90) \<or> r = 95 \<or> (97 \<le> r \<and> r \<le> 122)"

definition word_at :: "rune list \<Rightarrow> nat \<Rightarrow> bool" where
  "word_at s i \<longleftrightarrow> i < length s \<and> word_rune (s ! i)"

fun repeat_many :: "nat \<Rightarrow> (nat \<Rightarrow> nat list) \<Rightarrow> nat \<Rightarrow> nat list" where
  "repeat_many 0 step i = [i]"
| "repeat_many (Suc n) step i = concat (map (\<lambda>j. if i < j then repeat_many n step j else []) (step i)) @ [i]"

fun repeat_few :: "nat \<Rightarrow> (nat \<Rightarrow> nat list) \<Rightarrow> nat \<Rightarrow> nat list" where
  "repeat_few 0 step i = [i]"
| "repeat_few (Suc n) step i = i # concat (map (\<lambda>j. if i < j then repeat_few n step j else []) (step i))"

primrec ends :: "regex \<Rightarrow> rune list \<Rightarrow> nat \<Rightarrow> nat list" where
  "ends (Class p) s i = (if i < length s \<and> p (s ! i) then [Suc i] else [])"
| "ends Nothing s i = [i]"
| "ends (Cat a b) s i = concat (map (ends b s) (ends a s i))"
| "ends (Alt a b) s i = ends a s i @ ends b s i"
| "ends (Many a) s i = repeat_many (length s) (ends a s) i"
| "ends (Few a) s i = repeat_few (length s) (ends a s) i"
| "ends Boundary s i = (if (0 < i \<and> word_at s (i - 1)) = word_at s i then [] else [i])"

definition Maybe :: "regex \<Rightarrow> regex" where "Maybe a = Alt a Nothing"
definition Plus :: "regex \<Rightarrow> regex" where "Plus a = Cat a (Many a)"

definition sequence_of :: "regex list \<Rightarrow> regex" where
  "sequence_of rs = foldr Cat rs Nothing"

fun one_of :: "regex list \<Rightarrow> regex" where
  "one_of [] = Class (\<lambda>_. False)"
| "one_of [r] = r"
| "one_of (r # rs) = Alt r (one_of rs)"

definition exactly :: "string \<Rightarrow> regex" where
  "exactly s = sequence_of (map (\<lambda>c. Class (\<lambda>r. r = byte_of c)) s)"

text \<open>Under the flag \<^verbatim>\<open>(?i)\<close> a letter stands for the code points that fold to it.\<close>

definition letters :: "string \<Rightarrow> regex" where
  "letters s = sequence_of (map (\<lambda>c. Class (\<lambda>r. fold_rune r = fold_rune (byte_of c))) s)"

definition any_of :: "string \<Rightarrow> regex" where
  "any_of s = Class (\<lambda>r. r \<in> byte_of ` set s)"

definition none_of :: "string \<Rightarrow> regex" where
  "none_of s = Class (\<lambda>r. r \<notin> byte_of ` set s)"

definition blanks :: string where
  "blanks = [CHR 0x09, CHR 0x0A, CHR 0x0C, CHR 0x0D, CHR 0x20]"

text \<open>\<^verbatim>\<open>ReplaceAllString\<close> for a pattern of a kept and a replaced part: from the left, without overlap; no pattern below matches
  the empty string.\<close>

definition match_at :: "regex \<Rightarrow> regex \<Rightarrow> rune list \<Rightarrow> nat \<Rightarrow> (nat \<times> nat) option" where
  "match_at kept replaced s i =
     (case concat (map (\<lambda>j. map (Pair j) (ends replaced s j)) (ends kept s i)) of [] \<Rightarrow> None
      | m # _ \<Rightarrow> Some m)"

function replace_from :: "regex \<Rightarrow> regex \<Rightarrow> string \<Rightarrow> (rune \<times> string) list \<Rightarrow> nat \<Rightarrow> string" where
  "replace_from kept replaced by text i =
     (if length text \<le> i then []
      else case match_at kept replaced (map fst text) i of
          None \<Rightarrow> snd (text ! i) @ replace_from kept replaced by text (Suc i)
        | Some (j, e) \<Rightarrow>
            if e \<le> i then snd (text ! i) @ replace_from kept replaced by text (Suc i)
            else concat (map snd (take (j - i) (drop i text))) @ by @ replace_from kept replaced by text e)"
  by pat_completeness auto
termination by (relation "measure (\<lambda>(_, _, _, text, i). length text - i)") auto

declare replace_from.simps [simp del]

definition ReplaceAllString :: "regex \<Rightarrow> regex \<Rightarrow> string \<Rightarrow> string \<Rightarrow> string" where
  "ReplaceAllString kept replaced by message = replace_from kept replaced by (chunks message) 0"

section \<open>The patterns\<close>

definition RedactedValue :: string where "RedactedValue = ''[REDACTED]''"

definition quoted_value :: "string \<Rightarrow> regex" where
  "quoted_value stops = one_of
     [sequence_of [any_of [CHR 0x22], Many (none_of [CHR 0x22]), any_of [CHR 0x22]],
      sequence_of [any_of [CHR 0x27], Many (none_of [CHR 0x27]), any_of [CHR 0x27]],
      Plus (none_of stops)]"

definition dash_or_underscore :: regex where
  "dash_or_underscore = Maybe (any_of ''_-'')"

definition password_name :: regex where
  "password_name = sequence_of [letters ''password'', Maybe (letters ''_hash'')]"

definition management_token_name :: regex where
  "management_token_name = sequence_of [letters ''management'', dash_or_underscore, letters ''token'']"

definition dns_token_name :: regex where
  "dns_token_name = sequence_of [letters ''dns'', dash_or_underscore,
     Maybe (sequence_of [letters ''api'', dash_or_underscore]), letters ''token'']"

definition private_key_name :: regex where
  "private_key_name = sequence_of [letters ''private'', dash_or_underscore, letters ''key'']"

definition api_key_name :: regex where
  "api_key_name = sequence_of [letters ''api'', dash_or_underscore, letters ''key'']"

definition jsonSecretValuePattern :: "regex \<times> regex" where
  "jsonSecretValuePattern =
     (sequence_of [any_of [CHR 0x22],
        one_of [password_name, management_token_name, letters ''authorization'', letters ''bearer'',
          sequence_of [private_key_name, Maybe (letters ''_path'')], dns_token_name, api_key_name,
          sequence_of [letters ''client'', dash_or_underscore, letters ''secret''], letters ''secret'', letters ''credential''],
        Maybe (letters ''s''), any_of [CHR 0x22], Many (any_of blanks), exactly '':'', Many (any_of blanks)],
      quoted_value ('','' @ blanks @ ''}''))"

definition secretValuePattern :: "regex \<times> regex" where
  "secretValuePattern =
     (one_of
        [sequence_of [letters ''authorization'', Many (any_of blanks), exactly '':'', Many (any_of blanks), letters ''bearer'',
           Plus (any_of blanks)],
         sequence_of [Boundary,
           one_of [password_name, management_token_name, letters ''token'', private_key_name, dns_token_name, api_key_name,
             letters ''secret''],
           Boundary, Many (any_of blanks), any_of '':='', Many (any_of blanks)]],
      quoted_value (blanks @ '',;''))"

definition pemPrivateKeyPattern :: regex where
  "pemPrivateKeyPattern = sequence_of
     [exactly ''-----BEGIN '', Many (none_of ''-''), exactly ''PRIVATE KEY-----'', Few (Class (\<lambda>_. True)),
      exactly ''-----END '', Many (none_of ''-''), exactly ''PRIVATE KEY-----'']"

definition sanitizeMessage :: "string \<Rightarrow> string" where
  "sanitizeMessage message =
     (let m1 = ReplaceAllString Nothing pemPrivateKeyPattern RedactedValue message;
          m2 = ReplaceAllString (fst jsonSecretValuePattern) (snd jsonSecretValuePattern)
                 ([CHR 0x22] @ RedactedValue @ [CHR 0x22]) m1
      in ReplaceAllString (fst secretValuePattern) (snd secretValuePattern) RedactedValue m2)"

section \<open>Secret fields\<close>

definition secret_names :: "string list" where
  "secret_names = [''password'', ''passwordhash'', ''managementtoken'', ''authorization'', ''bearer'', ''privatekey'',
     ''privatekeypath'', ''dnstoken'', ''dnsapitoken'', ''apikey'', ''clientsecret'', ''secret'', ''credential'', ''credentials'',
     ''token'']"

definition secret_suffixes :: "string list" where
  "secret_suffixes = [''password'', ''passwordhash'', ''token'', ''secret'', ''privatekey'', ''apikey'']"

definition isSecretField :: "string \<Rightarrow> bool" where
  "isSecretField key =
     (let normalized = to_lower (filter (\<lambda>c. c \<notin> set ''_-.'') key)
      in normalized \<in> set secret_names \<or> list_ex (has_suffix normalized) secret_suffixes)"

text \<open>A value of a field is one of the types the code distinguishes; \<open>LOther\<close> holds every other Go value.  A map is
  an association list; \<open>LNilMap\<close> is the nil map, which an empty one becomes.\<close>

datatype log_value =
  LString string
| LBytes string
| LError string
| LMap "(string \<times> log_value) list"
| LNilMap
| LStringMap "(string \<times> string) list"
| LList "log_value list"
| LOther json

definition redacted_string :: "string \<times> string \<Rightarrow> string \<times> string" where
  "redacted_string kv = (case kv of (key, item) \<Rightarrow>
     (key, if isSecretField key then RedactedValue else sanitizeMessage item))"

fun sanitizeValue :: "log_value \<Rightarrow> log_value" where
  "sanitizeValue (LString s) = LString (sanitizeMessage s)"
| "sanitizeValue (LBytes s) = LString (sanitizeMessage s)"
| "sanitizeValue (LError s) = LString (sanitizeMessage s)"
| "sanitizeValue (LMap []) = LNilMap"
| "sanitizeValue (LMap members) =
     LMap (map (\<lambda>(key, value). (key, if isSecretField key then LString RedactedValue else sanitizeValue value)) members)"
| "sanitizeValue LNilMap = LNilMap"
| "sanitizeValue (LStringMap items) = LStringMap (map redacted_string items)"
| "sanitizeValue (LList items) = LList (map sanitizeValue items)"
| "sanitizeValue (LOther v) = LOther v"

type_synonym log_fields = "(string \<times> log_value) list"

definition sanitize_field :: "string \<times> log_value \<Rightarrow> string \<times> log_value" where
  "sanitize_field kv = (case kv of (key, value) \<Rightarrow>
     (key, if isSecretField key then LString RedactedValue else sanitizeValue value))"

definition sanitizeFields :: "log_fields \<Rightarrow> log_fields" where
  "sanitizeFields members = map sanitize_field members"

end
