(* ===== verification/Log_Store.thy ===== *)
theory Log_Store
  imports Log_Text "HOL-Library.Word" "HOL-Library.AList"
begin

text \<open>
  The daemon's log store (\<^verbatim>\<open>core/internal/logging/store.go\<close>), a bounded list of sanitized records read in pages; the
  writer that turns lines of output into records, and the handler that stores structured log calls
  (\<^verbatim>\<open>logging.go\<close>).
\<close>

section \<open>Records\<close>

definition DefaultCapacity :: int where "DefaultCapacity = 2000"
definition DefaultPageSize :: int where "DefaultPageSize = 100"
definition MaximumPageSize :: int where "MaximumPageSize = 200"

record log_record =
  log_ID :: "64 word"
  log_Timestamp :: timestamp
  log_Level :: string
  log_Component :: string
  log_Message :: string
  log_Fields :: log_fields

record log_query =
  lq_Limit :: int
  lq_Cursor :: "64 word"
  lq_Since :: "timestamp option"
  lq_Level :: string
  lq_Component :: string

record log_page =
  page_Records :: "log_record list"
  NextCursor :: "64 word"
  HasMore :: bool

record log_store =
  capacity :: nat
  nextID :: "64 word"
  log_records :: "log_record list"

definition NewStore :: "int \<Rightarrow> log_store" where
  "NewStore c = \<lparr>capacity = nat (if c \<le> 0 then DefaultCapacity else c), nextID = 0, log_records = []\<rparr>"

text \<open>\<^verbatim>\<open>strings.ToUpper\<close> where the result is compared with an ASCII word: apart from ASCII letters, only the dotless
  i and the long s have an ASCII upper case.\<close>

definition level_upper :: "string \<Rightarrow> string" where
  "level_upper s = concat (map (\<lambda>r. encode_rune
     (if 97 \<le> r \<and> r \<le> 122 then r - 32 else if r = 305 then 73 else if r = 383 then 83 else r)) (runes s))"

definition normalizeLevel :: "string \<Rightarrow> string" where
  "normalizeLevel value =
     (let v = level_upper (trim_space value) in
      if v = ''DEBUG'' then ''DEBUG''
      else if v = ''WARN'' \<or> v = ''WARNING'' then ''WARN''
      else if v = ''ERROR'' then ''ERROR''
      else ''INFO'')"

definition sanitizeRecord :: "log_record \<Rightarrow> log_record" where
  "sanitizeRecord r = r\<lparr>log_Level := normalizeLevel (log_Level r), log_Component := sanitizeMessage (log_Component r),
     log_Message := sanitizeMessage (log_Message r), log_Fields := sanitizeFields (log_Fields r)\<rparr>"

section \<open>Adding\<close>

definition stamped_record :: "timestamp \<Rightarrow> log_record \<Rightarrow> log_record" where
  "stamped_record now r = r\<lparr>log_Timestamp := (if IsZero (log_Timestamp r) then Time (instant now) True
       else Time (instant (log_Timestamp r)) True),
     log_Component := (if log_Component r = [] then ''daemon'' else log_Component r)\<rparr>"

definition log_Add :: "timestamp \<Rightarrow> log_record \<Rightarrow> log_store \<Rightarrow> log_store" where
  "log_Add now r s =
     (let i = nextID s + 1; r = (sanitizeRecord (stamped_record now r))\<lparr>log_ID := i\<rparr> in
      s\<lparr>nextID := i,
        log_records := (if length (log_records s) = capacity s then tl (log_records s) @ [r] else log_records s @ [r])\<rparr>)"

section \<open>Reading a page\<close>

definition page_limit :: "log_query \<Rightarrow> nat" where
  "page_limit q =
     (let limit = (if lq_Limit q \<le> 0 then DefaultPageSize else lq_Limit q)
      in nat (if limit > MaximumPageSize then MaximumPageSize else limit))"

definition wanted :: "log_query \<Rightarrow> log_record \<Rightarrow> bool" where
  "wanted q r =
     (let level = level_upper (trim_space (lq_Level q)); component = to_lower (trim_space (lq_Component q)) in
      \<not> (lq_Cursor q > 0 \<and> log_ID r \<ge> lq_Cursor q)
      \<and> \<not> (case lq_Since q of None \<Rightarrow> False | Some since \<Rightarrow> instant (log_Timestamp r) < instant since)
      \<and> \<not> (level \<noteq> [] \<and> log_Level r \<noteq> level)
      \<and> \<not> (component \<noteq> [] \<and> to_lower (log_Component r) \<noteq> component))"

text \<open>The loop over the records, the newest first.\<close>

fun scan_records :: "log_query \<Rightarrow> nat \<Rightarrow> log_record list \<Rightarrow> log_record list \<Rightarrow> log_page" where
  "scan_records q limit [] result = \<lparr>page_Records = result, NextCursor = 0, HasMore = False\<rparr>"
| "scan_records q limit (r # rs) result =
     (if \<not> wanted q r then scan_records q limit rs result
      else if length result = limit
      then \<lparr>page_Records = result, NextCursor = log_ID (last result), HasMore = True\<rparr>
      else scan_records q limit rs (result @ [sanitizeRecord r]))"

definition log_Query :: "log_query \<Rightarrow> log_store \<Rightarrow> log_page" where
  "log_Query q s = scan_records q (page_limit q) (rev (log_records s)) []"

section \<open>Lines of output\<close>

text \<open>The writer's buffer and the lines it has emitted, oldest first.\<close>

record line_writer =
  lw_buffer :: string
  lw_lines :: "string list"

definition log_newline :: char where "log_newline = CHR 0x0A"

definition maximum_line :: nat where "maximum_line = 65536"

definition emit_buffer :: "line_writer \<Rightarrow> line_writer" where
  "emit_buffer w = \<lparr>lw_buffer = [], lw_lines = lw_lines w @ [lw_buffer w]\<rparr>"

function line_Write :: "string \<Rightarrow> line_writer \<Rightarrow> line_writer" where
  "line_Write value w =
     (if value = [] then w
      else if log_newline \<notin> set value then
        (let b = lw_buffer w @ value in
         if length b > maximum_line then \<lparr>lw_buffer = [], lw_lines = lw_lines w @ [take maximum_line b]\<rparr>
         else w\<lparr>lw_buffer := b\<rparr>)
      else let line = takeWhile (\<lambda>c. c \<noteq> log_newline) value in
        line_Write (drop (Suc (length line)) value) (emit_buffer (w\<lparr>lw_buffer := lw_buffer w @ line\<rparr>)))"
  by pat_completeness auto
termination by (relation "measure (\<lambda>(value, w). length value)") auto

declare line_Write.simps [simp del]

definition Flush :: "line_writer \<Rightarrow> line_writer" where
  "Flush w = (if lw_buffer w = [] then w else emit_buffer w)"

text \<open>A line becomes a record: a JSON object gives its message, level and time and keeps the rest as fields.  The time
  is a floating-point number of seconds, whose conversion \<open>unix_seconds\<close> (nothing for a number not above zero) is the
  machine's, as is \<open>fits\<close>, whether a number is in the range of a float.  Of two members with one name the last counts.\<close>

fun value_of_json :: "json \<Rightarrow> log_value" where
  "value_of_json (JStr s) = LString s"
| "value_of_json (JArr xs) = LList (map value_of_json xs)"
| "value_of_json (JObj kvs) = LMap (AList.clearjunk (map (\<lambda>(k, v). (k, value_of_json v)) (rev kvs)))"
| "value_of_json v = LOther v"

fun numbers_fit :: "(string \<Rightarrow> bool) \<Rightarrow> json \<Rightarrow> bool" where
  "numbers_fit fits (JNum n) = fits n"
| "numbers_fit fits (JArr xs) = list_all (numbers_fit fits) xs"
| "numbers_fit fits (JObj kvs) = list_all (\<lambda>(k, v). numbers_fit fits v) kvs"
| "numbers_fit fits v = True"

definition payload_of :: "(string \<Rightarrow> bool) \<Rightarrow> string \<Rightarrow> log_fields option" where
  "payload_of fits line = (case json_parse line of Some (JObj kvs) \<Rightarrow>
       if numbers_fit fits (JObj kvs) then Some (AList.clearjunk (map (\<lambda>(k, v). (k, value_of_json v)) (rev kvs))) else None
     | _ \<Rightarrow> None)"

definition string_field :: "log_fields \<Rightarrow> string \<Rightarrow> string option" where
  "string_field fs key = (case map_of fs key of Some (LString s) \<Rightarrow> Some s | _ \<Rightarrow> None)"

definition payload_message :: "log_fields \<Rightarrow> string \<Rightarrow> string" where
  "payload_message fs line =
     (case string_field fs ''msg'' of Some m \<Rightarrow> m
      | None \<Rightarrow> (case string_field fs ''message'' of Some m \<Rightarrow> m | None \<Rightarrow> line))"

definition payload_time :: "(string \<Rightarrow> timestamp option) \<Rightarrow> log_fields \<Rightarrow> timestamp option" where
  "payload_time unix_seconds fs =
     (case map_of fs ''ts'' of Some (LOther (JNum n)) \<Rightarrow> unix_seconds n | _ \<Rightarrow> None)"

definition line_record :: "(string \<Rightarrow> bool) \<Rightarrow> (string \<Rightarrow> timestamp option) \<Rightarrow> timestamp \<Rightarrow> string \<Rightarrow> string \<Rightarrow> string \<Rightarrow> log_record" where
  "line_record fits unix_seconds now component level line =
     (let plain = \<lparr>log_ID = 0, log_Timestamp = Time (instant now) True, log_Level = level, log_Component = component,
        log_Message = line, log_Fields = []\<rparr>
      in case payload_of fits line of None \<Rightarrow> plain
         | Some fs \<Rightarrow> plain
             \<lparr>log_Message := payload_message fs line,
              log_Level := (case string_field fs ''level'' of Some l \<Rightarrow> normalizeLevel l | None \<Rightarrow> level),
              log_Timestamp := (case payload_time unix_seconds fs of Some t \<Rightarrow> t | None \<Rightarrow> Time (instant now) True),
              log_Fields := filter (\<lambda>(k, _). k \<notin> {''msg'', ''message'', ''level'', ''ts''}) fs\<rparr>)"

definition line_emit :: "(string \<Rightarrow> bool) \<Rightarrow> (string \<Rightarrow> timestamp option) \<Rightarrow> timestamp \<Rightarrow> string \<Rightarrow> string \<Rightarrow> string \<Rightarrow> log_store \<Rightarrow> log_store" where
  "line_emit fits unix_seconds now component level line s =
     (let line = trim_suffix line [CHR 0x0D] in
      if line = [] then s else log_Add now (line_record fits unix_seconds now component level line) s)"

section \<open>Structured log calls\<close>

text \<open>An attribute of \<^verbatim>\<open>log/slog\<close>, resolved.\<close>

datatype attr = Attr string log_value | Group string "attr list"

record store_handler =
  h_attrs :: "attr list"
  h_component :: string

definition put_field :: "string \<Rightarrow> log_value \<Rightarrow> log_fields \<Rightarrow> log_fields" where
  "put_field key value fs = AList.update key value fs"

fun appendAttr :: "string \<Rightarrow> attr \<Rightarrow> log_fields \<Rightarrow> log_fields" where
  "appendAttr prefix (Attr name value) fs =
     put_field (if prefix = [] then name else prefix @ ''.'' @ name) (sanitizeValue value) fs"
| "appendAttr prefix (Group name children) fs =
     fold (appendAttr (if prefix = [] then name else prefix @ ''.'' @ name)) children fs"

definition handled_record :: "store_handler \<Rightarrow> timestamp \<Rightarrow> string \<Rightarrow> string \<Rightarrow> attr list \<Rightarrow> log_record" where
  "handled_record h time level message attrs =
     (let fs = fold (appendAttr []) (h_attrs h @ attrs) [];
          fallback = (if h_component h = [] then ''daemon'' else h_component h);
          named = (case string_field fs ''component'' of Some c \<Rightarrow> c | None \<Rightarrow> [])
      in \<lparr>log_ID = 0, log_Timestamp = time, log_Level = level,
          log_Component = (if named \<noteq> [] then named else fallback), log_Message = message,
          log_Fields = (if named \<noteq> [] then AList.delete ''component'' fs else fs)\<rparr>)"

definition log_Handle :: "store_handler \<Rightarrow> timestamp \<Rightarrow> timestamp \<Rightarrow> string \<Rightarrow> string \<Rightarrow> attr list \<Rightarrow> log_store \<Rightarrow> log_store \<times> string" where
  "log_Handle h now time level message attrs s =
     (log_Add now (handled_record h time level message attrs) s, sanitizeMessage message)"

definition WithAttrs :: "attr list \<Rightarrow> store_handler \<Rightarrow> store_handler" where
  "WithAttrs attrs h = fold (\<lambda>a h. case a of
       Attr name (LString c) \<Rightarrow>
         if name = ''component'' then h\<lparr>h_component := c\<rparr> else h\<lparr>h_attrs := h_attrs h @ [a]\<rparr>
     | _ \<Rightarrow> h\<lparr>h_attrs := h_attrs h @ [a]\<rparr>) attrs h"

definition redactAttr :: "string \<times> log_value \<Rightarrow> string \<times> log_value" where
  "redactAttr kv = (case kv of (key, value) \<Rightarrow>
     (key, if isSecretField key then LString RedactedValue
       else case value of LError e \<Rightarrow> LString (sanitizeMessage e) | LString s \<Rightarrow> LString (sanitizeMessage s) | _ \<Rightarrow> value))"

end
