(* ===== verification/Log_Properties.thy ===== *)
theory Log_Properties
  imports Log_Store Sample
begin

text \<open>
  The properties of the log: paging through it shows every record once, what a page shows has no secret under a
  secret's name, and lines do not depend on how the output was cut.
\<close>

section \<open>The identifiers of the records\<close>

definition ids_ok :: "nat \<Rightarrow> log_store \<Rightarrow> bool" where
  "ids_ok n s \<longleftrightarrow> unat (nextID s) = n \<and> length (log_records s) = min n (capacity s) \<and> 0 < capacity s
     \<and> map (unat \<circ> log_ID) (log_records s) = [Suc n - length (log_records s)..<Suc n]"

lemma new_store_ids: "ids_ok 0 (NewStore c)"
  by (simp add: ids_ok_def NewStore_def DefaultCapacity_def)

lemma upt_tl: "i < j \<Longrightarrow> tl [i..<j] = [Suc i..<j]"
  by (simp add: upt_conv_Cons)

lemma add_ids:
  assumes "ids_ok n s" and "Suc n < 2 ^ 64"
  shows "ids_ok (Suc n) (log_Add now r s)"
proof -
  have next_ID: "unat (nextID s + 1) = Suc n"
    using assms by (simp add: ids_ok_def unat_word_ariths)
  show ?thesis
  proof (cases "length (log_records s) = capacity s")
    case True
    have "length (log_records s) = min n (capacity s)" and pos: "0 < capacity s" using assms(1) by (simp_all add: ids_ok_def)
    with True have c: "capacity s \<le> n" "0 < capacity s" by simp_all
    then have first: "Suc (Suc n) - capacity s = Suc (Suc n - capacity s)" by simp
    have "map (unat \<circ> log_ID) (tl (log_records s)) = [Suc (Suc n) - capacity s..<Suc n]"
      using assms(1) True c unfolding first by (simp add: ids_ok_def map_tl upt_tl del: upt_Suc)
    moreover have "[Suc (Suc n) - capacity s..<Suc (Suc n)] = [Suc (Suc n) - capacity s..<Suc n] @ [Suc n]" using c by simp
    ultimately show ?thesis using True assms(1) next_ID c
      by (simp add: ids_ok_def log_Add_def Let_def del: upt_Suc)
  next
    case False
    with assms(1) next_ID show ?thesis
      by (simp add: ids_ok_def log_Add_def Let_def min_def split: if_splits)
  qed
qed

definition log_adds :: "(timestamp \<times> log_record) list \<Rightarrow> log_store \<Rightarrow> log_store" where
  "log_adds adds = fold (\<lambda>(now, r). log_Add now r) adds"

lemma adds_ids: "ids_ok n s \<Longrightarrow> n + length adds < 2 ^ 64 \<Longrightarrow> ids_ok (n + length adds) (log_adds adds s)"
proof (induction adds arbitrary: n s)
  case (Cons a as)
  obtain now r where a: "a = (now, r)" by fastforce
  have "ids_ok (Suc n) (log_Add now r s)" using Cons.prems by (intro add_ids) simp_all
  from Cons.IH [OF this] Cons.prems(2) show ?case by (simp add: a log_adds_def)
qed (simp add: log_adds_def)

section \<open>Pages\<close>

lemma scan_finds:
  "scan_records q limit rs result =
     (let found = filter (wanted q) rs in
      if length found \<le> limit - length result
      then \<lparr>page_Records = result @ map sanitizeRecord found, NextCursor = 0, HasMore = False\<rparr>
      else let shown = result @ map sanitizeRecord (take (limit - length result) found)
        in \<lparr>page_Records = shown, NextCursor = log_ID (last shown), HasMore = True\<rparr>)"
  if "length result \<le> limit"
  using that
proof (induction rs arbitrary: result)
  case (Cons r rs)
  show ?case
  proof (cases "wanted q r")
    case True
    show ?thesis
    proof (cases "length result = limit")
      case False
      with Cons.prems have l: "limit - length result = Suc (limit - Suc (length result))" by simp
      show ?thesis using Cons.IH [of "result @ [sanitizeRecord r]"] Cons.prems True False
        by (simp add: Let_def l)
    qed (use True in \<open>simp add: Let_def\<close>)
  qed (use Cons in \<open>simp add: Let_def\<close>)
qed (simp add: Let_def)

lemma limit_positive: "0 < page_limit q" "page_limit q \<le> 200"
  by (auto simp: page_limit_def Let_def DefaultPageSize_def MaximumPageSize_def)

lemma sanitize_ID [simp]: "log_ID (sanitizeRecord r) = log_ID r"
  by (simp add: sanitizeRecord_def)

text \<open>A reader of the log asks for the next page as long as there is one.\<close>

partial_function (option) read_pages :: "log_query \<Rightarrow> log_store \<Rightarrow> log_record list option" where
  "read_pages q s =
     (if HasMore (log_Query q s)
      then Option.bind (read_pages (q\<lparr>lq_Cursor := NextCursor (log_Query q s)\<rparr>) s)
        (\<lambda>rest. Some (page_Records (log_Query q s) @ rest))
      else Some (page_Records (log_Query q s)))"

lemma wanted_from:
  "wanted (q\<lparr>lq_Cursor := c\<rparr>) r \<longleftrightarrow> wanted (q\<lparr>lq_Cursor := 0\<rparr>) r \<and> \<not> (c > 0 \<and> log_ID r \<ge> c)"
  by (auto simp: wanted_def Let_def)

lemma descending_rest:
  assumes "sorted_wrt (\<lambda>x y. f y < f x) xs" and "0 < l" and "l < length xs"
  shows "filter (\<lambda>x. f x < (f (xs ! (l - 1)) :: 'a :: linorder)) xs = drop l xs"
proof -
  have less: "i < j \<Longrightarrow> j < length xs \<Longrightarrow> f (xs ! j) < f (xs ! i)" for i j
    using assms(1) by (simp add: sorted_wrt_iff_nth_less)
  have "filter (\<lambda>x. f x < f (xs ! (l - 1))) (take l xs) = []"
  proof -
    have "\<not> f x < f (xs ! (l - 1))" if x: "x \<in> set (take l xs)" for x
    proof -
      obtain i where "i < l" "x = xs ! i" using x assms(3) by (auto simp: in_set_conv_nth)
      moreover from this have "i = l - 1 \<or> i < l - 1" by linarith
      ultimately show ?thesis using less [of i "l - 1"] assms(3) by (fastforce simp: not_less intro: less_imp_le)
    qed
    then show ?thesis by (simp add: filter_empty_conv)
  qed
  moreover have "filter (\<lambda>x. f x < f (xs ! (l - 1))) (drop l xs) = drop l xs"
  proof -
    have "f x < f (xs ! (l - 1))" if x: "x \<in> set (drop l xs)" for x
    proof -
      obtain i where "i < length xs - l" "x = xs ! (l + i)" using x assms(3) by (auto simp: in_set_conv_nth)
      then show ?thesis using less [of "l - 1" "l + i"] assms(2,3) by simp
    qed
    then show ?thesis by (simp add: filter_id_conv)
  qed
  ultimately show ?thesis using filter_append [of "\<lambda>x. f x < f (xs ! (l - 1))" "take l xs" "drop l xs"] by simp
qed

lemma ids_descend:
  assumes "ids_ok n s"
  shows "sorted_wrt (\<lambda>x y. log_ID y < log_ID x) (rev (log_records s))" and "r \<in> set (log_records s) \<Longrightarrow> 0 < log_ID r"
proof -
  have m: "map (unat \<circ> log_ID) (log_records s) = [Suc n - length (log_records s)..<Suc n]"
    and l: "length (log_records s) \<le> n" using assms by (simp_all add: ids_ok_def del: upt_Suc)
  have "sorted_wrt (<) (map (unat \<circ> log_ID) (log_records s))" unfolding m by (rule sorted_wrt_upt)
  then show "sorted_wrt (\<lambda>x y. log_ID y < log_ID x) (rev (log_records s))"
    by (simp add: sorted_wrt_map sorted_wrt_rev word_less_nat_alt comp_def)
  assume "r \<in> set (log_records s)"
  then have "unat (log_ID r) \<in> set (map (unat \<circ> log_ID) (log_records s))" by simp
  then have "Suc n - length (log_records s) \<le> unat (log_ID r)" unfolding m by (simp del: upt_Suc)
  moreover have "0 < Suc n - length (log_records s)" using l by simp
  ultimately show "0 < log_ID r" unfolding word_less_nat_alt by simp
qed

lemma last_take: "0 < l \<Longrightarrow> l \<le> length xs \<Longrightarrow> last (take l xs) = xs ! (l - 1)"
  by (subst last_conv_nth) auto

lemma query_page:
  "HasMore (log_Query q s) \<longleftrightarrow> page_limit q < length (filter (wanted q) (rev (log_records s)))"
  "page_Records (log_Query q s) = map sanitizeRecord (take (page_limit q) (filter (wanted q) (rev (log_records s))))"
  "HasMore (log_Query q s) \<Longrightarrow>
     NextCursor (log_Query q s) = log_ID (filter (wanted q) (rev (log_records s)) ! (page_limit q - 1))"
proof -
  let ?found = "filter (wanted q) (rev (log_records s))" and ?l = "page_limit q"
  show more: "HasMore (log_Query q s) \<longleftrightarrow> ?l < length ?found" and "page_Records (log_Query q s) = map sanitizeRecord (take ?l ?found)"
    by (simp_all add: log_Query_def scan_finds Let_def not_le)
  assume "HasMore (log_Query q s)"
  with more have l: "?l < length ?found" by simp
  then have "NextCursor (log_Query q s) = log_ID (last (map sanitizeRecord (take ?l ?found)))"
    by (simp add: log_Query_def scan_finds Let_def)
  moreover have "take ?l ?found \<noteq> []" using l limit_positive(1) [of q] by (cases ?found) simp_all
  ultimately show "NextCursor (log_Query q s) = log_ID (?found ! (?l - 1))"
    using l limit_positive(1) [of q] by (simp add: last_map last_take)
qed

lemma next_page:
  assumes "ids_ok n s" and "page_limit q < length (filter (wanted q) (rev (log_records s)))"
  shows "filter (wanted (q\<lparr>lq_Cursor := NextCursor (log_Query q s)\<rparr>)) (rev (log_records s))
      = drop (page_limit q) (filter (wanted q) (rev (log_records s)))"
proof -
  let ?found = "filter (wanted q) (rev (log_records s))" and ?l = "page_limit q"
  note l = limit_positive(1) [of q]
  have c: "NextCursor (log_Query q s) = log_ID (?found ! (?l - 1))"
    by (rule query_page(3)) (simp only: query_page(1) assms(2))
  have last: "?found ! (?l - 1) \<in> set ?found" using assms(2) by (intro nth_mem) linarith
  then have pos: "0 < NextCursor (log_Query q s)" and below: "lq_Cursor q > 0 \<Longrightarrow> NextCursor (log_Query q s) < lq_Cursor q"
    using ids_descend(2) [OF assms(1)] unfolding c by (auto simp: wanted_def Let_def not_le)
  have w: "wanted (q\<lparr>lq_Cursor := NextCursor (log_Query q s)\<rparr>) = (\<lambda>r. wanted q r \<and> log_ID r < NextCursor (log_Query q s))"
  proof
    fix r
    show "wanted (q\<lparr>lq_Cursor := NextCursor (log_Query q s)\<rparr>) r \<longleftrightarrow> wanted q r \<and> log_ID r < NextCursor (log_Query q s)"
      using wanted_from [of "NextCursor (log_Query q s)" q r] wanted_from [of "lq_Cursor q" q r] pos below by auto
  qed
  have "filter (wanted (q\<lparr>lq_Cursor := NextCursor (log_Query q s)\<rparr>)) (rev (log_records s))
      = filter (\<lambda>r. log_ID r < log_ID (?found ! (?l - 1))) ?found" unfolding w by (simp only: c filter_filter)
  also have "\<dots> = drop ?l ?found"
    using ids_descend(1) [OF assms(1)] assms(2) l by (intro descending_rest sorted_wrt_filter) simp_all
  finally show ?thesis .
qed

lemma pages_enumerate:
  assumes "ids_ok n s"
  shows "read_pages q s = Some (map sanitizeRecord (filter (wanted q) (rev (log_records s))))"
proof (induction "length (filter (wanted q) (rev (log_records s)))" arbitrary: q rule: less_induct)
  case less
  let ?found = "filter (wanted q) (rev (log_records s))" and ?l = "page_limit q"
  show ?case
  proof (cases "length ?found \<le> ?l")
    case True
    then show ?thesis by (subst read_pages.simps) (simp add: query_page(1,2) not_less)
  next
    case False
    let ?q = "q\<lparr>lq_Cursor := NextCursor (log_Query q s)\<rparr>"
    have rest: "filter (wanted ?q) (rev (log_records s)) = drop ?l ?found" using next_page [OF assms] False by simp
    have "read_pages ?q s = Some (map sanitizeRecord (drop ?l ?found))"
      using less [of ?q] False limit_positive(1) [of q] unfolding rest by simp
    with False show ?thesis by (subst read_pages.simps) (simp add: query_page(1,2) not_le flip: map_append)
  qed
qed

section \<open>Reading the log\<close>

text \<open>C37. Paging through the log ends and shows every record once.  After fewer than \<open>2 ^ 64\<close> additions to a new
  store, a reader who starts anywhere and follows the cursor while there is more gets, newest first, exactly the records the
  query wants among the newest ones the capacity allows; their identifiers are consecutive, so none is
  missed or repeated, and no page is longer than the maximum.\<close>

theorem paging_enumerates_log:
  assumes "length adds < 2 ^ 64"
  shows "let s = log_adds adds (NewStore c) in
      read_pages q s = Some (map sanitizeRecord (filter (wanted q) (rev (log_records s))))
    \<and> map (unat \<circ> log_ID) (log_records s) = [Suc (length adds) - min (length adds) (capacity s)..<Suc (length adds)]
    \<and> length (page_Records (log_Query q s)) \<le> 200"
proof -
  let ?s = "log_adds adds (NewStore c)"
  have ok: "ids_ok (length adds) ?s" using adds_ids [OF new_store_ids, of adds c] assms by simp
  have "length (page_Records (log_Query q ?s)) \<le> 200" using limit_positive(2) [of q] by (simp add: query_page(2) min_def)
  with pages_enumerate [OF ok, of q] ok show ?thesis by (simp add: ids_ok_def Let_def del: upt_Suc)
qed

definition sample_record :: "string \<Rightarrow> log_record" where
  "sample_record m = \<lparr>log_ID = 0, log_Timestamp = t0, log_Level = ''info'', log_Component = [], log_Message = m,
     log_Fields = [(''Api-Key'', LString m)]\<rparr>"

definition newest_page :: log_query where
  "newest_page = \<lparr>lq_Limit = 1, lq_Cursor = 0, lq_Since = None, lq_Level = [], lq_Component = []\<rparr>"

lemma newest_page_all: "wanted newest_page = (\<lambda>_. True)"
  by (rule ext) (simp add: wanted_def newest_page_def Let_def level_upper_def to_lower_def trim_space_def runes_def)

theorem paging_enumerates_log_witness:
  "\<exists>rs. read_pages newest_page (log_adds [(t0, sample_record ''a''), (t0, sample_record ''b''), (t0, sample_record ''c'')] (NewStore 2))
      = Some rs \<and> map (unat \<circ> log_ID) rs = [3, 2]"
proof -
  let ?adds = "[(t0, sample_record ''a''), (t0, sample_record ''b''), (t0, sample_record ''c'')]"
  let ?s = "log_adds ?adds (NewStore 2)"
  have cap: "capacity ?s = 2" by (simp add: log_adds_def log_Add_def NewStore_def Let_def)
  have "(\<forall>q. read_pages q ?s = Some (map sanitizeRecord (filter (wanted q) (rev (log_records ?s)))))
      \<and> map (unat \<circ> log_ID) (log_records ?s) = [2, 3]"
    using paging_enumerates_log [of ?adds 2] by (simp add: Let_def cap upt_rec)
  moreover from this have "map (unat \<circ> log_ID) (rev (log_records ?s)) = [3, 2]" by (simp flip: rev_map)
  ultimately show ?thesis by (simp add: newest_page_all comp_def)
qed

section \<open>Redaction\<close>

text \<open>The names of secrets, as one writes them: a word in letters of either case, with separators anywhere.  The first words are secret at
  the end of any name, the others as a whole name.\<close>

fun spelled :: "string \<Rightarrow> string \<Rightarrow> bool" where
  "spelled w [] \<longleftrightarrow> w = []"
| "spelled w (c # k) \<longleftrightarrow>
     (if c \<in> {CHR ''_'', CHR ''-'', CHR ''.''} then spelled w k
      else w \<noteq> [] \<and> (c = hd w \<or> c = char_of (byte_of (hd w) - 32)) \<and> spelled (tl w) k)"

definition secret_endings :: "string list" where
  "secret_endings = [''password'', ''passwordhash'', ''token'', ''secret'', ''privatekey'', ''apikey'']"

definition secret_words :: "string list" where
  "secret_words = [''authorization'', ''bearer'', ''privatekeypath'', ''credential'', ''credentials'']"

definition secret_name :: "string \<Rightarrow> bool" where
  "secret_name key \<longleftrightarrow>
     list_ex (\<lambda>w. list_ex (\<lambda>i. spelled w (drop i key)) [0..<length key]) secret_endings \<or> list_ex (\<lambda>w. spelled w key) secret_words"

text \<open>What follows a string in ASCII does not change the code points of the string.\<close>

lemma continues_before_ascii: "ascii k \<Longrightarrow> 128 \<le> lo \<Longrightarrow> continues n lo hi (cs @ k) \<longleftrightarrow> continues n lo hi cs"
proof (induction n lo hi cs rule: continues.induct)
  case (2 n lo hi)
  then show ?case by (cases k) (auto simp: ascii_def)
qed auto

lemma cont_bits_before: "continues n lo hi cs \<Longrightarrow> cont_bits n a (cs @ k) = cont_bits n a cs \<and> n \<le> length cs"
  by (induction n lo hi cs arbitrary: a rule: continues.induct) auto

lemma decode_before_ascii:
  assumes "ascii k"
  shows "decode_rune c (cs @ k) = decode_rune c cs \<and> snd (decode_rune c cs) \<le> length cs"
proof (cases "lead_info (byte_of c)")
  case (Some x)
  obtain n lo hi where x: "x = (n, lo, hi)" by (metis prod_cases3)
  then have "n = 0 \<or> 128 \<le> lo" using Some by (auto simp: lead_info_def split: if_splits)
  then have "continues n lo hi (cs @ k) \<longleftrightarrow> continues n lo hi cs"
    using continues_before_ascii [OF assms] by auto
  then show ?thesis using cont_bits_before [of n lo hi cs] by (auto simp: decode_rune_def Some x)
qed (simp add: decode_rune_def)

lemma chunks_before_ascii: "ascii k \<Longrightarrow> chunks (p @ k) = chunks p @ chunks k"
proof (induction p rule: chunks.induct)
  case (2 c cs)
  then show ?case using decode_before_ascii [OF 2(2), of c cs] by (simp add: Let_def)
qed simp

lemma to_lower_ascii_end: "ascii k \<Longrightarrow> to_lower (p @ k) = to_lower p @ map ascii_lower k"
  using to_lower_ascii [of k] by (simp add: to_lower_def runes_def chunks_before_ascii)

lemma spelled_lower:
  assumes "spelled w k" and "list_all (\<lambda>c. 97 \<le> byte_of c \<and> byte_of c \<le> 122) w"
  shows "ascii k \<and> map ascii_lower (filter (\<lambda>c. c \<notin> set ''_-.'') k) = w"
  using assms
proof (induction w k rule: spelled.induct)
  case (2 w c k)
  show ?case
  proof (cases "c \<in> {CHR ''_'', CHR ''-'', CHR ''.''}")
    case True
    with 2 show ?thesis by (auto simp: ascii_def byte_of_def)
  next
    case False
    then obtain x w' where w: "w = x # w'" using 2 by (cases w) auto
    have "byte_of c < 128 \<and> ascii_lower c = x"
      using 2(3,4) False by (auto simp: w ascii_lower_def byte_of_le byte_of_def)
    with 2 False w show ?thesis by (auto simp: ascii_def)
  qed
qed (simp add: ascii_def)

lemma spelled_end:
  assumes "spelled w (drop i key)" and "list_all (\<lambda>c. 97 \<le> byte_of c \<and> byte_of c \<le> 122) w"
  shows "\<exists>p. to_lower (filter (\<lambda>c. c \<notin> set ''_-.'') key) = p @ w"
proof -
  let ?plain = "filter (\<lambda>c. c \<notin> set ''_-.'')"
  have low: "ascii (drop i key)" "map ascii_lower (?plain (drop i key)) = w" using spelled_lower [OF assms] by auto
  then have "ascii (?plain (drop i key))" by (auto simp: ascii_def list_all_iff)
  moreover have "?plain key = ?plain (take i key) @ ?plain (drop i key)" by (metis append_take_drop_id filter_append)
  ultimately have "to_lower (?plain key) = to_lower (?plain (take i key)) @ w" using to_lower_ascii_end low(2) by simp
  then show ?thesis by blast
qed

lemma secret_letters:
  "w \<in> set secret_endings \<union> set secret_words \<Longrightarrow> list_all (\<lambda>c. 97 \<le> byte_of c \<and> byte_of c \<le> 122) w"
  by (auto simp: secret_endings_def secret_words_def byte_of_def)

lemma secret_name_field: "secret_name key \<Longrightarrow> isSecretField key"
proof -
  let ?normalized = "to_lower (filter (\<lambda>c. c \<notin> set ''_-.'') key)"
  have lists: "set secret_endings \<subseteq> set secret_suffixes" "set secret_words \<subseteq> set secret_names"
    by (auto simp: secret_endings_def secret_suffixes_def secret_words_def secret_names_def)
  assume "secret_name key"
  then consider w i where "w \<in> set secret_endings" "spelled w (drop i key)" | w where "w \<in> set secret_words" "spelled w key"
    unfolding secret_name_def list_ex_iff by blast
  then show ?thesis
  proof cases
    case (1 w i)
    then obtain p where "?normalized = p @ w" using spelled_end secret_letters by blast
    then have "has_suffix ?normalized w" by (simp add: has_suffix_def)
    then show ?thesis using 1(1) lists(1) unfolding isSecretField_def Let_def list_ex_iff by blast
  next
    case (2 w)
    then have low: "ascii key" "map ascii_lower (filter (\<lambda>c. c \<notin> set ''_-.'') key) = w" using spelled_lower secret_letters by blast+
    have "ascii (filter (\<lambda>c. c \<notin> set ''_-.'') key)" using low(1) by (auto simp: ascii_def list_all_iff)
    then have "?normalized = w" using low(2) to_lower_ascii by metis
    then show ?thesis using 2(1) lists(2) unfolding isSecretField_def Let_def by blast
  qed
qed

text \<open>What a record may show: the value under a secret's name is the placeholder, at any depth, and bytes and errors have become text
  that went through the patterns.\<close>

fun json_hides :: "json \<Rightarrow> bool" where
  "json_hides (JObj kvs) = (\<forall>kv \<in> set kvs. (secret_name (fst kv) \<longrightarrow> snd kv = JStr RedactedValue) \<and> json_hides (snd kv))"
| "json_hides (JArr xs) = (\<forall>x \<in> set xs. json_hides x)"
| "json_hides _ = True"

fun hides :: "log_value \<Rightarrow> bool" where
  "hides (LMap members) = (\<forall>m \<in> set members. (secret_name (fst m) \<longrightarrow> snd m = LString RedactedValue) \<and> hides (snd m))"
| "hides (LList items) = (\<forall>v \<in> set items. hides v)"
| "hides (LStringMap items) = (\<forall>m \<in> set items. secret_name (fst m) \<longrightarrow> snd m = RedactedValue)"
| "hides (LOther v) = json_hides v"
| "hides (LBytes s) = False"
| "hides (LError s) = False"
| "hides v = True"

text \<open>The values the redaction goes through: those of other types have no members of their own.\<close>

fun walked :: "log_value \<Rightarrow> bool" where
  "walked (LMap members) = (\<forall>m \<in> set members. walked (snd m))"
| "walked (LList items) = (\<forall>v \<in> set items. walked v)"
| "walked (LOther v) = (case v of JObj _ \<Rightarrow> False | JArr _ \<Rightarrow> False | _ \<Rightarrow> True)"
| "walked v = True"

lemma sanitized_value: "walked v \<Longrightarrow> hides (sanitizeValue v)"
proof (induction v rule: sanitizeValue.induct)
  case (5 m ms)
  have "hides (sanitizeValue w)" if "(k, w) \<in> set (m # ms)" "\<not> isSecretField k" for k w
    using "5.IH" [OF that(1) refl that(2)] "5.prems" that(1) by force
  from this [of "fst x" "snd x" for x] show ?case using secret_name_field by (auto simp: split_beta)
qed (auto simp: redacted_string_def secret_name_field split: json.splits)

text \<open>C27. No page of the log shows a value under the name of a secret.  Every record of every page has a known level, and in its fields, at any
  depth of maps and lists, a value is the placeholder when its name is that of a secret: when it ends in \<open>password\<close>, \<open>passwordhash\<close>, \<open>token\<close>,
  \<open>secret\<close>, \<open>privatekey\<close> or \<open>apikey\<close>, or is \<open>authorization\<close>, \<open>bearer\<close>, \<open>privatekeypath\<close>, \<open>credential\<close> or \<open>credentials\<close>, in whatever case and with
  whatever separators it is written.  The values recorded are texts, errors, maps and lists of those, and values without members; the members of a
  map of another type are not looked at (\<open>other_maps_keep_secrets\<close>).\<close>

theorem log_pages_show_no_secret:
  assumes "\<forall>x \<in> set (log_records s). \<forall>(name, v) \<in> set (log_Fields x). walked v"
    and "r \<in> set (page_Records (log_Query q s))" and "(key, value) \<in> set (log_Fields r)"
  shows "log_Level r \<in> {''DEBUG'', ''INFO'', ''WARN'', ''ERROR''}
    \<and> (secret_name key \<longrightarrow> value = LString RedactedValue) \<and> hides value"
proof -
  obtain x where x: "x \<in> set (log_records s)" "r = sanitizeRecord x"
    using assms(2) by (force simp: query_page(2) dest: in_set_takeD)
  then obtain v where v: "(key, v) \<in> set (log_Fields x)" "value = (if isSecretField key then LString RedactedValue else sanitizeValue v)"
    using assms(3) by (auto simp: sanitizeRecord_def sanitizeFields_def sanitize_field_def)
  then have "walked v" using assms(1) x(1) by fastforce
  then show ?thesis using v(2) sanitized_value secret_name_field
    by (auto simp: x(2) sanitizeRecord_def normalizeLevel_def Let_def)
qed

lemma password_secret: "secret_name ''password''"
  by code_simp

text \<open>A list of maps is of another type: its secrets are stored and shown.\<close>

lemma other_maps_keep_secrets:
  "sanitize_field (''accounts'', LOther (JArr [JObj [(''password'', JStr ''hunter2'')]])) = (''accounts'', LOther (JArr [JObj [(''password'', JStr ''hunter2'')]]))"
  "\<not> hides (LOther (JArr [JObj [(''password'', JStr ''hunter2'')]]))"
  using password_secret
  by (simp_all add: sanitize_field_def isSecretField_def secret_names_def secret_suffixes_def Let_def str_eval RedactedValue_def)

lemma api_key_secret: "isSecretField ''Api-Key''"
  by (simp add: isSecretField_def secret_names_def secret_suffixes_def Let_def str_eval)

theorem log_pages_show_no_secret_witness:
  "\<exists>r. page_Records (log_Query newest_page (log_adds [(t0, sample_record ''a'')] (NewStore 2))) = [r]
     \<and> log_Fields r = [(''Api-Key'', LString RedactedValue)]"
proof -
  let ?s = "log_adds [(t0, sample_record ''a'')] (NewStore 2)"
  have "\<exists>x. log_records ?s = [x] \<and> log_Fields x = [(''Api-Key'', LString RedactedValue)]"
    using api_key_secret by (simp add: log_adds_def log_Add_def NewStore_def Let_def stamped_record_def sample_record_def sanitizeRecord_def
        sanitizeFields_def sanitize_field_def)
  then obtain x where x: "log_records ?s = [x]" "log_Fields x = [(''Api-Key'', LString RedactedValue)]" by blast
  have "page_limit newest_page = 1" by (simp add: page_limit_def newest_page_def MaximumPageSize_def)
  then have page: "page_Records (log_Query newest_page ?s) = [sanitizeRecord x]" by (simp add: query_page(2) newest_page_all x(1))
  then obtain v where v: "log_Fields (sanitizeRecord x) = [(''Api-Key'', v)]"
    using x(2) by (simp add: sanitizeRecord_def sanitizeFields_def sanitize_field_def)
  have "\<forall>y \<in> set (log_records ?s). \<forall>(name, w) \<in> set (log_Fields y). walked w" by (simp add: x)
  from log_pages_show_no_secret [OF this, of "sanitizeRecord x" newest_page "''Api-Key''" v]
  have "secret_name ''Api-Key'' \<longrightarrow> v = LString RedactedValue" by (simp add: page v)
  moreover have "secret_name ''Api-Key''" by code_simp
  ultimately show ?thesis using page v by simp
qed

section \<open>The process's own output\<close>

text \<open>The handler of the process's own output redacts an attribute by its name and the text of strings and errors, but not the
  members of a map: there a nested secret is written out, which the stored record does not show.\<close>

lemma output_keeps_nested_secrets:
  "redactAttr (''request'', LMap [(''password'', LString ''hunter2'')]) = (''request'', LMap [(''password'', LString ''hunter2'')])"
  "sanitize_field (''request'', LMap [(''password'', LString ''hunter2'')]) = (''request'', LMap [(''password'', LString RedactedValue)])"
  by (simp_all add: redactAttr_def sanitize_field_def isSecretField_def secret_names_def secret_suffixes_def Let_def str_eval)

section \<open>The line writer\<close>

text \<open>
  The line writer: what it emits does not depend on how the output reaches it.
\<close>

lemma split_plain: "sep \<notin> set s \<Longrightarrow> split_on sep s = [s]"
  by (induction s) auto

lemma split_line: "sep \<notin> set s \<Longrightarrow> split_on sep (s @ sep # t) = s # split_on sep t"
  by (induction s) auto

lemma split_ne [simp]: "split_on sep s \<noteq> []"
  by (induction s) (auto split: list.splits)

lemma split_prefix: "sep \<notin> set s \<Longrightarrow> hd (split_on sep (s @ t)) = s @ hd (split_on sep t)"
  by (induction s) (auto split: list.splits)

lemma split_cut:
  "split_on sep (s @ t) = butlast (split_on sep s) @ split_on sep (last (split_on sep s) @ t)"
proof (induction s)
  case (Cons c s)
  obtain x xs where x: "split_on sep s = x # xs" by (cases "split_on sep s") simp_all
  show ?case
  proof (cases xs)
    case Nil
    have "sep \<notin> set s"
    proof
      assume "sep \<in> set s"
      then obtain p q where "s = p @ sep # q" "sep \<notin> set p" by (metis split_list_first)
      then show False using x Nil split_line [of sep p q] by simp
    qed
    with Nil x have "s = x" by (simp add: split_plain)
    with Nil x show ?thesis by (cases "c = sep") simp_all
  next
    case (Cons y ys)
    with Cons.IH x show ?thesis by (auto split: list.splits)
  qed
qed simp

lemma last_split: "sep \<notin> set (last (split_on sep s))"
  by (induction s) (auto split: list.splits)

definition short_lines :: "string \<Rightarrow> bool" where
  "short_lines s \<longleftrightarrow> (\<forall>l \<in> set (split_on log_newline s). length l \<le> maximum_line)"

definition has_read :: "string \<Rightarrow> line_writer" where
  "has_read s = \<lparr>lw_buffer = last (split_on log_newline s), lw_lines = butlast (split_on log_newline s)\<rparr>"

lemma write_reads:
  "log_newline \<notin> set b \<Longrightarrow> short_lines (b @ v) \<Longrightarrow> line_Write v \<lparr>lw_buffer = b, lw_lines = ls\<rparr>
     = \<lparr>lw_buffer = last (split_on log_newline (b @ v)), lw_lines = ls @ butlast (split_on log_newline (b @ v))\<rparr>"
proof (induction "length v" arbitrary: v b ls rule: less_induct)
  case less
  show ?case
  proof (cases "log_newline \<in> set v")
    case False
    with less.prems have "split_on log_newline (b @ v) = [b @ v]" by (intro split_plain) simp
    with less.prems False show ?thesis by (subst line_Write.simps) (auto simp: short_lines_def Let_def)
  next
    case True
    then obtain l rest where v: "v = l @ log_newline # rest" "log_newline \<notin> set l" by (metis split_list_first)
    then have line: "takeWhile (\<lambda>c. c \<noteq> log_newline) v = l" by (simp add: takeWhile_append)
    have rest: "drop (Suc (length l)) v = rest" by (simp add: v(1))
    have sp: "split_on log_newline (b @ v) = (b @ l) # split_on log_newline rest"
      using split_line [of log_newline "b @ l" rest] v less.prems(1) by simp
    have "line_Write v \<lparr>lw_buffer = b, lw_lines = ls\<rparr> = line_Write rest \<lparr>lw_buffer = [], lw_lines = ls @ [b @ l]\<rparr>"
      using True rest by (subst line_Write.simps) (auto simp: Let_def line emit_buffer_def)
    also have "\<dots> = \<lparr>lw_buffer = last (split_on log_newline rest), lw_lines = (ls @ [b @ l]) @ butlast (split_on log_newline rest)\<rparr>"
      using less.hyps [of rest "[]" "ls @ [b @ l]"] less.prems(2) v sp by (simp add: short_lines_def)
    finally show ?thesis by (simp add: sp)
  qed
qed

lemma short_prefix:
  assumes "short_lines (s @ t)"
  shows "short_lines s"
proof -
  let ?l = "last (split_on log_newline s)"
  have "length l \<le> maximum_line" if "l \<in> set (butlast (split_on log_newline s))" for l
    using assms that unfolding short_lines_def split_cut [of log_newline s t] by simp
  moreover have "length ?l \<le> maximum_line"
  proof -
    have "length (hd (split_on log_newline (?l @ t))) \<le> maximum_line"
      using assms unfolding short_lines_def split_cut [of log_newline s t] by simp
    then show ?thesis by (simp add: split_prefix [OF last_split])
  qed
  moreover have "set (split_on log_newline s) = insert ?l (set (butlast (split_on log_newline s)))"
    by (metis append_butlast_last_id list.set(2) rotate1.simps(2) set_rotate1 split_ne)
  ultimately show ?thesis by (simp add: short_lines_def)
qed

lemma writes_read:
  "short_lines (s @ concat writes) \<Longrightarrow> fold line_Write writes (has_read s) = has_read (s @ concat writes)"
proof (induction writes arbitrary: s)
  case (Cons c cs)
  have "short_lines (s @ c)" using short_prefix [of "s @ c" "concat cs"] Cons.prems by simp
  then have "short_lines (last (split_on log_newline s) @ c)"
    unfolding short_lines_def split_cut [of log_newline s c] by simp
  then have "line_Write c (has_read s) = has_read (s @ c)"
    unfolding has_read_def using write_reads [OF last_split] by (simp add: split_cut [of log_newline s c] butlast_append)
  with Cons.IH [of "s @ c"] Cons.prems show ?case by simp
qed simp

text \<open>C38. The lines the log records do not depend on how the output arrives.  However a text whose lines are at most 64 KiB is cut
  into writes, the writer emits, after the final flush, exactly its lines: the pieces between newlines, the
  last one only when it is not empty.\<close>

theorem lines_do_not_depend_on_writes:
  assumes "\<forall>l \<in> set (split_on log_newline (concat writes)). length l \<le> maximum_line"
  shows "lw_lines (Flush (fold line_Write writes \<lparr>lw_buffer = [], lw_lines = []\<rparr>))
    = (let pieces = split_on log_newline (concat writes) in if last pieces = [] then butlast pieces else pieces)"
proof -
  have "fold line_Write writes \<lparr>lw_buffer = [], lw_lines = []\<rparr> = has_read (concat writes)"
    using writes_read [of "[]" writes] assms by (simp add: short_lines_def has_read_def)
  then show ?thesis by (simp add: Flush_def emit_buffer_def has_read_def Let_def)
qed

theorem lines_do_not_depend_on_writes_witness:
  "lw_lines (Flush (fold line_Write [''a'', ''b'' @ [log_newline] @ ''c''] \<lparr>lw_buffer = [], lw_lines = []\<rparr>)) = [''ab'', ''c'']"
proof -
  have pieces: "split_on log_newline (concat [''a'', ''b'' @ [log_newline] @ ''c'']) = [''ab'', ''c'']"
    by (simp add: log_newline_def)
  have "\<forall>l \<in> set (split_on log_newline (concat [''a'', ''b'' @ [log_newline] @ ''c''])). length l \<le> maximum_line"
    unfolding pieces by (simp add: maximum_line_def)
  from lines_do_not_depend_on_writes [OF this] show ?thesis unfolding pieces by (simp add: Let_def)
qed

end
