(* ===== verification/Config_Service.thy ===== *)
theory Config_Service
  imports Resource_Services
begin

text \<open>
  Exporting and importing a configuration (\<^verbatim>\<open>app/config_service.go\<close>).  YAML, the password hash, the check of a
  directory, the random source and the identifiers are the libraries' and the system's: \<open>ids k\<close> is what the
  k-th call of the generator returns.
\<close>

section \<open>Export\<close>

definition ConfigService_Export :: "(document \<Rightarrow> string option) \<Rightarrow> (store, string) service" where
  "ConfigService_Export encode =
     and_then (mapped (\<lambda>_. databaseError) (query_call Snapshot)) (\<lambda>snapshot.
     give (case Export snapshot of
         Inl _ \<Rightarrow> Inl (AppError CodeConfigExportFailed ''Configuration could not be exported'')
       | Inr doc \<Rightarrow> (case encode doc of
             None \<Rightarrow> Inl (AppError CodeConfigExportFailed ''Configuration could not be exported'')
           | Some body \<Rightarrow> Inr body)))"

section \<open>What an import prepares\<close>

definition mapConfigFileError :: "config_error \<Rightarrow> app_error" where
  "mapConfigFileError err =
     (if config_error_Code err = CodeUnsupported
      then AppError CodeConfigVersionUnsupported ''Configuration version is unsupported''
      else AppError CodeConfigImportInvalid ''Configuration is invalid'')"

definition check_share_path :: "path_validator \<Rightarrow> doc_share \<Rightarrow> app_error option" where
  "check_share_path paths s =
     (if doc_share_Enabled s = Some True \<and> paths (doc_Path s) \<noteq> None
      then Some (AppError CodeConfigImportInvalid ''An enabled share path failed validation'') else None)"

text \<open>\<^verbatim>\<open>base64.RawURLEncoding\<close>: three bytes are four digits, a rest is two or three.\<close>

definition url_digit :: "nat \<Rightarrow> char" where
  "url_digit n = char_of (if n < 26 then n + 65 else if n < 52 then n + 71 else if n < 62 then n - 4
     else if n = 62 then 45 else 95)"

fun RawURLEncoding :: "string \<Rightarrow> string" where
  "RawURLEncoding (a # b # c # rest) =
     map url_digit [byte_of a div 4, byte_of a mod 4 * 16 + byte_of b div 16,
       byte_of b mod 16 * 4 + byte_of c div 64, byte_of c mod 64] @ RawURLEncoding rest"
| "RawURLEncoding [a, b] =
     map url_digit [byte_of a div 4, byte_of a mod 4 * 16 + byte_of b div 16, byte_of b mod 16 * 4]"
| "RawURLEncoding [a] = map url_digit [byte_of a div 4, byte_of a mod 4 * 16]"
| "RawURLEncoding [] = []"

definition placeholder_hash :: "hasher \<Rightarrow> string option \<Rightarrow> document \<Rightarrow> app_error + string" where
  "placeholder_hash hash random doc =
     (if doc_Users doc = [] then Inr []
      else case random of None \<Rightarrow> Inl databaseError
      | Some bytes \<Rightarrow>
          if length bytes \<noteq> 32 then Inl databaseError
          else (case hash (RawURLEncoding bytes) of
              None \<Rightarrow> Inl (AppError CodeConfigImportInvalid ''Imported user placeholder credential could not be secured'')
            | Some h \<Rightarrow> Inr h))"

fun draw_ids :: "(nat \<Rightarrow> new_ID) \<Rightarrow> nat \<Rightarrow> string list \<Rightarrow> (string \<times> ident) list \<Rightarrow> app_error + (string \<times> ident) list" where
  "draw_ids ids k [] drawn = Inr drawn"
| "draw_ids ids k (key # keys) drawn =
     (case generated (ids k) of Inl e \<Rightarrow> Inl e | Inr i \<Rightarrow> draw_ids ids (Suc k) keys (AList.update key i drawn))"

definition import_seed_of :: "(nat \<Rightarrow> new_ID) \<Rightarrow> timestamp \<Rightarrow> string \<Rightarrow> document \<Rightarrow> app_error + import_seed" where
  "import_seed_of ids stamp h doc =
     (let names = map (NormalizeUsername \<circ> doc_Username) (doc_Users doc); slugs = map doc_Slug (doc_Shares doc) in
      case draw_ids ids 0 names [] of Inl e \<Rightarrow> Inl e
      | Inr users \<Rightarrow>
          (case draw_ids ids (length names) slugs [] of Inl e \<Rightarrow> Inl e
           | Inr shares \<Rightarrow>
               (case (case TLS doc of None \<Rightarrow> Inr [] | Some _ \<Rightarrow> generated (ids (length names + length slugs))) of
                  Inl e \<Rightarrow> Inl e
                | Inr tls \<Rightarrow> Inr
                    \<lparr>seed_Document = doc, UserIDs = users, UserHashes = map (\<lambda>(n, _). (n, h)) users, ShareIDs = shares,
                     TLSID = tls, Timestamp = stamp\<rparr>)))"

section \<open>Import\<close>

definition mapImportError :: "db_error \<Rightarrow> app_error" where
  "mapImportError err =
     (if err = ErrConfigImportConflict
      then AppError CodeConfigImportInvalid ''Configuration references missing or conflicting resources''
      else databaseError)"

definition finished_import :: "import_result \<Rightarrow> import_result" where
  "finished_import r = r\<lparr>PasswordResetRequired := sort_key NormalizeUsername (PasswordResetRequired r), PendingApply := True\<rparr>"

definition ConfigService_Import ::
  "yaml_library \<Rightarrow> path_validator \<Rightarrow> hasher \<Rightarrow> string option \<Rightarrow> (nat \<Rightarrow> new_ID) \<Rightarrow> timestamp \<Rightarrow> string
     \<Rightarrow> (store, import_result) service" where
  "ConfigService_Import y paths hash random ids now body =
     and_then (give (map_error mapConfigFileError (Parse y body))) (\<lambda>doc.
     and_then (require (first_err (map (check_share_path paths) (doc_Shares doc)))) (\<lambda>_.
     and_then (give (stamped now)) (\<lambda>stamp.
     and_then (give (placeholder_hash hash random doc)) (\<lambda>h.
     and_then (give (import_seed_of ids stamp h doc)) (\<lambda>seed.
     and_then (mapped mapImportError (operation_call (Config_Import seed))) (\<lambda>result.
     give (Inr (finished_import result))))))))"

end
