(* ===== verification/Import_Properties.thy ===== *)
theory Import_Properties
  imports Config_Service Store_Properties Document_Properties
begin

text \<open>
  What an import leaves in the database: the document's users and shares, every credential that was there, and
  nothing when it fails.
\<close>

section \<open>The steps one by one\<close>

text \<open>The tables an import does not touch.\<close>

definition untouched :: "db \<Rightarrow> (dns_credential list \<times> (ident \<times> string) list \<times> config_revision list) \<times> ident option \<times> ident option \<times> int" where
  "untouched d = ((t_dns d, t_secrets d, t_revisions d), desired_revision_id d, active_revision_id d, next_number d)"

definition same_users :: "import_tx \<Rightarrow> import_tx \<Rightarrow> bool" where
  "same_users x y \<longleftrightarrow> t_users (tx_db y) = t_users (tx_db x)
     \<and> PasswordResetRequired (tx_result y) = PasswordResetRequired (tx_result x)"

lemma untouched_triggers [simp]:
  "untouched (with_triggers a d) = untouched d" "t_users (with_triggers a d) = t_users d" "t_shares (with_triggers a d) = t_shares d"
  "untouched (mark_dirty d) = untouched d" "t_users (mark_dirty d) = t_users d" "t_shares (mark_dirty d) = t_shares d"
  by (simp_all add: untouched_def with_triggers_def mark_dirty_def)

lemmas import_simps = steps_def run_statement_def count_result_def same_users_def

lemma import_server_fixed:
  "import_server stamp s x = Inr y \<Longrightarrow> untouched (tx_db y) = untouched (tx_db x) \<and> same_users x y \<and> t_shares (tx_db y) = t_shares (tx_db x)"
  by (auto simp: import_server_def import_simps update_settings_def split: option.splits sum.splits if_splits)
     (simp_all add: untouched_def)

lemma upsert_tls_keeps:
  "upsert_tls p d = Inr d' \<Longrightarrow> untouched d' = untouched d \<and> t_users d' = t_users d \<and> t_shares d' = t_shares d"
  by (simp only: upsert_tls_def split: option.splits) (auto simp: untouched_def mark_dirty_def)

lemma replaced_tls_keeps:
  "steps [run_statement (\<lambda>d. Inr (delete_tls P d)), run_statement (upsert_tls p), count_result (\<lambda>r. r\<lparr>TLSUpdated := True\<rparr>)] x = Inr y \<Longrightarrow>
     untouched (tx_db y) = untouched (tx_db x) \<and> same_users x y \<and> t_shares (tx_db y) = t_shares (tx_db x)"
  by (auto simp: import_simps delete_tls_def split: sum.splits dest!: upsert_tls_keeps) (simp_all add: untouched_def with_triggers_def mark_dirty_def split: if_splits)

lemma import_tls_fixed:
  assumes "import_tls seed t x = Inr y"
  shows "untouched (tx_db y) = untouched (tx_db x) \<and> same_users x y \<and> t_shares (tx_db y) = t_shares (tx_db x)"
proof -
  obtain P p where "steps [run_statement (\<lambda>d. Inr (delete_tls P d)), run_statement (upsert_tls p),
      count_result (\<lambda>r. r\<lparr>TLSUpdated := True\<rparr>)] x = Inr y"
    using assms unfolding import_tls_def Let_def by (auto split: sum.splits list.splits option.splits if_splits)
  then show ?thesis by (rule replaced_tls_keeps)
qed

lemma import_permission_fixed:
  "import_permission seed i e x = Inr y \<Longrightarrow> untouched (tx_db y) = untouched (tx_db x) \<and> same_users x y \<and> t_shares (tx_db y) = t_shares (tx_db x)"
  by (cases e) (auto simp: import_permission_def import_simps upsert_permission_def insert_permission_def untouched_def mark_dirty_def Let_def
      split: option.splits sum.splits if_splits)

lemma import_user_cases:
  assumes "import_user seed u x = Inr y"
  obtains (updated) r enabled where "r \<in> set (t_users (tx_db x))" "UsernameNormalized r = NormalizeUsername (doc_Username u)"
      "doc_user_Enabled u = Some enabled" "untouched (tx_db y) = untouched (tx_db x)" "t_shares (tx_db y) = t_shares (tx_db x)"
      "PasswordResetRequired (tx_result y) = PasswordResetRequired (tx_result x)"
      "t_users (tx_db y) = update_where (\<lambda>v. user_ID v = user_ID r)
         (\<lambda>v. v\<lparr>Username := doc_Username u, user_Enabled := enabled, user_UpdatedAt := Timestamp seed\<rparr>) (t_users (tx_db x))"
  | (created) v enabled where "UsernameNormalized v = NormalizeUsername (doc_Username u)" "Username v = doc_Username u"
      "doc_user_Enabled u = Some enabled" "user_Enabled v = enabled" "PasswordHash v = map_index (UserHashes seed) (UsernameNormalized v) \<and> PasswordHash v \<noteq> []"
      "UsernameNormalized v \<notin> UsernameNormalized ` set (t_users (tx_db x))" "user_ID v \<notin> user_ID ` set (t_users (tx_db x))"
      "untouched (tx_db y) = untouched (tx_db x)" "t_shares (tx_db y) = t_shares (tx_db x)"
      "t_users (tx_db y) = t_users (tx_db x) @ [v]"
      "PasswordResetRequired (tx_result y) = PasswordResetRequired (tx_result x) @ [doc_Username u]"
proof (cases "find (\<lambda>r. UsernameNormalized r = NormalizeUsername (doc_Username u)) (t_users (tx_db x))")
  case None
  then have "\<forall>r \<in> set (t_users (tx_db x)). UsernameNormalized r \<noteq> NormalizeUsername (doc_Username u)" by (simp add: find_None_iff)
  with None assms show thesis
    by (intro created [of "hd (rev (t_users (tx_db y)))" "the (doc_user_Enabled u)"])
       (auto simp: import_user_def import_simps insert_user_def Let_def untouched_def mark_dirty_def split: option.splits sum.splits if_splits)
next
  case (Some r)
  then have r: "r \<in> set (t_users (tx_db x))" "UsernameNormalized r = NormalizeUsername (doc_Username u)"
    by (auto simp: find_Some_iff)
  from Some assms show thesis
    by (intro updated [OF r, of "the (doc_user_Enabled u)"])
       (auto simp: import_user_def import_simps update_user_def with_triggers_def ParseID_def untouched_def mark_dirty_def Let_def
         split: option.splits sum.splits if_splits)
qed

lemma import_share_cases:
  assumes "import_share seed s x = Inr y"
  obtains (updated) r enabled where "r \<in> set (t_shares (tx_db x))" "Slug r = doc_Slug s"
      "doc_share_Enabled s = Some enabled" "untouched (tx_db y) = untouched (tx_db x)" "same_users x y"
      "t_shares (tx_db y) = update_where (\<lambda>v. share_ID v = share_ID r)
         (\<lambda>v. v\<lparr>share_Name := doc_Name s, Slug := doc_Slug s, Path := doc_Path s, share_Enabled := enabled,
            share_UpdatedAt := Timestamp seed\<rparr>) (t_shares (tx_db x))"
  | (created) v enabled where "Slug v = doc_Slug s" "share_Name v = doc_Name s" "Path v = doc_Path s"
      "doc_share_Enabled s = Some enabled" "share_Enabled v = enabled"
      "Slug v \<notin> Slug ` set (t_shares (tx_db x))" "share_ID v \<notin> share_ID ` set (t_shares (tx_db x))"
      "untouched (tx_db y) = untouched (tx_db x)" "same_users x y" "t_shares (tx_db y) = t_shares (tx_db x) @ [v]"
proof (cases "find (\<lambda>r. Slug r = doc_Slug s) (t_shares (tx_db x))")
  case None
  with assms show thesis
    by (intro created [of "hd (rev (t_shares (tx_db y)))" "the (doc_share_Enabled s)"])
       (auto simp: import_share_def import_simps insert_share_def Let_def untouched_def mark_dirty_def split: option.splits sum.splits if_splits)
next
  case (Some r)
  then have r: "r \<in> set (t_shares (tx_db x))" "Slug r = doc_Slug s" by (auto simp: find_Some_iff)
  from Some assms show thesis
    by (intro updated [OF r, of "the (doc_share_Enabled s)"])
       (auto simp: import_share_def import_simps update_share_def with_triggers_def ParseID_def untouched_def mark_dirty_def r(2) Let_def
         split: option.splits sum.splits if_splits)
qed

section \<open>The users\<close>

definition realizes_user :: "doc_user \<Rightarrow> user \<Rightarrow> bool" where
  "realizes_user e v \<longleftrightarrow> UsernameNormalized v = NormalizeUsername (doc_Username e) \<and> Username v = doc_Username e
     \<and> doc_user_Enabled e = Some (user_Enabled v)"

definition same_login :: "user \<Rightarrow> user \<Rightarrow> bool" where
  "same_login u v \<longleftrightarrow> user_ID v = user_ID u \<and> UsernameNormalized v = UsernameNormalized u \<and> PasswordHash v = PasswordHash u"

definition must_reset :: "import_seed \<Rightarrow> string list \<Rightarrow> user \<Rightarrow> bool" where
  "must_reset seed names v \<longleftrightarrow> PasswordHash v = map_index (UserHashes seed) (UsernameNormalized v) \<and> PasswordHash v \<noteq> []
     \<and> (\<exists>n \<in> set names. NormalizeUsername n = UsernameNormalized v)"

definition users_imported :: "user list \<Rightarrow> import_seed \<Rightarrow> doc_user list \<Rightarrow> import_tx \<Rightarrow> bool" where
  "users_imported us seed before x \<longleftrightarrow> users_ok (t_users (tx_db x))
     \<and> (\<forall>u \<in> set us. \<exists>v \<in> set (t_users (tx_db x)). same_login u v)
     \<and> (\<forall>v \<in> set (t_users (tx_db x)). user_ID v \<in> user_ID ` set us \<or> must_reset seed (PasswordResetRequired (tx_result x)) v)
     \<and> (\<forall>e \<in> set before. \<exists>v \<in> set (t_users (tx_db x)). realizes_user e v)
     \<and> (\<forall>u \<in> set us. UsernameNormalized u \<notin> (NormalizeUsername \<circ> doc_Username) ` set before \<longrightarrow> u \<in> set (t_users (tx_db x)))"

lemma update_where_one:
  assumes "distinct (map k xs)" and "r \<in> set xs"
  shows "set (update_where (\<lambda>v. k v = k r) f xs) = insert (f r) (set xs - {r})"
proof -
  have "k v = k r \<longleftrightarrow> v = r" if "v \<in> set xs" for v using that assms by (metis distinct_map_eq)
  then have "set (update_where (\<lambda>v. k v = k r) f xs) = (\<lambda>v. if v = r then f v else v) ` set xs"
    by (auto simp: update_where_def)
  then show ?thesis using assms(2) by auto
qed

lemma update_where_keys:
  assumes "\<And>v. v \<in> set xs \<Longrightarrow> P v \<Longrightarrow> g (f v) = g v"
  shows "map g (update_where P f xs) = map g xs"
  using assms by (simp add: update_where_def)

lemma import_user_step:
  assumes "users_imported us seed before x" and "import_user seed e x = Inr y"
    and "NormalizeUsername (doc_Username e) \<notin> (NormalizeUsername \<circ> doc_Username) ` set before"
  shows "users_imported us seed (before @ [e]) y"
  using assms(2)
proof (cases rule: import_user_cases)
  case (updated r enabled)
  let ?f = "\<lambda>v. v\<lparr>Username := doc_Username e, user_Enabled := enabled, user_UpdatedAt := Timestamp seed\<rparr>"
  have ids: "distinct (map user_ID (t_users (tx_db x)))" using assms(1) by (simp add: users_imported_def users_ok_def)
  have rows: "set (t_users (tx_db y)) = insert (?f r) (set (t_users (tx_db x)) - {r})"
    unfolding updated(7) using ids updated(1) by (rule update_where_one)
  have ok: "users_ok (t_users (tx_db y))"
    using assms(1) unfolding updated(7) users_imported_def users_ok_def by (simp add: update_where_keys)
  have login: "\<exists>v \<in> set (t_users (tx_db y)). same_login u v" if "u \<in> set us" for u
  proof -
    obtain v where "v \<in> set (t_users (tx_db x))" "same_login u v" using assms(1) \<open>u \<in> set us\<close> by (auto simp: users_imported_def)
    then show ?thesis unfolding rows by (cases "v = r") (auto simp: same_login_def)
  qed
  have reset: "user_ID v \<in> user_ID ` set us \<or> must_reset seed (PasswordResetRequired (tx_result y)) v"
    if "v \<in> set (t_users (tx_db y))" for v
    using that assms(1) updated(1) unfolding rows updated(6) users_imported_def by (auto simp: must_reset_def)
  have done_before: "\<exists>v \<in> set (t_users (tx_db y)). realizes_user d v" if d: "d \<in> set before" for d
  proof -
    have "\<forall>e \<in> set before. \<exists>v \<in> set (t_users (tx_db x)). realizes_user e v" using assms(1) by (simp add: users_imported_def)
    then obtain v where v: "v \<in> set (t_users (tx_db x))" "realizes_user d v" using d by blast
    moreover have "v \<noteq> r"
    proof
      assume "v = r"
      with v(2) updated(2) have "NormalizeUsername (doc_Username d) = NormalizeUsername (doc_Username e)" by (simp add: realizes_user_def)
      with d assms(3) show False by (metis comp_apply image_eqI)
    qed
    ultimately show ?thesis unfolding rows by blast
  qed
  have others: "u \<in> set (t_users (tx_db y))"
    if "u \<in> set us" "UsernameNormalized u \<notin> (NormalizeUsername \<circ> doc_Username) ` set (before @ [e])" for u
    using assms(1) that updated(2) unfolding rows users_imported_def by auto
  have "realizes_user e (?f r)" using updated(2,3) by (simp add: realizes_user_def)
  then show ?thesis using ok login reset done_before others rows unfolding users_imported_def by auto
next
  case (created v enabled)
  have "realizes_user e v" "must_reset seed (PasswordResetRequired (tx_result y)) v"
    using created by (auto simp: realizes_user_def must_reset_def)
  moreover have "must_reset seed (PasswordResetRequired (tx_result x)) w \<Longrightarrow> must_reset seed (PasswordResetRequired (tx_result y)) w" for w
    unfolding created(11) by (auto simp: must_reset_def)
  ultimately show ?thesis
    using assms(1) created(6,7) unfolding users_imported_def users_ok_def created(10) by (auto simp del: created)
qed

lemma import_users_step:
  "for_each (import_user seed) es x = Inr y \<Longrightarrow> users_imported us seed before x \<Longrightarrow>
     distinct (map (NormalizeUsername \<circ> doc_Username) (before @ es)) \<Longrightarrow>
     users_imported us seed (before @ es) y \<and> untouched (tx_db y) = untouched (tx_db x) \<and> t_shares (tx_db y) = t_shares (tx_db x)"
proof (induction es arbitrary: before x)
  case (Cons e es)
  then obtain z where z: "import_user seed e x = Inr z" "for_each (import_user seed) es z = Inr y" by (auto split: sum.splits)
  have "users_imported us seed (before @ [e]) z"
    using Cons.prems(2) z(1) by (rule import_user_step) (use Cons.prems(3) in auto)
  moreover have "untouched (tx_db z) = untouched (tx_db x)" "t_shares (tx_db z) = t_shares (tx_db x)"
    using z(1) by (rule import_user_cases; simp)+
  ultimately show ?case using Cons.IH [OF z(2), of "before @ [e]"] Cons.prems(3) by simp
qed simp

section \<open>The shares\<close>

definition realizes_share :: "doc_share \<Rightarrow> share \<Rightarrow> bool" where
  "realizes_share e v \<longleftrightarrow> Slug v = doc_Slug e \<and> share_Name v = doc_Name e \<and> Path v = doc_Path e
     \<and> doc_share_Enabled e = Some (share_Enabled v)"

definition shares_imported :: "share list \<Rightarrow> doc_share list \<Rightarrow> import_tx \<Rightarrow> bool" where
  "shares_imported ss before x \<longleftrightarrow> shares_ok (t_shares (tx_db x))
     \<and> (\<forall>s \<in> set ss. \<exists>v \<in> set (t_shares (tx_db x)). share_ID v = share_ID s \<and> Slug v = Slug s)
     \<and> (\<forall>e \<in> set before. \<exists>v \<in> set (t_shares (tx_db x)). realizes_share e v)
     \<and> (\<forall>s \<in> set ss. Slug s \<notin> doc_Slug ` set before \<longrightarrow> s \<in> set (t_shares (tx_db x)))"

lemma import_share_step:
  assumes "shares_imported ss before x" and "import_share seed e x = Inr y" and "doc_Slug e \<notin> doc_Slug ` set before"
  shows "shares_imported ss (before @ [e]) y \<and> untouched (tx_db y) = untouched (tx_db x) \<and> same_users x y"
  using assms(2)
proof (cases rule: import_share_cases)
  case (updated r enabled)
  let ?f = "\<lambda>v. v\<lparr>share_Name := doc_Name e, Slug := doc_Slug e, Path := doc_Path e, share_Enabled := enabled,
    share_UpdatedAt := Timestamp seed\<rparr>"
  have ids: "distinct (map share_ID (t_shares (tx_db x)))" using assms(1) by (simp add: shares_imported_def shares_ok_def)
  have rows: "set (t_shares (tx_db y)) = insert (?f r) (set (t_shares (tx_db x)) - {r})"
    unfolding updated(6) using ids updated(1) by (rule update_where_one)
  have "Slug v = doc_Slug e" if "v \<in> set (t_shares (tx_db x))" "share_ID v = share_ID r" for v
    using ids that updated(1,2) by (metis distinct_map_eq)
  then have "map Slug (t_shares (tx_db y)) = map Slug (t_shares (tx_db x))" "map share_ID (t_shares (tx_db y)) = map share_ID (t_shares (tx_db x))"
    unfolding updated(6) by (auto intro!: update_where_keys)
  then have ok: "shares_ok (t_shares (tx_db y))" using assms(1) by (simp add: shares_imported_def shares_ok_def)
  have kept: "\<exists>v \<in> set (t_shares (tx_db y)). share_ID v = share_ID s \<and> Slug v = Slug s" if s: "s \<in> set ss" for s
  proof -
    obtain v where "v \<in> set (t_shares (tx_db x))" "share_ID v = share_ID s \<and> Slug v = Slug s"
      using assms(1) s by (auto simp: shares_imported_def)
    then show ?thesis unfolding rows using updated(2) by (cases "v = r") auto
  qed
  have done_before: "\<exists>v \<in> set (t_shares (tx_db y)). realizes_share d v" if d: "d \<in> set before" for d
  proof -
    have "\<forall>e \<in> set before. \<exists>v \<in> set (t_shares (tx_db x)). realizes_share e v" using assms(1) by (simp add: shares_imported_def)
    then obtain v where v: "v \<in> set (t_shares (tx_db x))" "realizes_share d v" using d by blast
    moreover have "v \<noteq> r"
    proof
      assume "v = r"
      with v(2) updated(2) have "doc_Slug d = doc_Slug e" by (simp add: realizes_share_def)
      with d assms(3) show False by (metis image_eqI)
    qed
    ultimately show ?thesis unfolding rows by blast
  qed
  have others: "s \<in> set (t_shares (tx_db y))" if "s \<in> set ss" "Slug s \<notin> doc_Slug ` set (before @ [e])" for s
    using assms(1) that updated(2) unfolding rows shares_imported_def by auto
  have "realizes_share e (?f r)" using updated(3) by (simp add: realizes_share_def)
  then show ?thesis using ok kept done_before others rows updated(4,5) unfolding shares_imported_def by auto
next
  case (created v enabled)
  have "realizes_share e v" using created by (simp add: realizes_share_def)
  then show ?thesis
    using assms(1) created(6-9) unfolding shares_imported_def shares_ok_def created(10) by auto
qed

lemma same_users_trans: "same_users x y \<Longrightarrow> same_users y z \<Longrightarrow> same_users x z"
  by (simp add: same_users_def)

lemma import_shares_step:
  "for_each (import_share seed) es x = Inr y \<Longrightarrow> shares_imported ss before x \<Longrightarrow> distinct (map doc_Slug (before @ es)) \<Longrightarrow>
     shares_imported ss (before @ es) y \<and> untouched (tx_db y) = untouched (tx_db x) \<and> same_users x y"
proof (induction es arbitrary: before x)
  case (Cons e es)
  then obtain z where z: "import_share seed e x = Inr z" "for_each (import_share seed) es z = Inr y" by (auto split: sum.splits)
  have "shares_imported ss (before @ [e]) z \<and> untouched (tx_db z) = untouched (tx_db x) \<and> same_users x z"
    using Cons.prems(2) z(1) by (rule import_share_step) (use Cons.prems(3) in auto)
  then show ?case using Cons.IH [OF z(2), of "before @ [e]"] Cons.prems(3) same_users_trans by auto
qed (simp add: same_users_def)

section \<open>The whole transaction\<close>

text \<open>Whatever the steps, a part of the state they all leave alone stays.\<close>

lemma for_each_keeps_part:
  assumes "for_each body es x = Inr y" and "\<And>e x y. e \<in> set es \<Longrightarrow> body e x = Inr y \<Longrightarrow> part y = part x"
  shows "part y = part x"
  using assms
proof (induction es arbitrary: x)
  case (Cons e es)
  from Cons.prems(1) obtain z where z: "body e x = Inr z" "for_each body es z = Inr y" by (auto split: sum.splits)
  have "part y = part z" by (rule Cons.IH [OF z(2)], rule Cons.prems(2)) simp_all
  with Cons.prems(2) [of e x z] z(1) show ?case by simp
qed simp

definition fixed_part :: "import_tx \<Rightarrow> _" where
  "fixed_part x = (untouched (tx_db x), t_users (tx_db x), t_shares (tx_db x), PasswordResetRequired (tx_result x))"

lemma fixed_part_eq:
  "fixed_part y = fixed_part x \<longleftrightarrow>
     untouched (tx_db y) = untouched (tx_db x) \<and> same_users x y \<and> t_shares (tx_db y) = t_shares (tx_db x)"
  by (auto simp: fixed_part_def same_users_def)

lemma import_permissions_keep: "import_permissions seed s x = Inr y \<Longrightarrow> fixed_part y = fixed_part x"
  unfolding import_permissions_def by (erule for_each_keeps_part) (simp add: fixed_part_eq import_permission_fixed)

lemma for_each_id: "for_each (\<lambda>s. s) (map f xs) x = for_each f xs x"
  by (induction xs arbitrary: x) (simp_all split: sum.splits)

lemma import_runs:
  assumes "Config_Import seed d = (d', Inr result)"
  obtains x y z w where "fixed_part x = fixed_part \<lparr>tx_db = d, tx_result = zero_result, tx_userIDs = [], tx_shareIDs = []\<rparr>"
    "for_each (import_user seed) (doc_Users (seed_Document seed)) x = Inr y"
    "for_each (import_share seed) (doc_Shares (seed_Document seed)) y = Inr z"
    "fixed_part w = fixed_part z" "d' = tx_db w" "result = tx_result w"
proof -
  let ?doc = "seed_Document seed" and ?start = "\<lparr>tx_db = d, tx_result = zero_result, tx_userIDs = [], tx_shareIDs = []\<rparr>"
  let ?server = "case Server ?doc of None \<Rightarrow> [] | Some s \<Rightarrow> [import_server (Timestamp seed) s]"
  let ?tls = "case TLS ?doc of None \<Rightarrow> [] | Some t \<Rightarrow> [import_tls seed t]"
  obtain w where w: "for_each (\<lambda>s. s) (import_plan seed) ?start = Inr w" "d' = tx_db w" "result = tx_result w"
    using assms by (auto simp: Config_Import_def steps_def split: sum.splits)
  then obtain x y z where x: "for_each (\<lambda>s. s) (?server @ ?tls) ?start = Inr x"
    and y: "for_each (import_user seed) (doc_Users ?doc) x = Inr y" and z: "for_each (import_share seed) (doc_Shares ?doc) y = Inr z"
    and w': "for_each (import_permissions seed) (doc_Shares ?doc) z = Inr w"
    by (auto simp: import_plan_def Let_def for_each_append for_each_id split: sum.splits)
  have "fixed_part b = fixed_part a" if "s \<in> set (?server @ ?tls)" "s a = Inr b" for s a b
    using that import_server_fixed import_tls_fixed by (fastforce simp: fixed_part_eq split: option.splits)
  then have "fixed_part x = fixed_part ?start" by (rule for_each_keeps_part [OF x])
  moreover have "fixed_part w = fixed_part z" by (rule for_each_keeps_part [OF w']) (rule import_permissions_keep)
  ultimately show thesis using y z w(2,3) that by blast
qed

lemma Config_Import_result:
  assumes "Config_Import seed d = (d', Inr result)" and "users_ok (t_users d)" and "shares_ok (t_shares d)"
    and "distinct (map (NormalizeUsername \<circ> doc_Username) (doc_Users (seed_Document seed)))"
    and "distinct (map doc_Slug (doc_Shares (seed_Document seed)))"
  shows "\<exists>y. t_users d' = t_users (tx_db y) \<and> PasswordResetRequired result = PasswordResetRequired (tx_result y)
      \<and> users_imported (t_users d) seed (doc_Users (seed_Document seed)) y"
    and "\<exists>z. t_shares d' = t_shares (tx_db z) \<and> shares_imported (t_shares d) (doc_Shares (seed_Document seed)) z"
    and "untouched d' = untouched d"
proof -
  obtain x y z w where run: "fixed_part x = fixed_part \<lparr>tx_db = d, tx_result = zero_result, tx_userIDs = [], tx_shareIDs = []\<rparr>"
    "for_each (import_user seed) (doc_Users (seed_Document seed)) x = Inr y"
    "for_each (import_share seed) (doc_Shares (seed_Document seed)) y = Inr z"
    "fixed_part w = fixed_part z" "d' = tx_db w" "result = tx_result w" using assms(1) by (rule import_runs)
  from run(1) have x: "t_users (tx_db x) = t_users d" "t_shares (tx_db x) = t_shares d" "untouched (tx_db x) = untouched d"
    by (simp_all add: fixed_part_def)
  have "users_imported (t_users d) seed [] x" using assms(2) by (auto simp: users_imported_def x same_login_def)
  from import_users_step [OF run(2) this] assms(4) have y: "users_imported (t_users d) seed (doc_Users (seed_Document seed)) y"
    "untouched (tx_db y) = untouched d" "t_shares (tx_db y) = t_shares d" by (simp_all add: x)
  have "shares_imported (t_shares d) [] y" using assms(3) by (auto simp: shares_imported_def y(3))
  from import_shares_step [OF run(3) this] assms(5) have z: "shares_imported (t_shares d) (doc_Shares (seed_Document seed)) z"
    "untouched (tx_db z) = untouched d" "same_users y z" by (simp_all add: y(2))
  from run(4-6) have w: "t_users d' = t_users (tx_db z)" "t_shares d' = t_shares (tx_db z)" "untouched d' = untouched (tx_db z)"
    "PasswordResetRequired result = PasswordResetRequired (tx_result z)" by (simp_all add: fixed_part_def)
  show "\<exists>y. t_users d' = t_users (tx_db y) \<and> PasswordResetRequired result = PasswordResetRequired (tx_result y)
      \<and> users_imported (t_users d) seed (doc_Users (seed_Document seed)) y"
    using y(1) z(3) w by (intro exI [of _ y]) (simp add: same_users_def)
  show "\<exists>z. t_shares d' = t_shares (tx_db z) \<and> shares_imported (t_shares d) (doc_Shares (seed_Document seed)) z"
    using z(1) w by blast
  show "untouched d' = untouched d" using w z(2) by simp
qed

section \<open>The service\<close>

lemma checked_users_distinct:
  "for_each check_doc_user es seen = Inr t \<Longrightarrow>
     distinct (map (NormalizeUsername \<circ> doc_Username) es) \<and> seen \<inter> (NormalizeUsername \<circ> doc_Username) ` set es = {}"
proof (induction es arbitrary: seen)
  case (Cons e es)
  then obtain s where s: "check_doc_user e seen = Inr s" "for_each check_doc_user es s = Inr t" by (auto split: sum.splits)
  then have "NormalizeUsername (doc_Username e) \<notin> seen \<and> s = insert (NormalizeUsername (doc_Username e)) seen"
    by (auto simp: check_doc_user_def Let_def split: option.splits if_splits)
  then show ?case using Cons.IH [OF s(2)] by auto
qed simp

lemma checked_shares_distinct:
  "for_each check_doc_share es seen = Inr t \<Longrightarrow> distinct (map doc_Slug es) \<and> seen \<inter> doc_Slug ` set es = {}"
proof (induction es arbitrary: seen)
  case (Cons e es)
  then obtain s where s: "check_doc_share e seen = Inr s" "for_each check_doc_share es s = Inr t" by (auto split: sum.splits)
  then have "doc_Slug e \<notin> seen \<and> s = insert (doc_Slug e) seen"
    by (auto simp: check_doc_share_def Let_def split: option.splits sum.splits if_splits)
  then show ?case using Cons.IH [OF s(2)] by auto
qed simp

lemma parsed_distinct:
  assumes "Parse y body = Inr doc"
  shows "distinct (map (NormalizeUsername \<circ> doc_Username) (doc_Users doc))" and "distinct (map doc_Slug (doc_Shares doc))"
proof -
  have "Document_Validate doc = None" using assms by (simp add: Parse_def split: option.splits sum.splits if_splits)
  then show "distinct (map (NormalizeUsername \<circ> doc_Username) (doc_Users doc))" "distinct (map doc_Slug (doc_Shares doc))"
    using checked_users_distinct checked_shares_distinct by (auto simp: Document_Validate_def split: option.splits sum.splits)
qed

lemma seed_parts:
  assumes "import_seed_of ids stamp h doc = Inr seed"
  shows "seed_Document seed = doc" and "map_index (UserHashes seed) n \<in> {[], h}"
  using assms by (auto simp: import_seed_of_def Let_def map_index_def map_of_map [symmetric, of "\<lambda>_. h"] split: option.splits sum.splits dest!: map_of_SomeD)

lemma Config_Import_atomic: "Config_Import seed d = (d', Inl e) \<Longrightarrow> d' = d"
  by (auto simp: Config_Import_def split: sum.splits)

lemma import_service_runs:
  assumes "ConfigService_Import y paths hash random ids now body (d, faults) = ((d', faults'), Inr result)"
  obtains doc h seed r stamp where "Parse y body = Inr doc" "placeholder_hash hash random doc = Inr h"
    "import_seed_of ids stamp h doc = Inr seed" "Config_Import seed d = (d', Inr r)" "result = finished_import r"
proof -
  have "\<exists>doc h seed r stamp. Parse y body = Inr doc \<and> placeholder_hash hash random doc = Inr h
      \<and> import_seed_of ids stamp h doc = Inr seed \<and> Config_Import seed d = (d', Inr r) \<and> result = finished_import r"
    using assms unfolding ConfigService_Import_def run_facts map_error_Inr by fastforce
  with that show thesis by blast
qed

lemma import_service_atomic: "atomic (ConfigService_Import y paths hash random ids now body)"
proof -
  have op: "atomic_operation (Config_Import seed)" for seed
    unfolding atomic_operation_def using Config_Import_atomic by (metis prod.collapse)
  show ?thesis unfolding ConfigService_Import_def by (intro service_intros op)
qed

text \<open>C7. An import carries out its document and touches no credential.  When it fails, nothing has changed.  When it succeeds, a
  change is pending; every user and share of the document is in the database with the name, path and switch the document
  gives; every user that was there keeps its identity and password hash and every share its identity, and those the document does not name
  are as they were; a user that is new has the hash of a random password and is reported for a reset; and DNS
  credentials, secrets and revisions are untouched.\<close>

theorem import_carries_out_document:
  assumes "db_ok d" and "ConfigService_Import y paths hash random ids now body (d, faults) = ((d', faults'), r)"
  shows "case r of Inl _ \<Rightarrow> d' = d
    | Inr result \<Rightarrow> PendingApply result \<and> untouched d' = untouched d
      \<and> (\<exists>doc. Parse y body = Inr doc
        \<and> (\<forall>e \<in> set (doc_Users doc). \<exists>v \<in> set (t_users d'). realizes_user e v)
        \<and> (\<forall>e \<in> set (doc_Shares doc). \<exists>v \<in> set (t_shares d'). realizes_share e v)
        \<and> (\<forall>u \<in> set (t_users d). (\<exists>v \<in> set (t_users d'). same_login u v)
            \<and> (UsernameNormalized u \<notin> (NormalizeUsername \<circ> doc_Username) ` set (doc_Users doc) \<longrightarrow> u \<in> set (t_users d')))
        \<and> (\<forall>s \<in> set (t_shares d). (\<exists>v \<in> set (t_shares d'). share_ID v = share_ID s \<and> Slug v = Slug s)
            \<and> (Slug s \<notin> doc_Slug ` set (doc_Shares doc) \<longrightarrow> s \<in> set (t_shares d')))
        \<and> (\<forall>v \<in> set (t_users d'). user_ID v \<in> user_ID ` set (t_users d)
            \<or> (\<exists>bytes. random = Some bytes \<and> hash (RawURLEncoding bytes) = Some (PasswordHash v))
              \<and> (\<exists>n \<in> set (PasswordResetRequired result). NormalizeUsername n = UsernameNormalized v)))"
proof (cases r)
  case (Inl e)
  then show ?thesis using assms(2) import_service_atomic [THEN atomicD] by fastforce
next
  case (Inr result)
  with assms(2) have "ConfigService_Import y paths hash random ids now body (d, faults) = ((d', faults'), Inr result)" by simp
  then obtain doc h seed q stamp where run: "Parse y body = Inr doc" "placeholder_hash hash random doc = Inr h"
    "import_seed_of ids stamp h doc = Inr seed" "Config_Import seed d = (d', Inr q)" "result = finished_import q"
    by (rule import_service_runs)
  have ok: "users_ok (t_users d)" "shares_ok (t_shares d)" using assms(1) by (simp_all add: db_ok_def schema_ok_def)
  note doc = seed_parts(1) [OF run(3)]
  note result = Config_Import_result [OF run(4) ok, unfolded doc, OF parsed_distinct [OF run(1)]]
  have random: "\<exists>bytes. random = Some bytes \<and> hash (RawURLEncoding bytes) = Some (PasswordHash v)"
    if "must_reset seed names v" for v names
  proof -
    have "PasswordHash v = h" "h \<noteq> []" using that seed_parts(2) [OF run(3), of "UsernameNormalized v"] by (auto simp: must_reset_def)
    then show ?thesis using run(2) by (auto simp: placeholder_hash_def split: if_splits option.splits)
  qed
  obtain x where x: "t_users d' = t_users (tx_db x)" "PasswordResetRequired q = PasswordResetRequired (tx_result x)"
    "users_imported (t_users d) seed (doc_Users doc) x" using result(1) by blast
  obtain z where z: "t_shares d' = t_shares (tx_db z)" "shares_imported (t_shares d) (doc_Shares doc) z" using result(2) by blast
  have reset: "user_ID v \<in> user_ID ` set (t_users d) \<or> must_reset seed (PasswordResetRequired q) v" if "v \<in> set (t_users d')" for v
    using that x unfolding users_imported_def by simp
  moreover have "\<exists>n \<in> set (PasswordResetRequired result). NormalizeUsername n = UsernameNormalized v"
    if "must_reset seed (PasswordResetRequired q) v" for v using that by (simp add: must_reset_def run(5) finished_import_def)
  ultimately have fresh: "\<forall>v \<in> set (t_users d'). user_ID v \<in> user_ID ` set (t_users d)
      \<or> (\<exists>bytes. random = Some bytes \<and> hash (RawURLEncoding bytes) = Some (PasswordHash v))
        \<and> (\<exists>n \<in> set (PasswordResetRequired result). NormalizeUsername n = UsernameNormalized v)"
    using random by blast
  have users: "\<forall>u \<in> set (t_users d). (\<exists>v \<in> set (t_users d'). same_login u v)
      \<and> (UsernameNormalized u \<notin> (NormalizeUsername \<circ> doc_Username) ` set (doc_Users doc) \<longrightarrow> u \<in> set (t_users d'))"
    using x(3) unfolding users_imported_def x(1) by blast
  have shares: "\<forall>s \<in> set (t_shares d). (\<exists>v \<in> set (t_shares d'). share_ID v = share_ID s \<and> Slug v = Slug s)
      \<and> (Slug s \<notin> doc_Slug ` set (doc_Shares doc) \<longrightarrow> s \<in> set (t_shares d'))"
    using z(2) unfolding shares_imported_def z(1) by blast
  have named: "\<forall>e \<in> set (doc_Users doc). \<exists>v \<in> set (t_users d'). realizes_user e v"
    "\<forall>e \<in> set (doc_Shares doc). \<exists>v \<in> set (t_shares d'). realizes_share e v"
    using x(3) z(2) unfolding users_imported_def shares_imported_def x(1) z(1) by simp_all
  have "PendingApply result" by (simp add: run(5) finished_import_def)
  then show ?thesis unfolding Inr sum.case using result(3) run(1) named users shares fresh
    by (intro conjI exI [of _ doc])
qed

definition dora_document :: document where
  "dora_document = \<lparr>Version = 1, Server = None, TLS = None,
     doc_Users = [\<lparr>doc_Username = ''dora'', doc_user_Enabled = Some True\<rparr>], doc_Shares = []\<rparr>"

definition dora_seed :: import_seed where
  "dora_seed = \<lparr>seed_Document = dora_document, UserIDs = [(''dora'', user_ID alice)], UserHashes = [(''dora'', ''h'')], ShareIDs = [],
     TLSID = [], Timestamp = t0\<rparr>"

definition dora_library :: yaml_library where
  "dora_library = \<lparr>unmarshal_tree = \<lambda>_. Some (YDocument []), decode_strict = \<lambda>_. Some dora_document, at_end = \<lambda>_. True\<rparr>"

lemma dora_parses: "Parse dora_library ''x'' = Inr dora_document"
proof -
  have "User_Validate (doc_account ''dora'' True) = None"
    by (simp add: User_Validate_def doc_account_def NormalizeUsername_def placeholderID_def doc_stamp_def domain_eval)
  then have "Document_Validate dora_document = None"
    by (simp add: Document_Validate_def dora_document_def check_doc_user_def Let_def)
  then show ?thesis
    by (simp add: Parse_def dora_library_def MaximumSizeBytes_def maximumNodes_def maximumDepth_def dora_document_def ConfigVersion_def)
qed

theorem import_carries_out_document_witness:
  "\<exists>d' result. ConfigService_Import dora_library (\<lambda>_. None) (\<lambda>_. Some ''h'') (Some (replicate 32 (CHR ''x'')))
        (\<lambda>_. Some (user_ID alice)) t0 ''x'' (empty_db t0, []) = ((d', []), Inr result)
     \<and> (\<exists>v \<in> set (t_users d'). Username v = ''dora'' \<and> user_Enabled v \<and> PasswordHash v = ''h'')"
proof -
  let ?import = "ConfigService_Import dora_library (\<lambda>_. None) (\<lambda>_. Some ''h'') (Some (replicate 32 (CHR ''x'')))
        (\<lambda>_. Some (user_ID alice)) t0 ''x''"
  have name: "NormalizeUsername ''dora'' = ''dora''" by (simp add: NormalizeUsername_def domain_eval)
  have stamp: "stamped t0 = Inr t0" by (simp add: stamped_def NewTimestamp_def t0_def IsZero_def map_error_def)
  have h: "placeholder_hash (\<lambda>_. Some ''h'') (Some (replicate 32 (CHR ''x''))) dora_document = Inr ''h''"
    by (simp add: placeholder_hash_def dora_document_def)
  have seed: "import_seed_of (\<lambda>_. Some (user_ID alice)) t0 ''h'' dora_document = Inr dora_seed"
    by (simp add: import_seed_of_def dora_document_def dora_seed_def generated_def name Let_def)
  have plan: "import_plan dora_seed = [import_user dora_seed \<lparr>doc_Username = ''dora'', doc_user_Enabled = Some True\<rparr>]"
    by (simp add: import_plan_def dora_document_def dora_seed_def Let_def)
  obtain x where user: "import_user dora_seed \<lparr>doc_Username = ''dora'', doc_user_Enabled = Some True\<rparr>
      \<lparr>tx_db = empty_db t0, tx_result = zero_result, tx_userIDs = [], tx_shareIDs = []\<rparr> = Inr x"
    "map PasswordHash (t_users (tx_db x)) = [''h'']"
    by (simp add: import_user_def dora_seed_def name map_index_def Let_def empty_db_def import_simps insert_user_def mark_dirty_def)
  have run: "Config_Import dora_seed (empty_db t0) = (tx_db x, Inr (tx_result x))"
    by (simp add: Config_Import_def steps_def plan user(1))
  have check: "first_err (map (check_share_path (\<lambda>_. None)) (doc_Shares dora_document)) = None" by (simp add: dora_document_def)
  have "?import (empty_db t0, []) = ((tx_db x, []), Inr (finished_import (tx_result x)))"
    by (simp add: ConfigService_Import_def dora_parses and_then_def give_def require_def mapped_def operation_call_def check stamp h seed run
        map_error_def del: sample_ids)
  moreover have "\<forall>v \<in> set (t_users (tx_db x)). PasswordHash v = ''h''" using user(2) by auto
  ultimately have "\<exists>d' result. ?import (empty_db t0, []) = ((d', []), Inr result) \<and> (\<forall>v \<in> set (t_users d'). PasswordHash v = ''h'')" by blast
  then obtain d' result where run: "?import (empty_db t0, []) = ((d', []), Inr result)" "\<forall>v \<in> set (t_users d'). PasswordHash v = ''h''" by blast
  have "\<exists>v \<in> set (t_users d'). realizes_user \<lparr>doc_Username = ''dora'', doc_user_Enabled = Some True\<rparr> v"
    using import_carries_out_document [OF db_ok_empty run(1)] by (simp add: dora_parses dora_document_def)
  with run show ?thesis by (fastforce simp: realizes_user_def)
qed

end
