(* ===== verification/Api_Request.thy ===== *)
theory Api_Request
  imports Snapshot_Codec Service_Calls
begin

text \<open>
  Requests and responses of the Management API (\<^verbatim>\<open>api/request.go\<close>, \<^verbatim>\<open>response.go\<close>, and the helpers of
  \<^verbatim>\<open>server.go\<close> and \<^verbatim>\<open>users.go\<close>).  A request is what \<open>net/http\<close> hands to a handler; the parser of media types, the
  text of a JSON error and whether an overlong body ends in an error before its limit are the library's.
\<close>

section \<open>Requests\<close>

text \<open>The path is given by its segments, each unescaped, as the multiplexer compares them; a header that is absent reads
  as the empty string.\<close>

record request =
  rq_Method :: string
  rq_Segments :: "string list"
  rq_Query :: "(string \<times> string) list"
  rq_Authorization :: string
  rq_ContentType :: string
  rq_Body :: string

definition MethodGet :: string where "MethodGet = ''GET''"
definition MethodPost :: string where "MethodPost = ''POST''"
definition MethodPut :: string where "MethodPut = ''PUT''"
definition MethodPatch :: string where "MethodPatch = ''PATCH''"
definition MethodDelete :: string where "MethodDelete = ''DELETE''"

lemmas method_defs = MethodGet_def MethodPost_def MethodPut_def MethodPatch_def MethodDelete_def

definition rq_Path :: "request \<Rightarrow> string" where
  "rq_Path q = concat (map (\<lambda>s. CHR ''/'' # s) (rq_Segments q))"

definition query_value :: "request \<Rightarrow> string \<Rightarrow> string" where
  "query_value q k = (case map_of (rq_Query q) k of None \<Rightarrow> [] | Some v \<Rightarrow> v)"

record http_library =
  ParseMediaType :: "string \<Rightarrow> string option"
  json_reason :: "string \<Rightarrow> string"
  fails_early :: "string \<Rightarrow> bool"

section \<open>Responses\<close>

definition ErrorUnauthorized :: string where "ErrorUnauthorized = ''UNAUTHORIZED''"
definition ErrorNotFound :: string where "ErrorNotFound = ''NOT_FOUND''"
definition ErrorMethodNotAllowed :: string where "ErrorMethodNotAllowed = ''METHOD_NOT_ALLOWED''"
definition ErrorInvalidRequest :: string where "ErrorInvalidRequest = ''INVALID_REQUEST''"
definition ErrorInternal :: string where "ErrorInternal = ''INTERNAL_ERROR''"
definition ErrorPrivilegeRequired :: string where "ErrorPrivilegeRequired = ''PRIVILEGE_REQUIRED''"
definition ErrorPlatformUnsupported :: string where "ErrorPlatformUnsupported = ''PLATFORM_UNSUPPORTED''"
definition ErrorServiceInstallFailed :: string where "ErrorServiceInstallFailed = ''SERVICE_INSTALL_FAILED''"
definition ErrorServiceUninstallFailed :: string where "ErrorServiceUninstallFailed = ''SERVICE_UNINSTALL_FAILED''"
definition ErrorServiceStartFailed :: string where "ErrorServiceStartFailed = ''SERVICE_START_FAILED''"
definition ErrorServiceStopFailed :: string where "ErrorServiceStopFailed = ''SERVICE_STOP_FAILED''"
definition ErrorServiceStatusFailed :: string where "ErrorServiceStatusFailed = ''SERVICE_STATUS_FAILED''"
definition ErrorLogsUnavailable :: string where "ErrorLogsUnavailable = ''LOGS_UNAVAILABLE''"
definition ErrorInvalidLogQuery :: string where "ErrorInvalidLogQuery = ''INVALID_LOG_QUERY''"

record api_error =
  api_Code :: string
  api_Message :: string
  api_Details :: "(string \<times> json) list"

datatype envelope = Envelope (Data: json) | Failure (Error: api_error)

text \<open>An envelope of an error has \<open>data\<close> too, which is \<open>null\<close>.\<close>

definition encodeEnvelope :: "envelope \<Rightarrow> json" where
  "encodeEnvelope e =
     (case e of
        Envelope d \<Rightarrow> JObj [(''success'', JBool True), (''data'', d)]
      | Failure err \<Rightarrow> JObj [(''success'', JBool False), (''data'', JNull), (''error'', JObj
          ([(''code'', JStr (api_Code err)), (''message'', JStr (api_Message err))]
           @ (if api_Details err = [] then [] else [(''details'', JObj (api_Details err))])))])"

record response =
  rs_Headers :: "(string \<times> string) list"
  rs_Status :: nat
  rs_Envelope :: envelope

definition response_text :: "response \<Rightarrow> string" where
  "response_text r = json_marshal (encodeEnvelope (rs_Envelope r)) @ [newline]"

definition writeJSON :: "nat \<Rightarrow> envelope \<Rightarrow> response" where
  "writeJSON code e =
     \<lparr>rs_Headers = [(''Content-Type'', ''application/json; charset=utf-8''), (''Cache-Control'', ''no-store''),
                    (''X-Content-Type-Options'', ''nosniff'')],
      rs_Status = code, rs_Envelope = e\<rparr>"

definition writeSuccess :: "nat \<Rightarrow> json \<Rightarrow> response" where
  "writeSuccess code d = writeJSON code (Envelope d)"

definition writeError :: "nat \<Rightarrow> string \<Rightarrow> string \<Rightarrow> (string \<times> json) list \<Rightarrow> response" where
  "writeError code errorCode message details =
     writeJSON code (Failure \<lparr>api_Code = errorCode, api_Message = message, api_Details = details\<rparr>)"

definition handleNotFound :: response where
  "handleNotFound = writeError 404 ErrorNotFound ''Endpoint not found'' []"

text \<open>What every handler answers to a method it does not have.\<close>

definition methodNotAllowed :: "string list \<Rightarrow> response" where
  "methodNotAllowed allowed =
     (let r = writeError 405 ErrorMethodNotAllowed ''Method not allowed'' []
      in r\<lparr>rs_Headers := (''Allow'', join_with '', '' allowed) # rs_Headers r\<rparr>)"

definition badRequest :: "string \<Rightarrow> response" where
  "badRequest message = writeError 400 ErrorInvalidRequest message []"

definition application_status :: "string \<Rightarrow> nat" where
  "application_status code =
     (if code \<in> {CodeUserNotFound, CodeShareNotFound, CodeDNSProviderNotFound, CodeRevisionNotFound} then 404
      else if code \<in> {CodeUserAlreadyExists, CodeShareAlreadyExists, CodeDNSProviderAlreadyExists, CodeDNSProviderInUse,
                CodeRevisionStateUnavailable, CodeRevisionActive, CodeRevisionDesired, CodeApplyInProgress,
                CodeTLSRenewalInProgress} then 409
      else if code = CodeDatabase then 500
      else if code \<in> {runtime_code CodeCaddyValidateFailed, CodeDNSCheckFailed, CodeDNSProviderSecretMissing,
                CodeDNSProviderZoneNotAllowed, CodeConfigVersionUnsupported} then 422
      else if code \<in> {runtime_code CodeCaddyReloadFailed, runtime_code CodeCaddyStartFailed, runtime_code CodeCaddyStopFailed,
                runtime_code CodeCaddyNotFound, runtime_code CodeCaddyModuleMissing, runtime_code CodeRuntimeUnhealthy} then 502
      else 400)"

definition writeApplicationError :: "app_error \<Rightarrow> response" where
  "writeApplicationError e = writeError (application_status (error_Code e)) (error_Code e) (error_Message e) []"

text \<open>A handler's calls end with an application error, which is written, or with the response.\<close>

definition respond :: "('s, response) service \<Rightarrow> 's \<Rightarrow> 's \<times> response" where
  "respond m x = (case m x of (y, Inl e) \<Rightarrow> (y, writeApplicationError e) | (y, Inr r) \<Rightarrow> (y, r))"

type_synonym 's api_handler = "request \<Rightarrow> 's \<Rightarrow> 's \<times> response"

definition reply :: "response \<Rightarrow> 's \<Rightarrow> 's \<times> response" where
  "reply r x = (x, r)"

section \<open>Bodies\<close>

definition maxRequestBodyBytes :: nat where
  "maxRequestBodyBytes = 1048576"

text \<open>The first value of a stream and what follows it.\<close>

definition first_value :: "string \<Rightarrow> (json \<times> string) option" where
  "first_value s = parse_value (2 * length s + 2) max_nesting (skip_ws s)"

text \<open>The decoder knows that a number, a string or a word has ended only from what follows it.\<close>

fun closed :: "json \<Rightarrow> bool" where
  "closed (JArr xs) = True"
| "closed (JObj kvs) = True"
| "closed v = False"

definition invalid_request :: "string \<Rightarrow> (string \<times> json) list \<Rightarrow> api_error" where
  "invalid_request message details = \<lparr>api_Code = ErrorInvalidRequest, api_Message = message, api_Details = details\<rparr>"

definition decodeJSON :: "http_library \<Rightarrow> (json \<Rightarrow> 'a option) \<Rightarrow> request \<Rightarrow> api_error + 'a" where
  "decodeJSON lib decode q =
     (let text = take maxRequestBodyBytes (rq_Body q); exceeded = maxRequestBodyBytes < length (rq_Body q);
          too_large = Inl (invalid_request ''Request body is too large'' []);
          not_valid = Inl (invalid_request ''Request body must contain valid JSON'' [(''reason'', JStr (json_reason lib (rq_Body q)))])
      in if ParseMediaType lib (rq_ContentType q) \<noteq> Some ''application/json''
         then Inl (invalid_request ''Content-Type must be application/json'' [])
         else case first_value text of
           None \<Rightarrow> if exceeded \<and> \<not> fails_early lib (rq_Body q) then too_large else not_valid
         | Some (v, rest) \<Rightarrow>
             if exceeded \<and> rest = [] \<and> \<not> closed v then too_large
             else (case decode v of None \<Rightarrow> not_valid
               | Some x \<Rightarrow>
                   if exceeded \<or> skip_ws rest \<noteq> [] then Inl (invalid_request ''Request body must contain one JSON value'' [])
                   else Inr x))"

text \<open>A handler that decodes its body first.\<close>

definition with_input :: "http_library \<Rightarrow> (json \<Rightarrow> 'a option) \<Rightarrow> request \<Rightarrow> ('a \<Rightarrow> 's \<Rightarrow> 's \<times> response) \<Rightarrow> 's \<Rightarrow> 's \<times> response" where
  "with_input lib decode q continue =
     (case decodeJSON lib decode q of
        Inl e \<Rightarrow> reply (writeError 400 (api_Code e) (api_Message e) (api_Details e))
      | Inr x \<Rightarrow> continue x)"

text \<open>A struct whose unknown members are errors.\<close>

definition decode_known :: "string list \<Rightarrow> (string \<Rightarrow> json \<Rightarrow> 'r \<Rightarrow> 'r option) \<Rightarrow> 'r \<Rightarrow> json \<Rightarrow> 'r option" where
  "decode_known names assign zero j =
     (case j of
        JObj kvs \<Rightarrow> if list_all (\<lambda>(k, _). field_of names k \<noteq> None) kvs then decode_members names assign kvs zero else None
      | JNull \<Rightarrow> Some zero | _ \<Rightarrow> None)"

end
