(* ===== verification/Api_Interfaces.thy ===== *)
theory Api_Interfaces
  imports Api_Request Resource_Services Tls_Service Config_Service Apply_Service Log_Store
begin

text \<open>
  What the Management API calls (the interfaces of \<^verbatim>\<open>api/*.go\<close>, one record each, over an arbitrary state), the server that
  holds those that are set, and the JSON of what they return.  An optional part that the code asks for with a type assertion is an
  option.
\<close>

section \<open>Interfaces\<close>

record 's user_api =
  ua_List :: "('s, user list) service"
  ua_Get :: "ident \<Rightarrow> ('s, user) service"
  ua_Create :: "string \<Rightarrow> string \<Rightarrow> ('s, user) service"
  ua_Delete :: "ident \<Rightarrow> ('s, unit) service"
  ua_SetEnabled :: "ident \<Rightarrow> bool \<Rightarrow> ('s, bool) service"
  ua_ChangePassword :: "ident \<Rightarrow> string \<Rightarrow> ('s, unit) service"

record 's share_api =
  sa_List :: "('s, share list) service"
  sa_Get :: "ident \<Rightarrow> ('s, share) service"
  sa_Create :: "string \<Rightarrow> string \<Rightarrow> string \<Rightarrow> ('s, share) service"
  sa_Update :: "ident \<Rightarrow> share_update \<Rightarrow> ('s, share \<times> bool) service"
  sa_Delete :: "ident \<Rightarrow> ('s, unit) service"

record 's summary_api =
  ya_AuthorizedUserCounts :: "('s, (ident \<times> nat) list) service"
  ya_SummariesByUser :: "('s, (ident \<times> user_permission_entry list) list) service"

record 's permission_api =
  pa_List :: "ident \<Rightarrow> ('s, permission_entry list) service"
  pa_Set :: "ident \<Rightarrow> ident \<Rightarrow> permission \<Rightarrow> ('s, permission_entry \<times> bool) service"
  pa_ListByUser :: "(ident \<Rightarrow> ('s, user_permission_entry list) service) option"
  pa_Summary :: "'s summary_api option"

record 's apply_api =
  aa_Apply :: "('s, config_revision) service"
  aa_Validate :: "('s, validation_result) service"
  aa_Restore :: "ident \<Rightarrow> ('s, config_revision) service"
  aa_State :: "('s, revision_state) service"
  aa_List :: "('s, config_revision list) service"
  aa_Get :: "ident \<Rightarrow> ('s, config_revision) service"
  aa_Delete :: "ident \<Rightarrow> ('s, unit) service"

record 's tls_api =
  ta_Get :: "('s, tls_profile option) service"
  ta_Update :: "tls_update \<Rightarrow> ('s, tls_profile) service"
  ta_Disable :: "('s, unit) service"
  ta_Check :: "('s, bool \<times> tls_check list) service"
  ta_CertificateStatus :: "(tls_profile \<Rightarrow> ('s, certificate_status) service) option"
  ta_Renew :: "('s, unit) service option"
  ta_CancelRenew :: "('s, unit) service option"

record 's dns_api =
  da_List :: "('s, dns_view list) service"
  da_Get :: "ident \<Rightarrow> ('s, dns_view) service"
  da_Save :: "dns_update \<Rightarrow> ('s, dns_view) service"
  da_Delete :: "ident \<Rightarrow> ('s, unit) service"

record 's config_api =
  ca_Export :: "('s, string) service"
  ca_Import :: "string \<Rightarrow> ('s, import_result) service"

record 's runtime_api =
  ra_Start :: "('s, unit) service"
  ra_Stop :: "('s, unit) service"
  ra_Restart :: "('s, unit) service"
  ra_RuntimeStatusSnapshot :: "'s \<Rightarrow> 's \<times> runtime_snapshot"

record 's settings_api =
  ga_Get :: "('s, server_settings) service"
  ga_UpdatePorts :: "int \<Rightarrow> int \<Rightarrow> ('s, server_settings) service"

text \<open>The system's service manager, whose errors have a code of their own, and the diagnostics, whose reports are opaque here.\<close>

datatype manager_error = ServiceError string string | OtherServiceError

record service_status =
  ss_Installed :: bool
  ss_State :: string
  ss_StartsAtBoot :: bool
  ss_LastErrorCode :: string

record 's manager_api =
  ma_Install :: "'s \<Rightarrow> 's \<times> manager_error option"
  ma_Uninstall :: "'s \<Rightarrow> 's \<times> manager_error option"
  ma_Start :: "'s \<Rightarrow> 's \<times> manager_error option"
  ma_Stop :: "'s \<Rightarrow> 's \<times> manager_error option"
  ma_Status :: "'s \<Rightarrow> 's \<times> (manager_error + service_status)"

record 's diagnostics_api =
  xa_Run :: "'s \<Rightarrow> 's \<times> json"
  xa_Latest :: "'s \<Rightarrow> json option"

section \<open>The server\<close>

record status_snapshot =
  st_Name :: string
  st_Version :: string
  st_Daemon :: string
  st_Database :: string
  st_SchemaVersion :: int
  st_Caddy :: string
  st_WebDAV :: string
  st_Service :: service_status
  st_LastErrorCode :: string
  st_PortableDaemonOwned :: bool
  st_DesiredRevision :: "int option"
  st_ActiveRevision :: "int option"
  st_PendingChanges :: bool

text \<open>The store of the logs is given by its content; \<open>sv_RequestShutdown\<close> is a send on the channel of capacity one that is dropped
  when the channel is full.\<close>

record 's api_server =
  sv_Token :: string
  sv_Snapshot :: status_snapshot
  sv_Library :: http_library
  sv_Users :: "'s user_api option"
  sv_Shares :: "'s share_api option"
  sv_Permissions :: "'s permission_api option"
  sv_Apply :: "'s apply_api option"
  sv_TLS :: "'s tls_api option"
  sv_DNSProviders :: "'s dns_api option"
  sv_Endpoints :: "('s, endpoint \<times> endpoint) service option"
  sv_Diagnostics :: "'s diagnostics_api option"
  sv_Configuration :: "'s config_api option"
  sv_Runtime :: "'s runtime_api option"
  sv_Settings :: "'s settings_api option"
  sv_Service :: "'s manager_api option"
  sv_Logs :: "log_store option"
  sv_FieldsJSON :: "log_fields \<Rightarrow> (string \<times> json) list"
  sv_RequestShutdown :: "'s \<Rightarrow> 's"

definition applyAfterRuntimeMutation :: "'s api_server \<Rightarrow> ('s, unit) service" where
  "applyAfterRuntimeMutation sv =
     (case sv_Apply sv of None \<Rightarrow> give (Inr ()) | Some a \<Rightarrow> and_then (aa_Apply a) (\<lambda>_. give (Inr ())))"

section \<open>The JSON of the results\<close>

definition user_entry_json :: "user_permission_entry \<Rightarrow> json" where
  "user_entry_json e = JObj
     [(''share_id'', JStr (up_ShareID e)), (''share_name'', JStr (up_ShareName e)), (''share_slug'', JStr (up_ShareSlug e)),
      (''share_enabled'', JBool (up_ShareEnabled e)), (''permission'', JStr (up_Permission e))]"

text \<open>The public form of an account; the summary is there when it could be read.\<close>

definition publicUser :: "user_permission_entry list option \<Rightarrow> user \<Rightarrow> json" where
  "publicUser summary u =
     (let entries = (case summary of None \<Rightarrow> [] | Some es \<Rightarrow> es) in JObj
     [(''id'', JStr (user_ID u)), (''username'', JStr (Username u)), (''enabled'', JBool (user_Enabled u)),
      (''authorized_share_count'', JInt (int (length entries))), (''permission_summary_available'', JBool (summary \<noteq> None)),
      (''permissions'', JArr (map user_entry_json entries)), (''created_at'', time_json (user_CreatedAt u)),
      (''updated_at'', time_json (user_UpdatedAt u))])"

definition publicShare :: "nat \<Rightarrow> share \<Rightarrow> json" where
  "publicShare n s = JObj
     [(''id'', JStr (share_ID s)), (''name'', JStr (share_Name s)), (''slug'', JStr (Slug s)), (''path'', JStr (Path s)),
      (''enabled'', JBool (share_Enabled s)), (''authorized_user_count'', JInt (int n)),
      (''created_at'', time_json (share_CreatedAt s)), (''updated_at'', time_json (share_UpdatedAt s))]"

definition permission_entry_json :: "permission_entry \<Rightarrow> json" where
  "permission_entry_json e = JObj
     [(''share_id'', JStr (entry_ShareID e)), (''user_id'', JStr (entry_UserID e)), (''username'', JStr (entry_Username e)),
      (''user_enabled'', JBool (entry_UserEnabled e)), (''permission'', JStr (entry_Permission e))]"

definition server_settings_json :: "server_settings \<Rightarrow> json" where
  "server_settings_json s = JObj
     [(''public_base_path'', JStr (PublicBasePath s)), (''http_port'', JInt (HTTPPort s)), (''https_port'', JInt (HTTPSPort s))]"

definition publicRevision :: "config_revision \<Rightarrow> json" where
  "publicRevision r = JObj
     ([(''id'', JStr (rev_ID r)), (''number'', JInt (Number r)), (''created_at'', time_json (rev_CreatedAt r)),
       (''config_hash'', JStr (ConfigHash r)), (''validation_status'', JStr (ValidationStatus r)),
       (''apply_status'', JStr (ApplyStatus r)), (''state_snapshot_available'', JBool (StateSnapshotJSON r \<noteq> [])),
       (''app_version'', JStr (AppVersion r))]
      @ omit_empty_str ''error_code'' (ErrorCode r) @ omit_empty_str ''error_summary'' (ErrorSummary r))"

definition number_or_null :: "int option \<Rightarrow> json" where
  "number_or_null n = (case n of None \<Rightarrow> JNull | Some i \<Rightarrow> JInt i)"

definition revision_state_json :: "revision_state \<Rightarrow> json" where
  "revision_state_json s = JObj
     [(''desired_revision'', number_or_null (DesiredRevision s)), (''active_revision'', number_or_null (ActiveRevision s)),
      (''dirty'', JBool (Dirty s)), (''pending'', JBool (Pending s))]"

definition validation_json :: "validation_result \<Rightarrow> json" where
  "validation_json v = JObj
     ([(''valid'', JBool (vr_Valid v)), (''config_hash'', JStr (vr_ConfigHash v))]
      @ omit_empty_list ''warnings'' (map JStr (vr_Warnings v)))"

definition dns_view_json :: "dns_view \<Rightarrow> json" where
  "dns_view_json v = JObj
     ([(''id'', JStr (view_ID v)), (''name'', JStr (view_Name v)), (''provider'', JStr (view_Provider v))]
      @ omit_empty_list ''allowed_zones'' (map JStr (view_AllowedZones v))
      @ [(''secret_configured'', JBool (SecretConfigured v)), (''created_at'', time_json (view_CreatedAt v)),
         (''updated_at'', time_json (view_UpdatedAt v))])"

definition certificate_status_json :: "certificate_status \<Rightarrow> json" where
  "certificate_status_json c = JObj
     ([(''state'', JStr (cs_State c)), (''storage_path'', JStr (StoragePath c))]
      @ omit_empty_str ''certificate_path'' (cs_CertificatePath c) @ [(''message'', JStr (Message c))]
      @ omit_none ''not_before'' (map_option (\<lambda>(b, a). time_json (Time b True)) (validity c))
      @ omit_none ''not_after'' (map_option (\<lambda>(b, a). time_json (Time a True)) (validity c))
      @ omit_empty_str ''last_error_code'' (cs_LastErrorCode c) @ omit_false ''renewal'' (Renewal c))"

text \<open>The members of the embedded profile come first.\<close>

definition tls_response :: "tls_profile \<Rightarrow> certificate_status option \<Rightarrow> json" where
  "tls_response p status =
     (case tls_json p of JObj kvs \<Rightarrow> JObj (kvs @ omit_none ''certificate_status'' (map_option certificate_status_json status))
      | j \<Rightarrow> j)"

definition tls_check_json :: "bool \<times> tls_check list \<Rightarrow> json" where
  "tls_check_json = (\<lambda>(ready, checks). JObj
     [(''ready'', JBool ready),
      (''checks'', JArr (map (\<lambda>c. JObj [(''name'', JStr (check_Name c)), (''ok'', JBool (check_OK c)),
          (''message'', JStr (check_Message c))]) checks))])"

definition endpoint_json :: "endpoint \<Rightarrow> json" where
  "endpoint_json e = JObj
     ([(''protocol'', JStr (Protocol e)), (''url'', JStr (URL e)), (''port'', JInt (Port e)), (''state'', JStr (ep_State e)),
       (''configured'', JBool (Configured e)), (''active'', JBool (Active e)), (''copyable'', JBool (Copyable e))]
      @ omit_empty_str ''error_code'' (ErrorCodeText e) @ omit_empty_str ''description'' (Description e))"

definition endpoints_json :: "endpoint \<times> endpoint \<Rightarrow> json" where
  "endpoints_json = (\<lambda>(http, https). JObj [(''http'', endpoint_json http), (''https'', endpoint_json https)])"

text \<open>A list of names nothing was appended to is nil, which is written as \<open>null\<close>.\<close>

definition import_result_json :: "import_result \<Rightarrow> json" where
  "import_result_json r = JObj
     [(''users_created'', JInt (int (UsersCreated r))), (''users_updated'', JInt (int (UsersUpdated r))),
      (''shares_created'', JInt (int (SharesCreated r))), (''shares_updated'', JInt (int (SharesUpdated r))),
      (''permissions_upserted'', JInt (int (PermissionsUpserted r))), (''tls_updated'', JBool (TLSUpdated r)),
      (''server_updated'', JBool (ServerUpdated r)),
      (''password_reset_required'', if PasswordResetRequired r = [] then JNull else JArr (map JStr (PasswordResetRequired r))),
      (''pending_apply'', JBool (PendingApply r))]"

definition service_status_json :: "service_status \<Rightarrow> json" where
  "service_status_json s = JObj
     ([(''installed'', JBool (ss_Installed s)), (''state'', JStr (ss_State s)), (''starts_at_boot'', JBool (ss_StartsAtBoot s))]
      @ omit_empty_str ''last_error_code'' (ss_LastErrorCode s))"

definition status_json :: "status_snapshot \<Rightarrow> json" where
  "status_json s = JObj
     ([(''name'', JStr (st_Name s)), (''version'', JStr (st_Version s)), (''daemon'', JStr (st_Daemon s)),
       (''database'', JStr (st_Database s)), (''schema_version'', JInt (st_SchemaVersion s)), (''caddy'', JStr (st_Caddy s)),
       (''webdav'', JStr (st_WebDAV s)), (''service'', service_status_json (st_Service s))]
      @ omit_empty_str ''last_error_code'' (st_LastErrorCode s)
      @ [(''portable_daemon_owned'', JBool (st_PortableDaemonOwned s)),
         (''desired_revision'', number_or_null (st_DesiredRevision s)),
         (''active_revision'', number_or_null (st_ActiveRevision s)), (''pending_changes'', JBool (st_PendingChanges s))])"

definition log_record_json :: "(log_fields \<Rightarrow> (string \<times> json) list) \<Rightarrow> log_record \<Rightarrow> json" where
  "log_record_json fields_json r = JObj
     ([(''id'', JInt (uint (log_ID r))), (''timestamp'', time_json (log_Timestamp r)), (''level'', JStr (log_Level r)),
       (''component'', JStr (log_Component r)), (''message'', JStr (log_Message r))]
      @ (if log_Fields r = [] then [] else [(''fields'', JObj (fields_json (log_Fields r)))]))"

definition log_page_json :: "(log_fields \<Rightarrow> (string \<times> json) list) \<Rightarrow> log_page \<Rightarrow> json" where
  "log_page_json fields_json p = JObj
     ([(''records'', JArr (map (log_record_json fields_json) (page_Records p)))]
      @ (if NextCursor p = 0 then [] else [(''next_cursor'', JInt (uint (NextCursor p)))])
      @ [(''has_more'', JBool (HasMore p))])"

text \<open>\<open>map[string]any\<close>: the keys in order.\<close>

definition deleted_json :: "ident \<Rightarrow> json" where
  "deleted_json i = JObj [(''deleted'', JBool True), (''id'', JStr i)]"

definition result_json :: "string \<Rightarrow> json" where
  "result_json r = JObj [(''result'', JStr r)]"

end
