(* ===== verification/Api_Handlers.thy ===== *)
theory Api_Handlers
  imports Api_Interfaces
begin

text \<open>
  The handlers of users, shares, permissions, settings, DNS credentials and TLS (\<^verbatim>\<open>api/users.go\<close>, \<^verbatim>\<open>shares.go\<close>,
  \<^verbatim>\<open>permissions.go\<close>, \<^verbatim>\<open>settings.go\<close>, \<^verbatim>\<open>dns_providers.go\<close>, \<^verbatim>\<open>tls.go\<close>): the method, the path, the body, the calls, the answer.
\<close>

text \<open>The path after a handler's prefix, cut at the slashes.\<close>

definition path_parts :: "string \<Rightarrow> request \<Rightarrow> string list" where
  "path_parts prefix q = split_on CHR ''/'' (trim_prefix (rq_Path q) prefix)"

definition with_id :: "string \<Rightarrow> string \<Rightarrow> (ident \<Rightarrow> 's \<Rightarrow> 's \<times> response) \<Rightarrow> 's \<Rightarrow> 's \<times> response" where
  "with_id text message continue =
     (case ParseID text of Inl _ \<Rightarrow> reply (badRequest message) | Inr i \<Rightarrow> continue i)"

text \<open>A change of what the runtime serves, applied before it is answered; one that changed nothing is not applied.\<close>

definition mutate :: "'s api_server \<Rightarrow> ('s, 'a) service \<Rightarrow> ('a \<Rightarrow> response) \<Rightarrow> 's \<Rightarrow> 's \<times> response" where
  "mutate sv m answer = respond
     (and_then m (\<lambda>a. and_then (applyAfterRuntimeMutation sv) (\<lambda>_. give (Inr (answer a)))))"

definition apply_if :: "bool \<Rightarrow> 's api_server \<Rightarrow> ('s, unit) service" where
  "apply_if changed sv = (if changed then applyAfterRuntimeMutation sv else give (Inr ()))"

definition query_answer :: "('s, 'a) service \<Rightarrow> ('a \<Rightarrow> response) \<Rightarrow> 's \<Rightarrow> 's \<times> response" where
  "query_answer m answer = respond (and_then m (\<lambda>a. give (Inr (answer a))))"

text \<open>A call whose failure is tolerated.\<close>

definition attempt :: "('s, 'a) service \<Rightarrow> ('s, 'a option) service" where
  "attempt m x = (case m x of (y, Inl _) \<Rightarrow> (y, Inr None) | (y, Inr a) \<Rightarrow> (y, Inr (Some a)))"

section \<open>Users\<close>

definition decode_credentials :: "json \<Rightarrow> (string \<times> string) option" where
  "decode_credentials = decode_known [''username'', ''password'']
     (\<lambda>n v (a, b). if n = ''username'' then map_option (\<lambda>x. (x, b)) (decode_string v a)
        else map_option (\<lambda>x. (a, x)) (decode_string v b)) ([], [])"

definition decode_enabled :: "json \<Rightarrow> bool option option" where
  "decode_enabled = decode_known [''enabled''] (\<lambda>n v old. decode_pointer decode_bool False v old) None"

definition decode_password :: "json \<Rightarrow> string option" where
  "decode_password = decode_known [''password''] (\<lambda>n v old. decode_string v old) []"

definition permission_summaries :: "'s api_server \<Rightarrow> ('s, (ident \<times> user_permission_entry list) list option) service" where
  "permission_summaries sv =
     (case Option.bind (sv_Permissions sv) pa_Summary of
        None \<Rightarrow> give (Inr None) | Some y \<Rightarrow> attempt (ya_SummariesByUser y))"

definition summary_of :: "(ident \<times> user_permission_entry list) list option \<Rightarrow> user \<Rightarrow> user_permission_entry list option" where
  "summary_of summaries u =
     map_option (\<lambda>m. case map_of m (user_ID u) of None \<Rightarrow> [] | Some es \<Rightarrow> es) summaries"

definition handleUsers :: "'s api_server \<Rightarrow> 's user_api \<Rightarrow> 's api_handler" where
  "handleUsers sv users q =
     (if rq_Method q = MethodGet then
        query_answer (and_then (ua_List users) (\<lambda>us. and_then (permission_summaries sv) (\<lambda>s. give (Inr (us, s)))))
          (\<lambda>(us, s). writeSuccess 200 (JArr (map (\<lambda>u. publicUser (summary_of s u) u) us)))
      else if rq_Method q = MethodPost then
        with_input (sv_Library sv) decode_credentials q (\<lambda>(username, password).
          mutate sv (ua_Create users username password) (\<lambda>u. writeSuccess 201 (publicUser None u)))
      else reply (methodNotAllowed [MethodGet, MethodPost]))"

definition handleUserPassword :: "'s api_server \<Rightarrow> 's user_api \<Rightarrow> ident \<Rightarrow> 's api_handler" where
  "handleUserPassword sv users i q =
     (if rq_Method q \<noteq> MethodPost then reply (methodNotAllowed [MethodPost])
      else with_input (sv_Library sv) decode_password q (\<lambda>password.
        mutate sv (ua_ChangePassword users i password)
          (\<lambda>_. writeSuccess 200 (JObj [(''id'', JStr i), (''password_changed'', JBool True)]))))"

definition handleUserPermissions :: "'s permission_api \<Rightarrow> ident \<Rightarrow> 's api_handler" where
  "handleUserPermissions permissions i q =
     (if rq_Method q \<noteq> MethodGet then reply (methodNotAllowed [MethodGet])
      else case pa_ListByUser permissions of
        None \<Rightarrow> reply handleNotFound
      | Some f \<Rightarrow> query_answer (f i) (\<lambda>es. writeSuccess 200 (JArr (map user_entry_json es))))"

text \<open>\<open>PATCH\<close>, \<open>GET\<close> and \<open>DELETE\<close> of one user.\<close>

definition patch_user :: "'s api_server \<Rightarrow> 's user_api \<Rightarrow> ident \<Rightarrow> 's api_handler" where
  "patch_user sv users i q =
     with_input (sv_Library sv) decode_enabled q (\<lambda>input.
       case input of None \<Rightarrow> reply (badRequest ''Invalid request body'')
       | Some enabled \<Rightarrow> query_answer
           (and_then (ua_SetEnabled users i enabled) (\<lambda>changed.
            and_then (apply_if changed sv) (\<lambda>_. ua_Get users i)))
           (\<lambda>u. writeSuccess 200 (publicUser None u)))"

definition one_user :: "'s api_server \<Rightarrow> 's user_api \<Rightarrow> ident \<Rightarrow> 's api_handler" where
  "one_user sv users i q =
     (if rq_Method q = MethodGet then query_answer (ua_Get users i) (\<lambda>u. writeSuccess 200 (publicUser None u))
      else if rq_Method q = MethodPatch then patch_user sv users i q
      else if rq_Method q = MethodDelete then
        mutate sv (ua_Delete users i) (\<lambda>_. writeSuccess 200 (deleted_json i))
      else reply (methodNotAllowed [MethodGet, MethodPatch, MethodDelete]))"

definition handleUser :: "'s api_server \<Rightarrow> 's user_api \<Rightarrow> 's api_handler" where
  "handleUser sv users q =
     (let parts = path_parts ''/api/v1/users/'' q in
      if hd parts = [] \<or> 2 < length parts
         \<or> (length parts = 2 \<and> parts ! 1 \<noteq> ''password'' \<and> parts ! 1 \<noteq> ''permissions'')
      then reply handleNotFound
      else with_id (hd parts) ''Invalid user ID'' (\<lambda>i.
        if length parts = 2 then
          (if parts ! 1 = ''permissions''
           then (case sv_Permissions sv of None \<Rightarrow> reply handleNotFound | Some p \<Rightarrow> handleUserPermissions p i q)
           else handleUserPassword sv users i q)
        else one_user sv users i q))"

section \<open>Shares\<close>

definition decode_new_share :: "json \<Rightarrow> (string \<times> string \<times> string) option" where
  "decode_new_share = decode_known [''name'', ''slug'', ''path'']
     (\<lambda>n v (a, b, c). if n = ''name'' then map_option (\<lambda>x. (x, b, c)) (decode_string v a)
        else if n = ''slug'' then map_option (\<lambda>x. (a, x, c)) (decode_string v b)
        else map_option (\<lambda>x. (a, b, x)) (decode_string v c)) ([], [], [])"

definition no_update :: share_update where
  "no_update = \<lparr>update_Name = None, update_Slug = None, update_Path = None, update_Enabled = None\<rparr>"

definition assign_share_update :: "string \<Rightarrow> json \<Rightarrow> share_update \<Rightarrow> share_update option" where
  "assign_share_update n v u =
     (if n = ''name'' then map_option (\<lambda>x. u\<lparr>update_Name := x\<rparr>) (decode_pointer decode_string [] v (update_Name u))
      else if n = ''slug'' then map_option (\<lambda>x. u\<lparr>update_Slug := x\<rparr>) (decode_pointer decode_string [] v (update_Slug u))
      else if n = ''path'' then map_option (\<lambda>x. u\<lparr>update_Path := x\<rparr>) (decode_pointer decode_string [] v (update_Path u))
      else map_option (\<lambda>x. u\<lparr>update_Enabled := x\<rparr>) (decode_pointer decode_bool False v (update_Enabled u)))"

definition decode_share_update :: "json \<Rightarrow> share_update option" where
  "decode_share_update = decode_known [''name'', ''slug'', ''path'', ''enabled''] assign_share_update no_update"

definition authorized_counts :: "'s api_server \<Rightarrow> ('s, (ident \<times> nat) list) service" where
  "authorized_counts sv =
     (case Option.bind (sv_Permissions sv) pa_Summary of
        None \<Rightarrow> give (Inr []) | Some y \<Rightarrow> ya_AuthorizedUserCounts y)"

definition handleShares :: "'s api_server \<Rightarrow> 's share_api \<Rightarrow> 's api_handler" where
  "handleShares sv shares q =
     (if rq_Method q = MethodGet then
        query_answer (and_then (sa_List shares) (\<lambda>ss. and_then (authorized_counts sv) (\<lambda>counts. give (Inr (ss, counts)))))
          (\<lambda>(ss, counts). writeSuccess 200 (JArr (map (\<lambda>s.
             publicShare (case map_of counts (share_ID s) of None \<Rightarrow> 0 | Some n \<Rightarrow> n) s) ss)))
      else if rq_Method q = MethodPost then
        with_input (sv_Library sv) decode_new_share q (\<lambda>(name, slug, path).
          mutate sv (sa_Create shares name slug path) (\<lambda>s. writeSuccess 201 (publicShare 0 s)))
      else reply (methodNotAllowed [MethodGet, MethodPost]))"

definition patch_share :: "'s api_server \<Rightarrow> 's share_api \<Rightarrow> ident \<Rightarrow> 's api_handler" where
  "patch_share sv shares i q =
     with_input (sv_Library sv) decode_share_update q (\<lambda>u.
       if u = no_update then reply (badRequest ''At least one share field is required'')
       else respond (and_then (sa_Update shares i u) (\<lambda>(s, changed).
         and_then (apply_if changed sv) (\<lambda>_. give (Inr (writeSuccess 200 (publicShare 0 s)))))))"

definition one_share :: "'s api_server \<Rightarrow> 's share_api \<Rightarrow> ident \<Rightarrow> 's api_handler" where
  "one_share sv shares i q =
     (if rq_Method q = MethodGet then query_answer (sa_Get shares i) (\<lambda>s. writeSuccess 200 (publicShare 0 s))
      else if rq_Method q = MethodPatch then patch_share sv shares i q
      else if rq_Method q = MethodDelete then
        mutate sv (sa_Delete shares i)
          (\<lambda>_. writeSuccess 200 (JObj [(''deleted'', JBool True), (''files_preserved'', JBool True), (''id'', JStr i)]))
      else reply (methodNotAllowed [MethodGet, MethodPatch, MethodDelete]))"

section \<open>Permissions\<close>

definition decode_permission_input :: "json \<Rightarrow> permission option" where
  "decode_permission_input = decode_known [''permission''] (\<lambda>n v old. decode_string v old) []"

definition handlePermissions :: "'s api_server \<Rightarrow> 's permission_api \<Rightarrow> string list \<Rightarrow> 's api_handler" where
  "handlePermissions sv permissions parts q =
     (if length parts < 2 \<or> 3 < length parts \<or> hd parts = [] then reply handleNotFound
      else with_id (hd parts) ''Invalid share ID'' (\<lambda>shareID.
        if length parts = 2 then
          (if rq_Method q \<noteq> MethodGet then reply (methodNotAllowed [MethodGet])
           else query_answer (pa_List permissions shareID) (\<lambda>es. writeSuccess 200 (JArr (map permission_entry_json es))))
        else if rq_Method q \<noteq> MethodPut then reply (methodNotAllowed [MethodPut])
        else with_id (parts ! 2) ''Invalid user ID'' (\<lambda>userID.
          with_input (sv_Library sv) decode_permission_input q (\<lambda>p.
            respond (and_then (pa_Set permissions shareID userID p) (\<lambda>(entry, changed).
              and_then (apply_if changed sv) (\<lambda>_. give (Inr (writeSuccess 200 (permission_entry_json entry)))))))))) "

definition handleShare :: "'s api_server \<Rightarrow> 's share_api \<Rightarrow> 's api_handler" where
  "handleShare sv shares q =
     (let parts = path_parts ''/api/v1/shares/'' q in
      case sv_Permissions sv of
        Some p \<Rightarrow>
          if 2 \<le> length parts \<and> parts ! 1 = ''permissions'' then handlePermissions sv p parts q
          else if length parts \<noteq> 1 \<or> hd parts = [] then reply handleNotFound
          else with_id (hd parts) ''Invalid share ID'' (\<lambda>i. one_share sv shares i q)
      | None \<Rightarrow>
          if length parts \<noteq> 1 \<or> hd parts = [] then reply handleNotFound
          else with_id (hd parts) ''Invalid share ID'' (\<lambda>i. one_share sv shares i q))"

section \<open>Settings\<close>

definition decode_ports :: "json \<Rightarrow> (int \<times> int) option" where
  "decode_ports = decode_known [''http_port'', ''https_port'']
     (\<lambda>n v (a, b). if n = ''http_port'' then map_option (\<lambda>x. (x, b)) (decode_int v a)
        else map_option (\<lambda>x. (a, x)) (decode_int v b)) (0, 0)"

definition handleServerSettings :: "'s api_server \<Rightarrow> 's settings_api \<Rightarrow> 's api_handler" where
  "handleServerSettings sv settings q =
     (if rq_Method q = MethodGet then query_answer (ga_Get settings) (\<lambda>s. writeSuccess 200 (server_settings_json s))
      else if rq_Method q = MethodPut then
        with_input (sv_Library sv) decode_ports q (\<lambda>(http, https).
          mutate sv (ga_UpdatePorts settings http https) (\<lambda>s. writeSuccess 200 (server_settings_json s)))
      else reply (methodNotAllowed [MethodGet, MethodPut]))"

section \<open>DNS credentials\<close>

text \<open>A map of strings, whose members replace earlier ones of the same name; \<open>null\<close> is a nil map.\<close>

fun decode_secret_map :: "json \<Rightarrow> dns_secret option \<Rightarrow> dns_secret option option" where
  "decode_secret_map (JObj kvs) old = map_option Some (decode_secret_members kvs (case old of None \<Rightarrow> [] | Some m \<Rightarrow> m))"
| "decode_secret_map JNull old = Some None"
| "decode_secret_map _ old = None"

definition new_dns_update :: "ident \<Rightarrow> dns_update" where
  "new_dns_update i = \<lparr>up_ID = i, up_Name = [], up_Provider = [], up_AllowedZones = [], up_Secret = None\<rparr>"

definition assign_dns_update :: "string \<Rightarrow> json \<Rightarrow> dns_update \<Rightarrow> dns_update option" where
  "assign_dns_update n v u =
     (if n = ''name'' then map_option (\<lambda>x. u\<lparr>up_Name := x\<rparr>) (decode_string v (up_Name u))
      else if n = ''provider'' then map_option (\<lambda>x. u\<lparr>up_Provider := x\<rparr>) (decode_string v (up_Provider u))
      else if n = ''allowed_zones'' then
        map_option (\<lambda>x. u\<lparr>up_AllowedZones := x\<rparr>) (decode_list (\<lambda>j. decode_string j []) v (up_AllowedZones u))
      else map_option (\<lambda>x. u\<lparr>up_Secret := x\<rparr>) (decode_secret_map v (up_Secret u)))"

definition decode_dns_update :: "ident \<Rightarrow> json \<Rightarrow> dns_update option" where
  "decode_dns_update i =
     decode_known [''name'', ''provider'', ''allowed_zones'', ''secret''] assign_dns_update (new_dns_update i)"

definition handleDNSProviders :: "'s api_server \<Rightarrow> 's dns_api \<Rightarrow> 's api_handler" where
  "handleDNSProviders sv providers q =
     (if rq_Method q = MethodGet then
        query_answer (da_List providers) (\<lambda>vs. writeSuccess 200 (JArr (map dns_view_json vs)))
      else if rq_Method q = MethodPost then
        with_input (sv_Library sv) (decode_dns_update []) q (\<lambda>u.
          query_answer (da_Save providers u) (\<lambda>v. writeSuccess 201 (dns_view_json v)))
      else reply (methodNotAllowed [MethodGet, MethodPost]))"

definition handleDNSProvider :: "'s api_server \<Rightarrow> 's dns_api \<Rightarrow> 's api_handler" where
  "handleDNSProvider sv providers q =
     (let parts = path_parts ''/api/v1/dns/providers/'' q in
      if length parts \<noteq> 1 \<or> hd parts = [] then reply handleNotFound
      else with_id (hd parts) ''Invalid DNS provider ID'' (\<lambda>i.
        if rq_Method q = MethodGet then query_answer (da_Get providers i) (\<lambda>v. writeSuccess 200 (dns_view_json v))
        else if rq_Method q = MethodPut then
          with_input (sv_Library sv) (decode_dns_update i) q (\<lambda>u.
            query_answer (da_Save providers u) (\<lambda>v. writeSuccess 200 (dns_view_json v)))
        else if rq_Method q = MethodDelete then
          query_answer (da_Delete providers i) (\<lambda>_. writeSuccess 200 (deleted_json i))
        else reply (methodNotAllowed [MethodGet, MethodPut, MethodDelete])))"

section \<open>TLS\<close>

definition no_tls_update :: tls_update where
  "no_tls_update = \<lparr>upd_Mode = [], upd_Hostname = [], upd_Challenge = [], upd_DNSProviderID = None, upd_CertificatePath = [],
     upd_PrivateKeyPath = []\<rparr>"

definition assign_tls_update :: "string \<Rightarrow> json \<Rightarrow> tls_update \<Rightarrow> tls_update option" where
  "assign_tls_update n v u =
     (if n = ''mode'' then map_option (\<lambda>x. u\<lparr>upd_Mode := x\<rparr>) (decode_string v (upd_Mode u))
      else if n = ''hostname'' then map_option (\<lambda>x. u\<lparr>upd_Hostname := x\<rparr>) (decode_string v (upd_Hostname u))
      else if n = ''challenge'' then map_option (\<lambda>x. u\<lparr>upd_Challenge := x\<rparr>) (decode_string v (upd_Challenge u))
      else if n = ''dns_provider_id'' then
        map_option (\<lambda>x. u\<lparr>upd_DNSProviderID := x\<rparr>) (decode_pointer decode_string [] v (upd_DNSProviderID u))
      else if n = ''certificate_path'' then
        map_option (\<lambda>x. u\<lparr>upd_CertificatePath := x\<rparr>) (decode_string v (upd_CertificatePath u))
      else map_option (\<lambda>x. u\<lparr>upd_PrivateKeyPath := x\<rparr>) (decode_string v (upd_PrivateKeyPath u)))"

definition decode_tls_update :: "json \<Rightarrow> tls_update option" where
  "decode_tls_update = decode_known
     [''mode'', ''hostname'', ''challenge'', ''dns_provider_id'', ''certificate_path'', ''private_key_path'']
     assign_tls_update no_tls_update"

text \<open>The profile with the status of its certificate, which only an automatic one has.\<close>

definition current_profile :: "'s tls_api \<Rightarrow> ('s, json) service" where
  "current_profile tls =
     and_then (ta_Get tls) (\<lambda>found.
     case found of None \<Rightarrow> give (Inr JNull)
     | Some p \<Rightarrow>
         (case (if Mode p = TLSModeAutomatic then ta_CertificateStatus tls else None) of
            None \<Rightarrow> give (Inr (tls_response p None))
          | Some status \<Rightarrow> and_then (status p) (\<lambda>s. give (Inr (tls_response p (Some s))))))"

definition handleTLS :: "'s api_server \<Rightarrow> 's tls_api \<Rightarrow> 's api_handler" where
  "handleTLS sv tls q =
     (if rq_Method q = MethodGet then query_answer (current_profile tls) (writeSuccess 200)
      else if rq_Method q = MethodPut then
        with_input (sv_Library sv) decode_tls_update q (\<lambda>u.
          query_answer (ta_Update tls u) (\<lambda>p. writeSuccess 200 (tls_json p)))
      else if rq_Method q = MethodDelete then query_answer (ta_Disable tls) (\<lambda>_. writeSuccess 200 JNull)
      else reply (methodNotAllowed [MethodGet, MethodPut, MethodDelete]))"

definition handleTLSCheck :: "'s tls_api \<Rightarrow> 's api_handler" where
  "handleTLSCheck tls q =
     (if rq_Method q \<noteq> MethodPost then reply (methodNotAllowed [MethodPost])
      else query_answer (ta_Check tls) (\<lambda>c. writeSuccess 200 (tls_check_json c)))"

definition handleTLSRenew :: "'s tls_api \<Rightarrow> 's api_handler" where
  "handleTLSRenew tls q =
     (if rq_Method q \<noteq> MethodPost then reply (methodNotAllowed [MethodPost])
      else case ta_Renew tls of
        None \<Rightarrow> reply (writeApplicationError (tls_configuration ''Certificate renewal is not available''))
      | Some renew \<Rightarrow> query_answer (and_then renew (\<lambda>_. current_profile tls)) (writeSuccess 202))"

definition handleTLSRenewCancel :: "'s tls_api \<Rightarrow> 's api_handler" where
  "handleTLSRenewCancel tls q =
     (if rq_Method q \<noteq> MethodPost then reply (methodNotAllowed [MethodPost])
      else case ta_CancelRenew tls of
        None \<Rightarrow> reply (writeApplicationError (tls_configuration ''Certificate renewal cancellation is not available''))
      | Some cancel \<Rightarrow> query_answer (and_then cancel (\<lambda>_. current_profile tls)) (writeSuccess 200))"

end
