(* ===== verification/Go_Numbers.thy ===== *)
theory Go_Numbers
  imports Json Timestamp_Text
begin

text \<open>
  Numbers as \<^verbatim>\<open>strconv\<close> reads them: decimal digits with an optional sign, within 64 bits.
\<close>

definition is_number :: "string \<Rightarrow> bool" where
  "is_number s = (let ds = (if s \<noteq> [] \<and> hd s \<in> {CHR ''+'', CHR ''-''} then tl s else s) in ds \<noteq> [] \<and> list_all digit_char ds)"

definition signed_value :: "string \<Rightarrow> int" where
  "signed_value s = (if hd s = CHR ''-'' then - number_of (tl s) else number_of (if hd s = CHR ''+'' then tl s else s))"

text \<open>\<^verbatim>\<open>strconv.Atoi\<close>, and the value it returns beside its error: 0 for what is not a number, the nearest one for what is out of range.\<close>

definition Atoi :: "string \<Rightarrow> int option" where
  "Atoi s = (if is_number s \<and> - (2 ^ 63) \<le> signed_value s \<and> signed_value s < 2 ^ 63 then Some (signed_value s) else None)"

definition atoi_value :: "string \<Rightarrow> int" where
  "atoi_value s = (if is_number s then max (- (2 ^ 63)) (min (2 ^ 63 - 1) (signed_value s)) else 0)"

lemma atoi_value_ok: "Atoi s = Some n \<Longrightarrow> atoi_value s = n"
  by (simp add: Atoi_def atoi_value_def split: if_splits)

text \<open>\<^verbatim>\<open>strconv.ParseUint(s, 10, 64)\<close>, which has no sign.\<close>

definition ParseUint64 :: "string \<Rightarrow> int option" where
  "ParseUint64 s = (if s \<noteq> [] \<and> list_all digit_char s \<and> number_of s < 2 ^ 64 then Some (number_of s) else None)"

end
