(* ===== verification/Api_System.thy ===== *)
theory Api_System
  imports Api_Handlers Go_Numbers
begin

text \<open>
  The handlers of the configuration, the revisions, the runtime, the logs and the process (\<^verbatim>\<open>api/apply.go\<close>,
  \<^verbatim>\<open>runtime.go\<close>, \<^verbatim>\<open>endpoints.go\<close>, \<^verbatim>\<open>config_file.go\<close>, \<^verbatim>\<open>logs.go\<close>, \<^verbatim>\<open>diagnostics.go\<close>, \<^verbatim>\<open>service.go\<close>,
  \<^verbatim>\<open>shutdown.go\<close>, and the status of \<^verbatim>\<open>server.go\<close>).
\<close>

text \<open>A handler with one method.\<close>

definition only :: "string \<Rightarrow> request \<Rightarrow> ('s \<Rightarrow> 's \<times> response) \<Rightarrow> 's \<Rightarrow> 's \<times> response" where
  "only allowed q continue = (if rq_Method q \<noteq> allowed then reply (methodNotAllowed [allowed]) else continue)"

section \<open>Configuration and revisions\<close>

definition handleConfigApply :: "'s apply_api \<Rightarrow> 's api_handler" where
  "handleConfigApply a q = only MethodPost q (query_answer (aa_Apply a) (\<lambda>r. writeSuccess 200 (publicRevision r)))"

definition handleConfigValidate :: "'s apply_api \<Rightarrow> 's api_handler" where
  "handleConfigValidate a q = only MethodPost q (query_answer (aa_Validate a) (\<lambda>v. writeSuccess 200 (validation_json v)))"

definition handleConfigState :: "'s apply_api \<Rightarrow> 's api_handler" where
  "handleConfigState a q = only MethodGet q (query_answer (aa_State a) (\<lambda>s. writeSuccess 200 (revision_state_json s)))"

definition handleRevisions :: "'s apply_api \<Rightarrow> 's api_handler" where
  "handleRevisions a q =
     only MethodGet q (query_answer (aa_List a) (\<lambda>rs. writeSuccess 200 (JArr (map publicRevision rs))))"

definition with_revision :: "string \<Rightarrow> (ident \<Rightarrow> 's \<Rightarrow> 's \<times> response) \<Rightarrow> 's \<Rightarrow> 's \<times> response" where
  "with_revision value continue =
     (if value = [] \<or> CHR ''/'' \<in> set value then reply handleNotFound
      else with_id value ''Invalid revision ID'' continue)"

definition handleRevision :: "'s apply_api \<Rightarrow> 's api_handler" where
  "handleRevision a q =
     (let value = trim_prefix (rq_Path q) ''/api/v1/revisions/'' in
      if rq_Method q = MethodDelete then
        with_revision value (\<lambda>i. query_answer (aa_Delete a i) (\<lambda>_. writeSuccess 200 (deleted_json i)))
      else if rq_Method q = MethodPost then
        (if \<not> has_suffix (rq_Path q) ''/restore'' then reply handleNotFound
         else with_revision (trim_suffix value ''/restore'')
           (\<lambda>i. query_answer (aa_Restore a i) (\<lambda>r. writeSuccess 200 (publicRevision r))))
      else if rq_Method q = MethodGet then
        with_revision value (\<lambda>i. query_answer (aa_Get a i) (\<lambda>r. writeSuccess 200 (publicRevision r)))
      else reply (methodNotAllowed [MethodGet, MethodPost, MethodDelete]))"

section \<open>The runtime\<close>

definition runtime_state_text :: "runtime_state \<Rightarrow> string" where
  "runtime_state_text s =
     (case s of RuntimeNotInstalled \<Rightarrow> ''NOT_INSTALLED'' | RuntimeStopped \<Rightarrow> ''STOPPED'' | RuntimeStarting \<Rightarrow> ''STARTING''
      | RuntimeRunning \<Rightarrow> ''RUNNING'' | RuntimeStopping \<Rightarrow> ''STOPPING'' | RuntimeDegraded \<Rightarrow> ''DEGRADED''
      | RuntimeFailed \<Rightarrow> ''FAILED'' | RuntimeUnknown \<Rightarrow> ''UNKNOWN'')"

text \<open>The state of the revisions, if it is asked for and can be read: nothing, a failure, or the state.\<close>

definition read_state :: "'s api_server \<Rightarrow> 's \<Rightarrow> 's \<times> revision_state option option" where
  "read_state sv x =
     (case sv_Apply sv of None \<Rightarrow> (x, None)
      | Some a \<Rightarrow> (case aa_State a x of (y, Inl _) \<Rightarrow> (y, Some None) | (y, Inr s) \<Rightarrow> (y, Some (Some s))))"

definition last_error :: "string \<Rightarrow> revision_state option option \<Rightarrow> string" where
  "last_error code state = (if state = Some None \<and> code = [] then ''DATABASE_ERROR'' else code)"

record server_status =
  sr_Caddy :: string
  sr_WebDAV :: string
  sr_LastErrorCode :: string
  sr_DesiredRevision :: "int option"
  sr_ActiveRevision :: "int option"
  sr_PendingChanges :: bool

definition currentServerStatus :: "'s api_server \<Rightarrow> 's runtime_api \<Rightarrow> 's \<Rightarrow> 's \<times> server_status" where
  "currentServerStatus sv rt x =
     (case ra_RuntimeStatusSnapshot rt x of (y, status) \<Rightarrow>
      (case read_state sv y of (z, state) \<Rightarrow>
        (z, \<lparr>sr_Caddy = runtime_state_text (Caddy status), sr_WebDAV = runtime_state_text (WebDAV status),
             sr_LastErrorCode = last_error (error_code_text (LastErrorCode status)) state,
             sr_DesiredRevision = (case state of Some (Some s) \<Rightarrow> DesiredRevision s | _ \<Rightarrow> None),
             sr_ActiveRevision = (case state of Some (Some s) \<Rightarrow> ActiveRevision s | _ \<Rightarrow> None),
             sr_PendingChanges = (case state of Some (Some s) \<Rightarrow> Pending s | _ \<Rightarrow> False)\<rparr>)))"

definition server_status_json :: "server_status \<Rightarrow> json" where
  "server_status_json s = JObj
     ([(''caddy'', JStr (sr_Caddy s)), (''webdav'', JStr (sr_WebDAV s))] @ omit_empty_str ''last_error_code'' (sr_LastErrorCode s)
      @ [(''desired_revision'', number_or_null (sr_DesiredRevision s)), (''active_revision'', number_or_null (sr_ActiveRevision s)),
         (''pending_changes'', JBool (sr_PendingChanges s))])"

definition answer_status :: "'s api_server \<Rightarrow> 's runtime_api \<Rightarrow> 's \<Rightarrow> 's \<times> response" where
  "answer_status sv rt x = (case currentServerStatus sv rt x of (y, s) \<Rightarrow> (y, writeSuccess 200 (server_status_json s)))"

definition control_runtime :: "'s api_server \<Rightarrow> 's runtime_api \<Rightarrow> ('s, unit) service \<Rightarrow> 's \<Rightarrow> 's \<times> response" where
  "control_runtime sv rt m x =
     (case m x of (y, Inl e) \<Rightarrow> (y, writeApplicationError e) | (y, Inr _) \<Rightarrow> answer_status sv rt y)"

definition handleServerStatus :: "'s api_server \<Rightarrow> 's runtime_api \<Rightarrow> 's api_handler" where
  "handleServerStatus sv rt q = only MethodGet q (answer_status sv rt)"

definition handleServerStart :: "'s api_server \<Rightarrow> 's runtime_api \<Rightarrow> 's api_handler" where
  "handleServerStart sv rt q = only MethodPost q (control_runtime sv rt (ra_Start rt))"

definition handleServerStop :: "'s api_server \<Rightarrow> 's runtime_api \<Rightarrow> 's api_handler" where
  "handleServerStop sv rt q = only MethodPost q (control_runtime sv rt (ra_Stop rt))"

definition handleServerRestart :: "'s api_server \<Rightarrow> 's runtime_api \<Rightarrow> 's api_handler" where
  "handleServerRestart sv rt q = only MethodPost q (control_runtime sv rt (ra_Restart rt))"

definition handleServerEndpoints :: "('s, endpoint \<times> endpoint) service \<Rightarrow> 's api_handler" where
  "handleServerEndpoints f q = only MethodGet q (query_answer f (\<lambda>e. writeSuccess 200 (endpoints_json e)))"

section \<open>Import and export\<close>

definition handleConfigExport :: "'s config_api \<Rightarrow> 's api_handler" where
  "handleConfigExport c q = only MethodGet q (query_answer (ca_Export c) (\<lambda>body. writeSuccess 200
     (JObj [(''contains_secrets'', JBool False), (''content'', JStr body), (''format'', JStr ''yaml'')])))"

text \<open>Reading the body fails at its limit only; a connection that breaks is outside the model.\<close>

definition handleConfigImport :: "'s api_server \<Rightarrow> 's config_api \<Rightarrow> 's api_handler" where
  "handleConfigImport sv c q = only MethodPost q
     (if ParseMediaType (sv_Library sv) (rq_ContentType q) \<notin> Some ` {''application/yaml'', ''text/yaml'', ''application/x-yaml''}
      then reply (badRequest ''Content-Type must be application/yaml'')
      else if maxRequestBodyBytes < length (rq_Body q)
      then reply (writeError 413 ErrorInvalidRequest ''Configuration is too large'' [])
      else query_answer (ca_Import c (rq_Body q)) (\<lambda>r. writeSuccess 200 (import_result_json r)))"

section \<open>Logs\<close>

definition parse_limit :: "string \<Rightarrow> string + int" where
  "parse_limit value =
     (if value = [] then Inr DefaultPageSize
      else case Atoi value of
        Some n \<Rightarrow> if n < 1 \<or> MaximumPageSize < n then Inl ''limit must be between 1 and 200'' else Inr n
      | None \<Rightarrow> Inl ''limit must be between 1 and 200'')"

definition parse_cursor :: "string \<Rightarrow> string + 64 word" where
  "parse_cursor value =
     (if value = [] then Inr 0
      else case ParseUint64 value of
        Some n \<Rightarrow> if n = 0 then Inl ''cursor must be a positive integer'' else Inr (of_int n)
      | None \<Rightarrow> Inl ''cursor must be a positive integer'')"

definition parse_since :: "string \<Rightarrow> string + timestamp option" where
  "parse_since value =
     (if value = [] then Inr None
      else case parse_rfc3339 value of
        Some i \<Rightarrow> Inr (Some (Time i True)) | None \<Rightarrow> Inl ''since must be an RFC3339 timestamp'')"

definition parse_level :: "string \<Rightarrow> string + string" where
  "parse_level value =
     (if value = [] then Inr []
      else let level = level_upper value in
        if level \<in> {''DEBUG'', ''INFO'', ''WARN'', ''ERROR''} then Inr level
        else Inl ''level must be DEBUG, INFO, WARN, or ERROR'')"

definition parse_component :: "string \<Rightarrow> string + string" where
  "parse_component value =
     (if 64 < length value \<or> list_ex (\<lambda>r. r < 32 \<or> r = 127) (runes value) then Inl ''component is invalid'' else Inr value)"

definition parseLogQuery :: "request \<Rightarrow> string + log_query" where
  "parseLogQuery q =
     (let value = (\<lambda>k. trim_space (query_value q k)) in
      case parse_limit (value ''limit'') of Inl e \<Rightarrow> Inl e | Inr limit \<Rightarrow>
      (case parse_cursor (value ''cursor'') of Inl e \<Rightarrow> Inl e | Inr cursor \<Rightarrow>
      (case parse_since (value ''since'') of Inl e \<Rightarrow> Inl e | Inr since \<Rightarrow>
      (case parse_level (value ''level'') of Inl e \<Rightarrow> Inl e | Inr level \<Rightarrow>
      (case parse_component (value ''component'') of Inl e \<Rightarrow> Inl e | Inr component \<Rightarrow>
        Inr \<lparr>lq_Limit = limit, lq_Cursor = cursor, lq_Since = since, lq_Level = level, lq_Component = component\<rparr>)))))"

definition handleLogs :: "'s api_server \<Rightarrow> 's api_handler" where
  "handleLogs sv q = only MethodGet q
     (case sv_Logs sv of None \<Rightarrow> reply (writeError 503 ErrorLogsUnavailable ''Recent logs are unavailable'' [])
      | Some store \<Rightarrow>
          (case parseLogQuery q of Inl message \<Rightarrow> reply (writeError 400 ErrorInvalidLogQuery message [])
           | Inr query \<Rightarrow> reply (writeSuccess 200 (log_page_json (sv_FieldsJSON sv) (log_Query query store)))))"

section \<open>Diagnostics\<close>

definition handleDiagnostics :: "'s diagnostics_api \<Rightarrow> 's api_handler" where
  "handleDiagnostics d q = only MethodGet q (\<lambda>x. (x, writeSuccess 200
     (JObj [(''available'', JBool (xa_Latest d x \<noteq> None)),
            (''report'', case xa_Latest d x of None \<Rightarrow> JNull | Some r \<Rightarrow> r)])))"

definition handleDiagnosticsRun :: "'s diagnostics_api \<Rightarrow> 's api_handler" where
  "handleDiagnosticsRun d q = only MethodPost q (\<lambda>x. case xa_Run d x of (y, r) \<Rightarrow> (y, writeSuccess 200 r))"

definition handleDiagnosticsReport :: "'s diagnostics_api \<Rightarrow> 's api_handler" where
  "handleDiagnosticsReport d q = only MethodGet q
     (if query_value q ''mode'' \<notin> {[], ''redacted''}
      then reply (badRequest ''Only redacted diagnostic reports are supported'')
      else (\<lambda>x. (x, case xa_Latest d x of
              None \<Rightarrow> writeError 404 ''DIAGNOSTICS_NOT_RUN'' ''Diagnostics have not been run'' []
            | Some r \<Rightarrow> writeSuccess 200 r)))"

section \<open>The service of the system\<close>

definition manager_failure :: "string \<Rightarrow> nat \<times> string" where
  "manager_failure code =
     (if code = ErrorPrivilegeRequired then (403, code)
      else if code = ErrorPlatformUnsupported then (501, code)
      else if code \<in> {ErrorServiceInstallFailed, ErrorServiceUninstallFailed, ErrorServiceStartFailed, ErrorServiceStopFailed,
                ErrorServiceStatusFailed} then (500, code)
      else (500, ErrorInternal))"

definition writeServiceError :: "manager_error \<Rightarrow> response" where
  "writeServiceError e =
     (case e of
        OtherServiceError \<Rightarrow> writeError 500 ErrorInternal ''Internal server error'' []
      | ServiceError code message \<Rightarrow>
          (case manager_failure code of (status, text) \<Rightarrow> writeError status text message []))"

definition handleServiceMutation :: "('s \<Rightarrow> 's \<times> manager_error option) \<Rightarrow> string \<Rightarrow> 's api_handler" where
  "handleServiceMutation operation result q = only MethodPost q (\<lambda>x.
     case operation x of (y, Some e) \<Rightarrow> (y, writeServiceError e) | (y, None) \<Rightarrow> (y, writeSuccess 200 (result_json result)))"

definition handleServiceStatus :: "'s manager_api \<Rightarrow> 's api_handler" where
  "handleServiceStatus m q = only MethodGet q (\<lambda>x.
     case ma_Status m x of (y, Inl e) \<Rightarrow> (y, writeServiceError e)
     | (y, Inr s) \<Rightarrow> (y, writeSuccess 200 (service_status_json s)))"

section \<open>The status of the daemon\<close>

definition serviceStatusErrorCode :: "manager_error \<Rightarrow> string" where
  "serviceStatusErrorCode e =
     (case e of ServiceError code message \<Rightarrow> if code = [] then ErrorServiceStatusFailed else code
      | OtherServiceError \<Rightarrow> ErrorServiceStatusFailed)"

definition default_text :: "string \<Rightarrow> string \<Rightarrow> string" where
  "default_text s fallback = (if s = [] then fallback else s)"

definition base_status :: "status_snapshot \<Rightarrow> status_snapshot" where
  "base_status s = s\<lparr>st_Daemon := default_text (st_Daemon s) ''RUNNING'', st_Caddy := default_text (st_Caddy s) ''UNKNOWN'',
     st_WebDAV := default_text (st_WebDAV s) ''UNKNOWN'',
     st_Service := (st_Service s)\<lparr>ss_State := default_text (ss_State (st_Service s)) ''NOT_INSTALLED''\<rparr>\<rparr>"

definition add_runtime_status :: "'s api_server \<Rightarrow> status_snapshot \<Rightarrow> 's \<Rightarrow> 's \<times> status_snapshot" where
  "add_runtime_status sv s x =
     (case sv_Runtime sv of None \<Rightarrow> (x, s)
      | Some rt \<Rightarrow> (case ra_RuntimeStatusSnapshot rt x of (y, r) \<Rightarrow>
          (y, s\<lparr>st_Caddy := runtime_state_text (Caddy r), st_WebDAV := runtime_state_text (WebDAV r),
               st_LastErrorCode := error_code_text (LastErrorCode r)\<rparr>)))"

definition add_service_status :: "'s api_server \<Rightarrow> status_snapshot \<Rightarrow> 's \<Rightarrow> 's \<times> status_snapshot" where
  "add_service_status sv s x =
     (case sv_Service sv of None \<Rightarrow> (x, s)
      | Some m \<Rightarrow> (case ma_Status m x of
          (y, Inl e) \<Rightarrow>
            let code = serviceStatusErrorCode e in
            (y, s\<lparr>st_Service := \<lparr>ss_Installed = False, ss_State = ''UNKNOWN'', ss_StartsAtBoot = False, ss_LastErrorCode = code\<rparr>,
                 st_LastErrorCode := (if st_LastErrorCode s = [] \<and> code \<noteq> ErrorPlatformUnsupported then code
                                      else st_LastErrorCode s)\<rparr>)
        | (y, Inr status) \<Rightarrow> (y, s\<lparr>st_Service := status\<rparr>)))"

definition add_revision_state :: "'s api_server \<Rightarrow> status_snapshot \<Rightarrow> 's \<Rightarrow> 's \<times> status_snapshot" where
  "add_revision_state sv s x =
     (case read_state sv x of (y, state) \<Rightarrow>
        (y, case state of
           Some (Some r) \<Rightarrow> s\<lparr>st_DesiredRevision := DesiredRevision r, st_ActiveRevision := ActiveRevision r,
                              st_PendingChanges := Pending r\<rparr>
         | _ \<Rightarrow> s\<lparr>st_LastErrorCode := last_error (st_LastErrorCode s) state\<rparr>))"

definition currentStatus :: "'s api_server \<Rightarrow> 's \<Rightarrow> 's \<times> status_snapshot" where
  "currentStatus sv x =
     (case add_runtime_status sv (base_status (sv_Snapshot sv)) x of (y, s1) \<Rightarrow>
      (case add_service_status sv s1 y of (z, s2) \<Rightarrow> add_revision_state sv s2 z))"

definition handleStatus :: "'s api_server \<Rightarrow> 's api_handler" where
  "handleStatus sv q = only MethodGet q (\<lambda>x. case currentStatus sv x of (y, s) \<Rightarrow> (y, writeSuccess 200 (status_json s)))"

definition handleDaemonShutdown :: "'s api_server \<Rightarrow> 's api_handler" where
  "handleDaemonShutdown sv q =
     only MethodPost q (\<lambda>x. (sv_RequestShutdown sv x, writeSuccess 200 (result_json ''shutting_down'')))"

end
