(* ===== verification/Api_Server.thy ===== *)
theory Api_Server
  imports Api_System "HOL-Library.Sublist"
begin

text \<open>
  The Management API server (\<^verbatim>\<open>api/server.go\<close>): the routes that are registered, the multiplexer's choice among them, and
  the check of the token that stands before all of them.  The multiplexer answers a path that is not clean with a redirect itself, so
  the paths of the model's requests are clean ones; a panic of a handler, which \<^verbatim>\<open>recoverPanic\<close> answers, is outside the model.
\<close>

section \<open>Routes\<close>

text \<open>A pattern that ends with a slash names a subtree; the longest pattern that matches is chosen.\<close>

definition pattern_segments :: "string \<Rightarrow> string list" where
  "pattern_segments pattern = split_on CHR ''/'' (tl pattern)"

definition pattern_matches :: "string \<Rightarrow> string list \<Rightarrow> bool" where
  "pattern_matches pattern segments =
     (let p = pattern_segments pattern in
      if last p = [] then length p \<le> length segments \<and> take (length p - 1) segments = butlast p
      else segments = p)"

type_synonym 's routes = "(string \<times> 's api_handler) list"

fun choose_route :: "'s routes \<Rightarrow> string list \<Rightarrow> (string \<times> 's api_handler) option" where
  "choose_route [] segments = None"
| "choose_route ((pattern, h) # routes) segments =
     (case choose_route routes segments of
        None \<Rightarrow> if pattern_matches pattern segments then Some (pattern, h) else None
      | Some (other, k) \<Rightarrow>
          if pattern_matches pattern segments \<and> length other \<le> length pattern then Some (pattern, h) else Some (other, k))"

definition when_set :: "'a option \<Rightarrow> ('a \<Rightarrow> 's routes) \<Rightarrow> 's routes" where
  "when_set service routes = (case service of None \<Rightarrow> [] | Some s \<Rightarrow> routes s)"

definition server_routes :: "'s api_server \<Rightarrow> 's routes" where
  "server_routes sv =
     [(''/api/v1/status'', handleStatus sv), (''/api/v1/logs'', handleLogs sv),
      (''/api/v1/daemon/shutdown'', handleDaemonShutdown sv)]
     @ when_set (sv_Users sv) (\<lambda>u. [(''/api/v1/users'', handleUsers sv u), (''/api/v1/users/'', handleUser sv u)])
     @ when_set (sv_Shares sv) (\<lambda>s. [(''/api/v1/shares'', handleShares sv s), (''/api/v1/shares/'', handleShare sv s)])
     @ when_set (sv_Apply sv) (\<lambda>a.
         [(''/api/v1/config/validate'', handleConfigValidate a), (''/api/v1/config/apply'', handleConfigApply a),
          (''/api/v1/config/state'', handleConfigState a), (''/api/v1/revisions'', handleRevisions a),
          (''/api/v1/revisions/'', handleRevision a)])
     @ when_set (sv_Runtime sv) (\<lambda>rt.
         [(''/api/v1/server/status'', handleServerStatus sv rt), (''/api/v1/server/start'', handleServerStart sv rt),
          (''/api/v1/server/stop'', handleServerStop sv rt), (''/api/v1/server/restart'', handleServerRestart sv rt)])
     @ when_set (sv_Endpoints sv) (\<lambda>e. [(''/api/v1/server/endpoints'', handleServerEndpoints e)])
     @ when_set (sv_Settings sv) (\<lambda>s. [(''/api/v1/server/settings'', handleServerSettings sv s)])
     @ when_set (sv_Service sv) (\<lambda>m.
         [(''/api/v1/service/install'', handleServiceMutation (ma_Install m) ''installed''),
          (''/api/v1/service/uninstall'', handleServiceMutation (ma_Uninstall m) ''uninstalled''),
          (''/api/v1/service/start'', handleServiceMutation (ma_Start m) ''started''),
          (''/api/v1/service/stop'', handleServiceMutation (ma_Stop m) ''stopped''),
          (''/api/v1/service/status'', handleServiceStatus m)])
     @ when_set (sv_TLS sv) (\<lambda>t.
         [(''/api/v1/tls'', handleTLS sv t), (''/api/v1/tls/check'', handleTLSCheck t), (''/api/v1/tls/renew'', handleTLSRenew t),
          (''/api/v1/tls/renew/cancel'', handleTLSRenewCancel t)])
     @ when_set (sv_DNSProviders sv) (\<lambda>d.
         [(''/api/v1/dns/providers'', handleDNSProviders sv d), (''/api/v1/dns/providers/'', handleDNSProvider sv d)])
     @ when_set (sv_Diagnostics sv) (\<lambda>d.
         [(''/api/v1/diagnostics'', handleDiagnostics d), (''/api/v1/diagnostics/run'', handleDiagnosticsRun d),
          (''/api/v1/diagnostics/report'', handleDiagnosticsReport d)])
     @ when_set (sv_Configuration sv) (\<lambda>c.
         [(''/api/v1/config/export'', handleConfigExport c), (''/api/v1/config/import'', handleConfigImport sv c)])
     @ [(''/'', \<lambda>q. reply handleNotFound)]"

definition serve_mux :: "'s api_server \<Rightarrow> 's api_handler" where
  "serve_mux sv q =
     (case choose_route (server_routes sv) (rq_Segments q) of None \<Rightarrow> reply handleNotFound | Some (_, h) \<Rightarrow> h q)"

section \<open>The check of the token\<close>

definition bearer_prefix :: string where
  "bearer_prefix = ''Bearer ''"

definition unauthorized :: response where
  "unauthorized = writeError 401 ErrorUnauthorized ''Authentication required'' []"

text \<open>\<^verbatim>\<open>subtle.ConstantTimeCompare\<close> decides equality.\<close>

definition authenticate :: "string \<Rightarrow> 's api_handler \<Rightarrow> 's api_handler" where
  "authenticate token next q =
     (let header = rq_Authorization q in
      if \<not> has_prefix header bearer_prefix \<or> length header = length bearer_prefix then reply unauthorized
      else if trim_prefix header bearer_prefix \<noteq> token then reply unauthorized
      else next q)"

definition serve :: "'s api_server \<Rightarrow> 's api_handler" where
  "serve sv = authenticate (sv_Token sv) (serve_mux sv)"

section \<open>Making a server\<close>

text \<open>\<open>loopback_host\<close>: what \<^verbatim>\<open>net.SplitHostPort\<close> and \<^verbatim>\<open>net.ParseIP\<close> find of an address: nothing, or whether the host is a
  loopback IP address.\<close>

datatype server_error = TokenRequired | InvalidAddress | NotLoopback

definition ValidateLoopbackAddress :: "(string \<Rightarrow> bool option) \<Rightarrow> string \<Rightarrow> server_error option" where
  "ValidateLoopbackAddress loopback_host address =
     (case loopback_host address of None \<Rightarrow> Some InvalidAddress | Some b \<Rightarrow> if b then None else Some NotLoopback)"

definition NewServer :: "(string \<Rightarrow> bool option) \<Rightarrow> string \<Rightarrow> 's api_server \<Rightarrow> server_error + 's api_server" where
  "NewServer loopback_host address sv =
     (if sv_Token sv = [] then Inl TokenRequired
      else case ValidateLoopbackAddress loopback_host address of Some e \<Rightarrow> Inl e | None \<Rightarrow> Inr sv)"

section \<open>The multiplexer\<close>

text \<open>
  The multiplexer of the API: its patterns are distinct, so the longest one that matches a path decides the handler, whichever
  services the server has.
\<close>

definition api_patterns :: "string list" where
  "api_patterns =
     [''/api/v1/status'', ''/api/v1/logs'', ''/api/v1/daemon/shutdown'', ''/api/v1/users'', ''/api/v1/users/'', ''/api/v1/shares'',
      ''/api/v1/shares/'', ''/api/v1/config/validate'', ''/api/v1/config/apply'', ''/api/v1/config/state'', ''/api/v1/revisions'',
      ''/api/v1/revisions/'', ''/api/v1/server/status'', ''/api/v1/server/start'', ''/api/v1/server/stop'', ''/api/v1/server/restart'',
      ''/api/v1/server/endpoints'', ''/api/v1/server/settings'', ''/api/v1/service/install'', ''/api/v1/service/uninstall'',
      ''/api/v1/service/start'', ''/api/v1/service/stop'', ''/api/v1/service/status'', ''/api/v1/tls'', ''/api/v1/tls/check'',
      ''/api/v1/tls/renew'', ''/api/v1/tls/renew/cancel'', ''/api/v1/dns/providers'', ''/api/v1/dns/providers/'',
      ''/api/v1/diagnostics'', ''/api/v1/diagnostics/run'', ''/api/v1/diagnostics/report'', ''/api/v1/config/export'',
      ''/api/v1/config/import'', ''/'']"

lemma subseq_when_set: "(\<And>a. map fst (f a) = ps) \<Longrightarrow> subseq (map fst (when_set s f)) ps"
  by (cases s) (auto simp: when_set_def intro: list_emb_Nil)

lemma server_patterns: "subseq (map fst (server_routes sv)) api_patterns"
proof -
  let ?ps = "[''/api/v1/status'', ''/api/v1/logs'', ''/api/v1/daemon/shutdown''] @ [''/api/v1/users'', ''/api/v1/users/'']
     @ [''/api/v1/shares'', ''/api/v1/shares/'']
     @ [''/api/v1/config/validate'', ''/api/v1/config/apply'', ''/api/v1/config/state'', ''/api/v1/revisions'', ''/api/v1/revisions/'']
     @ [''/api/v1/server/status'', ''/api/v1/server/start'', ''/api/v1/server/stop'', ''/api/v1/server/restart'']
     @ [''/api/v1/server/endpoints''] @ [''/api/v1/server/settings'']
     @ [''/api/v1/service/install'', ''/api/v1/service/uninstall'', ''/api/v1/service/start'', ''/api/v1/service/stop'',
        ''/api/v1/service/status'']
     @ [''/api/v1/tls'', ''/api/v1/tls/check'', ''/api/v1/tls/renew'', ''/api/v1/tls/renew/cancel'']
     @ [''/api/v1/dns/providers'', ''/api/v1/dns/providers/'']
     @ [''/api/v1/diagnostics'', ''/api/v1/diagnostics/run'', ''/api/v1/diagnostics/report'']
     @ [''/api/v1/config/export'', ''/api/v1/config/import''] @ [''/'']"
  have "subseq (map fst (server_routes sv)) ?ps"
    unfolding server_routes_def map_append
    by (intro list_emb_append_mono subseq_when_set) simp_all
  also have "?ps = api_patterns" by (simp add: api_patterns_def)
  finally show ?thesis .
qed

lemma distinct_patterns: "distinct api_patterns"
  by (simp add: api_patterns_def)

lemma distinct_subseq: "subseq xs ys \<Longrightarrow> distinct ys \<Longrightarrow> distinct xs"
  by (induction rule: list_emb.induct) (auto dest: list_emb_set)

lemma server_routes_facts:
  "(p, h) \<in> set (server_routes sv) \<Longrightarrow> p \<in> set api_patterns"
  "(p, h) \<in> set (server_routes sv) \<Longrightarrow> (p, h') \<in> set (server_routes sv) \<Longrightarrow> h' = h"
proof -
  have "distinct (map fst (server_routes sv))"
    using server_patterns distinct_patterns by (rule distinct_subseq)
  then show "(p, h) \<in> set (server_routes sv) \<Longrightarrow> (p, h') \<in> set (server_routes sv) \<Longrightarrow> h' = h"
    by (rule eq_key_imp_eq_value [symmetric])
  show "p \<in> set api_patterns" if "(p, h) \<in> set (server_routes sv)"
  proof -
    have "p \<in> set (map fst (server_routes sv))" using that by force
    then show ?thesis using list_emb_set [OF server_patterns] by metis
  qed
qed

lemma choose_route_longest:
  assumes "(p, h) \<in> set routes" and "pattern_matches p segments"
    and "\<And>p' h'. (p', h') \<in> set routes \<Longrightarrow> pattern_matches p' segments \<Longrightarrow> (p', h') = (p, h) \<or> length p' < length p"
  shows "choose_route routes segments = Some (p, h)"
  using assms
proof (induction routes)
  case (Cons r routes)
  obtain p0 h0 where r: "r = (p0, h0)" by fastforce
  have found: "choose_route routes segments = Some (p1, h1) \<Longrightarrow> (p1, h1) \<in> set routes \<and> pattern_matches p1 segments" for p1 h1
    by (induction routes segments rule: choose_route.induct) (auto split: option.splits if_splits)
  show ?case
  proof (cases "(p, h) \<in> set routes")
    case True
    then have "choose_route routes segments = Some (p, h)" using Cons by auto
    then show ?thesis using Cons.prems(3) [of p0 h0] by (auto simp: r)
  next
    case False
    then have "p0 = p" "h0 = h" using Cons.prems(1) by (simp_all add: r)
    then show ?thesis using found Cons.prems False by (fastforce simp: r split: option.splits)
  qed
qed simp

lemma pattern_table:
  "pattern_segments ''/'' = [[]]"
  "pattern_segments ''/api/v1/status'' = [''api'', ''v1'', ''status'']" "pattern_segments ''/api/v1/logs'' = [''api'', ''v1'', ''logs'']"
  "pattern_segments ''/api/v1/daemon/shutdown'' = [''api'', ''v1'', ''daemon'', ''shutdown'']"
  "pattern_segments ''/api/v1/users'' = [''api'', ''v1'', ''users'']" "pattern_segments ''/api/v1/users/'' = [''api'', ''v1'', ''users'', []]"
  "pattern_segments ''/api/v1/shares'' = [''api'', ''v1'', ''shares'']"
  "pattern_segments ''/api/v1/shares/'' = [''api'', ''v1'', ''shares'', []]"
  "pattern_segments ''/api/v1/config/validate'' = [''api'', ''v1'', ''config'', ''validate'']"
  "pattern_segments ''/api/v1/config/apply'' = [''api'', ''v1'', ''config'', ''apply'']"
  "pattern_segments ''/api/v1/config/state'' = [''api'', ''v1'', ''config'', ''state'']"
  "pattern_segments ''/api/v1/config/export'' = [''api'', ''v1'', ''config'', ''export'']"
  "pattern_segments ''/api/v1/config/import'' = [''api'', ''v1'', ''config'', ''import'']"
  "pattern_segments ''/api/v1/revisions'' = [''api'', ''v1'', ''revisions'']"
  "pattern_segments ''/api/v1/revisions/'' = [''api'', ''v1'', ''revisions'', []]"
  "pattern_segments ''/api/v1/server/status'' = [''api'', ''v1'', ''server'', ''status'']"
  "pattern_segments ''/api/v1/server/start'' = [''api'', ''v1'', ''server'', ''start'']"
  "pattern_segments ''/api/v1/server/stop'' = [''api'', ''v1'', ''server'', ''stop'']"
  "pattern_segments ''/api/v1/server/restart'' = [''api'', ''v1'', ''server'', ''restart'']"
  "pattern_segments ''/api/v1/server/endpoints'' = [''api'', ''v1'', ''server'', ''endpoints'']"
  "pattern_segments ''/api/v1/server/settings'' = [''api'', ''v1'', ''server'', ''settings'']"
  "pattern_segments ''/api/v1/service/install'' = [''api'', ''v1'', ''service'', ''install'']"
  "pattern_segments ''/api/v1/service/uninstall'' = [''api'', ''v1'', ''service'', ''uninstall'']"
  "pattern_segments ''/api/v1/service/start'' = [''api'', ''v1'', ''service'', ''start'']"
  "pattern_segments ''/api/v1/service/stop'' = [''api'', ''v1'', ''service'', ''stop'']"
  "pattern_segments ''/api/v1/service/status'' = [''api'', ''v1'', ''service'', ''status'']"
  "pattern_segments ''/api/v1/tls'' = [''api'', ''v1'', ''tls'']" "pattern_segments ''/api/v1/tls/check'' = [''api'', ''v1'', ''tls'', ''check'']"
  "pattern_segments ''/api/v1/tls/renew'' = [''api'', ''v1'', ''tls'', ''renew'']"
  "pattern_segments ''/api/v1/tls/renew/cancel'' = [''api'', ''v1'', ''tls'', ''renew'', ''cancel'']"
  "pattern_segments ''/api/v1/dns/providers'' = [''api'', ''v1'', ''dns'', ''providers'']"
  "pattern_segments ''/api/v1/dns/providers/'' = [''api'', ''v1'', ''dns'', ''providers'', []]"
  "pattern_segments ''/api/v1/diagnostics'' = [''api'', ''v1'', ''diagnostics'']"
  "pattern_segments ''/api/v1/diagnostics/run'' = [''api'', ''v1'', ''diagnostics'', ''run'']"
  "pattern_segments ''/api/v1/diagnostics/report'' = [''api'', ''v1'', ''diagnostics'', ''report'']"
  by (simp_all add: pattern_segments_def)

text \<open>The pattern that decides: it matches, and every other one that does is shorter.\<close>

definition decides :: "string \<Rightarrow> string list \<Rightarrow> bool" where
  "decides p segments \<longleftrightarrow> pattern_matches p segments
     \<and> list_all (\<lambda>p'. pattern_matches p' segments \<longrightarrow> p' = p \<or> length p' < length p) api_patterns"

lemma serve_mux_decided:
  assumes "decides p (rq_Segments q)" and "(p, h) \<in> set (server_routes sv)"
  shows "serve_mux sv q = h q"
proof -
  have "choose_route (server_routes sv) (rq_Segments q) = Some (p, h)"
    using assms server_routes_facts
    by (intro choose_route_longest) (auto simp: decides_def list_all_iff, blast+)
  then show ?thesis by (simp add: serve_mux_def)
qed

lemma decides_user: "decides ''/api/v1/users'' [''api'', ''v1'', ''users'']" "decides ''/api/v1/users/'' [''api'', ''v1'', ''users'', i]"
  by (simp_all add: decides_def api_patterns_def pattern_matches_def pattern_table)

end
