(* ===== verification/Api_Contract.thy ===== *)
theory Api_Contract
  imports Api_Server
begin

text \<open>
  What the API keeps of its services: two locales over the interfaces, one for what the \<open>GET\<close> handlers call and one for
  everything, and the proof that a request then keeps it too, whatever the method, the path, the headers and the body are.
\<close>

named_theorems upholds_intros

definition upholds :: "('s \<Rightarrow> bool) \<Rightarrow> ('s \<Rightarrow> 's \<times> 'a) \<Rightarrow> bool" where
  "upholds I m \<longleftrightarrow> (\<forall>x. I x \<longrightarrow> I (fst (m x)))"

lemma upholdsI: "(\<And>x y a. I x \<Longrightarrow> m x = (y, a) \<Longrightarrow> I y) \<Longrightarrow> upholds I m"
  unfolding upholds_def by (metis prod.collapse)

lemma upholdsD: "upholds I m \<Longrightarrow> m x = (y, a) \<Longrightarrow> I x \<Longrightarrow> I y"
  unfolding upholds_def by (metis fst_conv)

section \<open>Composition\<close>

lemma upholds_and_then [upholds_intros]:
  assumes "upholds I m" and "\<And>a. upholds I (f a)" shows "upholds I (and_then m f)"
proof (rule upholdsI)
  fix x z b assume "I x" and run: "and_then m f x = (z, b)"
  obtain y r where y: "m x = (y, r)" by fastforce
  with \<open>I x\<close> assms(1) have "I y" by (rule upholdsD [rotated 2])
  with y run assms(2) show "I z" by (cases r) (auto simp: and_then_def dest: upholdsD)
qed

lemma upholds_respond [upholds_intros]: "upholds I m \<Longrightarrow> upholds I (respond m)"
  by (auto simp: upholds_def respond_def split: prod.splits sum.splits)

lemma upholds_attempt [upholds_intros]: "upholds I m \<Longrightarrow> upholds I (attempt m)"
  by (auto simp: upholds_def attempt_def split: prod.splits sum.splits)

lemma upholds_basic [upholds_intros]: "upholds I (reply r)" "upholds I (give a)" "upholds I (\<lambda>x. (x, f x))"
  by (simp_all add: upholds_def reply_def give_def)

lemma upholds_query_answer [upholds_intros]: "upholds I m \<Longrightarrow> upholds I (query_answer m answer)"
  unfolding query_answer_def by (intro upholds_intros)

lemma upholds_cases [upholds_intros]:
  "(b \<Longrightarrow> upholds I m) \<Longrightarrow> (\<not> b \<Longrightarrow> upholds I n) \<Longrightarrow> upholds I (if b then m else n)"
  "(v = None \<Longrightarrow> upholds I m) \<Longrightarrow> (\<And>a. v = Some a \<Longrightarrow> upholds I (f a)) \<Longrightarrow> upholds I (case v of None \<Rightarrow> m | Some a \<Rightarrow> f a)"
  "(\<And>e. s = Inl e \<Longrightarrow> upholds I (g e)) \<Longrightarrow> (\<And>a. s = Inr a \<Longrightarrow> upholds I (h a)) \<Longrightarrow> upholds I (case s of Inl e \<Rightarrow> g e | Inr a \<Rightarrow> h a)"
  "(\<And>a c. p = (a, c) \<Longrightarrow> upholds I (k a c)) \<Longrightarrow> upholds I (case p of (a, c) \<Rightarrow> k a c)"
  by (auto split: option.split sum.split prod.split)

lemma upholds_with_input [upholds_intros]: "(\<And>a. upholds I (f a)) \<Longrightarrow> upholds I (with_input lib decode q f)"
  unfolding with_input_def by (intro upholds_intros)

lemma upholds_with_id [upholds_intros]: "(\<And>i. upholds I (f i)) \<Longrightarrow> upholds I (with_id text message f)"
  unfolding with_id_def by (intro upholds_intros)

lemma upholds_with_revision [upholds_intros]: "(\<And>i. upholds I (f i)) \<Longrightarrow> upholds I (with_revision value f)"
  unfolding with_revision_def by (intro upholds_intros)

lemma upholds_only [upholds_intros]: "(rq_Method q = allowed \<Longrightarrow> upholds I m) \<Longrightarrow> upholds I (only allowed q m)"
  unfolding only_def by (intro upholds_intros) simp_all

lemma upholds_then [upholds_intros]:
  assumes "upholds I m" and "\<And>a. upholds I (f a)" shows "upholds I (\<lambda>x. case m x of (y, a) \<Rightarrow> f a y)"
  using assms by (auto simp: upholds_def split: prod.splits)

lemma upholds_route:
  assumes "\<And>p h. (p, h) \<in> set routes \<Longrightarrow> upholds I (h q)" and "choose_route routes segments = Some (p, h)"
  shows "upholds I (h q)"
proof -
  have "choose_route routes segments = Some (p, h) \<Longrightarrow> (p, h) \<in> set routes"
    by (induction routes arbitrary: p h) (auto split: option.splits if_splits)
  with assms show ?thesis by blast
qed

lemma upholds_serve:
  assumes "\<And>p h. (p, h) \<in> set (server_routes sv) \<Longrightarrow> upholds I (h q)" shows "upholds I (serve sv q)"
  unfolding serve_def authenticate_def Let_def serve_mux_def
  by (intro upholds_intros) (auto intro: upholds_route [OF assms])

section \<open>What a \<open>GET\<close> calls\<close>

locale api_reads =
  fixes sv :: "'s api_server" and I :: "'s \<Rightarrow> bool"
  assumes users_read: "sv_Users sv = Some u \<Longrightarrow> upholds I (ua_List u)" "sv_Users sv = Some u \<Longrightarrow> upholds I (ua_Get u i)"
    and shares_read: "sv_Shares sv = Some s \<Longrightarrow> upholds I (sa_List s)" "sv_Shares sv = Some s \<Longrightarrow> upholds I (sa_Get s i)"
    and permissions_read: "sv_Permissions sv = Some p \<Longrightarrow> upholds I (pa_List p i)"
      "sv_Permissions sv = Some p \<Longrightarrow> pa_ListByUser p = Some f \<Longrightarrow> upholds I (f i)"
      "sv_Permissions sv = Some p \<Longrightarrow> pa_Summary p = Some y \<Longrightarrow> upholds I (ya_AuthorizedUserCounts y)"
      "sv_Permissions sv = Some p \<Longrightarrow> pa_Summary p = Some y \<Longrightarrow> upholds I (ya_SummariesByUser y)"
    and apply_read: "sv_Apply sv = Some a \<Longrightarrow> upholds I (aa_State a)" "sv_Apply sv = Some a \<Longrightarrow> upholds I (aa_List a)"
      "sv_Apply sv = Some a \<Longrightarrow> upholds I (aa_Get a i)"
    and tls_read: "sv_TLS sv = Some t \<Longrightarrow> upholds I (ta_Get t)"
      "sv_TLS sv = Some t \<Longrightarrow> ta_CertificateStatus t = Some g \<Longrightarrow> upholds I (g profile)"
    and dns_read: "sv_DNSProviders sv = Some d \<Longrightarrow> upholds I (da_List d)" "sv_DNSProviders sv = Some d \<Longrightarrow> upholds I (da_Get d i)"
    and endpoints_read: "sv_Endpoints sv = Some e \<Longrightarrow> upholds I e"
    and configuration_read: "sv_Configuration sv = Some c \<Longrightarrow> upholds I (ca_Export c)"
    and runtime_read: "sv_Runtime sv = Some rt \<Longrightarrow> upholds I (ra_RuntimeStatusSnapshot rt)"
    and settings_read: "sv_Settings sv = Some gs \<Longrightarrow> upholds I (ga_Get gs)"
    and service_read: "sv_Service sv = Some m \<Longrightarrow> upholds I (ma_Status m)"
begin

lemma read_state_upholds: "upholds I (read_state sv)"
  unfolding read_state_def
  by (rule upholdsI) (auto split: option.splits prod.splits sum.splits dest: upholdsD [OF apply_read(1)])

lemma current_profile_upholds: "sv_TLS sv = Some t \<Longrightarrow> upholds I (current_profile t)"
  unfolding current_profile_def by (intro upholds_intros) (auto intro: tls_read split: if_splits)

lemma answer_status_upholds:
  assumes "sv_Runtime sv = Some rt" shows "upholds I (answer_status sv rt)"
  by (rule upholdsI) (auto simp: answer_status_def currentServerStatus_def split: prod.splits
      dest!: upholdsD [OF runtime_read [OF assms]] upholdsD [OF read_state_upholds])

lemma status_upholds:
  "upholds I (add_runtime_status sv s)" "upholds I (add_service_status sv s)" "upholds I (add_revision_state sv s)"
  by (rule upholdsI; auto simp: add_runtime_status_def add_service_status_def add_revision_state_def Let_def
      split: option.splits prod.splits sum.splits
      dest!: upholdsD [OF runtime_read] upholdsD [OF service_read] upholdsD [OF read_state_upholds])+

lemma handleStatus_upholds: "upholds I (handleStatus sv q)"
  unfolding handleStatus_def
  by (intro upholds_intros, rule upholdsI)
    (auto simp: currentStatus_def split: prod.splits dest!: status_upholds [THEN upholdsD])

lemma summaries_upholds: "upholds I (permission_summaries sv)" "upholds I (authorized_counts sv)"
  unfolding permission_summaries_def authorized_counts_def
  by (intro upholds_intros; auto simp: bind_eq_Some_conv intro: permissions_read)+

lemma get_user_upholds:
  assumes "rq_Method q = MethodGet" and "sv_Users sv = Some u"
  shows "upholds I (handleUsers sv u q)" "upholds I (handleUser sv u q)"
  using assms unfolding handleUsers_def handleUser_def one_user_def handleUserPermissions_def handleUserPassword_def Let_def
  by (intro upholds_intros; auto simp: method_defs intro: users_read permissions_read summaries_upholds)+

lemma get_share_upholds:
  assumes "rq_Method q = MethodGet" and "sv_Shares sv = Some s"
  shows "upholds I (handleShares sv s q)" "upholds I (handleShare sv s q)"
  using assms unfolding handleShares_def handleShare_def one_share_def handlePermissions_def Let_def
  by (intro upholds_intros; auto simp: method_defs intro: shares_read permissions_read summaries_upholds)+

lemma get_apply_upholds:
  assumes "rq_Method q = MethodGet" and "sv_Apply sv = Some a"
  shows "upholds I (handleConfigState a q)" "upholds I (handleRevisions a q)" "upholds I (handleRevision a q)"
    "upholds I (handleConfigApply a q)" "upholds I (handleConfigValidate a q)"
  using assms unfolding handleConfigState_def handleRevisions_def handleRevision_def handleConfigApply_def handleConfigValidate_def Let_def
  by (intro upholds_intros; auto simp: method_defs intro: apply_read)+

lemma get_runtime_upholds:
  assumes "rq_Method q = MethodGet" and "sv_Runtime sv = Some rt"
  shows "upholds I (handleServerStatus sv rt q)" "upholds I (handleServerStart sv rt q)"
    "upholds I (handleServerStop sv rt q)" "upholds I (handleServerRestart sv rt q)"
  using assms unfolding handleServerStatus_def handleServerStart_def handleServerStop_def handleServerRestart_def
  by (intro upholds_intros; auto simp: method_defs intro: answer_status_upholds)+

lemma get_tls_upholds:
  assumes "rq_Method q = MethodGet" and "sv_TLS sv = Some t"
  shows "upholds I (handleTLS sv t q)" "upholds I (handleTLSCheck t q)" "upholds I (handleTLSRenew t q)"
    "upholds I (handleTLSRenewCancel t q)"
  using assms unfolding handleTLS_def handleTLSCheck_def handleTLSRenew_def handleTLSRenewCancel_def
  by (intro upholds_intros; auto simp: method_defs intro: current_profile_upholds)+

lemma get_dns_upholds:
  assumes "rq_Method q = MethodGet" and "sv_DNSProviders sv = Some d"
  shows "upholds I (handleDNSProviders sv d q)" "upholds I (handleDNSProvider sv d q)"
  using assms unfolding handleDNSProviders_def handleDNSProvider_def Let_def
  by (intro upholds_intros; auto simp: method_defs intro: dns_read)+

lemma get_service_upholds:
  assumes "sv_Service sv = Some m" shows "upholds I (handleServiceStatus m q)"
  unfolding handleServiceStatus_def
  by (rule upholds_only, rule upholdsI) (auto split: prod.splits sum.splits dest!: upholdsD [OF service_read [OF assms]])

lemma get_other_upholds:
  assumes "rq_Method q = MethodGet"
  shows "upholds I (handleLogs sv q)" "upholds I (handleDaemonShutdown sv q)" "upholds I (handleServiceMutation f text q)"
    "sv_Endpoints sv = Some e \<Longrightarrow> upholds I (handleServerEndpoints e q)"
    "sv_Settings sv = Some gs \<Longrightarrow> upholds I (handleServerSettings sv gs q)"
    "sv_Configuration sv = Some c \<Longrightarrow> upholds I (handleConfigExport c q)"
    "upholds I (handleConfigImport sv c q)" "upholds I (handleDiagnostics d q)" "upholds I (handleDiagnosticsRun d q)"
    "upholds I (handleDiagnosticsReport d q)"
  using assms unfolding handleLogs_def handleDaemonShutdown_def handleServiceMutation_def handleServerEndpoints_def handleServerSettings_def
    handleConfigExport_def handleConfigImport_def handleDiagnostics_def handleDiagnosticsRun_def handleDiagnosticsReport_def
  by (intro upholds_intros; auto simp: method_defs intro: endpoints_read settings_read configuration_read)+

lemma get_upholds:
  assumes "rq_Method q = MethodGet" shows "upholds I (serve sv q)"
proof (rule upholds_serve)
  fix p h assume "(p, h) \<in> set (server_routes sv)"
  then show "upholds I (h q)"
    unfolding server_routes_def when_set_def
    by (auto split: option.splits
        intro: get_user_upholds [OF assms] get_share_upholds [OF assms] get_apply_upholds [OF assms] get_runtime_upholds [OF assms]
          get_tls_upholds [OF assms] get_dns_upholds [OF assms] get_service_upholds get_other_upholds [OF assms]
          handleStatus_upholds upholds_basic)
qed

end

section \<open>What the other methods call\<close>

locale api_writes = api_reads sv I for sv :: "'s api_server" and I :: "'s \<Rightarrow> bool" +
  assumes users_write: "sv_Users sv = Some u \<Longrightarrow> upholds I (ua_Create u name password)"
      "sv_Users sv = Some u \<Longrightarrow> upholds I (ua_Delete u i)" "sv_Users sv = Some u \<Longrightarrow> upholds I (ua_SetEnabled u i b)"
      "sv_Users sv = Some u \<Longrightarrow> upholds I (ua_ChangePassword u i password)"
    and shares_write: "sv_Shares sv = Some s \<Longrightarrow> upholds I (sa_Create s name slug path)"
      "sv_Shares sv = Some s \<Longrightarrow> upholds I (sa_Update s i update)" "sv_Shares sv = Some s \<Longrightarrow> upholds I (sa_Delete s i)"
    and permissions_write: "sv_Permissions sv = Some p \<Longrightarrow> upholds I (pa_Set p i j right)"
    and apply_write: "sv_Apply sv = Some a \<Longrightarrow> upholds I (aa_Apply a)" "sv_Apply sv = Some a \<Longrightarrow> upholds I (aa_Validate a)"
      "sv_Apply sv = Some a \<Longrightarrow> upholds I (aa_Restore a i)" "sv_Apply sv = Some a \<Longrightarrow> upholds I (aa_Delete a i)"
    and tls_write: "sv_TLS sv = Some t \<Longrightarrow> upholds I (ta_Update t profile_update)" "sv_TLS sv = Some t \<Longrightarrow> upholds I (ta_Disable t)"
      "sv_TLS sv = Some t \<Longrightarrow> upholds I (ta_Check t)" "sv_TLS sv = Some t \<Longrightarrow> ta_Renew t = Some renew \<Longrightarrow> upholds I renew"
      "sv_TLS sv = Some t \<Longrightarrow> ta_CancelRenew t = Some cancel \<Longrightarrow> upholds I cancel"
    and dns_write: "sv_DNSProviders sv = Some d \<Longrightarrow> upholds I (da_Save d credential)"
      "sv_DNSProviders sv = Some d \<Longrightarrow> upholds I (da_Delete d i)"
    and diagnostics_write: "sv_Diagnostics sv = Some dg \<Longrightarrow> upholds I (xa_Run dg)"
    and configuration_write: "sv_Configuration sv = Some c \<Longrightarrow> upholds I (ca_Import c body)"
    and runtime_write: "sv_Runtime sv = Some rt \<Longrightarrow> upholds I (ra_Start rt)" "sv_Runtime sv = Some rt \<Longrightarrow> upholds I (ra_Stop rt)"
      "sv_Runtime sv = Some rt \<Longrightarrow> upholds I (ra_Restart rt)"
    and settings_write: "sv_Settings sv = Some gs \<Longrightarrow> upholds I (ga_UpdatePorts gs http https)"
    and service_write: "sv_Service sv = Some m \<Longrightarrow> upholds I (ma_Install m)" "sv_Service sv = Some m \<Longrightarrow> upholds I (ma_Uninstall m)"
      "sv_Service sv = Some m \<Longrightarrow> upholds I (ma_Start m)" "sv_Service sv = Some m \<Longrightarrow> upholds I (ma_Stop m)"
    and shutdown_write: "I x \<Longrightarrow> I (sv_RequestShutdown sv x)"
begin

lemma applied_upholds: "upholds I (applyAfterRuntimeMutation sv)" "upholds I (apply_if changed sv)"
  unfolding applyAfterRuntimeMutation_def apply_if_def by (intro upholds_intros; auto intro: apply_write)+

lemma mutate_upholds: "upholds I m \<Longrightarrow> upholds I (mutate sv m answer)"
  unfolding mutate_def by (intro upholds_intros applied_upholds) auto

lemma user_upholds:
  assumes "sv_Users sv = Some u" shows "upholds I (handleUsers sv u q)" "upholds I (handleUser sv u q)"
  using assms unfolding handleUsers_def handleUser_def one_user_def patch_user_def handleUserPermissions_def handleUserPassword_def Let_def
  by (intro upholds_intros mutate_upholds; auto intro: users_read users_write permissions_read summaries_upholds applied_upholds)+

lemma share_upholds:
  assumes "sv_Shares sv = Some s" shows "upholds I (handleShares sv s q)" "upholds I (handleShare sv s q)"
  using assms unfolding handleShares_def handleShare_def one_share_def patch_share_def handlePermissions_def Let_def
  by (intro upholds_intros mutate_upholds;
      auto intro: shares_read shares_write permissions_read permissions_write summaries_upholds applied_upholds)+

lemma apply_upholds:
  assumes "sv_Apply sv = Some a"
  shows "upholds I (handleConfigState a q)" "upholds I (handleRevisions a q)" "upholds I (handleRevision a q)"
    "upholds I (handleConfigApply a q)" "upholds I (handleConfigValidate a q)"
  using assms unfolding handleConfigState_def handleRevisions_def handleRevision_def handleConfigApply_def handleConfigValidate_def Let_def
  by (intro upholds_intros; auto intro: apply_read apply_write)+

lemma runtime_upholds:
  assumes "sv_Runtime sv = Some rt"
  shows "upholds I (handleServerStatus sv rt q)" "upholds I (handleServerStart sv rt q)"
    "upholds I (handleServerStop sv rt q)" "upholds I (handleServerRestart sv rt q)"
proof -
  have control: "upholds I (control_runtime sv rt m)" if "upholds I m" for m
    by (rule upholdsI) (auto simp: control_runtime_def split: prod.splits sum.splits
        dest!: upholdsD [OF that] upholdsD [OF answer_status_upholds [OF assms]])
  show "upholds I (handleServerStatus sv rt q)" "upholds I (handleServerStart sv rt q)"
    "upholds I (handleServerStop sv rt q)" "upholds I (handleServerRestart sv rt q)"
    using assms unfolding handleServerStatus_def handleServerStart_def handleServerStop_def handleServerRestart_def
    by (intro upholds_only; auto intro: answer_status_upholds control runtime_write)+
qed

lemma tls_upholds:
  assumes "sv_TLS sv = Some t"
  shows "upholds I (handleTLS sv t q)" "upholds I (handleTLSCheck t q)" "upholds I (handleTLSRenew t q)"
    "upholds I (handleTLSRenewCancel t q)"
  using assms unfolding handleTLS_def handleTLSCheck_def handleTLSRenew_def handleTLSRenewCancel_def
  by (intro upholds_intros; auto intro: current_profile_upholds tls_write)+

lemma dns_upholds:
  assumes "sv_DNSProviders sv = Some d"
  shows "upholds I (handleDNSProviders sv d q)" "upholds I (handleDNSProvider sv d q)"
  using assms unfolding handleDNSProviders_def handleDNSProvider_def Let_def
  by (intro upholds_intros; auto intro: dns_read dns_write)+

lemma operation_upholds:
  "upholds I f \<Longrightarrow> upholds I (handleServiceMutation f text q)" "sv_Diagnostics sv = Some x \<Longrightarrow> upholds I (handleDiagnosticsRun x q)"
proof -
  show "upholds I (handleServiceMutation f text q)" if "upholds I f"
    unfolding handleServiceMutation_def
    by (rule upholds_only, rule upholdsI) (auto split: prod.splits option.splits dest!: upholdsD [OF that])
  show "upholds I (handleDiagnosticsRun x q)" if "sv_Diagnostics sv = Some x"
    unfolding handleDiagnosticsRun_def
    by (rule upholds_only, rule upholdsI) (auto split: prod.splits dest!: upholdsD [OF diagnostics_write [OF that]])
qed

lemma other_upholds:
  "upholds I (handleLogs sv q)" "upholds I (handleDaemonShutdown sv q)"
  "sv_Endpoints sv = Some e \<Longrightarrow> upholds I (handleServerEndpoints e q)"
  "sv_Settings sv = Some gs \<Longrightarrow> upholds I (handleServerSettings sv gs q)"
  "sv_Configuration sv = Some c \<Longrightarrow> upholds I (handleConfigExport c q)"
  "sv_Configuration sv = Some c \<Longrightarrow> upholds I (handleConfigImport sv c q)"
  "upholds I (handleDiagnostics d q)" "upholds I (handleDiagnosticsReport d q)"
proof -
  show "upholds I (handleDaemonShutdown sv q)"
    unfolding handleDaemonShutdown_def by (rule upholds_only, rule upholdsI) (auto intro: shutdown_write)
  show "upholds I (handleLogs sv q)" "sv_Endpoints sv = Some e \<Longrightarrow> upholds I (handleServerEndpoints e q)"
    "sv_Settings sv = Some gs \<Longrightarrow> upholds I (handleServerSettings sv gs q)"
    "sv_Configuration sv = Some c \<Longrightarrow> upholds I (handleConfigExport c q)"
    "sv_Configuration sv = Some c \<Longrightarrow> upholds I (handleConfigImport sv c q)"
    "upholds I (handleDiagnostics d q)" "upholds I (handleDiagnosticsReport d q)"
    unfolding handleLogs_def handleServerEndpoints_def handleServerSettings_def handleConfigExport_def handleConfigImport_def
      handleDiagnostics_def handleDiagnosticsReport_def
    by (intro upholds_intros mutate_upholds;
        auto intro: endpoints_read settings_read settings_write configuration_read configuration_write)+
qed

lemma serve_upholds: "upholds I (serve sv q)"
proof (rule upholds_serve)
  fix p h assume "(p, h) \<in> set (server_routes sv)"
  then show "upholds I (h q)"
    unfolding server_routes_def when_set_def
    by (auto split: option.splits
        intro: user_upholds share_upholds apply_upholds runtime_upholds tls_upholds dns_upholds service_write [THEN operation_upholds(1)] operation_upholds(2)
          get_service_upholds other_upholds handleStatus_upholds upholds_basic)
qed

end

end
