(* ===== verification/Diagnostics.thy ===== *)
theory Diagnostics
  imports Tls_Service Apply_Model
begin

text \<open>
  The diagnostics (\<^verbatim>\<open>core/internal/diagnostics\<close>): the checks and the report they are composed to.  A check is a
  program over an arbitrary state; what the system answers to a probe is an argument.  A check that panics is outside the model.
\<close>

section \<open>Results and reports\<close>

definition StatusPass :: string where "StatusPass = ''PASS''"
definition StatusWarn :: string where "StatusWarn = ''WARN''"
definition StatusFail :: string where "StatusFail = ''FAIL''"
definition StatusSkip :: string where "StatusSkip = ''SKIP''"

record diag_result =
  dr_ID :: string
  dr_Title :: string
  dr_Status :: string
  dr_Code :: string
  dr_Message :: string

record build_info =
  bi_Product :: string
  bi_Version :: string
  bi_GitCommit :: string
  bi_BuildDate :: string
  bi_GoVersion :: string
  bi_FlutterVersion :: string
  bi_CaddyVersion :: string
  bi_WebDAVVersion :: string
  bi_TargetOS :: string
  bi_TargetArch :: string

record diag_report =
  dp_SchemaVersion :: int
  dp_GeneratedAt :: string
  dp_AppVersion :: string
  dp_Build :: build_info
  dp_OS :: string
  dp_Architecture :: string
  dp_Sanitized :: bool
  dp_Overall :: string
  dp_Results :: "diag_result list"

record 's diag_check =
  ck_ID :: string
  ck_Run :: "'s \<Rightarrow> 's \<times> diag_result"

definition mk_result :: "string \<Rightarrow> string \<Rightarrow> string \<Rightarrow> string \<Rightarrow> string \<Rightarrow> diag_result" where
  "mk_result i title status code message =
     \<lparr>dr_ID = i, dr_Title = title, dr_Status = status, dr_Code = code, dr_Message = message\<rparr>"

section \<open>The service\<close>

definition NewService :: "'s diag_check list \<Rightarrow> 's diag_check list" where
  "NewService checks = sort_key ck_ID checks"

text \<open>What \<open>runSafely\<close> fills in.\<close>

definition completed_result :: "string \<Rightarrow> diag_result \<Rightarrow> diag_result" where
  "completed_result i r =
     (let r1 = (if dr_ID r = [] then r\<lparr>dr_ID := i\<rparr> else r);
          r2 = (if dr_Title r1 = [] then r1\<lparr>dr_Title := dr_ID r1\<rparr> else r1)
      in if dr_Message r2 = [] then r2\<lparr>dr_Message := ''No diagnostic detail was provided''\<rparr> else r2)"

definition runSafely :: "'s diag_check \<Rightarrow> 's \<Rightarrow> 's \<times> diag_result" where
  "runSafely c x = (case ck_Run c x of (y, r) \<Rightarrow> (y, completed_result (ck_ID c) r))"

text \<open>\<open>skips\<close>: before each check, whether the request was cancelled by then.\<close>

fun run_checks :: "bool list \<Rightarrow> 's diag_check list \<Rightarrow> 's \<Rightarrow> 's \<times> diag_result list" where
  "run_checks skips [] x = (x, [])"
| "run_checks skips (c # cs) x =
     (case (if skips \<noteq> [] \<and> hd skips
            then (x, mk_result (ck_ID c) (ck_ID c) StatusSkip ''CHECK_CANCELLED'' ''Check was cancelled'')
            else runSafely c x) of
        (y, r) \<Rightarrow> (case run_checks (tl skips) cs y of (z, rs) \<Rightarrow> (z, r # rs)))"

fun overall_from :: "string \<Rightarrow> diag_result list \<Rightarrow> string" where
  "overall_from overall [] = overall"
| "overall_from overall (r # rs) =
     (if dr_Status r = StatusFail then StatusFail
      else overall_from (if dr_Status r = StatusWarn \<or> dr_Status r = StatusSkip then StatusWarn else overall) rs)"

definition overallStatus :: "diag_result list \<Rightarrow> string" where
  "overallStatus = overall_from StatusPass"

definition diag_Run ::
  "build_info \<Rightarrow> string \<Rightarrow> timestamp \<Rightarrow> bool list \<Rightarrow> 's diag_check list \<Rightarrow> 's \<Rightarrow> 's \<times> diag_report" where
  "diag_Run build version now skips checks x =
     (case run_checks skips checks x of (y, results) \<Rightarrow>
        (y, \<lparr>dp_SchemaVersion = 1, dp_GeneratedAt = Timestamp_String now, dp_AppVersion = version,
             dp_Build = build\<lparr>bi_Version := version\<rparr>, dp_OS = bi_TargetOS build, dp_Architecture = bi_TargetArch build,
             dp_Sanitized = True, dp_Overall = overallStatus results, dp_Results = results\<rparr>))"

section \<open>The checks\<close>

fun safeInteger :: "nat \<Rightarrow> string" where
  "safeInteger n = (if n < 10 then [char_of (48 + n)] else safeInteger (n div 10) @ [char_of (48 + n mod 10)])"

declare safeInteger.simps [simp del]

definition safeToken :: "string \<Rightarrow> string" where
  "safeToken value =
     (let kept = take 64 (filter (\<lambda>r. 32 \<le> r \<and> r < 127 \<and> r \<noteq> 34 \<and> r \<noteq> 92) (runes value))
      in if kept = [] then ''version unavailable'' else map char_of kept)"

definition DatabaseCheck :: "nat \<Rightarrow> bool \<Rightarrow> 's diag_check" where
  "DatabaseCheck schema_version reachable =
     \<lparr>ck_ID = ''database'', ck_Run = (\<lambda>x. (x,
        if \<not> reachable then mk_result ''database'' ''Database'' StatusFail ''DATABASE_UNAVAILABLE'' ''SQLite is unavailable''
        else mk_result ''database'' ''Database'' StatusPass [] (''SQLite is ready at schema version '' @ safeInteger schema_version)))\<rparr>"

text \<open>The calls on a directory: it is there, a file could be created, closed and removed.\<close>

record directory_probe =
  dir_present :: bool
  dir_created :: bool
  dir_closed :: bool
  dir_removed :: bool

definition DirectoryCheck :: "string \<Rightarrow> bool \<Rightarrow> directory_probe \<Rightarrow> 's diag_check" where
  "DirectoryCheck name needed p =
     (let i = ''directory_'' @ name; title = ''Application directory'' in
      \<lparr>ck_ID = i, ck_Run = (\<lambda>x. (x,
        if \<not> dir_present p
        then mk_result i title (if needed then StatusFail else StatusWarn) ''DIRECTORY_UNAVAILABLE'' (name @ '' directory is unavailable'')
        else if \<not> dir_created p
        then mk_result i title StatusWarn ''DIRECTORY_NOT_WRITABLE'' (name @ '' directory is not writable'')
        else if \<not> dir_closed p \<or> \<not> dir_removed p
        then mk_result i title StatusWarn ''DIRECTORY_CLEANUP_FAILED'' (name @ '' directory diagnostic cleanup failed'')
        else mk_result i title StatusPass [] (name @ '' directory is writable'')))\<rparr>)"

definition CaddyBinaryCheck :: "(runtime_error + string) option \<Rightarrow> 's diag_check" where
  "CaddyBinaryCheck inspected =
     \<lparr>ck_ID = ''caddy_binary'', ck_Run = (\<lambda>x. (x,
        case inspected of
          None \<Rightarrow> mk_result ''caddy_binary'' ''Caddy runtime'' StatusFail ''CADDY_NOT_CONFIGURED'' ''Caddy binary inspection is unavailable''
        | Some (Inl e) \<Rightarrow> mk_result ''caddy_binary'' ''Caddy runtime'' StatusFail
            (case e of RuntimeError code _ \<Rightarrow> runtime_code code | OtherError _ \<Rightarrow> ''CADDY_NOT_FOUND'')
            ''Pinned Caddy runtime or WebDAV module is unavailable''
        | Some (Inr version) \<Rightarrow> mk_result ''caddy_binary'' ''Caddy runtime'' StatusPass []
            (''Caddy and the WebDAV module are available ('' @ safeToken version @ '')'')))\<rparr>"

definition CaddyRuntimeCheck :: "('s \<Rightarrow> 's \<times> runtime_state) option \<Rightarrow> 's diag_check" where
  "CaddyRuntimeCheck status =
     \<lparr>ck_ID = ''caddy_runtime'', ck_Run = (\<lambda>x.
        case status of
          None \<Rightarrow> (x, mk_result ''caddy_runtime'' ''Caddy process'' StatusWarn ''RUNTIME_UNKNOWN'' ''Caddy runtime state is unavailable'')
        | Some f \<Rightarrow> (case f x of (y, state) \<Rightarrow> (y,
            if state = RuntimeRunning then mk_result ''caddy_runtime'' ''Caddy process'' StatusPass [] ''Caddy is running''
            else if state = RuntimeStopped
            then mk_result ''caddy_runtime'' ''Caddy process'' StatusWarn ''RUNTIME_STOPPED'' ''Caddy is stopped''
            else mk_result ''caddy_runtime'' ''Caddy process'' StatusFail ''RUNTIME_UNHEALTHY'' ''Caddy runtime health is unknown'')))\<rparr>"

definition config_problem :: "string \<Rightarrow> string \<Rightarrow> diag_result" where
  "config_problem code message = mk_result ''desired_configuration'' ''Desired configuration'' StatusFail code message"

definition check_config ::
  "('s, runtime_input) service \<Rightarrow> (runtime_input \<Rightarrow> ('s, env) service) option \<Rightarrow> validator \<Rightarrow> 's \<Rightarrow> 's \<times> diag_result" where
  "check_config snapshots provider v x =
     (case snapshots x of
        (y, Inl _) \<Rightarrow> (y, config_problem ''DATABASE_ERROR'' ''Desired configuration could not be loaded'')
      | (y, Inr input) \<Rightarrow>
          (case Compile input of
             Inl _ \<Rightarrow> (y, config_problem ''TLS_CONFIGURATION_ERROR'' ''Desired configuration could not be compiled'')
           | Inr compiled \<Rightarrow>
               (case (case provider of None \<Rightarrow> (y, Inr []) | Some f \<Rightarrow> f input y) of
                  (z, Inl e) \<Rightarrow> (z, config_problem (error_Code e) ''DNS provider credentials could not be prepared'')
                | (z, Inr env) \<Rightarrow> (z,
                    if validateWithEnvironment v (compiled_JSON compiled) env \<noteq> None
                    then config_problem ''CADDY_VALIDATE_FAILED'' ''Caddy rejected the desired configuration''
                    else mk_result ''desired_configuration'' ''Desired configuration'' StatusPass []
                      ''Desired Caddy configuration is valid''))))"

definition ConfigCheck ::
  "('s, runtime_input) service \<Rightarrow> (runtime_input \<Rightarrow> ('s, env) service) option \<Rightarrow> validator \<Rightarrow> 's diag_check" where
  "ConfigCheck snapshots provider v = \<lparr>ck_ID = ''desired_configuration'', ck_Run = check_config snapshots provider v\<rparr>"

definition SharePathsCheck :: "('s, share list) service \<Rightarrow> path_validator \<Rightarrow> 's diag_check" where
  "SharePathsCheck shares paths =
     \<lparr>ck_ID = ''share_paths'', ck_Run = (\<lambda>x.
        case shares x of
          (y, Inl _) \<Rightarrow> (y, mk_result ''share_paths'' ''Share directories'' StatusFail ''DATABASE_ERROR'' ''Share metadata could not be loaded'')
        | (y, Inr ss) \<Rightarrow>
            let invalid = length (filter (\<lambda>s. share_Enabled s \<and> paths (Path s) \<noteq> None) ss) in (y,
            if 0 < invalid
            then mk_result ''share_paths'' ''Share directories'' StatusFail ''SHARE_PATH_UNAVAILABLE''
              (safeInteger invalid @ '' enabled share directories failed access checks'')
            else mk_result ''share_paths'' ''Share directories'' StatusPass []
              (safeInteger (length ss) @ '' share directories passed metadata checks'')))\<rparr>"

definition TLSCheck :: "('s \<Rightarrow> 's \<times> tls_check_result) \<Rightarrow> 's diag_check" where
  "TLSCheck check =
     \<lparr>ck_ID = ''tls'', ck_Run = (\<lambda>x.
        case check x of
          (y, (_, None)) \<Rightarrow> (y, mk_result ''tls'' ''TLS'' StatusPass [] ''TLS preflight passed'')
        | (y, (_, Some e)) \<Rightarrow> (y,
            if e = tls_configuration ''TLS is not configured''
            then mk_result ''tls'' ''TLS'' StatusWarn (error_Code e) ''TLS is not configured''
            else mk_result ''tls'' ''TLS'' StatusFail (error_Code e) ''TLS preflight failed''))\<rparr>"

section \<open>The report as JSON\<close>

definition build_json :: "build_info \<Rightarrow> json" where
  "build_json b = JObj
     [(''product'', JStr (bi_Product b)), (''version'', JStr (bi_Version b)), (''git_commit'', JStr (bi_GitCommit b)),
      (''build_date'', JStr (bi_BuildDate b)), (''go_version'', JStr (bi_GoVersion b)),
      (''flutter_version'', JStr (bi_FlutterVersion b)), (''caddy_version'', JStr (bi_CaddyVersion b)),
      (''caddy_webdav_version'', JStr (bi_WebDAVVersion b)), (''target_os'', JStr (bi_TargetOS b)),
      (''target_arch'', JStr (bi_TargetArch b))]"

definition diag_result_json :: "diag_result \<Rightarrow> json" where
  "diag_result_json r = JObj
     ([(''id'', JStr (dr_ID r)), (''title'', JStr (dr_Title r)), (''status'', JStr (dr_Status r))]
      @ omit_empty_str ''code'' (dr_Code r) @ [(''message'', JStr (dr_Message r))])"

definition report_json :: "diag_report \<Rightarrow> json" where
  "report_json r = JObj
     [(''schema_version'', JInt (dp_SchemaVersion r)), (''generated_at'', JStr (dp_GeneratedAt r)),
      (''app_version'', JStr (dp_AppVersion r)), (''build'', build_json (dp_Build r)), (''os'', JStr (dp_OS r)),
      (''architecture'', JStr (dp_Architecture r)), (''sanitized'', JBool (dp_Sanitized r)),
      (''overall'', JStr (dp_Overall r)), (''results'', JArr (map diag_result_json (dp_Results r)))]"

section \<open>What the report says\<close>

lemma overall_from_cases:
  "overall_from s rs = (if StatusFail \<in> dr_Status ` set rs then StatusFail
     else if {StatusWarn, StatusSkip} \<inter> dr_Status ` set rs \<noteq> {} then StatusWarn else s)"
  by (induction rs arbitrary: s) (auto simp: StatusFail_def StatusWarn_def StatusSkip_def)

lemma run_checks_ids:
  assumes "\<And>c x. c \<in> set cs \<Longrightarrow> dr_ID (snd (ck_Run c x)) = ck_ID c"
  shows "map dr_ID (snd (run_checks skips cs x)) = map ck_ID cs"
  using assms
proof (induction cs arbitrary: skips x)
  case (Cons c cs)
  obtain y r where y: "ck_Run c x = (y, r)" by fastforce
  have "dr_ID (completed_result (ck_ID c) r) = ck_ID c"
    using Cons.prems [of c x] y by (simp add: completed_result_def Let_def)
  then show ?case using Cons y by (auto simp: runSafely_def mk_result_def split: prod.splits) (metis snd_conv)+
qed simp

end
