(* ===== verification/Api_Daemon.thy ===== *)
theory Api_Daemon
  imports Api_Contract Apply_Runtime Diagnostics
begin

text \<open>
  The server as the daemon makes it (\<^verbatim>\<open>cmd/davd/main.go\<close>): the services over the database and the manager of the Caddy
  process.  The state is the store, the managed runtime, whether a shutdown was requested and the last diagnostic report.  The interpretations at the end show
  that its services keep what the locales of \<open>Api_Contract\<close> ask: the database under a \<open>GET\<close>, and its constraints together with
  those of the manager under every request.
\<close>

record process_state =
  ps_shutdown :: bool
  ps_latest :: "diag_report option"

type_synonym daemon_state = "(store \<times> managed_runtime) \<times> process_state"

definition in_daemon :: "(store \<times> managed_runtime \<Rightarrow> (store \<times> managed_runtime) \<times> 'a) \<Rightarrow> daemon_state \<Rightarrow> daemon_state \<times> 'a" where
  "in_daemon m = (\<lambda>(x, b). case m x of (y, a) \<Rightarrow> ((y, b), a))"

definition over_store :: "(store \<Rightarrow> store \<times> 'a) \<Rightarrow> daemon_state \<Rightarrow> daemon_state \<times> 'a" where
  "over_store m = in_daemon (\<lambda>(x, r). case m x of (y, a) \<Rightarrow> ((y, r), a))"

definition over_runtime :: "(managed_runtime \<Rightarrow> managed_runtime \<times> 'a) \<Rightarrow> daemon_state \<Rightarrow> daemon_state \<times> 'a" where
  "over_runtime f = in_daemon (\<lambda>(x, r). case f r of (r', a) \<Rightarrow> ((x, r'), a))"

section \<open>What the system answers\<close>

text \<open>The libraries, the clock, the generators, the file system and the resolver, during one request; \<open>an_locked\<close>: another apply
  holds the lock.\<close>

record answers =
  an_hash :: hasher
  an_ids :: "nat \<Rightarrow> new_ID"
  an_random :: "string option"
  an_now :: timestamp
  an_apply :: apply_inputs
  an_locked :: bool
  an_paths :: path_validator
  an_free :: "int \<Rightarrow> bool"
  an_addresses :: "string \<Rightarrow> nat option"
  an_pair :: "string \<Rightarrow> string \<Rightarrow> tls_file_error option"
  an_probe :: "string \<Rightarrow> int \<Rightarrow> string \<Rightarrow> string \<Rightarrow> bool"
  an_encode :: "document \<Rightarrow> string option"
  an_yaml :: yaml_library
  an_storage :: string
  an_certificates :: "string \<Rightarrow> certificate_read"
  an_unix :: int
  an_canceled :: bool
  an_renewals :: bool
  an_accepted :: bool
  an_install :: "manager_error option"
  an_uninstall :: "manager_error option"
  an_start :: "manager_error option"
  an_stop :: "manager_error option"
  an_service :: "manager_error + service_status"
  an_database :: bool
  an_directories :: "string \<Rightarrow> directory_probe"
  an_inspected :: "runtime_error + string"
  an_skips :: "bool list"

record daemon_setup =
  ds_token :: string
  ds_snapshot :: status_snapshot
  ds_library :: http_library
  ds_aead :: aead
  ds_validator :: validator
  ds_version :: string
  ds_build :: build_info
  ds_schema :: nat
  ds_logs :: log_store
  ds_fields :: "log_fields \<Rightarrow> (string \<times> json) list"

section \<open>The services\<close>

text \<open>Results with an error beside them.  An apply that ends without an error has a revision.\<close>

definition apply_outcome :: "('s \<Rightarrow> 's \<times> apply_result) \<Rightarrow> ('s, config_revision) service" where
  "apply_outcome m x = (case m x of (y, (r, err)) \<Rightarrow> (y, case err of Some e \<Rightarrow> Inl e | None \<Rightarrow> Inr (the r)))"

definition unit_outcome :: "('s \<Rightarrow> 's \<times> app_error option) \<Rightarrow> ('s, unit) service" where
  "unit_outcome m x = (case m x of (y, err) \<Rightarrow> (y, case err of Some e \<Rightarrow> Inl e | None \<Rightarrow> Inr ()))"

definition check_outcome :: "(store \<Rightarrow> store \<times> tls_check_result) \<Rightarrow> (store, bool \<times> tls_check list) service" where
  "check_outcome m x = (case m x of (y, (checks, err)) \<Rightarrow> (y, case err of Some e \<Rightarrow> Inl e | None \<Rightarrow> Inr checks))"

definition ApplyService_State :: "(store, revision_state) service" where
  "ApplyService_State = mapped (\<lambda>_. databaseError) (query_call Revision_State)"

definition ApplyService_List :: "(store, config_revision list) service" where
  "ApplyService_List = mapped (\<lambda>_. databaseError) (query_call Revision_List)"

text \<open>The reader of certificate errors looks for the host among the errors Caddy has written to the log.\<close>

definition error_host :: "string \<Rightarrow> string" where
  "error_host hostname = trim_suffix (to_lower (trim_space hostname)) ''.''"

definition CertificateErrorReader :: "log_store \<Rightarrow> string \<Rightarrow> bool" where
  "CertificateErrorReader logs hostname =
     (error_host hostname \<noteq> []
      \<and> list_ex (\<lambda>r. case map_of (log_Fields r) ''identifier'' of
            Some (LString i) \<Rightarrow> error_host i = error_host hostname | _ \<Rightarrow> False)
          (page_Records (log_Query \<lparr>lq_Limit = MaximumPageSize, lq_Cursor = 0, lq_Since = None, lq_Level = ''ERROR'',
             lq_Component = ''caddy''\<rparr> logs)))"

definition on_manager :: "(runtime_manager \<Rightarrow> runtime_manager \<times> 'a) \<Rightarrow> managed_runtime \<Rightarrow> managed_runtime \<times> 'a" where
  "on_manager f = (\<lambda>(m, cs). case f m of (m', a) \<Rightarrow> ((m', cs), a))"

definition manager_tls :: "daemon_setup \<Rightarrow> answers \<Rightarrow> managed_runtime tls_providers" where
  "manager_tls s a =
     \<lparr>cert_status = Some (\<lambda>h. on_manager (CertificateStatus (an_canceled a) (an_storage a) (an_certificates a) (an_unix a)
          (Some (CertificateErrorReader (ds_logs s))) h)),
      force_renew = Some (\<lambda>h. on_manager (ForceRenewCertificate (an_canceled a) (an_renewals a) (an_storage a) (an_certificates a)
          (an_accepted a) h)),
      cancel_renew = Some (\<lambda>h. on_manager (CancelRenewCertificate (an_renewals a) (an_accepted a) h))\<rparr>"

definition daemon_apply :: "daemon_setup \<Rightarrow> (store, managed_runtime) apply_service" where
  "daemon_apply s = daemon_service (ds_aead s) (ds_validator s) (ds_version s)"

definition daemon_users :: "answers \<Rightarrow> daemon_state user_api" where
  "daemon_users a =
     \<lparr>ua_List = over_store UserService_List, ua_Get = (\<lambda>i. over_store (UserService_Get i)),
      ua_Create = (\<lambda>name password. over_store (UserService_Create (an_hash a) (an_ids a 0) (an_now a) name password)),
      ua_Delete = (\<lambda>i. over_store (UserService_Delete i)),
      ua_SetEnabled = (\<lambda>i b. over_store (UserService_SetEnabled (an_now a) i b)),
      ua_ChangePassword = (\<lambda>i password. over_store (UserService_ChangePassword (an_hash a) (an_now a) i password))\<rparr>"

definition daemon_shares :: "answers \<Rightarrow> daemon_state share_api" where
  "daemon_shares a =
     \<lparr>sa_List = over_store ShareService_List, sa_Get = (\<lambda>i. over_store (ShareService_Get i)),
      sa_Create = (\<lambda>name slug path. over_store (ShareService_Create (an_paths a) (an_ids a 0) (an_now a) name slug path)),
      sa_Update = (\<lambda>i u. over_store (ShareService_Update (an_paths a) (an_now a) i u)),
      sa_Delete = (\<lambda>i. over_store (ShareService_Delete i))\<rparr>"

definition daemon_permissions :: "answers \<Rightarrow> daemon_state permission_api" where
  "daemon_permissions a =
     \<lparr>pa_List = (\<lambda>i. over_store (PermissionService_List i)),
      pa_Set = (\<lambda>i j p. over_store (PermissionService_Set (an_now a) i j p)),
      pa_ListByUser = Some (\<lambda>i. over_store (PermissionService_ListByUser i)),
      pa_Summary = Some \<lparr>ya_AuthorizedUserCounts = over_store AuthorizedUserCounts, ya_SummariesByUser = over_store SummariesByUser\<rparr>\<rparr>"

definition daemon_revisions :: "daemon_setup \<Rightarrow> answers \<Rightarrow> daemon_state apply_api" where
  "daemon_revisions s a =
     \<lparr>aa_Apply = in_daemon (apply_outcome (Apply (daemon_apply s) (an_locked a) (an_apply a))),
      aa_Validate = over_store (Apply_Validate (daemon_apply s)),
      aa_Restore = (\<lambda>i. in_daemon (Restore (daemon_apply s) (an_locked a) (an_now a) i)),
      aa_State = over_store ApplyService_State, aa_List = over_store ApplyService_List,
      aa_Get = (\<lambda>i. over_store (Apply_Get (daemon_apply s) i)),
      aa_Delete = (\<lambda>i. over_store (unit_outcome (Apply_Delete (daemon_apply s) (an_locked a) i)))\<rparr>"

definition daemon_tls :: "daemon_setup \<Rightarrow> answers \<Rightarrow> daemon_state tls_api" where
  "daemon_tls s a =
     \<lparr>ta_Get = over_store TLSService_Get,
      ta_Update = (\<lambda>u. over_store (TLSService_Update True (an_ids a 0) (an_now a) u)),
      ta_Disable = over_store TLSService_Disable,
      ta_Check = over_store (check_outcome (TLSService_Check True (an_addresses a) (an_pair a))),
      ta_CertificateStatus = Some (\<lambda>p. in_daemon (TLSService_CertificateStatus (manager_tls s a) p)),
      ta_Renew = Some (in_daemon (TLSService_Renew (manager_tls s a))),
      ta_CancelRenew = Some (in_daemon (TLSService_CancelRenew (manager_tls s a)))\<rparr>"

definition daemon_dns :: "daemon_setup \<Rightarrow> answers \<Rightarrow> daemon_state dns_api" where
  "daemon_dns s a =
     \<lparr>da_List = over_store (DNSProviderService_List (ds_aead s)), da_Get = (\<lambda>i. over_store (DNSProviderService_Get (ds_aead s) i)),
      da_Save = (\<lambda>u. over_store (DNSProviderService_Save (ds_aead s) (an_random a) (an_ids a 0) (an_now a) u)),
      da_Delete = (\<lambda>i. over_store (DNSProviderService_Delete i))\<rparr>"

definition daemon_runtime :: "daemon_setup \<Rightarrow> answers \<Rightarrow> daemon_state runtime_api" where
  "daemon_runtime s a =
     \<lparr>ra_Start = in_daemon (unit_outcome (Apply_Start (daemon_apply s) (an_locked a) (an_apply a))),
      ra_Stop = in_daemon (unit_outcome (Apply_Stop (daemon_apply s) (an_locked a))),
      ra_Restart = in_daemon (unit_outcome (Apply_Restart (daemon_apply s) (an_locked a) (an_apply a))),
      ra_RuntimeStatusSnapshot = over_runtime (with_calls StatusSnapshot)\<rparr>"

definition daemon_settings :: "answers \<Rightarrow> daemon_state settings_api" where
  "daemon_settings a =
     \<lparr>ga_Get = over_store SettingsService_Get,
      ga_UpdatePorts = (\<lambda>http https. over_store (SettingsService_UpdatePorts (an_free a) (an_now a) http https))\<rparr>"

definition daemon_configuration :: "answers \<Rightarrow> daemon_state config_api" where
  "daemon_configuration a =
     \<lparr>ca_Export = over_store (ConfigService_Export (an_encode a)),
      ca_Import = (\<lambda>body. over_store (ConfigService_Import (an_yaml a) (an_paths a) (an_hash a) (an_random a) (an_ids a) (an_now a) body))\<rparr>"

definition daemon_endpoints :: "answers \<Rightarrow> (daemon_state, endpoint \<times> endpoint) service" where
  "daemon_endpoints a = in_daemon (EndpointService_Endpoints True (Some (with_calls StatusSnapshot)) (Some (an_probe a)))"

text \<open>The service manager of the system keeps its state outside the daemon.\<close>

definition daemon_manager :: "answers \<Rightarrow> daemon_state manager_api" where
  "daemon_manager a =
     \<lparr>ma_Install = (\<lambda>x. (x, an_install a)), ma_Uninstall = (\<lambda>x. (x, an_uninstall a)), ma_Start = (\<lambda>x. (x, an_start a)),
      ma_Stop = (\<lambda>x. (x, an_stop a)), ma_Status = (\<lambda>x. (x, an_service a))\<rparr>"

definition daemon_checks :: "daemon_setup \<Rightarrow> answers \<Rightarrow> (store \<times> managed_runtime) diag_check list" where
  "daemon_checks s a = NewService
     [DatabaseCheck (ds_schema s) (an_database a),
      DirectoryCheck ''config'' True (an_directories a ''config''), DirectoryCheck ''data'' True (an_directories a ''data''),
      DirectoryCheck ''logs'' False (an_directories a ''logs''), DirectoryCheck ''runtime'' True (an_directories a ''runtime''),
      CaddyBinaryCheck (Some (an_inspected a)),
      CaddyRuntimeCheck (Some (\<lambda>(x, r). case with_calls Status r of (r', state) \<Rightarrow> ((x, r'), state))),
      ConfigCheck (in_store (mapped (\<lambda>_. databaseError) (query_call Snapshot)))
        (Some (\<lambda>input. in_store (DNSProviderService_Environment (ds_aead s) input))) (ds_validator s),
      SharePathsCheck (in_store ShareService_List) (an_paths a),
      TLSCheck (\<lambda>(x, r). case TLSService_Check True (an_addresses a) (an_pair a) x of (y, result) \<Rightarrow> ((y, r), result))]"

definition daemon_diagnostics :: "daemon_setup \<Rightarrow> answers \<Rightarrow> daemon_state diagnostics_api" where
  "daemon_diagnostics s a =
     \<lparr>xa_Run = (\<lambda>(x, p). case diag_Run (ds_build s) (ds_version s) (an_now a) (an_skips a) (daemon_checks s a) x of
         (y, report) \<Rightarrow> ((y, p\<lparr>ps_latest := Some report\<rparr>), report_json report)),
      xa_Latest = (\<lambda>(x, p). map_option report_json (ps_latest p))\<rparr>"

definition daemon_server :: "daemon_setup \<Rightarrow> answers \<Rightarrow> daemon_state api_server" where
  "daemon_server s a =
     \<lparr>sv_Token = ds_token s, sv_Snapshot = ds_snapshot s, sv_Library = ds_library s, sv_Users = Some (daemon_users a),
      sv_Shares = Some (daemon_shares a), sv_Permissions = Some (daemon_permissions a), sv_Apply = Some (daemon_revisions s a),
      sv_TLS = Some (daemon_tls s a), sv_DNSProviders = Some (daemon_dns s a), sv_Endpoints = Some (daemon_endpoints a),
      sv_Diagnostics = Some (daemon_diagnostics s a), sv_Configuration = Some (daemon_configuration a),
      sv_Runtime = Some (daemon_runtime s a), sv_Settings = Some (daemon_settings a), sv_Service = Some (daemon_manager a),
      sv_Logs = Some (ds_logs s), sv_FieldsJSON = ds_fields s, sv_RequestShutdown = (\<lambda>(x, p). (x, p\<lparr>ps_shutdown := True\<rparr>))\<rparr>"

end
