(* ===== verification/Api_Invariant.thy ===== *)
theory Api_Invariant
  imports Api_Daemon
begin

text \<open>
  That the services of the daemon keep what \<open>Api_Contract\<close> asks: those a \<open>GET\<close> calls never write to the database, and all keep the
  constraints of the schema and a manager that knows its process.
\<close>

definition daemon_db :: "daemon_state \<Rightarrow> db" where
  "daemon_db s = fst (fst (fst s))"

definition parts_ok :: "store \<times> managed_runtime \<Rightarrow> bool" where
  "parts_ok = (\<lambda>(x, r). store_ok x \<and> runtime_ok r)"

definition daemon_ok :: "daemon_state \<Rightarrow> bool" where
  "daemon_ok s \<longleftrightarrow> parts_ok (fst s)"

section \<open>Services of the store\<close>

lemma preserved_call: "(\<And>d. fst (f d) = run_call c d) \<Longrightarrow> preserves db_ok (mapped g (operation_call f))"
  using run_call_advanced by (auto simp: advanced_def intro!: preserves_operation)

lemma preserved_calls [service_intros]:
  "preserves db_ok (mapped g (operation_call (User_Create u)))" "preserves db_ok (mapped g (operation_call (User_Delete i)))"
  "preserves db_ok (mapped g (operation_call (User_SetEnabled i b t)))"
  "preserves db_ok (mapped g (operation_call (User_SetPasswordHash i h t)))"
  "preserves db_ok (mapped g (operation_call (Share_Create s)))" "preserves db_ok (mapped g (operation_call (Share_Update s)))"
  "preserves db_ok (mapped g (operation_call (Share_Delete i)))" "preserves db_ok (mapped g (operation_call (Permission_Set p)))"
  "preserves db_ok (mapped g' (operation_call (Settings_UpdatePorts m n t)))"
  "preserves db_ok (mapped g (operation_call (TLS_Save q)))" "preserves db_ok (mapped g (operation_call TLS_Delete))"
  "preserves db_ok (mapped g (operation_call (DNS_Save c)))" "preserves db_ok (mapped g (operation_call (DNS_Delete i)))"
  "preserves db_ok (mapped g'' (operation_call (Config_Import seed)))"
  by (rule preserved_call, simp flip: run_call.simps)+

lemma preserved_other [service_intros]:
  "preserves db_ok (mapped g (secret_put a random i secret))"
  "preserves db_ok (\<lambda>x. case operation_call (Permission_Delete i j) x of
      (y, Inl e) \<Rightarrow> (y, h e) | (y, Inr u) \<Rightarrow> (y, k u))"
proof -
  have "db_ok d \<Longrightarrow> db_ok (fst (Secret_Put a random i secret d))" "db_ok d \<Longrightarrow> db_ok (fst (Permission_Delete i j d))" for d
    using run_call_advanced [of d "PutSecret a random i secret"] run_call_advanced [of d "DeletePermission i j"]
    by (simp_all add: advanced_def)
  then show "preserves db_ok (mapped g (secret_put a random i secret))"
    "preserves db_ok (\<lambda>x. case operation_call (Permission_Delete i j) x of (y, Inl e) \<Rightarrow> (y, h e) | (y, Inr u) \<Rightarrow> (y, k u))"
    by (auto simp: preserves_def mapped_def secret_put_def operation_call_run split: prod.splits option.splits sum.splits) force+
qed

lemma readonly_secret [service_intros]: "readonly (mapped g (secret_query a i))"
  by (auto simp: readonly_def mapped_def secret_query_def split: prod.splits)

lemma readonly_views [service_intros]: "readonly (DNSProviderService_view a c)" "readonly (views a cs)"
proof -
  show v: "readonly (DNSProviderService_view a c)" for c unfolding DNSProviderService_view_def by (intro service_intros)
  show "readonly (views a cs)" by (induction cs) (auto intro!: service_intros v)
qed

lemma readonly_services:
  "readonly UserService_List" "readonly (UserService_Get i)" "readonly ShareService_List" "readonly (ShareService_Get i)"
  "readonly (PermissionService_List i)" "readonly (PermissionService_ListByUser i)" "readonly AuthorizedUserCounts"
  "readonly SummariesByUser" "readonly SettingsService_Get" "readonly TLSService_Get" "readonly (DNSProviderService_List a)"
  "readonly (DNSProviderService_Get a i)" "readonly (ConfigService_Export encode)" "readonly ApplyService_State"
  "readonly ApplyService_List"
  unfolding UserService_List_def UserService_Get_def ShareService_List_def ShareService_Get_def PermissionService_List_def
    PermissionService_ListByUser_def AuthorizedUserCounts_def SummariesByUser_def SettingsService_Get_def TLSService_Get_def
    DNSProviderService_List_def DNSProviderService_Get_def ConfigService_Export_def ApplyService_State_def ApplyService_List_def
  by (intro service_intros)+

lemma preserving_services:
  "preserves db_ok (UserService_Create hash fresh now name password)" "preserves db_ok (UserService_Delete i)"
  "preserves db_ok (UserService_SetEnabled now i b)" "preserves db_ok (UserService_ChangePassword hash now i password)"
  "preserves db_ok (ShareService_Create paths fresh now name slug path)" "preserves db_ok (ShareService_Update paths now i u)"
  "preserves db_ok (ShareService_Delete i)" "preserves db_ok (PermissionService_Set now i j p)"
  "preserves db_ok (SettingsService_UpdatePorts free now http https)" "preserves db_ok (TLSService_Update b fresh now t)"
  "preserves db_ok TLSService_Disable" "preserves db_ok (DNSProviderService_Save a random fresh now c)"
  "preserves db_ok (DNSProviderService_Delete i)" "preserves db_ok (ConfigService_Import y paths hash random ids now body)"
  unfolding UserService_Create_def UserService_Delete_def UserService_SetEnabled_def UserService_ChangePassword_def
    ShareService_Create_def ShareService_Update_def ShareService_Delete_def PermissionService_Set_def SettingsService_UpdatePorts_def
    TLSService_Update_def TLSService_Disable_def DNSProviderService_Save_def DNSProviderService_Delete_def ConfigService_Import_def
    existing_credential_def check_secret_def Let_def
  by (intro service_intros readonly_services)+

section \<open>The apply service\<close>

context apply_contract
begin

lemma apply_state_ok:
  assumes "st_ok d" and "rt_ok r" and "apply_state s inputs (d, r) = ((d', r'), res)" shows "st_ok d' \<and> rt_ok r'"
proof (cases "snd res")
  case None
  then have "apply_state s inputs (d, r) = ((d', r'), (fst res, None))" using assms(3) by (cases res) simp
  from apply_success [OF assms(1,2) this] show ?thesis by blast
next
  case (Some e)
  then have "apply_state s inputs (d, r) = ((d', r'), (fst res, Some e))" using assms(3) by (cases res) simp
  from apply_failure [OF assms(1,2) this] show ?thesis by blast
qed

lemma start_active_ok:
  assumes "st_ok d" and "rt_ok r" and "start_active s stop_first inputs (d, r) = ((d', r'), err)" shows "st_ok d' \<and> rt_ok r'"
proof -
  obtain d1 x where a: "st_Active st d = (d1, x)" by fastforce
  have ok: "st_ok d1" using store.active [OF assms(1) a] by simp
  show ?thesis
  proof (cases "\<exists>active input. x = Inr (Some active) \<and> ParseConfigRevisionSnapshot (StateSnapshotJSON active) = Inr input")
    case True
    then show ?thesis using start_active_result [OF assms(1,2,3)] a by blast
  next
    case False
    then have "(d', r') = (d1, r) \<or> (\<exists>res. apply_state s inputs (d1, r) = ((d', r'), res))"
      using assms(3) a parts by (auto simp: start_active_def split: sum.splits option.splits prod.splits if_splits)
    then show ?thesis using ok assms(2) apply_state_ok by blast
  qed
qed

lemma stop_ok:
  assumes "rt_ok r" and "Apply_Stop s locked (d, r) = ((d', r'), err)" shows "d' = d \<and> rt_ok r'"
proof -
  obtain r1 x where "rt_Stop rt r = (r1, x)" by fastforce
  then show ?thesis using assms(2) runtime.stop [OF assms(1)] assms(1) parts by (auto simp: Apply_Stop_def split: if_splits option.splits)
qed

end

lemma upholds_outcome: "upholds J m \<Longrightarrow> upholds J (apply_outcome m)" "upholds J n \<Longrightarrow> upholds J (unit_outcome n)"
  by (auto simp: upholds_def apply_outcome_def unit_outcome_def split: prod.splits)

lemma apply_parts_ok:
  "upholds parts_ok (apply_outcome (Apply (daemon_apply s) locked inputs))"
  "upholds parts_ok (Restore (daemon_apply s) locked now i)"
  "upholds parts_ok (unit_outcome (Apply_Start (daemon_apply s) locked inputs))"
  "upholds parts_ok (unit_outcome (Apply_Restart (daemon_apply s) locked inputs))"
  "upholds parts_ok (unit_outcome (Apply_Stop (daemon_apply s) locked))"
  unfolding daemon_apply_def
  by (intro upholds_outcome upholdsI;
      auto simp: parts_ok_def Apply_def Apply_Start_def Apply_Restart_def split: if_splits
        dest: daemon.apply_state_ok daemon.restore_result daemon.start_active_ok daemon.stop_ok)+

lemma prepare_db: "prepare (daemon_apply s) (d, f) = ((d', f'), x) \<Longrightarrow> d' = d"
  using readonly_DNS_Environment [of "ds_aead s"]
  by (auto simp: prepare_def daemon_apply_def runtimeEnvironment_def query_call_def readonly_def
      split: sum.splits prod.splits if_splits option.splits) (metis fst_conv)+

lemma validate_readonly: "readonly (Apply_Validate (daemon_apply s))"
  unfolding readonly_def by (auto simp: Apply_Validate_def split: prod.splits sum.splits dest: prepare_db)

lemma get_readonly: "readonly (Apply_Get (daemon_apply s) i)"
  by (auto simp: readonly_def Apply_Get_def daemon_apply_def query_call_def split: prod.splits sum.splits)

lemma delete_preserves: "preserves db_ok (unit_outcome (Apply_Delete (daemon_apply s) locked i))"
  using run_call_advanced [of _ "DeleteRevision i"]
  by (auto simp: preserves_def unit_outcome_def Apply_Delete_def daemon_apply_def operation_call_run advanced_def
      split: prod.splits sum.splits option.splits)

lemma check_challenge_db: "check_challenge b checks p (d, f) = ((d', f'), res) \<Longrightarrow> d' = d"
  by (auto simp: check_challenge_def query_call_def split: prod.splits sum.splits option.splits if_splits)

lemma check_readonly: "readonly (check_outcome (TLSService_Check b addresses pair))"
proof -
  have "fst (fst (TLSService_Check b addresses pair (d, f))) = d" for d f
  proof -
    obtain d1 f1 x where get: "TLSService_Get (d, f) = ((d1, f1), x)" by (metis prod.collapse)
    moreover have "d1 = d" using get readonly_services(10) unfolding readonly_def by (metis fst_conv)
    moreover have "fst (fst (check_challenge b checks p (d, f1))) = d" for checks p
      using check_challenge_db [of b checks p d f1] by (metis prod.collapse)
    ultimately show ?thesis
      by (cases x) (simp_all add: TLSService_Check_def Let_def split: option.split)
  qed
  then show ?thesis by (auto simp: readonly_def check_outcome_def split: prod.splits) (metis fst_conv)
qed

section \<open>Lifting\<close>

definition db_is :: "db \<Rightarrow> store \<times> managed_runtime \<Rightarrow> bool" where
  "db_is d = (\<lambda>(x, r). fst x = d)"

lemma lifted: "upholds J m \<Longrightarrow> upholds (\<lambda>s. J (fst s)) (in_daemon m)"
  by (rule upholdsI) (auto simp: in_daemon_def split: prod.splits dest: upholdsD)

lemma in_store_over: "over_store m = in_daemon (in_store m)"
  by (simp add: over_store_def in_store_def)

lemma store_parts:
  "readonly m \<Longrightarrow> upholds (db_is d) (in_store m)" "preserves db_ok n \<Longrightarrow> upholds parts_ok (in_store n)"
  by (auto simp: upholds_def db_is_def parts_ok_def in_store_def readonly_def preserves_def store_ok_def split: prod.splits)
    (metis fst_conv)+

lemma runtime_parts:
  "upholds (db_is d) (in_runtime f)" "upholds runtime_ok g \<Longrightarrow> upholds parts_ok (in_runtime g)"
  by (rule upholdsI; auto simp: db_is_def parts_ok_def in_runtime_def split: prod.splits dest: upholdsD)+

lemma over_runtime_parts:
  "upholds (\<lambda>s. db_is d (fst s)) (over_runtime f)" "upholds runtime_ok g \<Longrightarrow> upholds (\<lambda>s. parts_ok (fst s)) (over_runtime g)"
  unfolding over_runtime_def
  by (rule upholdsI; auto simp: in_daemon_def db_is_def parts_ok_def split: prod.splits dest: upholdsD)+

lemma readonly_parts: "readonly m \<Longrightarrow> upholds parts_ok (in_store m)"
  by (rule store_parts(2)) (rule readonly_preserves)

section \<open>The manager's operations\<close>

lemma settled_same_process: "settled m \<Longrightarrow> process m' = process m \<Longrightarrow> command m' = command m \<Longrightarrow> done_chan m' = done_chan m
    \<Longrightarrow> environment m' = environment m \<Longrightarrow> settled m'"
  by (auto simp: settled_def managed_def)

lemma running_settled: "settled m \<Longrightarrow> fst (runningLocked m) = m"
  using settled_running by (cases "process m = None") auto

lemma status_snapshot_ok: "upholds runtime_ok (with_calls StatusSnapshot)" "upholds runtime_ok (with_calls Status)"
proof -
  have "settled m \<Longrightarrow> settled (fst (StatusSnapshot calls m))" for m calls
    using Status_settled(1) [of m calls "fst (StatusSnapshot calls m)" "Caddy (snd (StatusSnapshot calls m))"]
    by (simp add: Status_def split_beta)
  then show "upholds runtime_ok (with_calls StatusSnapshot)"
    by (auto simp: upholds_def runtime_ok_def with_calls_def split: prod.splits) (metis fst_conv)
  show "upholds runtime_ok (with_calls Status)"
    by (rule upholdsI) (auto simp: runtime_ok_def with_calls_run dest: Status_settled(1))
qed

lemma certificate_ok:
  "upholds settled (CertificateStatus b path read now reader h)" "upholds settled (ForceRenewCertificate b su path read acc h)"
  "upholds settled (CancelRenewCertificate su acc h)"
proof -
  have cert: "settled m \<Longrightarrow> settled (fst (CertificateStatus b path read now reader h m))" for m
    using running_settled [of m] by (cases "runningLocked m") (auto simp: CertificateStatus_def Let_def)
  have start: "settled m \<Longrightarrow> settled (fst (begin_renewal b su path read h m))" for m
    using running_settled [of m]
    by (cases "runningLocked m") (auto simp: begin_renewal_def Let_def split: certificate_read.splits option.splits elim: settled_same_process)
  have less: "settled m \<Longrightarrow> settled (cancel_context n m)" "settled m \<Longrightarrow> settled (delete_renewal t m)" for m n t
    by (auto simp: cancel_context_def delete_renewal_def elim: settled_same_process)
  show "upholds settled (CertificateStatus b path read now reader h)" using cert by (simp add: upholds_def)
  show "upholds settled (ForceRenewCertificate b su path read acc h)"
    using start less by (auto simp: upholds_def ForceRenewCertificate_def abort_renewal_def split: prod.splits sum.splits) (metis fst_conv)+
  show "upholds settled (CancelRenewCertificate su acc h)"
    using less by (auto simp: upholds_def CancelRenewCertificate_def clearCertificateRenewal_def split: sum.splits)
qed

lemma on_manager_ok: "upholds settled f \<Longrightarrow> upholds runtime_ok (on_manager f)"
  by (auto simp: upholds_def runtime_ok_def on_manager_def split: prod.splits)

lemma pair_basic [upholds_intros]: "upholds J (require p)"
  by (simp add: upholds_def require_def)

lemma tls_parts:
  "upholds (db_is d) (TLSService_CertificateStatus (manager_tls s a) p)" "upholds parts_ok (TLSService_CertificateStatus (manager_tls s a) p)"
  "upholds parts_ok (TLSService_Renew (manager_tls s a))" "upholds parts_ok (TLSService_CancelRenew (manager_tls s a))"
  unfolding TLSService_CertificateStatus_def TLSService_Renew_def TLSService_CancelRenew_def
    manager_tls_def tls_providers.simps option.case prod.case
  by (intro upholds_intros runtime_parts readonly_parts readonly_services on_manager_ok certificate_ok)+

lemma snapshot_readonly: "readonly (mapped (\<lambda>_. databaseError) (query_call Snapshot))"
  by (rule service_intros)

lemma endpoints_parts:
  "upholds (db_is d) (EndpointService_Endpoints b (Some (with_calls StatusSnapshot)) probe)"
  "upholds parts_ok (EndpointService_Endpoints b (Some (with_calls StatusSnapshot)) probe)"
  unfolding EndpointService_Endpoints_def option.case
  by (intro upholds_intros runtime_parts store_parts(1) readonly_parts readonly_basic status_snapshot_ok)+

lemma checks_ok:
  assumes "\<And>c. c \<in> set cs \<Longrightarrow> upholds J (ck_Run c)" shows "upholds J (run_checks skips cs)"
  using assms
proof (induction cs arbitrary: skips)
  case (Cons c cs)
  have "upholds J (ck_Run c)" using Cons.prems by simp
  then have c: "upholds J (runSafely c)"
    by (intro upholdsI) (auto simp: runSafely_def split: prod.splits dest: upholdsD)
  have rest: "upholds J (run_checks sk cs)" for sk using Cons by simp
  show ?case by (rule upholdsI) (auto split: prod.splits if_splits dest: upholdsD [OF c] upholdsD [OF rest])
qed (simp add: upholds_def)

lemma diagnostics_ok: "upholds (\<lambda>s. parts_ok (fst s)) (xa_Run (daemon_diagnostics s a))"
proof -
  have plain: "upholds parts_ok (ck_Run (DatabaseCheck n b))" "upholds parts_ok (ck_Run (DirectoryCheck t nd pr))"
    "upholds parts_ok (ck_Run (CaddyBinaryCheck ins))" for n b t nd pr ins
    by (simp_all add: upholds_def DatabaseCheck_def DirectoryCheck_def CaddyBinaryCheck_def Let_def)
  have runtime: "upholds parts_ok (ck_Run (CaddyRuntimeCheck (Some (\<lambda>(x, r). case with_calls Status r of (r', state) \<Rightarrow> ((x, r'), state)))))"
    by (rule upholdsI) (auto simp: CaddyRuntimeCheck_def parts_ok_def split: prod.splits dest: upholdsD [OF status_snapshot_ok(2)])
  have snapshot: "upholds parts_ok (in_store (mapped (\<lambda>_. databaseError) (query_call Snapshot)))"
    "upholds parts_ok (in_store (DNSProviderService_Environment (ds_aead s) input))" "upholds parts_ok (in_store ShareService_List)" for input
    by (intro readonly_parts snapshot_readonly readonly_DNS_Environment readonly_services)+
  have config: "upholds parts_ok (ck_Run (ConfigCheck (in_store (mapped (\<lambda>_. databaseError) (query_call Snapshot)))
      (Some (\<lambda>input. in_store (DNSProviderService_Environment (ds_aead s) input))) (ds_validator s)))"
    by (rule upholdsI) (auto simp: ConfigCheck_def check_config_def split: prod.splits sum.splits dest!: upholdsD [OF snapshot(1)] upholdsD [OF snapshot(2)])
  have shares: "upholds parts_ok (ck_Run (SharePathsCheck (in_store ShareService_List) (an_paths a)))"
    by (rule upholdsI) (auto simp: SharePathsCheck_def Let_def split: prod.splits sum.splits dest!: upholdsD [OF snapshot(3)])
  have tls: "upholds parts_ok (ck_Run (TLSCheck (\<lambda>(x, r). case TLSService_Check True (an_addresses a) (an_pair a) x of (y, result) \<Rightarrow> ((y, r), result))))"
    using check_readonly [of True "an_addresses a" "an_pair a"]
    by (auto simp: upholds_def TLSCheck_def parts_ok_def store_ok_def readonly_def check_outcome_def split: prod.splits option.splits) (metis fst_conv)+
  have run: "upholds parts_ok (run_checks sk (daemon_checks s a))" for sk
    unfolding daemon_checks_def NewService_def
    by (rule checks_ok, unfold set_sort list.set) (elim insertE emptyE; simp only: plain runtime config shares tls)
  show ?thesis
    by (rule upholdsI) (auto simp: daemon_diagnostics_def diag_Run_def split: prod.splits dest: upholdsD [OF run])
qed

section \<open>The interpretations\<close>

lemmas daemon_parts_defs = daemon_server_def daemon_users_def daemon_shares_def daemon_permissions_def daemon_revisions_def daemon_tls_def
  daemon_dns_def daemon_endpoints_def daemon_configuration_def daemon_runtime_def daemon_settings_def daemon_manager_def

lemma over_store_db: "readonly m \<Longrightarrow> upholds (\<lambda>s. db_is d (fst s)) (over_store m)"
  unfolding in_store_over by (intro lifted store_parts)

lemma over_store_ok: "preserves db_ok m \<Longrightarrow> upholds (\<lambda>s. parts_ok (fst s)) (over_store m)"
  unfolding in_store_over by (intro lifted store_parts)

interpretation get_daemon: api_reads "daemon_server s a" "\<lambda>st. db_is d (fst st)" for s a d
  by unfold_locales
    (auto simp: daemon_parts_defs upholds_basic intro!: over_store_db lifted tls_parts endpoints_parts over_runtime_parts readonly_services get_readonly)

interpretation any_daemon: api_writes "daemon_server s a" "\<lambda>st. parts_ok (fst st)" for s a
  by unfold_locales
    (auto simp: daemon_parts_defs upholds_basic diagnostics_ok
      intro!: over_store_ok lifted tls_parts endpoints_parts apply_parts_ok over_runtime_parts status_snapshot_ok
        preserving_services delete_preserves readonly_preserves readonly_services get_readonly validate_readonly check_readonly)

end
