(* ===== verification/Api_Client.thy ===== *)
theory Api_Client
  imports Api_Server
begin

text \<open>
  The client of the Management API (\<^verbatim>\<open>core/internal/client\<close>), which the command line and the desktop program use: the request of
  every operation, and what is made of the response.  The transport, and what \<^verbatim>\<open>net/url\<close> finds in the endpoint, are given.
\<close>

section \<open>Making a client\<close>

text \<open>\<open>pu_Loopback\<close>: whether the host is a loopback IP address.\<close>

record parsed_url =
  pu_Scheme :: string
  pu_User :: bool
  pu_Path :: string
  pu_RawQuery :: string
  pu_Fragment :: string
  pu_Loopback :: bool
  pu_Port :: string

record api_client =
  cl_Endpoint :: string
  cl_Token :: string

datatype client_error =
    NotLoopbackHTTP | EmptyToken | BadResponse | APIError nat string string "(string \<times> json) list" | HTTPStatus nat | BadData | UnsafeExport

definition Client_New :: "(string \<Rightarrow> parsed_url option) \<Rightarrow> string \<Rightarrow> string \<Rightarrow> client_error + api_client" where
  "Client_New parse endpoint token =
     (case parse endpoint of None \<Rightarrow> Inl NotLoopbackHTTP
      | Some u \<Rightarrow>
          if pu_Scheme u \<noteq> ''http'' \<or> pu_User u \<or> pu_Path u \<noteq> [] \<or> pu_RawQuery u \<noteq> [] \<or> pu_Fragment u \<noteq> []
          then Inl NotLoopbackHTTP
          else if \<not> pu_Loopback u \<or> pu_Port u = [] then Inl NotLoopbackHTTP
          else if token = [] then Inl EmptyToken
          else Inr \<lparr>cl_Endpoint = rev (dropWhile (\<lambda>c. c = CHR ''/'') (rev endpoint)), cl_Token = token\<rparr>)"

section \<open>Requests\<close>

text \<open>A body comes with its content type.\<close>

record api_call =
  ac_Method :: string
  ac_Path :: string
  ac_Query :: "(string \<times> string) list"
  ac_Body :: "(string \<times> string) option"

definition client_do :: "string \<Rightarrow> string \<Rightarrow> json option \<Rightarrow> api_call" where
  "client_do method path input =
     \<lparr>ac_Method = method, ac_Path = path, ac_Query = [],
      ac_Body = map_option (\<lambda>j. (json_marshal j, ''application/json'')) input\<rparr>"

text \<open>The request as the server's library parses it, for a path without characters that are escaped.\<close>

definition client_request :: "api_client \<Rightarrow> api_call \<Rightarrow> request" where
  "client_request c call =
     \<lparr>rq_Method = ac_Method call, rq_Segments = split_on CHR ''/'' (tl (ac_Path call)), rq_Query = ac_Query call,
      rq_Authorization = ''Bearer '' @ cl_Token c,
      rq_ContentType = (case ac_Body call of None \<Rightarrow> [] | Some (_, t) \<Rightarrow> t),
      rq_Body = (case ac_Body call of None \<Rightarrow> [] | Some (b, _) \<Rightarrow> b)\<rparr>"

definition Client_Status :: api_call where "Client_Status = client_do MethodGet ''/api/v1/status'' None"
definition Client_ServerStatus :: api_call where "Client_ServerStatus = client_do MethodGet ''/api/v1/server/status'' None"
definition Client_StartServer :: api_call where "Client_StartServer = client_do MethodPost ''/api/v1/server/start'' None"
definition Client_StopServer :: api_call where "Client_StopServer = client_do MethodPost ''/api/v1/server/stop'' None"
definition Client_RestartServer :: api_call where "Client_RestartServer = client_do MethodPost ''/api/v1/server/restart'' None"
definition Client_ServerSettings :: api_call where "Client_ServerSettings = client_do MethodGet ''/api/v1/server/settings'' None"
definition Client_ServerEndpoints :: api_call where "Client_ServerEndpoints = client_do MethodGet ''/api/v1/server/endpoints'' None"

definition Client_UpdateServerPorts :: "int \<Rightarrow> int \<Rightarrow> api_call" where
  "Client_UpdateServerPorts http https =
     client_do MethodPut ''/api/v1/server/settings'' (Some (JObj [(''http_port'', JInt http), (''https_port'', JInt https)]))"

definition Client_ServiceInstall :: api_call where "Client_ServiceInstall = client_do MethodPost ''/api/v1/service/install'' None"
definition Client_ServiceUninstall :: api_call where "Client_ServiceUninstall = client_do MethodPost ''/api/v1/service/uninstall'' None"
definition Client_ServiceStart :: api_call where "Client_ServiceStart = client_do MethodPost ''/api/v1/service/start'' None"
definition Client_ServiceStop :: api_call where "Client_ServiceStop = client_do MethodPost ''/api/v1/service/stop'' None"
definition Client_ServiceStatus :: api_call where "Client_ServiceStatus = client_do MethodGet ''/api/v1/service/status'' None"

subsection \<open>Users\<close>

definition Client_ListUsers :: api_call where "Client_ListUsers = client_do MethodGet ''/api/v1/users'' None"

text \<open>The members of a Go map are written in the order of their keys.\<close>

definition Client_CreateUser :: "string \<Rightarrow> string \<Rightarrow> api_call" where
  "Client_CreateUser username password =
     client_do MethodPost ''/api/v1/users'' (Some (JObj [(''password'', JStr password), (''username'', JStr username)]))"

definition Client_DeleteUser :: "ident \<Rightarrow> api_call" where
  "Client_DeleteUser i = client_do MethodDelete (''/api/v1/users/'' @ i) None"

definition Client_SetUserEnabled :: "ident \<Rightarrow> bool \<Rightarrow> api_call" where
  "Client_SetUserEnabled i b = client_do MethodPatch (''/api/v1/users/'' @ i) (Some (JObj [(''enabled'', JBool b)]))"

definition Client_ChangeUserPassword :: "ident \<Rightarrow> string \<Rightarrow> api_call" where
  "Client_ChangeUserPassword i password =
     client_do MethodPost (''/api/v1/users/'' @ i @ ''/password'') (Some (JObj [(''password'', JStr password)]))"

subsection \<open>Shares and permissions\<close>

definition Client_ListShares :: api_call where "Client_ListShares = client_do MethodGet ''/api/v1/shares'' None"

definition Client_CreateShare :: "string \<Rightarrow> string \<Rightarrow> string \<Rightarrow> api_call" where
  "Client_CreateShare name slug path =
     client_do MethodPost ''/api/v1/shares'' (Some (JObj [(''name'', JStr name), (''path'', JStr path), (''slug'', JStr slug)]))"

definition share_update_json :: "share_update \<Rightarrow> json" where
  "share_update_json u = JObj
     (omit_none ''name'' (map_option JStr (update_Name u)) @ omit_none ''slug'' (map_option JStr (update_Slug u))
      @ omit_none ''path'' (map_option JStr (update_Path u)) @ omit_none ''enabled'' (map_option JBool (update_Enabled u)))"

definition Client_UpdateShare :: "ident \<Rightarrow> share_update \<Rightarrow> api_call" where
  "Client_UpdateShare i u = client_do MethodPatch (''/api/v1/shares/'' @ i) (Some (share_update_json u))"

definition Client_DeleteShare :: "ident \<Rightarrow> api_call" where
  "Client_DeleteShare i = client_do MethodDelete (''/api/v1/shares/'' @ i) None"

definition Client_ListPermissions :: "ident \<Rightarrow> api_call" where
  "Client_ListPermissions i = client_do MethodGet (''/api/v1/shares/'' @ i @ ''/permissions'') None"

definition Client_SetPermission :: "ident \<Rightarrow> ident \<Rightarrow> permission \<Rightarrow> api_call" where
  "Client_SetPermission i j p =
     client_do MethodPut (''/api/v1/shares/'' @ i @ ''/permissions/'' @ j) (Some (JObj [(''permission'', JStr p)]))"

subsection \<open>TLS and DNS\<close>

definition Client_GetTLS :: api_call where "Client_GetTLS = client_do MethodGet ''/api/v1/tls'' None"

definition tls_update_json :: "tls_update \<Rightarrow> json" where
  "tls_update_json u = JObj
     ([(''mode'', JStr (upd_Mode u)), (''hostname'', JStr (upd_Hostname u))] @ omit_empty_str ''challenge'' (upd_Challenge u)
      @ omit_none ''dns_provider_id'' (map_option JStr (upd_DNSProviderID u))
      @ omit_empty_str ''certificate_path'' (upd_CertificatePath u) @ omit_empty_str ''private_key_path'' (upd_PrivateKeyPath u))"

definition Client_UpdateTLS :: "tls_update \<Rightarrow> api_call" where
  "Client_UpdateTLS u = client_do MethodPut ''/api/v1/tls'' (Some (tls_update_json u))"

definition Client_ListDNSProviders :: api_call where "Client_ListDNSProviders = client_do MethodGet ''/api/v1/dns/providers'' None"

text \<open>The secret is a map of strings, given by its members in the order of their keys; an empty one is left out.\<close>

definition dns_update_json :: "dns_update \<Rightarrow> json" where
  "dns_update_json u = JObj
     ([(''name'', JStr (up_Name u)), (''provider'', JStr (up_Provider u))]
      @ omit_empty_list ''allowed_zones'' (map JStr (up_AllowedZones u))
      @ (case up_Secret u of None \<Rightarrow> []
         | Some m \<Rightarrow> if m = [] then [] else [(''secret'', JObj (map (\<lambda>(k, v). (k, JStr v)) m))]))"

definition Client_CreateDNSProvider :: "dns_update \<Rightarrow> api_call" where
  "Client_CreateDNSProvider u = client_do MethodPost ''/api/v1/dns/providers'' (Some (dns_update_json u))"

definition Client_UpdateDNSProvider :: "ident \<Rightarrow> dns_update \<Rightarrow> api_call" where
  "Client_UpdateDNSProvider i u = client_do MethodPut (''/api/v1/dns/providers/'' @ i) (Some (dns_update_json u))"

definition Client_DeleteDNSProvider :: "ident \<Rightarrow> api_call" where
  "Client_DeleteDNSProvider i = client_do MethodDelete (''/api/v1/dns/providers/'' @ i) None"

definition Client_DisableTLS :: api_call where "Client_DisableTLS = client_do MethodDelete ''/api/v1/tls'' None"
definition Client_CheckTLS :: api_call where "Client_CheckTLS = client_do MethodPost ''/api/v1/tls/check'' None"
definition Client_RunDiagnostics :: api_call where "Client_RunDiagnostics = client_do MethodPost ''/api/v1/diagnostics/run'' None"

subsection \<open>Configuration\<close>

definition Client_ExportConfig :: api_call where "Client_ExportConfig = client_do MethodGet ''/api/v1/config/export'' None"

definition Client_ImportConfig :: "string \<Rightarrow> api_call" where
  "Client_ImportConfig body =
     (client_do MethodPost ''/api/v1/config/import'' None)\<lparr>ac_Body := Some (body, ''application/yaml'')\<rparr>"

definition Client_ApplyConfig :: api_call where "Client_ApplyConfig = client_do MethodPost ''/api/v1/config/apply'' None"
definition Client_ValidateConfig :: api_call where "Client_ValidateConfig = client_do MethodPost ''/api/v1/config/validate'' None"
definition Client_ConfigState :: api_call where "Client_ConfigState = client_do MethodGet ''/api/v1/config/state'' None"
definition Client_ListRevisions :: api_call where "Client_ListRevisions = client_do MethodGet ''/api/v1/revisions'' None"

definition Client_RestoreRevision :: "ident \<Rightarrow> api_call" where
  "Client_RestoreRevision i = client_do MethodPost (''/api/v1/revisions/'' @ i @ ''/restore'') None"

definition Client_DeleteRevision :: "ident \<Rightarrow> api_call" where
  "Client_DeleteRevision i = client_do MethodDelete (''/api/v1/revisions/'' @ i) None"

subsection \<open>Logs\<close>

text \<open>\<^verbatim>\<open>time.RFC3339Nano\<close> in UTC.\<close>

definition rfc3339_nano :: "timestamp \<Rightarrow> string" where
  "rfc3339_nano t = (if IsZero t then ''0001-01-01T00:00:00Z'' else Timestamp_String t)"

text \<open>The query as the server's library decodes what \<^verbatim>\<open>url.Values.Encode\<close> wrote; absent values are the zero ones.\<close>

definition Client_Logs :: "log_query \<Rightarrow> api_call" where
  "Client_Logs l = (client_do MethodGet ''/api/v1/logs'' None)\<lparr>ac_Query :=
     (if lq_Component l = [] then [] else [(''component'', lq_Component l)])
     @ (if lq_Cursor l = 0 then [] else [(''cursor'', show_int (uint (lq_Cursor l)))])
     @ (if lq_Level l = [] then [] else [(''level'', lq_Level l)])
     @ (if lq_Limit l = 0 then [] else [(''limit'', show_int (lq_Limit l))])
     @ (case lq_Since l of None \<Rightarrow> [] | Some t \<Rightarrow> [(''since'', rfc3339_nano t)])\<rparr>"

end
