(* ===== verification/Api_Answers.thy ===== *)
theory Api_Answers
  imports Api_Client
begin

text \<open>
  What the client makes of a response: the envelope, the error of the API, and the values the operations return.
\<close>

section \<open>The envelope\<close>

text \<open>The details of an error are a map, given by its members in the order they were read; a later one overrides an earlier one.\<close>

record api_payload =
  pl_Success :: bool
  pl_Data :: "json option"
  pl_Error :: "api_error option"

text \<open>A value of type \<open>any\<close> is decoded when each of its numbers is one for \<^verbatim>\<open>strconv.ParseFloat\<close>.\<close>

fun any_decodes :: "(string \<Rightarrow> bool) \<Rightarrow> json \<Rightarrow> bool" where
  "any_decodes float_ok (JNum s) = float_ok s"
| "any_decodes float_ok (JArr xs) = (\<forall>x \<in> set xs. any_decodes float_ok x)"
| "any_decodes float_ok (JObj kvs) = (\<forall>kv \<in> set kvs. any_decodes float_ok (snd kv))"
| "any_decodes float_ok _ = True"

definition decode_details :: "(string \<Rightarrow> bool) \<Rightarrow> json \<Rightarrow> (string \<times> json) list \<Rightarrow> (string \<times> json) list option" where
  "decode_details float_ok v old =
     (case v of JObj kvs \<Rightarrow> if any_decodes float_ok v then Some (old @ kvs) else None
      | JNull \<Rightarrow> Some [] | _ \<Rightarrow> None)"

definition no_error :: api_error where
  "no_error = \<lparr>api_Code = [], api_Message = [], api_Details = []\<rparr>"

definition assign_error :: "(string \<Rightarrow> bool) \<Rightarrow> string \<Rightarrow> json \<Rightarrow> api_error \<Rightarrow> api_error option" where
  "assign_error float_ok n v e =
     (if n = ''code'' then map_option (\<lambda>x. e\<lparr>api_Code := x\<rparr>) (decode_string v (api_Code e))
      else if n = ''message'' then map_option (\<lambda>x. e\<lparr>api_Message := x\<rparr>) (decode_string v (api_Message e))
      else map_option (\<lambda>x. e\<lparr>api_Details := x\<rparr>) (decode_details float_ok v (api_Details e)))"

definition decode_error :: "(string \<Rightarrow> bool) \<Rightarrow> json \<Rightarrow> api_error \<Rightarrow> api_error option" where
  "decode_error float_ok = decode_struct [''code'', ''message'', ''details''] (assign_error float_ok)"

definition assign_payload :: "(string \<Rightarrow> bool) \<Rightarrow> string \<Rightarrow> json \<Rightarrow> api_payload \<Rightarrow> api_payload option" where
  "assign_payload float_ok n v p =
     (if n = ''success'' then map_option (\<lambda>x. p\<lparr>pl_Success := x\<rparr>) (decode_bool v (pl_Success p))
      else if n = ''data'' then Some (p\<lparr>pl_Data := Some v\<rparr>)
      else map_option (\<lambda>x. p\<lparr>pl_Error := x\<rparr>) (decode_pointer (decode_error float_ok) no_error v (pl_Error p)))"

definition decode_payload :: "(string \<Rightarrow> bool) \<Rightarrow> json \<Rightarrow> api_payload option" where
  "decode_payload float_ok j =
     decode_struct [''success'', ''data'', ''error''] (assign_payload float_ok) j \<lparr>pl_Success = False, pl_Data = None, pl_Error = None\<rparr>"

definition maximum_response :: nat where
  "maximum_response = 1048576"

text \<open>The second half of \<open>doBody\<close>; an operation without a result decodes nothing.\<close>

definition client_answer :: "(string \<Rightarrow> bool) \<Rightarrow> (json \<Rightarrow> 'a option) option \<Rightarrow> nat \<Rightarrow> string \<Rightarrow> client_error + 'a option" where
  "client_answer float_ok decode status text =
     (case Option.bind (first_value (take maximum_response text)) (\<lambda>(v, _). decode_payload float_ok v) of
        None \<Rightarrow> Inl BadResponse
      | Some p \<Rightarrow>
          if status < 200 \<or> 300 \<le> status \<or> \<not> pl_Success p
          then (case pl_Error p of
                  Some e \<Rightarrow> Inl (APIError status (api_Code e) (api_Message e) (api_Details e))
                | None \<Rightarrow> Inl (HTTPStatus status))
          else (case decode of None \<Rightarrow> Inr None
                | Some f \<Rightarrow> (case Option.bind (pl_Data p) f of None \<Rightarrow> Inl BadData | Some x \<Rightarrow> Inr (Some x))))"

section \<open>Values\<close>

fun decode_uint64 :: "json \<Rightarrow> int \<Rightarrow> int option" where
  "decode_uint64 (JNum s) old = (if s \<noteq> [] \<and> list_all digit_char s \<and> number_of s < 2 ^ 64 then Some (number_of s) else None)"
| "decode_uint64 JNull old = Some old"
| "decode_uint64 _ old = None"

text \<open>The structs as the client declares them: without the hash of a user's password, for one.\<close>

record client_user =
  cu_ID :: ident
  cu_Username :: string
  cu_Enabled :: bool
  cu_CreatedAt :: timestamp
  cu_UpdatedAt :: timestamp

definition assign_client_user :: "string \<Rightarrow> json \<Rightarrow> client_user \<Rightarrow> client_user option" where
  "assign_client_user n v u =
     (if n = ''id'' then map_option (\<lambda>x. u\<lparr>cu_ID := x\<rparr>) (decode_string v (cu_ID u))
      else if n = ''username'' then map_option (\<lambda>x. u\<lparr>cu_Username := x\<rparr>) (decode_string v (cu_Username u))
      else if n = ''enabled'' then map_option (\<lambda>x. u\<lparr>cu_Enabled := x\<rparr>) (decode_bool v (cu_Enabled u))
      else if n = ''created_at'' then map_option (\<lambda>x. u\<lparr>cu_CreatedAt := x\<rparr>) (decode_time v)
      else map_option (\<lambda>x. u\<lparr>cu_UpdatedAt := x\<rparr>) (decode_time v))"

definition decode_client_user :: "json \<Rightarrow> client_user option" where
  "decode_client_user j = decode_struct [''id'', ''username'', ''enabled'', ''created_at'', ''updated_at''] assign_client_user j
     \<lparr>cu_ID = [], cu_Username = [], cu_Enabled = False, cu_CreatedAt = zero_time, cu_UpdatedAt = zero_time\<rparr>"

text \<open>A share has the members of the domain, under the names of the API.\<close>

definition assign_client_share :: "string \<Rightarrow> json \<Rightarrow> share \<Rightarrow> share option" where
  "assign_client_share n v s =
     (if n = ''id'' then map_option (\<lambda>x. s\<lparr>share_ID := x\<rparr>) (decode_string v (share_ID s))
      else if n = ''name'' then map_option (\<lambda>x. s\<lparr>share_Name := x\<rparr>) (decode_string v (share_Name s))
      else if n = ''slug'' then map_option (\<lambda>x. s\<lparr>Slug := x\<rparr>) (decode_string v (Slug s))
      else if n = ''path'' then map_option (\<lambda>x. s\<lparr>Path := x\<rparr>) (decode_string v (Path s))
      else if n = ''enabled'' then map_option (\<lambda>x. s\<lparr>share_Enabled := x\<rparr>) (decode_bool v (share_Enabled s))
      else if n = ''created_at'' then map_option (\<lambda>x. s\<lparr>share_CreatedAt := x\<rparr>) (decode_time v)
      else map_option (\<lambda>x. s\<lparr>share_UpdatedAt := x\<rparr>) (decode_time v))"

definition decode_client_share :: "json \<Rightarrow> share option" where
  "decode_client_share j =
     decode_struct [''id'', ''name'', ''slug'', ''path'', ''enabled'', ''created_at'', ''updated_at''] assign_client_share j zero_share"

record client_permission =
  cp_ShareID :: ident
  cp_UserID :: ident
  cp_Username :: string
  cp_Permission :: permission

definition assign_client_permission :: "string \<Rightarrow> json \<Rightarrow> client_permission \<Rightarrow> client_permission option" where
  "assign_client_permission n v p =
     (if n = ''share_id'' then map_option (\<lambda>x. p\<lparr>cp_ShareID := x\<rparr>) (decode_string v (cp_ShareID p))
      else if n = ''user_id'' then map_option (\<lambda>x. p\<lparr>cp_UserID := x\<rparr>) (decode_string v (cp_UserID p))
      else if n = ''username'' then map_option (\<lambda>x. p\<lparr>cp_Username := x\<rparr>) (decode_string v (cp_Username p))
      else map_option (\<lambda>x. p\<lparr>cp_Permission := x\<rparr>) (decode_string v (cp_Permission p)))"

definition decode_client_permission :: "json \<Rightarrow> client_permission option" where
  "decode_client_permission j = decode_struct [''share_id'', ''user_id'', ''username'', ''permission''] assign_client_permission j
     \<lparr>cp_ShareID = [], cp_UserID = [], cp_Username = [], cp_Permission = []\<rparr>"

definition assign_client_dns :: "string \<Rightarrow> json \<Rightarrow> dns_view \<Rightarrow> dns_view option" where
  "assign_client_dns n v d =
     (if n = ''id'' then map_option (\<lambda>x. d\<lparr>view_ID := x\<rparr>) (decode_string v (view_ID d))
      else if n = ''name'' then map_option (\<lambda>x. d\<lparr>view_Name := x\<rparr>) (decode_string v (view_Name d))
      else if n = ''provider'' then map_option (\<lambda>x. d\<lparr>view_Provider := x\<rparr>) (decode_string v (view_Provider d))
      else if n = ''allowed_zones'' then
        map_option (\<lambda>x. d\<lparr>view_AllowedZones := x\<rparr>) (decode_list (\<lambda>j. decode_string j []) v (view_AllowedZones d))
      else if n = ''secret_configured'' then map_option (\<lambda>x. d\<lparr>SecretConfigured := x\<rparr>) (decode_bool v (SecretConfigured d))
      else if n = ''created_at'' then map_option (\<lambda>x. d\<lparr>view_CreatedAt := x\<rparr>) (decode_time v)
      else map_option (\<lambda>x. d\<lparr>view_UpdatedAt := x\<rparr>) (decode_time v))"

definition decode_client_dns :: "json \<Rightarrow> dns_view option" where
  "decode_client_dns j =
     decode_struct [''id'', ''name'', ''provider'', ''allowed_zones'', ''secret_configured'', ''created_at'', ''updated_at'']
       assign_client_dns j \<lparr>view_ID = [], view_Name = [], view_Provider = [], view_AllowedZones = [], SecretConfigured = False,
       view_CreatedAt = zero_time, view_UpdatedAt = zero_time\<rparr>"

definition assign_client_endpoint :: "string \<Rightarrow> json \<Rightarrow> endpoint \<Rightarrow> endpoint option" where
  "assign_client_endpoint n v e =
     (if n = ''protocol'' then map_option (\<lambda>x. e\<lparr>Protocol := x\<rparr>) (decode_string v (Protocol e))
      else if n = ''url'' then map_option (\<lambda>x. e\<lparr>URL := x\<rparr>) (decode_string v (URL e))
      else if n = ''port'' then map_option (\<lambda>x. e\<lparr>Port := x\<rparr>) (decode_int v (Port e))
      else if n = ''state'' then map_option (\<lambda>x. e\<lparr>ep_State := x\<rparr>) (decode_string v (ep_State e))
      else if n = ''configured'' then map_option (\<lambda>x. e\<lparr>Configured := x\<rparr>) (decode_bool v (Configured e))
      else if n = ''active'' then map_option (\<lambda>x. e\<lparr>Active := x\<rparr>) (decode_bool v (Active e))
      else if n = ''copyable'' then map_option (\<lambda>x. e\<lparr>Copyable := x\<rparr>) (decode_bool v (Copyable e))
      else if n = ''error_code'' then map_option (\<lambda>x. e\<lparr>ErrorCodeText := x\<rparr>) (decode_string v (ErrorCodeText e))
      else map_option (\<lambda>x. e\<lparr>Description := x\<rparr>) (decode_string v (Description e)))"

definition no_endpoint :: endpoint where
  "no_endpoint = \<lparr>Protocol = [], URL = [], Port = 0, ep_State = [], Configured = False, Active = False, Copyable = False,
     ErrorCodeText = [], Description = []\<rparr>"

definition decode_client_endpoint :: "json \<Rightarrow> endpoint \<Rightarrow> endpoint option" where
  "decode_client_endpoint = decode_struct
     [''protocol'', ''url'', ''port'', ''state'', ''configured'', ''active'', ''copyable'', ''error_code'', ''description'']
     assign_client_endpoint"

definition decode_client_endpoints :: "json \<Rightarrow> (endpoint \<times> endpoint) option" where
  "decode_client_endpoints j = decode_struct [''http'', ''https'']
     (\<lambda>n v (a, b). if n = ''http'' then map_option (\<lambda>x. (x, b)) (decode_client_endpoint v a)
        else map_option (\<lambda>x. (a, x)) (decode_client_endpoint v b)) j (no_endpoint, no_endpoint)"

definition decode_client_check :: "json \<Rightarrow> tls_check option" where
  "decode_client_check j = decode_struct [''name'', ''ok'', ''message'']
     (\<lambda>n v c. if n = ''name'' then map_option (\<lambda>x. c\<lparr>check_Name := x\<rparr>) (decode_string v (check_Name c))
        else if n = ''ok'' then map_option (\<lambda>x. c\<lparr>check_OK := x\<rparr>) (decode_bool v (check_OK c))
        else map_option (\<lambda>x. c\<lparr>check_Message := x\<rparr>) (decode_string v (check_Message c))) j
     \<lparr>check_Name = [], check_OK = False, check_Message = []\<rparr>"

definition decode_client_tls_check :: "json \<Rightarrow> (bool \<times> tls_check list) option" where
  "decode_client_tls_check j = decode_struct [''ready'', ''checks'']
     (\<lambda>n v (a, b). if n = ''ready'' then map_option (\<lambda>x. (x, b)) (decode_bool v a)
        else map_option (\<lambda>x. (a, x)) (decode_list decode_client_check v b)) j (False, [])"

record client_revision =
  cr_ID :: ident
  cr_Number :: int
  cr_CreatedAt :: timestamp
  cr_ConfigHash :: string
  cr_ValidationStatus :: string
  cr_ApplyStatus :: string
  cr_Snapshot :: bool
  cr_AppVersion :: string
  cr_ErrorCode :: string
  cr_ErrorSummary :: string

definition assign_client_revision :: "string \<Rightarrow> json \<Rightarrow> client_revision \<Rightarrow> client_revision option" where
  "assign_client_revision n v r =
     (if n = ''id'' then map_option (\<lambda>x. r\<lparr>cr_ID := x\<rparr>) (decode_string v (cr_ID r))
      else if n = ''number'' then map_option (\<lambda>x. r\<lparr>cr_Number := x\<rparr>) (decode_uint64 v (cr_Number r))
      else if n = ''created_at'' then map_option (\<lambda>x. r\<lparr>cr_CreatedAt := x\<rparr>) (decode_time v)
      else if n = ''config_hash'' then map_option (\<lambda>x. r\<lparr>cr_ConfigHash := x\<rparr>) (decode_string v (cr_ConfigHash r))
      else if n = ''validation_status'' then map_option (\<lambda>x. r\<lparr>cr_ValidationStatus := x\<rparr>) (decode_string v (cr_ValidationStatus r))
      else if n = ''apply_status'' then map_option (\<lambda>x. r\<lparr>cr_ApplyStatus := x\<rparr>) (decode_string v (cr_ApplyStatus r))
      else if n = ''state_snapshot_available'' then map_option (\<lambda>x. r\<lparr>cr_Snapshot := x\<rparr>) (decode_bool v (cr_Snapshot r))
      else if n = ''app_version'' then map_option (\<lambda>x. r\<lparr>cr_AppVersion := x\<rparr>) (decode_string v (cr_AppVersion r))
      else if n = ''error_code'' then map_option (\<lambda>x. r\<lparr>cr_ErrorCode := x\<rparr>) (decode_string v (cr_ErrorCode r))
      else map_option (\<lambda>x. r\<lparr>cr_ErrorSummary := x\<rparr>) (decode_string v (cr_ErrorSummary r)))"

definition decode_client_revision :: "json \<Rightarrow> client_revision option" where
  "decode_client_revision j = decode_struct
     [''id'', ''number'', ''created_at'', ''config_hash'', ''validation_status'', ''apply_status'', ''state_snapshot_available'',
      ''app_version'', ''error_code'', ''error_summary''] assign_client_revision j
     \<lparr>cr_ID = [], cr_Number = 0, cr_CreatedAt = zero_time, cr_ConfigHash = [], cr_ValidationStatus = [], cr_ApplyStatus = [],
      cr_Snapshot = False, cr_AppVersion = [], cr_ErrorCode = [], cr_ErrorSummary = []\<rparr>"

definition assign_client_state :: "string \<Rightarrow> json \<Rightarrow> revision_state \<Rightarrow> revision_state option" where
  "assign_client_state n v s =
     (if n = ''desired_revision'' then
        map_option (\<lambda>x. s\<lparr>DesiredRevision := x\<rparr>) (decode_pointer decode_uint64 0 v (DesiredRevision s))
      else if n = ''active_revision'' then
        map_option (\<lambda>x. s\<lparr>ActiveRevision := x\<rparr>) (decode_pointer decode_uint64 0 v (ActiveRevision s))
      else if n = ''dirty'' then map_option (\<lambda>x. s\<lparr>Dirty := x\<rparr>) (decode_bool v (Dirty s))
      else map_option (\<lambda>x. s\<lparr>Pending := x\<rparr>) (decode_bool v (Pending s)))"

definition decode_client_state :: "json \<Rightarrow> revision_state option" where
  "decode_client_state j = decode_struct [''desired_revision'', ''active_revision'', ''dirty'', ''pending''] assign_client_state j
     \<lparr>DesiredRevision = None, ActiveRevision = None, Dirty = False, Pending = False\<rparr>"

definition decode_client_validation :: "json \<Rightarrow> validation_result option" where
  "decode_client_validation j = decode_struct [''valid'', ''config_hash'', ''warnings'']
     (\<lambda>n v r. if n = ''valid'' then map_option (\<lambda>x. r\<lparr>vr_Valid := x\<rparr>) (decode_bool v (vr_Valid r))
        else if n = ''config_hash'' then map_option (\<lambda>x. r\<lparr>vr_ConfigHash := x\<rparr>) (decode_string v (vr_ConfigHash r))
        else map_option (\<lambda>x. r\<lparr>vr_Warnings := x\<rparr>) (decode_list (\<lambda>j. decode_string j []) v (vr_Warnings r))) j
     \<lparr>vr_Valid = False, vr_ConfigHash = [], vr_Warnings = []\<rparr>"

definition decode_client_ports :: "json \<Rightarrow> (int \<times> int) option" where
  "decode_client_ports j = decode_struct [''http_port'', ''https_port'']
     (\<lambda>n v (a, b). if n = ''http_port'' then map_option (\<lambda>x. (x, b)) (decode_int v a)
        else map_option (\<lambda>x. (a, x)) (decode_int v b)) j (0, 0)"

definition decode_client_caddy :: "json \<Rightarrow> string option" where
  "decode_client_caddy j = decode_struct [''caddy''] (\<lambda>n v old. decode_string v old) j []"

definition decode_client_service :: "json \<Rightarrow> (bool \<times> string) option" where
  "decode_client_service j = decode_struct [''installed'', ''state'']
     (\<lambda>n v (a, b). if n = ''installed'' then map_option (\<lambda>x. (x, b)) (decode_bool v a)
        else map_option (\<lambda>x. (a, x)) (decode_string v b)) j (False, [])"

definition decode_client_tls :: "json \<Rightarrow> tls_profile option option" where
  "decode_client_tls j = decode_pointer decode_tls zero_tls j None"

text \<open>An export is refused unless it is YAML without secrets.\<close>

definition decode_client_export :: "json \<Rightarrow> (string \<times> string \<times> bool) option" where
  "decode_client_export j = decode_struct [''format'', ''content'', ''contains_secrets'']
     (\<lambda>n v (a, b, c). if n = ''format'' then map_option (\<lambda>x. (x, b, c)) (decode_string v a)
        else if n = ''content'' then map_option (\<lambda>x. (a, x, c)) (decode_string v b)
        else map_option (\<lambda>x. (a, b, x)) (decode_bool v c)) j ([], [], False)"

definition export_answer :: "client_error + (string \<times> string \<times> bool) option \<Rightarrow> client_error + string" where
  "export_answer r =
     (case r of Inl e \<Rightarrow> Inl e
      | Inr x \<Rightarrow> (case x of Some (format, content, secrets) \<Rightarrow>
            if format \<noteq> ''yaml'' \<or> secrets then Inl UnsafeExport else Inr content
          | None \<Rightarrow> Inl UnsafeExport))"

record client_import =
  ci_UsersCreated :: int
  ci_UsersUpdated :: int
  ci_SharesCreated :: int
  ci_SharesUpdated :: int
  ci_PermissionsUpserted :: int
  ci_TLSUpdated :: bool
  ci_ServerUpdated :: bool
  ci_PasswordResetRequired :: "string list"
  ci_PendingApply :: bool

definition assign_client_import :: "string \<Rightarrow> json \<Rightarrow> client_import \<Rightarrow> client_import option" where
  "assign_client_import n v r =
     (if n = ''users_created'' then map_option (\<lambda>x. r\<lparr>ci_UsersCreated := x\<rparr>) (decode_int v (ci_UsersCreated r))
      else if n = ''users_updated'' then map_option (\<lambda>x. r\<lparr>ci_UsersUpdated := x\<rparr>) (decode_int v (ci_UsersUpdated r))
      else if n = ''shares_created'' then map_option (\<lambda>x. r\<lparr>ci_SharesCreated := x\<rparr>) (decode_int v (ci_SharesCreated r))
      else if n = ''shares_updated'' then map_option (\<lambda>x. r\<lparr>ci_SharesUpdated := x\<rparr>) (decode_int v (ci_SharesUpdated r))
      else if n = ''permissions_upserted'' then
        map_option (\<lambda>x. r\<lparr>ci_PermissionsUpserted := x\<rparr>) (decode_int v (ci_PermissionsUpserted r))
      else if n = ''tls_updated'' then map_option (\<lambda>x. r\<lparr>ci_TLSUpdated := x\<rparr>) (decode_bool v (ci_TLSUpdated r))
      else if n = ''server_updated'' then map_option (\<lambda>x. r\<lparr>ci_ServerUpdated := x\<rparr>) (decode_bool v (ci_ServerUpdated r))
      else if n = ''password_reset_required'' then
        map_option (\<lambda>x. r\<lparr>ci_PasswordResetRequired := x\<rparr>) (decode_list (\<lambda>j. decode_string j []) v (ci_PasswordResetRequired r))
      else map_option (\<lambda>x. r\<lparr>ci_PendingApply := x\<rparr>) (decode_bool v (ci_PendingApply r)))"

definition decode_client_import :: "json \<Rightarrow> client_import option" where
  "decode_client_import j = decode_struct
     [''users_created'', ''users_updated'', ''shares_created'', ''shares_updated'', ''permissions_upserted'', ''tls_updated'',
      ''server_updated'', ''password_reset_required'', ''pending_apply''] assign_client_import j
     \<lparr>ci_UsersCreated = 0, ci_UsersUpdated = 0, ci_SharesCreated = 0, ci_SharesUpdated = 0, ci_PermissionsUpserted = 0,
      ci_TLSUpdated = False, ci_ServerUpdated = False, ci_PasswordResetRequired = [], ci_PendingApply = False\<rparr>"

end
