(* ===== verification/Api_Bodies.thy ===== *)
theory Api_Bodies
  imports Api_Request Snapshot_Roundtrip
begin

text \<open>
  Reading a body that was written by \<^verbatim>\<open>json.Marshal\<close>: the decoder finds the value and nothing after it.
\<close>

lemma first_value_print:
  assumes "clean j" and "depth j \<le> max_nesting" and "stops rest"
  shows "first_value (json_marshal j @ rest) = Some (j, rest)"
proof -
  have "fuel j \<le> 2 * length (json_print j @ rest) + 2" using fuel_length [OF assms(1)] by simp
  then have "parse_value (2 * length (json_print j @ rest) + 2) max_nesting (json_print j @ rest) = Some (j, rest)"
    using parse_print [OF assms(1,2)] assms(3) unfolding reads_def by blast
  with skip_ws_print [OF assms(1), of rest] show ?thesis by (simp add: first_value_def json_marshal_def)
qed

lemma first_value_marshal: "clean j \<Longrightarrow> depth j \<le> max_nesting \<Longrightarrow> first_value (json_marshal j) = Some (j, [])"
  using first_value_print [of j "[]"] stops_punctuation(4) by simp

lemma decodeJSON_marshal:
  assumes "clean j" and "depth j \<le> max_nesting" and "rq_Body q = json_marshal j" and "length (json_marshal j) \<le> maxRequestBodyBytes"
    and "ParseMediaType lib (rq_ContentType q) = Some ''application/json''" and "decode j = Some x"
  shows "decodeJSON lib decode q = Inr x"
  using assms by (simp add: decodeJSON_def first_value_marshal Let_def skip_ws_def)

text \<open>The shape of the bodies: objects whose members are shallow.\<close>

lemma shallow_object: "list_all (\<lambda>kv. depth (snd kv) \<le> 1) kvs \<Longrightarrow> depth (JObj kvs) \<le> max_nesting"
proof -
  assume "list_all (\<lambda>kv. depth (snd kv) \<le> 1) kvs"
  then have "foldr (max \<circ> depth \<circ> snd) kvs 0 \<le> 1" by (simp add: depth_members list_all_iff)
  then show ?thesis by (simp add: max_nesting_def)
qed

text \<open>Escaping writes at most six characters for a byte.\<close>

lemma escape_rune_length: "bytes \<noteq> [] \<Longrightarrow> length (escape_rune (r, bytes)) \<le> 6 * length bytes"
  by (cases bytes) (auto simp: escape_rune_def u_escape_def)

lemma quote_string_length: "length (quote_string s) \<le> 6 * length s + 2"
proof -
  have "length (concat (map escape_rune (chunks s))) \<le> 6 * length s"
  proof (induction s rule: chunks.induct)
    case (2 c cs)
    let ?n = "snd (decode_rune c cs)"
    have "length (take ?n cs) + length (drop ?n cs) = length cs" by (metis append_take_drop_id length_append)
    then show ?case
      using 2 [OF refl] escape_rune_length [of "c # take ?n cs" "fst (decode_rune c cs)"] by (simp add: Let_def)
  qed simp
  then show ?thesis by (simp add: quote_string_def)
qed

end
