(* ===== verification/Api_Operations.thy ===== *)
theory Api_Operations
  imports Api_Answers Api_Bodies
begin

text \<open>
  The operations of the client against the server: the request of each reaches the handler that was meant for it, with the arguments
  the operation was given, and the client reads the answer back.
\<close>

section \<open>Operations\<close>

datatype client_operation =
    Op_Status | Op_ServerStatus | Op_StartServer | Op_StopServer | Op_RestartServer | Op_ServerSettings | Op_ServerEndpoints
  | Op_UpdateServerPorts int int | Op_ServiceInstall | Op_ServiceUninstall | Op_ServiceStart | Op_ServiceStop | Op_ServiceStatus
  | Op_ListUsers | Op_CreateUser string string | Op_DeleteUser ident | Op_SetUserEnabled ident bool | Op_ChangeUserPassword ident string
  | Op_ListShares | Op_CreateShare string string string | Op_UpdateShare ident share_update | Op_DeleteShare ident
  | Op_ListPermissions ident | Op_SetPermission ident ident permission
  | Op_GetTLS | Op_UpdateTLS tls_update | Op_DisableTLS | Op_CheckTLS
  | Op_ListDNSProviders | Op_CreateDNSProvider dns_update | Op_UpdateDNSProvider ident dns_update | Op_DeleteDNSProvider ident
  | Op_RunDiagnostics | Op_ExportConfig | Op_ImportConfig string | Op_ApplyConfig | Op_ValidateConfig | Op_ConfigState
  | Op_ListRevisions | Op_RestoreRevision ident | Op_DeleteRevision ident | Op_Logs log_query

fun client_call :: "client_operation \<Rightarrow> api_call" where
  "client_call Op_Status = Client_Status"
| "client_call Op_ServerStatus = Client_ServerStatus"
| "client_call Op_StartServer = Client_StartServer"
| "client_call Op_StopServer = Client_StopServer"
| "client_call Op_RestartServer = Client_RestartServer"
| "client_call Op_ServerSettings = Client_ServerSettings"
| "client_call Op_ServerEndpoints = Client_ServerEndpoints"
| "client_call (Op_UpdateServerPorts http https) = Client_UpdateServerPorts http https"
| "client_call Op_ServiceInstall = Client_ServiceInstall"
| "client_call Op_ServiceUninstall = Client_ServiceUninstall"
| "client_call Op_ServiceStart = Client_ServiceStart"
| "client_call Op_ServiceStop = Client_ServiceStop"
| "client_call Op_ServiceStatus = Client_ServiceStatus"
| "client_call Op_ListUsers = Client_ListUsers"
| "client_call (Op_CreateUser name password) = Client_CreateUser name password"
| "client_call (Op_DeleteUser i) = Client_DeleteUser i"
| "client_call (Op_SetUserEnabled i b) = Client_SetUserEnabled i b"
| "client_call (Op_ChangeUserPassword i password) = Client_ChangeUserPassword i password"
| "client_call Op_ListShares = Client_ListShares"
| "client_call (Op_CreateShare name slug path) = Client_CreateShare name slug path"
| "client_call (Op_UpdateShare i u) = Client_UpdateShare i u"
| "client_call (Op_DeleteShare i) = Client_DeleteShare i"
| "client_call (Op_ListPermissions i) = Client_ListPermissions i"
| "client_call (Op_SetPermission i j p) = Client_SetPermission i j p"
| "client_call Op_GetTLS = Client_GetTLS"
| "client_call (Op_UpdateTLS t) = Client_UpdateTLS t"
| "client_call Op_DisableTLS = Client_DisableTLS"
| "client_call Op_CheckTLS = Client_CheckTLS"
| "client_call Op_ListDNSProviders = Client_ListDNSProviders"
| "client_call (Op_CreateDNSProvider d) = Client_CreateDNSProvider d"
| "client_call (Op_UpdateDNSProvider i d) = Client_UpdateDNSProvider i d"
| "client_call (Op_DeleteDNSProvider i) = Client_DeleteDNSProvider i"
| "client_call Op_RunDiagnostics = Client_RunDiagnostics"
| "client_call Op_ExportConfig = Client_ExportConfig"
| "client_call (Op_ImportConfig body) = Client_ImportConfig body"
| "client_call Op_ApplyConfig = Client_ApplyConfig"
| "client_call Op_ValidateConfig = Client_ValidateConfig"
| "client_call Op_ConfigState = Client_ConfigState"
| "client_call Op_ListRevisions = Client_ListRevisions"
| "client_call (Op_RestoreRevision i) = Client_RestoreRevision i"
| "client_call (Op_DeleteRevision i) = Client_DeleteRevision i"
| "client_call (Op_Logs l) = Client_Logs l"

section \<open>What each operation means\<close>

text \<open>The services of the server, called directly.\<close>

record 's services =
  sx_Users :: "'s user_api"
  sx_Shares :: "'s share_api"
  sx_Permissions :: "'s permission_api"
  sx_Apply :: "'s apply_api"
  sx_TLS :: "'s tls_api"
  sx_DNS :: "'s dns_api"
  sx_Endpoints :: "('s, endpoint \<times> endpoint) service"
  sx_Diagnostics :: "'s diagnostics_api"
  sx_Configuration :: "'s config_api"
  sx_Runtime :: "'s runtime_api"
  sx_Settings :: "'s settings_api"
  sx_Manager :: "'s manager_api"

definition serves_all :: "'s api_server \<Rightarrow> 's services \<Rightarrow> bool" where
  "serves_all sv x \<longleftrightarrow> sv_Users sv = Some (sx_Users x) \<and> sv_Shares sv = Some (sx_Shares x) \<and> sv_Permissions sv = Some (sx_Permissions x)
     \<and> sv_Apply sv = Some (sx_Apply x) \<and> sv_TLS sv = Some (sx_TLS x) \<and> sv_DNSProviders sv = Some (sx_DNS x)
     \<and> sv_Endpoints sv = Some (sx_Endpoints x) \<and> sv_Diagnostics sv = Some (sx_Diagnostics x)
     \<and> sv_Configuration sv = Some (sx_Configuration x) \<and> sv_Runtime sv = Some (sx_Runtime x) \<and> sv_Settings sv = Some (sx_Settings x)
     \<and> sv_Service sv = Some (sx_Manager x)"

definition manager_answer :: "('s \<Rightarrow> 's \<times> manager_error option) \<Rightarrow> string \<Rightarrow> 's \<Rightarrow> 's \<times> response" where
  "manager_answer f text x =
     (case f x of (y, Some e) \<Rightarrow> (y, writeServiceError e) | (y, None) \<Rightarrow> (y, writeSuccess 200 (result_json text)))"

text \<open>A change, the apply that follows it when it changed something, and the answer.\<close>

definition change_then_apply :: "'s api_server \<Rightarrow> ('s, 'a \<times> bool) service \<Rightarrow> ('a \<Rightarrow> response) \<Rightarrow> 's \<Rightarrow> 's \<times> response" where
  "change_then_apply sv m answer =
     respond (and_then m (\<lambda>(a, changed). and_then (apply_if changed sv) (\<lambda>_. give (Inr (answer a)))))"

fun direct :: "'s api_server \<Rightarrow> 's services \<Rightarrow> client_operation \<Rightarrow> 's \<Rightarrow> 's \<times> response" where
  "direct sv x Op_Status = (\<lambda>s. case currentStatus sv s of (t, r) \<Rightarrow> (t, writeSuccess 200 (status_json r)))"
| "direct sv x Op_ServerStatus = answer_status sv (sx_Runtime x)"
| "direct sv x Op_StartServer = control_runtime sv (sx_Runtime x) (ra_Start (sx_Runtime x))"
| "direct sv x Op_StopServer = control_runtime sv (sx_Runtime x) (ra_Stop (sx_Runtime x))"
| "direct sv x Op_RestartServer = control_runtime sv (sx_Runtime x) (ra_Restart (sx_Runtime x))"
| "direct sv x Op_ServerSettings = query_answer (ga_Get (sx_Settings x)) (\<lambda>s. writeSuccess 200 (server_settings_json s))"
| "direct sv x Op_ServerEndpoints = query_answer (sx_Endpoints x) (\<lambda>e. writeSuccess 200 (endpoints_json e))"
| "direct sv x (Op_UpdateServerPorts http https) =
     mutate sv (ga_UpdatePorts (sx_Settings x) http https) (\<lambda>s. writeSuccess 200 (server_settings_json s))"
| "direct sv x Op_ServiceInstall = manager_answer (ma_Install (sx_Manager x)) ''installed''"
| "direct sv x Op_ServiceUninstall = manager_answer (ma_Uninstall (sx_Manager x)) ''uninstalled''"
| "direct sv x Op_ServiceStart = manager_answer (ma_Start (sx_Manager x)) ''started''"
| "direct sv x Op_ServiceStop = manager_answer (ma_Stop (sx_Manager x)) ''stopped''"
| "direct sv x Op_ServiceStatus = (\<lambda>s. case ma_Status (sx_Manager x) s of (t, Inl e) \<Rightarrow> (t, writeServiceError e)
     | (t, Inr r) \<Rightarrow> (t, writeSuccess 200 (service_status_json r)))"
| "direct sv x Op_ListUsers =
     query_answer (and_then (ua_List (sx_Users x)) (\<lambda>us. and_then (permission_summaries sv) (\<lambda>s. give (Inr (us, s)))))
       (\<lambda>(us, s). writeSuccess 200 (JArr (map (\<lambda>u. publicUser (summary_of s u) u) us)))"
| "direct sv x (Op_CreateUser name password) =
     mutate sv (ua_Create (sx_Users x) name password) (\<lambda>u. writeSuccess 201 (publicUser None u))"
| "direct sv x (Op_DeleteUser i) = mutate sv (ua_Delete (sx_Users x) i) (\<lambda>_. writeSuccess 200 (deleted_json i))"
| "direct sv x (Op_SetUserEnabled i b) = query_answer
     (and_then (ua_SetEnabled (sx_Users x) i b) (\<lambda>changed. and_then (apply_if changed sv) (\<lambda>_. ua_Get (sx_Users x) i)))
     (\<lambda>u. writeSuccess 200 (publicUser None u))"
| "direct sv x (Op_ChangeUserPassword i password) = mutate sv (ua_ChangePassword (sx_Users x) i password)
     (\<lambda>_. writeSuccess 200 (JObj [(''id'', JStr i), (''password_changed'', JBool True)]))"
| "direct sv x Op_ListShares =
     query_answer (and_then (sa_List (sx_Shares x)) (\<lambda>ss. and_then (authorized_counts sv) (\<lambda>counts. give (Inr (ss, counts)))))
       (\<lambda>(ss, counts). writeSuccess 200 (JArr (map (\<lambda>s.
          publicShare (case map_of counts (share_ID s) of None \<Rightarrow> 0 | Some n \<Rightarrow> n) s) ss)))"
| "direct sv x (Op_CreateShare name slug path) =
     mutate sv (sa_Create (sx_Shares x) name slug path) (\<lambda>s. writeSuccess 201 (publicShare 0 s))"
| "direct sv x (Op_UpdateShare i u) =
     (if u = no_update then reply (badRequest ''At least one share field is required'')
      else change_then_apply sv (sa_Update (sx_Shares x) i u) (\<lambda>s. writeSuccess 200 (publicShare 0 s)))"
| "direct sv x (Op_DeleteShare i) = mutate sv (sa_Delete (sx_Shares x) i)
     (\<lambda>_. writeSuccess 200 (JObj [(''deleted'', JBool True), (''files_preserved'', JBool True), (''id'', JStr i)]))"
| "direct sv x (Op_ListPermissions i) =
     query_answer (pa_List (sx_Permissions x) i) (\<lambda>es. writeSuccess 200 (JArr (map permission_entry_json es)))"
| "direct sv x (Op_SetPermission i j p) =
     change_then_apply sv (pa_Set (sx_Permissions x) i j p) (\<lambda>e. writeSuccess 200 (permission_entry_json e))"
| "direct sv x Op_GetTLS = query_answer (current_profile (sx_TLS x)) (writeSuccess 200)"
| "direct sv x (Op_UpdateTLS t) = query_answer (ta_Update (sx_TLS x) t) (\<lambda>p. writeSuccess 200 (tls_json p))"
| "direct sv x Op_DisableTLS = query_answer (ta_Disable (sx_TLS x)) (\<lambda>_. writeSuccess 200 JNull)"
| "direct sv x Op_CheckTLS = query_answer (ta_Check (sx_TLS x)) (\<lambda>c. writeSuccess 200 (tls_check_json c))"
| "direct sv x Op_ListDNSProviders = query_answer (da_List (sx_DNS x)) (\<lambda>vs. writeSuccess 200 (JArr (map dns_view_json vs)))"
| "direct sv x (Op_CreateDNSProvider d) = query_answer (da_Save (sx_DNS x) (d\<lparr>up_ID := []\<rparr>)) (\<lambda>v. writeSuccess 201 (dns_view_json v))"
| "direct sv x (Op_UpdateDNSProvider i d) =
     query_answer (da_Save (sx_DNS x) (d\<lparr>up_ID := i\<rparr>)) (\<lambda>v. writeSuccess 200 (dns_view_json v))"
| "direct sv x (Op_DeleteDNSProvider i) = query_answer (da_Delete (sx_DNS x) i) (\<lambda>_. writeSuccess 200 (deleted_json i))"
| "direct sv x Op_RunDiagnostics = (\<lambda>s. case xa_Run (sx_Diagnostics x) s of (t, r) \<Rightarrow> (t, writeSuccess 200 r))"
| "direct sv x Op_ExportConfig = query_answer (ca_Export (sx_Configuration x)) (\<lambda>body. writeSuccess 200
     (JObj [(''contains_secrets'', JBool False), (''content'', JStr body), (''format'', JStr ''yaml'')]))"
| "direct sv x (Op_ImportConfig body) =
     query_answer (ca_Import (sx_Configuration x) body) (\<lambda>r. writeSuccess 200 (import_result_json r))"
| "direct sv x Op_ApplyConfig = query_answer (aa_Apply (sx_Apply x)) (\<lambda>r. writeSuccess 200 (publicRevision r))"
| "direct sv x Op_ValidateConfig = query_answer (aa_Validate (sx_Apply x)) (\<lambda>v. writeSuccess 200 (validation_json v))"
| "direct sv x Op_ConfigState = query_answer (aa_State (sx_Apply x)) (\<lambda>s. writeSuccess 200 (revision_state_json s))"
| "direct sv x Op_ListRevisions = query_answer (aa_List (sx_Apply x)) (\<lambda>rs. writeSuccess 200 (JArr (map publicRevision rs)))"
| "direct sv x (Op_RestoreRevision i) = query_answer (aa_Restore (sx_Apply x) i) (\<lambda>r. writeSuccess 200 (publicRevision r))"
| "direct sv x (Op_DeleteRevision i) = query_answer (aa_Delete (sx_Apply x) i) (\<lambda>_. writeSuccess 200 (deleted_json i))"
| "direct sv x (Op_Logs l) = reply (case sv_Logs sv of None \<Rightarrow> writeError 503 ErrorLogsUnavailable ''Recent logs are unavailable'' []
     | Some store \<Rightarrow> writeSuccess 200 (log_page_json (sv_FieldsJSON sv) (log_Query l store)))"

section \<open>What can be sent\<close>

text \<open>Identifiers are those of the daemon; text is UTF-8, as the strings of a terminal and of JSON are; a body stays within the server's
  limit; the keys of a secret differ, and an empty one cannot be told from none.\<close>

definition given_texts :: "string option list \<Rightarrow> string list" where
  "given_texts os = concat (map (\<lambda>t. case t of None \<Rightarrow> [] | Some s \<Rightarrow> [s]) os)"

definition dns_texts :: "dns_update \<Rightarrow> string list" where
  "dns_texts d = [up_Name d, up_Provider d] @ up_AllowedZones d
     @ (case up_Secret d of None \<Rightarrow> [] | Some m \<Rightarrow> map fst m @ map snd m)"

fun operation_texts :: "client_operation \<Rightarrow> string list" where
  "operation_texts (Op_CreateUser name password) = [name, password]"
| "operation_texts (Op_ChangeUserPassword i password) = [password]"
| "operation_texts (Op_CreateShare name slug path) = [name, slug, path]"
| "operation_texts (Op_UpdateShare i u) = given_texts [update_Name u, update_Slug u, update_Path u]"
| "operation_texts (Op_SetPermission i j p) = [p]"
| "operation_texts (Op_UpdateTLS t) =
     [upd_Mode t, upd_Hostname t, upd_Challenge t, upd_CertificatePath t, upd_PrivateKeyPath t] @ given_texts [upd_DNSProviderID t]"
| "operation_texts (Op_CreateDNSProvider d) = dns_texts d"
| "operation_texts (Op_UpdateDNSProvider i d) = dns_texts d"
| "operation_texts _ = []"

fun operation_ids :: "client_operation \<Rightarrow> ident list" where
  "operation_ids (Op_DeleteUser i) = [i]"
| "operation_ids (Op_SetUserEnabled i b) = [i]"
| "operation_ids (Op_ChangeUserPassword i password) = [i]"
| "operation_ids (Op_UpdateShare i u) = [i]"
| "operation_ids (Op_DeleteShare i) = [i]"
| "operation_ids (Op_ListPermissions i) = [i]"
| "operation_ids (Op_SetPermission i j p) = [i, j]"
| "operation_ids (Op_UpdateDNSProvider i d) = [i]"
| "operation_ids (Op_DeleteDNSProvider i) = [i]"
| "operation_ids (Op_RestoreRevision i) = [i]"
| "operation_ids (Op_DeleteRevision i) = [i]"
| "operation_ids _ = []"

definition an_id :: "ident \<Rightarrow> bool" where
  "an_id i \<longleftrightarrow> ParseID i = Inr i"

definition clear_secret :: "dns_update \<Rightarrow> bool" where
  "clear_secret d \<longleftrightarrow> (case up_Secret d of None \<Rightarrow> True | Some m \<Rightarrow> m \<noteq> [] \<and> distinct (map fst m))"

text \<open>A query of the log within the limits of the server: up to 200 records, since a time of the years 1 to 9999, with a known level and
  a component of at most 64 bytes without control characters; neither has spaces around it.\<close>

definition askable :: "log_query \<Rightarrow> bool" where
  "askable l \<longleftrightarrow> 0 \<le> lq_Limit l \<and> lq_Limit l \<le> MaximumPageSize
     \<and> (case lq_Since l of None \<Rightarrow> True | Some t \<Rightarrow> 0 \<le> instant t \<and> instant t < 3652059 * 86400 * 1000000000)
     \<and> trim_space (lq_Level l) = lq_Level l
     \<and> (lq_Level l = [] \<or> level_upper (lq_Level l) \<in> {''DEBUG'', ''INFO'', ''WARN'', ''ERROR''})
     \<and> trim_space (lq_Component l) = lq_Component l \<and> length (lq_Component l) \<le> 64
     \<and> \<not> list_ex (\<lambda>r. r < 32 \<or> r = 127) (runes (lq_Component l))"

fun clear_values :: "client_operation \<Rightarrow> bool" where
  "clear_values (Op_UpdateServerPorts http https) = (\<forall>p \<in> {http, https}. - (2 ^ 63) \<le> p \<and> p < 2 ^ 63)"
| "clear_values (Op_CreateDNSProvider d) = clear_secret d"
| "clear_values (Op_UpdateDNSProvider i d) = clear_secret d"
| "clear_values (Op_Logs l) = askable l"
| "clear_values _ = True"

definition sendable :: "client_operation \<Rightarrow> bool" where
  "sendable op \<longleftrightarrow> list_all valid_utf8 (operation_texts op) \<and> list_all an_id (operation_ids op) \<and> clear_values op
     \<and> (case ac_Body (client_call op) of None \<Rightarrow> True | Some (body, _) \<Rightarrow> length body \<le> maxRequestBodyBytes)"

text \<open>The media types the client sends, as the library parses them.\<close>

definition parses_types :: "http_library \<Rightarrow> bool" where
  "parses_types lib \<longleftrightarrow> (\<forall>t \<in> {''application/json'', ''application/yaml''}. ParseMediaType lib t = Some t)"

section \<open>Paths\<close>

lemma split_on_segment: "CHR ''/'' \<notin> set i \<Longrightarrow> split_on CHR ''/'' i = [i]"
  by (induction i) auto

lemma split_on_append: "CHR ''/'' \<notin> set i \<Longrightarrow> split_on CHR ''/'' (i @ CHR ''/'' # rest) = i # split_on CHR ''/'' rest"
  by (induction i) auto

lemma split_on_not_Nil: "split_on c s \<noteq> []"
  by (induction s) (auto split: list.splits)

lemma join_split: "concat (map (\<lambda>s. CHR ''/'' # s) (split_on CHR ''/'' s)) = CHR ''/'' # s"
proof (induction s)
  case (Cons c s)
  then show ?case using split_on_not_Nil [of "CHR ''/''" s] by (cases "split_on CHR ''/'' s") auto
qed simp

lemma an_id_segment: "an_id i \<Longrightarrow> CHR ''/'' \<notin> set i" "an_id i \<Longrightarrow> i \<noteq> []"
proof -
  assume "an_id i"
  then have v: "length i = 36" "\<forall>k \<in> set dash_positions. i ! k = CHR ''-''"
    "\<And>k c. (k, c) \<in> set (enumerate 0 i) \<Longrightarrow> k \<in> set dash_positions \<or> is_lower_hex c"
    by (auto simp: an_id_def ParseID_def validateID_def list_ex_iff fail_if_def split: option.splits if_splits)
  show "i \<noteq> []" using v(1) by auto
  show "CHR ''/'' \<notin> set i"
  proof
    assume "CHR ''/'' \<in> set i"
    then obtain k where k: "k < length i" "i ! k = CHR ''/''" by (auto simp: in_set_conv_nth)
    then have "(k, CHR ''/'') \<in> set (enumerate 0 i)" by (auto simp: in_set_enumerate_eq)
    from v(3) [OF this] v(2) k(2) show False by (auto simp: is_lower_hex_def less_eq_char_def)
  qed
qed

lemma segments_of_path: "ac_Path call = CHR ''/'' # s \<Longrightarrow> rq_Segments (client_request c call) = split_on CHR ''/'' s"
  by (simp add: client_request_def)

lemma path_of_request: "ac_Path call = CHR ''/'' # s \<Longrightarrow> rq_Path (client_request c call) = CHR ''/'' # s"
  by (simp add: client_request_def rq_Path_def join_split)

lemma request_fields [simp]:
  "rq_Method (client_request c call) = ac_Method call" "rq_Query (client_request c call) = ac_Query call"
  "rq_Authorization (client_request c call) = ''Bearer '' @ cl_Token c"
  by (simp_all add: client_request_def)

text \<open>A request of a client that has the token, at a path whose pattern is \<open>p\<close>.\<close>

lemma client_served:
  assumes "cl_Token c = sv_Token sv" and "sv_Token sv \<noteq> []" and "ac_Path call = CHR ''/'' # s"
    and "decides p (split_on CHR ''/'' s)" and "(p, h) \<in> set (server_routes sv)"
  shows "serve sv (client_request c call) = h (client_request c call)"
proof -
  have "serve_mux sv (client_request c call) = h (client_request c call)"
    using serve_mux_decided assms(3-5) segments_of_path by metis
  then show ?thesis
    using assms(1,2) by (simp add: serve_def authenticate_def has_prefix_def trim_prefix_def bearer_prefix_def Let_def)
qed

lemma all_routes:
  assumes "serves_all sv x"
  shows "server_routes sv =
     [(''/api/v1/status'', handleStatus sv), (''/api/v1/logs'', handleLogs sv),
      (''/api/v1/daemon/shutdown'', handleDaemonShutdown sv),
      (''/api/v1/users'', handleUsers sv (sx_Users x)), (''/api/v1/users/'', handleUser sv (sx_Users x)),
      (''/api/v1/shares'', handleShares sv (sx_Shares x)), (''/api/v1/shares/'', handleShare sv (sx_Shares x)),
      (''/api/v1/config/validate'', handleConfigValidate (sx_Apply x)), (''/api/v1/config/apply'', handleConfigApply (sx_Apply x)),
      (''/api/v1/config/state'', handleConfigState (sx_Apply x)), (''/api/v1/revisions'', handleRevisions (sx_Apply x)),
      (''/api/v1/revisions/'', handleRevision (sx_Apply x)),
      (''/api/v1/server/status'', handleServerStatus sv (sx_Runtime x)), (''/api/v1/server/start'', handleServerStart sv (sx_Runtime x)),
      (''/api/v1/server/stop'', handleServerStop sv (sx_Runtime x)), (''/api/v1/server/restart'', handleServerRestart sv (sx_Runtime x)),
      (''/api/v1/server/endpoints'', handleServerEndpoints (sx_Endpoints x)),
      (''/api/v1/server/settings'', handleServerSettings sv (sx_Settings x)),
      (''/api/v1/service/install'', handleServiceMutation (ma_Install (sx_Manager x)) ''installed''),
      (''/api/v1/service/uninstall'', handleServiceMutation (ma_Uninstall (sx_Manager x)) ''uninstalled''),
      (''/api/v1/service/start'', handleServiceMutation (ma_Start (sx_Manager x)) ''started''),
      (''/api/v1/service/stop'', handleServiceMutation (ma_Stop (sx_Manager x)) ''stopped''),
      (''/api/v1/service/status'', handleServiceStatus (sx_Manager x)),
      (''/api/v1/tls'', handleTLS sv (sx_TLS x)), (''/api/v1/tls/check'', handleTLSCheck (sx_TLS x)),
      (''/api/v1/tls/renew'', handleTLSRenew (sx_TLS x)), (''/api/v1/tls/renew/cancel'', handleTLSRenewCancel (sx_TLS x)),
      (''/api/v1/dns/providers'', handleDNSProviders sv (sx_DNS x)), (''/api/v1/dns/providers/'', handleDNSProvider sv (sx_DNS x)),
      (''/api/v1/diagnostics'', handleDiagnostics (sx_Diagnostics x)), (''/api/v1/diagnostics/run'', handleDiagnosticsRun (sx_Diagnostics x)),
      (''/api/v1/diagnostics/report'', handleDiagnosticsReport (sx_Diagnostics x)),
      (''/api/v1/config/export'', handleConfigExport (sx_Configuration x)),
      (''/api/v1/config/import'', handleConfigImport sv (sx_Configuration x)), (''/'', \<lambda>q. reply handleNotFound)]"
  using assms by (simp add: serves_all_def server_routes_def when_set_def)

lemma decides_plain:
  "decides ''/api/v1/status'' [''api'', ''v1'', ''status'']" "decides ''/api/v1/users'' [''api'', ''v1'', ''users'']"
  "decides ''/api/v1/logs'' [''api'', ''v1'', ''logs'']"
  "decides ''/api/v1/shares'' [''api'', ''v1'', ''shares'']" "decides ''/api/v1/tls'' [''api'', ''v1'', ''tls'']"
  "decides ''/api/v1/tls/check'' [''api'', ''v1'', ''tls'', ''check'']"
  "decides ''/api/v1/dns/providers'' [''api'', ''v1'', ''dns'', ''providers'']"
  "decides ''/api/v1/diagnostics/run'' [''api'', ''v1'', ''diagnostics'', ''run'']"
  "decides ''/api/v1/config/export'' [''api'', ''v1'', ''config'', ''export'']"
  "decides ''/api/v1/config/import'' [''api'', ''v1'', ''config'', ''import'']"
  "decides ''/api/v1/config/apply'' [''api'', ''v1'', ''config'', ''apply'']"
  "decides ''/api/v1/config/validate'' [''api'', ''v1'', ''config'', ''validate'']"
  "decides ''/api/v1/config/state'' [''api'', ''v1'', ''config'', ''state'']"
  "decides ''/api/v1/revisions'' [''api'', ''v1'', ''revisions'']"
  "decides ''/api/v1/server/status'' [''api'', ''v1'', ''server'', ''status'']"
  "decides ''/api/v1/server/start'' [''api'', ''v1'', ''server'', ''start'']"
  "decides ''/api/v1/server/stop'' [''api'', ''v1'', ''server'', ''stop'']"
  "decides ''/api/v1/server/restart'' [''api'', ''v1'', ''server'', ''restart'']"
  "decides ''/api/v1/server/settings'' [''api'', ''v1'', ''server'', ''settings'']"
  "decides ''/api/v1/server/endpoints'' [''api'', ''v1'', ''server'', ''endpoints'']"
  "decides ''/api/v1/service/install'' [''api'', ''v1'', ''service'', ''install'']"
  "decides ''/api/v1/service/uninstall'' [''api'', ''v1'', ''service'', ''uninstall'']"
  "decides ''/api/v1/service/start'' [''api'', ''v1'', ''service'', ''start'']"
  "decides ''/api/v1/service/stop'' [''api'', ''v1'', ''service'', ''stop'']"
  "decides ''/api/v1/service/status'' [''api'', ''v1'', ''service'', ''status'']"
  by (simp_all add: decides_def api_patterns_def pattern_matches_def pattern_table)

lemma decides_item:
  "decides ''/api/v1/users/'' [''api'', ''v1'', ''users'', i]" "decides ''/api/v1/users/'' [''api'', ''v1'', ''users'', i, a]"
  "decides ''/api/v1/shares/'' [''api'', ''v1'', ''shares'', i]" "decides ''/api/v1/shares/'' [''api'', ''v1'', ''shares'', i, a]"
  "decides ''/api/v1/shares/'' [''api'', ''v1'', ''shares'', i, a, j]"
  "decides ''/api/v1/dns/providers/'' [''api'', ''v1'', ''dns'', ''providers'', i]"
  "decides ''/api/v1/revisions/'' [''api'', ''v1'', ''revisions'', i]" "decides ''/api/v1/revisions/'' [''api'', ''v1'', ''revisions'', i, a]"
  by (simp_all add: decides_def api_patterns_def pattern_matches_def pattern_table)

lemmas plain_calls = Client_Status_def Client_ServerStatus_def Client_StartServer_def Client_StopServer_def Client_RestartServer_def
  Client_ServerSettings_def Client_ServerEndpoints_def Client_ServiceInstall_def Client_ServiceUninstall_def Client_ServiceStart_def
  Client_ServiceStop_def Client_ServiceStatus_def Client_ListUsers_def Client_ListShares_def Client_GetTLS_def Client_DisableTLS_def
  Client_CheckTLS_def Client_ListDNSProviders_def Client_RunDiagnostics_def Client_ExportConfig_def Client_ApplyConfig_def
  Client_ValidateConfig_def Client_ConfigState_def Client_ListRevisions_def client_do_def

lemma served_at_pattern:
  assumes "cl_Token c = sv_Token sv" and "sv_Token sv \<noteq> []"
    and "decides (ac_Path call) (pattern_segments (ac_Path call))" and "map_of (server_routes sv) (ac_Path call) \<noteq> None"
    and "ac_Path call \<noteq> [] \<and> hd (ac_Path call) = CHR ''/''"
  shows "serve sv (client_request c call) = the (map_of (server_routes sv) (ac_Path call)) (client_request c call)"
proof -
  obtain h where h: "map_of (server_routes sv) (ac_Path call) = Some h" using assms(4) by blast
  have "serve sv (client_request c call) = h (client_request c call)"
  proof (rule client_served [OF assms(1,2)])
    show "ac_Path call = CHR ''/'' # tl (ac_Path call)" using assms(5) by (metis list.collapse)
    show "decides (ac_Path call) (split_on CHR ''/'' (tl (ac_Path call)))" using assms(3) by (simp add: pattern_segments_def)
    show "(ac_Path call, h) \<in> set (server_routes sv)" using h by (rule map_of_SomeD)
  qed
  then show ?thesis by (simp add: h)
qed

lemmas plain_handlers = handleStatus_def handleServerStatus_def handleServerStart_def handleServerStop_def handleServerRestart_def
  handleServerSettings_def handleServerEndpoints_def handleServiceMutation_def handleServiceStatus_def handleUsers_def handleShares_def
  handleTLS_def handleTLSCheck_def handleDNSProviders_def handleDiagnosticsRun_def handleConfigExport_def handleConfigApply_def
  handleConfigValidate_def handleConfigState_def handleRevisions_def only_def

text \<open>The operations at a fixed path.\<close>

definition meets :: "'s api_server \<Rightarrow> 's services \<Rightarrow> api_client \<Rightarrow> client_operation \<Rightarrow> bool" where
  "meets sv x c op \<longleftrightarrow> serve sv (client_request c (client_call op)) = direct sv x op"

lemma plain_operations:
  assumes "cl_Token c = sv_Token sv" and "sv_Token sv \<noteq> []" and "serves_all sv x"
  shows "meets sv x c Op_Status" "meets sv x c Op_ServerStatus" "meets sv x c Op_StartServer" "meets sv x c Op_StopServer"
    "meets sv x c Op_RestartServer" "meets sv x c Op_ServerSettings" "meets sv x c Op_ServerEndpoints"
    "meets sv x c Op_ServiceInstall" "meets sv x c Op_ServiceUninstall" "meets sv x c Op_ServiceStart" "meets sv x c Op_ServiceStop"
    "meets sv x c Op_ServiceStatus" "meets sv x c Op_ListUsers" "meets sv x c Op_ListShares" "meets sv x c Op_GetTLS"
    "meets sv x c Op_DisableTLS" "meets sv x c Op_CheckTLS" "meets sv x c Op_ListDNSProviders" "meets sv x c Op_RunDiagnostics"
    "meets sv x c Op_ExportConfig" "meets sv x c Op_ApplyConfig" "meets sv x c Op_ValidateConfig" "meets sv x c Op_ConfigState"
    "meets sv x c Op_ListRevisions"
  by (simp_all add: meets_def plain_calls served_at_pattern [OF assms(1,2)] pattern_table decides_plain all_routes [OF assms(3)]
      plain_handlers method_defs manager_answer_def fun_eq_iff)

section \<open>Operations on an item\<close>

lemma literal_prefix [simp]: "has_prefix (p @ s) p" "trim_prefix (p @ s) p = s" "has_suffix (s @ t) t" "trim_suffix (s @ t) t = s"
  by (simp_all add: has_prefix_def trim_prefix_def has_suffix_def trim_suffix_def)

lemma request_path: "ac_Path call \<noteq> [] \<Longrightarrow> hd (ac_Path call) = CHR ''/'' \<Longrightarrow> rq_Path (client_request c call) = ac_Path call"
  using path_of_request [of call "tl (ac_Path call)" c] by (metis list.collapse)

lemma request_parts:
  "ac_Path call = p @ s \<Longrightarrow> p \<noteq> [] \<Longrightarrow> hd p = CHR ''/'' \<Longrightarrow> path_parts p (client_request c call) = split_on CHR ''/'' s"
  by (simp add: path_parts_def request_path)

text \<open>The handler of an item's path: \<open>pattern\<close> names the subtree, \<open>s\<close> is what follows it.\<close>

lemma served_below:
  assumes "cl_Token c = sv_Token sv" and "sv_Token sv \<noteq> []" and "serves_all sv x"
    and "ac_Path call = pattern @ s" and "decides pattern (split_on CHR ''/'' (tl (pattern @ s)))"
    and "map_of (server_routes sv) pattern = Some h" and "pattern \<noteq> []" and "hd pattern = CHR ''/''"
  shows "serve sv (client_request c call) = h (client_request c call)"
proof (rule client_served [OF assms(1,2)])
  show "ac_Path call = CHR ''/'' # tl (pattern @ s)" using assms(4,7,8) by (metis append_is_Nil_conv hd_append2 list.collapse)
qed (use assms(5,6) in \<open>auto dest: map_of_SomeD\<close>)

lemma item_segments:
  assumes "an_id i"
  shows "decides ''/api/v1/users/'' (split_on CHR ''/'' (tl (''/api/v1/users/'' @ i)))"
    "decides ''/api/v1/users/'' (split_on CHR ''/'' (tl (''/api/v1/users/'' @ i @ ''/password'')))"
    "decides ''/api/v1/shares/'' (split_on CHR ''/'' (tl (''/api/v1/shares/'' @ i)))"
    "decides ''/api/v1/shares/'' (split_on CHR ''/'' (tl (''/api/v1/shares/'' @ i @ ''/permissions'')))"
    "an_id j \<Longrightarrow> decides ''/api/v1/shares/'' (split_on CHR ''/'' (tl (''/api/v1/shares/'' @ i @ ''/permissions/'' @ j)))"
    "decides ''/api/v1/dns/providers/'' (split_on CHR ''/'' (tl (''/api/v1/dns/providers/'' @ i)))"
    "decides ''/api/v1/revisions/'' (split_on CHR ''/'' (tl (''/api/v1/revisions/'' @ i)))"
    "decides ''/api/v1/revisions/'' (split_on CHR ''/'' (tl (''/api/v1/revisions/'' @ i @ ''/restore'')))"
  using an_id_segment [OF assms] an_id_segment(1) [of j]
  by (simp_all add: split_on_segment split_on_append decides_item)

lemma item_parts:
  assumes "an_id i"
  shows "split_on CHR ''/'' i = [i]" "split_on CHR ''/'' (i @ ''/password'') = [i, ''password'']"
    "split_on CHR ''/'' (i @ ''/permissions'') = [i, ''permissions'']"
    "an_id j \<Longrightarrow> split_on CHR ''/'' (i @ ''/permissions/'' @ j) = [i, ''permissions'', j]"
  using an_id_segment [OF assms] an_id_segment(1) [of j] by (simp_all add: split_on_segment split_on_append)

lemma with_an_id: "an_id i \<Longrightarrow> with_id i message k = k i"
  by (simp add: with_id_def an_id_def)

lemma with_a_revision: "an_id i \<Longrightarrow> with_revision i k = k i"
  using an_id_segment [of i] by (simp add: with_revision_def with_an_id)

lemma item_operations:
  assumes "cl_Token c = sv_Token sv" and "sv_Token sv \<noteq> []" and "serves_all sv x" and "an_id i"
  shows "meets sv x c (Op_DeleteUser i)" "meets sv x c (Op_DeleteShare i)" "meets sv x c (Op_ListPermissions i)"
    "meets sv x c (Op_DeleteDNSProvider i)" "meets sv x c (Op_RestoreRevision i)" "meets sv x c (Op_DeleteRevision i)"
proof -
  note below = served_below [OF assms(1-3)] and routes = all_routes [OF assms(3)] and path = request_parts
  note seg = item_segments [OF assms(4)] and part = item_parts [OF assms(4)] and an = with_an_id [OF assms(4)]
  have id: "i \<noteq> []" using an_id_segment assms(4) by blast
  have perms: "sv_Permissions sv = Some (sx_Permissions x)" using assms(3) by (simp add: serves_all_def)
  show "meets sv x c (Op_DeleteUser i)"
    using below [of "Client_DeleteUser i" "''/api/v1/users/''" i] seg(1) part(1) path [of "Client_DeleteUser i" "''/api/v1/users/''" i c]
    by (simp add: meets_def Client_DeleteUser_def client_do_def routes handleUser_def one_user_def id an method_defs)
  show "meets sv x c (Op_DeleteShare i)"
    using below [of "Client_DeleteShare i" "''/api/v1/shares/''" i] seg(3) part(1) path [of "Client_DeleteShare i" "''/api/v1/shares/''" i c]
    by (simp add: meets_def Client_DeleteShare_def client_do_def routes handleShare_def one_share_def perms id an method_defs)
  show "meets sv x c (Op_ListPermissions i)"
    using below [of "Client_ListPermissions i" "''/api/v1/shares/''" "i @ ''/permissions''"] seg(4) part(3)
      path [of "Client_ListPermissions i" "''/api/v1/shares/''" "i @ ''/permissions''" c]
    by (simp add: meets_def Client_ListPermissions_def client_do_def routes handleShare_def handlePermissions_def perms id an method_defs)
  show "meets sv x c (Op_DeleteDNSProvider i)"
    using below [of "Client_DeleteDNSProvider i" "''/api/v1/dns/providers/''" i] seg(6) part(1)
      path [of "Client_DeleteDNSProvider i" "''/api/v1/dns/providers/''" i c]
    by (simp add: meets_def Client_DeleteDNSProvider_def client_do_def routes handleDNSProvider_def id an method_defs)
  have cut: "trim_prefix (''/api/v1/revisions/'' @ t) ''/api/v1/revisions/'' = t"
    "has_suffix (''/api/v1/revisions/'' @ i @ ''/restore'') ''/restore''" "trim_suffix (i @ ''/restore'') ''/restore'' = i" for t
    using literal_prefix(3) [of "''/api/v1/revisions/'' @ i" "''/restore''"] literal_prefix by (simp_all del: append.simps)
  have item: "handleRevision a (client_request c (Client_DeleteRevision i)) = query_answer (aa_Delete a i) (\<lambda>_. writeSuccess 200 (deleted_json i))"
    "handleRevision a (client_request c (Client_RestoreRevision i)) = query_answer (aa_Restore a i) (\<lambda>r. writeSuccess 200 (publicRevision r))" for a
    unfolding handleRevision_def Let_def Client_DeleteRevision_def Client_RestoreRevision_def client_do_def
    by (simp_all add: request_path cut with_a_revision [OF assms(4)] method_defs del: append.simps append_Cons)
  have "serve sv (client_request c (Client_RestoreRevision i)) = handleRevision (sx_Apply x) (client_request c (Client_RestoreRevision i))"
    "serve sv (client_request c (Client_DeleteRevision i)) = handleRevision (sx_Apply x) (client_request c (Client_DeleteRevision i))"
    by (rule below [OF _ seg(8)] below [OF _ seg(7)]; simp add: routes Client_RestoreRevision_def Client_DeleteRevision_def client_do_def)+
  then show "meets sv x c (Op_RestoreRevision i)" "meets sv x c (Op_DeleteRevision i)" by (simp_all add: meets_def item)
qed

section \<open>Operations with a body\<close>

lemma client_input:
  assumes "ac_Body call = Some (json_marshal j, ''application/json'')" and "parses_types lib" and "clean j" and "depth j \<le> max_nesting"
    and "length (json_marshal j) \<le> maxRequestBodyBytes" and "decode j = Some v"
  shows "with_input lib decode (client_request c call) k = k v"
proof -
  have "decodeJSON lib decode (client_request c call) = Inr v"
    using assms by (intro decodeJSON_marshal) (simp_all add: client_request_def parses_types_def)
  then show ?thesis by (simp add: with_input_def)
qed

lemma body_keys [simp]:
  "valid_utf8 ''password''" "valid_utf8 ''slug''" "valid_utf8 ''path''" "valid_utf8 ''permission''" "valid_utf8 ''secret''"
  "valid_utf8 ''http_port''" "valid_utf8 ''https_port''"
  by (simp_all add: ascii_valid_utf8 ascii_def byte_of_def)

lemma clean_list: "list_all valid_utf8 zs \<Longrightarrow> clean (JArr (map JStr zs))"
  by (simp add: list_all_iff)

lemma shallow_bodies:
  "depth (JObj [(k1, JStr a)]) \<le> max_nesting" "depth (JObj [(k1, JStr a), (k2, JStr b)]) \<le> max_nesting"
  "depth (JObj [(k1, JStr a), (k2, JStr b), (k3, JStr d)]) \<le> max_nesting" "depth (JObj [(k1, JBool e)]) \<le> max_nesting"
  "depth (JObj [(k1, JInt m), (k2, JInt n)]) \<le> max_nesting" "depth (share_update_json u) \<le> max_nesting"
  "depth (tls_update_json t) \<le> max_nesting" "depth (dns_update_json q) \<le> max_nesting"
  by (auto simp: share_update_json_def tls_update_json_def dns_update_json_def omit_none_def omit_empty_str_def omit_empty_list_def
      list_all_iff depth_elements depth_members max_nesting_def split: option.splits)

lemma credentials_body: "decode_credentials (JObj [(''password'', JStr p), (''username'', JStr n)]) = Some (n, p)"
  by (simp add: decode_credentials_def decode_known_def)

lemma plain_bodies:
  "decode_password (JObj [(''password'', JStr p)]) = Some p" "decode_enabled (JObj [(''enabled'', JBool b)]) = Some (Some b)"
  "decode_new_share (JObj [(''name'', JStr n), (''path'', JStr t), (''slug'', JStr g)]) = Some (n, g, t)"
  "decode_permission_input (JObj [(''permission'', JStr p)]) = Some p"
  "- (2 ^ 63) \<le> h \<Longrightarrow> h < 2 ^ 63 \<Longrightarrow> - (2 ^ 63) \<le> k \<Longrightarrow> k < 2 ^ 63
     \<Longrightarrow> decode_ports (JObj [(''http_port'', JInt h), (''https_port'', JInt k)]) = Some (h, k)"
  by (simp_all add: decode_password_def decode_enabled_def decode_new_share_def decode_permission_input_def decode_ports_def decode_known_def
      int_of_show)

lemma share_update_body: "decode_share_update (share_update_json u) = Some u"
  by (cases u, rename_tac a b d e, case_tac a; case_tac b; case_tac d; case_tac e)
    (simp_all add: decode_share_update_def share_update_json_def decode_known_def omit_none_def assign_share_update_def no_update_def)

lemma tls_update_body: "decode_tls_update (tls_update_json t) = Some t"
  by (cases "upd_Challenge t = []"; cases "upd_DNSProviderID t"; cases "upd_CertificatePath t = []"; cases "upd_PrivateKeyPath t = []")
    (simp_all add: decode_tls_update_def tls_update_json_def decode_known_def omit_none_def omit_empty_str_def assign_tls_update_def
      no_tls_update_def)

lemma dns_update_body:
  assumes "clear_secret d" shows "decode_dns_update i (dns_update_json d) = Some (d\<lparr>up_ID := i\<rparr>)"
proof -
  have zones: "decode_list (\<lambda>j. decode_string j []) (JArr (map JStr zs)) old = Some zs" for zs old
    by (rule decode_list_map) simp
  have secret: "decode_secret_map (JObj (map (\<lambda>(k, v). (k, JStr v)) m)) None = Some (Some m)" if "up_Secret d = Some m" for m
    using assms that decode_members [of "[]" m] by (simp add: clear_secret_def)
  show ?thesis
    using assms secret zones [of "up_AllowedZones d"]
    by (cases "up_AllowedZones d = []"; cases "up_Secret d")
      (simp_all add: decode_dns_update_def dns_update_json_def decode_known_def omit_empty_list_def assign_dns_update_def new_dns_update_def
        clear_secret_def del: decode_list.simps decode_secret_map.simps)
qed

lemma clean_bodies:
  "list_all valid_utf8 (given_texts [update_Name u, update_Slug u, update_Path u]) \<Longrightarrow> clean (share_update_json u)"
  "list_all valid_utf8 (operation_texts (Op_UpdateTLS t)) \<Longrightarrow> clean (tls_update_json t)"
  "list_all valid_utf8 (dns_texts d) \<Longrightarrow> clean (dns_update_json d)"
proof -
  show "list_all valid_utf8 (dns_texts d) \<Longrightarrow> clean (dns_update_json d)"
    by (cases "up_Secret d") (auto simp: dns_update_json_def dns_texts_def omit_empty_list_def list_all_iff, force+)
qed (auto simp: share_update_json_def tls_update_json_def given_texts_def omit_none_def omit_empty_str_def list_all_iff split: option.splits)

lemmas body_calls = Client_CreateUser_def Client_SetUserEnabled_def Client_ChangeUserPassword_def Client_CreateShare_def Client_UpdateShare_def
  Client_SetPermission_def Client_UpdateTLS_def Client_CreateDNSProvider_def Client_UpdateDNSProvider_def Client_UpdateServerPorts_def
  Client_ImportConfig_def client_do_def

text \<open>The input each handler decodes is what the operation was given.\<close>

lemma operation_inputs:
  assumes "parses_types lib"
  shows "sendable (Op_CreateUser n p) \<Longrightarrow> with_input lib decode_credentials (client_request c (Client_CreateUser n p)) k1 = k1 (n, p)"
    "sendable (Op_CreateShare n g t) \<Longrightarrow> with_input lib decode_new_share (client_request c (Client_CreateShare n g t)) k2 = k2 (n, g, t)"
    "sendable (Op_UpdateTLS u) \<Longrightarrow> with_input lib decode_tls_update (client_request c (Client_UpdateTLS u)) k3 = k3 u"
    "sendable (Op_CreateDNSProvider d) \<Longrightarrow> with_input lib (decode_dns_update []) (client_request c (Client_CreateDNSProvider d)) k4 = k4 (d\<lparr>up_ID := []\<rparr>)"
    "sendable (Op_UpdateDNSProvider i d) \<Longrightarrow> with_input lib (decode_dns_update i) (client_request c (Client_UpdateDNSProvider i d)) k4 = k4 (d\<lparr>up_ID := i\<rparr>)"
    "sendable (Op_UpdateServerPorts h g') \<Longrightarrow> with_input lib decode_ports (client_request c (Client_UpdateServerPorts h g')) k5 = k5 (h, g')"
    "sendable (Op_SetUserEnabled i b) \<Longrightarrow> with_input lib decode_enabled (client_request c (Client_SetUserEnabled i b)) k6 = k6 (Some b)"
    "sendable (Op_ChangeUserPassword i p) \<Longrightarrow> with_input lib decode_password (client_request c (Client_ChangeUserPassword i p)) k7 = k7 p"
    "sendable (Op_UpdateShare i w) \<Longrightarrow> with_input lib decode_share_update (client_request c (Client_UpdateShare i w)) k8 = k8 w"
    "sendable (Op_SetPermission i j r) \<Longrightarrow> with_input lib decode_permission_input (client_request c (Client_SetPermission i j r)) k9 = k9 r"
proof -
  note input = client_input [OF _ assms]
  show "sendable (Op_CreateUser n p) \<Longrightarrow> with_input lib decode_credentials (client_request c (Client_CreateUser n p)) k1 = k1 (n, p)"
    by (rule input [where j = "JObj [(''password'', JStr p), (''username'', JStr n)]"])
      (simp_all add: body_calls sendable_def shallow_bodies max_nesting_def credentials_body)
  show "sendable (Op_CreateShare n g t) \<Longrightarrow> with_input lib decode_new_share (client_request c (Client_CreateShare n g t)) k2 = k2 (n, g, t)"
    by (rule input [where j = "JObj [(''name'', JStr n), (''path'', JStr t), (''slug'', JStr g)]"])
      (simp_all add: body_calls sendable_def shallow_bodies max_nesting_def plain_bodies)
  show "sendable (Op_UpdateTLS u) \<Longrightarrow> with_input lib decode_tls_update (client_request c (Client_UpdateTLS u)) k3 = k3 u"
    by (rule input [where j = "tls_update_json u"])
      (simp_all add: body_calls sendable_def shallow_bodies tls_update_body clean_bodies del: operation_texts.simps)
  show "sendable (Op_CreateDNSProvider d) \<Longrightarrow> with_input lib (decode_dns_update []) (client_request c (Client_CreateDNSProvider d)) k4 = k4 (d\<lparr>up_ID := []\<rparr>)"
    "sendable (Op_UpdateDNSProvider i d) \<Longrightarrow> with_input lib (decode_dns_update i) (client_request c (Client_UpdateDNSProvider i d)) k4 = k4 (d\<lparr>up_ID := i\<rparr>)"
    by (rule input [where j = "dns_update_json d"]; simp add: body_calls sendable_def shallow_bodies dns_update_body clean_bodies)+
  show "sendable (Op_UpdateServerPorts h g') \<Longrightarrow> with_input lib decode_ports (client_request c (Client_UpdateServerPorts h g')) k5 = k5 (h, g')"
    by (rule input [where j = "JObj [(''http_port'', JInt h), (''https_port'', JInt g')]"])
      (simp_all add: body_calls sendable_def shallow_bodies max_nesting_def plain_bodies show_int_literal)
  show "sendable (Op_SetUserEnabled i b) \<Longrightarrow> with_input lib decode_enabled (client_request c (Client_SetUserEnabled i b)) k6 = k6 (Some b)"
    by (rule input [where j = "JObj [(''enabled'', JBool b)]"]) (simp_all add: body_calls sendable_def shallow_bodies max_nesting_def plain_bodies)
  show "sendable (Op_ChangeUserPassword i p) \<Longrightarrow> with_input lib decode_password (client_request c (Client_ChangeUserPassword i p)) k7 = k7 p"
    by (rule input [where j = "JObj [(''password'', JStr p)]"]) (simp_all add: body_calls sendable_def shallow_bodies max_nesting_def plain_bodies)
  show "sendable (Op_UpdateShare i w) \<Longrightarrow> with_input lib decode_share_update (client_request c (Client_UpdateShare i w)) k8 = k8 w"
    by (rule input [where j = "share_update_json w"])
      (simp_all add: body_calls sendable_def shallow_bodies share_update_body clean_bodies)
  show "sendable (Op_SetPermission i j r) \<Longrightarrow> with_input lib decode_permission_input (client_request c (Client_SetPermission i j r)) k9 = k9 r"
    by (rule input [where j = "JObj [(''permission'', JStr r)]"]) (simp_all add: body_calls sendable_def shallow_bodies max_nesting_def plain_bodies)
qed

lemma body_operations:
  assumes "cl_Token c = sv_Token sv" and "sv_Token sv \<noteq> []" and "serves_all sv x" and "parses_types (sv_Library sv)"
  shows "sendable (Op_CreateUser n p) \<Longrightarrow> meets sv x c (Op_CreateUser n p)"
    "sendable (Op_CreateShare n g t) \<Longrightarrow> meets sv x c (Op_CreateShare n g t)"
    "sendable (Op_UpdateTLS u) \<Longrightarrow> meets sv x c (Op_UpdateTLS u)"
    "sendable (Op_CreateDNSProvider d) \<Longrightarrow> meets sv x c (Op_CreateDNSProvider d)"
    "sendable (Op_UpdateServerPorts h k) \<Longrightarrow> meets sv x c (Op_UpdateServerPorts h k)"
    "sendable (Op_ImportConfig body) \<Longrightarrow> meets sv x c (Op_ImportConfig body)"
proof -
  note at = served_at_pattern [OF assms(1,2)] and routes = all_routes [OF assms(3)] and inputs = operation_inputs [OF assms(4)]
  have fields: "ac_Method (Client_CreateUser n p) = MethodPost" "ac_Path (Client_CreateUser n p) = ''/api/v1/users''"
    "ac_Method (Client_CreateShare n g t) = MethodPost" "ac_Path (Client_CreateShare n g t) = ''/api/v1/shares''"
    "ac_Method (Client_UpdateTLS u) = MethodPut" "ac_Path (Client_UpdateTLS u) = ''/api/v1/tls''"
    "ac_Method (Client_CreateDNSProvider d) = MethodPost" "ac_Path (Client_CreateDNSProvider d) = ''/api/v1/dns/providers''"
    "ac_Method (Client_UpdateServerPorts h k) = MethodPut" "ac_Path (Client_UpdateServerPorts h k) = ''/api/v1/server/settings''"
    "ac_Method (Client_ImportConfig body) = MethodPost" "ac_Path (Client_ImportConfig body) = ''/api/v1/config/import''"
    "ac_Body (Client_ImportConfig body) = Some (body, ''application/yaml'')"
    by (simp_all add: body_calls)
  note simps = meets_def fields at routes pattern_table decides_plain plain_handlers handleConfigImport_def method_defs inputs
  show "sendable (Op_CreateUser n p) \<Longrightarrow> meets sv x c (Op_CreateUser n p)"
    "sendable (Op_CreateShare n g t) \<Longrightarrow> meets sv x c (Op_CreateShare n g t)"
    "sendable (Op_UpdateTLS u) \<Longrightarrow> meets sv x c (Op_UpdateTLS u)"
    "sendable (Op_CreateDNSProvider d) \<Longrightarrow> meets sv x c (Op_CreateDNSProvider d)"
    "sendable (Op_UpdateServerPorts h k) \<Longrightarrow> meets sv x c (Op_UpdateServerPorts h k)"
    by (simp_all add: simps)
  have "rq_ContentType (client_request c (Client_ImportConfig body)) = ''application/yaml''" "rq_Body (client_request c (Client_ImportConfig body)) = body"
    by (simp_all add: client_request_def fields)
  then show "sendable (Op_ImportConfig body) \<Longrightarrow> meets sv x c (Op_ImportConfig body)"
    using assms(4) by (simp add: simps sendable_def parses_types_def)
qed

lemma item_body_operations:
  assumes "cl_Token c = sv_Token sv" and "sv_Token sv \<noteq> []" and "serves_all sv x" and "parses_types (sv_Library sv)" and "an_id i"
  shows "sendable (Op_SetUserEnabled i b) \<Longrightarrow> meets sv x c (Op_SetUserEnabled i b)"
    "sendable (Op_ChangeUserPassword i p) \<Longrightarrow> meets sv x c (Op_ChangeUserPassword i p)"
    "sendable (Op_UpdateShare i u) \<Longrightarrow> meets sv x c (Op_UpdateShare i u)"
    "sendable (Op_SetPermission i j r) \<Longrightarrow> an_id j \<Longrightarrow> meets sv x c (Op_SetPermission i j r)"
    "sendable (Op_UpdateDNSProvider i d) \<Longrightarrow> meets sv x c (Op_UpdateDNSProvider i d)"
proof -
  note below = served_below [OF assms(1-3)] and routes = all_routes [OF assms(3)] and inputs = operation_inputs [OF assms(4)]
  note seg = item_segments [OF assms(5)] and part = item_parts [OF assms(5)] and an = with_an_id [OF assms(5)]
  have id: "i \<noteq> []" using an_id_segment assms(5) by blast
  have perms: "sv_Permissions sv = Some (sx_Permissions x)" using assms(3) by (simp add: serves_all_def)
  have fields: "ac_Method (Client_SetUserEnabled i b) = MethodPatch" "ac_Path (Client_SetUserEnabled i b) = ''/api/v1/users/'' @ i"
    "ac_Method (Client_ChangeUserPassword i p) = MethodPost"
    "ac_Path (Client_ChangeUserPassword i p) = ''/api/v1/users/'' @ i @ ''/password''"
    "ac_Method (Client_UpdateShare i u) = MethodPatch" "ac_Path (Client_UpdateShare i u) = ''/api/v1/shares/'' @ i"
    "ac_Method (Client_SetPermission i j r) = MethodPut"
    "ac_Path (Client_SetPermission i j r) = ''/api/v1/shares/'' @ i @ ''/permissions/'' @ j"
    "ac_Method (Client_UpdateDNSProvider i d) = MethodPut" "ac_Path (Client_UpdateDNSProvider i d) = ''/api/v1/dns/providers/'' @ i"
    by (simp_all add: body_calls)
  note parts = request_parts [OF fields(2)] request_parts [OF fields(4)] request_parts [OF fields(6)] request_parts [OF fields(8)]
    request_parts [OF fields(10)]
  note simps = meets_def fields(1,3,5,7,9) routes parts part id an inputs method_defs
  show "meets sv x c (Op_SetUserEnabled i b)" if "sendable (Op_SetUserEnabled i b)"
    using that below [OF fields(2) seg(1)] by (simp add: simps handleUser_def one_user_def patch_user_def)
  show "meets sv x c (Op_ChangeUserPassword i p)" if "sendable (Op_ChangeUserPassword i p)"
    using that below [OF fields(4) seg(2)] by (simp add: simps handleUser_def handleUserPassword_def)
  show "meets sv x c (Op_UpdateShare i u)" if "sendable (Op_UpdateShare i u)"
    using that below [OF fields(6) seg(3)]
    by (simp add: simps handleShare_def one_share_def patch_share_def perms change_then_apply_def)
  show "meets sv x c (Op_SetPermission i j r)" if "sendable (Op_SetPermission i j r)" and "an_id j"
    using that below [OF fields(8) seg(5) [OF that(2)]] part(4) [OF that(2)]
    by (simp add: simps handleShare_def handlePermissions_def perms change_then_apply_def with_an_id)
  show "meets sv x c (Op_UpdateDNSProvider i d)" if "sendable (Op_UpdateDNSProvider i d)"
    using that below [OF fields(10) seg(6)] by (simp add: simps handleDNSProvider_def)
qed

section \<open>Queries of the log\<close>


lemma trim_plain:
  assumes "\<forall>c \<in> set s. 33 \<le> byte_of c \<and> byte_of c < 127"
  shows "trim_space s = s"
proof -
  have keep: "dropWhile (is_space \<circ> byte_of) t = t" if "set t \<subseteq> set s" for t
    using that assms by (cases t) (auto simp: is_space_def)
  have "ascii s" using assms by (auto simp: ascii_def list_all_iff)
  then show ?thesis using keep [of s] keep [of "rev s"] by (simp add: trim_space_ascii)
qed

lemma digit_bytes: "digit_char c \<Longrightarrow> 33 \<le> byte_of c \<and> byte_of c < 127"
  by (simp add: digit_char_def byte_of_le str_eval)

lemma shown_number:
  assumes "0 \<le> n"
  shows "show_int n \<noteq> []" "list_all digit_char (show_int n)" "number_of (show_int n) = n" "trim_space (show_int n) = show_int n"
proof -
  show "show_int n \<noteq> []" "list_all digit_char (show_int n)" "number_of (show_int n) = n"
    using assms digits_of_digits [of "nat n"] by (simp_all add: show_int_def number_of_digits_of)
  then show "trim_space (show_int n) = show_int n"
    by (intro trim_plain) (auto simp: list_all_iff digit_bytes)
qed

lemma asked_limit:
  assumes "0 < n" and "n \<le> MaximumPageSize" shows "parse_limit (show_int n) = Inr n"
proof -
  note shown = shown_number [of n]
  obtain c cs where c: "show_int n = c # cs" using shown(1) assms by (cases "show_int n") auto
  then have "digit_char c" using shown(2) assms by simp
  then have "c \<noteq> CHR ''-''" "c \<noteq> CHR ''+''" by (auto simp: digit_char_def byte_of_le str_eval)
  then have "Atoi (show_int n) = Some n"
    using c shown(2,3) assms by (simp add: Atoi_def is_number_def signed_value_def MaximumPageSize_def Let_def)
  then show ?thesis using shown(1) assms by (simp add: parse_limit_def)
qed

lemma asked_cursor: "w \<noteq> 0 \<Longrightarrow> parse_cursor (show_int (uint w)) = Inr w"
  using shown_number [of "uint w"] uint_lt2p [of w]
  by (simp add: parse_cursor_def ParseUint64_def uint_0_iff)

lemma nano_text:
  assumes "0 \<le> instant t" and "instant t < 3652059 * 86400 * 1000000000"
  shows "parse_rfc3339 (rfc3339_nano t) = Some (instant t)" "trim_space (rfc3339_nano t) = rfc3339_nano t" "rfc3339_nano t \<noteq> []"
proof -
  have parse: "parse_rfc3339 (rfc3339_nano t) = Some (instant t) \<and> (\<forall>c \<in> set (rfc3339_nano t). 33 \<le> byte_of c \<and> byte_of c < 127)"
  proof (cases "IsZero t")
    case True
    have "parse_rfc3339 ''0001-01-01T00:00:00Z'' = Some 0" by code_simp
    with True show ?thesis by (simp add: rfc3339_nano_def IsZero_def byte_of_def)
  next
    case False
    let ?u = "Time (instant t) True"
    have u: "storable ?u" using assms False by (auto simp: storable_def IsZero_def)
    have "Timestamp_String t = Timestamp_String ?u" by (simp add: Timestamp_String_def IsZero_def)
    then show ?thesis
      using timestamp_roundtrip [OF u] timestamp_text_plain [OF u] False
      by (auto simp: rfc3339_nano_def ParseTimestamp_def NewTimestamp_def split: option.splits if_splits)
  qed
  then show "parse_rfc3339 (rfc3339_nano t) = Some (instant t)" "trim_space (rfc3339_nano t) = rfc3339_nano t"
    by (blast intro: trim_plain)+
  show "rfc3339_nano t \<noteq> []" using parse by (auto simp: parse_rfc3339_def)
qed

lemma scan_cong: "wanted q = wanted q' \<Longrightarrow> scan_records q n rs found = scan_records q' n rs found"
  by (induction q n rs found rule: scan_records.induct) auto

lemma level_upper_known: "l \<in> {''DEBUG'', ''INFO'', ''WARN'', ''ERROR''} \<Longrightarrow> level_upper (trim_space l) = l"
  by (elim insertE emptyE) (simp_all add: level_upper_def runes_ascii encode_rune_def str_eval byte_of_def)

text \<open>The server reads the client's query as one that selects the same page.\<close>

lemma log_query_back:
  assumes "askable l"
  shows "\<exists>q. parseLogQuery (client_request c (Client_Logs l)) = Inr q \<and> log_Query q store = log_Query l store"
proof -
  let ?r = "client_request c (Client_Logs l)"
  have vals: "query_value ?r ''limit'' = (if lq_Limit l = 0 then [] else show_int (lq_Limit l))"
    "query_value ?r ''cursor'' = (if lq_Cursor l = 0 then [] else show_int (uint (lq_Cursor l)))"
    "query_value ?r ''since'' = (case lq_Since l of None \<Rightarrow> [] | Some t \<Rightarrow> rfc3339_nano t)"
    "query_value ?r ''level'' = lq_Level l" "query_value ?r ''component'' = lq_Component l"
    by (simp_all add: query_value_def Client_Logs_def client_do_def map_add_def split: option.splits)
  have limit: "parse_limit (trim_space (query_value ?r ''limit'')) = Inr (if lq_Limit l = 0 then DefaultPageSize else lq_Limit l)"
    using assms asked_limit [of "lq_Limit l"] shown_number(4) [of "lq_Limit l"]
    by (auto simp: vals askable_def parse_limit_def trim_plain)
  have cursor: "parse_cursor (trim_space (query_value ?r ''cursor'')) = Inr (lq_Cursor l)"
  proof (cases "lq_Cursor l = 0")
    case True
    then show ?thesis by (simp add: vals parse_cursor_def trim_plain)
  next
    case False
    then show ?thesis using asked_cursor [OF False] shown_number(4) [of "uint (lq_Cursor l)"] by (simp add: vals)
  qed
  have since: "parse_since (trim_space (query_value ?r ''since'')) = Inr (map_option (\<lambda>t. Time (instant t) True) (lq_Since l))"
    using assms nano_text by (auto simp: vals askable_def parse_since_def trim_plain split: option.splits)
  have level: "parse_level (trim_space (query_value ?r ''level'')) = Inr (level_upper (lq_Level l))"
    using assms by (auto simp: vals askable_def parse_level_def level_upper_def runes_def Let_def)
  have component: "parse_component (trim_space (query_value ?r ''component'')) = Inr (lq_Component l)"
    using assms by (simp add: vals askable_def parse_component_def)
  let ?q = "\<lparr>lq_Limit = (if lq_Limit l = 0 then DefaultPageSize else lq_Limit l), lq_Cursor = lq_Cursor l,
    lq_Since = map_option (\<lambda>t. Time (instant t) True) (lq_Since l), lq_Level = level_upper (lq_Level l), lq_Component = lq_Component l\<rparr>"
  have "level_upper (trim_space (level_upper (lq_Level l))) = level_upper (trim_space (lq_Level l))"
    using assms level_upper_known [of "level_upper (lq_Level l)"]
    by (cases "lq_Level l = []") (auto simp: askable_def level_upper_def runes_def trim_plain)
  then have same: "wanted ?q = wanted l" by (auto simp: wanted_def Let_def split: option.splits)
  have "page_limit ?q = page_limit l" by (simp add: page_limit_def DefaultPageSize_def MaximumPageSize_def)
  then have "log_Query ?q store = log_Query l store" unfolding log_Query_def using scan_cong [OF same] by metis
  then show ?thesis by (simp add: parseLogQuery_def Let_def limit cursor since level component)
qed

lemma log_operation:
  assumes "cl_Token c = sv_Token sv" and "sv_Token sv \<noteq> []" and "serves_all sv x" and "sendable (Op_Logs l)"
  shows "meets sv x c (Op_Logs l)"
proof -
  have call: "ac_Path (Client_Logs l) = ''/api/v1/logs''" "ac_Method (Client_Logs l) = MethodGet"
    by (simp_all add: Client_Logs_def client_do_def)
  have "askable l" using assms(4) by (simp add: sendable_def)
  then show ?thesis
    using log_query_back [of l c] served_at_pattern [OF assms(1,2), of "Client_Logs l"]
    by (auto simp: meets_def call pattern_table decides_plain all_routes [OF assms(3)] handleLogs_def only_def fun_eq_iff
        split: option.splits sum.splits)
qed

end
