(* ===== verification/Api_Properties.thy ===== *)
theory Api_Properties
  imports Api_Invariant Api_Operations Apply_Samples Apply_Properties
begin

text \<open>
  What the Management API promises: no request without the token does anything, a \<open>GET\<close> writes nothing to the database, the daemon
  stays sound whatever is asked of it, and an edit that is accepted is kept when its apply fails.
\<close>

section \<open>A server and its requests\<close>

definition sample_library :: http_library where
  "sample_library = \<lparr>ParseMediaType = Some, json_reason = (\<lambda>_. ''invalid''), fails_early = (\<lambda>_. False)\<rparr>"

definition sample_setup :: daemon_setup where
  "sample_setup =
     \<lparr>ds_token = ''token'',
      ds_snapshot = \<lparr>st_Name = ''DavDeck'', st_Version = ''1.0.0'', st_Daemon = [], st_Database = ''READY'', st_SchemaVersion = 1,
        st_Caddy = [], st_WebDAV = [],
        st_Service = \<lparr>ss_Installed = False, ss_State = [], ss_StartsAtBoot = False, ss_LastErrorCode = []\<rparr>,
        st_LastErrorCode = [], st_PortableDaemonOwned = False, st_DesiredRevision = None, st_ActiveRevision = None,
        st_PendingChanges = False\<rparr>,
      ds_library = sample_library, ds_aead = plain_cipher, ds_validator = accepting_validator, ds_version = ''1.0.0'',
      ds_build = \<lparr>bi_Product = ''DavDeck'', bi_Version = ''1.0.0'', bi_GitCommit = [], bi_BuildDate = [], bi_GoVersion = [],
        bi_FlutterVersion = [], bi_CaddyVersion = [], bi_WebDAVVersion = [], bi_TargetOS = ''linux'', bi_TargetArch = ''amd64''\<rparr>,
      ds_schema = 1, ds_logs = NewStore 0, ds_fields = (\<lambda>_. [])\<rparr>"

text \<open>Another apply holds the lock.\<close>

definition sample_answers :: answers where
  "sample_answers =
     \<lparr>an_hash = (\<lambda>_. Some ''h''), an_ids = (\<lambda>_. Some (user_ID alice)), an_random = Some [], an_now = t0, an_apply = first_inputs,
      an_locked = True, an_paths = (\<lambda>_. None), an_free = (\<lambda>_. True), an_addresses = (\<lambda>_. None), an_pair = (\<lambda>_ _. None),
      an_probe = (\<lambda>_ _ _ _. False), an_encode = (\<lambda>_. None),
      an_yaml = \<lparr>unmarshal_tree = \<lambda>_. None, decode_strict = \<lambda>_. None, at_end = \<lambda>_. True\<rparr>, an_storage = [],
      an_certificates = (\<lambda>_. CertificateMissing), an_unix = 0, an_canceled = False, an_renewals = False, an_accepted = False,
      an_install = None, an_uninstall = None, an_start = None, an_stop = None, an_service = Inl OtherServiceError,
      an_database = True, an_directories = (\<lambda>_. \<lparr>dir_present = True, dir_created = True, dir_closed = True, dir_removed = True\<rparr>),
      an_inspected = Inr [], an_skips = []\<rparr>"

definition sample_state :: daemon_state where
  "sample_state = (((fresh_db, []), stopped), \<lparr>ps_shutdown = False, ps_latest = None\<rparr>)"

definition create_alice :: request where
  "create_alice = \<lparr>rq_Method = MethodPost, rq_Segments = [''api'', ''v1'', ''users''], rq_Query = [],
     rq_Authorization = ''Bearer token'', rq_ContentType = ''application/json'',
     rq_Body = json_marshal (JObj [(''password'', JStr ''long enough password''), (''username'', JStr ''alice'')])\<rparr>"

lemma sample_state_ok: "daemon_ok sample_state"
  using stopped_ok by (simp add: daemon_ok_def parts_ok_def sample_state_def store_simps runtime_ok_def stopped_def db_ok_empty)

section \<open>The token\<close>

lemma authorized_iff:
  assumes "token \<noteq> []"
  shows "has_prefix header bearer_prefix \<and> length header \<noteq> length bearer_prefix \<and> trim_prefix header bearer_prefix = token
    \<longleftrightarrow> header = bearer_prefix @ token"
proof
  show "header = bearer_prefix @ token" if "has_prefix header bearer_prefix \<and> length header \<noteq> length bearer_prefix \<and> trim_prefix header bearer_prefix = token"
    using that by (metis append_take_drop_id has_prefix_def trim_prefix_def)
qed (use assms in \<open>simp add: has_prefix_def trim_prefix_def\<close>)

text \<open>C3. A server that could be made listens on a loopback address and has a token, and it carries out a request exactly when the
  request's \<open>Authorization\<close> is \<open>Bearer\<close> with that token; every other request is answered 401 and leaves the whole state as it was.\<close>

theorem token_guards_every_request:
  assumes "NewServer loopback_host address sv = Inr server"
  shows "server = sv \<and> loopback_host address = Some True \<and>
    serve server q x = (if rq_Authorization q = bearer_prefix @ sv_Token server then serve_mux server q x else (x, unauthorized))"
proof -
  have new: "server = sv" "sv_Token server \<noteq> []" "loopback_host address = Some True"
    using assms by (auto simp: NewServer_def ValidateLoopbackAddress_def split: if_splits option.splits)
  with authorized_iff [OF new(2), of "rq_Authorization q"] show ?thesis
    by (auto simp: serve_def authenticate_def reply_def Let_def)
qed

theorem token_guards_every_request_witness:
  "serve (daemon_server sample_setup sample_answers) (create_alice\<lparr>rq_Authorization := ''Bearer tokem''\<rparr>) sample_state
    = (sample_state, unauthorized)"
proof -
  have "NewServer (\<lambda>_. Some True) ''127.0.0.1:47808'' (daemon_server sample_setup sample_answers)
      = Inr (daemon_server sample_setup sample_answers)"
    by (simp add: NewServer_def ValidateLoopbackAddress_def daemon_server_def sample_setup_def)
  from token_guards_every_request [OF this] show ?thesis
    by (simp add: create_alice_def daemon_server_def sample_setup_def bearer_prefix_def)
qed

section \<open>Reading\<close>

lemma daemon_db_is: "db_is d (fst st) \<longleftrightarrow> daemon_db st = d"
  by (simp add: db_is_def daemon_db_def split_beta)

text \<open>C28. A \<open>GET\<close> request, whatever its path and its headers are, writes nothing to the daemon's database.\<close>

theorem reading_changes_no_data:
  assumes "rq_Method q = MethodGet"
  shows "daemon_db (fst (serve (daemon_server s a) q x)) = daemon_db x"
  using get_daemon.get_upholds [OF assms, of "daemon_db x" s a] unfolding daemon_db_is upholds_def by blast

theorem reading_changes_no_data_witness:
  "daemon_db (fst (serve (daemon_server sample_setup sample_answers) (create_alice\<lparr>rq_Method := MethodGet\<rparr>) sample_state)) = fresh_db"
  using reading_changes_no_data [of "create_alice\<lparr>rq_Method := MethodGet\<rparr>" sample_setup sample_answers sample_state]
  by (simp add: daemon_db_def sample_state_def)

section \<open>Every sequence of requests\<close>

text \<open>A request, what the system answers during it, which calls of the database fail and how the calls of Caddy end.\<close>

definition daemon_request ::
  "daemon_setup \<Rightarrow> request \<times> answers \<times> bool list \<times> runtime_calls list \<Rightarrow> daemon_state \<Rightarrow> daemon_state" where
  "daemon_request s = (\<lambda>(q, a, faults, calls) (((d, _), (m, _)), p). fst (serve (daemon_server s a) q (((d, faults), (m, calls)), p)))"

text \<open>C12. After any sequence of requests, of clients with and without the token, however the database, Caddy and the system answer,
  the database keeps every constraint of its schema and the manager knows the process it started.\<close>

theorem requests_keep_the_daemon_sound:
  assumes "daemon_ok x"
  shows "daemon_ok (fold (daemon_request s) qs x)"
  using assms
proof (induction qs arbitrary: x)
  case (Cons r qs)
  have "daemon_ok (daemon_request s r x)"
  proof -
    obtain q a faults calls d f m c p where r: "r = (q, a, faults, calls)" and x: "x = (((d, f), (m, c)), p)" by (metis prod.collapse)
    have "daemon_ok (((d, faults), (m, calls)), p)"
      using Cons.prems by (simp add: x daemon_ok_def parts_ok_def store_simps runtime_ok_def)
    then show ?thesis
      using any_daemon.serve_upholds [of s a q] by (simp add: r x daemon_request_def daemon_ok_def upholds_def)
  qed
  then show ?case using Cons.IH by simp
qed simp

theorem requests_keep_the_daemon_sound_witness:
  "daemon_ok (fold (daemon_request sample_setup) [(create_alice, sample_answers, [], []), (create_alice, sample_answers, [], [])] sample_state)"
  by (rule requests_keep_the_daemon_sound) (rule sample_state_ok)

section \<open>An edit whose apply fails\<close>

lemma exec_error: "exec stmt d = (d', Inl e) \<Longrightarrow> d' = d"
  by (simp add: exec_def split: sum.splits)

lemma MarkFailed_tables: "MarkFailed i code summary d = (d', Inr u) \<Longrightarrow> desired_tables d' = desired_tables d"
  by (auto simp: MarkFailed_def exec_Inr update_valid_revision_def with_status_def desired_tables_def split: if_splits)

lemma MarkApplied_error: "MarkApplied i d = (d', Inl e) \<Longrightarrow> d' = d" "MarkFailed i code summary d = (d', Inl e) \<Longrightarrow> d' = d"
  unfolding MarkApplied_def MarkFailed_def by (rule exec_error, assumption)+

lemma revision_tables:
  "Revision_Create r d = (d', x) \<Longrightarrow> desired_tables d' = desired_tables d" "SetDesired i d = (d', u) \<Longrightarrow> desired_tables d' = desired_tables d"
  "MarkApplied i d = (d', u) \<Longrightarrow> desired_tables d' = desired_tables d"
  "MarkFailed i code summary d = (d', u) \<Longrightarrow> desired_tables d' = desired_tables d"
  using Create_tables [of r d d'] Revision_Create_error [of r d d'] SetDesired_tables [of i d d'] SetDesired_error [of i d d']
    MarkApplied_tables [of i d d'] MarkApplied_error(1) [of i d d'] MarkFailed_tables [of i code summary d d']
    MarkApplied_error(2) [of i code summary d d']
  by (cases x; cases u; simp)+

lemma call_tables:
  "operation_call (Revision_Create r) y = (y', x) \<Longrightarrow> desired_tables (fst y') = desired_tables (fst y)"
  "operation_call (SetDesired i) y = (y', u) \<Longrightarrow> desired_tables (fst y') = desired_tables (fst y)"
  "operation_call (MarkApplied i) y = (y', u) \<Longrightarrow> desired_tables (fst y') = desired_tables (fst y)"
  "operation_call (MarkFailed i code summary) y = (y', u) \<Longrightarrow> desired_tables (fst y') = desired_tables (fst y)"
  by (erule operation_call_cases; simp add: revision_tables)+

lemma note_tables: "desired_tables (fst (note_failure (daemon_apply s) created r y)) = desired_tables (fst y)"
  using call_tables(4) [of "rev_ID r" _ _ y]
  by (auto simp: note_failure_def daemon_apply_def) (metis prod.collapse)

lemma finish_tables:
  "finish_unchanged (daemon_apply s) r created y = (y', x) \<Longrightarrow> desired_tables (fst y') = desired_tables (fst y)"
  "finish_failed (daemon_apply s) r created err y = (y', x) \<Longrightarrow> desired_tables (fst y') = desired_tables (fst y)"
  "finish_activated (daemon_apply s) r created previous (y, m) = ((y', m'), x) \<Longrightarrow> desired_tables (fst y') = desired_tables (fst y)"
proof -
  obtain z u where z: "operation_call (MarkApplied (rev_ID r)) y = (z, u)" by fastforce
  show "finish_unchanged (daemon_apply s) r created y = (y', x) \<Longrightarrow> desired_tables (fst y') = desired_tables (fst y)"
    using call_tables(3) [OF z] note_tables [of s created r z]
    by (auto simp: finish_unchanged_def daemon_apply_def z split: sum.splits)
  show "finish_activated (daemon_apply s) r created previous (y, m) = ((y', m'), x) \<Longrightarrow> desired_tables (fst y') = desired_tables (fst y)"
    using call_tables(3) [OF z] note_tables [of s created r z]
    by (auto simp: finish_activated_def daemon_apply_def z Let_def split: sum.splits)
  show "finish_failed (daemon_apply s) r created err y = (y', x) \<Longrightarrow> desired_tables (fst y') = desired_tables (fst y)"
    by (auto simp: finish_failed_def daemon_apply_def split: prod.splits sum.splits if_splits dest: call_tables(4))
qed

lemma choose_db:
  assumes "choose_revision (daemon_apply s) inputs input compiled y = (y', x)" shows "fst y' = fst y"
  using assms
  by (auto simp: choose_revision_def daemon_apply_def split: sum.splits option.splits prod.splits dest: query_call_cases(1))

lemma runtime_tables:
  assumes "apply_to_runtime (daemon_apply s) r created previous compiled env (y, m) = ((y', m'), x)"
  shows "desired_tables (fst y') = desired_tables (fst y)"
  using assms finish_tables [of s r created] unfolding apply_to_runtime_def
  by (auto split: prod.splits option.splits if_splits)

lemma record_tables:
  assumes "record_desired (daemon_apply s) r created y = (y', x)" shows "desired_tables (fst y') = desired_tables (fst y)"
  using assms call_tables(1,2)
  by (auto simp: record_desired_def daemon_apply_def split: if_splits prod.splits sum.splits)

lemma apply_tables:
  assumes "Apply (daemon_apply s) locked inputs (y, m) = ((y', m'), x)"
  shows "desired_tables (fst y') = desired_tables (fst y)"
proof (cases locked)
  case False
  obtain y1 a where 1: "prepare (daemon_apply s) y = (y1, a)" by fastforce
  have y1: "fst y1 = fst y" using 1 prepare_db by (metis prod.collapse)
  show ?thesis
  proof (cases a)
    case (Inl e)
    then show ?thesis using assms False 1 y1 by (simp add: Apply_def apply_state_def)
  next
    case (Inr b)
    obtain snapshot compiled env where a: "a = Inr (snapshot, compiled, env)" using Inr by (metis prod.collapse)
    obtain y2 c where 2: "choose_revision (daemon_apply s) inputs snapshot compiled y1 = (y2, c)" by fastforce
    obtain y3 g where 3: "query_call Revision_Active y2 = (y3, g)" by fastforce
    have y3: "fst y3 = fst y" "fst y2 = fst y" using choose_db [OF 2] query_call_cases(1) [OF 3] y1 by simp_all
    show ?thesis
      using assms False 1 a 2 3 y3 record_tables [of s _ _ y3] runtime_tables
      by (auto simp: Apply_def apply_state_def daemon_apply_def split: sum.splits prod.splits)
  qed
qed (use assms in \<open>simp add: Apply_def\<close>)

lemma created_user:
  assumes "UserService_Create hash fresh now name password y = (y', Inr u)" shows "u \<in> set (t_users (fst y'))"
proof -
  obtain i stamp h where "mapped mapUserRepositoryError (operation_call (User_Create (new_user i name h stamp))) y = (y', Inr ())"
    and u: "u = new_user i name h stamp"
    using assms by (auto simp: UserService_Create_def and_then_def give_def require_def split: prod.splits sum.splits)
  then have "User_Create (new_user i name h stamp) (fst y) = (fst y', Inr ())"
    by (auto simp: mapped_def map_error_def operation_call_Inr split: prod.splits sum.splits)
  then show ?thesis by (auto simp: User_Create_def exec_def insert_user_def mark_dirty_def u dest!: sym [of _ "fst y'"] split: if_splits prod.splits sum.splits)
qed

lemma daemon_server_fields:
  "sv_Token (daemon_server s a) = ds_token s" "sv_Library (daemon_server s a) = ds_library s"
  "sv_Users (daemon_server s a) = Some (daemon_users a)" "sv_Apply (daemon_server s a) = Some (daemon_revisions s a)"
  by (simp_all add: daemon_server_def)

lemma users_route:
  assumes "rq_Segments q = [''api'', ''v1'', ''users'']"
  shows "serve_mux (daemon_server s a) q = handleUsers (daemon_server s a) (daemon_users a) q"
  by (rule serve_mux_decided [of "''/api/v1/users''"])
    (simp_all add: assms decides_user server_routes_def when_set_def daemon_server_fields)

text \<open>C40. A new account is stored before the configuration is applied, and a failure of the apply does not take it back: when the
  service creates the account, the database has it after the request, although the answer is the apply's error whenever the apply
  fails.\<close>

theorem failed_apply_keeps_the_account:
  assumes "rq_Authorization q = bearer_prefix @ ds_token s" and "ds_token s \<noteq> []"
    and "rq_Method q = MethodPost" and "rq_Segments q = [''api'', ''v1'', ''users'']"
    and "decodeJSON (ds_library s) decode_credentials q = Inr (name, password)"
    and "UserService_Create (an_hash a) (an_ids a 0) (an_now a) name password x = (y, Inr u)"
    and "Apply (daemon_apply s) (an_locked a) (an_apply a) (y, m) = ((z, m'), (r, err))"
  shows "serve (daemon_server s a) q ((x, m), p) = (((z, m'), p),
      case err of Some e \<Rightarrow> writeApplicationError e | None \<Rightarrow> writeSuccess 201 (publicUser None u))
    \<and> u \<in> set (t_users (fst z))"
proof -
  have "desired_tables (fst z) = desired_tables (fst y)" by (rule apply_tables [OF assms(7)])
  then have stored: "u \<in> set (t_users (fst z))" using created_user [OF assms(6)] by (simp add: desired_tables_def)
  have call: "serve (daemon_server s a) q = handleUsers (daemon_server s a) (daemon_users a) q"
    using authorized_iff [OF assms(2), of "rq_Authorization q"] assms(1)
    by (auto simp: serve_def authenticate_def Let_def daemon_server_fields users_route [OF assms(4)])
  have create: "handleUsers (daemon_server s a) (daemon_users a) q = mutate (daemon_server s a) (ua_Create (daemon_users a) name password) (\<lambda>u. writeSuccess 201 (publicUser None u))"
    using assms(3,5) by (simp add: handleUsers_def with_input_def daemon_server_fields method_defs)
  have "mutate (daemon_server s a) (ua_Create (daemon_users a) name password) (\<lambda>u. writeSuccess 201 (publicUser None u)) ((x, m), p) = (((z, m'), p),
      case err of Some e \<Rightarrow> writeApplicationError e | None \<Rightarrow> writeSuccess 201 (publicUser None u))"
    using assms(6,7)
    by (simp add: mutate_def respond_def and_then_def applyAfterRuntimeMutation_def daemon_server_fields daemon_users_def
        daemon_revisions_def over_store_def in_daemon_def apply_outcome_def give_def split: option.splits)
  then show ?thesis using stored call create by simp
qed

lemma alice_body: "decodeJSON sample_library decode_credentials create_alice = Inr (''alice'', ''long enough password'')"
proof (rule decodeJSON_marshal)
  let ?j = "JObj [(''password'', JStr ''long enough password''), (''username'', JStr ''alice'')]"
  have "valid_utf8 ''password''" "valid_utf8 ''username''" "valid_utf8 ''long enough password''" "valid_utf8 ''alice''"
    by (rule literal_utf8, simp add: byte_of_def)+
  then show "clean ?j" by simp
  show "depth ?j \<le> max_nesting" by (rule shallow_object) simp
  show "rq_Body create_alice = json_marshal ?j" by (simp add: create_alice_def)
  show "length (json_marshal ?j) \<le> maxRequestBodyBytes"
    using quote_string_length [of "''password''"] quote_string_length [of "''username''"] quote_string_length [of "''alice''"]
      quote_string_length [of "''long enough password''"] by (simp add: json_marshal_def maxRequestBodyBytes_def)
  show "ParseMediaType sample_library (rq_ContentType create_alice) = Some ''application/json''"
    by (simp add: sample_library_def create_alice_def)
  show "decode_credentials ?j = Some (''alice'', ''long enough password'')" by (simp add: decode_credentials_def decode_known_def)
qed

theorem failed_apply_keeps_the_account_witness:
  "\<exists>z m' u. serve (daemon_server sample_setup sample_answers) create_alice sample_state
      = (((z, m'), snd sample_state), writeApplicationError apply_in_progress) \<and> u \<in> set (t_users (fst z)) \<and> Username u = ''alice''"
proof -
  have stamp: "stamped t0 = Inr t0" by (simp add: stamped_def NewTimestamp_def t0_def IsZero_def map_error_def)
  let ?u = "new_user (user_ID alice) ''alice'' ''h'' t0"
  have "UserService_Create (\<lambda>_. Some ''h'') (Some (user_ID alice)) t0 ''alice'' ''long enough password'' (fresh_db, [])
      = ((fst (User_Create ?u fresh_db), []), Inr ?u)"
    by (simp add: UserService_Create_def and_then_def give_def require_def mapped_def validatePassword_def generated_def stamp hashed_def
        operation_call_def User_Create_def exec_def insert_user_def empty_db_def new_user_def User_Validate_def NormalizeUsername_def
        map_error_def from_err_def str_eval domain_eval)
  then have create: "UserService_Create (an_hash sample_answers) (an_ids sample_answers 0) (an_now sample_answers) ''alice''
      ''long enough password'' (fresh_db, []) = ((fst (User_Create ?u fresh_db), []), Inr ?u)"
    by (simp add: sample_answers_def)
  have busy: "Apply (daemon_apply sample_setup) (an_locked sample_answers) (an_apply sample_answers) (y, stopped)
      = ((y, stopped), (None, Some apply_in_progress))" for y
    by (simp add: Apply_def sample_answers_def)
  have token: "rq_Authorization create_alice = bearer_prefix @ ds_token sample_setup" "ds_token sample_setup \<noteq> []"
    "rq_Method create_alice = MethodPost" "rq_Segments create_alice = [''api'', ''v1'', ''users'']" "ds_library sample_setup = sample_library"
    by (simp_all add: create_alice_def sample_setup_def bearer_prefix_def)
  show ?thesis
    using failed_apply_keeps_the_account [OF token(1-4) alice_body [folded token(5)] create busy, of "snd sample_state"]
    by (auto simp: sample_state_def new_user_def)
qed

section \<open>Every operation\<close>

text \<open>C4. Every operation of the client, the queries of the log included, is carried out by the service it names, with the arguments it
  was given and with nothing done before or after: over the wire, with its path, its query, its token, its JSON and its routes, a request
  does to the server's state, and answers, exactly what a direct call of the service does.  The client has the token of the server, which is
  not empty; the server has all its services; media types are parsed as documented; and the arguments are \<open>sendable\<close>: texts in
  UTF-8, identifiers of the form the daemon gives, a body of at most 1 MiB, ports of 64 bits, a secret that is not empty and has each name
  once, and a log query within the server's limits.\<close>

theorem client_calls_reach_their_services:
  assumes "cl_Token c = sv_Token sv" and "sv_Token sv \<noteq> []" and "serves_all sv x" and "parses_types (sv_Library sv)"
    and "sendable op"
  shows "serve sv (client_request c (client_call op)) s = direct sv x op s"
proof -
  have ids: "list_all an_id (operation_ids op)" using assms(5) by (simp add: sendable_def)
  note rules = plain_operations [OF assms(1-3)] item_operations [OF assms(1-3)] body_operations [OF assms(1-4)]
    item_body_operations [OF assms(1-4)] log_operation [OF assms(1-3)]
  have "meets sv x c op"
    using ids assms(5) by (cases op) (auto intro: rules)
  then show ?thesis by (simp add: meets_def)
qed

text \<open>The services of the daemon, and a client that asks for a new account.\<close>

definition daemon_services :: "daemon_setup \<Rightarrow> answers \<Rightarrow> daemon_state services" where
  "daemon_services s a = \<lparr>sx_Users = daemon_users a, sx_Shares = daemon_shares a, sx_Permissions = daemon_permissions a,
     sx_Apply = daemon_revisions s a, sx_TLS = daemon_tls s a, sx_DNS = daemon_dns s a, sx_Endpoints = daemon_endpoints a,
     sx_Diagnostics = daemon_diagnostics s a, sx_Configuration = daemon_configuration a, sx_Runtime = daemon_runtime s a,
     sx_Settings = daemon_settings a, sx_Manager = daemon_manager a\<rparr>"

lemma daemon_serves_all: "serves_all (daemon_server s a) (daemon_services s a)"
  by (simp add: serves_all_def daemon_server_def daemon_services_def)

theorem client_calls_reach_their_services_witness:
  "serve (daemon_server sample_setup sample_answers)
      (client_request \<lparr>cl_Endpoint = ''http://127.0.0.1:47808'', cl_Token = ''token''\<rparr> (client_call (Op_CreateUser ''alice'' ''long enough password'')))
      sample_state
    = mutate (daemon_server sample_setup sample_answers) (ua_Create (daemon_users sample_answers) ''alice'' ''long enough password'')
        (\<lambda>u. writeSuccess 201 (publicUser None u)) sample_state"
proof -
  let ?op = "Op_CreateUser ''alice'' ''long enough password''" and ?c = "\<lparr>cl_Endpoint = ''http://127.0.0.1:47808'', cl_Token = ''token''\<rparr>"
  have words: "valid_utf8 ''long enough password''" "valid_utf8 ''alice''" by (rule literal_utf8, simp add: byte_of_def)+
  have ok: "sendable ?op"
    using quote_string_length [of "''password''"] quote_string_length [of "''username''"] quote_string_length [of "''alice''"]
      quote_string_length [of "''long enough password''"]
    by (simp add: sendable_def words Client_CreateUser_def client_do_def json_marshal_def maxRequestBodyBytes_def)
  have token: "cl_Token ?c = sv_Token (daemon_server sample_setup sample_answers)" "sv_Token (daemon_server sample_setup sample_answers) \<noteq> []"
    by (simp_all add: daemon_server_fields sample_setup_def)
  have media: "parses_types (sv_Library (daemon_server sample_setup sample_answers))"
    by (simp add: daemon_server_fields sample_setup_def sample_library_def parses_types_def)
  from client_calls_reach_their_services [OF token daemon_serves_all media ok] show ?thesis by (simp add: daemon_services_def)
qed

section \<open>The diagnostic report\<close>

lemma checks_are_named: "c \<in> set (daemon_checks s a) \<Longrightarrow> dr_ID (snd (ck_Run c x)) = ck_ID c"
  unfolding daemon_checks_def NewService_def set_sort list.set
  by (elim insertE emptyE)
    (auto simp: DatabaseCheck_def DirectoryCheck_def CaddyBinaryCheck_def CaddyRuntimeCheck_def ConfigCheck_def check_config_def
      config_problem_def SharePathsCheck_def TLSCheck_def mk_result_def Let_def split: option.splits sum.splits prod.splits)

lemma daemon_check_ids:
  "map ck_ID (daemon_checks s a) = [''caddy_binary'', ''caddy_runtime'', ''database'', ''desired_configuration'', ''directory_config'',
     ''directory_data'', ''directory_logs'', ''directory_runtime'', ''share_paths'', ''tls'']"
  by (simp add: daemon_checks_def NewService_def DatabaseCheck_def DirectoryCheck_def CaddyBinaryCheck_def CaddyRuntimeCheck_def
      ConfigCheck_def SharePathsCheck_def TLSCheck_def Let_def)

text \<open>C39. A diagnostic run reports each of its ten checks once, in the order of their names, whichever of them fail or are cancelled, and its
  overall status is the worst: \<open>FAIL\<close> if a check failed, else \<open>WARN\<close> if one warned or was skipped, else \<open>PASS\<close>.\<close>

theorem diagnostics_report_every_check:
  "case diag_Run build version now skips (daemon_checks s a) x of (y, report) \<Rightarrow>
     map dr_ID (dp_Results report) = [''caddy_binary'', ''caddy_runtime'', ''database'', ''desired_configuration'', ''directory_config'',
       ''directory_data'', ''directory_logs'', ''directory_runtime'', ''share_paths'', ''tls'']
     \<and> dp_Overall report = (if StatusFail \<in> dr_Status ` set (dp_Results report) then StatusFail
         else if {StatusWarn, StatusSkip} \<inter> dr_Status ` set (dp_Results report) \<noteq> {} then StatusWarn else StatusPass)"
proof (cases "run_checks skips (daemon_checks s a) x")
  case (Pair y results)
  then show ?thesis
    using run_checks_ids [of "daemon_checks s a" skips x] checks_are_named [of _ s a] daemon_check_ids [of s a]
    by (simp add: diag_Run_def overallStatus_def overall_from_cases)
qed

end
