(* ===== verification/Api_Client_Properties.thy ===== *)
theory Api_Client_Properties
  imports Api_Operations Json_Indent Store_Properties
begin

text \<open>
  What the client reads in a response is what the server put there: the code and the message of an error, and the values of the results.
\<close>

section \<open>Values\<close>

definition client_user_of :: "user \<Rightarrow> client_user" where
  "client_user_of u = \<lparr>cu_ID = user_ID u, cu_Username = Username u, cu_Enabled = user_Enabled u, cu_CreatedAt = user_CreatedAt u,
     cu_UpdatedAt = user_UpdatedAt u\<rparr>"

definition client_permission_of :: "permission_entry \<Rightarrow> client_permission" where
  "client_permission_of e = \<lparr>cp_ShareID = entry_ShareID e, cp_UserID = entry_UserID e, cp_Username = entry_Username e,
     cp_Permission = entry_Permission e\<rparr>"

definition client_revision_of :: "config_revision \<Rightarrow> client_revision" where
  "client_revision_of r = \<lparr>cr_ID = rev_ID r, cr_Number = Number r, cr_CreatedAt = rev_CreatedAt r, cr_ConfigHash = ConfigHash r,
     cr_ValidationStatus = ValidationStatus r, cr_ApplyStatus = ApplyStatus r, cr_Snapshot = (StateSnapshotJSON r \<noteq> []),
     cr_AppVersion = AppVersion r, cr_ErrorCode = ErrorCode r, cr_ErrorSummary = ErrorSummary r\<rparr>"

definition client_import_of :: "import_result \<Rightarrow> client_import" where
  "client_import_of r = \<lparr>ci_UsersCreated = int (UsersCreated r), ci_UsersUpdated = int (UsersUpdated r),
     ci_SharesCreated = int (SharesCreated r), ci_SharesUpdated = int (SharesUpdated r),
     ci_PermissionsUpserted = int (PermissionsUpserted r), ci_TLSUpdated = TLSUpdated r, ci_ServerUpdated = ServerUpdated r,
     ci_PasswordResetRequired = PasswordResetRequired r, ci_PendingApply = PendingApply r\<rparr>"

text \<open>A member whose name is as long as no field's is skipped.\<close>

lemma other_field [simp]:
  assumes "ascii k" and "list_all ascii names" and "length k \<notin> set (map length names)"
  shows "field_of names k = None"
proof -
  have "find (\<lambda>n. map fold_rune (runes n) = map fold_rune (runes k)) names = None"
    using assms by (auto simp: find_None_iff list_all_iff runes_ascii dest!: map_eq_imp_length_eq) (metis image_eqI)
  moreover have "k \<notin> set names" using assms(3) by auto
  ultimately show ?thesis by (simp add: field_of_def)
qed

lemmas decode_eval = decode_struct_def decode_time_json int_of_show ascii_def byte_of_def omit_none_def omit_empty_str_def omit_empty_list_def omit_false_def

lemma strings_back: "decode_list (\<lambda>j. decode_string j []) (JArr (map JStr zs)) old = Some zs"
  by (rule decode_list_map) simp

lemma users_back:
  assumes "storable (user_CreatedAt u)" and "storable (user_UpdatedAt u)"
  shows "decode_client_user (publicUser summary u) = Some (client_user_of u)"
  using assms by (simp add: decode_client_user_def publicUser_def assign_client_user_def client_user_of_def Let_def decode_eval)

lemma shares_back:
  assumes "storable (share_CreatedAt s)" and "storable (share_UpdatedAt s)"
  shows "decode_client_share (publicShare n s) = Some s"
  using assms by (simp add: decode_client_share_def publicShare_def assign_client_share_def zero_share_def decode_eval)

lemma entries_back: "decode_client_permission (permission_entry_json e) = Some (client_permission_of e)"
  by (simp add: decode_client_permission_def permission_entry_json_def assign_client_permission_def client_permission_of_def decode_eval)

lemma dns_back:
  assumes "storable (view_CreatedAt v)" and "storable (view_UpdatedAt v)"
  shows "decode_client_dns (dns_view_json v) = Some v"
  using assms strings_back [of "view_AllowedZones v"]
  by (cases "view_AllowedZones v = []")
    (simp_all add: decode_client_dns_def dns_view_json_def assign_client_dns_def decode_eval del: decode_list.simps)

definition int64 :: "int \<Rightarrow> bool" where
  "int64 i \<longleftrightarrow> - (2 ^ 63) \<le> i \<and> i < 2 ^ 63"

lemma endpoint_back: "int64 (Port e) \<Longrightarrow> decode_client_endpoint (endpoint_json e) no_endpoint = Some e"
  by (cases "ErrorCodeText e = []"; cases "Description e = []")
    (simp_all add: decode_client_endpoint_def endpoint_json_def assign_client_endpoint_def no_endpoint_def int64_def decode_eval)

lemma endpoints_back: "int64 (Port (fst e)) \<Longrightarrow> int64 (Port (snd e)) \<Longrightarrow> decode_client_endpoints (endpoints_json e) = Some e"
  by (cases e) (simp add: decode_client_endpoints_def endpoints_json_def decode_struct_def endpoint_back)

lemma checks_back: "decode_client_tls_check (tls_check_json c) = Some c"
proof (cases c)
  case (Pair ready checks)
  let ?f = "\<lambda>c. JObj [(''name'', JStr (check_Name c)), (''ok'', JBool (check_OK c)), (''message'', JStr (check_Message c))]"
  have "decode_client_check (?f d) = Some d" for d by (simp add: decode_client_check_def decode_struct_def)
  then have "decode_list decode_client_check (JArr (map ?f checks)) old = Some checks" for old by (intro decode_list_map) simp
  then show ?thesis by (simp add: Pair decode_client_tls_check_def tls_check_json_def decode_struct_def del: decode_list.simps)
qed

lemma uint64_of_show: "0 \<le> i \<Longrightarrow> i < 2 ^ 64 \<Longrightarrow> decode_uint64 (JInt i) old = Some i"
  using digits_of_digits [of "nat i"] number_of_digits_of [of "nat i"] by (simp add: show_int_def)

lemma revisions_back:
  assumes "0 \<le> Number r" and "Number r < 2 ^ 64" and "storable (rev_CreatedAt r)"
  shows "decode_client_revision (publicRevision r) = Some (client_revision_of r)"
  using assms uint64_of_show [OF assms(1,2)]
  by (cases "ErrorCode r = []"; cases "ErrorSummary r = []")
    (simp_all add: decode_client_revision_def publicRevision_def assign_client_revision_def client_revision_of_def decode_eval
      del: decode_uint64.simps)

lemma pointer_back: "(\<And>i. n = Some i \<Longrightarrow> 0 \<le> i \<and> i < 2 ^ 64) \<Longrightarrow> decode_pointer decode_uint64 0 (number_or_null n) old = Some n"
  using uint64_of_show by (cases n) (simp_all add: number_or_null_def del: decode_uint64.simps)

lemma states_back:
  assumes "\<And>i. DesiredRevision s = Some i \<or> ActiveRevision s = Some i \<Longrightarrow> 0 \<le> i \<and> i < 2 ^ 64"
  shows "decode_client_state (revision_state_json s) = Some s"
  using pointer_back [of "DesiredRevision s"] pointer_back [of "ActiveRevision s"] assms
  by (simp add: decode_client_state_def revision_state_json_def assign_client_state_def decode_eval)

lemma validations_back: "decode_client_validation (validation_json v) = Some v"
  using strings_back [of "vr_Warnings v"]
  by (cases "vr_Warnings v = []")
    (simp_all add: decode_client_validation_def validation_json_def decode_eval del: decode_list.simps)

lemma ports_back:
  "int64 (HTTPPort s) \<Longrightarrow> int64 (HTTPSPort s) \<Longrightarrow> decode_client_ports (server_settings_json s) = Some (HTTPPort s, HTTPSPort s)"
  by (simp add: decode_client_ports_def server_settings_json_def int64_def decode_eval)

lemma status_back:
  "decode_client_caddy (server_status_json r) = Some (sr_Caddy r)"
  "decode_client_service (service_status_json m) = Some (ss_Installed m, ss_State m)"
  by (cases "sr_LastErrorCode r = []"; cases "ss_LastErrorCode m = []";
      simp add: decode_client_caddy_def server_status_json_def decode_client_service_def service_status_json_def decode_eval)+

lemma imports_back:
  assumes "list_all (\<lambda>n. int64 (int n)) [UsersCreated r, UsersUpdated r, SharesCreated r, SharesUpdated r, PermissionsUpserted r]"
  shows "decode_client_import (import_result_json r) = Some (client_import_of r)"
  using assms strings_back [of "PasswordResetRequired r"]
  by (cases "PasswordResetRequired r = []")
    (simp_all add: decode_client_import_def import_result_json_def assign_client_import_def client_import_of_def int64_def decode_eval
      del: decode_list.simps(1))

lemma exports_back:
  "decode_client_export (JObj [(''contains_secrets'', JBool False), (''content'', JStr body), (''format'', JStr ''yaml'')])
    = Some (''yaml'', body, False)"
  by (simp add: decode_client_export_def decode_struct_def)

lemma tls_back:
  assumes "tls_text p" shows "decode_client_tls (tls_response p status) = Some (Some p)" "decode_client_tls JNull = Some None"
proof -
  obtain kvs where kvs: "tls_json p = JObj kvs" by (simp add: tls_json_def)
  have "decode_members tls_fields assign_tls (kvs @ omit_none ''certificate_status'' (map_option certificate_status_json status)) r
      = decode_members tls_fields assign_tls kvs r" for r
    by (induction kvs arbitrary: r) (auto simp: omit_none_def tls_fields_def ascii_def byte_of_def split: option.splits)
  then show "decode_client_tls (tls_response p status) = Some (Some p)"
    using decode_tls_json [OF assms] by (simp add: decode_client_tls_def tls_response_def kvs decode_tls_def decode_struct_def)
  show "decode_client_tls JNull = Some None" by (simp add: decode_client_tls_def)
qed

section \<open>Answers\<close>

definition legible :: "response \<Rightarrow> bool" where
  "legible r \<longleftrightarrow> clean (encodeEnvelope (rs_Envelope r)) \<and> depth (encodeEnvelope (rs_Envelope r)) \<le> max_nesting
     \<and> length (response_text r) \<le> maximum_response"

lemma legible_first:
  assumes "legible r"
  shows "first_value (take maximum_response (response_text r)) = Some (encodeEnvelope (rs_Envelope r), [newline])"
proof -
  have "take maximum_response (response_text r) = response_text r" using assms by (simp add: legible_def del: take_append)
  then show ?thesis
    using assms first_value_print [of "encodeEnvelope (rs_Envelope r)" "[newline]"] stops_indentation(2)
    by (simp add: legible_def response_text_def)
qed

lemma payload_back:
  "decode_payload float_ok (encodeEnvelope (Envelope d)) = Some \<lparr>pl_Success = True, pl_Data = Some d, pl_Error = None\<rparr>"
  "any_decodes float_ok (JObj (api_Details e)) \<Longrightarrow>
     decode_payload float_ok (encodeEnvelope (Failure e)) = Some \<lparr>pl_Success = False, pl_Data = Some JNull, pl_Error = Some e\<rparr>"
  by (cases "api_Details e = []";
      simp add: decode_payload_def encodeEnvelope_def decode_struct_def assign_payload_def decode_error_def assign_error_def
        decode_details_def no_error_def del: any_decodes.simps)+

lemma answer_of_success:
  assumes "legible r" and "rs_Envelope r = Envelope d" and "200 \<le> rs_Status r" and "rs_Status r < 300"
  shows "client_answer float_ok (Some decode) (rs_Status r) (response_text r) = (case decode d of None \<Rightarrow> Inl BadData | Some v \<Rightarrow> Inr (Some v))"
    and "client_answer float_ok None (rs_Status r) (response_text r) = Inr None"
  using legible_first [OF assms(1)] payload_back(1) assms(2-4) by (auto simp: client_answer_def split: option.splits)

lemma answer_of_failure:
  assumes "legible r" and "rs_Envelope r = Failure e" and "any_decodes float_ok (JObj (api_Details e))"
  shows "client_answer float_ok output (rs_Status r) (response_text r) = Inl (APIError (rs_Status r) (api_Code e) (api_Message e) (api_Details e))"
  using legible_first [OF assms(1)] payload_back(2) assms(2,3) by (auto simp: client_answer_def split: option.splits)

lemma list_back:
  "(\<And>x. x \<in> set xs \<Longrightarrow> f (g x) = Some (h x)) \<Longrightarrow> decode_list f (JArr (map g xs)) old = Some (map h xs)"
  by (simp add: list_all_iff)

definition dated_user :: "user \<Rightarrow> bool" where
  "dated_user u \<longleftrightarrow> storable (user_CreatedAt u) \<and> storable (user_UpdatedAt u)"

definition dated_share :: "share \<Rightarrow> bool" where
  "dated_share s \<longleftrightarrow> storable (share_CreatedAt s) \<and> storable (share_UpdatedAt s)"

definition dated_view :: "dns_view \<Rightarrow> bool" where
  "dated_view v \<longleftrightarrow> storable (view_CreatedAt v) \<and> storable (view_UpdatedAt v)"

definition numbered :: "int option \<Rightarrow> bool" where
  "numbered n \<longleftrightarrow> (\<forall>i. n = Some i \<longrightarrow> 0 \<le> i \<and> i < 2 ^ 64)"

definition dated_revision :: "config_revision \<Rightarrow> bool" where
  "dated_revision r \<longleftrightarrow> numbered (Some (Number r)) \<and> storable (rev_CreatedAt r)"

text \<open>What an operation whose result is decoded by \<open>decode\<close> returns for an answer.\<close>

definition returns :: "(json \<Rightarrow> 'a option) \<Rightarrow> response \<Rightarrow> 'a \<Rightarrow> bool" where
  "returns decode r v \<longleftrightarrow> (\<forall>float_ok. client_answer float_ok (Some decode) (rs_Status r) (response_text r) = Inr (Some v))"

definition returns_list :: "(json \<Rightarrow> 'a option) \<Rightarrow> response \<Rightarrow> 'a list \<Rightarrow> bool" where
  "returns_list decode r vs \<longleftrightarrow> returns (\<lambda>j. decode_list decode j []) r vs"

lemma results_back:
  assumes "legible r" and "rs_Envelope r = Envelope d" and "200 \<le> rs_Status r" and "rs_Status r < 300"
  shows "decode d = Some v \<Longrightarrow> returns decode r v"
    and "d = JArr (map g xs) \<Longrightarrow> (\<And>x. x \<in> set xs \<Longrightarrow> decode (g x) = Some (h x)) \<Longrightarrow> returns_list decode r (map h xs)"
    and "d = JArr (map g ys) \<Longrightarrow> (\<And>y. y \<in> set ys \<Longrightarrow> decode' (g y) = Some y) \<Longrightarrow> returns_list decode' r ys"
proof -
  show direct: "decode d = Some v \<Longrightarrow> returns decode r v" for decode :: "json \<Rightarrow> 'z option" and v
    by (simp add: returns_def answer_of_success(1) [OF assms])
  show "d = JArr (map g xs) \<Longrightarrow> (\<And>x. x \<in> set xs \<Longrightarrow> decode (g x) = Some (h x)) \<Longrightarrow> returns_list decode r (map h xs)"
    unfolding returns_list_def by (rule direct) (simp only: list_back)
  show "d = JArr (map g ys) \<Longrightarrow> (\<And>y. y \<in> set ys \<Longrightarrow> decode' (g y) = Some y) \<Longrightarrow> returns_list decode' r ys"
    unfolding returns_list_def using list_back [of ys decode' g "\<lambda>y. y" "[]"] by (intro direct) simp_all
qed

text \<open>C25. For an answer within the limits of the client, that is one of at most 1 MiB, in UTF-8 and nested no deeper than its JSON
  decoder accepts: an operation that failed gives the caller the status, the code, the message and the details the server wrote; one
  without a result just succeeds; and one with a result gives the very values the server wrote, result by result: accounts, shares,
  permissions, the TLS profile and its checks, DNS credentials, ports, endpoints, the states of the server and of the service, the
  revisions and their state, the validation, and the reports of an import and of an export (with times the database can store,
  numbers of 64 bits, and texts of the TLS profile in UTF-8).\<close>

theorem client_reads_the_answer:
  assumes "legible r"
  shows "case rs_Envelope r of
      Failure e \<Rightarrow> any_decodes float_ok (JObj (api_Details e)) \<longrightarrow>
        client_answer float_ok output (rs_Status r) (response_text r)
          = Inl (APIError (rs_Status r) (api_Code e) (api_Message e) (api_Details e))
    | Envelope d \<Rightarrow> 200 \<le> rs_Status r \<and> rs_Status r < 300 \<longrightarrow>
        client_answer float_ok None (rs_Status r) (response_text r) = Inr (None :: 'a option)
      \<and> (\<forall>us f. d = JArr (map (\<lambda>u. publicUser (f u) u) us) \<and> list_all dated_user us \<longrightarrow>
            returns_list decode_client_user r (map client_user_of us))
      \<and> (\<forall>u f. d = publicUser f u \<and> dated_user u \<longrightarrow> returns decode_client_user r (client_user_of u))
      \<and> (\<forall>ss n. d = JArr (map (\<lambda>s. publicShare (n s) s) ss) \<and> list_all dated_share ss \<longrightarrow> returns_list decode_client_share r ss)
      \<and> (\<forall>s n. d = publicShare n s \<and> dated_share s \<longrightarrow> returns decode_client_share r s)
      \<and> (\<forall>es. d = JArr (map permission_entry_json es) \<longrightarrow> returns_list decode_client_permission r (map client_permission_of es))
      \<and> (\<forall>e. d = permission_entry_json e \<longrightarrow> returns decode_client_permission r (client_permission_of e))
      \<and> (\<forall>p t. d = tls_response p t \<and> tls_text p \<longrightarrow> returns decode_client_tls r (Some p))
      \<and> (d = JNull \<longrightarrow> returns decode_client_tls r None)
      \<and> (\<forall>p. d = tls_json p \<and> tls_text p \<longrightarrow> returns (\<lambda>j. decode_tls j zero_tls) r p)
      \<and> (\<forall>c. d = tls_check_json c \<longrightarrow> returns decode_client_tls_check r c)
      \<and> (\<forall>vs. d = JArr (map dns_view_json vs) \<and> list_all dated_view vs \<longrightarrow> returns_list decode_client_dns r vs)
      \<and> (\<forall>v. d = dns_view_json v \<and> dated_view v \<longrightarrow> returns decode_client_dns r v)
      \<and> (\<forall>s. d = server_settings_json s \<and> int64 (HTTPPort s) \<and> int64 (HTTPSPort s) \<longrightarrow>
            returns decode_client_ports r (HTTPPort s, HTTPSPort s))
      \<and> (\<forall>a b. d = endpoints_json (a, b) \<and> int64 (Port a) \<and> int64 (Port b) \<longrightarrow> returns decode_client_endpoints r (a, b))
      \<and> (\<forall>s. d = server_status_json s \<longrightarrow> returns decode_client_caddy r (sr_Caddy s))
      \<and> (\<forall>m. d = service_status_json m \<longrightarrow> returns decode_client_service r (ss_Installed m, ss_State m))
      \<and> (\<forall>rs. d = JArr (map publicRevision rs) \<and> list_all dated_revision rs \<longrightarrow>
            returns_list decode_client_revision r (map client_revision_of rs))
      \<and> (\<forall>x. d = publicRevision x \<and> dated_revision x \<longrightarrow> returns decode_client_revision r (client_revision_of x))
      \<and> (\<forall>s. d = revision_state_json s \<and> numbered (DesiredRevision s) \<and> numbered (ActiveRevision s) \<longrightarrow> returns decode_client_state r s)
      \<and> (\<forall>v. d = validation_json v \<longrightarrow> returns decode_client_validation r v)
      \<and> (\<forall>i. d = import_result_json i
            \<and> list_all (\<lambda>n. int64 (int n)) [UsersCreated i, UsersUpdated i, SharesCreated i, SharesUpdated i, PermissionsUpserted i]
            \<longrightarrow> returns decode_client_import r (client_import_of i))
      \<and> (\<forall>body. d = JObj [(''contains_secrets'', JBool False), (''content'', JStr body), (''format'', JStr ''yaml'')] \<longrightarrow>
            export_answer (client_answer float_ok (Some decode_client_export) (rs_Status r) (response_text r)) = Inr body)"
proof (cases "rs_Envelope r")
  case (Failure e)
  then show ?thesis unfolding Failure envelope.case by (intro impI answer_of_failure [OF assms Failure])
next
  case (Envelope d)
  note dated = list_all_iff dated_user_def dated_share_def dated_view_def dated_revision_def numbered_def
  show ?thesis
    unfolding Envelope envelope.case
    apply (intro impI conjI allI; elim conjE)
    subgoal using answer_of_success(2) [OF assms Envelope] by blast
    subgoal for us f by (rule results_back(2) [OF assms Envelope]) (auto simp: dated intro: users_back)
    subgoal for u f by (rule results_back(1) [OF assms Envelope]) (auto simp: dated intro: users_back)
    subgoal for ss n by (rule results_back(3) [OF assms Envelope]) (auto simp: dated intro: shares_back)
    subgoal for s n by (rule results_back(1) [OF assms Envelope]) (auto simp: dated intro: shares_back)
    subgoal for es by (rule results_back(2) [OF assms Envelope]) (auto intro: entries_back)
    subgoal for e by (rule results_back(1) [OF assms Envelope]) (auto intro: entries_back)
    subgoal for p t by (rule results_back(1) [OF assms Envelope]) (auto intro: tls_back(1))
    subgoal by (rule results_back(1) [OF assms Envelope]) (auto simp: decode_client_tls_def)
    subgoal for p by (rule results_back(1) [OF assms Envelope]) (auto intro: decode_tls_json)
    subgoal for c by (rule results_back(1) [OF assms Envelope]) (auto intro: checks_back)
    subgoal for vs by (rule results_back(3) [OF assms Envelope]) (auto simp: dated intro: dns_back)
    subgoal for v by (rule results_back(1) [OF assms Envelope]) (auto simp: dated intro: dns_back)
    subgoal for s by (rule results_back(1) [OF assms Envelope]) (auto intro: ports_back)
    subgoal for a b by (rule results_back(1) [OF assms Envelope]) (auto intro: endpoints_back)
    subgoal for s by (rule results_back(1) [OF assms Envelope]) (auto intro: status_back(1))
    subgoal for m by (rule results_back(1) [OF assms Envelope]) (auto intro: status_back(2))
    subgoal for rs by (rule results_back(2) [OF assms Envelope]) (auto simp: dated intro: revisions_back)
    subgoal for x by (rule results_back(1) [OF assms Envelope]) (auto simp: dated intro: revisions_back)
    subgoal for s by (rule results_back(1) [OF assms Envelope]) (auto simp: dated intro: states_back)
    subgoal for v by (rule results_back(1) [OF assms Envelope]) (auto intro: validations_back)
    subgoal for i by (rule results_back(1) [OF assms Envelope]) (auto intro: imports_back)
    subgoal for body by (simp add: answer_of_success(1) [OF assms Envelope] exports_back export_answer_def)
    done
qed

theorem client_reads_the_answer_witness:
  "client_answer (\<lambda>_. True) (Some decode_client_service) 200 (response_text (writeSuccess 200
      (service_status_json \<lparr>ss_Installed = True, ss_State = ''RUNNING'', ss_StartsAtBoot = True, ss_LastErrorCode = []\<rparr>)))
     = Inr (Some (True, ''RUNNING''))
   \<and> client_answer (\<lambda>_. True) (Some decode_client_service) 401 (response_text unauthorized)
     = Inl (APIError 401 ErrorUnauthorized ''Authentication required'' [])"
proof -
  let ?r = "writeSuccess 200 (service_status_json \<lparr>ss_Installed = True, ss_State = ''RUNNING'', ss_StartsAtBoot = True, ss_LastErrorCode = []\<rparr>)"
  note defs = encodeEnvelope_def writeSuccess_def unauthorized_def writeError_def writeJSON_def service_status_json_def omit_empty_str_def
    ErrorUnauthorized_def
  have words: "valid_utf8 w" if "w \<in> {''success'', ''data'', ''installed'', ''state'', ''RUNNING'', ''starts_at_boot'', ''error'', ''code'',
      ''UNAUTHORIZED'', ''message'', ''Authentication required''}" for w
    using that by (elim insertE emptyE) (simp_all only:, (rule literal_utf8, simp add: byte_of_def)+)
  note size = quote_string_length [of "''success''"] quote_string_length [of "''data''"] quote_string_length [of "''installed''"]
    quote_string_length [of "''state''"] quote_string_length [of "''RUNNING''"] quote_string_length [of "''starts_at_boot''"]
    quote_string_length [of "''error''"] quote_string_length [of "''code''"] quote_string_length [of "''UNAUTHORIZED''"]
    quote_string_length [of "''message''"] quote_string_length [of "''Authentication required''"]
  have "legible ?r" "legible unauthorized"
    using size by (simp_all add: legible_def defs words max_nesting_def maximum_response_def response_text_def json_marshal_def)
  note answers = client_reads_the_answer [OF this(1), of "\<lambda>_. True"]
    client_reads_the_answer [OF this(2), of "\<lambda>_. True" "Some decode_client_service"]
  let ?m = "\<lparr>ss_Installed = True, ss_State = ''RUNNING'', ss_StartsAtBoot = True, ss_LastErrorCode = []\<rparr>"
  have r: "rs_Envelope ?r = Envelope (service_status_json ?m)" "rs_Status ?r = 200" by (simp_all add: writeSuccess_def writeJSON_def)
  have "returns decode_client_service ?r (ss_Installed ?m, ss_State ?m)"
  proof -
    have "200 \<le> (200 :: nat) \<and> (200 :: nat) < 300" by simp
    from mp [OF answers(1) [unfolded r envelope.case] this]
    have "\<forall>m. service_status_json ?m = service_status_json m \<longrightarrow> returns decode_client_service ?r (ss_Installed m, ss_State m)"
      by (elim conjE)
    then show ?thesis by blast
  qed
  then have "client_answer (\<lambda>_. True) (Some decode_client_service) 200 (response_text ?r) = Inr (Some (True, ''RUNNING''))"
    unfolding returns_def r by simp
  moreover have "client_answer (\<lambda>_. True) (Some decode_client_service) 401 (response_text unauthorized)
      = Inl (APIError 401 ErrorUnauthorized ''Authentication required'' [])"
    using answers(2) by (simp add: unauthorized_def writeError_def writeJSON_def)
  ultimately show ?thesis by blast
qed

end
