(* ===== verification/Api_Token.thy ===== *)
theory Api_Token
  imports Go_Strings
begin

text \<open>
  The file of the management token (\<^verbatim>\<open>internal/api/token.go\<close>), with the unpadded URL alphabet of \<^verbatim>\<open>encoding/base64\<close>.  Which calls of the
  operating system fail is an argument.
\<close>

section \<open>Base 64\<close>

definition alphabet :: string where
  "alphabet = ''ABCDEFGHIJKLMNOPQRSTUVWXYZabcdefghijklmnopqrstuvwxyz0123456789-_''"

text \<open>Bytes as groups of six bits, and back; the bits that are left over are not looked at.\<close>

fun sextets :: "nat list \<Rightarrow> nat list" where
  "sextets [] = []"
| "sextets [a] = [a div 4, a mod 4 * 16]"
| "sextets [a, b] = [a div 4, a mod 4 * 16 + b div 16, b mod 16 * 4]"
| "sextets (a # b # c # bs) = a div 4 # (a mod 4 * 16 + b div 16) # (b mod 16 * 4 + c div 64) # c mod 64 # sextets bs"

fun octets :: "nat list \<Rightarrow> nat list option" where
  "octets [] = Some []"
| "octets [x] = None"
| "octets [x, y] = Some [x * 4 + y div 16]"
| "octets [x, y, z] = Some [x * 4 + y div 16, y mod 16 * 16 + z div 4]"
| "octets (x # y # z # w # xs) =
     map_option (\<lambda>bs. (x * 4 + y div 16) # (y mod 16 * 16 + z div 4) # (z mod 4 * 64 + w) # bs) (octets xs)"

definition RawURL_encode :: "string \<Rightarrow> string" where
  "RawURL_encode bytes = map (\<lambda>n. alphabet ! n) (sextets (map byte_of bytes))"

fun digits64 :: "string \<Rightarrow> nat list option" where
  "digits64 [] = Some []"
| "digits64 (c # cs) =
     (case map_of (zip alphabet [0..<64]) c of None \<Rightarrow> None | Some n \<Rightarrow> map_option ((#) n) (digits64 cs))"

text \<open>The decoder skips line breaks.\<close>

definition RawURL_decode :: "string \<Rightarrow> string option" where
  "RawURL_decode s =
     map_option (map char_of) (Option.bind (digits64 (filter (\<lambda>c. c \<noteq> CHR 0x0A \<and> c \<noteq> CHR 0x0D) s)) octets)"

section \<open>The file\<close>

datatype token_node = Missing | Regular string | NotRegular

record token_directory =
  td_Token :: token_node
  td_Leftover :: nat

datatype token_error =
    DirectoryFailed | UnsafePath | SecureFailed | ReadFailed | InvalidToken | RandomFailed | CreateFailed | WriteFailed | CloseFailed | RenameFailed

record token_faults =
  fail_directory :: bool
  fail_secure_directory :: bool
  fail_lstat :: bool
  fail_secure :: bool
  fail_read :: bool
  fail_create :: bool
  fail_secure_temporary :: bool
  fail_write :: bool
  fail_close :: bool
  fail_rename :: bool
  fail_secure_installed :: bool
  fail_remove :: bool

definition no_faults :: token_faults where
  "no_faults = \<lparr>fail_directory = False, fail_secure_directory = False, fail_lstat = False, fail_secure = False, fail_read = False,
     fail_create = False, fail_secure_temporary = False, fail_write = False, fail_close = False, fail_rename = False,
     fail_secure_installed = False, fail_remove = False\<rparr>"

definition validateToken :: "string \<Rightarrow> bool" where
  "validateToken token \<longleftrightarrow> (case RawURL_decode token of None \<Rightarrow> False | Some bytes \<Rightarrow> length bytes = 32)"

definition load_token :: "token_faults \<Rightarrow> string \<Rightarrow> token_error + string" where
  "load_token f body =
     (if fail_secure f then Inl SecureFailed
      else if fail_read f then Inl ReadFailed
      else if validateToken (trim_space body) then Inr (trim_space body) else Inl InvalidToken)"

text \<open>The token is written to a temporary file, which is renamed once it is complete; a temporary file that cannot be removed is left over.\<close>

definition create_token :: "token_faults \<Rightarrow> string option \<Rightarrow> token_directory \<Rightarrow> token_directory \<times> (token_error + string)" where
  "create_token f random d =
     (case random of None \<Rightarrow> (d, Inl RandomFailed)
      | Some bytes \<Rightarrow>
          let token = RawURL_encode bytes;
              abandoned = d\<lparr>td_Leftover := td_Leftover d + (if fail_remove f then 1 else 0)\<rparr>;
              installed = d\<lparr>td_Token := Regular (token @ [CHR 0x0A])\<rparr> in
          if fail_create f then (d, Inl CreateFailed)
          else if fail_secure_temporary f then (abandoned, Inl SecureFailed)
          else if fail_write f then (abandoned, Inl WriteFailed)
          else if fail_close f then (abandoned, Inl CloseFailed)
          else if fail_rename f then (abandoned, Inl RenameFailed)
          else (installed, if fail_secure_installed f then Inl SecureFailed else Inr token))"

definition LoadOrCreateToken :: "token_faults \<Rightarrow> string option \<Rightarrow> token_directory \<Rightarrow> token_directory \<times> (token_error + string)" where
  "LoadOrCreateToken f random d =
     (if fail_directory f then (d, Inl DirectoryFailed)
      else if fail_secure_directory f then (d, Inl SecureFailed)
      else if fail_lstat f then (d, Inl ReadFailed)
      else case td_Token d of
        NotRegular \<Rightarrow> (d, Inl UnsafePath)
      | Regular body \<Rightarrow> (d, load_token f body)
      | Missing \<Rightarrow> create_token f random d)"

section \<open>Round trip\<close>

lemma packed:
  fixes q m x :: nat
  assumes "q < m" shows "(x * m + q) div m = x" and "(x * m + q) mod m = q"
  using assms by simp_all

lemma octets_sextets: "\<forall>b \<in> set bs. b < 256 \<Longrightarrow> octets (sextets bs) = Some bs"
proof (induction bs rule: sextets.induct)
  case (3 a b)
  then have "b div 16 < 16" by auto
  then show ?case by (simp add: packed del: div_mult_self3 mod_mult_self3)
next
  case (4 a b c bs)
  then have "b div 16 < 16" "c div 64 < 4" by auto
  with 4 show ?case by (simp add: packed del: div_mult_self3 mod_mult_self3)
qed simp_all

lemma small_packed:
  fixes x q :: nat
  assumes "x < k" and "q < m" shows "x * m + q < k * m"
  using mult_le_mono1 [of "Suc x" k m] assms by simp

lemma sextets_small: "\<forall>b \<in> set bs. b < 256 \<Longrightarrow> \<forall>n \<in> set (sextets bs). n < 64"
proof (induction bs rule: sextets.induct)
  case (3 a b)
  then show ?case using small_packed [of "a mod 4" 4 "b div 16" 16] by auto
next
  case (4 a b c bs)
  then show ?case
    using small_packed [of "a mod 4" 4 "b div 16" 16] small_packed [of "b mod 16" 16 "c div 64" 4] by auto
qed auto

lemma alphabet_distinct: "distinct alphabet"
  by (simp add: alphabet_def)

lemma alphabet_plain: "\<forall>c \<in> set alphabet. byte_of c < 128 \<and> \<not> is_space (byte_of c) \<and> c \<noteq> CHR 0x0A \<and> c \<noteq> CHR 0x0D"
  by (simp add: alphabet_def byte_of_def is_space_def)

lemma alphabet_length: "length alphabet = 64"
  by (simp add: alphabet_def)

lemma digits64_digits: "\<forall>n \<in> set ns. n < 64 \<Longrightarrow> digits64 (map ((!) alphabet) ns) = Some ns"
  by (induction ns) (simp_all add: map_of_zip_nth alphabet_distinct alphabet_length)

lemma encoded_digits: "set (RawURL_encode bytes) \<subseteq> set alphabet"
  using sextets_small [of "map byte_of bytes"]
  by (auto simp: RawURL_encode_def byte_of_def alphabet_length intro!: nth_mem)

lemma decode_encode: "RawURL_decode (RawURL_encode bytes) = Some bytes"
proof -
  have bytes: "\<forall>b \<in> set (map byte_of bytes). b < 256" by (auto simp: byte_of_def)
  have "filter (\<lambda>c. c \<noteq> CHR 0x0A \<and> c \<noteq> CHR 0x0D) (RawURL_encode bytes) = RawURL_encode bytes"
    using encoded_digits [of bytes] alphabet_plain by (auto simp: filter_id_conv)
  moreover have "digits64 (RawURL_encode bytes) = Some (sextets (map byte_of bytes))"
    using digits64_digits [OF sextets_small [OF bytes]] by (simp add: RawURL_encode_def)
  ultimately show ?thesis
    using octets_sextets [OF bytes] by (simp add: RawURL_decode_def comp_def byte_of_def)
qed

lemma trim_line:
  assumes "\<forall>c \<in> set s. byte_of c < 128 \<and> \<not> is_space (byte_of c)"
  shows "trim_space (s @ [CHR 0x0A]) = s"
proof -
  have keep: "dropWhile (is_space \<circ> byte_of) t = t" if "set t \<subseteq> set s" for t
    using that assms by (cases t) auto
  have "ascii (s @ [CHR 0x0A])" using assms by (auto simp: ascii_def list_all_iff byte_of_def)
  moreover have "dropWhile (is_space \<circ> byte_of) (s @ [CHR 0x0A]) = (if s = [] then [] else s @ [CHR 0x0A])"
    using assms by (cases s) (auto simp: is_space_def byte_of_def)
  ultimately show ?thesis
    using keep [of "rev s"] by (simp add: trim_space_ascii) (simp add: is_space_def byte_of_def)
qed

lemma installed_text: "trim_space (RawURL_encode bytes @ [CHR 0x0A]) = RawURL_encode bytes"
  using encoded_digits [of bytes] alphabet_plain by (intro trim_line) blast

section \<open>The token is kept\<close>

text \<open>C24. The token file is never left half written, and a token, once given out, stays the token: a call that
  fails, at any of its steps, leaves an existing file as it was, and leaves no file or the complete new token where there was none; the
  token a call returns has 256 bits, those of the random generator if it is new, and every later call returns the same one.\<close>

theorem token_is_kept:
  assumes "\<forall>bytes. random = Some bytes \<longrightarrow> length bytes = 32" and "LoadOrCreateToken f random d = (d1, r)"
  shows "(td_Token d1 = td_Token d
      \<or> td_Token d = Missing \<and> (\<exists>bytes. random = Some bytes \<and> td_Token d1 = Regular (RawURL_encode bytes @ [CHR 0x0A])))
    \<and> (\<forall>token. r = Inr token \<longrightarrow>
        (\<exists>bytes. RawURL_decode token = Some bytes \<and> length bytes = 32 \<and> (td_Token d = Missing \<longrightarrow> random = Some bytes))
        \<and> (\<forall>other. LoadOrCreateToken no_faults other d1 = (d1, Inr token)))"
proof (cases "td_Token d")
  case Missing
  then show ?thesis using assms
    by (auto simp: LoadOrCreateToken_def create_token_def load_token_def no_faults_def Let_def validateToken_def installed_text decode_encode
      split: if_splits option.splits)
next
  case (Regular body)
  then show ?thesis using assms
    by (auto simp: LoadOrCreateToken_def load_token_def no_faults_def validateToken_def split: if_splits option.splits)
next
  case NotRegular
  then show ?thesis using assms by (auto simp: LoadOrCreateToken_def split: if_splits)
qed

theorem token_is_kept_witness:
  "\<exists>d1 token. LoadOrCreateToken no_faults (Some (replicate 32 CHR 0xFB)) \<lparr>td_Token = Missing, td_Leftover = 0\<rparr> = (d1, Inr token)
    \<and> RawURL_decode token = Some (replicate 32 CHR 0xFB) \<and> LoadOrCreateToken no_faults None d1 = (d1, Inr token)"
proof -
  let ?random = "Some (replicate 32 CHR 0xFB)"
  obtain d1 r where run: "LoadOrCreateToken no_faults ?random \<lparr>td_Token = Missing, td_Leftover = 0\<rparr> = (d1, r)" by fastforce
  then obtain token where token: "r = Inr token" by (auto simp: LoadOrCreateToken_def create_token_def no_faults_def Let_def)
  have "\<forall>bytes. ?random = Some bytes \<longrightarrow> length bytes = 32" by simp
  from token_is_kept [OF this run] token run show ?thesis by auto
qed

end
