(* ===== verification/Dnspod.thy ===== *)
theory Dnspod
  imports Go_Numbers Snapshot_Roundtrip "HOL-Library.Word"
begin

text \<open>
  The Caddy module that answers DNS challenges through DNSPod (\<^verbatim>\<open>caddy/caddy-dnspod\<close>), over the client library of DNSPod, whose state,
  the zones of the account, is arbitrary.
\<close>

section \<open>Records\<close>

text \<open>\<open>libdns.RR\<close>, whose lifetime is a duration in nanoseconds, and the two kinds of record this module meets: its own, which carry the
  identifier DNSPod gave them, and those of other packages.\<close>

record rr =
  rr_Type :: string
  rr_Name :: string
  rr_Data :: string
  rr_TTL :: int

datatype libdns_record = Foreign rr | Owned string rr

fun RR :: "libdns_record \<Rightarrow> rr" where
  "RR (Foreign r) = r"
| "RR (Owned i r) = r"

definition record_id :: "libdns_record \<Rightarrow> string" where
  "record_id r = (case r of Owned i _ \<Rightarrow> i | Foreign _ \<Rightarrow> [])"

record pod_record =
  pod_ID :: string
  pod_Type :: string
  pod_Name :: string
  pod_Value :: string
  pod_TTL :: string
  pod_Line :: string

text \<open>The client library: the domains of the account, by name and identifier, and the calls on the records of a domain.\<close>

record 'w pod_api =
  Domains_List :: "'w \<Rightarrow> 'w \<times> (string + (string \<times> string) list)"
  Records_List :: "string \<Rightarrow> 'w \<Rightarrow> 'w \<times> (string + pod_record list)"
  Records_Create :: "string \<Rightarrow> pod_record \<Rightarrow> 'w \<Rightarrow> 'w \<times> (string + pod_record)"
  Records_Update :: "string \<Rightarrow> string \<Rightarrow> pod_record \<Rightarrow> 'w \<Rightarrow> 'w \<times> (string + pod_record)"
  Records_Delete :: "string \<Rightarrow> string \<Rightarrow> 'w \<Rightarrow> 'w \<times> (string + unit)"

datatype pod_error =
    PodLibrary string | DomainNotFound string | NoRecordID | FallbackFailed string string | FallbackNoRecordID string

section \<open>Conversions\<close>

definition second :: int where
  "second = 1000000000"

text \<open>The product of two durations wraps around.\<close>

definition toLibdnsRecord :: "pod_record \<Rightarrow> libdns_record" where
  "toLibdnsRecord r = Owned (pod_ID r)
     \<lparr>rr_Type = pod_Type r, rr_Name = pod_Name r, rr_Data = pod_Value r,
      rr_TTL = sint (word_of_int (atoi_value (pod_TTL r)) * word_of_int second :: 64 word)\<rparr>"

definition withRecordID :: "libdns_record \<Rightarrow> string \<Rightarrow> libdns_record" where
  "withRecordID r i = Owned i (RR r)"

text \<open>\<^verbatim>\<open>Sprintf("%.0f", d.Seconds())\<close>: the nearest whole number of seconds, the even one of two.  The sum \<^verbatim>\<open>Seconds\<close> makes in floating
  point is near enough to decide it for durations below 2 ^ 22 seconds, where its error is less than half a nanosecond.\<close>

definition whole_seconds :: "int \<Rightarrow> int" where
  "whole_seconds d =
     (let q = d div second; r = d mod second
      in if 2 * r < second \<or> (2 * r = second \<and> even q) then q else q + 1)"

definition default_line :: string where
  "default_line = map char_of [233, 187, 152, 232, 174, 164 :: nat]"

definition fromLibdnsRecord :: "libdns_record \<Rightarrow> pod_record" where
  "fromLibdnsRecord r =
     \<lparr>pod_ID = [], pod_Type = rr_Type (RR r), pod_Name = rr_Name (RR r), pod_Value = rr_Data (RR r),
      pod_TTL = show_int (whole_seconds (rr_TTL (RR r))), pod_Line = default_line\<rparr>"

definition trim_dots :: "string \<Rightarrow> string" where
  "trim_dots zone = rev (dropWhile (\<lambda>c. c = CHR ''.'') (rev (dropWhile (\<lambda>c. c = CHR ''.'') zone)))"

definition getDomainID :: "'w pod_api \<Rightarrow> string \<Rightarrow> 'w \<Rightarrow> 'w \<times> (pod_error + string)" where
  "getDomainID api zone w =
     (if Atoi zone \<noteq> None then (w, Inr zone)
      else case Domains_List api w of
        (w1, Inl e) \<Rightarrow> (w1, Inl (PodLibrary e))
      | (w1, Inr domains) \<Rightarrow>
          (w1, case find (\<lambda>(name, _). name = zone) domains of None \<Rightarrow> Inl (DomainNotFound zone) | Some (_, i) \<Rightarrow> Inr i))"

text \<open>Every operation starts with the domain of its zone.\<close>

definition in_zone :: "'w pod_api \<Rightarrow> string \<Rightarrow> (string \<Rightarrow> 'w \<Rightarrow> 'w \<times> ('a list \<times> pod_error option)) \<Rightarrow> 'w \<Rightarrow> 'w \<times> ('a list \<times> pod_error option)" where
  "in_zone api zone run w =
     (case getDomainID api (trim_dots zone) w of (w1, Inl e) \<Rightarrow> (w1, ([], Some e)) | (w1, Inr i) \<Rightarrow> run i w1)"

section \<open>Operations\<close>

definition GetRecords :: "'w pod_api \<Rightarrow> string \<Rightarrow> 'w \<Rightarrow> 'w \<times> (libdns_record list \<times> pod_error option)" where
  "GetRecords api zone = in_zone api zone (\<lambda>i w.
     case Records_List api i w of
       (w1, Inl e) \<Rightarrow> (w1, ([], Some (PodLibrary e))) | (w1, Inr rs) \<Rightarrow> (w1, (map toLibdnsRecord rs, None)))"

text \<open>A step on each record; the first error ends the loop with what was done before it.  A step without a result skips its record.\<close>

fun each_record ::
  "(libdns_record \<Rightarrow> 'w \<Rightarrow> 'w \<times> (pod_error + libdns_record option)) \<Rightarrow> libdns_record list \<Rightarrow> 'w
     \<Rightarrow> 'w \<times> (libdns_record list \<times> pod_error option)" where
  "each_record step [] w = (w, ([], None))"
| "each_record step (r # rs) w =
     (case step r w of
        (w1, Inl e) \<Rightarrow> (w1, ([], Some e))
      | (w1, Inr done_one) \<Rightarrow>
          (case each_record step rs w1 of (w2, (out, e)) \<Rightarrow> (w2, (case done_one of None \<Rightarrow> out | Some x \<Rightarrow> x # out, e))))"

definition create_record :: "'w pod_api \<Rightarrow> string \<Rightarrow> pod_record \<Rightarrow> 'w \<Rightarrow> 'w \<times> (pod_error + string)" where
  "create_record api i r w =
     (case Records_Create api i r w of
        (w1, Inl e) \<Rightarrow> (w1, Inl (PodLibrary e))
      | (w1, Inr created) \<Rightarrow> (w1, if pod_ID created = [] then Inl NoRecordID else Inr (pod_ID created)))"

definition append_step :: "'w pod_api \<Rightarrow> string \<Rightarrow> libdns_record \<Rightarrow> 'w \<Rightarrow> 'w \<times> (pod_error + libdns_record option)" where
  "append_step api i r w =
     (case create_record api i (fromLibdnsRecord r) w of
        (w1, Inl e) \<Rightarrow> (w1, Inl e) | (w1, Inr new) \<Rightarrow> (w1, Inr (Some (withRecordID r new))))"

definition AppendRecords :: "'w pod_api \<Rightarrow> string \<Rightarrow> libdns_record list \<Rightarrow> 'w \<Rightarrow> 'w \<times> (libdns_record list \<times> pod_error option)" where
  "AppendRecords api zone rs = in_zone api zone (\<lambda>i. each_record (append_step api i) rs)"

text \<open>An update that fails is replaced by a deletion, whose failure is ignored, and a creation.\<close>

definition fallback :: "'w pod_api \<Rightarrow> string \<Rightarrow> string \<Rightarrow> pod_record \<Rightarrow> 'w \<Rightarrow> 'w \<times> (pod_error + string)" where
  "fallback api i old r w =
     (case create_record api i r (fst (Records_Delete api i old w)) of
        (w1, Inl (PodLibrary e)) \<Rightarrow> (w1, Inl (FallbackFailed old e))
      | (w1, Inl _) \<Rightarrow> (w1, Inl (FallbackNoRecordID old))
      | (w1, Inr new) \<Rightarrow> (w1, Inr new))"

definition set_step :: "'w pod_api \<Rightarrow> string \<Rightarrow> libdns_record \<Rightarrow> 'w \<Rightarrow> 'w \<times> (pod_error + libdns_record option)" where
  "set_step api i r w =
     (if record_id r = [] then append_step api i r w
      else let rec = (fromLibdnsRecord r)\<lparr>pod_ID := record_id r\<rparr> in
        case Records_Update api i (record_id r) rec w of
          (w1, Inr updated) \<Rightarrow> (w1, Inr (Some (withRecordID r (if pod_ID updated = [] then record_id r else pod_ID updated))))
        | (w1, Inl _) \<Rightarrow>
            (case fallback api i (record_id r) rec w1 of
               (w2, Inl e) \<Rightarrow> (w2, Inl e) | (w2, Inr new) \<Rightarrow> (w2, Inr (Some (withRecordID r new)))))"

definition SetRecords :: "'w pod_api \<Rightarrow> string \<Rightarrow> libdns_record list \<Rightarrow> 'w \<Rightarrow> 'w \<times> (libdns_record list \<times> pod_error option)" where
  "SetRecords api zone rs = in_zone api zone (\<lambda>i. each_record (set_step api i) rs)"

definition delete_step :: "'w pod_api \<Rightarrow> string \<Rightarrow> libdns_record \<Rightarrow> 'w \<Rightarrow> 'w \<times> (pod_error + libdns_record option)" where
  "delete_step api i r w =
     (if record_id r = [] then (w, Inr None)
      else case Records_Delete api i (record_id r) w of
        (w1, Inl e) \<Rightarrow> (w1, Inl (PodLibrary e)) | (w1, Inr _) \<Rightarrow> (w1, Inr (Some r)))"

definition DeleteRecords :: "'w pod_api \<Rightarrow> string \<Rightarrow> libdns_record list \<Rightarrow> 'w \<Rightarrow> 'w \<times> (libdns_record list \<times> pod_error option)" where
  "DeleteRecords api zone rs = in_zone api zone (\<lambda>i. each_record (delete_step api i) rs)"

text \<open>The token of the module: the replacer of Caddy fills in its placeholders.\<close>

definition Provision_token :: "(string \<Rightarrow> string) \<Rightarrow> string \<Rightarrow> string" where
  "Provision_token replace token = replace token"

section \<open>Challenges\<close>

text \<open>
  What a domain of DNSPod looks like after the module's operations, while nobody else edits it.
\<close>

section \<open>The service\<close>

text \<open>
  \<open>table\<close> is the content of domain \<open>i\<close>.  A call that reports success took effect: a created record has an identifier no record of
  the domain had, which the answer carries or leaves out, and a deletion removed the record it names.  A call that reports an
  error, a timeout for one, may or may not have taken effect.
\<close>

definition keeps_table :: "'w pod_api \<Rightarrow> string \<Rightarrow> ('w \<Rightarrow> string \<Rightarrow> pod_record option) \<Rightarrow> bool" where
  "keeps_table api i table \<longleftrightarrow>
     (\<forall>r w w1 x. Records_Create api i r w = (w1, x) \<longrightarrow>
        (\<exists>e. x = Inl e) \<and> table w1 = table w
        \<or> (\<exists>k. k \<notin> dom (table w) \<and> table w1 = (table w)(k \<mapsto> r\<lparr>pod_ID := k\<rparr>) \<and> (\<forall>c. x = Inr c \<longrightarrow> pod_ID c \<in> {[], k})))
   \<and> (\<forall>j w w1 x. Records_Delete api i j w = (w1, x) \<longrightarrow>
        (\<exists>e. x = Inl e) \<and> table w1 = table w \<or> table w1 = (table w)(j := None))"

text \<open>The zone, if it is found, is domain \<open>i\<close>, and asking for it changes nothing.\<close>

definition finds_domain :: "'w pod_api \<Rightarrow> string \<Rightarrow> string \<Rightarrow> ('w \<Rightarrow> string \<Rightarrow> pod_record option) \<Rightarrow> bool" where
  "finds_domain api zone i table \<longleftrightarrow>
     (\<forall>w w1 x. getDomainID api (trim_dots zone) w = (w1, x) \<longrightarrow> table w1 = table w \<and> (\<forall>j. x = Inr j \<longrightarrow> j = i))"

lemma in_zone_cases:
  assumes "finds_domain api zone i table" and "in_zone api zone run w = (w', r)"
  obtains (failed) err where "r = ([], Some err)" "table w' = table w"
    | (found) w1 where "run i w1 = (w', r)" "table w1 = table w"
proof -
  obtain w1 x where g: "getDomainID api (trim_dots zone) w = (w1, x)" by fastforce
  then have "table w1 = table w \<and> (\<forall>j. x = Inr j \<longrightarrow> j = i)" using assms(1) unfolding finds_domain_def by blast
  with g assms(2) show thesis by (cases x) (auto simp: in_zone_def intro: that)
qed

lemma created_cases:
  assumes "keeps_table api i table" and "Records_Create api i r w = (w1, x)"
  obtains (failed) e where "x = Inl e" "table w1 = table w"
    | (stored) k where "k \<notin> dom (table w)" "table w1 = (table w)(k \<mapsto> r\<lparr>pod_ID := k\<rparr>)" "\<And>c. x = Inr c \<Longrightarrow> pod_ID c \<in> {[], k}"
  using assms unfolding keeps_table_def by metis

lemma deleted_cases:
  assumes "keeps_table api i table" and "Records_Delete api i j w = (w1, x)"
  obtains (failed) e where "x = Inl e" "table w1 = table w" | (gone) "table w1 = (table w)(j := None)"
  using assms unfolding keeps_table_def by metis

section \<open>Adding and removing\<close>

definition entry_of :: "libdns_record \<Rightarrow> string \<times> pod_record" where
  "entry_of a = (record_id a, (fromLibdnsRecord a)\<lparr>pod_ID := record_id a\<rparr>)"

definition entries :: "libdns_record list \<Rightarrow> string \<Rightarrow> pod_record option" where
  "entries added = map_of (map entry_of added)"

lemma dom_entries: "dom (entries added) = record_id ` set added"
  by (simp add: entries_def dom_map_of_conv_image_fst image_image entry_of_def)

text \<open>What a run that stopped at record \<open>n\<close> may have left beside the records it returns: that record, when the call for it took effect
  all the same.\<close>

definition left_behind :: "(string \<Rightarrow> pod_record option) \<Rightarrow> libdns_record list \<Rightarrow> nat \<Rightarrow> pod_error option \<Rightarrow> (string \<Rightarrow> pod_record option) \<Rightarrow> bool" where
  "left_behind t rs n e extra \<longleftrightarrow> extra = Map.empty
     \<or> (e \<noteq> None \<and> n < length rs \<and> (\<exists>k. k \<notin> dom t \<and> extra = [k \<mapsto> (fromLibdnsRecord (rs ! n))\<lparr>pod_ID := k\<rparr>]))"

lemma append_step_cases:
  assumes "keeps_table api i table" and "append_step api i r w = (w1, x)"
  obtains (unchanged) e where "x = Inl e" "table w1 = table w"
    | (lost) e k where "x = Inl e" "k \<notin> dom (table w)" "table w1 = (table w)(k \<mapsto> (fromLibdnsRecord r)\<lparr>pod_ID := k\<rparr>)"
    | (added) n where "x = Inr (Some (Owned n (RR r)))" "n \<noteq> []" "n \<notin> dom (table w)"
        "table w1 = (table w)(n \<mapsto> (fromLibdnsRecord r)\<lparr>pod_ID := n\<rparr>)"
proof -
  obtain w2 y where run: "Records_Create api i (fromLibdnsRecord r) w = (w2, y)" by fastforce
  from assms(1) run show thesis
  proof (cases rule: created_cases)
    case (failed e)
    then show thesis using assms(2) run by (intro unchanged [of "PodLibrary e"]) (auto simp: append_step_def create_record_def)
  next
    case (stored k)
    show thesis
    proof (cases y)
      case (Inl e)
      then show thesis using assms(2) run stored by (intro lost [of "PodLibrary e" k]) (auto simp: append_step_def create_record_def)
    next
      case (Inr c)
      show thesis
      proof (cases "pod_ID c = []")
        case True
        then show thesis using assms(2) run stored Inr by (intro lost [of NoRecordID k]) (auto simp: append_step_def create_record_def)
      next
        case False
        then show thesis using assms(2) run stored Inr
          by (intro added [of k]) (auto simp: append_step_def create_record_def withRecordID_def)
      qed
    qed
  qed
qed

lemma append_loop:
  assumes "keeps_table api i table" and "each_record (append_step api i) rs w = (w1, (added, e))"
  shows "(\<exists>extra. left_behind (table w ++ entries added) rs (length added) e extra \<and> table w1 = table w ++ entries added ++ extra)
    \<and> distinct (map record_id added) \<and> record_id ` set added \<inter> dom (table w) = {} \<and> [] \<notin> record_id ` set added
    \<and> map RR added = map RR (take (length added) rs) \<and> (e = None \<longrightarrow> length added = length rs)"
  using assms(2)
proof (induction rs arbitrary: w added)
  case (Cons r rs)
  obtain w2 x where step: "append_step api i r w = (w2, x)" by fastforce
  from assms(1) step show ?case
  proof (cases rule: append_step_cases)
    case (unchanged e')
    then show ?thesis using Cons.prems step by (auto simp: entries_def left_behind_def)
  next
    case (lost e' k)
    then have "w1 = w2" "added = []" "e = Some e'" using Cons.prems step by auto
    then show ?thesis using lost by (auto simp: entries_def left_behind_def intro!: exI [of _ "[k \<mapsto> _]"])
  next
    case (added n)
    obtain out where out: "each_record (append_step api i) rs w2 = (w1, (out, e))" "added = Owned n (RR r) # out"
      using Cons.prems step added(1) by (auto split: prod.splits)
    note ih = Cons.IH [OF out(1)]
    have fresh: "n \<notin> record_id ` set out" using ih added(4) by auto
    have "entry_of (Owned n (RR r)) = (n, (fromLibdnsRecord r)\<lparr>pod_ID := n\<rparr>)"
      by (simp add: entry_of_def record_id_def fromLibdnsRecord_def)
    then have "entries added = (entries out)(n \<mapsto> (fromLibdnsRecord r)\<lparr>pod_ID := n\<rparr>)" by (simp add: out(2) entries_def)
    moreover have "n \<notin> dom (entries out)" using fresh dom_entries by simp
    ultimately have same: "table w ++ entries added = table w2 ++ entries out"
      using added(4) by (simp add: map_add_upd_left)
    have "\<exists>extra. left_behind (table w ++ entries added) (r # rs) (length added) e extra \<and> table w1 = table w ++ entries added ++ extra"
      using conjunct1 [OF ih] unfolding same by (auto simp: left_behind_def out(2))
    moreover have "record_id ` set out \<inter> dom (table w) = {}" using ih added(4) by auto
    ultimately show ?thesis using ih added(2,3) fresh by (simp add: out(2)) (simp add: record_id_def)
  qed
qed (simp add: entries_def left_behind_def)

lemma delete_loop:
  assumes "keeps_table api i table" and "each_record (delete_step api i) rs w = (w1, (deleted, e))" and "[] \<notin> record_id ` set rs"
  shows "table w1 \<subseteq>\<^sub>m table w \<and> (\<forall>k. k \<notin> record_id ` set rs \<longrightarrow> table w1 k = table w k)
    \<and> (e = None \<longrightarrow> deleted = rs \<and> table w1 = table w |` (- (record_id ` set rs)))"
  using assms(2,3)
proof (induction rs arbitrary: w deleted)
  case (Cons r rs)
  obtain w2 x where run: "Records_Delete api i (record_id r) w = (w2, x)" by fastforce
  have smaller: "table w2 \<subseteq>\<^sub>m table w \<and> (\<forall>k. k \<noteq> record_id r \<longrightarrow> table w2 k = table w k)"
    using assms(1) run by (cases rule: deleted_cases) (auto simp: map_le_def)
  show ?case
  proof (cases x)
    case (Inl err)
    then show ?thesis using Cons.prems run smaller by (auto simp: delete_step_def)
  next
    case (Inr u)
    have gone: "table w2 = (table w)(record_id r := None)"
      using assms(1) run Inr by (cases rule: deleted_cases) auto
    have step: "delete_step api i r w = (w2, Inr (Some r))" using Cons.prems(2) run Inr by (auto simp: delete_step_def)
    obtain out where out: "each_record (delete_step api i) rs w2 = (w1, (out, e))" "deleted = r # out"
      using Cons.prems(1) step by (auto split: prod.splits)
    have "table w1 \<subseteq>\<^sub>m table w" using Cons.IH [OF out(1)] Cons.prems(2) smaller map_le_trans by auto
    then show ?thesis
      using Cons.IH [OF out(1)] Cons.prems(2) smaller by (auto simp: out(2) gone restrict_map_def fun_eq_iff)
  qed
qed (simp add: restrict_map_def)

lemma remove_entries:
  assumes "record_id ` set added \<inter> dom t = {}" and "dom extra \<inter> record_id ` set added = {}"
  shows "(t ++ entries added ++ extra) |` (- (record_id ` set added)) = t ++ extra"
proof (rule ext)
  fix x
  have "x \<in> record_id ` set added \<longleftrightarrow> entries added x \<noteq> None" using dom_entries [of added] by auto
  moreover have "t x = None \<and> extra x = None" if "x \<in> record_id ` set added" using that assms by blast
  ultimately show "((t ++ entries added ++ extra) |` (- (record_id ` set added))) x = (t ++ extra) x"
    by (cases "x \<in> record_id ` set added") (auto simp: restrict_map_def map_add_def split: option.splits)
qed

text \<open>C22. Over a DNSPod whose successful calls take effect and whose failed calls may or may not, and whose domain nobody else edits, the
  records of a challenge are added as they were asked for and returned with the identifiers that remove them: after adding, the
  domain is what it was, the returned records, and at most one more, the record whose call failed or whose answer had no
  identifier; there is no such record when no error is reported.  Deleting what was returned, also when adding stopped at an error,
  takes away exactly these records when it succeeds, and never another one when it fails.\<close>

theorem challenge_records_are_cleaned_up:
  assumes "keeps_table api i table" and "finds_domain api zone i table" and "AppendRecords api zone rs w = (w1, (added, e))"
  shows "map RR added = map RR (take (length added) rs) \<and> (e = None \<longrightarrow> length added = length rs)
    \<and> distinct (map record_id added) \<and> record_id ` set added \<inter> dom (table w) = {}
    \<and> (\<exists>extra. left_behind (table w ++ entries added) rs (length added) e extra \<and> table w1 = table w ++ entries added ++ extra
        \<and> (\<forall>w2 deleted. DeleteRecords api zone added w1 = (w2, (deleted, None)) \<longrightarrow> deleted = added \<and> table w2 = table w ++ extra))
    \<and> (\<forall>w2 deleted e2. DeleteRecords api zone added w1 = (w2, (deleted, e2)) \<longrightarrow>
        table w2 \<subseteq>\<^sub>m table w1 \<and> (\<forall>k. k \<notin> record_id ` set added \<longrightarrow> table w2 k = table w1 k))"
proof -
  have added: "(\<exists>extra. left_behind (table w ++ entries added) rs (length added) e extra \<and> table w1 = table w ++ entries added ++ extra)
    \<and> distinct (map record_id added) \<and> record_id ` set added \<inter> dom (table w) = {} \<and> [] \<notin> record_id ` set added
    \<and> map RR added = map RR (take (length added) rs) \<and> (e = None \<longrightarrow> length added = length rs)"
    using assms(2) assms(3) [unfolded AppendRecords_def]
  proof (cases rule: in_zone_cases)
    case (failed err)
    then show ?thesis by (auto simp: left_behind_def entries_def)
  next
    case (found w0)
    show ?thesis using append_loop [OF assms(1) found(1)] unfolding found(2) .
  qed
  have removed: "table w2 \<subseteq>\<^sub>m table w1 \<and> (\<forall>k. k \<notin> record_id ` set added \<longrightarrow> table w2 k = table w1 k)
      \<and> (e2 = None \<longrightarrow> deleted = added \<and> table w2 = table w1 |` (- (record_id ` set added)))"
    if del: "DeleteRecords api zone added w1 = (w2, (deleted, e2))" for w2 deleted e2
    using assms(2) del [unfolded DeleteRecords_def]
  proof (cases rule: in_zone_cases)
    case (found w0)
    have "[] \<notin> record_id ` set added" using added by blast
    from delete_loop [OF assms(1) found(1) this] show ?thesis unfolding found(2) .
  qed auto
  obtain extra where extra: "left_behind (table w ++ entries added) rs (length added) e extra" "table w1 = table w ++ entries added ++ extra"
    using added by blast
  have "dom extra \<inter> record_id ` set added = {}" using extra(1) dom_entries [of added] by (auto simp: left_behind_def split: if_splits)
  then have "table w1 |` (- (record_id ` set added)) = table w ++ extra"
    using remove_entries [of added "table w" extra] added extra(2) by simp
  then have "\<forall>w2 deleted. DeleteRecords api zone added w1 = (w2, (deleted, None)) \<longrightarrow> deleted = added \<and> table w2 = table w ++ extra"
    using removed by metis
  moreover have "\<forall>w2 deleted e2. DeleteRecords api zone added w1 = (w2, (deleted, e2)) \<longrightarrow>
      table w2 \<subseteq>\<^sub>m table w1 \<and> (\<forall>k. k \<notin> record_id ` set added \<longrightarrow> table w2 k = table w1 k)"
    using removed by metis
  ultimately show ?thesis using added extra by (intro conjI exI [of _ extra]) simp_all
qed

text \<open>An account with one domain; the identifiers count up.\<close>

definition small_account :: "(nat \<times> (string \<Rightarrow> pod_record option)) pod_api" where
  "small_account =
     \<lparr>Domains_List = (\<lambda>w. (w, Inr [(''example.org'', ''d7'')])), Records_List = (\<lambda>i w. (w, Inr [])),
      Records_Create = (\<lambda>i r (n, t). let k = replicate (Suc n) (CHR ''1'') in
         if t k \<noteq> None then ((n, t), Inl ''busy'') else ((Suc n, t(k \<mapsto> r\<lparr>pod_ID := k\<rparr>)), Inr (r\<lparr>pod_ID := k\<rparr>))),
      Records_Update = (\<lambda>i k r w. (w, Inl ''refused'')),
      Records_Delete = (\<lambda>i k (n, t). ((n, t(k := None)), Inr ()))\<rparr>"

lemma small_account_table: "keeps_table small_account ''d7'' snd"
  unfolding keeps_table_def
proof (intro conjI allI impI)
  fix r w w1 x
  assume run: "Records_Create small_account ''d7'' r w = (w1, x)"
  obtain n t where w: "w = (n, t)" by fastforce
  let ?k = "replicate (Suc n) (CHR ''1'')"
  have "t ?k \<noteq> None \<and> w1 = w \<and> x = Inl ''busy'' \<or> t ?k = None \<and> w1 = (Suc n, t(?k \<mapsto> r\<lparr>pod_ID := ?k\<rparr>)) \<and> x = Inr (r\<lparr>pod_ID := ?k\<rparr>)"
    using run by (auto simp: small_account_def w Let_def split: if_splits)
  then show "(\<exists>e. x = Inl e) \<and> snd w1 = snd w
      \<or> (\<exists>k. k \<notin> dom (snd w) \<and> snd w1 = (snd w)(k \<mapsto> r\<lparr>pod_ID := k\<rparr>) \<and> (\<forall>c. x = Inr c \<longrightarrow> pod_ID c \<in> {[], k}))"
    by (elim disjE) (auto simp: w intro!: exI [of _ ?k])
next
  fix j w w1 x
  assume "Records_Delete small_account ''d7'' j w = (w1, x)"
  then have "snd w1 = (snd w)(j := None)" by (auto simp: small_account_def split: prod.splits)
  then show "(\<exists>e. x = Inl e) \<and> snd w1 = snd w \<or> snd w1 = (snd w)(j := None)" by simp
qed

theorem challenge_records_are_cleaned_up_witness:
  "\<exists>w1 a w2. AppendRecords small_account ''example.org.''
        [Foreign \<lparr>rr_Type = ''TXT'', rr_Name = ''_acme-challenge'', rr_Data = ''proof'', rr_TTL = 600 * second\<rparr>] (0, \<lambda>_. None) = (w1, ([a], None))
     \<and> snd w1 (record_id a) \<noteq> None \<and> DeleteRecords small_account ''example.org.'' [a] w1 = (w2, ([a], None)) \<and> snd w2 = (\<lambda>_. None)"
proof -
  let ?r = "\<lparr>rr_Type = ''TXT'', rr_Name = ''_acme-challenge'', rr_Data = ''proof'', rr_TTL = 600 * second\<rparr>"
  have domain: "finds_domain small_account ''example.org.'' ''d7'' snd"
    by (simp add: finds_domain_def getDomainID_def trim_dots_def Atoi_def is_number_def digit_char_def byte_of_def small_account_def)
  let ?t = "[''1'' \<mapsto> (fromLibdnsRecord (Foreign ?r))\<lparr>pod_ID := ''1''\<rparr>]"
  have zone: "getDomainID small_account (trim_dots ''example.org.'') w = (w, Inr ''d7'')" for w
    by (simp add: getDomainID_def trim_dots_def Atoi_def is_number_def digit_char_def byte_of_def small_account_def)
  have append: "AppendRecords small_account ''example.org.'' [Foreign ?r] (0, \<lambda>_. None) = ((Suc 0, ?t), ([Owned ''1'' ?r], None))"
    by (simp add: AppendRecords_def in_zone_def zone append_step_def create_record_def withRecordID_def)
       (simp add: small_account_def Let_def)
  obtain w2 where removed: "DeleteRecords small_account ''example.org.'' [Owned ''1'' ?r] (Suc 0, ?t) = (w2, ([Owned ''1'' ?r], None))"
    by (simp add: DeleteRecords_def in_zone_def zone delete_step_def record_id_def) (simp add: small_account_def)
  from challenge_records_are_cleaned_up [OF small_account_table domain append] obtain extra
    where "left_behind (snd (0 :: nat, \<lambda>_. None) ++ entries [Owned ''1'' ?r]) [Foreign ?r] (length [Owned ''1'' ?r]) None extra"
      and "\<forall>w2 deleted. DeleteRecords small_account ''example.org.'' [Owned ''1'' ?r] (Suc 0, ?t) = (w2, (deleted, None)) \<longrightarrow>
        deleted = [Owned ''1'' ?r] \<and> snd w2 = snd (0 :: nat, \<lambda>_. None) ++ extra"
    by (elim conjE exE) rule
  then have "snd w2 = (\<lambda>_. None)" using removed by (auto simp: left_behind_def)
  then show ?thesis using append removed by (cases w2) (auto simp: record_id_def)
qed

section \<open>Replacing a record\<close>

text \<open>An update that fails is followed by a deletion; when the creation after it fails too, the record is gone, although the operation
  reports an error.\<close>

theorem failed_update_loses_the_record:
  assumes "keeps_table api i table" and "Records_Update api i k rec w = (w1, Inl e1)" and "table w1 = table w"
    and "Records_Delete api i k w1 = (w2, Inr u)" and "Records_Create api i rec w2 = (w3, Inl e2)" and "table w3 = table w2"
    and "rec = (fromLibdnsRecord r)\<lparr>pod_ID := k\<rparr>" and "record_id r = k" and "k \<noteq> []"
  shows "set_step api i r w = (w3, Inl (FallbackFailed k e2)) \<and> table w3 = (table w)(k := None)"
proof -
  have "table w2 = (table w1)(k := None)" using assms(1,4) by (cases rule: deleted_cases) auto
  then show ?thesis using assms by (simp add: set_step_def fallback_def create_record_def)
qed

end
