(* ===== verification/Migrations.thy ===== *)
theory Migrations
  imports Go_Numbers Sha256
begin

text \<open>
  The migrations of the database (\<^verbatim>\<open>internal/storage/storage.go\<close>): reading the numbered files, checking the history of an existing
  database against them, and applying what is missing, one transaction each.  What an SQL text does to the database is an argument, and
  so is which calls of the driver fail.  The properties are at the end: a history that does not fit the files is refused before
  anything is written, and migrations that were interrupted, wherever, are completed by the next run.
\<close>

section \<open>The files\<close>

record migration =
  mg_Version :: int
  mg_Name :: string
  mg_Checksum :: string
  mg_Body :: string

text \<open>What the driver reports is one error; those of the program are told apart.\<close>

datatype migration_error =
    DriverFailed
  | FilesUnreadable
  | InvalidFilename string
  | DuplicateVersion int string string
  | FileUnreadable string
  | NoMigrations
  | NotContiguous
  | MissingIntegrityColumns
  | IntegrityNotEnabled
  | UnknownVersion int
  | IntegrityFailed int
  | MissingVersion int
  | ApplyFailed string migration_error
  | CommitFailed string

text \<open>An entry of the directory: its name, whether it is a directory, and its content unless it cannot be read.\<close>

record migration_file =
  mf_Name :: string
  mf_IsDir :: bool
  mf_Content :: "string option"

definition migrationIntegrityVersion :: int where
  "migrationIntegrityVersion = 2"

definition file_version :: "string \<Rightarrow> int option" where
  "file_version name =
     (if CHR ''_'' \<notin> set name then None
      else case Atoi (takeWhile (\<lambda>c. c \<noteq> CHR ''_'') name) of None \<Rightarrow> None | Some v \<Rightarrow> if v < 1 then None else Some v)"

fun read_entries :: "migration_file list \<Rightarrow> migration list \<Rightarrow> migration_error + migration list" where
  "read_entries [] result = Inr result"
| "read_entries (f # fs) result =
     (if mf_IsDir f \<or> \<not> has_suffix (mf_Name f) ''.sql'' then read_entries fs result
      else case file_version (mf_Name f) of
        None \<Rightarrow> Inl (InvalidFilename (mf_Name f))
      | Some v \<Rightarrow>
          (case find (\<lambda>m. mg_Version m = v) result of
             Some m \<Rightarrow> Inl (DuplicateVersion v (mg_Name m) (mf_Name f))
           | None \<Rightarrow>
               (case mf_Content f of
                  None \<Rightarrow> Inl (FileUnreadable (mf_Name f))
                | Some body \<Rightarrow> read_entries fs (result @
                    [\<lparr>mg_Version = v, mg_Name = mf_Name f, mg_Checksum = sha256_hex body, mg_Body = body\<rparr>]))))"

definition readMigrations :: "migration_file list option \<Rightarrow> migration_error + migration list" where
  "readMigrations files =
     (case files of None \<Rightarrow> Inl FilesUnreadable
      | Some entries \<Rightarrow>
          (case read_entries entries [] of
             Inl e \<Rightarrow> Inl e
           | Inr result \<Rightarrow>
               if result = [] then Inl NoMigrations
               else let ms = sort_key mg_Version result in
                 if list_all (\<lambda>(i, m). mg_Version m = int i + 1) (enumerate 0 ms) then Inr ms else Inl NotContiguous))"

section \<open>The history\<close>

text \<open>The table of the history, which has the columns of a name and a checksum once \<open>md_Integrity\<close> holds, and the rest of the
  database.\<close>

record migration_row =
  mr_Version :: int
  mr_Name :: "string option"
  mr_Checksum :: "string option"

record 'c migrated =
  md_Table :: bool
  md_Integrity :: bool
  md_History :: "migration_row list"
  md_Content :: 'c

definition create_table :: "'c migrated \<Rightarrow> 'c migrated" where
  "create_table d = (if md_Table d then d else d\<lparr>md_Table := True, md_Integrity := False, md_History := []\<rparr>)"

definition schema_version :: "'c migrated \<Rightarrow> int" where
  "schema_version d = (if md_History d = [] then 0 else Max (set (map mr_Version (md_History d))))"

definition recordMigration :: "migration \<Rightarrow> bool \<Rightarrow> 'c migrated \<Rightarrow> 'c migrated option" where
  "recordMigration m integrity d =
     (if \<not> md_Table d \<or> mg_Version m \<in> set (map mr_Version (md_History d)) then None
      else Some (d\<lparr>md_History := md_History d @ [\<lparr>mr_Version = mg_Version m,
        mr_Name = (if integrity then Some (mg_Name m) else None), mr_Checksum = (if integrity then Some (mg_Checksum m) else None)\<rparr>]\<rparr>))"

fun check_rows :: "migration list \<Rightarrow> migration_row list \<Rightarrow> migration_error option" where
  "check_rows ms [] = None"
| "check_rows ms (r # rs) =
     (case find (\<lambda>m. mg_Version m = mr_Version r) ms of
        None \<Rightarrow> Some (UnknownVersion (mr_Version r))
      | Some m \<Rightarrow>
          if mr_Name r \<noteq> Some (mg_Name m) \<or> mr_Checksum r \<noteq> Some (mg_Checksum m) then Some (IntegrityFailed (mr_Version r))
          else check_rows ms rs)"

definition validateMigrationHistory :: "migration list \<Rightarrow> int \<Rightarrow> 'c migrated \<Rightarrow> migration_error option" where
  "validateMigrationHistory ms current d =
     (case check_rows ms (sort_key mr_Version (md_History d)) of
        Some e \<Rightarrow> Some e
      | None \<Rightarrow> map_option MissingVersion (find (\<lambda>v. v \<notin> set (map mr_Version (md_History d))) [1..current]))"

section \<open>Running them\<close>

text \<open>What becomes of a call of the driver; a call that fails may have taken effect all the same.  The calls that are not in the list
  succeed.\<close>

datatype call_result = Succeeds | FailsBefore | FailsAfter

definition attempt :: "call_result list \<Rightarrow> call_result" where
  "attempt calls = (case calls of [] \<Rightarrow> Succeeds | c # _ \<Rightarrow> c)"

definition checked_history :: "migration list \<Rightarrow> int \<Rightarrow> call_result list \<Rightarrow> 'c migrated \<Rightarrow> migration_error option" where
  "checked_history ms current calls d =
     (if \<not> md_Integrity d then None
      else if attempt calls \<noteq> Succeeds then Some DriverFailed
      else validateMigrationHistory ms current d)"

text \<open>One transaction.  A failure before the commit rolls it back.\<close>

definition apply_migration ::
  "(string \<Rightarrow> 'c migrated \<Rightarrow> 'c migrated option) \<Rightarrow> migration \<Rightarrow> call_result list \<Rightarrow> 'c migrated
     \<Rightarrow> call_result list \<times> 'c migrated \<times> migration_error option" where
  "apply_migration exec m calls d =
     (let failed = (\<lambda>n e. (drop n calls, d, Some (ApplyFailed (mg_Name m) e))) in
      if attempt calls \<noteq> Succeeds then (tl calls, d, Some DriverFailed)
      else if attempt (drop 1 calls) \<noteq> Succeeds then failed 2 DriverFailed
      else case exec (mg_Body m) d of
        None \<Rightarrow> failed 2 DriverFailed
      | Some d1 \<Rightarrow>
          if attempt (drop 2 calls) \<noteq> Succeeds then failed 3 DriverFailed
          else if migrationIntegrityVersion \<le> mg_Version m \<and> \<not> md_Integrity d1 then failed 3 IntegrityNotEnabled
          else if attempt (drop 3 calls) \<noteq> Succeeds then failed 4 DriverFailed
          else (case recordMigration m (md_Integrity d1) d1 of
              None \<Rightarrow> failed 4 DriverFailed
            | Some d2 \<Rightarrow>
                (case attempt (drop 4 calls) of
                   Succeeds \<Rightarrow> (drop 5 calls, d2, None)
                 | FailsBefore \<Rightarrow> (drop 5 calls, d, Some (CommitFailed (mg_Name m)))
                 | FailsAfter \<Rightarrow> (drop 5 calls, d2, Some (CommitFailed (mg_Name m))))))"

fun apply_migrations ::
  "(string \<Rightarrow> 'c migrated \<Rightarrow> 'c migrated option) \<Rightarrow> migration list \<Rightarrow> int \<Rightarrow> call_result list \<Rightarrow> 'c migrated
     \<Rightarrow> call_result list \<times> 'c migrated \<times> int \<times> migration_error option" where
  "apply_migrations exec [] current calls d = (calls, d, current, None)"
| "apply_migrations exec (m # ms) current calls d =
     (if mg_Version m \<le> current then apply_migrations exec ms current calls d
      else case apply_migration exec m calls d of
        (calls', d', Some e) \<Rightarrow> (calls', d', current, Some e)
      | (calls', d', None) \<Rightarrow> apply_migrations exec ms (mg_Version m) calls' d')"

text \<open>The history is checked once more at the end.\<close>

definition finish_run ::
  "migration list \<Rightarrow> call_result list \<times> 'c migrated \<times> int \<times> migration_error option \<Rightarrow> 'c migrated \<times> int \<times> migration_error option" where
  "finish_run ms = (\<lambda>(calls, d, version, e).
     (d, version, if e \<noteq> None then e else if attempt calls \<noteq> Succeeds then Some DriverFailed else checked_history ms version (tl calls) d))"

text \<open>The result is the database, the version returned and the error.\<close>

definition RunMigrations ::
  "(string \<Rightarrow> 'c migrated \<Rightarrow> 'c migrated option) \<Rightarrow> migration_file list option \<Rightarrow> call_result list \<Rightarrow> 'c migrated
     \<Rightarrow> 'c migrated \<times> int \<times> migration_error option" where
  "RunMigrations exec files calls d =
     (let d0 = (if attempt calls = FailsBefore then d else create_table d) in
      if attempt calls \<noteq> Succeeds then (d0, 0, Some DriverFailed)
      else case readMigrations files of
        Inl e \<Rightarrow> (d0, 0, Some e)
      | Inr ms \<Rightarrow>
          if attempt (drop 1 calls) \<noteq> Succeeds then (d0, 0, Some DriverFailed)
          else let current = schema_version d0 in
          if attempt (drop 2 calls) \<noteq> Succeeds then (d0, current, Some DriverFailed)
          else if migrationIntegrityVersion \<le> current \<and> \<not> md_Integrity d0 then (d0, current, Some MissingIntegrityColumns)
          else case checked_history ms current (drop 3 calls) d0 of
            Some e \<Rightarrow> (d0, current, Some e)
          | None \<Rightarrow>
finish_run ms (apply_migrations exec ms current (drop (if md_Integrity d0 then 4 else 3) calls) d0))"

section \<open>What the files are\<close>

lemma readMigrations_versions:
  assumes "readMigrations files = Inr ms"
  shows "map mg_Version ms = [1..int (length ms)]"
proof -
  have "list_all (\<lambda>(i, m). mg_Version m = int i + 1) (enumerate 0 ms)"
    using assms by (auto simp: readMigrations_def Let_def split: option.splits sum.splits if_splits)
  then have "mg_Version (ms ! i) = int i + 1" if "i < length ms" for i
    using that by (auto simp: list_all_iff in_set_enumerate_eq)
  then show ?thesis by (intro nth_equalityI) auto
qed

section \<open>Recorded migrations\<close>

text \<open>A row that fits its file.\<close>

definition fits :: "migration list \<Rightarrow> migration_row \<Rightarrow> bool" where
  "fits ms r \<longleftrightarrow>
     (\<exists>m \<in> set ms. mg_Version m = mr_Version r \<and> mr_Name r = Some (mg_Name m) \<and> mr_Checksum r = Some (mg_Checksum m))"

text \<open>The first \<open>n\<close> migrations are recorded, by name and checksum from the second on.\<close>

definition recorded :: "migration list \<Rightarrow> nat \<Rightarrow> 'c migrated \<Rightarrow> bool" where
  "recorded ms n d \<longleftrightarrow> n \<le> length ms \<and> md_Table d \<and> map mr_Version (md_History d) = [1..int n]
     \<and> (md_Integrity d \<longrightarrow> (\<forall>r \<in> set (md_History d). fits ms r)) \<and> (2 \<le> n \<longrightarrow> md_Integrity d)"

text \<open>What the texts of the migrations promise: each leaves the versions in the history as they are, keeps the columns of names and
  checksums where they exist, and where it adds them fills them in for the rows before it, as the second one does.\<close>

definition keep_records :: "(string \<Rightarrow> 'c migrated \<Rightarrow> 'c migrated option) \<Rightarrow> migration list \<Rightarrow> bool" where
  "keep_records exec ms \<longleftrightarrow> (\<forall>k < length ms. \<forall>d d'. recorded ms k d \<and> exec (mg_Body (ms ! k)) d = Some d' \<longrightarrow>
     recorded ms k d' \<and> (1 \<le> k \<longrightarrow> md_Integrity d'))"

lemma distinct_versions: "map mg_Version ms = [1..int (length ms)] \<Longrightarrow> distinct (map mg_Version ms)"
  by simp

lemma version_at: "map mg_Version ms = [1..int (length ms)] \<Longrightarrow> k < length ms \<Longrightarrow> mg_Version (ms ! k) = int k + 1"
  by (drule arg_cong [where f = "\<lambda>xs. xs ! k"]) simp

lemma fits_own_row: "m \<in> set ms \<Longrightarrow> fits ms \<lparr>mr_Version = mg_Version m, mr_Name = Some (mg_Name m), mr_Checksum = Some (mg_Checksum m)\<rparr>"
  by (auto simp: fits_def)

lemma find_version:
  assumes "distinct (map mg_Version ms)" and "m \<in> set ms"
  shows "find (\<lambda>x. mg_Version x = mg_Version m) ms = Some m"
  using assms by (induction ms) auto

lemma check_rows_ok:
  "distinct (map mg_Version ms) \<Longrightarrow> check_rows ms rs = None \<longleftrightarrow> (\<forall>r \<in> set rs. fits ms r)"
proof (induction rs)
  case (Cons r rs)
  show ?case
  proof (cases "find (\<lambda>m. mg_Version m = mr_Version r) ms")
    case None
    then have "\<not> fits ms r" by (auto simp: fits_def find_None_iff)
    with None show ?thesis by simp
  next
    case (Some m)
    then have m: "m \<in> set ms" "mg_Version m = mr_Version r" by (auto simp: find_Some_iff)
    have "fits ms r \<longleftrightarrow> mr_Name r = Some (mg_Name m) \<and> mr_Checksum r = Some (mg_Checksum m)"
      using m Cons.prems find_version [of ms] Some by (force simp: fits_def)
    then show ?thesis using Some Cons by auto
  qed
qed simp

lemma validate_ok:
  assumes "distinct (map mg_Version ms)"
  shows "validateMigrationHistory ms current d = None
    \<longleftrightarrow> (\<forall>r \<in> set (md_History d). fits ms r) \<and> {1..current} \<subseteq> mr_Version ` set (md_History d)"
proof (cases "check_rows ms (sort_key mr_Version (md_History d))")
  case None
  then show ?thesis
    using check_rows_ok [OF assms, of "sort_key mr_Version (md_History d)"] by (auto simp: validateMigrationHistory_def find_None_iff)
next
  case (Some e)
  then show ?thesis
    using check_rows_ok [OF assms, of "sort_key mr_Version (md_History d)"] by (auto simp: validateMigrationHistory_def)
qed

lemma recorded_version: "recorded ms n d \<Longrightarrow> schema_version d = int n"
  by (cases n) (auto simp: recorded_def schema_version_def intro!: Max_eqI)

lemma recorded_valid:
  assumes "map mg_Version ms = [1..int (length ms)]" and "recorded ms n d"
  shows "checked_history ms (int n) [] d = None"
proof -
  have "mr_Version ` set (md_History d) = set (map mr_Version (md_History d))" by simp
  also have "\<dots> = {1..int n}" using assms(2) by (simp add: recorded_def del: set_map)
  finally show ?thesis using assms by (simp add: checked_history_def attempt_def validate_ok recorded_def)
qed

section \<open>One migration\<close>

lemma record_next:
  assumes "map mg_Version ms = [1..int (length ms)]" and "k < length ms" and "recorded ms k d"
    and "recordMigration (ms ! k) (md_Integrity d) d = Some d'" and "1 \<le> k \<longrightarrow> md_Integrity d"
  shows "recorded ms (Suc k) d'"
proof -
  have "[1..int (Suc k)] = [1..int k] @ [int k + 1]"
    using upto_rec2 [of 1 "int (Suc k)"] by simp
  moreover have "fits ms \<lparr>mr_Version = mg_Version (ms ! k), mr_Name = Some (mg_Name (ms ! k)), mr_Checksum = Some (mg_Checksum (ms ! k))\<rparr>"
    using assms(2) by (simp add: fits_own_row)
  ultimately show ?thesis using version_at [OF assms(1,2)] assms(2-)
    by (auto simp: recorded_def recordMigration_def split: if_splits)
qed

text \<open>A migration is applied and recorded, or the database is as it was; without faults the same database comes out.\<close>

lemma apply_migration_cases:
  assumes "map mg_Version ms = [1..int (length ms)]" and "keep_records exec ms" and "k < length ms" and "recorded ms k d"
    and "apply_migration exec (ms ! k) calls d = (calls', d', e)"
  shows "(recorded ms (Suc k) d' \<and> apply_migration exec (ms ! k) [] d = ([], d', None)) \<or> (d' = d \<and> e \<noteq> None)"
proof (cases "d' = d \<and> e \<noteq> None")
  case False
  then obtain d1 where d1: "exec (mg_Body (ms ! k)) d = Some d1"
    and ok: "\<not> (migrationIntegrityVersion \<le> mg_Version (ms ! k) \<and> \<not> md_Integrity d1)"
    and d': "recordMigration (ms ! k) (md_Integrity d1) d1 = Some d'"
    using assms(5) unfolding apply_migration_def Let_def
    by (auto split: if_splits option.splits call_result.splits)
  have "recorded ms k d1" and "1 \<le> k \<longrightarrow> md_Integrity d1"
    using assms(2,3,4) d1 by (auto simp: keep_records_def)
  then have "recorded ms (Suc k) d'" using record_next [OF assms(1,3) _ d'] by blast
  moreover have "apply_migration exec (ms ! k) [] d = ([], d', None)"
    using d1 ok d' by (simp add: apply_migration_def attempt_def)
  ultimately show ?thesis by blast
qed simp

section \<open>All of them\<close>

lemma apply_skips:
  "\<forall>m \<in> set xs. mg_Version m \<le> current \<Longrightarrow> apply_migrations exec (xs @ ys) current calls d = apply_migrations exec ys current calls d"
  by (induction xs) auto

lemma no_calls_left: "apply_migration exec m [] d = (calls', d', e) \<Longrightarrow> calls' = []"
  by (auto simp: apply_migration_def Let_def attempt_def split: if_splits option.splits)

lemma no_calls_left_all: "apply_migrations exec ms current [] d = (calls', d', v, e) \<Longrightarrow> calls' = []"
  by (induction exec ms current "[] :: call_result list" d rule: apply_migrations.induct)
    (auto split: if_splits prod.splits option.splits dest: no_calls_left)

text \<open>The run from the recorded migrations on.\<close>

definition rest_of_run where
  "rest_of_run exec ms k calls d = apply_migrations exec (drop k ms) (int k) calls d"

lemma rest_step:
  assumes "map mg_Version ms = [1..int (length ms)]" and "k < length ms"
  shows "rest_of_run exec ms k calls d = (case apply_migration exec (ms ! k) calls d of
      (calls', d', Some e) \<Rightarrow> (calls', d', int k, Some e) | (calls', d', None) \<Rightarrow> rest_of_run exec ms (Suc k) calls' d')"
proof -
  from version_at [OF assms] show ?thesis
    unfolding rest_of_run_def Cons_nth_drop_Suc [OF assms(2), symmetric]
    by (simp add: add.commute split: prod.splits option.splits)
qed

lemma rest_resumes:
  assumes "map mg_Version ms = [1..int (length ms)]" and "keep_records exec ms"
    and "recorded ms k d" and "rest_of_run exec ms k calls d = (calls', d', v, e)"
  shows "\<exists>j \<ge> k. recorded ms j d' \<and> rest_of_run exec ms j [] d' = rest_of_run exec ms k [] d
    \<and> (e = None \<longrightarrow> j = length ms \<and> v = int j)"
  using assms(3,4)
proof (induction "length ms - k" arbitrary: k d calls)
  case 0
  then have "k = length ms" by (simp add: recorded_def)
  with 0 show ?case by (auto simp: rest_of_run_def)
next
  case (Suc i)
  then have k: "k < length ms" by simp
  obtain c1 d1 e1 where one: "apply_migration exec (ms ! k) calls d = (c1, d1, e1)" by (metis prod_cases3)
  show ?case
  proof (cases "d1 = d \<and> e1 \<noteq> None")
    case True
    then have "d' = d \<and> e \<noteq> None" using Suc.prems(2) one by (auto simp: rest_step [OF assms(1) k])
    with Suc.prems(1) show ?thesis by blast
  next
    case False
    then have next_one: "recorded ms (Suc k) d1" "apply_migration exec (ms ! k) [] d = ([], d1, None)"
      using apply_migration_cases [OF assms(1,2) k Suc.prems(1) one] by auto
    then have same: "rest_of_run exec ms k [] d = rest_of_run exec ms (Suc k) [] d1"
      by (simp add: rest_step [OF assms(1) k])
    show ?thesis
    proof (cases e1)
      case None
      then have "rest_of_run exec ms (Suc k) c1 d1 = (calls', d', v, e)"
        using Suc.prems(2) one by (simp add: rest_step [OF assms(1) k])
      from Suc.hyps(1) [OF _ next_one(1) this] Suc.hyps(2) same show ?thesis by (metis Suc_leD diff_Suc_1 diff_Suc_eq_diff_pred diff_commute)
    next
      case (Some x)
      then have "d' = d1" "e \<noteq> None" using Suc.prems(2) one by (auto simp: rest_step [OF assms(1) k])
      with next_one(1) same show ?thesis by (intro exI [of _ "Suc k"]) auto
    qed
  qed
qed

section \<open>What a run does\<close>

lemma create_table_recorded: "recorded ms k d \<Longrightarrow> create_table d = d"
  by (simp add: recorded_def create_table_def)

lemma create_table_twice [simp]: "create_table (create_table d) = create_table d"
  by (simp add: create_table_def)

text \<open>Past the checks a run is the rest of the migrations and a check of the history they leave.\<close>

lemma run_from:
  assumes "readMigrations files = Inr ms" and "recorded ms k (create_table d)" and "RunMigrations exec files calls d = (d1, v, e)"
  shows "(e \<noteq> None \<and> create_table d1 = create_table d)
    \<or> (\<exists>c. finish_run ms (rest_of_run exec ms k c (create_table d)) = (d1, v, e))"
proof (rule disjCI)
  assume none: "\<nexists>c. finish_run ms (rest_of_run exec ms k c (create_table d)) = (d1, v, e)"
  note versions = readMigrations_versions [OF assms(1)]
  have skip: "apply_migrations exec ms (int k) c (create_table d) = rest_of_run exec ms k c (create_table d)" for c
  proof -
    have "mg_Version m \<le> int k" if "m \<in> set (take k ms)" for m
      using that by (auto simp: in_set_conv_nth version_at [OF versions])
    then show ?thesis unfolding rest_of_run_def by (metis append_take_drop_id apply_skips)
  qed
  show "e \<noteq> None \<and> create_table d1 = create_table d"
    using assms(3) none unfolding RunMigrations_def assms(1) Let_def
    by (auto simp: skip recorded_version [OF assms(2)] split: if_splits option.splits dest: sym [of "Some _"])
qed

lemma run_without_faults:
  assumes "readMigrations files = Inr ms" and "recorded ms k (create_table d)"
  shows "RunMigrations exec files [] d = finish_run ms (rest_of_run exec ms k [] (create_table d))"
proof -
  note versions = readMigrations_versions [OF assms(1)]
  have "mg_Version m \<le> int k" if "m \<in> set (take k ms)" for m
    using that by (auto simp: in_set_conv_nth version_at [OF versions])
  then have "apply_migrations exec ms (int k) [] (create_table d) = rest_of_run exec ms k [] (create_table d)"
    unfolding rest_of_run_def by (metis append_take_drop_id apply_skips)
  moreover have "migrationIntegrityVersion \<le> int k \<Longrightarrow> md_Integrity (create_table d)"
    using assms(2) by (auto simp: recorded_def migrationIntegrityVersion_def)
  ultimately show ?thesis
    by (auto simp: RunMigrations_def assms(1) Let_def recorded_version [OF assms(2)] recorded_valid [OF versions assms(2)] attempt_def)
qed

section \<open>A small set of files\<close>

text \<open>The first two migrations, by what they do to the history: the second adds the columns and fills them in for the first.\<close>

definition first_name :: string where "first_name = ''0001_bootstrap.sql''"
definition second_name :: string where "second_name = ''0002_migration_integrity.sql''"

definition small_files :: "migration_file list option" where
  "small_files = Some
     [\<lparr>mf_Name = first_name, mf_IsDir = False, mf_Content = Some ''first''\<rparr>,
      \<lparr>mf_Name = second_name, mf_IsDir = False, mf_Content = Some ''second''\<rparr>,
      \<lparr>mf_Name = ''migrations.go'', mf_IsDir = False, mf_Content = Some []\<rparr>]"

definition small_migrations :: "migration list" where
  "small_migrations =
     [\<lparr>mg_Version = 1, mg_Name = first_name, mg_Checksum = sha256_hex ''first'', mg_Body = ''first''\<rparr>,
      \<lparr>mg_Version = 2, mg_Name = second_name, mg_Checksum = sha256_hex ''second'', mg_Body = ''second''\<rparr>]"

definition small_exec :: "string \<Rightarrow> nat migrated \<Rightarrow> nat migrated option" where
  "small_exec body d =
     (if body = ''first'' then Some (d\<lparr>md_Content := md_Content d + 1\<rparr>)
      else Some (d\<lparr>md_Integrity := True, md_History := map (\<lambda>r. if mr_Version r = 1
        then r\<lparr>mr_Name := Some first_name, mr_Checksum := Some (sha256_hex ''first'')\<rparr> else r) (md_History d)\<rparr>))"

definition new_database :: "nat migrated" where
  "new_database = \<lparr>md_Table = False, md_Integrity = False, md_History = [], md_Content = 0\<rparr>"

lemma small_files_read: "readMigrations small_files = Inr small_migrations"
proof -
  have "file_version first_name = Some 1" "file_version second_name = Some 2"
    "has_suffix first_name ''.sql''" "has_suffix second_name ''.sql''" "\<not> has_suffix ''migrations.go'' ''.sql''"
    by code_simp+
  then show ?thesis
    by (simp add: readMigrations_def small_files_def small_migrations_def)
qed

lemma small_exec_keeps: "keep_records small_exec small_migrations"
proof -
  have "recorded small_migrations k d' \<and> (1 \<le> k \<longrightarrow> md_Integrity d')"
    if prems: "k < length small_migrations" "recorded small_migrations k d" "small_exec (mg_Body (small_migrations ! k)) d = Some d'" for k d d'
  proof (cases k)
    case 0
    then show ?thesis using prems by (auto simp: recorded_def small_exec_def small_migrations_def)
  next
    case (Suc j)
    then have k: "k = 1" using prems(1) by (simp add: small_migrations_def)
    then obtain r where "md_History d = [r]" "mr_Version r = 1"
      using prems(2) by (auto simp: recorded_def)
    with prems k show ?thesis
      by (auto simp: recorded_def small_exec_def small_migrations_def fits_def)
  qed
  then show ?thesis unfolding keep_records_def by blast
qed

lemma new_database_recorded: "recorded small_migrations 0 (create_table new_database)"
  by (simp add: recorded_def create_table_def new_database_def)

text \<open>C13. Migrations that were interrupted, by any failures of the driver, are completed by the next run: what an interrupted run leaves is a
  database in which a number of migrations is recorded, no fewer than before, each applied exactly once, and another run
  makes of it exactly the database, the version and the error that a run without failures would have made at once.  A run that reports no
  error has applied all migrations.\<close>

theorem interrupted_migrations_resume:
  assumes "readMigrations files = Inr ms" and "keep_records exec ms"
    and "recorded ms n (create_table d)" and "RunMigrations exec files calls d = (d1, v, e)"
  shows "(\<exists>k \<ge> n. recorded ms k (create_table d1)) \<and> RunMigrations exec files [] d1 = RunMigrations exec files [] d
    \<and> (e = None \<longrightarrow> v = int (length ms) \<and> recorded ms (length ms) d1)"
  using run_from [OF assms(1,3,4)]
proof (elim disjE exE conjE)
  assume "create_table d1 = create_table d" and "e \<noteq> None"
  then show ?thesis using assms(3) run_without_faults [OF assms(1)] by (metis order_refl)
next
  fix c assume c: "finish_run ms (rest_of_run exec ms n c (create_table d)) = (d1, v, e)"
  obtain c' d' v' e' where r: "rest_of_run exec ms n c (create_table d) = (c', d', v', e')" by (metis prod_cases4)
  then have d': "d' = d1" "v' = v" "e = None \<Longrightarrow> e' = None" using c by (auto simp: finish_run_def split: if_splits)
  from rest_resumes [OF readMigrations_versions [OF assms(1)] assms(2,3) r] obtain j where
    j: "j \<ge> n" "recorded ms j d1" "rest_of_run exec ms j [] d1 = rest_of_run exec ms n [] (create_table d)"
      "e = None \<longrightarrow> j = length ms \<and> v = int j" using d' by auto
  moreover from j(2) have "create_table d1 = d1" by (rule create_table_recorded)
  ultimately show ?thesis
    using run_without_faults [OF assms(1,3)] run_without_faults [OF assms(1), of j d1] by auto
qed

text \<open>The commit of the second migration fails; the next run completes it.\<close>

theorem interrupted_migrations_resume_witness:
  "\<exists>d1. RunMigrations small_exec small_files (replicate 12 Succeeds @ [FailsBefore]) new_database = (d1, 1, Some (CommitFailed second_name))
    \<and> RunMigrations small_exec small_files [] d1 = RunMigrations small_exec small_files [] new_database
    \<and> fst (snd (RunMigrations small_exec small_files [] new_database)) = 2"
proof -
  let ?calls = "replicate 12 Succeeds @ [FailsBefore]"
  obtain d1 v e where run: "RunMigrations small_exec small_files ?calls new_database = (d1, v, e)" by (metis prod_cases3)
  have "v = 1 \<and> e = Some (CommitFailed second_name)" "fst (snd (RunMigrations small_exec small_files [] new_database)) = 2"
    using run by (auto simp: RunMigrations_def small_files_read small_migrations_def new_database_def create_table_def attempt_def schema_version_def
        checked_history_def apply_migration_def small_exec_def recordMigration_def migrationIntegrityVersion_def finish_run_def eval_nat_numeral)
  then show ?thesis
    using run interrupted_migrations_resume [OF small_files_read small_exec_keeps new_database_recorded run] by blast
qed

text \<open>C23. A database whose history is not that of the program is refused before anything is written to it, whatever the driver does: one with a
  migration the program does not have, as of a newer program, with one whose file was changed after it was
  applied, with a gap, or without the checksums it should have.\<close>

theorem altered_history_is_refused:
  assumes "readMigrations files = Inr ms" and "md_Table d"
    and "if md_Integrity d then \<not> ((\<forall>r \<in> set (md_History d). fits ms r) \<and> {1..schema_version d} \<subseteq> mr_Version ` set (md_History d))
      else 2 \<le> schema_version d"
  shows "\<exists>v e. RunMigrations exec files calls d = (d, v, Some e)"
proof -
  have "validateMigrationHistory ms (schema_version d) d \<noteq> None" if "md_Integrity d"
    using assms(3) that validate_ok [OF distinct_versions [OF readMigrations_versions [OF assms(1)]]] by metis
  then show ?thesis using assms(2,3)
    by (auto simp: RunMigrations_def assms(1) Let_def create_table_def checked_history_def migrationIntegrityVersion_def split: option.splits)
qed

text \<open>A database of a newer program.\<close>

theorem altered_history_is_refused_witness:
  "\<exists>v e. RunMigrations small_exec small_files [Succeeds, Succeeds, FailsAfter]
      \<lparr>md_Table = True, md_Integrity = True, md_History = [\<lparr>mr_Version = 3, mr_Name = Some ''0003_core.sql'', mr_Checksum = Some []\<rparr>], md_Content = 7\<rparr>
    = (\<lparr>md_Table = True, md_Integrity = True, md_History = [\<lparr>mr_Version = 3, mr_Name = Some ''0003_core.sql'', mr_Checksum = Some []\<rparr>], md_Content = 7\<rparr>,
       v, Some e)"
  by (rule altered_history_is_refused [OF small_files_read]) (simp_all add: fits_def small_migrations_def)

end
