(* ===== verification/Spec2Isabelle.thy ===== *)
theory Spec2Isabelle
  imports Compiler_Properties Store_Properties Document_Properties Apply_Properties Tls_Service Webdav_Properties
    Renewal_Properties Log_Properties Import_Properties Api_Properties Api_Client_Properties Api_Token Dnspod Migrations
begin

text \<open>
  DavDeck: a verification development of the Go daemon under \<^verbatim>\<open>src/core\<close>, the client of its API, and the modules it adds to Caddy under \<^verbatim>\<open>src/caddy\<close>.

  DavDeck manages a WebDAV server.  The desired state (users, shares, permissions, server settings, a TLS
  profile and DNS provider credentials) lives in a SQLite database.  Applying it compiles the state to a
  Caddy configuration, validates it with the Caddy binary, records it as a numbered revision with a
  snapshot of the state, activates it in a Caddy process the daemon manages, and marks it as the active
  one.  Earlier revisions can be restored.

  \<^bold>\<open>Shared vocabulary.\<close>  \<open>Prelude\<close>: errors as values of a sum or an option, loops that return early
  (\<open>for_each\<close>), generic list and map lemmas.  \<open>Go_Strings\<close>: Go's strings as byte lists, runes, UTF-8,
  \<^verbatim>\<open>strings\<close> and \<^verbatim>\<open>path.Clean\<close>.  \<open>Json\<close>, \<open>Json_Parse\<close>, \<open>Json_Roundtrip\<close>, \<open>Json_Indent\<close>: the encoder and the
  parser of \<^verbatim>\<open>encoding/json\<close> and their round trips; the parser is bounded by Go's own limit of 10000
  nested values (\<open>max_nesting\<close>), and a document of the daemon nests far less.  \<open>Sha256\<close>: the hash
  function, on 32 bit words.  \<open>Sample\<close>: concrete values for the witnesses.

  \<^bold>\<open>The domain\<close> (\<^verbatim>\<open>internal/domain\<close>).  \<open>Domain\<close>, \<open>Domain_Config\<close>, \<open>Runtime_Input\<close>: the entities as records and
  their validation.  \<open>Timestamp_Text\<close>: RFC 3339 times.  \<open>Snapshot\<close>, \<open>Snapshot_Codec\<close>,
  \<open>Snapshot_Roundtrip\<close>: the canonical snapshot of a state, its JSON text, and the hash of its meaning.
  \<open>Revision\<close>: revisions and their validation.  \<open>Go_Numbers\<close>: the integers of \<^verbatim>\<open>strconv\<close>.

  \<^bold>\<open>The compiler\<close> (\<^verbatim>\<open>internal/caddy/compiler.go\<close>, \<^verbatim>\<open>internal/dnsprovider\<close>).  \<open>Dns_Registry\<close>: providers, secrets,
  placeholders.  \<open>Compiler\<close> builds the configuration tree, \<open>Compiler_Json\<close> its text.  \<open>Compiler_Facts\<close>,
  \<open>Compiler_Correct\<close>, \<open>Compiler_Discovery\<close> say what its loops compute; \<open>Compiler_Properties\<close> has the
  properties: who may do what through the compiled routes, disjoint prefixes, independence of the
  order of rows, TLS, hashes and secrets.

  \<^bold>\<open>The database\<close> (\<^verbatim>\<open>internal/storage\<close>, \<^verbatim>\<open>migrations\<close>).  \<open>Database\<close>: tables, constraints, triggers and
  transactions.  \<open>Repositories\<close>, \<open>Revision_Repository\<close>, \<open>Secret_Store\<close>, \<open>Config_Import\<close>: every repository
  operation.  \<open>Repository_Calls\<close>, \<open>Database_Invariant\<close>, \<open>Repository_Invariant\<close>, \<open>Pending_Changes\<close>,
  \<open>Snapshot_Restore\<close>: the invariant every call keeps (through the locale of a tracked state), which calls mark the state as pending, and what a restore
  does.  \<open>Store_Properties\<close>: the properties.  \<open>Config_Document\<close> and \<open>Document_Properties\<close>: the interchange
  document (\<^verbatim>\<open>internal/configfile\<close>) and stored secrets.  \<open>Migrations\<close> (\<^verbatim>\<open>storage.go\<close>): reading the numbered files, checking the history of
  a database and applying what is missing; interrupted runs are completed by the next one, altered histories refused.

  \<^bold>\<open>The runtime\<close> (\<^verbatim>\<open>internal/caddy/runtime.go\<close>, \<^verbatim>\<open>validator.go\<close>, \<^verbatim>\<open>certificate_*.go\<close>).  \<open>Runtime_Manager\<close>: the manager of
  the Caddy process with its exit channel, its startup loop and its configuration file.
  \<open>Certificate_Renewal\<close>: certificate status, forced renewals and their monitors.  \<open>Runtime_Steps\<close>: the
  step relation, in which the process may exit at any time, and its invariants; \<open>Runtime_Properties\<close>.

  \<^bold>\<open>The services\<close> (\<^verbatim>\<open>internal/app\<close>).  \<open>App_Errors\<close>: error codes and the mapping of errors.  \<open>Service_Calls\<close>:
  services as programs over a store some calls of which fail.  \<open>Resource_Services\<close>, \<open>Provider_Services\<close>,
  \<open>Tls_Service\<close>: users, shares, permissions, settings, DNS credentials, TLS and endpoints.
  \<open>Apply_Service\<close>: applying, starting, restarting, stopping and restoring, over the interfaces of the
  store and of the runtime.  \<open>Config_Service\<close>: export and import of the configuration document over the services;
  \<open>Import_Properties\<close> shows what one import makes of the accounts, the shares and the passwords.

  \<^bold>\<open>How they fit together.\<close>  \<open>Apply_Contract\<close> states what the apply service needs of its two providers as
  locales (\<open>store_contract\<close>, \<open>runtime_contract\<close>) and proves the service correct inside their union
  (\<open>apply_contract\<close>).  \<open>Apply_Model\<close> interprets the first on the SQLite repositories, \<open>Apply_Runtime\<close> the second on the
  runtime manager, and the third on the daemon's service.  \<open>Apply_Properties\<close> has the properties of the whole, on the
  states of \<open>Apply_Samples\<close>.

  \<^bold>\<open>The API\<close> (\<^verbatim>\<open>internal/api\<close>).  \<open>Api_Request\<close>: requests, responses, the envelope, decoding of a JSON body.  \<open>Api_Interfaces\<close>: the
  services a handler calls, as records of operations, and the JSON of what they return.  \<open>Api_Handlers\<close>, \<open>Api_System\<close>: every handler of the
  code, named as in it.  \<open>Api_Server\<close>: the routes, the check of the token, making a server; of the routes that match a path the longest
  decides.  \<open>Api_Contract\<close>: two locales for the services, \<open>api_reads\<close> (the reading operations keep a part of the state)
  and \<open>api_writes\<close> (every operation keeps an invariant), with the handlers and the whole server proved inside them.
  \<open>Diagnostics\<close> (\<^verbatim>\<open>internal/diagnostics\<close>): the checks and their report.  \<open>Api_Daemon\<close> (\<^verbatim>\<open>cmd/davd/main.go\<close>): the services as the
  daemon connects them, over the store, the runtime and the last report.  \<open>Api_Invariant\<close> interprets both locales on it: the database
  under a \<open>GET\<close> (\<open>get_daemon\<close>), the constraints of the schema with those of the runtime under any request (\<open>any_daemon\<close>).
  \<open>Api_Properties\<close>: the token, reading, the invariant over all sequences of requests.  \<open>Api_Token\<close>: the file of the
  token, which is never left half written.

  \<^bold>\<open>The client\<close> (\<^verbatim>\<open>internal/client\<close>).  \<open>Api_Client\<close>: the request of every operation.  \<open>Api_Answers\<close>: what is made of a response.
  \<open>Api_Bodies\<close>, \<open>Api_Operations\<close>: each operation, the queries of the log included, as a direct call of a service, to which its request is shown equal in
  \<open>Api_Properties\<close> for arguments the wire can carry (\<open>sendable\<close>).  \<open>Api_Client_Properties\<close>: for an answer within the client's
  limits (\<open>legible\<close>), the client returns the values the server wrote, result by result, and the error it wrote.

  \<^bold>\<open>The Caddy modules\<close> (\<^verbatim>\<open>src/caddy/caddy-webdav\<close>, \<^verbatim>\<open>src/caddy/caddy-renewal\<close>).  \<open>Webdav_Module\<close>: the discovery handler with its listings, the
  file system confined to a share, the WebDAV handler.  \<open>Webdav_Properties\<close>: no call leaves the share, the modules accept what the
  compiler emits, and an XML reader finds in a listing the shares the user may read.
  \<open>Renewal_Admin\<close>, \<open>Renewal_Properties\<close>: the registry of certificate renewals as a state machine.
  \<open>Dnspod\<close> (\<^verbatim>\<open>src/caddy/caddy-dnspod\<close>): the records of DNS challenges over the library of DNSPod, a failed call of
  which may have taken effect, and that the records that were returned, and no others, are cleaned up.

  \<^bold>\<open>The log\<close> (\<^verbatim>\<open>internal/logging\<close>).  \<open>Log_Text\<close>: regular expressions, the patterns of secrets, redaction.  \<open>Log_Store\<close>: the bounded
  store, its pages, the line writer, the structured handler.  \<open>Log_Properties\<close>: paging, redaction, lines.  What the
  redaction hides is stated by names of its own (\<open>secret_name\<close>), for the types of values the code walks (\<open>walked\<close>).

  \<^bold>\<open>Locales.\<close>  \<open>edit_invariant\<close> (\<open>Repository_Calls\<close>): a predicate the statements of the database keep, from which it is derived for every
  repository call; interpreted on the schema with the revision numbers (\<open>Repository_Invariant\<close>) and on the pending flag (\<open>Pending_Changes\<close>).  \<open>store_contract\<close>,
  \<open>runtime_contract\<close> and their union \<open>apply_contract\<close>: interpreted on the SQLite repositories and on the manager of the process.
  \<open>api_reads\<close>, \<open>api_writes\<close>: interpreted on the services of the daemon.

  \<^bold>\<open>Bounds and fuel.\<close>  The JSON parser takes twice the length of the text as fuel, one unit per value and member, and refuses more than
  10000 nested values, as Go does; \<open>Json_Roundtrip\<close> proves that this is enough for every text the program
  writes.  A start polls the health endpoint: the polls are the given list, and its end is the deadline, which the code's timer enforces.
  A repetition of a pattern runs at most as often as the text has code points, since every round
  consumes one.  Ports, sizes and revision numbers are unbounded integers where Go has 64 bits; the validation bounds the
  ports, and no database reaches the other limits; the identifier of a log record is a 64 bit word and its wrap-around is excluded by a hypothesis.
  The lifetime of a DNS record is a 64 bit duration, whose product wraps around.

  \<^bold>\<open>Parameters.\<close>  Code outside the repository is an argument: the Caddy binary and its endpoints, the SQLite driver's failures, AES-GCM,
  password hashing, random identifiers and the clock, the YAML library, the platform's file checks, the \<^verbatim>\<open>os.Root\<close> handle, what an SQL text does, the HTTP transport with the parsing of
  URLs, the answers of the operating system to the diagnostics (\<open>answers\<close>), and the library of DNSPod.

  \<^bold>\<open>Not modelled.\<close>  The command line program (\<^verbatim>\<open>cmd/davctl\<close>: flags, prompts and printing around the client) and the daemon's own
  start and shutdown (flags, files, signals).  In the API: the redirects the multiplexer sends for
  paths that are not clean, and panics.  Service installation, paths, locks and permissions of the operating system
  (\<^verbatim>\<open>internal/platform\<close>).  Creating and opening the database file, and the schema as a result of the migrations: \<open>Database\<close> starts from the migrated
  schema.  Syncing the token file to the disk, and callers that create it at the same time.  What the client decodes of a status, a diagnostic
  report and a page of the log.  The probes of Caddy's endpoints (\<^verbatim>\<open>admin.go\<close>, \<^verbatim>\<open>inspector.go\<close>, \<^verbatim>\<open>endpoint_probe.go\<close>), whose answers are
  arguments.  Reading a Caddyfile in the DNSPod module.  The copy of its lines that the line writer sends to the process's own output.  The release
  tool and the vendored code under \<^verbatim>\<open>third_party\<close>.
\<close>

end
